(* ===== verification/Py_Prelude.thy ===== *)
theory Py_Prelude
  imports Complex_Main "HOL-Library.AList"
begin

text \<open>
  What the components share: the fragment of Python the worker uses (strings and their
  \<open>strip\<close>, \<open>lower\<close>, \<open>upper\<close>; dictionaries that keep insertion order; the dynamic
  values of JSON-like payloads; datetimes) and results that are either an error
  (\<open>Inl\<close>) or a value (\<open>Inr\<close>).

  A \<open>char\<close> is read as a code point below 256. The white space, \<open>lower\<close> and \<open>upper\<close>
  tables are Python's on that range, except that \<open>upper\<close> leaves 181 and 255 alone, whose
  upper-case forms lie outside it.
\<close>

named_theorems result_simps \<open>unfolding of the result combinators\<close>

section \<open>Results\<close>

definition rbind :: "'e + 'a \<Rightarrow> ('a \<Rightarrow> 'e + 'b) \<Rightarrow> 'e + 'b" where
  "rbind r f = (case r of Inl e \<Rightarrow> Inl e | Inr x \<Rightarrow> f x)"

definition rguard :: "bool \<Rightarrow> 'e \<Rightarrow> 'e + unit" where
  "rguard ok e = (if ok then Inr () else Inl e)"

lemma rbind_simps [simp, result_simps]:
  "rbind (Inl e) f = Inl e"
  "rbind (Inr x) f = f x"
  by (simp_all add: rbind_def)

lemma rguard_simps [simp, result_simps]:
  "rguard True e = Inr ()"
  "rguard False e = Inl e"
  by (simp_all add: rguard_def)

lemma rbind_eq_Inr [result_simps]: "rbind r f = Inr y \<longleftrightarrow> (\<exists>x. r = Inr x \<and> f x = Inr y)"
  by (cases r) simp_all

lemma rbind_eq_Inl [result_simps]:
  "rbind r f = Inl e \<longleftrightarrow> r = Inl e \<or> (\<exists>x. r = Inr x \<and> f x = Inl e)"
  by (cases r) simp_all

lemma rguard_eq_Inr [simp, result_simps]: "rguard ok e = Inr u \<longleftrightarrow> ok"
  by (cases ok) simp_all

lemma rguard_eq_Inl [simp, result_simps]: "rguard ok e = Inl e' \<longleftrightarrow> \<not> ok \<and> e' = e"
  by (cases ok) auto

lemma rbind_cong [fundef_cong]:
  "r = r' \<Longrightarrow> (\<And>x. r' = Inr x \<Longrightarrow> f x = g x) \<Longrightarrow> rbind r f = rbind r' g"
  by (cases r') simp_all

section \<open>Strings\<close>

definition py_whitespace :: "char list" where
  "py_whitespace =
     [CHR '' '', CHR 0x09, CHR 0x0A, CHR 0x0B, CHR 0x0C, CHR 0x0D,
      CHR 0x1C, CHR 0x1D, CHR 0x1E, CHR 0x1F, CHR 0x85, CHR 0xA0]"

definition py_isspace :: "char \<Rightarrow> bool" where
  "py_isspace c \<longleftrightarrow> c \<in> set py_whitespace"

definition py_lstrip :: "string \<Rightarrow> string" where
  "py_lstrip s = dropWhile py_isspace s"

definition py_strip :: "string \<Rightarrow> string" where
  "py_strip s = rev (py_lstrip (rev (py_lstrip s)))"

definition lower_char :: "char \<Rightarrow> char" where
  "lower_char c =
     (let n = (of_char c :: nat)
      in if (65 \<le> n \<and> n \<le> 90) \<or> (192 \<le> n \<and> n \<le> 222 \<and> n \<noteq> 215) then char_of (n + 32) else c)"

definition upper_char :: "char \<Rightarrow> string" where
  "upper_char c =
     (let n = (of_char c :: nat)
      in if n = 223 then ''SS''
         else if (97 \<le> n \<and> n \<le> 122) \<or> (224 \<le> n \<and> n \<le> 254 \<and> n \<noteq> 247) then [char_of (n - 32)]
         else [c])"

definition py_lower :: "string \<Rightarrow> string" where
  "py_lower s = map lower_char s"

definition py_upper :: "string \<Rightarrow> string" where
  "py_upper s = concat (map upper_char s)"

lemma py_strip_Nil [simp]: "py_strip [] = []"
  by (simp add: py_strip_def py_lstrip_def)

lemma py_isspace_char:
  "py_isspace c \<longleftrightarrow> (of_char c :: nat) \<in> {9..13} \<union> {28..32} \<union> {133, 160}"
proof -
  have "py_isspace c \<longleftrightarrow> (of_char c :: nat) \<in> of_char ` set py_whitespace"
    by (auto simp: py_isspace_def)
  also have "of_char ` set py_whitespace = ({9..13} \<union> {28..32} \<union> {133, 160} :: nat set)"
    by (auto simp: py_whitespace_def)
  finally show ?thesis .
qed

lemma dropWhile_rev_ends:
  assumes "dropWhile P (rev (dropWhile P s)) \<noteq> []"
  shows "\<not> P (hd (dropWhile P (rev (dropWhile P s)))) \<and> \<not> P (last (dropWhile P (rev (dropWhile P s))))"
proof -
  let ?t = "dropWhile P s" and ?u = "dropWhile P (rev (dropWhile P s))"
  have t: "?t \<noteq> []" using assms by (metis dropWhile.simps(1) rev.simps(1))
  have "\<not> P (hd ?t)" using t by (rule hd_dropWhile)
  moreover have "last ?u = last (rev ?t)"
  proof -
    have "last (takeWhile P (rev ?t) @ ?u) = last ?u" using assms by (rule last_appendR)
    then show ?thesis by (simp only: takeWhile_dropWhile_id)
  qed
  moreover have "\<not> P (hd ?u)" using assms by (rule hd_dropWhile)
  ultimately show ?thesis using t by (simp add: last_rev)
qed

lemma py_strip_ends:
  assumes "py_strip s \<noteq> []"
  shows "\<not> py_isspace (hd (py_strip s)) \<and> \<not> py_isspace (last (py_strip s))"
  using dropWhile_rev_ends [of py_isspace s] assms
  by (auto simp: py_strip_def py_lstrip_def hd_rev last_rev)

lemma py_strip_fixed:
  assumes "s \<noteq> []" and "\<not> py_isspace (hd s)" and "\<not> py_isspace (last s)"
  shows "py_strip s = s"
proof -
  have keep: "dropWhile py_isspace t = t" if "t \<noteq> []" "\<not> py_isspace (hd t)" for t
    using that by (cases t) simp_all
  show ?thesis using assms by (simp add: py_strip_def py_lstrip_def keep hd_rev)
qed

lemma py_strip_idem [simp]: "py_strip (py_strip s) = py_strip s"
proof (cases "py_strip s = []")
  case True
  then show ?thesis by simp
next
  case False
  then show ?thesis by (intro py_strip_fixed) (auto dest: py_strip_ends)
qed

lemma py_strip_eq_Nil: "py_strip s = [] \<longleftrightarrow> (\<forall>c \<in> set s. py_isspace c)"
proof -
  have "py_strip s = [] \<longleftrightarrow> (\<forall>c \<in> set (dropWhile py_isspace s). py_isspace c)"
    by (auto simp: py_strip_def py_lstrip_def dropWhile_eq_Nil_conv)
  also have "\<dots> \<longleftrightarrow> (\<forall>c \<in> set s. py_isspace c)"
    by (induction s) auto
  finally show ?thesis .
qed

lemma of_char_lt_256: "(of_char (c::char) :: nat) < 256"
  by (rule of_char_mod_256 [THEN subst, where P = "\<lambda>n. n < 256"]) simp

lemma of_char_lower:
  "(of_char (lower_char c) :: nat) =
     (let n = of_char c in
      if (65 \<le> n \<and> n \<le> 90) \<or> (192 \<le> n \<and> n \<le> 222 \<and> n \<noteq> 215) then n + 32 else n)"
  using of_char_lt_256 [of c] by (auto simp: lower_char_def Let_def)

lemma lower_char_idem [simp]: "lower_char (lower_char c) = lower_char c"
proof -
  have "(of_char (lower_char (lower_char c)) :: nat) = of_char (lower_char c)"
    by (auto simp: of_char_lower Let_def)
  then show ?thesis by (simp only: of_char_eq_iff)
qed

text \<open>Evaluation of the case tables on the characters of identifiers.\<close>

named_theorems char_eval \<open>case tables on concrete characters\<close>

lemma upper_char_eval [char_eval]:
  "upper_char (CHR ''a'') = ''A''"
  "upper_char (CHR ''b'') = ''B''"
  "upper_char (CHR ''c'') = ''C''"
  "upper_char (CHR ''d'') = ''D''"
  "upper_char (CHR ''e'') = ''E''"
  "upper_char (CHR ''f'') = ''F''"
  "upper_char (CHR ''g'') = ''G''"
  "upper_char (CHR ''h'') = ''H''"
  "upper_char (CHR ''i'') = ''I''"
  "upper_char (CHR ''j'') = ''J''"
  "upper_char (CHR ''k'') = ''K''"
  "upper_char (CHR ''l'') = ''L''"
  "upper_char (CHR ''m'') = ''M''"
  "upper_char (CHR ''n'') = ''N''"
  "upper_char (CHR ''o'') = ''O''"
  "upper_char (CHR ''p'') = ''P''"
  "upper_char (CHR ''q'') = ''Q''"
  "upper_char (CHR ''r'') = ''R''"
  "upper_char (CHR ''s'') = ''S''"
  "upper_char (CHR ''t'') = ''T''"
  "upper_char (CHR ''u'') = ''U''"
  "upper_char (CHR ''v'') = ''V''"
  "upper_char (CHR ''w'') = ''W''"
  "upper_char (CHR ''x'') = ''X''"
  "upper_char (CHR ''y'') = ''Y''"
  "upper_char (CHR ''z'') = ''Z''"
  "upper_char (CHR ''A'') = ''A''"
  "upper_char (CHR ''B'') = ''B''"
  "upper_char (CHR ''C'') = ''C''"
  "upper_char (CHR ''D'') = ''D''"
  "upper_char (CHR ''E'') = ''E''"
  "upper_char (CHR ''F'') = ''F''"
  "upper_char (CHR ''G'') = ''G''"
  "upper_char (CHR ''H'') = ''H''"
  "upper_char (CHR ''I'') = ''I''"
  "upper_char (CHR ''J'') = ''J''"
  "upper_char (CHR ''K'') = ''K''"
  "upper_char (CHR ''L'') = ''L''"
  "upper_char (CHR ''M'') = ''M''"
  "upper_char (CHR ''N'') = ''N''"
  "upper_char (CHR ''O'') = ''O''"
  "upper_char (CHR ''P'') = ''P''"
  "upper_char (CHR ''Q'') = ''Q''"
  "upper_char (CHR ''R'') = ''R''"
  "upper_char (CHR ''S'') = ''S''"
  "upper_char (CHR ''T'') = ''T''"
  "upper_char (CHR ''U'') = ''U''"
  "upper_char (CHR ''V'') = ''V''"
  "upper_char (CHR ''W'') = ''W''"
  "upper_char (CHR ''X'') = ''X''"
  "upper_char (CHR ''Y'') = ''Y''"
  "upper_char (CHR ''Z'') = ''Z''"
  "upper_char (CHR ''0'') = ''0''"
  "upper_char (CHR ''1'') = ''1''"
  "upper_char (CHR ''2'') = ''2''"
  "upper_char (CHR ''3'') = ''3''"
  "upper_char (CHR ''4'') = ''4''"
  "upper_char (CHR ''5'') = ''5''"
  "upper_char (CHR ''6'') = ''6''"
  "upper_char (CHR ''7'') = ''7''"
  "upper_char (CHR ''8'') = ''8''"
  "upper_char (CHR ''9'') = ''9''"
  "upper_char (CHR ''_'') = ''_''"
  "upper_char (CHR ''.'') = ''.''"
  "upper_char (CHR ''-'') = ''-''"
  "upper_char (CHR '':'') = '':''"
  by (simp_all add: upper_char_def char_of_eq_iff take_bit_nat_def)

lemma lower_char_eval [char_eval]:
  "lower_char (CHR ''a'') = CHR ''a''"
  "lower_char (CHR ''b'') = CHR ''b''"
  "lower_char (CHR ''c'') = CHR ''c''"
  "lower_char (CHR ''d'') = CHR ''d''"
  "lower_char (CHR ''e'') = CHR ''e''"
  "lower_char (CHR ''f'') = CHR ''f''"
  "lower_char (CHR ''g'') = CHR ''g''"
  "lower_char (CHR ''h'') = CHR ''h''"
  "lower_char (CHR ''i'') = CHR ''i''"
  "lower_char (CHR ''j'') = CHR ''j''"
  "lower_char (CHR ''k'') = CHR ''k''"
  "lower_char (CHR ''l'') = CHR ''l''"
  "lower_char (CHR ''m'') = CHR ''m''"
  "lower_char (CHR ''n'') = CHR ''n''"
  "lower_char (CHR ''o'') = CHR ''o''"
  "lower_char (CHR ''p'') = CHR ''p''"
  "lower_char (CHR ''q'') = CHR ''q''"
  "lower_char (CHR ''r'') = CHR ''r''"
  "lower_char (CHR ''s'') = CHR ''s''"
  "lower_char (CHR ''t'') = CHR ''t''"
  "lower_char (CHR ''u'') = CHR ''u''"
  "lower_char (CHR ''v'') = CHR ''v''"
  "lower_char (CHR ''w'') = CHR ''w''"
  "lower_char (CHR ''x'') = CHR ''x''"
  "lower_char (CHR ''y'') = CHR ''y''"
  "lower_char (CHR ''z'') = CHR ''z''"
  "lower_char (CHR ''A'') = CHR ''a''"
  "lower_char (CHR ''B'') = CHR ''b''"
  "lower_char (CHR ''C'') = CHR ''c''"
  "lower_char (CHR ''D'') = CHR ''d''"
  "lower_char (CHR ''E'') = CHR ''e''"
  "lower_char (CHR ''F'') = CHR ''f''"
  "lower_char (CHR ''G'') = CHR ''g''"
  "lower_char (CHR ''H'') = CHR ''h''"
  "lower_char (CHR ''I'') = CHR ''i''"
  "lower_char (CHR ''J'') = CHR ''j''"
  "lower_char (CHR ''K'') = CHR ''k''"
  "lower_char (CHR ''L'') = CHR ''l''"
  "lower_char (CHR ''M'') = CHR ''m''"
  "lower_char (CHR ''N'') = CHR ''n''"
  "lower_char (CHR ''O'') = CHR ''o''"
  "lower_char (CHR ''P'') = CHR ''p''"
  "lower_char (CHR ''Q'') = CHR ''q''"
  "lower_char (CHR ''R'') = CHR ''r''"
  "lower_char (CHR ''S'') = CHR ''s''"
  "lower_char (CHR ''T'') = CHR ''t''"
  "lower_char (CHR ''U'') = CHR ''u''"
  "lower_char (CHR ''V'') = CHR ''v''"
  "lower_char (CHR ''W'') = CHR ''w''"
  "lower_char (CHR ''X'') = CHR ''x''"
  "lower_char (CHR ''Y'') = CHR ''y''"
  "lower_char (CHR ''Z'') = CHR ''z''"
  "lower_char (CHR ''0'') = CHR ''0''"
  "lower_char (CHR ''1'') = CHR ''1''"
  "lower_char (CHR ''2'') = CHR ''2''"
  "lower_char (CHR ''3'') = CHR ''3''"
  "lower_char (CHR ''4'') = CHR ''4''"
  "lower_char (CHR ''5'') = CHR ''5''"
  "lower_char (CHR ''6'') = CHR ''6''"
  "lower_char (CHR ''7'') = CHR ''7''"
  "lower_char (CHR ''8'') = CHR ''8''"
  "lower_char (CHR ''9'') = CHR ''9''"
  "lower_char (CHR ''_'') = CHR ''_''"
  "lower_char (CHR ''.'') = CHR ''.''"
  "lower_char (CHR ''-'') = CHR ''-''"
  "lower_char (CHR '':'') = CHR '':''"
  by (simp_all add: lower_char_def char_of_eq_iff take_bit_nat_def)

lemma py_isspace_eval [char_eval]:
  "py_isspace c \<longleftrightarrow> c \<in> set py_whitespace"
  by (rule py_isspace_def)

lemmas str_eval = char_eval py_whitespace_def py_upper_def py_lower_def py_strip_def py_lstrip_def

lemma py_lower_idem [simp]: "py_lower (py_lower s) = py_lower s"
  by (simp add: py_lower_def o_def)

section \<open>Numbers, instants and dynamic values\<close>

text \<open>
  A float is a finite rational or one of the special values; a datetime is its wall clock
  in microseconds since 1970-01-01T00:00 and its offset from UTC (\<open>None\<close>: naive).
\<close>

datatype pyfloat = Fin rat | PosInf | NegInf | NaN

text \<open>Truncation toward zero, as \<open>int(x)\<close> does on a finite float.\<close>

definition rat_trunc :: "rat \<Rightarrow> int" where
  "rat_trunc q = (if q < 0 then - floor (- q) else floor q)"

record pydatetime =
  dt_wall :: int
  dt_offset :: "int option"

definition dt_aware :: "pydatetime \<Rightarrow> bool" where
  "dt_aware t \<longleftrightarrow> dt_offset t \<noteq> None"

definition dt_instant :: "pydatetime \<Rightarrow> int" where
  "dt_instant t = (case dt_offset t of None \<Rightarrow> dt_wall t | Some z \<Rightarrow> dt_wall t - z)"

definition utc :: "int \<Rightarrow> pydatetime" where
  "utc i = \<lparr>dt_wall = i, dt_offset = Some 0\<rparr>"

text \<open>\<open>as_utc\<close> is \<open>t.replace(tzinfo=utc)\<close> on a naive datetime and
  \<open>t.astimezone(utc)\<close> on an aware one.\<close>

definition as_utc :: "pydatetime \<Rightarrow> pydatetime" where
  "as_utc t = utc (dt_instant t)"

lemma dt_instant_utc [simp]: "dt_instant (utc i) = i"
  by (simp add: dt_instant_def utc_def)

lemma as_utc_idem [simp]: "as_utc (as_utc t) = as_utc t"
  by (simp add: as_utc_def)

lemma dt_aware_utc [simp]: "dt_aware (utc i)" "dt_aware (as_utc t)"
  by (simp_all add: dt_aware_def utc_def as_utc_def)

datatype pyval =
    VNone
  | VBool bool
  | VInt int
  | VFloat pyfloat
  | VStr string
  | VTime pydatetime
  | VList "pyval list"
  | VDict "(string \<times> pyval) list"
  | VObj nat

type_synonym pydict = "(string \<times> pyval) list"

definition opt_str :: "string option \<Rightarrow> pyval" where
  "opt_str x = (case x of None \<Rightarrow> VNone | Some s \<Rightarrow> VStr s)"

definition opt_int :: "int option \<Rightarrow> pyval" where
  "opt_int x = (case x of None \<Rightarrow> VNone | Some i \<Rightarrow> VInt i)"

section \<open>Dictionaries in insertion order\<close>

definition dict_get :: "(string \<times> 'v) list \<Rightarrow> string \<Rightarrow> 'v option" where
  "dict_get d k = map_of d k"

definition dict_set :: "string \<Rightarrow> 'v \<Rightarrow> (string \<times> 'v) list \<Rightarrow> (string \<times> 'v) list" where
  "dict_set k v d = AList.update k v d"

definition dict_has :: "(string \<times> 'v) list \<Rightarrow> string \<Rightarrow> bool" where
  "dict_has d k \<longleftrightarrow> dict_get d k \<noteq> None"

definition dict_setdefault :: "string \<Rightarrow> 'v \<Rightarrow> (string \<times> 'v) list \<Rightarrow> (string \<times> 'v) list" where
  "dict_setdefault k v d = (if dict_has d k then d else dict_set k v d)"

definition dict_update :: "(string \<times> 'v) list \<Rightarrow> (string \<times> 'v) list \<Rightarrow> (string \<times> 'v) list" where
  "dict_update extra d = fold (\<lambda>(k, v). dict_set k v) extra d"

lemma dict_get_set [simp]:
  "dict_get (dict_set k v d) k' = (if k' = k then Some v else dict_get d k')"
  by (simp add: dict_get_def dict_set_def update_conv)

lemma dict_has_set [simp]: "dict_has (dict_set k v d) k' \<longleftrightarrow> k' = k \<or> dict_has d k'"
  by (simp add: dict_has_def)

lemma dict_get_Nil [simp]: "dict_get [] k = None"
  by (simp add: dict_get_def)

lemma dict_get_Cons [simp]:
  "dict_get ((k, v) # d) k' = (if k' = k then Some v else dict_get d k')"
  by (simp add: dict_get_def)

lemma dict_get_setdefault [simp]:
  "dict_get (dict_setdefault k v d) k' =
     (if k' = k \<and> dict_get d k = None then Some v else dict_get d k')"
  by (simp add: dict_setdefault_def dict_has_def)

lemma dict_has_keys: "dict_has d k \<longleftrightarrow> k \<in> fst ` set d"
  by (simp add: dict_has_def dict_get_def map_of_eq_None_iff)

lemma dict_set_keys: "fst ` set (dict_set k v d) = insert k (fst ` set d)"
  by (simp add: dict_set_def dom_update)

end
