(* ===== verification/Enums.thy ===== *)
theory Enums
  imports Py_Prelude
begin

text \<open>
  The canonical enumerations of \<open>runtime/domain/enums.py\<close> and the tables keyed by them.
  A \<open>StrEnum\<close> is a datatype with its \<open>value\<close> function and the list of its members;
  \<open>enum_parse\<close> is the call \<open>EnumClass(text)\<close>, \<open>None\<close> where Python raises
  \<open>ValueError\<close>. The locale \<open>str_enum\<close> states what such a class promises and is
  interpreted on every enumeration that the worker parses.
\<close>

section \<open>What a StrEnum promises\<close>

definition enum_parse :: "'e list \<Rightarrow> ('e \<Rightarrow> string) \<Rightarrow> string \<Rightarrow> 'e option" where
  "enum_parse members val s = find (\<lambda>m. val m = s) members"

locale str_enum =
  fixes members :: "'e list"
    and val :: "'e \<Rightarrow> string"
  assumes members_all: "m \<in> set members"
    and values_distinct: "distinct (map val members)"
begin

lemma val_inj: "val a = val b \<longleftrightarrow> a = b"
  using values_distinct members_all by (auto simp: distinct_map inj_on_def)

lemma parse_value: "enum_parse members val (val m) = Some m"
proof (cases "enum_parse members val (val m)")
  case None
  then have "val x \<noteq> val m" if "x \<in> set members" for x
    using that by (auto simp: enum_parse_def find_None_iff)
  then show ?thesis using members_all by blast
next
  case (Some m')
  then have "val m' = val m" by (auto simp: enum_parse_def find_Some_iff)
  with Some show ?thesis by (simp add: val_inj)
qed

lemma parse_Some: "enum_parse members val s = Some m \<longleftrightarrow> s = val m"
proof
  assume "enum_parse members val s = Some m"
  then show "s = val m" by (auto simp: enum_parse_def find_Some_iff)
next
  assume "s = val m"
  then show "enum_parse members val s = Some m" by (simp add: parse_value)
qed

lemma parse_None: "enum_parse members val s = None \<longleftrightarrow> s \<notin> range val"
  using members_all by (auto simp: enum_parse_def find_None_iff)

lemma values_range: "val ` set members = range val"
  using members_all by auto

end

section \<open>The enumerations\<close>

datatype runtime_mode =
    PAPER
  | LIVE
  | BACKTEST

fun runtime_mode_value :: "runtime_mode \<Rightarrow> string" where
    "runtime_mode_value PAPER = ''PAPER''"
  | "runtime_mode_value LIVE = ''LIVE''"
  | "runtime_mode_value BACKTEST = ''BACKTEST''"

definition all_runtime_mode :: "runtime_mode list" where
  "all_runtime_mode =
     [PAPER, LIVE, BACKTEST]"

datatype worker_phase =
    WP_INITIALIZING
  | WP_READY
  | WP_RUNNING
  | WP_DEGRADED
  | WP_STOPPING
  | WP_STOPPED
  | WP_FAILED
  | WP_COMPLETED

fun worker_phase_value :: "worker_phase \<Rightarrow> string" where
    "worker_phase_value WP_INITIALIZING = ''INITIALIZING''"
  | "worker_phase_value WP_READY = ''READY''"
  | "worker_phase_value WP_RUNNING = ''RUNNING''"
  | "worker_phase_value WP_DEGRADED = ''DEGRADED''"
  | "worker_phase_value WP_STOPPING = ''STOPPING''"
  | "worker_phase_value WP_STOPPED = ''STOPPED''"
  | "worker_phase_value WP_FAILED = ''FAILED''"
  | "worker_phase_value WP_COMPLETED = ''COMPLETED''"

definition all_worker_phase :: "worker_phase list" where
  "all_worker_phase =
     [WP_INITIALIZING, WP_READY, WP_RUNNING,
      WP_DEGRADED, WP_STOPPING, WP_STOPPED,
      WP_FAILED, WP_COMPLETED]"

datatype order_intent_side =
    BUY
  | SELL

fun order_intent_side_value :: "order_intent_side \<Rightarrow> string" where
    "order_intent_side_value BUY = ''BUY''"
  | "order_intent_side_value SELL = ''SELL''"

definition all_order_intent_side :: "order_intent_side list" where
  "all_order_intent_side =
     [BUY, SELL]"

datatype order_intent_type =
    OT_MARKET
  | OT_LIMIT
  | OT_STOP
  | OT_STOP_LIMIT

fun order_intent_type_value :: "order_intent_type \<Rightarrow> string" where
    "order_intent_type_value OT_MARKET = ''MARKET''"
  | "order_intent_type_value OT_LIMIT = ''LIMIT''"
  | "order_intent_type_value OT_STOP = ''STOP''"
  | "order_intent_type_value OT_STOP_LIMIT = ''STOP_LIMIT''"

definition all_order_intent_type :: "order_intent_type list" where
  "all_order_intent_type =
     [OT_MARKET, OT_LIMIT, OT_STOP,
      OT_STOP_LIMIT]"

datatype internal_privilege =
    RUNTIME_SUBSTRATE
  | RUNTIME_CONTROL

fun internal_privilege_value :: "internal_privilege \<Rightarrow> string" where
    "internal_privilege_value RUNTIME_SUBSTRATE = ''internal:runtimes:substrate''"
  | "internal_privilege_value RUNTIME_CONTROL = ''internal:runtimes:control''"

definition all_internal_privilege :: "internal_privilege list" where
  "all_internal_privilege =
     [RUNTIME_SUBSTRATE, RUNTIME_CONTROL]"

datatype worker_route_id =
    RT_CREATE
  | RT_STOP
  | RT_PAUSE
  | RT_RESUME
  | RT_HEALTH_LIVE
  | RT_HEALTH_READY

fun worker_route_id_value :: "worker_route_id \<Rightarrow> string" where
    "worker_route_id_value RT_CREATE = ''ROUTE-WORKER-CREATE''"
  | "worker_route_id_value RT_STOP = ''ROUTE-WORKER-STOP''"
  | "worker_route_id_value RT_PAUSE = ''ROUTE-WORKER-PAUSE''"
  | "worker_route_id_value RT_RESUME = ''ROUTE-WORKER-RESUME''"
  | "worker_route_id_value RT_HEALTH_LIVE = ''ROUTE-WORKER-HEALTH-LIVE''"
  | "worker_route_id_value RT_HEALTH_READY = ''ROUTE-WORKER-HEALTH-READY''"

definition all_worker_route_id :: "worker_route_id list" where
  "all_worker_route_id =
     [RT_CREATE, RT_STOP, RT_PAUSE,
      RT_RESUME, RT_HEALTH_LIVE, RT_HEALTH_READY]"

datatype manager_signal_id =
    SIG_HEARTBEAT
  | SIG_LAUNCH_SUCCEEDED
  | SIG_LAUNCH_FAILED
  | SIG_TERMINATED
  | SIG_PAUSE_REQUESTED_INTERNAL

fun manager_signal_id_value :: "manager_signal_id \<Rightarrow> string" where
    "manager_signal_id_value SIG_HEARTBEAT = ''ROUTE-RUNTIME-HEARTBEAT''"
  | "manager_signal_id_value SIG_LAUNCH_SUCCEEDED = ''ROUTE-RUNTIME-LAUNCH-SUCCEEDED''"
  | "manager_signal_id_value SIG_LAUNCH_FAILED = ''ROUTE-RUNTIME-LAUNCH-FAILED''"
  | "manager_signal_id_value SIG_TERMINATED = ''ROUTE-RUNTIME-TERMINATED''"
  | "manager_signal_id_value SIG_PAUSE_REQUESTED_INTERNAL = ''ROUTE-RUNTIME-PAUSE-REQUESTED-INTERNAL''"

definition all_manager_signal_id :: "manager_signal_id list" where
  "all_manager_signal_id =
     [SIG_HEARTBEAT, SIG_LAUNCH_SUCCEEDED, SIG_LAUNCH_FAILED,
      SIG_TERMINATED, SIG_PAUSE_REQUESTED_INTERNAL]"

datatype worker_event_id =
    EV_LAUNCH_SUCCEEDED
  | EV_LAUNCH_FAILED
  | EV_HEARTBEAT

fun worker_event_id_value :: "worker_event_id \<Rightarrow> string" where
    "worker_event_id_value EV_LAUNCH_SUCCEEDED = ''EVT-WORKER-LAUNCH-SUCCEEDED''"
  | "worker_event_id_value EV_LAUNCH_FAILED = ''EVT-WORKER-LAUNCH-FAILED''"
  | "worker_event_id_value EV_HEARTBEAT = ''EVT-WORKER-HEARTBEAT''"

definition all_worker_event_id :: "worker_event_id list" where
  "all_worker_event_id =
     [EV_LAUNCH_SUCCEEDED, EV_LAUNCH_FAILED, EV_HEARTBEAT]"

datatype worker_event_name =
    EN_LAUNCH_SUCCEEDED
  | EN_LAUNCH_FAILED
  | EN_HEARTBEAT

fun worker_event_name_value :: "worker_event_name \<Rightarrow> string" where
    "worker_event_name_value EN_LAUNCH_SUCCEEDED = ''runtime.launch_succeeded''"
  | "worker_event_name_value EN_LAUNCH_FAILED = ''runtime.launch_failed''"
  | "worker_event_name_value EN_HEARTBEAT = ''runtime.heartbeat''"

definition all_worker_event_name :: "worker_event_name list" where
  "all_worker_event_name =
     [EN_LAUNCH_SUCCEEDED, EN_LAUNCH_FAILED, EN_HEARTBEAT]"

datatype lifecycle_event_id =
    LE_STARTED
  | LE_DEGRADED
  | LE_FAILED

fun lifecycle_event_id_value :: "lifecycle_event_id \<Rightarrow> string" where
    "lifecycle_event_id_value LE_STARTED = ''EVT-RUNTIME-STARTED''"
  | "lifecycle_event_id_value LE_DEGRADED = ''EVT-RUNTIME-DEGRADED''"
  | "lifecycle_event_id_value LE_FAILED = ''EVT-RUNTIME-FAILED''"

definition all_lifecycle_event_id :: "lifecycle_event_id list" where
  "all_lifecycle_event_id =
     [LE_STARTED, LE_DEGRADED, LE_FAILED]"

datatype lifecycle_event_name =
    LN_STARTED
  | LN_DEGRADED
  | LN_FAILED

fun lifecycle_event_name_value :: "lifecycle_event_name \<Rightarrow> string" where
    "lifecycle_event_name_value LN_STARTED = ''runtime.started''"
  | "lifecycle_event_name_value LN_DEGRADED = ''runtime.degraded''"
  | "lifecycle_event_name_value LN_FAILED = ''runtime.failed''"

definition all_lifecycle_event_name :: "lifecycle_event_name list" where
  "all_lifecycle_event_name =
     [LN_STARTED, LN_DEGRADED, LN_FAILED]"

datatype service_target =
    STRATEGY_RUNTIME_MANAGER
  | STRATEGY_REGISTRY_SERVICE
  | MARKET_DATA_SERVICE
  | HISTORICAL_DATA_SERVICE
  | ORDER_MANAGEMENT_SERVICE
  | BACKTEST_SERVICE
  | RISK_SERVICE

fun service_target_value :: "service_target \<Rightarrow> string" where
    "service_target_value STRATEGY_RUNTIME_MANAGER = ''strategy-runtime-manager''"
  | "service_target_value STRATEGY_REGISTRY_SERVICE = ''strategy-registry-service''"
  | "service_target_value MARKET_DATA_SERVICE = ''market-data-service''"
  | "service_target_value HISTORICAL_DATA_SERVICE = ''historical-data-service''"
  | "service_target_value ORDER_MANAGEMENT_SERVICE = ''order-management-service''"
  | "service_target_value BACKTEST_SERVICE = ''backtest-service''"
  | "service_target_value RISK_SERVICE = ''risk-service''"

definition all_service_target :: "service_target list" where
  "all_service_target =
     [STRATEGY_RUNTIME_MANAGER, STRATEGY_REGISTRY_SERVICE, MARKET_DATA_SERVICE,
      HISTORICAL_DATA_SERVICE, ORDER_MANAGEMENT_SERVICE, BACKTEST_SERVICE,
      RISK_SERVICE]"

datatype dependency_access_pattern =
    DA_CONTROL_PLANE
  | DA_INTERNAL_REPORTING
  | DA_MARKET_CURRENT_STATE
  | DA_HISTORICAL_BOUNDED_WINDOW
  | DA_PAPER_LIVE_ORDER_INTENT
  | DA_RISK_ORDER_INTENT_EGRESS
  | DA_BACKTEST_REPLAY_CONTEXT
  | DA_BACKTEST_LOOKBACK
  | DA_BACKTEST_ORDER_INTENT

fun dependency_access_pattern_value :: "dependency_access_pattern \<Rightarrow> string" where
    "dependency_access_pattern_value DA_CONTROL_PLANE = ''CONTROL_PLANE''"
  | "dependency_access_pattern_value DA_INTERNAL_REPORTING = ''INTERNAL_REPORTING''"
  | "dependency_access_pattern_value DA_MARKET_CURRENT_STATE = ''MARKET_CURRENT_STATE''"
  | "dependency_access_pattern_value DA_HISTORICAL_BOUNDED_WINDOW = ''HISTORICAL_BOUNDED_WINDOW''"
  | "dependency_access_pattern_value DA_PAPER_LIVE_ORDER_INTENT = ''PAPER_LIVE_ORDER_INTENT''"
  | "dependency_access_pattern_value DA_RISK_ORDER_INTENT_EGRESS = ''RISK_ORDER_INTENT_EGRESS''"
  | "dependency_access_pattern_value DA_BACKTEST_REPLAY_CONTEXT = ''BACKTEST_REPLAY_CONTEXT''"
  | "dependency_access_pattern_value DA_BACKTEST_LOOKBACK = ''BACKTEST_LOOKBACK''"
  | "dependency_access_pattern_value DA_BACKTEST_ORDER_INTENT = ''BACKTEST_ORDER_INTENT''"

definition all_dependency_access_pattern :: "dependency_access_pattern list" where
  "all_dependency_access_pattern =
     [DA_CONTROL_PLANE, DA_INTERNAL_REPORTING, DA_MARKET_CURRENT_STATE,
      DA_HISTORICAL_BOUNDED_WINDOW, DA_PAPER_LIVE_ORDER_INTENT, DA_RISK_ORDER_INTENT_EGRESS,
      DA_BACKTEST_REPLAY_CONTEXT, DA_BACKTEST_LOOKBACK, DA_BACKTEST_ORDER_INTENT]"

section \<open>Tables keyed by the enumerations\<close>

fun WORKER_ROUTE_REQUIRED_PRIVILEGE :: "worker_route_id \<Rightarrow> internal_privilege option" where
    "WORKER_ROUTE_REQUIRED_PRIVILEGE RT_CREATE = Some RUNTIME_SUBSTRATE"
  | "WORKER_ROUTE_REQUIRED_PRIVILEGE RT_STOP = Some RUNTIME_CONTROL"
  | "WORKER_ROUTE_REQUIRED_PRIVILEGE RT_PAUSE = Some RUNTIME_CONTROL"
  | "WORKER_ROUTE_REQUIRED_PRIVILEGE RT_RESUME = Some RUNTIME_CONTROL"
  | "WORKER_ROUTE_REQUIRED_PRIVILEGE RT_HEALTH_LIVE = None"
  | "WORKER_ROUTE_REQUIRED_PRIVILEGE RT_HEALTH_READY = None"

fun RUNTIME_MANAGER_SIGNAL_REQUIRED_PRIVILEGE :: "manager_signal_id \<Rightarrow> internal_privilege" where
    "RUNTIME_MANAGER_SIGNAL_REQUIRED_PRIVILEGE SIG_HEARTBEAT = RUNTIME_SUBSTRATE"
  | "RUNTIME_MANAGER_SIGNAL_REQUIRED_PRIVILEGE SIG_LAUNCH_SUCCEEDED = RUNTIME_SUBSTRATE"
  | "RUNTIME_MANAGER_SIGNAL_REQUIRED_PRIVILEGE SIG_LAUNCH_FAILED = RUNTIME_SUBSTRATE"
  | "RUNTIME_MANAGER_SIGNAL_REQUIRED_PRIVILEGE SIG_TERMINATED = RUNTIME_SUBSTRATE"
  | "RUNTIME_MANAGER_SIGNAL_REQUIRED_PRIVILEGE SIG_PAUSE_REQUESTED_INTERNAL = RUNTIME_CONTROL"

fun WORKER_EVENT_ID_TO_NAME :: "worker_event_id \<Rightarrow> worker_event_name" where
    "WORKER_EVENT_ID_TO_NAME EV_LAUNCH_SUCCEEDED = EN_LAUNCH_SUCCEEDED"
  | "WORKER_EVENT_ID_TO_NAME EV_LAUNCH_FAILED = EN_LAUNCH_FAILED"
  | "WORKER_EVENT_ID_TO_NAME EV_HEARTBEAT = EN_HEARTBEAT"

fun RUNTIME_LIFECYCLE_EVENT_ID_TO_NAME :: "lifecycle_event_id \<Rightarrow> lifecycle_event_name" where
    "RUNTIME_LIFECYCLE_EVENT_ID_TO_NAME LE_STARTED = LN_STARTED"
  | "RUNTIME_LIFECYCLE_EVENT_ID_TO_NAME LE_DEGRADED = LN_DEGRADED"
  | "RUNTIME_LIFECYCLE_EVENT_ID_TO_NAME LE_FAILED = LN_FAILED"

fun MODE_ALLOWED_SERVICE_TARGETS :: "runtime_mode \<Rightarrow> service_target set" where
    "MODE_ALLOWED_SERVICE_TARGETS PAPER =
       {STRATEGY_RUNTIME_MANAGER, MARKET_DATA_SERVICE, HISTORICAL_DATA_SERVICE,
        ORDER_MANAGEMENT_SERVICE, RISK_SERVICE}"
  | "MODE_ALLOWED_SERVICE_TARGETS LIVE =
       {STRATEGY_RUNTIME_MANAGER, MARKET_DATA_SERVICE, HISTORICAL_DATA_SERVICE,
        ORDER_MANAGEMENT_SERVICE, RISK_SERVICE}"
  | "MODE_ALLOWED_SERVICE_TARGETS BACKTEST =
       {STRATEGY_RUNTIME_MANAGER, BACKTEST_SERVICE, RISK_SERVICE}"

section \<open>Canonical value sets\<close>

definition CANONICAL_WORKER_MODES :: "string list" where
  "CANONICAL_WORKER_MODES = map runtime_mode_value all_runtime_mode"

definition CANONICAL_INTERNAL_PRIVILEGES :: "string list" where
  "CANONICAL_INTERNAL_PRIVILEGES = map internal_privilege_value all_internal_privilege"

definition CANONICAL_ROUTE_IDS :: "string list" where
  "CANONICAL_ROUTE_IDS =
     map worker_route_id_value all_worker_route_id @
     map manager_signal_id_value all_manager_signal_id"

definition CANONICAL_EVENT_IDS :: "string list" where
  "CANONICAL_EVENT_IDS =
     map worker_event_id_value all_worker_event_id @
     map lifecycle_event_id_value all_lifecycle_event_id"

definition CANONICAL_EVENT_NAMES :: "string list" where
  "CANONICAL_EVENT_NAMES =
     map worker_event_name_value all_worker_event_name @
     map lifecycle_event_name_value all_lifecycle_event_name"

definition ALL_CANONICAL_IDENTIFIER_VALUES :: "string list" where
  "ALL_CANONICAL_IDENTIFIER_VALUES =
     CANONICAL_WORKER_MODES @ CANONICAL_INTERNAL_PRIVILEGES @ CANONICAL_ROUTE_IDS @
     CANONICAL_EVENT_IDS @ CANONICAL_EVENT_NAMES"

section \<open>The enumerations keep the promise\<close>

lemma in_all_runtime_mode: "m \<in> set all_runtime_mode"
  by (cases m) (simp_all add: all_runtime_mode_def)

lemma in_all_order_intent_side: "m \<in> set all_order_intent_side"
  by (cases m) (simp_all add: all_order_intent_side_def)

lemma in_all_order_intent_type: "m \<in> set all_order_intent_type"
  by (cases m) (simp_all add: all_order_intent_type_def)

lemma in_all_worker_phase: "m \<in> set all_worker_phase"
  by (cases m) (simp_all add: all_worker_phase_def)

interpretation mode_enum: str_enum all_runtime_mode runtime_mode_value
  by unfold_locales (rule in_all_runtime_mode, simp add: all_runtime_mode_def)

interpretation side_enum: str_enum all_order_intent_side order_intent_side_value
  by unfold_locales (rule in_all_order_intent_side, simp add: all_order_intent_side_def)

interpretation order_type_enum: str_enum all_order_intent_type order_intent_type_value
  by unfold_locales (rule in_all_order_intent_type, simp add: all_order_intent_type_def)

interpretation phase_enum: str_enum all_worker_phase worker_phase_value
  by unfold_locales (rule in_all_worker_phase, simp add: all_worker_phase_def)

end
