(* ===== verification/Errors.thy ===== *)
theory Errors
  imports Enums
begin

text \<open>
  \<open>runtime/domain/errors.py\<close> and \<open>runtime/bootstrap/failures.py\<close>: the error and reason
  code vocabularies, the exception classes as values of \<open>py_exc\<close>, the error envelope, and
  the normalisation of runtime reason codes. An exception value carries what the worker reads
  from a caught exception: the class it belongs to, its type name, message, \<open>reason_code\<close>
  and \<open>details\<close>.
\<close>

section \<open>Vocabularies\<close>

datatype worker_domain_error_code =
    DE_INVALID_WORKER_TRANSITION
  | DE_MALFORMED_WORKER_IDENTITY
  | DE_SINGLE_ASSIGNMENT_VIOLATION
  | DE_INVALID_LAUNCH_CONTEXT
  | DE_UNSUPPORTED_MODE
  | DE_ORDER_INTENT_VALIDATION

fun worker_domain_error_code_value :: "worker_domain_error_code \<Rightarrow> string" where
    "worker_domain_error_code_value DE_INVALID_WORKER_TRANSITION = ''WORKER_DOMAIN_INVALID_WORKER_TRANSITION''"
  | "worker_domain_error_code_value DE_MALFORMED_WORKER_IDENTITY = ''WORKER_DOMAIN_MALFORMED_WORKER_IDENTITY''"
  | "worker_domain_error_code_value DE_SINGLE_ASSIGNMENT_VIOLATION = ''WORKER_DOMAIN_SINGLE_ASSIGNMENT_VIOLATION''"
  | "worker_domain_error_code_value DE_INVALID_LAUNCH_CONTEXT = ''WORKER_DOMAIN_INVALID_LAUNCH_CONTEXT''"
  | "worker_domain_error_code_value DE_UNSUPPORTED_MODE = ''WORKER_DOMAIN_UNSUPPORTED_MODE''"
  | "worker_domain_error_code_value DE_ORDER_INTENT_VALIDATION = ''WORKER_DOMAIN_ORDER_INTENT_VALIDATION''"

definition all_worker_domain_error_code :: "worker_domain_error_code list" where
  "all_worker_domain_error_code =
     [DE_INVALID_WORKER_TRANSITION, DE_MALFORMED_WORKER_IDENTITY, DE_SINGLE_ASSIGNMENT_VIOLATION,
      DE_INVALID_LAUNCH_CONTEXT, DE_UNSUPPORTED_MODE, DE_ORDER_INTENT_VALIDATION]"

datatype worker_error_code =
    WE_INVALID_REQUEST
  | WE_ARTIFACT_NOT_FOUND
  | WE_ARTIFACT_DIGEST_MISMATCH
  | WE_ENTRYPOINT_NOT_FOUND
  | WE_SDK_CONTRACT_INVALID
  | WE_MODE_NOT_SUPPORTED
  | WE_BOOTSTRAP_FAILED
  | WE_NOT_FOUND
  | WE_ALREADY_STOPPED
  | WE_STOP_TIMEOUT
  | WE_DEPENDENCY_UNHEALTHY
  | WE_RUNTIME_COMPLETED
  | WE_RUNTIME_FAILED
  | WE_INTERNAL_CALLER_NOT_ALLOWED
  | WE_POLICY_VIOLATION
  | WE_INTERNAL_ERROR

fun worker_error_code_value :: "worker_error_code \<Rightarrow> string" where
    "worker_error_code_value WE_INVALID_REQUEST = ''WORKER_INVALID_REQUEST''"
  | "worker_error_code_value WE_ARTIFACT_NOT_FOUND = ''WORKER_ARTIFACT_NOT_FOUND''"
  | "worker_error_code_value WE_ARTIFACT_DIGEST_MISMATCH = ''WORKER_ARTIFACT_DIGEST_MISMATCH''"
  | "worker_error_code_value WE_ENTRYPOINT_NOT_FOUND = ''WORKER_ENTRYPOINT_NOT_FOUND''"
  | "worker_error_code_value WE_SDK_CONTRACT_INVALID = ''WORKER_SDK_CONTRACT_INVALID''"
  | "worker_error_code_value WE_MODE_NOT_SUPPORTED = ''WORKER_MODE_NOT_SUPPORTED''"
  | "worker_error_code_value WE_BOOTSTRAP_FAILED = ''WORKER_BOOTSTRAP_FAILED''"
  | "worker_error_code_value WE_NOT_FOUND = ''WORKER_NOT_FOUND''"
  | "worker_error_code_value WE_ALREADY_STOPPED = ''WORKER_ALREADY_STOPPED''"
  | "worker_error_code_value WE_STOP_TIMEOUT = ''WORKER_STOP_TIMEOUT''"
  | "worker_error_code_value WE_DEPENDENCY_UNHEALTHY = ''WORKER_DEPENDENCY_UNHEALTHY''"
  | "worker_error_code_value WE_RUNTIME_COMPLETED = ''WORKER_RUNTIME_COMPLETED''"
  | "worker_error_code_value WE_RUNTIME_FAILED = ''WORKER_RUNTIME_FAILED''"
  | "worker_error_code_value WE_INTERNAL_CALLER_NOT_ALLOWED = ''WORKER_INTERNAL_CALLER_NOT_ALLOWED''"
  | "worker_error_code_value WE_POLICY_VIOLATION = ''WORKER_POLICY_VIOLATION''"
  | "worker_error_code_value WE_INTERNAL_ERROR = ''WORKER_INTERNAL_ERROR''"

definition all_worker_error_code :: "worker_error_code list" where
  "all_worker_error_code =
     [WE_INVALID_REQUEST, WE_ARTIFACT_NOT_FOUND, WE_ARTIFACT_DIGEST_MISMATCH,
      WE_ENTRYPOINT_NOT_FOUND, WE_SDK_CONTRACT_INVALID, WE_MODE_NOT_SUPPORTED,
      WE_BOOTSTRAP_FAILED, WE_NOT_FOUND, WE_ALREADY_STOPPED,
      WE_STOP_TIMEOUT, WE_DEPENDENCY_UNHEALTHY, WE_RUNTIME_COMPLETED,
      WE_RUNTIME_FAILED, WE_INTERNAL_CALLER_NOT_ALLOWED, WE_POLICY_VIOLATION,
      WE_INTERNAL_ERROR]"

datatype shared_boundary_error_code =
    SE_STRATEGY_VERSION_NOT_RUNNABLE
  | SE_RUNTIME_START_VALIDATION_FAILED
  | SE_RUNTIME_VERSION_NOT_APPROVED
  | SE_RUNTIME_WORKER_START_FAILED
  | SE_RUNTIME_HEARTBEAT_MISSED

fun shared_boundary_error_code_value :: "shared_boundary_error_code \<Rightarrow> string" where
    "shared_boundary_error_code_value SE_STRATEGY_VERSION_NOT_RUNNABLE = ''STRATEGY_VERSION_NOT_RUNNABLE''"
  | "shared_boundary_error_code_value SE_RUNTIME_START_VALIDATION_FAILED = ''RUNTIME_START_VALIDATION_FAILED''"
  | "shared_boundary_error_code_value SE_RUNTIME_VERSION_NOT_APPROVED = ''RUNTIME_VERSION_NOT_APPROVED''"
  | "shared_boundary_error_code_value SE_RUNTIME_WORKER_START_FAILED = ''RUNTIME_WORKER_START_FAILED''"
  | "shared_boundary_error_code_value SE_RUNTIME_HEARTBEAT_MISSED = ''RUNTIME_HEARTBEAT_MISSED''"

definition all_shared_boundary_error_code :: "shared_boundary_error_code list" where
  "all_shared_boundary_error_code =
     [SE_STRATEGY_VERSION_NOT_RUNNABLE, SE_RUNTIME_START_VALIDATION_FAILED, SE_RUNTIME_VERSION_NOT_APPROVED,
      SE_RUNTIME_WORKER_START_FAILED, SE_RUNTIME_HEARTBEAT_MISSED]"

datatype runtime_worker_reason_code =
    RC_STOP_REQUESTED
  | RC_HEARTBEAT_TIMEOUT_ENFORCED
  | RC_POLICY_VIOLATION
  | RC_ARTIFACT_REFERENCE_INVALID
  | RC_ARTIFACT_DIGEST_MISMATCH
  | RC_ENTRYPOINT_IMPORT_FAILED
  | RC_SDK_COMPATIBILITY_FAILED
  | RC_BOOTSTRAP_METADATA_MISSING
  | RC_BOOTSTRAP_METADATA_INCONSISTENT
  | RC_MODE_DEPENDENCY_NOT_ALLOWED
  | RC_BACKTEST_REPLAY_DIRECT_ACCESS_BLOCKED
  | RC_OMS_BYPASS_BLOCKED
  | RC_BOUND_DEPENDENCY_UNAVAILABLE
  | RC_INITIALIZATION_TIMEOUT
  | RC_CONTROLLED_SHUTDOWN_INITIATED
  | RC_UNHEALTHY_EXECUTION_DETECTED
  | RC_HEARTBEAT_EMISSION_FAILED
  | RC_LOCAL_TERMINATION_OBSERVED
  | RC_KUBERNETES_TERMINATION
  | RC_STRATEGY_STARTUP_FAILED

fun runtime_worker_reason_code_value :: "runtime_worker_reason_code \<Rightarrow> string" where
    "runtime_worker_reason_code_value RC_STOP_REQUESTED = ''STOP_REQUESTED''"
  | "runtime_worker_reason_code_value RC_HEARTBEAT_TIMEOUT_ENFORCED = ''HEARTBEAT_TIMEOUT_ENFORCED''"
  | "runtime_worker_reason_code_value RC_POLICY_VIOLATION = ''POLICY_VIOLATION''"
  | "runtime_worker_reason_code_value RC_ARTIFACT_REFERENCE_INVALID = ''ARTIFACT_REFERENCE_INVALID''"
  | "runtime_worker_reason_code_value RC_ARTIFACT_DIGEST_MISMATCH = ''ARTIFACT_DIGEST_MISMATCH''"
  | "runtime_worker_reason_code_value RC_ENTRYPOINT_IMPORT_FAILED = ''ENTRYPOINT_IMPORT_FAILED''"
  | "runtime_worker_reason_code_value RC_SDK_COMPATIBILITY_FAILED = ''SDK_COMPATIBILITY_FAILED''"
  | "runtime_worker_reason_code_value RC_BOOTSTRAP_METADATA_MISSING = ''BOOTSTRAP_METADATA_MISSING''"
  | "runtime_worker_reason_code_value RC_BOOTSTRAP_METADATA_INCONSISTENT = ''BOOTSTRAP_METADATA_INCONSISTENT''"
  | "runtime_worker_reason_code_value RC_MODE_DEPENDENCY_NOT_ALLOWED = ''MODE_DEPENDENCY_NOT_ALLOWED''"
  | "runtime_worker_reason_code_value RC_BACKTEST_REPLAY_DIRECT_ACCESS_BLOCKED = ''BACKTEST_REPLAY_DIRECT_ACCESS_BLOCKED''"
  | "runtime_worker_reason_code_value RC_OMS_BYPASS_BLOCKED = ''OMS_BYPASS_BLOCKED''"
  | "runtime_worker_reason_code_value RC_BOUND_DEPENDENCY_UNAVAILABLE = ''BOUND_DEPENDENCY_UNAVAILABLE''"
  | "runtime_worker_reason_code_value RC_INITIALIZATION_TIMEOUT = ''INITIALIZATION_TIMEOUT''"
  | "runtime_worker_reason_code_value RC_CONTROLLED_SHUTDOWN_INITIATED = ''CONTROLLED_SHUTDOWN_INITIATED''"
  | "runtime_worker_reason_code_value RC_UNHEALTHY_EXECUTION_DETECTED = ''UNHEALTHY_EXECUTION_DETECTED''"
  | "runtime_worker_reason_code_value RC_HEARTBEAT_EMISSION_FAILED = ''HEARTBEAT_EMISSION_FAILED''"
  | "runtime_worker_reason_code_value RC_LOCAL_TERMINATION_OBSERVED = ''LOCAL_TERMINATION_OBSERVED''"
  | "runtime_worker_reason_code_value RC_KUBERNETES_TERMINATION = ''KUBERNETES_TERMINATION''"
  | "runtime_worker_reason_code_value RC_STRATEGY_STARTUP_FAILED = ''STRATEGY_STARTUP_FAILED''"

definition all_runtime_worker_reason_code :: "runtime_worker_reason_code list" where
  "all_runtime_worker_reason_code =
     [RC_STOP_REQUESTED, RC_HEARTBEAT_TIMEOUT_ENFORCED, RC_POLICY_VIOLATION,
      RC_ARTIFACT_REFERENCE_INVALID, RC_ARTIFACT_DIGEST_MISMATCH, RC_ENTRYPOINT_IMPORT_FAILED,
      RC_SDK_COMPATIBILITY_FAILED, RC_BOOTSTRAP_METADATA_MISSING, RC_BOOTSTRAP_METADATA_INCONSISTENT,
      RC_MODE_DEPENDENCY_NOT_ALLOWED, RC_BACKTEST_REPLAY_DIRECT_ACCESS_BLOCKED, RC_OMS_BYPASS_BLOCKED,
      RC_BOUND_DEPENDENCY_UNAVAILABLE, RC_INITIALIZATION_TIMEOUT, RC_CONTROLLED_SHUTDOWN_INITIATED,
      RC_UNHEALTHY_EXECUTION_DETECTED, RC_HEARTBEAT_EMISSION_FAILED, RC_LOCAL_TERMINATION_OBSERVED,
      RC_KUBERNETES_TERMINATION, RC_STRATEGY_STARTUP_FAILED]"

datatype bootstrap_stage =
    ARTIFACT_FETCH
  | ARTIFACT_VERIFY
  | ENTRYPOINT_LOAD
  | SDK_VALIDATE

fun bootstrap_stage_value :: "bootstrap_stage \<Rightarrow> string" where
    "bootstrap_stage_value ARTIFACT_FETCH = ''artifact_fetch''"
  | "bootstrap_stage_value ARTIFACT_VERIFY = ''artifact_verify''"
  | "bootstrap_stage_value ENTRYPOINT_LOAD = ''entrypoint_load''"
  | "bootstrap_stage_value SDK_VALIDATE = ''sdk_validate''"

definition all_bootstrap_stage :: "bootstrap_stage list" where
  "all_bootstrap_stage =
     [ARTIFACT_FETCH, ARTIFACT_VERIFY, ENTRYPOINT_LOAD,
      SDK_VALIDATE]"

definition WORKER_CANONICAL_ERROR_CODES :: "string list" where
  "WORKER_CANONICAL_ERROR_CODES = map worker_error_code_value all_worker_error_code"

definition SHARED_BOUNDARY_ERROR_CODES :: "string list" where
  "SHARED_BOUNDARY_ERROR_CODES = map shared_boundary_error_code_value all_shared_boundary_error_code"

definition ALL_KNOWN_ERROR_CODES :: "string list" where
  "ALL_KNOWN_ERROR_CODES = WORKER_CANONICAL_ERROR_CODES @ SHARED_BOUNDARY_ERROR_CODES"

definition RUNTIME_WORKER_REASON_CODES :: "string list" where
  "RUNTIME_WORKER_REASON_CODES = map runtime_worker_reason_code_value all_runtime_worker_reason_code"

section \<open>Exceptions\<close>

datatype py_exc =
    DomainExc string string string bool pydict
  | WorkerExc string worker_error_code string bool "string option" pydict
  | SharedExc string shared_boundary_error_code string bool "string option" pydict
  | BootstrapExc string bootstrap_stage string bool pydict string
  | ValueExc string string "pydict option"
  | TypeExc string string
  | OtherExc string string "string option"

text \<open>Type name, code, message, flags and details, in the order of the constructors' calls.\<close>

fun exc_type_name :: "py_exc \<Rightarrow> string" where
    "exc_type_name (DomainExc ty _ _ _ _) = ty"
  | "exc_type_name (WorkerExc ty _ _ _ _ _) = ty"
  | "exc_type_name (SharedExc ty _ _ _ _ _) = ty"
  | "exc_type_name (BootstrapExc ty _ _ _ _ _) = ty"
  | "exc_type_name (ValueExc ty _ _) = ty"
  | "exc_type_name (TypeExc ty _) = ty"
  | "exc_type_name (OtherExc ty _ _) = ty"

text \<open>\<open>getattr(exc, 'reason_code', None)\<close> and \<open>getattr(exc, 'details', None)\<close>.\<close>

fun exc_reason_code :: "py_exc \<Rightarrow> string option" where
    "exc_reason_code (BootstrapExc _ _ rc _ _ _) = Some rc"
  | "exc_reason_code (OtherExc _ _ rc) = rc"
  | "exc_reason_code _ = None"

fun exc_details :: "py_exc \<Rightarrow> pydict option" where
    "exc_details (DomainExc _ _ _ _ d) = Some d"
  | "exc_details (WorkerExc _ _ _ _ _ d) = Some d"
  | "exc_details (SharedExc _ _ _ _ _ d) = Some d"
  | "exc_details (BootstrapExc _ _ _ _ d _) = Some d"
  | "exc_details (ValueExc _ _ d) = d"
  | "exc_details _ = None"

text \<open>\<open>int(x)\<close> of a float.\<close>

fun float_to_int :: "pyfloat \<Rightarrow> py_exc + int" where
    "float_to_int (Fin q) = Inr (rat_trunc q)"
  | "float_to_int NaN = Inl (ValueExc ''ValueError'' ''cannot convert float NaN to integer'' None)"
  | "float_to_int _ = Inl (OtherExc ''OverflowError'' ''cannot convert float infinity to integer'' None)"

text \<open>\<open>str(exc)\<close>.\<close>

fun exc_text :: "py_exc \<Rightarrow> string" where
    "exc_text (DomainExc _ _ msg _ _) = msg"
  | "exc_text (WorkerExc _ _ msg _ _ _) = msg"
  | "exc_text (SharedExc _ _ msg _ _ _) = msg"
  | "exc_text (BootstrapExc _ _ _ _ _ msg) = msg"
  | "exc_text (ValueExc _ msg _) = msg"
  | "exc_text (TypeExc _ msg) = msg"
  | "exc_text (OtherExc _ msg _) = msg"

definition InvalidWorkerTransitionError :: "string \<Rightarrow> string \<Rightarrow> string \<Rightarrow> py_exc" where
  "InvalidWorkerTransitionError from_phase to_phase reason =
     DomainExc ''InvalidWorkerTransitionError''
       (worker_domain_error_code_value DE_INVALID_WORKER_TRANSITION)
       (''Invalid worker phase transition: '' @ from_phase @ '' -> '' @ to_phase) False
       [(''from_phase'', VStr from_phase), (''to_phase'', VStr to_phase), (''reason'', VStr reason)]"

definition MalformedWorkerIdentityError :: "string \<Rightarrow> string \<Rightarrow> py_exc" where
  "MalformedWorkerIdentityError field_name reason =
     DomainExc ''MalformedWorkerIdentityError''
       (worker_domain_error_code_value DE_MALFORMED_WORKER_IDENTITY)
       (''Malformed worker identity field: '' @ field_name) False
       [(''field_name'', VStr field_name), (''reason'', VStr reason)]"

definition SingleAssignmentViolationError :: "string \<Rightarrow> py_exc" where
  "SingleAssignmentViolationError reason =
     DomainExc ''SingleAssignmentViolationError''
       (worker_domain_error_code_value DE_SINGLE_ASSIGNMENT_VIOLATION)
       ''Worker identity violates single-assignment constraints.'' False
       [(''reason'', VStr reason)]"

definition InvalidLaunchContextError :: "string \<Rightarrow> string \<Rightarrow> py_exc" where
  "InvalidLaunchContextError field_name reason =
     DomainExc ''InvalidLaunchContextError''
       (worker_domain_error_code_value DE_INVALID_LAUNCH_CONTEXT)
       (''Invalid launch context field: '' @ field_name) False
       [(''field_name'', VStr field_name), (''reason'', VStr reason)]"

definition UnsupportedModeError :: "string \<Rightarrow> string \<Rightarrow> py_exc" where
  "UnsupportedModeError mode reason =
     DomainExc ''UnsupportedModeError'' (worker_domain_error_code_value DE_UNSUPPORTED_MODE)
       (''Unsupported runtime mode: '' @ mode) False
       [(''mode'', VStr mode), (''reason'', VStr reason)]"

definition OrderIntentValidationError :: "string \<Rightarrow> string \<Rightarrow> py_exc" where
  "OrderIntentValidationError field_name reason =
     DomainExc ''OrderIntentValidationError''
       (worker_domain_error_code_value DE_ORDER_INTENT_VALIDATION)
       (''Invalid order intent field: '' @ field_name) False
       [(''field_name'', VStr field_name), (''reason'', VStr reason)]"

definition RuntimeStartValidationFailedError ::
  "string \<Rightarrow> pydict \<Rightarrow> string option \<Rightarrow> int option \<Rightarrow> string option \<Rightarrow> py_exc" where
  "RuntimeStartValidationFailedError reason field_errors runtime_id launch_attempt corr =
     SharedExc ''RuntimeStartValidationFailedError'' SE_RUNTIME_START_VALIDATION_FAILED
       ''Runtime start validation failed.'' False corr
       [(''reason'', VStr reason), (''field_errors'', VDict field_errors),
        (''runtime_id'', opt_str runtime_id), (''launch_attempt'', opt_int launch_attempt)]"

definition WorkerInvalidRequestError :: "string \<Rightarrow> pydict \<Rightarrow> string option \<Rightarrow> py_exc" where
  "WorkerInvalidRequestError reason field_errors corr =
     WorkerExc ''WorkerInvalidRequestError'' WE_INVALID_REQUEST
       ''Worker request validation failed.'' False corr
       [(''reason'', VStr reason), (''field_errors'', VDict field_errors)]"

definition WorkerArtifactNotFoundError :: "string \<Rightarrow> string option \<Rightarrow> py_exc" where
  "WorkerArtifactNotFoundError artifact_uri corr =
     WorkerExc ''WorkerArtifactNotFoundError'' WE_ARTIFACT_NOT_FOUND
       ''Worker artifact was not found.'' False corr [(''artifact_uri'', VStr artifact_uri)]"

definition WorkerArtifactDigestMismatchError ::
  "string \<Rightarrow> string option \<Rightarrow> string option \<Rightarrow> string option \<Rightarrow> py_exc" where
  "WorkerArtifactDigestMismatchError artifact_uri expected actual corr =
     WorkerExc ''WorkerArtifactDigestMismatchError'' WE_ARTIFACT_DIGEST_MISMATCH
       ''Worker artifact digest did not match.'' False corr
       [(''artifact_uri'', VStr artifact_uri), (''expected_digest'', opt_str expected),
        (''actual_digest'', opt_str actual)]"

definition WorkerEntrypointNotFoundError :: "string \<Rightarrow> string option \<Rightarrow> py_exc" where
  "WorkerEntrypointNotFoundError entrypoint corr =
     WorkerExc ''WorkerEntrypointNotFoundError'' WE_ENTRYPOINT_NOT_FOUND
       ''Worker entrypoint could not be resolved.'' False corr
       [(''entrypoint'', VStr entrypoint)]"

definition WorkerSdkContractInvalidError ::
  "string option \<Rightarrow> string option \<Rightarrow> string option \<Rightarrow> pydict \<Rightarrow> py_exc" where
  "WorkerSdkContractInvalidError entrypoint sdk_version corr diagnostics =
     WorkerExc ''WorkerSdkContractInvalidError'' WE_SDK_CONTRACT_INVALID
       ''Strategy artifact does not satisfy the required SDK contract.'' False corr
       [(''entrypoint'', opt_str entrypoint), (''sdk_version'', opt_str sdk_version),
        (''diagnostics'', VDict diagnostics)]"

definition WorkerModeNotSupportedError :: "string \<Rightarrow> string option \<Rightarrow> py_exc" where
  "WorkerModeNotSupportedError mode corr =
     WorkerExc ''WorkerModeNotSupportedError'' WE_MODE_NOT_SUPPORTED
       ''Worker mode is not supported.'' False corr [(''mode'', VStr mode)]"

definition WorkerBootstrapFailedError ::
  "string option \<Rightarrow> int option \<Rightarrow> string option \<Rightarrow> pydict \<Rightarrow> string option \<Rightarrow> py_exc" where
  "WorkerBootstrapFailedError runtime_id launch_attempt reason diagnostics corr =
     WorkerExc ''WorkerBootstrapFailedError'' WE_BOOTSTRAP_FAILED
       ''Worker bootstrap failed.'' True corr
       [(''runtime_id'', opt_str runtime_id), (''launch_attempt'', opt_int launch_attempt),
        (''reason'', opt_str reason), (''diagnostics'', VDict diagnostics)]"

definition WorkerNotFoundError :: "string option \<Rightarrow> string option \<Rightarrow> string option \<Rightarrow> py_exc" where
  "WorkerNotFoundError runtime_id worker_identity corr =
     WorkerExc ''WorkerNotFoundError'' WE_NOT_FOUND
       ''Worker instance was not found.'' False corr
       [(''runtime_id'', opt_str runtime_id), (''worker_identity'', opt_str worker_identity)]"

definition WorkerAlreadyStoppedError ::
  "string option \<Rightarrow> string option \<Rightarrow> string option \<Rightarrow> py_exc" where
  "WorkerAlreadyStoppedError runtime_id worker_identity corr =
     WorkerExc ''WorkerAlreadyStoppedError'' WE_ALREADY_STOPPED
       ''Worker is already stopped.'' False corr
       [(''runtime_id'', opt_str runtime_id), (''worker_identity'', opt_str worker_identity)]"

definition WorkerStopTimeoutError ::
  "string option \<Rightarrow> string option \<Rightarrow> int option \<Rightarrow> string option \<Rightarrow> py_exc" where
  "WorkerStopTimeoutError runtime_id worker_identity timeout_seconds corr =
     WorkerExc ''WorkerStopTimeoutError'' WE_STOP_TIMEOUT
       ''Worker stop timed out.'' True corr
       [(''runtime_id'', opt_str runtime_id), (''worker_identity'', opt_str worker_identity),
        (''timeout_seconds'', opt_int timeout_seconds)]"

definition WorkerDependencyUnhealthyError ::
  "string \<Rightarrow> string option \<Rightarrow> string option \<Rightarrow> pydict \<Rightarrow> py_exc" where
  "WorkerDependencyUnhealthyError dependency reason corr diagnostics =
     WorkerExc ''WorkerDependencyUnhealthyError'' WE_DEPENDENCY_UNHEALTHY
       ''An approved worker dependency is unhealthy.'' True corr
       [(''dependency'', VStr dependency), (''reason'', opt_str reason),
        (''diagnostics'', VDict diagnostics)]"

definition WorkerRuntimeFailedError ::
  "string option \<Rightarrow> string option \<Rightarrow> string option \<Rightarrow> string option \<Rightarrow> pydict \<Rightarrow> py_exc" where
  "WorkerRuntimeFailedError runtime_id worker_identity reason corr diagnostics =
     WorkerExc ''WorkerRuntimeFailedError'' WE_RUNTIME_FAILED
       ''Worker runtime failed after startup.'' True corr
       [(''runtime_id'', opt_str runtime_id), (''worker_identity'', opt_str worker_identity),
        (''reason'', opt_str reason), (''diagnostics'', VDict diagnostics)]"

definition WorkerInternalCallerNotAllowedError ::
  "string option \<Rightarrow> string option \<Rightarrow> string option \<Rightarrow> string option \<Rightarrow> py_exc" where
  "WorkerInternalCallerNotAllowedError caller operation required_privilege corr =
     WorkerExc ''WorkerInternalCallerNotAllowedError'' WE_INTERNAL_CALLER_NOT_ALLOWED
       ''Trusted internal caller is not allowed for this operation.'' False corr
       [(''caller'', opt_str caller), (''operation'', opt_str operation),
        (''required_privilege'', opt_str required_privilege)]"

definition WorkerPolicyViolationError ::
  "string \<Rightarrow> string option \<Rightarrow> string option \<Rightarrow> pydict \<Rightarrow> py_exc" where
  "WorkerPolicyViolationError policy reason corr details =
     WorkerExc ''WorkerPolicyViolationError'' WE_POLICY_VIOLATION
       ''Worker violated runtime policy.'' False corr
       (dict_update details [(''policy'', VStr policy), (''reason'', opt_str reason)])"

definition UnsupportedDependencyExpansion ::
  "string \<Rightarrow> string \<Rightarrow> string option \<Rightarrow> string \<Rightarrow> string option \<Rightarrow> pydict \<Rightarrow> py_exc" where
  "UnsupportedDependencyExpansion mode dependency capability reason corr details =
     WorkerExc ''UnsupportedDependencyExpansion'' WE_POLICY_VIOLATION
       (''Unsupported dependency expansion: mode='' @ mode @ '', dependency='' @ dependency @
        '', capability='' @ (case capability of None \<Rightarrow> ''None'' | Some c \<Rightarrow> c) @ ''.'')
       False corr
       (dict_update details
          [(''policy'', VStr ''runtime_mode_dependency_expansion''), (''reason'', VStr reason),
           (''mode'', VStr mode), (''dependency'', VStr dependency),
           (''capability'', opt_str capability)])"

definition WorkerInternalError :: "string option \<Rightarrow> string option \<Rightarrow> pydict \<Rightarrow> py_exc" where
  "WorkerInternalError reason corr diagnostics =
     WorkerExc ''WorkerInternalError'' WE_INTERNAL_ERROR
       ''Unclassified internal worker failure.'' True corr
       [(''reason'', opt_str reason), (''diagnostics'', VDict diagnostics)]"

text \<open>
  \<open>BootstrapFailure.__post_init__\<close> strips and upper-cases the reason code and raises
  \<open>ValueError\<close> on a blank one; its four subclasses fix the stage.
\<close>

definition BootstrapFailure ::
  "string \<Rightarrow> bootstrap_stage \<Rightarrow> string \<Rightarrow> bool \<Rightarrow> pydict \<Rightarrow> string \<Rightarrow> py_exc + py_exc" where
  "BootstrapFailure ty stage reason_code retryable details message =
     (let rc = py_upper (py_strip reason_code)
      in if rc = [] then Inl (ValueExc ''ValueError'' ''reason_code must not be blank'' None)
         else Inr (BootstrapExc ty stage rc retryable details message))"

definition ArtifactFetchFailure :: "string \<Rightarrow> bool \<Rightarrow> pydict \<Rightarrow> string \<Rightarrow> py_exc + py_exc" where
  "ArtifactFetchFailure = BootstrapFailure ''ArtifactFetchFailure'' ARTIFACT_FETCH"

definition ArtifactVerificationFailure :: "string \<Rightarrow> bool \<Rightarrow> pydict \<Rightarrow> string \<Rightarrow> py_exc + py_exc" where
  "ArtifactVerificationFailure = BootstrapFailure ''ArtifactVerificationFailure'' ARTIFACT_VERIFY"

definition EntrypointLoadFailure :: "string \<Rightarrow> bool \<Rightarrow> pydict \<Rightarrow> string \<Rightarrow> py_exc + py_exc" where
  "EntrypointLoadFailure = BootstrapFailure ''EntrypointLoadFailure'' ENTRYPOINT_LOAD"

definition SDKContractFailure :: "string \<Rightarrow> bool \<Rightarrow> pydict \<Rightarrow> string \<Rightarrow> py_exc + py_exc" where
  "SDKContractFailure = BootstrapFailure ''SDKContractFailure'' SDK_VALIDATE"

section \<open>Error envelopes\<close>

record error_envelope =
  env_code :: string
  env_message :: string
  env_retryable :: bool
  env_correlation_id :: "string option"
  env_details :: pydict

definition as_dict :: "error_envelope \<Rightarrow> pydict" where
  "as_dict e =
     [(''error'', VDict
        [(''code'', VStr (env_code e)), (''message'', VStr (env_message e)),
         (''retryable'', VBool (env_retryable e)),
         (''correlation_id'', opt_str (env_correlation_id e)),
         (''details'', VDict (env_details e))])]"

fun to_error_envelope ::
  "py_exc \<Rightarrow> worker_error_code \<Rightarrow> string \<Rightarrow> string option \<Rightarrow> error_envelope" where
    "to_error_envelope (WorkerExc _ code msg retry corr d) _ _ _ =
       \<lparr>env_code = worker_error_code_value code, env_message = msg, env_retryable = retry,
        env_correlation_id = corr, env_details = d\<rparr>"
  | "to_error_envelope (SharedExc _ code msg retry corr d) _ _ _ =
       \<lparr>env_code = shared_boundary_error_code_value code, env_message = msg,
        env_retryable = retry, env_correlation_id = corr, env_details = d\<rparr>"
  | "to_error_envelope exc fallback_code fallback_message corr =
       \<lparr>env_code = worker_error_code_value fallback_code, env_message = fallback_message,
        env_retryable = False, env_correlation_id = corr,
        env_details = [(''exception_type'', VStr (exc_type_name exc))]\<rparr>"

fun get_machine_error_code :: "py_exc \<Rightarrow> string" where
    "get_machine_error_code (DomainExc _ code _ _ _) = code"
  | "get_machine_error_code (WorkerExc _ code _ _ _ _) = worker_error_code_value code"
  | "get_machine_error_code (SharedExc _ code _ _ _ _) = shared_boundary_error_code_value code"
  | "get_machine_error_code _ = worker_error_code_value WE_INTERNAL_ERROR"

definition is_worker_error_code :: "string \<Rightarrow> bool" where
  "is_worker_error_code v \<longleftrightarrow> v \<in> set WORKER_CANONICAL_ERROR_CODES"

definition is_shared_boundary_error_code :: "string \<Rightarrow> bool" where
  "is_shared_boundary_error_code v \<longleftrightarrow> v \<in> set SHARED_BOUNDARY_ERROR_CODES"

definition is_known_error_code :: "string \<Rightarrow> bool" where
  "is_known_error_code v \<longleftrightarrow> v \<in> set ALL_KNOWN_ERROR_CODES"

definition require_known_error_code :: "string \<Rightarrow> py_exc + string" where
  "require_known_error_code v =
     (if v \<notin> set ALL_KNOWN_ERROR_CODES
      then Inl (ValueExc ''ValueError'' (''Unknown canonical error code: '' @ v) None)
      else Inr v)"

section \<open>Reason codes\<close>

definition is_runtime_worker_reason_code :: "string \<Rightarrow> bool" where
  "is_runtime_worker_reason_code v \<longleftrightarrow> v \<in> set RUNTIME_WORKER_REASON_CODES"

definition LEGACY_RUNTIME_REASON_MAP :: "(string \<times> runtime_worker_reason_code) list" where
  "LEGACY_RUNTIME_REASON_MAP =
     [(''launch_spec_invalid'', RC_BOOTSTRAP_METADATA_INCONSISTENT),
      (''validation_runtime_error'', RC_BOOTSTRAP_METADATA_INCONSISTENT),
      (''bootstrap_start_failed'', RC_BOOTSTRAP_METADATA_INCONSISTENT),
      (''runtime_id_mismatch'', RC_BOOTSTRAP_METADATA_INCONSISTENT),
      (''launch_attempt_mismatch'', RC_BOOTSTRAP_METADATA_INCONSISTENT),
      (''strategy_version_id_mismatch'', RC_BOOTSTRAP_METADATA_INCONSISTENT),
      (''identity_mismatch'', RC_BOOTSTRAP_METADATA_INCONSISTENT),
      (''artifact_not_found'', RC_ARTIFACT_REFERENCE_INVALID),
      (''artifact_access_denied'', RC_ARTIFACT_REFERENCE_INVALID),
      (''artifact_fetch_failed'', RC_ARTIFACT_REFERENCE_INVALID),
      (''artifact_materialization_failed'', RC_ARTIFACT_REFERENCE_INVALID),
      (''artifact_provider_unsupported'', RC_ARTIFACT_REFERENCE_INVALID),
      (''artifact_materialization_missing'', RC_ARTIFACT_REFERENCE_INVALID),
      (''digest_unsupported'', RC_ARTIFACT_REFERENCE_INVALID),
      (''expected_digest_missing'', RC_ARTIFACT_DIGEST_MISMATCH),
      (''digest_mismatch'', RC_ARTIFACT_DIGEST_MISMATCH),
      (''entrypoint_import_failed'', RC_ENTRYPOINT_IMPORT_FAILED),
      (''entrypoint_symbol_not_found'', RC_ENTRYPOINT_IMPORT_FAILED),
      (''entrypoint_symbol_invalid'', RC_ENTRYPOINT_IMPORT_FAILED),
      (''entrypoint_invalid'', RC_ENTRYPOINT_IMPORT_FAILED),
      (''sdk_protocol_mismatch'', RC_SDK_COMPATIBILITY_FAILED),
      (''sdk_non_instantiable'', RC_SDK_COMPATIBILITY_FAILED),
      (''sdk_invalid_signature'', RC_SDK_COMPATIBILITY_FAILED),
      (''sdk_missing_required_method'', RC_SDK_COMPATIBILITY_FAILED),
      (''sdk_marker_invalid'', RC_SDK_COMPATIBILITY_FAILED),
      (''sdk_marker_incompatible'', RC_SDK_COMPATIBILITY_FAILED),
      (''manual_stop_requested'', RC_STOP_REQUESTED),
      (''stop_requested'', RC_STOP_REQUESTED),
      (''kubernetes_termination'', RC_KUBERNETES_TERMINATION),
      (''sigterm'', RC_KUBERNETES_TERMINATION),
      (''runtime_job_completed'', RC_LOCAL_TERMINATION_OBSERVED),
      (''error_detected'', RC_UNHEALTHY_EXECUTION_DETECTED),
      (''grpc_emit_failed'', RC_BOUND_DEPENDENCY_UNAVAILABLE),
      (''unsupported_signal_type'', RC_BOUND_DEPENDENCY_UNAVAILABLE),
      (''submit_backtest_order_intent_failed'', RC_BOUND_DEPENDENCY_UNAVAILABLE),
      (''submit_backtest_order_intent_not_configured'', RC_BOUND_DEPENDENCY_UNAVAILABLE),
      (''noop_replay_client'', RC_BOUND_DEPENDENCY_UNAVAILABLE),
      (''no_oms_client_configured'', RC_BOUND_DEPENDENCY_UNAVAILABLE),
      (''heartbeat_lagging'', RC_UNHEALTHY_EXECUTION_DETECTED),
      (''strategy_bind_and_start_failed'', RC_STRATEGY_STARTUP_FAILED),
      (''strategy_callback_contract_violation'', RC_SDK_COMPATIBILITY_FAILED),
      (''strategy_callback_unhandled_exception'', RC_UNHEALTHY_EXECUTION_DETECTED),
      (''strategy_cleanup_contract_violation'', RC_SDK_COMPATIBILITY_FAILED),
      (''strategy_cleanup_unhandled_exception'', RC_UNHEALTHY_EXECUTION_DETECTED)]"

definition normalize_with_default :: "string option \<Rightarrow> runtime_worker_reason_code \<Rightarrow> string" where
  "normalize_with_default value dflt =
     (let raw = py_strip (case value of None \<Rightarrow> [] | Some v \<Rightarrow> v)
      in if raw = [] then runtime_worker_reason_code_value dflt
         else if raw \<in> set RUNTIME_WORKER_REASON_CODES then raw
         else (case dict_get LEGACY_RUNTIME_REASON_MAP (py_lower raw) of
                 Some mapped \<Rightarrow> runtime_worker_reason_code_value mapped
               | None \<Rightarrow> runtime_worker_reason_code_value dflt))"

definition normalize_runtime_reason_code :: "string option \<Rightarrow> string" where
  "normalize_runtime_reason_code value = normalize_with_default value RC_POLICY_VIOLATION"

text \<open>The dictionary of \<open>worker_error_code_for_reason\<close>; \<open>None\<close> is a key it lacks.\<close>

fun reason_error_mapping :: "runtime_worker_reason_code \<Rightarrow> worker_error_code option" where
    "reason_error_mapping RC_ARTIFACT_REFERENCE_INVALID = Some WE_ARTIFACT_NOT_FOUND"
  | "reason_error_mapping RC_ARTIFACT_DIGEST_MISMATCH = Some WE_ARTIFACT_DIGEST_MISMATCH"
  | "reason_error_mapping RC_ENTRYPOINT_IMPORT_FAILED = Some WE_ENTRYPOINT_NOT_FOUND"
  | "reason_error_mapping RC_SDK_COMPATIBILITY_FAILED = Some WE_SDK_CONTRACT_INVALID"
  | "reason_error_mapping RC_MODE_DEPENDENCY_NOT_ALLOWED = Some WE_MODE_NOT_SUPPORTED"
  | "reason_error_mapping RC_POLICY_VIOLATION = Some WE_POLICY_VIOLATION"
  | "reason_error_mapping RC_BOOTSTRAP_METADATA_MISSING = Some WE_BOOTSTRAP_FAILED"
  | "reason_error_mapping RC_BOOTSTRAP_METADATA_INCONSISTENT = Some WE_BOOTSTRAP_FAILED"
  | "reason_error_mapping RC_BOUND_DEPENDENCY_UNAVAILABLE = Some WE_DEPENDENCY_UNHEALTHY"
  | "reason_error_mapping RC_HEARTBEAT_TIMEOUT_ENFORCED = Some WE_DEPENDENCY_UNHEALTHY"
  | "reason_error_mapping RC_HEARTBEAT_EMISSION_FAILED = Some WE_DEPENDENCY_UNHEALTHY"
  | "reason_error_mapping RC_UNHEALTHY_EXECUTION_DETECTED = Some WE_RUNTIME_FAILED"
  | "reason_error_mapping RC_LOCAL_TERMINATION_OBSERVED = Some WE_RUNTIME_COMPLETED"
  | "reason_error_mapping RC_CONTROLLED_SHUTDOWN_INITIATED = Some WE_RUNTIME_FAILED"
  | "reason_error_mapping RC_STOP_REQUESTED = Some WE_ALREADY_STOPPED"
  | "reason_error_mapping RC_BACKTEST_REPLAY_DIRECT_ACCESS_BLOCKED = Some WE_POLICY_VIOLATION"
  | "reason_error_mapping RC_OMS_BYPASS_BLOCKED = Some WE_POLICY_VIOLATION"
  | "reason_error_mapping RC_INITIALIZATION_TIMEOUT = Some WE_BOOTSTRAP_FAILED"
  | "reason_error_mapping RC_STRATEGY_STARTUP_FAILED = Some WE_BOOTSTRAP_FAILED"
  | "reason_error_mapping RC_KUBERNETES_TERMINATION = None"

text \<open>\<open>None\<close> is the \<open>ValueError\<close> of \<open>RuntimeWorkerReasonCode(normalized)\<close>.\<close>

definition worker_error_code_for_reason :: "string \<Rightarrow> string option" where
  "worker_error_code_for_reason reason_code =
     (case enum_parse all_runtime_worker_reason_code runtime_worker_reason_code_value
             (normalize_runtime_reason_code (Some reason_code)) of
        None \<Rightarrow> None
      | Some r \<Rightarrow>
          Some (worker_error_code_value
            (case reason_error_mapping r of Some c \<Rightarrow> c | None \<Rightarrow> WE_INTERNAL_ERROR)))"

section \<open>Facts about the vocabularies\<close>

lemma in_all_runtime_worker_reason_code: "m \<in> set all_runtime_worker_reason_code"
  by (cases m) (simp_all add: all_runtime_worker_reason_code_def)

lemma in_all_worker_error_code: "m \<in> set all_worker_error_code"
  by (cases m) (simp_all add: all_worker_error_code_def)

lemma in_all_shared_boundary_error_code: "m \<in> set all_shared_boundary_error_code"
  by (cases m) (simp_all add: all_shared_boundary_error_code_def)

interpretation reason_enum: str_enum all_runtime_worker_reason_code runtime_worker_reason_code_value
  by unfold_locales
    (rule in_all_runtime_worker_reason_code, simp add: all_runtime_worker_reason_code_def)

interpretation error_enum: str_enum all_worker_error_code worker_error_code_value
  by unfold_locales (rule in_all_worker_error_code, simp add: all_worker_error_code_def)

lemma reason_codes_range: "set RUNTIME_WORKER_REASON_CODES = range runtime_worker_reason_code_value"
  by (simp add: RUNTIME_WORKER_REASON_CODES_def reason_enum.values_range)

lemma worker_error_code_canonical [simp]:
  "worker_error_code_value c \<in> set WORKER_CANONICAL_ERROR_CODES"
  by (simp add: WORKER_CANONICAL_ERROR_CODES_def error_enum.values_range)

lemma reason_value_nonempty [simp]: "runtime_worker_reason_code_value r \<noteq> []"
  by (cases r) simp_all

lemma reason_value_strip [simp]:
  "py_strip (runtime_worker_reason_code_value r) = runtime_worker_reason_code_value r"
  by (rule py_strip_fixed) (cases r; simp add: py_isspace_def py_whitespace_def)+

lemma normalize_in_range:
  "normalize_with_default v dflt \<in> range runtime_worker_reason_code_value"
  by (auto simp: normalize_with_default_def Let_def reason_codes_range split: option.split)

lemma normalize_fixed [simp]:
  "normalize_with_default (Some (runtime_worker_reason_code_value r)) dflt =
     runtime_worker_reason_code_value r"
  by (simp add: normalize_with_default_def Let_def reason_codes_range)

lemma normalize_reason_fixed [simp]:
  "normalize_runtime_reason_code (Some (runtime_worker_reason_code_value r)) =
     runtime_worker_reason_code_value r"
  by (simp add: normalize_runtime_reason_code_def)

lemma legacy_keys_distinct: "distinct (map fst LEGACY_RUNTIME_REASON_MAP)"
  by (simp add: LEGACY_RUNTIME_REASON_MAP_def)

lemma legacy_keys_strings:
  "list_all (\<lambda>(k, c). k \<noteq> [] \<and> py_strip k = k \<and> py_strip (py_upper k) = py_upper k \<and>
      py_upper k \<noteq> [] \<and> py_lower (py_upper k) = k) LEGACY_RUNTIME_REASON_MAP"
  by (simp add: LEGACY_RUNTIME_REASON_MAP_def str_eval)

lemma legacy_keys_canonical:
  "list_all (\<lambda>(k, c). py_upper k \<in> set RUNTIME_WORKER_REASON_CODES \<longrightarrow>
      py_upper k = runtime_worker_reason_code_value c) LEGACY_RUNTIME_REASON_MAP"
  by (simp add: LEGACY_RUNTIME_REASON_MAP_def py_upper_def char_eval RUNTIME_WORKER_REASON_CODES_def
      all_runtime_worker_reason_code_def)

lemma legacy_upper_table:
  assumes "(k, c) \<in> set LEGACY_RUNTIME_REASON_MAP"
  shows "py_upper (py_strip k) \<noteq> [] \<and>
     normalize_runtime_reason_code (Some (py_upper (py_strip k))) = runtime_worker_reason_code_value c"
proof -
  have "dict_get LEGACY_RUNTIME_REASON_MAP k = Some c"
    unfolding dict_get_def using legacy_keys_distinct assms by (rule map_of_is_SomeI)
  moreover have "py_strip k = k" "py_strip (py_upper k) = py_upper k" "py_upper k \<noteq> []"
      "py_lower (py_upper k) = k"
    using legacy_keys_strings assms by (auto simp: list_all_iff)
  moreover have "py_upper k \<in> set RUNTIME_WORKER_REASON_CODES \<longrightarrow>
      py_upper k = runtime_worker_reason_code_value c"
    using legacy_keys_canonical assms by (auto simp: list_all_iff)
  ultimately show ?thesis
    by (simp add: normalize_runtime_reason_code_def normalize_with_default_def Let_def)
qed

section \<open>Properties\<close>

text \<open>
  Normalising a reason code always yields one of the canonical runtime reason codes,
  whatever string (or \<open>None\<close>) it is given, and normalising again changes nothing.
\<close>

lemma normalize_canonical_idempotent:
  "normalize_runtime_reason_code v \<in> set RUNTIME_WORKER_REASON_CODES \<and>
   normalize_runtime_reason_code (Some (normalize_runtime_reason_code v)) =
     normalize_runtime_reason_code v"
  using normalize_in_range [of v RC_POLICY_VIOLATION]
  by (auto simp: normalize_runtime_reason_code_def reason_codes_range)

text \<open>
  \<open>worker_error_code_for_reason\<close> never raises and always answers with a worker error
  code; the one reason its dictionary forgets, and so reports as an internal error, is
  \<open>KUBERNETES_TERMINATION\<close>.
\<close>

lemma error_code_for_reason_total:
  "\<exists>c. worker_error_code_for_reason reason = Some c \<and> is_worker_error_code c \<and>
     (c = ''WORKER_INTERNAL_ERROR'' \<longleftrightarrow>
        normalize_runtime_reason_code (Some reason) = ''KUBERNETES_TERMINATION'')"
proof -
  obtain r where r: "normalize_runtime_reason_code (Some reason) = runtime_worker_reason_code_value r"
    using normalize_in_range [of "Some reason" RC_POLICY_VIOLATION]
    by (auto simp: normalize_runtime_reason_code_def)
  then have "worker_error_code_for_reason reason =
      Some (worker_error_code_value
        (case reason_error_mapping r of Some c \<Rightarrow> c | None \<Rightarrow> WE_INTERNAL_ERROR))"
    by (simp add: worker_error_code_for_reason_def reason_enum.parse_value)
  then show ?thesis by (cases r) (simp_all add: r is_worker_error_code_def WORKER_CANONICAL_ERROR_CODES_def
      all_worker_error_code_def)
qed

text \<open>
  The legacy reasons survive the upper-casing of \<open>BootstrapFailure\<close>: a failure raised
  with a key of the legacy table is built, and the reason code it carries normalises to the
  code the table gives for the key.
\<close>

lemma bootstrap_failure_legacy_reason:
  assumes "(k, c) \<in> set LEGACY_RUNTIME_REASON_MAP"
  shows "\<exists>exc rc. BootstrapFailure ty stage k retryable details message = Inr exc \<and>
     exc_reason_code exc = Some rc \<and>
     normalize_runtime_reason_code (Some rc) = runtime_worker_reason_code_value c"
  using legacy_upper_table [OF assms] by (auto simp: BootstrapFailure_def Let_def)

theorem bootstrap_failure_legacy_reason_witness:
  "\<exists>exc rc. BootstrapFailure ''ArtifactFetchFailure'' ARTIFACT_FETCH ''artifact_not_found'' False [] ''m'' = Inr exc \<and>
     exc_reason_code exc = Some rc \<and>
     normalize_runtime_reason_code (Some rc) = ''ARTIFACT_REFERENCE_INVALID''"
  using bootstrap_failure_legacy_reason
    [of "''artifact_not_found''" RC_ARTIFACT_REFERENCE_INVALID
        "''ArtifactFetchFailure''" ARTIFACT_FETCH False "[]" "''m''"]
  by (simp add: LEGACY_RUNTIME_REASON_MAP_def)

end
