(* ===== verification/PyText.thy ===== *)
theory PyText
  imports Py_Prelude "HOL-Library.List_Lexorder" "HOL-Library.Char_ord" "HOL-Library.Multiset"
begin

text \<open>
  Text the worker builds with the standard library: decimal numerals, \<open>str.join\<close>,
  \<open>str.replace\<close>, \<open>str.split\<close>, \<open>startswith\<close>, \<open>rstrip('/')\<close>, \<open>sorted\<close> on strings (by code
  point), the ISO form of a UTC instant and \<open>json.dumps\<close> with compact separators and sorted
  keys. The text of a float is a parameter, \<open>float_repr\<close>: Python's shortest-digits rule is not
  modelled.
\<close>

section \<open>Numerals\<close>

definition digit_char :: "nat \<Rightarrow> char" where
  "digit_char n = ''0123456789'' ! n"

fun nat_str :: "nat \<Rightarrow> string" where
  "nat_str n = (if n < 10 then [digit_char n] else nat_str (n div 10) @ [digit_char (n mod 10)])"

declare nat_str.simps [simp del]

definition int_str :: "int \<Rightarrow> string" where
  "int_str i = (if i < 0 then CHR ''-'' # nat_str (nat (- i)) else nat_str (nat i))"

text \<open>Width with leading zeros, as in \<open>'%02d'\<close>.\<close>

definition pad_nat :: "nat \<Rightarrow> nat \<Rightarrow> string" where
  "pad_nat w n = (let s = nat_str n in replicate (w - length s) (CHR ''0'') @ s)"

definition digits_value :: "string \<Rightarrow> nat" where
  "digits_value s = foldl (\<lambda>acc c. 10 * acc + (of_char c - 48)) 0 s"

lemma of_char_digit: "n < 10 \<Longrightarrow> of_char (digit_char n) = 48 + n"
proof -
  assume "n < 10"
  then have "n \<in> {0, 1, 2, 3, 4, 5, 6, 7, 8, 9}" by auto
  then show ?thesis by (auto simp: digit_char_def)
qed

lemma digits_value_nat_str [simp]: "digits_value (nat_str n) = n"
proof (induction n rule: nat_str.induct)
  case (1 n)
  show ?case
  proof (cases "n < 10")
    case True
    then show ?thesis by (simp add: nat_str.simps [of n] digits_value_def of_char_digit)
  next
    case False
    have "digits_value (nat_str n) = 10 * digits_value (nat_str (n div 10)) + n mod 10"
      using False by (simp add: nat_str.simps [of n] digits_value_def of_char_digit)
    then show ?thesis using "1.IH" [OF False] by simp
  qed
qed

lemma nat_str_inj: "nat_str m = nat_str n \<longleftrightarrow> m = n"
  by (metis digits_value_nat_str)

lemma nat_str_digits: "c \<in> set (nat_str n) \<Longrightarrow> 48 \<le> (of_char c :: nat) \<and> (of_char c :: nat) < 58"
proof (induction n rule: nat_str.induct)
  case (1 n)
  then show ?case
    by (cases "n < 10") (auto simp: nat_str.simps [of n] of_char_digit)
qed

lemma nat_str_nonempty [simp]: "nat_str n \<noteq> []"
  by (simp add: nat_str.simps [of n])

lemma int_str_inj: "int_str i = int_str j \<longleftrightarrow> i = j"
proof -
  have minus: "CHR ''-'' # s \<noteq> nat_str n" for s n
  proof
    assume "CHR ''-'' # s = nat_str n"
    then have "CHR ''-'' \<in> set (nat_str n)" by (metis list.set_intros(1))
    then show False using nat_str_digits [of "CHR ''-''" n] by simp
  qed
  then show ?thesis
    by (auto simp: int_str_def nat_str_inj dest: minus [THEN notE, OF sym] split: if_splits)
qed

section \<open>Joining, replacing, splitting\<close>

fun py_join :: "string \<Rightarrow> string list \<Rightarrow> string" where
  "py_join sep [] = []"
| "py_join sep [x] = x"
| "py_join sep (x # y # ys) = x @ sep @ py_join sep (y # ys)"

fun starts_with :: "string \<Rightarrow> string \<Rightarrow> bool" where
  "starts_with [] s = True"
| "starts_with (c # p) [] = False"
| "starts_with (c # p) (d # s) = (c = d \<and> starts_with p s)"

text \<open>\<open>needle in s\<close> for strings.\<close>

fun occurs_in :: "string \<Rightarrow> string \<Rightarrow> bool" where
  "occurs_in p [] = (p = [])"
| "occurs_in p (c # s) = (starts_with p (c # s) \<or> occurs_in p s)"

text \<open>\<open>s.replace(p, r)\<close> for a non-empty \<open>p\<close>: leftmost, non-overlapping.\<close>

fun py_replace :: "string \<Rightarrow> string \<Rightarrow> string \<Rightarrow> string" where
  "py_replace p r [] = []"
| "py_replace p r (c # s) =
     (if p \<noteq> [] \<and> starts_with p (c # s) then r @ py_replace p r (drop (length p - 1) s)
      else c # py_replace p r s)"

text \<open>\<open>s.split(sep)\<close> for a separator of one character.\<close>

fun py_split :: "char \<Rightarrow> string \<Rightarrow> string list" where
  "py_split sep [] = [[]]"
| "py_split sep (c # s) =
     (if c = sep then [] # py_split sep s
      else (case py_split sep s of [] \<Rightarrow> [[c]] | w # ws \<Rightarrow> (c # w) # ws))"

definition rstrip_char :: "char \<Rightarrow> string \<Rightarrow> string" where
  "rstrip_char c s = rev (dropWhile (\<lambda>d. d = c) (rev s))"

definition py_sorted :: "string list \<Rightarrow> string list" where
  "py_sorted xs = sort xs"

definition sorted_set :: "string list \<Rightarrow> string list" where
  "sorted_set xs = sort (remdups xs)"

lemma starts_with_append: "starts_with p s \<longleftrightarrow> (\<exists>t. s = p @ t)"
  by (induction p s rule: starts_with.induct) auto

lemma py_split_nonempty: "py_split sep s \<noteq> []"
  by (cases s) (auto split: list.splits)

lemma py_join_split: "py_join [sep] (py_split sep s) = s"
proof (induction s)
  case Nil
  then show ?case by simp
next
  case (Cons c s)
  obtain w ws where split: "py_split sep s = w # ws" using py_split_nonempty by (cases "py_split sep s") auto
  show ?case using Cons by (cases ws) (auto simp: split)
qed

lemma set_sorted_set [simp]: "set (sorted_set xs) = set xs" "set (py_sorted xs) = set xs"
  by (simp_all add: sorted_set_def py_sorted_def)

lemma sorted_set_unique: "set xs = set ys \<Longrightarrow> sorted_set xs = sorted_set ys"
  unfolding sorted_set_def
  by (rule sorted_distinct_set_unique) simp_all

lemma sorted_set_distinct: "distinct (sorted_set xs)" "sorted (sorted_set xs)"
  by (simp_all add: sorted_set_def)

text \<open>
  \<open>str(v)\<close> of a dynamic value; the text of floats, instants and containers is the
  parameter \<open>r\<close>.
\<close>

fun py_str :: "(pyval \<Rightarrow> string) \<Rightarrow> pyval \<Rightarrow> string" where
  "py_str r VNone = ''None''"
| "py_str r (VBool b) = (if b then ''True'' else ''False'')"
| "py_str r (VInt i) = int_str i"
| "py_str r (VStr s) = s"
| "py_str r v = r v"

text \<open>Truth of a dynamic value (an object of unknown class is true).\<close>

fun py_truthy :: "pyval \<Rightarrow> bool" where
  "py_truthy VNone = False"
| "py_truthy (VBool b) = b"
| "py_truthy (VInt i) = (i \<noteq> 0)"
| "py_truthy (VFloat x) = (x \<noteq> Fin 0)"
| "py_truthy (VStr s) = (s \<noteq> [])"
| "py_truthy (VList vs) = (vs \<noteq> [])"
| "py_truthy (VDict kvs) = (kvs \<noteq> [])"
| "py_truthy (VTime t) = True"
| "py_truthy (VObj n) = True"

text \<open>\<open>d.get(k)\<close>, with \<open>None\<close> for a missing key.\<close>

definition get_or_none :: "pydict \<Rightarrow> string \<Rightarrow> pyval" where
  "get_or_none d k = (case dict_get d k of None \<Rightarrow> VNone | Some v \<Rightarrow> v)"

text \<open>\<open>str(v or '')\<close>.\<close>

definition str_or_empty :: "(pyval \<Rightarrow> string) \<Rightarrow> pyval \<Rightarrow> string" where
  "str_or_empty r v = (if py_truthy v then py_str r v else [])"

definition or_empty :: "string option \<Rightarrow> string" where
  "or_empty x = (case x of None \<Rightarrow> [] | Some s \<Rightarrow> s)"

lemma or_empty_simps [simp]: "or_empty None = []" "or_empty (Some s) = s"
  by (simp_all add: or_empty_def)

section \<open>Instants as ISO text\<close>

text \<open>
  Year, month and day of the proleptic Gregorian calendar from the days since 1970-01-01, with
  years that start in March. A Python datetime lies in the years 1 to 9999.
\<close>

definition civil_of_days :: "int \<Rightarrow> int \<times> int \<times> int" where
  "civil_of_days z0 =
     (let z = z0 + 719468;
          era = z div 146097;
          doe = z mod 146097;
          yoe = (doe - doe div 1460 + doe div 36524 - doe div 146096) div 365;
          doy = doe - (365 * yoe + yoe div 4 - yoe div 100);
          mp = (5 * doy + 2) div 153;
          d = doy - (153 * mp + 2) div 5 + 1;
          m = (if mp < 10 then mp + 3 else mp - 9);
          y = yoe + era * 400 + (if m \<le> 2 then 1 else 0)
      in (y, m, d))"

definition iso_utc :: "int \<Rightarrow> string" where
  "iso_utc i =
     (let days = i div 86400000000; us = i mod 86400000000;
          secs = us div 1000000; frac = us mod 1000000
      in case civil_of_days days of (y, m, d) \<Rightarrow>
           pad_nat 4 (nat y) @ ''-'' @ pad_nat 2 (nat m) @ ''-'' @ pad_nat 2 (nat d) @ ''T'' @
           pad_nat 2 (nat (secs div 3600)) @ '':'' @ pad_nat 2 (nat (secs div 60 mod 60)) @ '':'' @
           pad_nat 2 (nat (secs mod 60)) @
           (if frac = 0 then [] else ''.'' @ pad_nat 6 (nat frac)))"

text \<open>\<open>value.astimezone(utc).isoformat().replace('+00:00', 'Z')\<close>, naive values read as UTC.\<close>

definition wire_timestamp :: "pydatetime \<Rightarrow> string" where
  "wire_timestamp t = iso_utc (dt_instant t) @ ''Z''"

section \<open>JSON\<close>

definition hex_digit :: "nat \<Rightarrow> char" where
  "hex_digit n = ''0123456789abcdef'' ! n"

definition json_escape :: "char \<Rightarrow> string" where
  "json_escape c =
     (let n = (of_char c :: nat) in
      if c = CHR 0x22 then [CHR 0x5C, CHR 0x22]
      else if c = CHR 0x5C then [CHR 0x5C, CHR 0x5C]
      else if n = 10 then [CHR 0x5C, CHR ''n'']
      else if n = 13 then [CHR 0x5C, CHR ''r'']
      else if n = 9 then [CHR 0x5C, CHR ''t'']
      else if n = 12 then [CHR 0x5C, CHR ''f'']
      else if n = 8 then [CHR 0x5C, CHR ''b'']
      else if 32 \<le> n \<and> n \<le> 126 then [c]
      else [CHR 0x5C, CHR ''u'', CHR ''0'', CHR ''0'', hex_digit (n div 16), hex_digit (n mod 16)])"

definition json_string :: "string \<Rightarrow> string" where
  "json_string s = [CHR 0x22] @ concat (map json_escape s) @ [CHR 0x22]"

text \<open>
  \<open>json.dumps(v, sort_keys=True, separators=(',', ':'), ensure_ascii=True)\<close>; \<open>None\<close> is its
  \<open>TypeError\<close> on a value that is not serialisable.
\<close>

definition json_members :: "(string \<times> string) list \<Rightarrow> string" where
  "json_members kvs =
     ''{'' @ py_join '','' (map (\<lambda>(k, t). json_string k @ '':'' @ t) (sort_key fst kvs)) @ ''}''"

fun json_dumps :: "(rat \<Rightarrow> string) \<Rightarrow> pyval \<Rightarrow> string option"
  and json_dumps_list :: "(rat \<Rightarrow> string) \<Rightarrow> pyval list \<Rightarrow> string list option"
  and json_dumps_dict :: "(rat \<Rightarrow> string) \<Rightarrow> (string \<times> pyval) list \<Rightarrow> (string \<times> string) list option" where
  "json_dumps fr VNone = Some ''null''"
| "json_dumps fr (VBool b) = Some (if b then ''true'' else ''false'')"
| "json_dumps fr (VInt i) = Some (int_str i)"
| "json_dumps fr (VFloat (Fin q)) = Some (fr q)"
| "json_dumps fr (VFloat PosInf) = Some ''Infinity''"
| "json_dumps fr (VFloat NegInf) = Some ''-Infinity''"
| "json_dumps fr (VFloat NaN) = Some ''NaN''"
| "json_dumps fr (VStr s) = Some (json_string s)"
| "json_dumps fr (VTime t) = None"
| "json_dumps fr (VObj n) = None"
| "json_dumps fr (VList vs) =
     map_option (\<lambda>ts. ''['' @ py_join '','' ts @ '']'') (json_dumps_list fr vs)"
| "json_dumps fr (VDict kvs) = map_option json_members (json_dumps_dict fr kvs)"
| "json_dumps_list fr [] = Some []"
| "json_dumps_list fr (v # vs) =
     (case json_dumps fr v of
        None \<Rightarrow> None
      | Some t \<Rightarrow> map_option (\<lambda>ts. t # ts) (json_dumps_list fr vs))"
| "json_dumps_dict fr [] = Some []"
| "json_dumps_dict fr ((k, v) # kvs) =
     (case json_dumps fr v of
        None \<Rightarrow> None
      | Some t \<Rightarrow> map_option (\<lambda>ts. (k, t) # ts) (json_dumps_dict fr kvs))"

lemma json_dumps_dict_map:
  "json_dumps_dict fr kvs =
     (if \<forall>(k, v) \<in> set kvs. json_dumps fr v \<noteq> None
      then Some (map (\<lambda>(k, v). (k, the (json_dumps fr v))) kvs) else None)"
proof (induction kvs)
  case Nil
  then show ?case by simp
next
  case (Cons kv kvs)
  then show ?case by (cases kv; cases "json_dumps fr (snd kv)") auto
qed

lemma map_fst_dumps: "map fst (map (\<lambda>(k, v). (k, f v)) kvs) = map fst kvs"
  by (induction kvs) auto

text \<open>The text of an object does not depend on the order of its keys.\<close>

lemma filter_key: "distinct (map fst xs) \<Longrightarrow> k \<in> set xs \<Longrightarrow> filter (\<lambda>x. fst k = fst x) xs = [k]"
proof (induction xs)
  case Nil
  then show ?case by simp
next
  case (Cons x xs)
  show ?case
  proof (cases "fst x = fst k")
    case True
    then have "filter (\<lambda>y. fst k = fst y) xs = []"
      using Cons.prems by (auto simp: filter_empty_conv image_iff)
    moreover have "k = x"
      using Cons.prems True by (metis distinct.simps(2) image_eqI list.set_map list.simps(9) set_ConsD)
    ultimately show ?thesis by simp
  next
    case False
    then show ?thesis using Cons by auto
  qed
qed

lemma sort_key_perm:
  assumes "mset xs = mset ys" and "distinct (map fst xs)"
  shows "sort_key fst xs = sort_key fst (ys :: (string \<times> 'v) list)"
proof (rule properties_for_sort_key)
  show "mset (sort_key fst ys) = mset xs" using assms(1) by simp
  show "sorted (map fst (sort_key fst ys))" by simp
  have same: "distinct (map fst zs)" if "mset zs = mset xs" for zs :: "(string \<times> 'v) list"
  proof -
    have "mset (map fst zs) = mset (map fst xs)" using that by simp
    then show ?thesis using assms(2) by (rule mset_eq_imp_distinct_iff [THEN iffD2])
  qed
  fix k assume "k \<in> set (sort_key fst ys)"
  then have "filter (\<lambda>x. fst k = fst x) (sort_key fst ys) = [k]"
    using assms(1) by (intro filter_key same) simp_all
  moreover have "k \<in> set xs"
    using \<open>k \<in> set (sort_key fst ys)\<close> mset_eq_setD [OF assms(1)] by simp
  then have "filter (\<lambda>x. fst k = fst x) xs = [k]" using assms(2) by (intro filter_key)
  ultimately show "filter (\<lambda>x. fst k = fst x) (sort_key fst ys) = filter (\<lambda>x. fst k = fst x) xs"
    by simp
qed

lemma json_key_order:
  assumes "mset kvs = mset kvs'" and "distinct (map fst kvs)"
  shows "json_dumps fr (VDict kvs) = json_dumps fr (VDict kvs')"
proof -
  have set: "set kvs = set kvs'" using assms(1) by (rule mset_eq_setD)
  have "mset (map f kvs) = mset (map f kvs')" for f :: "string \<times> pyval \<Rightarrow> string \<times> string"
    using assms(1) by simp
  then have "sort_key fst (map (\<lambda>(k, v). (k, the (json_dumps fr v))) kvs) =
        sort_key fst (map (\<lambda>(k, v). (k, the (json_dumps fr v))) kvs')"
    using sort_key_perm [of "map (\<lambda>(k, v). (k, the (json_dumps fr v))) kvs"
        "map (\<lambda>(k, v). (k, the (json_dumps fr v))) kvs'"] assms(2)
    by (simp add: map_fst_dumps del: map_map)
  then show ?thesis by (simp add: json_dumps_dict_map set json_members_def)
qed

end
