(* ===== verification/InternalAuth.thy ===== *)
theory InternalAuth
  imports Errors PyText
begin

text \<open>
  \<open>runtime/transport/internal/auth.py\<close>: the caller and the trust class read from the metadata of
  an internal call, and the gates over them. Metadata are pairs in the order they are read.
\<close>

record auth_context =
  ac_caller :: string
  ac_trust_class :: string
  ac_metadata :: "(string \<times> string) list"

definition CALLER_HEADER_CANDIDATES :: "string list" where
  "CALLER_HEADER_CANDIDATES = [''x-internal-caller'', ''internal-caller'', ''internal_caller'']"

definition TRUST_CLASS_HEADER_CANDIDATES :: "string list" where
  "TRUST_CLASS_HEADER_CANDIDATES =
     [''x-internal-trust-class'', ''internal-trust-class'', ''internal_trust_class'']"

definition normalize_metadata :: "(string \<times> string) list \<Rightarrow> (string \<times> string) list" where
  "normalize_metadata pairs = fold (\<lambda>(k, v) out. dict_set (py_lower k) v out) pairs []"

fun first_present :: "(string \<times> string) list \<Rightarrow> string list \<Rightarrow> string option" where
  "first_present metadata [] = None"
| "first_present metadata (k # ks) =
     (case dict_get metadata k of
        Some v \<Rightarrow> if v \<noteq> [] then Some v else first_present metadata ks
      | None \<Rightarrow> first_present metadata ks)"

definition parse_internal_auth_metadata :: "(string \<times> string) list \<Rightarrow> py_exc + auth_context" where
  "parse_internal_auth_metadata pairs =
     (let metadata = normalize_metadata pairs;
          caller = first_present metadata CALLER_HEADER_CANDIDATES;
          trust_class = first_present metadata TRUST_CLASS_HEADER_CANDIDATES
      in case (caller, trust_class) of
           (Some x, Some t) \<Rightarrow> Inr \<lparr>ac_caller = x, ac_trust_class = t, ac_metadata = metadata\<rparr>
         | _ \<Rightarrow> Inl (WorkerInternalCallerNotAllowedError caller (Some ''internal_transport_call'')
                  (Some ''internal metadata headers'') None))"

definition is_trusted_internal :: "auth_context \<Rightarrow> bool" where
  "is_trusted_internal auth \<longleftrightarrow>
     ac_caller auth \<noteq> [] \<and>
     ac_trust_class auth \<in> {internal_privilege_value RUNTIME_SUBSTRATE, internal_privilege_value RUNTIME_CONTROL}"

definition require_trust :: "auth_context \<Rightarrow> string \<Rightarrow> internal_privilege \<Rightarrow> py_exc + unit" where
  "require_trust auth operation p =
     rguard (ac_trust_class auth = internal_privilege_value p)
       (WorkerInternalCallerNotAllowedError (Some (ac_caller auth)) (Some operation)
          (Some (internal_privilege_value p)) None)"

definition require_internal_substrate :: "auth_context \<Rightarrow> string \<Rightarrow> py_exc + unit" where
  "require_internal_substrate auth operation = require_trust auth operation RUNTIME_SUBSTRATE"

definition require_internal_control :: "auth_context \<Rightarrow> string \<Rightarrow> py_exc + unit" where
  "require_internal_control auth operation = require_trust auth operation RUNTIME_CONTROL"

definition require_internal_health_trust :: "auth_context \<Rightarrow> string \<Rightarrow> py_exc + unit" where
  "require_internal_health_trust auth operation =
     rguard (is_trusted_internal auth)
       (WorkerInternalCallerNotAllowedError (Some (ac_caller auth)) (Some operation)
          (Some ''trusted internal caller'') None)"

section \<open>What the gates let through\<close>

lemma first_present_nonempty: "first_present metadata ks = Some v \<Longrightarrow> v \<noteq> []"
  by (induction ks) (auto split: option.splits if_splits)

lemma parsed_caller: "parse_internal_auth_metadata pairs = Inr auth \<Longrightarrow> ac_caller auth \<noteq> []"
  by (auto simp: parse_internal_auth_metadata_def Let_def split: option.splits dest: first_present_nonempty)

lemma privileges_differ:
  "internal_privilege_value p = internal_privilege_value q \<longleftrightarrow> p = q"
  by (cases p; cases q) simp_all

text \<open>The health gate is exactly the union of the substrate and the control gate, which exclude each other.\<close>

lemma health_is_substrate_or_control:
  assumes "parse_internal_auth_metadata pairs = Inr auth"
  shows "(require_internal_health_trust auth op = Inr ()) =
      (require_internal_substrate auth op = Inr () \<or> require_internal_control auth op = Inr ()) \<and>
    \<not> (require_internal_substrate auth op = Inr () \<and> require_internal_control auth op = Inr ())"
  using parsed_caller [OF assms]
  by (simp add: require_internal_health_trust_def require_internal_substrate_def
      require_internal_control_def require_trust_def is_trusted_internal_def privileges_differ)

lemma normalize_metadata_last:
  "dict_get (normalize_metadata pairs) k =
     map_option snd (find (\<lambda>(h, v). py_lower h = k) (rev pairs))"
  unfolding normalize_metadata_def
  by (induction pairs rule: rev_induct) (auto simp: case_prod_beta)

end
