(* ===== verification/Action.thy ===== *)
theory Action
  imports Errors
begin

text \<open>
  Stateful code that may raise: an action maps a state to a result (an exception or a value)
  and the state it leaves, also when it raises. The combinators are Python's sequencing,
  conditionals and \<open>try/except Exception\<close>; no action catches more than \<open>Exception\<close>.

  \<open>keeps\<close> states that an action preserves an invariant whatever its outcome, \<open>triple\<close> is a
  Hoare triple with one postcondition for each outcome. The locale \<open>step_order\<close> states what a
  relation between the state before and after needs so that every combinator moves it.
\<close>

named_theorems keeps_intros \<open>rules that derive keeps from its parts\<close>
named_theorems moves_intros \<open>rules that derive moves from its parts\<close>
named_theorems act_simps \<open>unfolding of the action combinators\<close>

type_synonym ('s, 'a) act = "'s \<Rightarrow> (py_exc + 'a) \<times> 's"

definition act_ret :: "'a \<Rightarrow> ('s, 'a) act" where
  "act_ret x = (\<lambda>s. (Inr x, s))"

definition act_raise :: "py_exc \<Rightarrow> ('s, 'a) act" where
  "act_raise e = (\<lambda>s. (Inl e, s))"

definition act_bind :: "('s, 'a) act \<Rightarrow> ('a \<Rightarrow> ('s, 'b) act) \<Rightarrow> ('s, 'b) act" where
  "act_bind m f = (\<lambda>s. case m s of (Inl e, s') \<Rightarrow> (Inl e, s') | (Inr x, s') \<Rightarrow> f x s')"

definition act_then :: "('s, 'a) act \<Rightarrow> ('s, 'b) act \<Rightarrow> ('s, 'b) act" where
  "act_then m n = act_bind m (\<lambda>_. n)"

fun act_seq :: "('s, unit) act list \<Rightarrow> ('s, unit) act" where
  "act_seq [] = act_ret ()"
| "act_seq (m # ms) = act_then m (act_seq ms)"

definition act_when :: "bool \<Rightarrow> ('s, unit) act \<Rightarrow> ('s, unit) act" where
  "act_when b m = (if b then m else act_ret ())"

text \<open>Code that reads the state before it runs.\<close>

definition act_with :: "('s \<Rightarrow> 'x) \<Rightarrow> ('x \<Rightarrow> ('s, 'a) act) \<Rightarrow> ('s, 'a) act" where
  "act_with f m = (\<lambda>s. m (f s) s)"

definition act_modify :: "('s \<Rightarrow> 's) \<Rightarrow> ('s, unit) act" where
  "act_modify f = (\<lambda>s. (Inr (), f s))"

definition act_of :: "py_exc + 'a \<Rightarrow> ('s, 'a) act" where
  "act_of r = (\<lambda>s. (r, s))"

definition act_catch :: "('s, 'a) act \<Rightarrow> (py_exc \<Rightarrow> ('s, 'a) act) \<Rightarrow> ('s, 'a) act" where
  "act_catch m h = (\<lambda>s. case m s of (Inl e, s') \<Rightarrow> h e s' | (Inr x, s') \<Rightarrow> (Inr x, s'))"

text \<open>\<open>try: m except Exception: pass\<close>.\<close>

definition act_ignore :: "('s, unit) act \<Rightarrow> ('s, unit) act" where
  "act_ignore m = act_catch m (\<lambda>_. act_ret ())"

fun act_for :: "'i list \<Rightarrow> ('i \<Rightarrow> ('s, unit) act) \<Rightarrow> ('s, unit) act" where
  "act_for [] m = act_ret ()"
| "act_for (i # js) m = act_then (m i) (act_for js m)"

lemma act_run [act_simps]:
  "act_ret x s = (Inr x, s)"
  "act_raise e s = (Inl e, s)"
  "act_bind m f s = (case m s of (Inl e, s') \<Rightarrow> (Inl e, s') | (Inr y, s') \<Rightarrow> f y s')"
  "act_then m n s = (case m s of (Inl e, s') \<Rightarrow> (Inl e, s') | (Inr y, s') \<Rightarrow> n s')"
  "act_when b k s = (if b then k s else (Inr (), s))"
  "act_with g w s = w (g s) s"
  "act_modify u s = (Inr (), u s)"
  "act_of r s = (r, s)"
  "act_catch m h s = (case m s of (Inl e, s') \<Rightarrow> h e s' | (Inr y, s') \<Rightarrow> (Inr y, s'))"
  "act_ignore k s = (Inr (), snd (k s))"
  by (auto simp: act_ret_def act_raise_def act_bind_def act_then_def act_when_def act_with_def
      act_modify_def act_of_def act_catch_def act_ignore_def split: prod.split sum.split)

section \<open>Invariants\<close>

definition keeps :: "('s \<Rightarrow> bool) \<Rightarrow> ('s, 'a) act \<Rightarrow> bool" where
  "keeps P m \<longleftrightarrow> (\<forall>s. P s \<longrightarrow> P (snd (m s)))"

lemma keepsD: "keeps P m \<Longrightarrow> P s \<Longrightarrow> P (snd (m s))"
  by (simp add: keeps_def)

section \<open>Relations between the states before and after\<close>

definition moves :: "('s \<Rightarrow> 's \<Rightarrow> bool) \<Rightarrow> ('s, 'a) act \<Rightarrow> bool" where
  "moves R m \<longleftrightarrow> (\<forall>s. R s (snd (m s)))"

lemma movesD: "moves R m \<Longrightarrow> R s (snd (m s))"
  by (simp add: moves_def)

locale step_order =
  fixes R :: "'s \<Rightarrow> 's \<Rightarrow> bool"
  assumes refl: "R s s"
    and trans: "R s t \<Longrightarrow> R t u \<Longrightarrow> R s u"
begin

lemma ret: "moves R (act_ret x)"
  by (simp add: moves_def act_run refl)

lemma raise: "moves R (act_raise e)"
  by (simp add: moves_def act_run refl)

lemma result: "moves R (act_of r)"
  by (simp add: moves_def act_run refl)

lemma modify: "(\<And>s. R s (f s)) \<Longrightarrow> moves R (act_modify f)"
  by (simp add: moves_def act_run)

lemma bind: "moves R m \<Longrightarrow> (\<And>x. moves R (f x)) \<Longrightarrow> moves R (act_bind m f)"
  unfolding moves_def act_run by (auto split: prod.split sum.split intro: trans) (metis snd_conv trans)+

lemma seq2: "moves R m \<Longrightarrow> moves R n \<Longrightarrow> moves R (act_then m n)"
  by (simp add: act_then_def bind)

lemma seq: "(\<And>m. m \<in> set ms \<Longrightarrow> moves R m) \<Longrightarrow> moves R (act_seq ms)"
  by (induction ms) (auto simp: ret intro: seq2)

lemma guarded: "(b \<Longrightarrow> moves R m) \<Longrightarrow> moves R (act_when b m)"
  by (simp add: moves_def act_run refl)

lemma reading: "(\<And>x. moves R (m x)) \<Longrightarrow> moves R (act_with f m)"
  by (simp add: moves_def act_run)

lemma caught: "moves R m \<Longrightarrow> (\<And>e. moves R (h e)) \<Longrightarrow> moves R (act_catch m h)"
  unfolding moves_def act_run by (auto split: prod.split sum.split intro: trans) (metis snd_conv trans)+

lemma ignore: "moves R m \<Longrightarrow> moves R (act_ignore m)"
  by (simp add: moves_def act_run)

lemma for_each: "(\<And>i. i \<in> set js \<Longrightarrow> moves R (m i)) \<Longrightarrow> moves R (act_for js m)"
  by (induction js) (auto simp: ret intro: seq2)

lemma cond: "(b \<Longrightarrow> moves R m) \<Longrightarrow> (\<not> b \<Longrightarrow> moves R n) \<Longrightarrow> moves R (if b then m else n)"
  by simp

lemma option:
  "moves R m \<Longrightarrow> (\<And>x. moves R (n x)) \<Longrightarrow> moves R (case v of None \<Rightarrow> m | Some x \<Rightarrow> n x)"
  by (cases v) simp_all

lemma keeps_of: "moves R m \<Longrightarrow> (\<And>s t. P s \<Longrightarrow> R s t \<Longrightarrow> P t) \<Longrightarrow> keeps P m"
  by (auto simp: keeps_def moves_def)

end

section \<open>Triples\<close>

definition triple ::
  "('s \<Rightarrow> bool) \<Rightarrow> ('s, 'a) act \<Rightarrow> ('a \<Rightarrow> 's \<Rightarrow> bool) \<Rightarrow> (py_exc \<Rightarrow> 's \<Rightarrow> bool) \<Rightarrow> bool" where
  "triple P m Q E \<longleftrightarrow>
     (\<forall>s. P s \<longrightarrow> (case m s of (Inr x, s') \<Rightarrow> Q x s' | (Inl e, s') \<Rightarrow> E e s'))"

lemma triple_ret: "triple (Q x) (act_ret x) Q E"
  by (simp add: triple_def act_run)

lemma triple_raise: "triple (E e) (act_raise e) Q E"
  by (simp add: triple_def act_run)

lemma triple_bind:
  "triple P m R E \<Longrightarrow> (\<And>x. triple (R x) (f x) Q E) \<Longrightarrow> triple P (act_bind m f) Q E"
  unfolding triple_def act_run by (fastforce split: prod.splits sum.splits)

lemma triple_then:
  "triple P m (\<lambda>_. R) E \<Longrightarrow> triple R n Q E \<Longrightarrow> triple P (act_then m n) Q E"
  unfolding act_then_def by (rule triple_bind)

lemma triple_seq_Nil: "triple (Q ()) (act_seq []) Q E"
  by (simp add: triple_ret)

lemma triple_seq_Cons:
  "triple P m (\<lambda>_. R) E \<Longrightarrow> triple R (act_seq ms) Q E \<Longrightarrow> triple P (act_seq (m # ms)) Q E"
  by (simp add: triple_then)

lemma triple_catch:
  "triple P m Q E' \<Longrightarrow> (\<And>e. triple (E' e) (h e) Q E) \<Longrightarrow> triple P (act_catch m h) Q E"
  unfolding triple_def act_run by (fastforce split: prod.splits sum.splits)

lemma triple_weaken:
  "triple P m Q E \<Longrightarrow> (\<And>s. P' s \<Longrightarrow> P s) \<Longrightarrow> (\<And>x s. Q x s \<Longrightarrow> Q' x s) \<Longrightarrow>
     (\<And>e s. E e s \<Longrightarrow> E' e s) \<Longrightarrow> triple P' m Q' E'"
  unfolding triple_def by (fastforce split: prod.splits sum.splits)

lemma triple_value: "triple P m Q E \<Longrightarrow> P s \<Longrightarrow> m s = (Inr x, s') \<Longrightarrow> Q x s'"
  by (force simp: triple_def)

lemma triple_error: "triple P m Q E \<Longrightarrow> P s \<Longrightarrow> m s = (Inl e, s') \<Longrightarrow> E e s'"
  by (force simp: triple_def)

end
