(* ===== verification/RuntimeState.thy ===== *)
theory RuntimeState
  imports Errors
begin

text \<open>
  \<open>runtime/domain/runtime_state.py\<close>: the phase graph of one worker, the canonical runtime
  states with the reasons each allows, and the immutable \<open>RuntimeStatus\<close> with its two
  guarded updates. A guard that raises is an \<open>Inl\<close>.
\<close>

section \<open>States and reasons\<close>


datatype canonical_state =
    CS_DRAFT
  | CS_QUEUED
  | CS_STARTING
  | CS_RUNNING
  | CS_DEGRADED
  | CS_STOPPING
  | CS_STOPPED
  | CS_FAILED
  | CS_PAUSING
  | CS_PAUSED

fun canonical_state_value :: "canonical_state \<Rightarrow> string" where
    "canonical_state_value CS_DRAFT = ''DRAFT''"
  | "canonical_state_value CS_QUEUED = ''QUEUED''"
  | "canonical_state_value CS_STARTING = ''STARTING''"
  | "canonical_state_value CS_RUNNING = ''RUNNING''"
  | "canonical_state_value CS_DEGRADED = ''DEGRADED''"
  | "canonical_state_value CS_STOPPING = ''STOPPING''"
  | "canonical_state_value CS_STOPPED = ''STOPPED''"
  | "canonical_state_value CS_FAILED = ''FAILED''"
  | "canonical_state_value CS_PAUSING = ''PAUSING''"
  | "canonical_state_value CS_PAUSED = ''PAUSED''"

definition all_canonical_state :: "canonical_state list" where
  "all_canonical_state =
     [CS_DRAFT, CS_QUEUED, CS_STARTING,
      CS_RUNNING, CS_DEGRADED, CS_STOPPING,
      CS_STOPPED, CS_FAILED, CS_PAUSING,
      CS_PAUSED]"

datatype canonical_reason =
    CR_LAUNCH_FAILED
  | CR_HEARTBEAT_TIMEOUT
  | CR_STOP_REQUESTED

fun canonical_reason_value :: "canonical_reason \<Rightarrow> string" where
    "canonical_reason_value CR_LAUNCH_FAILED = ''LAUNCH_FAILED''"
  | "canonical_reason_value CR_HEARTBEAT_TIMEOUT = ''HEARTBEAT_TIMEOUT''"
  | "canonical_reason_value CR_STOP_REQUESTED = ''STOP_REQUESTED''"

definition all_canonical_reason :: "canonical_reason list" where
  "all_canonical_reason =
     [CR_LAUNCH_FAILED, CR_HEARTBEAT_TIMEOUT, CR_STOP_REQUESTED]"

record runtime_status =
  local_phase :: worker_phase
  canonical_state :: "canonical_state option"
  reason_code :: "canonical_reason option"

section \<open>The phase graph\<close>

fun ALLOWED_PHASE_TRANSITIONS :: "worker_phase \<Rightarrow> worker_phase set" where
    "ALLOWED_PHASE_TRANSITIONS WP_INITIALIZING = {WP_READY, WP_RUNNING, WP_FAILED, WP_STOPPING}"
  | "ALLOWED_PHASE_TRANSITIONS WP_READY = {WP_RUNNING, WP_STOPPING, WP_FAILED}"
  | "ALLOWED_PHASE_TRANSITIONS WP_RUNNING = {WP_DEGRADED, WP_STOPPING, WP_FAILED}"
  | "ALLOWED_PHASE_TRANSITIONS WP_DEGRADED = {WP_RUNNING, WP_STOPPING, WP_FAILED}"
  | "ALLOWED_PHASE_TRANSITIONS WP_STOPPING = {WP_STOPPED, WP_FAILED, WP_COMPLETED}"
  | "ALLOWED_PHASE_TRANSITIONS WP_STOPPED = {}"
  | "ALLOWED_PHASE_TRANSITIONS WP_COMPLETED = {}"
  | "ALLOWED_PHASE_TRANSITIONS WP_FAILED = {}"

definition TERMINAL_PHASES :: "worker_phase set" where
  "TERMINAL_PHASES = {WP_STOPPED, WP_COMPLETED, WP_FAILED}"

fun LOCAL_TO_DEFAULT_CANONICAL_STATE :: "worker_phase \<Rightarrow> canonical_state" where
    "LOCAL_TO_DEFAULT_CANONICAL_STATE WP_INITIALIZING = CS_STARTING"
  | "LOCAL_TO_DEFAULT_CANONICAL_STATE WP_READY = CS_STARTING"
  | "LOCAL_TO_DEFAULT_CANONICAL_STATE WP_RUNNING = CS_RUNNING"
  | "LOCAL_TO_DEFAULT_CANONICAL_STATE WP_DEGRADED = CS_DEGRADED"
  | "LOCAL_TO_DEFAULT_CANONICAL_STATE WP_STOPPING = CS_STOPPING"
  | "LOCAL_TO_DEFAULT_CANONICAL_STATE WP_STOPPED = CS_STOPPED"
  | "LOCAL_TO_DEFAULT_CANONICAL_STATE WP_COMPLETED = CS_STOPPED"
  | "LOCAL_TO_DEFAULT_CANONICAL_STATE WP_FAILED = CS_FAILED"

definition TERMINAL_CANONICAL_STATES :: "canonical_state set" where
  "TERMINAL_CANONICAL_STATES = {CS_STOPPED, CS_FAILED}"

text \<open>\<open>None\<close> is a state without an entry in the table.\<close>

fun VALID_STATE_REASONS :: "canonical_state \<Rightarrow> canonical_reason set option" where
    "VALID_STATE_REASONS CS_FAILED = Some {CR_LAUNCH_FAILED, CR_HEARTBEAT_TIMEOUT}"
  | "VALID_STATE_REASONS CS_STOPPING = Some {CR_STOP_REQUESTED}"
  | "VALID_STATE_REASONS _ = None"

definition CANONICAL_RUNTIME_STATES :: "string list" where
  "CANONICAL_RUNTIME_STATES = map canonical_state_value all_canonical_state"

definition CANONICAL_RUNTIME_REASONS :: "string list" where
  "CANONICAL_RUNTIME_REASONS = map canonical_reason_value all_canonical_reason"

definition is_terminal_phase :: "worker_phase \<Rightarrow> bool" where
  "is_terminal_phase p \<longleftrightarrow> p \<in> TERMINAL_PHASES"

definition can_transition :: "worker_phase \<Rightarrow> worker_phase \<Rightarrow> bool" where
  "can_transition from_phase to_phase =
     (if from_phase = to_phase then False
      else if is_terminal_phase from_phase then False
      else to_phase \<in> ALLOWED_PHASE_TRANSITIONS from_phase)"

definition validate_transition :: "worker_phase \<Rightarrow> worker_phase \<Rightarrow> py_exc + unit" where
  "validate_transition from_phase to_phase =
     (let err = InvalidWorkerTransitionError (worker_phase_value from_phase) (worker_phase_value to_phase)
      in if from_phase = to_phase then Inl (err ''self_transition_not_allowed'')
         else if is_terminal_phase from_phase
           then Inl (err ''terminal_phase_resurrection_not_allowed'')
         else if to_phase \<notin> ALLOWED_PHASE_TRANSITIONS from_phase
           then Inl (err ''transition_edge_not_allowed'')
         else Inr ())"

definition to_default_canonical_state :: "worker_phase \<Rightarrow> canonical_state" where
  "to_default_canonical_state p = LOCAL_TO_DEFAULT_CANONICAL_STATE p"

definition is_terminal_canonical_state :: "canonical_state \<Rightarrow> bool" where
  "is_terminal_canonical_state st \<longleftrightarrow> st \<in> TERMINAL_CANONICAL_STATES"

definition is_canonical_runtime_state :: "string \<Rightarrow> bool" where
  "is_canonical_runtime_state v \<longleftrightarrow> v \<in> set CANONICAL_RUNTIME_STATES"

definition is_canonical_runtime_reason :: "string \<Rightarrow> bool" where
  "is_canonical_runtime_reason v \<longleftrightarrow> v \<in> set CANONICAL_RUNTIME_REASONS"

definition require_canonical_runtime_state :: "string \<Rightarrow> py_exc + string" where
  "require_canonical_runtime_state v =
     (if v \<notin> set CANONICAL_RUNTIME_STATES
      then Inl (ValueExc ''ValueError'' (''Non-canonical runtime state: '' @ v) None) else Inr v)"

definition require_canonical_runtime_reason :: "string \<Rightarrow> py_exc + string" where
  "require_canonical_runtime_reason v =
     (if v \<notin> set CANONICAL_RUNTIME_REASONS
      then Inl (ValueExc ''ValueError'' (''Non-canonical runtime reason: '' @ v) None) else Inr v)"

definition reason_not_allowed :: "canonical_reason \<Rightarrow> canonical_state \<Rightarrow> py_exc" where
  "reason_not_allowed r st =
     ValueExc ''ValueError''
       (''Reason '' @ canonical_reason_value r @ '' is not allowed for runtime state '' @
        canonical_state_value st) None"

definition validate_state_reason_pair ::
  "canonical_state \<Rightarrow> canonical_reason option \<Rightarrow> py_exc + unit" where
  "validate_state_reason_pair st reason =
     (case VALID_STATE_REASONS st of
        None \<Rightarrow>
          (case reason of
             Some r \<Rightarrow> Inl (reason_not_allowed r st)
           | None \<Rightarrow> Inr ())
      | Some allowed \<Rightarrow>
          (case reason of
             None \<Rightarrow>
               Inl (ValueExc ''ValueError''
                 (''Runtime state '' @ canonical_state_value st @ '' requires a canonical reason'') None)
           | Some r \<Rightarrow>
               if r \<notin> allowed then Inl (reason_not_allowed r st) else Inr ()))"

section \<open>The status\<close>

definition with_local_phase :: "runtime_status \<Rightarrow> worker_phase \<Rightarrow> py_exc + runtime_status" where
  "with_local_phase s phase =
     rbind (validate_transition (local_phase s) phase) (\<lambda>_. Inr (s\<lparr>local_phase := phase\<rparr>))"

definition with_canonical_state ::
  "runtime_status \<Rightarrow> canonical_state \<Rightarrow> canonical_reason option \<Rightarrow> py_exc + runtime_status" where
  "with_canonical_state s st reason =
     rbind (validate_state_reason_pair st reason)
       (\<lambda>_. Inr (s\<lparr>canonical_state := Some st, reason_code := reason\<rparr>))"

definition build_runtime_status ::
  "worker_phase \<Rightarrow> canonical_state option \<Rightarrow> canonical_reason option \<Rightarrow> py_exc + runtime_status" where
  "build_runtime_status phase st reason =
     rbind
       (case st of
          Some c \<Rightarrow> validate_state_reason_pair c reason
        | None \<Rightarrow>
            if reason \<noteq> None
            then Inl (ValueExc ''ValueError'' ''reason_code cannot be set without canonical_state'' None)
            else Inr ())
       (\<lambda>_. Inr \<lparr>local_phase = phase, canonical_state = st, reason_code = reason\<rparr>)"

text \<open>
  A status is immutable, so its life is a sequence of updates, each applied to the last
  status that was built; an update that raises leaves that status in place.
\<close>

datatype status_op = SetPhase worker_phase | SetCanonical canonical_state "canonical_reason option"

fun apply_status_op :: "runtime_status \<Rightarrow> status_op \<Rightarrow> py_exc + runtime_status" where
    "apply_status_op s (SetPhase p) = with_local_phase s p"
  | "apply_status_op s (SetCanonical st r) = with_canonical_state s st r"

fun run_status_ops :: "runtime_status \<Rightarrow> status_op list \<Rightarrow> runtime_status" where
    "run_status_ops s [] = s"
  | "run_status_ops s (x # xs) =
       run_status_ops (case apply_status_op s x of Inl _ \<Rightarrow> s | Inr s' \<Rightarrow> s') xs"

section \<open>Lemmas\<close>

definition status_inv :: "runtime_status \<Rightarrow> bool" where
  "status_inv s \<longleftrightarrow>
     (case canonical_state s of
        None \<Rightarrow> reason_code s = None
      | Some st \<Rightarrow> validate_state_reason_pair st (reason_code s) = Inr ())"

inductive phase_step :: "worker_phase \<Rightarrow> worker_phase \<Rightarrow> bool" where
  step: "validate_transition p q = Inr () \<Longrightarrow> phase_step p q"

inductive_simps phase_step_iff: "phase_step p q"

lemma validate_transition_ok: "validate_transition p q = Inr () \<longleftrightarrow> can_transition p q"
  by (auto simp: validate_transition_def can_transition_def Let_def)

lemma can_transition_edges:
  "can_transition p q \<longleftrightarrow> q \<in> ALLOWED_PHASE_TRANSITIONS p"
  by (cases p) (auto simp: can_transition_def is_terminal_phase_def TERMINAL_PHASES_def)

lemmas phase_step_edges = phase_step_iff validate_transition_ok can_transition_edges

lemma phase_step_terminal: "phase_step p q \<Longrightarrow> \<not> is_terminal_phase p"
  by (auto simp: phase_step_iff validate_transition_ok can_transition_def split: if_splits)

lemma with_local_phase_step: "with_local_phase s p = Inr s' \<Longrightarrow> phase_step (local_phase s) (local_phase s')"
  by (auto simp: with_local_phase_def result_simps phase_step_iff)

lemma apply_status_op_inv: "status_inv s \<Longrightarrow> apply_status_op s x = Inr s' \<Longrightarrow> status_inv s'"
  by (cases x) (auto simp: status_inv_def with_local_phase_def with_canonical_state_def result_simps
      split: option.splits)

lemma run_status_ops_inv: "status_inv s \<Longrightarrow> status_inv (run_status_ops s xs)"
  by (induction xs arbitrary: s) (auto split: sum.splits dest: apply_status_op_inv)

lemma build_runtime_status_inv: "build_runtime_status p st r = Inr s \<Longrightarrow> status_inv s"
  by (auto simp: build_runtime_status_def status_inv_def result_simps split: option.splits if_splits)

lemma apply_status_op_phase:
  "apply_status_op s x = Inr s' \<Longrightarrow> phase_step\<^sup>*\<^sup>* (local_phase s) (local_phase s')"
  by (cases x) (auto dest: with_local_phase_step simp: with_canonical_state_def result_simps)

lemma run_status_ops_phase: "phase_step\<^sup>*\<^sup>* (local_phase s) (local_phase (run_status_ops s xs))"
proof (induction xs arbitrary: s)
  case Nil
  then show ?case by simp
next
  case (Cons x xs)
  show ?case
  proof (cases "apply_status_op s x")
    case (Inl e)
    then show ?thesis using Cons.IH [of s] by simp
  next
    case (Inr s')
    then show ?thesis using Cons.IH [of s'] apply_status_op_phase [OF Inr] by simp
  qed
qed

lemma phase_steps_terminal: "phase_step\<^sup>*\<^sup>* p q \<Longrightarrow> is_terminal_phase p \<Longrightarrow> q = p"
  by (induction rule: converse_rtranclp_induct) (auto dest: phase_step_terminal)

lemma phase_steps_stopping:
  "phase_step\<^sup>*\<^sup>* p q \<Longrightarrow> p \<in> insert WP_STOPPING TERMINAL_PHASES \<Longrightarrow> q \<in> insert WP_STOPPING TERMINAL_PHASES"
  by (induction rule: rtranclp_induct) (auto simp: phase_step_edges TERMINAL_PHASES_def)

text \<open>A rank that every edge raises except the two between \<open>RUNNING\<close> and \<open>DEGRADED\<close>.\<close>

fun phase_rank :: "worker_phase \<Rightarrow> nat" where
    "phase_rank WP_INITIALIZING = 0"
  | "phase_rank WP_READY = 1"
  | "phase_rank WP_RUNNING = 2"
  | "phase_rank WP_DEGRADED = 2"
  | "phase_rank WP_STOPPING = 3"
  | "phase_rank _ = 4"

lemma phase_step_rank: "phase_step p q \<Longrightarrow> phase_rank p \<le> phase_rank q \<and> (phase_rank p = phase_rank q \<longrightarrow> phase_rank p = 2)"
  by (cases p) (auto simp: phase_step_edges)

lemma phase_steps_rank:
  "phase_step\<^sup>+\<^sup>+ p q \<Longrightarrow> phase_rank p \<le> phase_rank q \<and> (phase_rank p = phase_rank q \<longrightarrow> phase_rank p = 2)"
proof (induction rule: tranclp_induct)
  case (base q)
  then show ?case by (rule phase_step_rank)
next
  case (step q r)
  then show ?case using phase_step_rank [of q r] by auto
qed

section \<open>Properties\<close>

text \<open>
  Whatever sequence of updates a status goes through, accepted or refused, a status that
  was built carries a reason exactly when its canonical state demands one, and then one that
  the state allows.
\<close>

lemma status_reason_invariant:
  assumes "build_runtime_status phase st reason = Inr s"
  shows "case canonical_state (run_status_ops s xs) of
           None \<Rightarrow> reason_code (run_status_ops s xs) = None
         | Some c \<Rightarrow>
             (case VALID_STATE_REASONS c of
                None \<Rightarrow> reason_code (run_status_ops s xs) = None
              | Some allowed \<Rightarrow> \<exists>r \<in> allowed. reason_code (run_status_ops s xs) = Some r)"
  using run_status_ops_inv [OF build_runtime_status_inv [OF assms], of xs]
  by (auto simp: status_inv_def validate_state_reason_pair_def split: option.splits if_splits)

theorem status_reason_invariant_witness:
  "reason_code (run_status_ops
     \<lparr>local_phase = WP_RUNNING, canonical_state = Some CS_RUNNING, reason_code = None\<rparr>
     [SetPhase WP_STOPPING, SetCanonical CS_STOPPING (Some CR_STOP_REQUESTED),
      SetCanonical CS_FAILED None]) = Some CR_STOP_REQUESTED"
  using status_reason_invariant
    [of WP_RUNNING "Some CS_RUNNING" None
        "\<lparr>local_phase = WP_RUNNING, canonical_state = Some CS_RUNNING, reason_code = None\<rparr>"
        "[SetPhase WP_STOPPING, SetCanonical CS_STOPPING (Some CR_STOP_REQUESTED),
          SetCanonical CS_FAILED None]"]
  by (simp add: build_runtime_status_def with_local_phase_def with_canonical_state_def
      validate_state_reason_pair_def validate_transition_def is_terminal_phase_def
      TERMINAL_PHASES_def Let_def)

text \<open>
  Along any sequence of status updates the phase only moves along the graph: a terminal
  phase is never left, and a worker that is stopping can only stop, fail or complete.
\<close>

lemma terminal_and_stopping_phases:
  "(is_terminal_phase (local_phase s) \<longrightarrow> local_phase (run_status_ops s xs) = local_phase s) \<and>
   (local_phase s = WP_STOPPING \<longrightarrow>
      local_phase (run_status_ops s xs) \<in> {WP_STOPPING, WP_STOPPED, WP_COMPLETED, WP_FAILED})"
  using phase_steps_terminal [OF run_status_ops_phase] phase_steps_stopping [OF run_status_ops_phase, of s xs]
  by (auto simp: TERMINAL_PHASES_def)

theorem terminal_and_stopping_phases_witness:
  "local_phase (run_status_ops
     \<lparr>local_phase = WP_FAILED, canonical_state = None, reason_code = None\<rparr>
     [SetPhase WP_STOPPING, SetPhase WP_STOPPED]) = WP_FAILED"
  using terminal_and_stopping_phases
    [of "\<lparr>local_phase = WP_FAILED, canonical_state = None, reason_code = None\<rparr>"
        "[SetPhase WP_STOPPING, SetPhase WP_STOPPED]"]
  by (simp add: is_terminal_phase_def TERMINAL_PHASES_def)

text \<open>
  No phase that is not terminal is a dead end (each terminal phase can be reached from
  it by validated transitions), and the graph's only cycle is the one between
  \<open>RUNNING\<close> and \<open>DEGRADED\<close>.
\<close>

lemma phase_graph_progress:
  "(\<not> is_terminal_phase p \<and> is_terminal_phase q \<longrightarrow> phase_step\<^sup>+\<^sup>+ p q) \<and>
   (phase_step\<^sup>+\<^sup>+ p p \<longleftrightarrow> p \<in> {WP_RUNNING, WP_DEGRADED})"
proof (intro conjI impI)
  assume pq: "\<not> is_terminal_phase p \<and> is_terminal_phase q"
  then have q: "phase_step WP_STOPPING q"
    by (auto simp: phase_step_edges is_terminal_phase_def TERMINAL_PHASES_def)
  show "phase_step\<^sup>+\<^sup>+ p q"
  proof (cases "p = WP_STOPPING")
    case True
    then show ?thesis using q by blast
  next
    case False
    with pq have "phase_step p WP_STOPPING"
      by (cases p) (auto simp: phase_step_edges is_terminal_phase_def TERMINAL_PHASES_def)
    then show ?thesis using q by (meson tranclp.simps)
  qed
next
  have "phase_step WP_RUNNING WP_DEGRADED" "phase_step WP_DEGRADED WP_RUNNING"
    by (simp_all add: phase_step_edges)
  then have "phase_step\<^sup>+\<^sup>+ p p" if "p \<in> {WP_RUNNING, WP_DEGRADED}"
    using that by (auto intro: tranclp.intros)
  moreover have "p \<in> {WP_RUNNING, WP_DEGRADED}" if "phase_step\<^sup>+\<^sup>+ p p"
    using phase_steps_rank [OF that] by (cases p) auto
  ultimately show "phase_step\<^sup>+\<^sup>+ p p \<longleftrightarrow> p \<in> {WP_RUNNING, WP_DEGRADED}" by blast
qed

theorem phase_graph_progress_witness: "phase_step\<^sup>+\<^sup>+ WP_READY WP_COMPLETED"
  using phase_graph_progress [of WP_READY WP_COMPLETED]
  by (simp add: is_terminal_phase_def TERMINAL_PHASES_def)

end
