(* ===== verification/Identity.thy ===== *)
theory Identity
  imports RuntimeState
begin

text \<open>
  \<open>runtime/domain/worker_identity.py\<close> and \<open>runtime/domain/launch_context.py\<close>: the two frozen
  dataclasses a launch is described with. A construction is a function from the arguments to an
  error or the normalised value; its checks come in the order of \<open>__post_init__\<close>. The type
  parameter of the records is the mode: a string before the enum conversion, a \<open>runtime_mode\<close>
  after it. The locale \<open>text_fields\<close> states what both classes rely on in their field helpers.
\<close>

section \<open>Field helpers\<close>

definition require_non_empty ::
  "(string \<Rightarrow> string \<Rightarrow> py_exc) \<Rightarrow> string \<Rightarrow> string \<Rightarrow> py_exc + string" where
  "require_non_empty exc value field_name =
     (let normalized = py_strip value
      in if normalized = [] then Inl (exc field_name ''must_not_be_blank'') else Inr normalized)"

definition normalize_optional ::
  "(string \<Rightarrow> string \<Rightarrow> py_exc) \<Rightarrow> string option \<Rightarrow> string \<Rightarrow> py_exc + string option" where
  "normalize_optional exc value field_name =
     (case value of
        None \<Rightarrow> Inr None
      | Some v \<Rightarrow>
          (let normalized = py_strip v
           in if normalized = [] then Inl (exc field_name ''must_not_be_blank_if_provided'')
              else Inr (Some normalized)))"

text \<open>A field value that the helpers leave alone.\<close>

definition clean :: "string \<Rightarrow> bool" where
  "clean s \<longleftrightarrow> s \<noteq> [] \<and> py_strip s = s"

definition clean_opt :: "string option \<Rightarrow> bool" where
  "clean_opt x \<longleftrightarrow> (\<forall>s. x = Some s \<longrightarrow> clean s)"

definition blank :: "string \<Rightarrow> bool" where
  "blank s \<longleftrightarrow> py_strip s = []"

definition blank_opt :: "string option \<Rightarrow> bool" where
  "blank_opt x = (case x of None \<Rightarrow> False | Some s \<Rightarrow> blank s)"

locale text_fields =
  fixes req :: "string \<Rightarrow> string \<Rightarrow> py_exc + string"
    and opt :: "string option \<Rightarrow> string \<Rightarrow> py_exc + string option"
  assumes req_ok: "req v f = Inr w \<longleftrightarrow> \<not> blank v \<and> w = py_strip v"
    and opt_ok: "opt x f = Inr y \<longleftrightarrow> \<not> blank_opt x \<and> y = map_option py_strip x"
begin

lemma req_clean: "req v f = Inr w \<Longrightarrow> clean w"
  by (auto simp: req_ok clean_def blank_def)

lemma opt_clean: "opt x f = Inr y \<Longrightarrow> clean_opt y"
  by (auto simp: opt_ok clean_opt_def clean_def blank_opt_def blank_def)

lemma req_fixed: "clean v \<Longrightarrow> req v f = Inr v"
  by (simp add: req_ok clean_def blank_def)

lemma opt_fixed: "clean_opt x \<Longrightarrow> opt x f = Inr x"
  by (cases x) (auto simp: opt_ok clean_opt_def clean_def blank_opt_def blank_def)

lemma req_None: "(\<exists>w. req v f = Inr w) \<longleftrightarrow> \<not> blank v"
  by (simp add: req_ok)

lemma opt_None: "(\<exists>w. opt v f = Inr w) \<longleftrightarrow> \<not> blank_opt v"
  by (simp add: opt_ok)

end

lemma helpers_ok:
  "require_non_empty e v f = Inr w \<longleftrightarrow> \<not> blank v \<and> w = py_strip v"
  "normalize_optional e x f = Inr y \<longleftrightarrow> \<not> blank_opt x \<and> y = map_option py_strip x"
  by (auto simp: require_non_empty_def normalize_optional_def blank_def blank_opt_def Let_def
        split: option.splits)

lemma clean_strip: "\<not> blank v \<Longrightarrow> clean (py_strip v)"
  by (simp add: clean_def blank_def)

lemma clean_opt_strip: "\<not> blank_opt x \<Longrightarrow> clean_opt (map_option py_strip x)"
  by (cases x) (simp_all add: clean_opt_def clean_def blank_opt_def blank_def)

lemma blank_opt_simps [simp]: "\<not> blank_opt None" "blank_opt (Some v) \<longleftrightarrow> blank v"
  by (simp_all add: blank_opt_def)

lemma clean_simps [simp]:
  "clean v \<Longrightarrow> py_strip v = v" "clean v \<Longrightarrow> \<not> blank v" "clean v \<Longrightarrow> v \<noteq> []"
  "clean_opt x \<Longrightarrow> \<not> blank_opt x" "clean_opt x \<Longrightarrow> map_option py_strip x = x"
  "clean_opt None" "clean_opt (Some v) \<longleftrightarrow> clean v"
  by (cases x; simp add: clean_def blank_def clean_opt_def blank_opt_def)+

section \<open>WorkerIdentity\<close>

record 'm worker_identity =
  wi_runtime_id :: string
  wi_tenant_id :: string
  wi_strategy_version_id :: string
  wi_mode :: 'm
  wi_trader_id :: "string option"
  wi_account_id :: "string option"
  wi_validated_parameter_identity :: "string option"
  wi_artifact_reference :: "string option"
  wi_artifact_uri :: string
  wi_artifact_digest :: "string option"
  wi_entrypoint :: string
  wi_launch_attempt :: int

definition wi_require_non_empty :: "string \<Rightarrow> string \<Rightarrow> py_exc + string" where
  "wi_require_non_empty = require_non_empty MalformedWorkerIdentityError"

definition wi_normalize_optional :: "string option \<Rightarrow> string \<Rightarrow> py_exc + string option" where
  "wi_normalize_optional = normalize_optional MalformedWorkerIdentityError"

definition uri_candidate :: "string \<Rightarrow> string option \<Rightarrow> string" where
  "uri_candidate artifact_uri artifact_reference =
     (let cand = py_strip artifact_uri
      in case artifact_reference of
           None \<Rightarrow> cand
         | Some r \<Rightarrow>
             if cand = [] \<and> r \<noteq> [] then
               (let ref_cand = py_strip r in if ref_cand \<noteq> [] then ref_cand else cand)
             else cand)"

definition make_worker_identity :: "string worker_identity \<Rightarrow> py_exc + runtime_mode worker_identity" where
  "make_worker_identity a =
     rbind (wi_require_non_empty (wi_runtime_id a) ''runtime_id'') (\<lambda>runtime_id.
     rbind (wi_require_non_empty (wi_strategy_version_id a) ''strategy_version_id'') (\<lambda>version.
     rbind (wi_require_non_empty (uri_candidate (wi_artifact_uri a) (wi_artifact_reference a))
              ''artifact_uri'') (\<lambda>uri.
     rbind (wi_require_non_empty (wi_entrypoint a) ''entrypoint'') (\<lambda>entry.
     rbind (wi_normalize_optional (wi_trader_id a) ''trader_id'') (\<lambda>trader.
     rbind (wi_normalize_optional (wi_account_id a) ''account_id'') (\<lambda>account.
     rbind (wi_normalize_optional (wi_validated_parameter_identity a)
              ''validated_parameter_identity'') (\<lambda>param.
     rbind (wi_normalize_optional (wi_artifact_reference a) ''artifact_reference'') (\<lambda>reference.
     rbind (wi_normalize_optional (wi_artifact_digest a) ''artifact_digest'') (\<lambda>digest.
     (case enum_parse all_runtime_mode runtime_mode_value (wi_mode a) of
        None \<Rightarrow> Inl (MalformedWorkerIdentityError ''mode'' (''invalid_mode:'' @ wi_mode a))
      | Some mode \<Rightarrow>
          if (trader \<noteq> None) = (account \<noteq> None) then
            Inl (SingleAssignmentViolationError ''exactly_one_of_trader_id_or_account_id_required'')
          else if wi_launch_attempt a < 1 then
            Inl (MalformedWorkerIdentityError ''launch_attempt'' ''must_be_greater_or_equal_to_1'')
          else Inr
            \<lparr>wi_runtime_id = runtime_id, wi_tenant_id = py_strip (wi_tenant_id a),
             wi_strategy_version_id = version, wi_mode = mode, wi_trader_id = trader,
             wi_account_id = account, wi_validated_parameter_identity = param,
             wi_artifact_reference = reference, wi_artifact_uri = uri,
             wi_artifact_digest = digest, wi_entrypoint = entry,
             wi_launch_attempt = wi_launch_attempt a\<rparr>))))))))))"

definition wi_to_dict :: "runtime_mode worker_identity \<Rightarrow> pydict" where
  "wi_to_dict w =
     [(''runtime_id'', VStr (wi_runtime_id w)), (''tenant_id'', VStr (wi_tenant_id w)),
      (''strategy_version_id'', VStr (wi_strategy_version_id w)),
      (''mode'', VStr (runtime_mode_value (wi_mode w))),
      (''trader_id'', opt_str (wi_trader_id w)), (''account_id'', opt_str (wi_account_id w)),
      (''validated_parameter_identity'', opt_str (wi_validated_parameter_identity w)),
      (''artifact_reference'', opt_str (wi_artifact_reference w)),
      (''artifact_uri'', VStr (wi_artifact_uri w)),
      (''artifact_digest'', opt_str (wi_artifact_digest w)),
      (''entrypoint'', VStr (wi_entrypoint w)),
      (''launch_attempt'', VInt (wi_launch_attempt w))]"

text \<open>The arguments that rebuild a record, e.g. what \<open>dataclasses.replace\<close> passes.\<close>

definition wi_args :: "runtime_mode worker_identity \<Rightarrow> string worker_identity" where
  "wi_args w =
     \<lparr>wi_runtime_id = wi_runtime_id w, wi_tenant_id = wi_tenant_id w,
      wi_strategy_version_id = wi_strategy_version_id w,
      wi_mode = runtime_mode_value (wi_mode w), wi_trader_id = wi_trader_id w,
      wi_account_id = wi_account_id w,
      wi_validated_parameter_identity = wi_validated_parameter_identity w,
      wi_artifact_reference = wi_artifact_reference w, wi_artifact_uri = wi_artifact_uri w,
      wi_artifact_digest = wi_artifact_digest w, wi_entrypoint = wi_entrypoint w,
      wi_launch_attempt = wi_launch_attempt w\<rparr>"

text \<open>The invariant of every constructed identity.\<close>

definition wi_inv :: "runtime_mode worker_identity \<Rightarrow> bool" where
  "wi_inv w \<longleftrightarrow>
     clean (wi_runtime_id w) \<and> clean (wi_strategy_version_id w) \<and> clean (wi_artifact_uri w) \<and>
     clean (wi_entrypoint w) \<and> py_strip (wi_tenant_id w) = wi_tenant_id w \<and>
     clean_opt (wi_trader_id w) \<and> clean_opt (wi_account_id w) \<and>
     clean_opt (wi_validated_parameter_identity w) \<and> clean_opt (wi_artifact_reference w) \<and>
     clean_opt (wi_artifact_digest w) \<and>
     (wi_trader_id w = None \<longleftrightarrow> wi_account_id w \<noteq> None) \<and> 1 \<le> wi_launch_attempt w"

section \<open>LaunchContext\<close>

record 'm launch_context =
  lc_runtime_id :: string
  lc_tenant_id :: string
  lc_strategy_version_id :: string
  lc_mode :: 'm
  lc_artifact_uri :: string
  lc_entrypoint :: string
  lc_launch_attempt :: int
  lc_parameter_hash :: "string option"
  lc_artifact_reference :: "string option"
  lc_trader_id :: "string option"
  lc_account_id :: "string option"
  lc_artifact_digest :: "string option"
  lc_job_id :: "string option"
  lc_ts_start :: "string option"
  lc_ts_end :: "string option"
  lc_correlation_id :: "string option"

definition lc_require_non_empty :: "string \<Rightarrow> string \<Rightarrow> py_exc + string" where
  "lc_require_non_empty = require_non_empty InvalidLaunchContextError"

definition lc_normalize_optional :: "string option \<Rightarrow> string \<Rightarrow> py_exc + string option" where
  "lc_normalize_optional = normalize_optional InvalidLaunchContextError"

text \<open>The checks on the assembled fields that end \<open>__post_init__\<close>.\<close>

definition lc_scope_checks :: "runtime_mode launch_context \<Rightarrow> py_exc + runtime_mode launch_context" where
  "lc_scope_checks c =
     (if lc_launch_attempt c < 1 then
        Inl (InvalidLaunchContextError ''launch_attempt'' ''must_be_greater_or_equal_to_1'')
      else if (lc_trader_id c \<noteq> None) = (lc_account_id c \<noteq> None) then
        Inl (InvalidLaunchContextError ''scope'' ''exactly_one_of_trader_id_or_account_id_required'')
      else if lc_mode c \<noteq> BACKTEST \<and> lc_job_id c \<noteq> None then
        Inl (InvalidLaunchContextError ''job_id'' ''only_allowed_for_backtest_mode'')
      else if lc_mode c \<noteq> BACKTEST \<and> (lc_ts_start c \<noteq> None \<or> lc_ts_end c \<noteq> None) then
        Inl (InvalidLaunchContextError ''parameters'' ''ts_start_ts_end_only_allowed_for_backtest_mode'')
      else if lc_mode c = BACKTEST \<and> (lc_ts_start c = None \<or> lc_ts_end c = None) then
        Inl (InvalidLaunchContextError ''parameters'' ''ts_start_and_ts_end_required_for_backtest_mode'')
      else Inr c)"

definition make_launch_context :: "string launch_context \<Rightarrow> py_exc + runtime_mode launch_context" where
  "make_launch_context a =
     rbind (lc_require_non_empty (lc_runtime_id a) ''runtime_id'') (\<lambda>runtime_id.
     rbind (lc_require_non_empty (lc_strategy_version_id a) ''strategy_version_id'') (\<lambda>version.
     rbind (lc_require_non_empty (lc_artifact_uri a) ''artifact_uri'') (\<lambda>uri.
     rbind (lc_normalize_optional (lc_parameter_hash a) ''parameter_hash'') (\<lambda>param.
     rbind (lc_normalize_optional (lc_artifact_reference a) ''artifact_reference'') (\<lambda>reference.
     rbind (lc_require_non_empty (lc_entrypoint a) ''entrypoint'') (\<lambda>entry.
     rbind (lc_normalize_optional (lc_trader_id a) ''trader_id'') (\<lambda>trader.
     rbind (lc_normalize_optional (lc_account_id a) ''account_id'') (\<lambda>account.
     rbind (lc_normalize_optional (lc_artifact_digest a) ''artifact_digest'') (\<lambda>digest.
     rbind (lc_normalize_optional (lc_job_id a) ''job_id'') (\<lambda>job.
     rbind (lc_normalize_optional (lc_ts_start a) ''ts_start'') (\<lambda>ts_start.
     rbind (lc_normalize_optional (lc_ts_end a) ''ts_end'') (\<lambda>ts_end.
     rbind (lc_normalize_optional (lc_correlation_id a) ''correlation_id'') (\<lambda>corr.
     (case enum_parse all_runtime_mode runtime_mode_value (lc_mode a) of
        None \<Rightarrow> Inl (InvalidLaunchContextError ''mode'' (''invalid_mode:'' @ lc_mode a))
      | Some mode \<Rightarrow>
          lc_scope_checks
            \<lparr>lc_runtime_id = runtime_id, lc_tenant_id = py_strip (lc_tenant_id a),
             lc_strategy_version_id = version, lc_mode = mode, lc_artifact_uri = uri,
             lc_entrypoint = entry, lc_launch_attempt = lc_launch_attempt a,
             lc_parameter_hash = param,
             lc_artifact_reference = (case reference of None \<Rightarrow> Some uri | Some r \<Rightarrow> Some r),
             lc_trader_id = trader, lc_account_id = account, lc_artifact_digest = digest,
             lc_job_id = job, lc_ts_start = ts_start, lc_ts_end = ts_end,
             lc_correlation_id = corr\<rparr>))))))))))))))"

definition lc_identity_args :: "runtime_mode launch_context \<Rightarrow> string worker_identity" where
  "lc_identity_args c =
     \<lparr>wi_runtime_id = lc_runtime_id c, wi_tenant_id = lc_tenant_id c,
      wi_strategy_version_id = lc_strategy_version_id c,
      wi_mode = runtime_mode_value (lc_mode c), wi_trader_id = lc_trader_id c,
      wi_account_id = lc_account_id c,
      wi_validated_parameter_identity = lc_parameter_hash c,
      wi_artifact_reference = lc_artifact_reference c, wi_artifact_uri = lc_artifact_uri c,
      wi_artifact_digest = lc_artifact_digest c, wi_entrypoint = lc_entrypoint c,
      wi_launch_attempt = lc_launch_attempt c\<rparr>"

definition to_worker_identity :: "runtime_mode launch_context \<Rightarrow> py_exc + runtime_mode worker_identity" where
  "to_worker_identity c = make_worker_identity (lc_identity_args c)"

definition lc_to_dict :: "runtime_mode launch_context \<Rightarrow> pydict" where
  "lc_to_dict c =
     [(''runtime_id'', VStr (lc_runtime_id c)), (''tenant_id'', VStr (lc_tenant_id c)),
      (''trader_id'', opt_str (lc_trader_id c)), (''account_id'', opt_str (lc_account_id c)),
      (''strategy_version_id'', VStr (lc_strategy_version_id c)),
      (''mode'', VStr (runtime_mode_value (lc_mode c))),
      (''artifact_uri'', VStr (lc_artifact_uri c)),
      (''artifact_reference'', opt_str (lc_artifact_reference c)),
      (''parameter_hash'', opt_str (lc_parameter_hash c)),
      (''artifact_digest'', opt_str (lc_artifact_digest c)),
      (''entrypoint'', VStr (lc_entrypoint c)),
      (''launch_attempt'', VInt (lc_launch_attempt c)), (''job_id'', opt_str (lc_job_id c)),
      (''ts_start'', opt_str (lc_ts_start c)), (''ts_end'', opt_str (lc_ts_end c)),
      (''correlation_id'', opt_str (lc_correlation_id c))]"

text \<open>What an accepted set of arguments looks like, without the order of the checks.\<close>

definition lc_accepts :: "string launch_context \<Rightarrow> bool" where
  "lc_accepts a \<longleftrightarrow>
     \<not> blank (lc_runtime_id a) \<and> \<not> blank (lc_strategy_version_id a) \<and> \<not> blank (lc_artifact_uri a) \<and>
     \<not> blank (lc_entrypoint a) \<and>
     list_all (\<lambda>x. \<not> blank_opt x)
       [lc_parameter_hash a, lc_artifact_reference a, lc_trader_id a, lc_account_id a,
        lc_artifact_digest a, lc_job_id a, lc_ts_start a, lc_ts_end a, lc_correlation_id a] \<and>
     1 \<le> lc_launch_attempt a \<and> (lc_trader_id a = None \<longleftrightarrow> lc_account_id a \<noteq> None) \<and>
     (if lc_mode a = ''BACKTEST'' then lc_ts_start a \<noteq> None \<and> lc_ts_end a \<noteq> None
      else lc_mode a \<in> {''PAPER'', ''LIVE''} \<and> lc_job_id a = None \<and>
           lc_ts_start a = None \<and> lc_ts_end a = None)"

definition lc_inv :: "runtime_mode launch_context \<Rightarrow> bool" where
  "lc_inv c \<longleftrightarrow>
     clean (lc_runtime_id c) \<and> clean (lc_strategy_version_id c) \<and> clean (lc_artifact_uri c) \<and>
     clean (lc_entrypoint c) \<and> py_strip (lc_tenant_id c) = lc_tenant_id c \<and>
     clean_opt (lc_parameter_hash c) \<and> clean_opt (lc_artifact_reference c) \<and>
     lc_artifact_reference c \<noteq> None \<and> clean_opt (lc_trader_id c) \<and> clean_opt (lc_account_id c) \<and>
     clean_opt (lc_artifact_digest c) \<and> clean_opt (lc_job_id c) \<and> clean_opt (lc_ts_start c) \<and>
     clean_opt (lc_ts_end c) \<and> clean_opt (lc_correlation_id c) \<and> 1 \<le> lc_launch_attempt c \<and>
     (lc_trader_id c = None \<longleftrightarrow> lc_account_id c \<noteq> None) \<and>
     (if lc_mode c = BACKTEST then lc_ts_start c \<noteq> None \<and> lc_ts_end c \<noteq> None
      else lc_job_id c = None \<and> lc_ts_start c = None \<and> lc_ts_end c = None)"

section \<open>Lemmas\<close>

interpretation wi_fields: text_fields wi_require_non_empty wi_normalize_optional
  by unfold_locales (simp_all add: wi_require_non_empty_def wi_normalize_optional_def helpers_ok)

interpretation lc_fields: text_fields lc_require_non_empty lc_normalize_optional
  by unfold_locales (simp_all add: lc_require_non_empty_def lc_normalize_optional_def helpers_ok)

lemma mode_parse_Some: "enum_parse all_runtime_mode runtime_mode_value s = Some m \<longleftrightarrow> s = runtime_mode_value m"
  by (rule mode_enum.parse_Some)

lemma mode_value_strings:
  "runtime_mode_value m = ''BACKTEST'' \<longleftrightarrow> m = BACKTEST"
  "s \<in> {''PAPER'', ''LIVE''} \<longleftrightarrow> (\<exists>m. m \<noteq> BACKTEST \<and> s = runtime_mode_value m)"
proof -
  show "runtime_mode_value m = ''BACKTEST'' \<longleftrightarrow> m = BACKTEST" by (cases m) simp_all
  show "s \<in> {''PAPER'', ''LIVE''} \<longleftrightarrow> (\<exists>m. m \<noteq> BACKTEST \<and> s = runtime_mode_value m)"
  proof
    assume "s \<in> {''PAPER'', ''LIVE''}"
    then have "s = runtime_mode_value PAPER \<or> s = runtime_mode_value LIVE" by simp
    then show "\<exists>m. m \<noteq> BACKTEST \<and> s = runtime_mode_value m"
      by (metis runtime_mode.distinct(4) runtime_mode.distinct(6))
  next
    assume "\<exists>m. m \<noteq> BACKTEST \<and> s = runtime_mode_value m"
    then obtain m where "m \<noteq> BACKTEST" and "s = runtime_mode_value m" by blast
    then show "s \<in> {''PAPER'', ''LIVE''}" by (cases m) simp_all
  qed
qed

lemma make_worker_identity_inv: "make_worker_identity a = Inr w \<Longrightarrow> wi_inv w"
  by (auto simp: make_worker_identity_def wi_inv_def result_simps wi_fields.req_ok
      wi_fields.opt_ok clean_strip clean_opt_strip split: option.splits if_splits)

lemma make_worker_identity_fixed:
  assumes "wi_inv w"
  shows "make_worker_identity (wi_args w) = Inr w"
proof -
  have "uri_candidate (wi_artifact_uri w) (wi_artifact_reference w) = wi_artifact_uri w"
    using assms by (auto simp: uri_candidate_def wi_inv_def Let_def split: option.splits)
  then show ?thesis
    using assms by (auto simp: make_worker_identity_def wi_args_def wi_inv_def
        wi_fields.req_fixed wi_fields.opt_fixed mode_enum.parse_value)
qed

lemma lc_scope_checks_ok: "lc_scope_checks c = Inr d \<longleftrightarrow> d = c \<and>
    1 \<le> lc_launch_attempt c \<and> (lc_trader_id c = None \<longleftrightarrow> lc_account_id c \<noteq> None) \<and>
     (if lc_mode c = BACKTEST then lc_ts_start c \<noteq> None \<and> lc_ts_end c \<noteq> None
      else lc_job_id c = None \<and> lc_ts_start c = None \<and> lc_ts_end c = None)"
  by (auto simp: lc_scope_checks_def)

lemma make_launch_context_inv: "make_launch_context a = Inr c \<Longrightarrow> lc_inv c"
  by (auto simp: make_launch_context_def lc_inv_def result_simps lc_fields.req_ok lc_fields.opt_ok
      lc_scope_checks_ok clean_strip clean_opt_strip split: option.splits)

lemma lc_identity_inv: "lc_inv c \<Longrightarrow> \<exists>w. lc_identity_args c = wi_args w \<and> wi_inv w \<and> wi_mode w = lc_mode c"
  by (rule exI [of _ "\<lparr>wi_runtime_id = lc_runtime_id c, wi_tenant_id = lc_tenant_id c,
      wi_strategy_version_id = lc_strategy_version_id c,
      wi_mode = lc_mode c, wi_trader_id = lc_trader_id c, wi_account_id = lc_account_id c,
      wi_validated_parameter_identity = lc_parameter_hash c,
      wi_artifact_reference = lc_artifact_reference c, wi_artifact_uri = lc_artifact_uri c,
      wi_artifact_digest = lc_artifact_digest c, wi_entrypoint = lc_entrypoint c,
      wi_launch_attempt = lc_launch_attempt c\<rparr>"])
    (simp add: lc_identity_args_def wi_args_def wi_inv_def lc_inv_def)

section \<open>Properties\<close>

text \<open>
  Construction normalises: an identity that was accepted has stripped, non-blank fields,
  exactly one of trader and account, an attempt of at least 1, and rebuilding it from its own
  fields accepts and gives it back unchanged.
\<close>

lemma worker_identity_normal_form:
  assumes "make_worker_identity a = Inr w"
  shows "wi_inv w \<and> make_worker_identity (wi_args w) = Inr w"
  using make_worker_identity_inv [OF assms] by (auto intro: make_worker_identity_fixed)

definition sample_launch :: "string launch_context" where
  "sample_launch =
     \<lparr>lc_runtime_id = '' rt-1 '', lc_tenant_id = '''', lc_strategy_version_id = ''v1'',
      lc_mode = ''BACKTEST'', lc_artifact_uri = ''s3://b/k'', lc_entrypoint = ''m:S'',
      lc_launch_attempt = 1, lc_parameter_hash = None, lc_artifact_reference = None,
      lc_trader_id = Some ''t'', lc_account_id = None, lc_artifact_digest = None,
      lc_job_id = Some ''j'', lc_ts_start = Some ''a'', lc_ts_end = Some ''b'',
      lc_correlation_id = None\<rparr>"

definition sample_context :: "runtime_mode launch_context" where
  "sample_context =
     \<lparr>lc_runtime_id = ''rt-1'', lc_tenant_id = '''', lc_strategy_version_id = ''v1'',
      lc_mode = BACKTEST, lc_artifact_uri = ''s3://b/k'', lc_entrypoint = ''m:S'',
      lc_launch_attempt = 1, lc_parameter_hash = None, lc_artifact_reference = Some ''s3://b/k'',
      lc_trader_id = Some ''t'', lc_account_id = None, lc_artifact_digest = None,
      lc_job_id = Some ''j'', lc_ts_start = Some ''a'', lc_ts_end = Some ''b'',
      lc_correlation_id = None\<rparr>"

lemma sample_launch_ok: "make_launch_context sample_launch = Inr sample_context"
  using mode_enum.parse_value [of BACKTEST]
  by (simp add: make_launch_context_def sample_launch_def sample_context_def
      lc_require_non_empty_def lc_normalize_optional_def require_non_empty_def
      normalize_optional_def lc_scope_checks_def Let_def str_eval)

theorem worker_identity_normal_form_witness:
  "\<exists>w. make_worker_identity (lc_identity_args sample_context) = Inr w \<and>
     make_worker_identity (wi_args w) = Inr w"
proof -
  obtain w where "make_worker_identity (lc_identity_args sample_context) = Inr w"
    using lc_identity_inv [OF make_launch_context_inv [OF sample_launch_ok]]
      make_worker_identity_fixed by metis
  then show ?thesis using worker_identity_normal_form by blast
qed

text \<open>
  A launch context is accepted exactly when its required texts and given optionals are not
  blank, the attempt is positive, exactly one of trader and account is given, and the job and
  the replay window fit the mode: both window ends in backtest, neither window nor job outside.
\<close>

lemma launch_context_accepts:
  "(\<exists>c. make_launch_context a = Inr c) \<longleftrightarrow> lc_accepts a"
proof -
  have backtest: "(lc_mode a = ''BACKTEST'') \<longleftrightarrow> m = BACKTEST" if "lc_mode a = runtime_mode_value m" for m
    using that by (simp add: mode_value_strings)
  show ?thesis
  proof (cases "enum_parse all_runtime_mode runtime_mode_value (lc_mode a)")
    case None
    then have "lc_mode a \<notin> range runtime_mode_value" by (simp add: mode_enum.parse_None)
    then have no: "lc_mode a \<noteq> runtime_mode_value m" for m by auto
    then have "lc_mode a \<noteq> ''BACKTEST''" "lc_mode a \<notin> {''PAPER'', ''LIVE''}"
      using no [of BACKTEST] unfolding mode_value_strings(2) by auto
    then have "\<not> lc_accepts a" by (simp add: lc_accepts_def)
    moreover have "make_launch_context a \<noteq> Inr c" for c
      by (auto simp: make_launch_context_def result_simps None)
    ultimately show ?thesis by blast
  next
    case (Some m)
    then have m: "lc_mode a = runtime_mode_value m" by (simp add: mode_enum.parse_Some)
    show ?thesis
    proof (cases "m = BACKTEST")
      case True
      then show ?thesis
        using Some m by (auto simp: make_launch_context_def lc_accepts_def result_simps
            lc_fields.req_ok lc_fields.opt_ok lc_scope_checks_ok)
    next
      case False
      then have "lc_mode a \<noteq> ''BACKTEST''" "lc_mode a \<in> {''PAPER'', ''LIVE''}"
        using m unfolding mode_value_strings(2) by (auto simp: mode_value_strings(1))
      then show ?thesis
        using Some False by (auto simp: make_launch_context_def lc_accepts_def result_simps
            lc_fields.req_ok lc_fields.opt_ok lc_scope_checks_ok)
    qed
  qed
qed

text \<open>
  An accepted launch context always converts to a worker identity: none of the identity's
  own checks can fail on it, and the identity keeps the context's fields.
\<close>

lemma launch_context_identity:
  assumes "make_launch_context a = Inr c"
  shows "\<exists>w. to_worker_identity c = Inr w \<and> lc_identity_args c = wi_args w"
  using lc_identity_inv [OF make_launch_context_inv [OF assms]] make_worker_identity_fixed
  by (auto simp: to_worker_identity_def)

theorem launch_context_identity_witness:
  "\<exists>w. to_worker_identity sample_context = Inr w \<and> lc_identity_args sample_context = wi_args w"
  by (rule launch_context_identity [OF sample_launch_ok])

end
