(* ===== verification/LaunchSpec.thy ===== *)
theory LaunchSpec
  imports Identity PyText
begin

text \<open>
  \<open>runtime/bootstrap/launch_spec.py\<close>, \<open>validator.py\<close> and the identity construction of
  \<open>application/dependency_container.py\<close>: the launch payload is checked field by field, every
  fault is collected in a dictionary, and the validator remembers the fingerprint of the first
  payload it accepted for a runtime and attempt.
\<close>

section \<open>Field checks with collected errors\<close>

type_synonym field_errors = "(string \<times> string) list"

fun is_int :: "pyval \<Rightarrow> bool" where
  "is_int (VInt i) = True"
| "is_int v = False"

definition require_string ::
  "pydict \<Rightarrow> string \<Rightarrow> bool \<Rightarrow> field_errors \<Rightarrow> string option \<times> field_errors" where
  "require_string payload field_name required errors =
     (case dict_get payload field_name of
        None \<Rightarrow> (None, if required then dict_set field_name ''required_field_missing'' errors else errors)
      | Some (VStr value) \<Rightarrow>
          if value = [] then (None, dict_set field_name ''must_not_be_empty'' errors)
          else if value \<noteq> py_strip value then
            (None, dict_set field_name ''must_not_have_surrounding_whitespace'' errors)
          else (Some value, errors)
      | Some other \<Rightarrow> (None, dict_set field_name ''wrong_type_expected_string'' errors))"

record launch_spec_error =
  lse_reason :: string
  lse_field_errors :: field_errors

record launch_spec =
  ls_runtime_id :: string
  ls_tenant_id :: string
  ls_strategy_version_id :: string
  ls_mode :: runtime_mode
  ls_launch_attempt :: int
  ls_artifact_uri :: string
  ls_entrypoint :: string
  ls_trader_id :: "string option"
  ls_account_id :: "string option"
  ls_artifact_digest :: "string option"
  ls_job_id :: "string option"
  ls_ts_start :: "string option"
  ls_ts_end :: "string option"
  ls_symbol :: "string option"
  ls_correlation_id :: "string option"

definition REQUIRED_FIELDS :: "string list" where
  "REQUIRED_FIELDS =
     [''runtime_id'', ''strategy_version_id'', ''mode'', ''launch_attempt'', ''entrypoint'',
      ''account_id'']"

definition OPTIONAL_FIELDS :: "string list" where
  "OPTIONAL_FIELDS =
     [''tenant_id'', ''trader_id'', ''artifact_digest'', ''artifact_uri'', ''artifact_reference'',
      ''validated_parameter_identity'', ''parameter_hash'', ''job_id'', ''ts_start'', ''ts_end'',
      ''symbol'', ''correlation_id'']"

definition allowed_top_level :: "pydict \<Rightarrow> string list" where
  "allowed_top_level payload =
     REQUIRED_FIELDS @ OPTIONAL_FIELDS @ [''parameters'', ''strategy_params'', ''initial_cash''] @
     (if dict_get payload ''mode'' = Some (VStr ''BACKTEST'') then [''backtest_job_id''] else [])"

definition unknown_fields :: "pydict \<Rightarrow> string list" where
  "unknown_fields payload =
     sorted_set (filter (\<lambda>k. k \<notin> set (allowed_top_level payload)) (map fst payload))"

text \<open>The steps of \<open>from_payload\<close>, one function for each field that is not a plain string.\<close>

definition check_unknown :: "pydict \<Rightarrow> field_errors \<Rightarrow> field_errors" where
  "check_unknown payload errors =
     (if unknown_fields payload \<noteq> [] then
        dict_set ''payload'' (''unknown_fields:'' @ py_join '','' (unknown_fields payload)) errors
      else errors)"

definition check_object_or_null :: "pydict \<Rightarrow> string \<Rightarrow> field_errors \<Rightarrow> field_errors" where
  "check_object_or_null payload field_name errors =
     (case dict_get payload field_name of
        None \<Rightarrow> errors
      | Some VNone \<Rightarrow> errors
      | Some (VDict d) \<Rightarrow> errors
      | Some other \<Rightarrow> dict_set field_name ''wrong_type_expected_object_or_null'' errors)"

definition read_tenant_id :: "pydict \<Rightarrow> field_errors \<Rightarrow> string \<times> field_errors" where
  "read_tenant_id payload errors =
     (case dict_get payload ''tenant_id'' of
        None \<Rightarrow> ([], errors)
      | Some VNone \<Rightarrow> ([], errors)
      | Some (VStr tv) \<Rightarrow> (py_strip tv, errors)
      | Some other \<Rightarrow> ([], dict_set ''tenant_id'' ''wrong_type_expected_string_or_null'' errors))"

definition choose_artifact_uri ::
  "string option \<Rightarrow> string option \<Rightarrow> field_errors \<Rightarrow> string option \<times> field_errors" where
  "choose_artifact_uri uri_val ref_val errors =
     (case uri_val of
        Some u \<Rightarrow> (Some u, errors)
      | None \<Rightarrow>
          (case ref_val of
             Some r \<Rightarrow> (Some r, errors)
           | None \<Rightarrow>
               (None, if \<not> dict_has errors ''artifact_uri'' \<and> \<not> dict_has errors ''artifact_reference''
                      then dict_set ''artifact_uri'' ''required_field_missing'' errors else errors)))"

text \<open>\<open>skip_artifact_digest_validation\<close> returns \<open>True\<close> unconditionally at this commit.\<close>

definition skip_artifact_digest_validation :: bool where
  "skip_artifact_digest_validation = True"

definition read_artifact_digest :: "pydict \<Rightarrow> field_errors \<Rightarrow> string option \<times> field_errors" where
  "read_artifact_digest payload errors =
     (if skip_artifact_digest_validation then
        (case dict_get payload ''artifact_digest'' of
           None \<Rightarrow> (None, errors)
         | Some VNone \<Rightarrow> (None, errors)
         | Some (VStr ad_raw) \<Rightarrow>
             (let stripped = py_strip ad_raw
              in if stripped = [] then (None, errors)
                 else if ad_raw \<noteq> stripped then
                   (None, dict_set ''artifact_digest'' ''must_not_have_surrounding_whitespace'' errors)
                 else (Some stripped, errors))
         | Some other \<Rightarrow> (None, dict_set ''artifact_digest'' ''wrong_type_expected_string'' errors))
      else require_string payload ''artifact_digest'' True errors)"

definition nested_symbol :: "pydict \<Rightarrow> string option" where
  "nested_symbol payload =
     (case dict_get payload ''parameters'' of
        Some (VDict params) \<Rightarrow>
          (case dict_get params ''symbol'' of
             Some (VStr s) \<Rightarrow> if py_strip s \<noteq> [] then Some (py_strip s) else None
           | _ \<Rightarrow> None)
      | _ \<Rightarrow> None)"

definition read_correlation_id :: "pydict \<Rightarrow> field_errors \<Rightarrow> string option \<times> field_errors" where
  "read_correlation_id payload errors =
     (case dict_get payload ''correlation_id'' of
        None \<Rightarrow> (None, errors)
      | Some (VStr cr) \<Rightarrow> (if py_strip cr \<noteq> [] then Some (py_strip cr) else None, errors)
      | Some VNone \<Rightarrow> (None, errors)
      | Some other \<Rightarrow> (None, dict_set ''correlation_id'' ''wrong_type_expected_string'' errors))"

definition read_mode :: "pydict \<Rightarrow> field_errors \<Rightarrow> runtime_mode \<times> field_errors" where
  "read_mode payload errors =
     (case dict_get payload ''mode'' of
        None \<Rightarrow> (PAPER, dict_set ''mode'' ''required_field_missing'' errors)
      | Some VNone \<Rightarrow> (PAPER, dict_set ''mode'' ''required_field_missing'' errors)
      | Some (VStr m) \<Rightarrow>
          (case enum_parse all_runtime_mode runtime_mode_value m of
             Some mode \<Rightarrow> (mode, errors)
           | None \<Rightarrow> (PAPER, dict_set ''mode'' (''invalid_mode:'' @ m) errors))
      | Some other \<Rightarrow> (PAPER, dict_set ''mode'' ''wrong_type_expected_string'' errors))"

definition read_launch_attempt :: "pydict \<Rightarrow> field_errors \<Rightarrow> int \<times> field_errors" where
  "read_launch_attempt payload errors =
     (case dict_get payload ''launch_attempt'' of
        None \<Rightarrow> (1, dict_set ''launch_attempt'' ''required_field_missing'' errors)
      | Some VNone \<Rightarrow> (1, dict_set ''launch_attempt'' ''required_field_missing'' errors)
      | Some (VInt n) \<Rightarrow>
          (n, if n < 1 then dict_set ''launch_attempt'' ''must_be_greater_or_equal_to_1'' errors
              else errors)
      | Some other \<Rightarrow> (1, dict_set ''launch_attempt'' ''wrong_type_expected_integer'' errors))"

definition check_window ::
  "runtime_mode \<Rightarrow> string option \<Rightarrow> string option \<Rightarrow> field_errors \<Rightarrow> field_errors" where
  "check_window mode ts_start ts_end errors =
     (if mode \<noteq> BACKTEST \<and> (ts_start \<noteq> None \<or> ts_end \<noteq> None) then
        dict_set ''parameters'' ''ts_start_ts_end_only_allowed_for_backtest_mode'' errors
      else if mode = BACKTEST \<and> (ts_start = None \<or> ts_end = None) then
        dict_set ''parameters'' ''ts_start_and_ts_end_required_for_backtest_mode'' errors
      else errors)"

definition read_payload :: "pydict \<Rightarrow> launch_spec \<times> field_errors" where
  "read_payload payload =
     (let errors = check_unknown payload [];
          errors = check_object_or_null payload ''strategy_params'' errors;
          errors = check_object_or_null payload ''initial_cash'' errors;
          (runtime_id, errors) = require_string payload ''runtime_id'' True errors;
          (tenant_id, errors) = read_tenant_id payload errors;
          (version, errors) = require_string payload ''strategy_version_id'' True errors;
          (uri_val, errors) = require_string payload ''artifact_uri'' False errors;
          (ref_val, errors) = require_string payload ''artifact_reference'' False errors;
          (uri, errors) = choose_artifact_uri uri_val ref_val errors;
          (entry, errors) = require_string payload ''entrypoint'' True errors;
          (trader, errors) = require_string payload ''trader_id'' False errors;
          (account, errors) = require_string payload ''account_id'' True errors;
          (digest, errors) = read_artifact_digest payload errors;
          (job, errors) = require_string payload ''job_id'' False errors;
          (ts_start, errors) = require_string payload ''ts_start'' False errors;
          (ts_end, errors) = require_string payload ''ts_end'' False errors;
          (sym, errors) = require_string payload ''symbol'' False errors;
          sym = (case sym of Some s \<Rightarrow> Some s | None \<Rightarrow> nested_symbol payload);
          (corr, errors) = read_correlation_id payload errors;
          (mode, errors) = read_mode payload errors;
          (attempt, errors) = read_launch_attempt payload errors;
          errors = check_window mode ts_start ts_end errors
      in (\<lparr>ls_runtime_id = or_empty runtime_id, ls_tenant_id = tenant_id,
           ls_strategy_version_id = or_empty version, ls_mode = mode,
           ls_launch_attempt = attempt, ls_artifact_uri = or_empty uri,
           ls_entrypoint = or_empty entry, ls_trader_id = trader, ls_account_id = account,
           ls_artifact_digest = digest, ls_job_id = job, ls_ts_start = ts_start,
           ls_ts_end = ts_end, ls_symbol = sym, ls_correlation_id = corr\<rparr>, errors))"

definition from_payload :: "pyval \<Rightarrow> launch_spec_error + launch_spec" where
  "from_payload payload =
     (case payload of
        VDict d \<Rightarrow>
          (case read_payload d of (spec, errors) \<Rightarrow>
             if errors \<noteq> [] then
               Inl \<lparr>lse_reason = ''launch_spec_invalid'', lse_field_errors = errors\<rparr>
             else Inr spec)
      | _ \<Rightarrow>
          Inl \<lparr>lse_reason = ''payload_not_mapping'',
               lse_field_errors = [(''payload'', ''must_be_object_mapping'')]\<rparr>)"

definition ls_to_dict :: "launch_spec \<Rightarrow> pydict" where
  "ls_to_dict s =
     [(''runtime_id'', VStr (ls_runtime_id s)), (''tenant_id'', VStr (ls_tenant_id s)),
      (''trader_id'', opt_str (ls_trader_id s)), (''account_id'', opt_str (ls_account_id s)),
      (''strategy_version_id'', VStr (ls_strategy_version_id s)),
      (''mode'', VStr (runtime_mode_value (ls_mode s))),
      (''artifact_uri'', VStr (ls_artifact_uri s)),
      (''artifact_digest'', opt_str (ls_artifact_digest s)),
      (''entrypoint'', VStr (ls_entrypoint s)), (''launch_attempt'', VInt (ls_launch_attempt s)),
      (''job_id'', opt_str (ls_job_id s)), (''ts_start'', opt_str (ls_ts_start s)),
      (''ts_end'', opt_str (ls_ts_end s)), (''symbol'', opt_str (ls_symbol s)),
      (''correlation_id'', opt_str (ls_correlation_id s))]"

section \<open>The validator\<close>

type_synonym accepted_payloads = "(string \<times> int) \<rightharpoonup> string"

definition validate ::
  "(rat \<Rightarrow> string) \<Rightarrow> accepted_payloads \<Rightarrow> pyval \<Rightarrow> (py_exc + launch_spec) \<times> accepted_payloads" where
  "validate fr accepted payload =
     (case from_payload payload of
        Inl e \<Rightarrow>
          (Inl (RuntimeStartValidationFailedError (lse_reason e)
             (map (\<lambda>(k, v). (k, VStr v)) (lse_field_errors e)) None None None), accepted)
      | Inr spec \<Rightarrow>
          (let key = (ls_runtime_id spec, ls_launch_attempt spec) in
           case json_dumps fr payload of
             None \<Rightarrow>
               (Inl (TypeExc ''TypeError'' ''Object is not JSON serializable''), accepted)
           | Some fingerprint \<Rightarrow>
               (case accepted key of
                  None \<Rightarrow> (Inr spec, accepted(key \<mapsto> fingerprint))
                | Some existing \<Rightarrow>
                    if existing = fingerprint then (Inr spec, accepted)
                    else
                      (Inl (RuntimeStartValidationFailedError ''duplicate_key_payload_mismatch''
                         [(''payload'',
                           VStr ''payload_broadening_or_mutation_for_existing_runtime_launch_attempt'')]
                         (Some (ls_runtime_id spec)) (Some (ls_launch_attempt spec)) None),
                       accepted))))"

fun validate_all ::
  "(rat \<Rightarrow> string) \<Rightarrow> accepted_payloads \<Rightarrow> pyval list \<Rightarrow> accepted_payloads" where
  "validate_all fr accepted [] = accepted"
| "validate_all fr accepted (p # ps) = validate_all fr (snd (validate fr accepted p)) ps"

section \<open>The identity of a launch\<close>

definition build_worker_identity :: "launch_spec \<Rightarrow> py_exc + runtime_mode worker_identity" where
  "build_worker_identity s =
     make_worker_identity
       \<lparr>wi_runtime_id = ls_runtime_id s, wi_tenant_id = ls_tenant_id s,
        wi_strategy_version_id = ls_strategy_version_id s,
        wi_mode = runtime_mode_value (ls_mode s), wi_trader_id = ls_trader_id s,
        wi_account_id = ls_account_id s, wi_validated_parameter_identity = None,
        wi_artifact_reference = None, wi_artifact_uri = ls_artifact_uri s,
        wi_artifact_digest = ls_artifact_digest s, wi_entrypoint = ls_entrypoint s,
        wi_launch_attempt = ls_launch_attempt s\<rparr>"

section \<open>What a valid payload looks like\<close>

text \<open>The conditions on single fields, free of the order in which errors are collected.\<close>

definition good_string :: "pydict \<Rightarrow> string \<Rightarrow> bool" where
  "good_string d k \<longleftrightarrow> (\<exists>s. dict_get d k = Some (VStr s) \<and> clean s)"

definition good_opt_string :: "pydict \<Rightarrow> string \<Rightarrow> bool" where
  "good_opt_string d k \<longleftrightarrow> dict_get d k = None \<or> good_string d k"

definition null_or_string :: "pydict \<Rightarrow> string \<Rightarrow> bool" where
  "null_or_string d k \<longleftrightarrow>
     dict_get d k \<in> {None, Some VNone} \<or> (\<exists>s. dict_get d k = Some (VStr s))"

definition valid_payload :: "pydict \<Rightarrow> bool" where
  "valid_payload d \<longleftrightarrow>
     unknown_fields d = [] \<and>
     (\<forall>k \<in> {''strategy_params'', ''initial_cash''}.
        dict_get d k \<in> {None, Some VNone} \<or> (\<exists>fs. dict_get d k = Some (VDict fs))) \<and>
     (\<forall>k \<in> {''runtime_id'', ''strategy_version_id'', ''entrypoint'', ''account_id''}. good_string d k) \<and>
     (\<forall>k \<in> {''artifact_uri'', ''artifact_reference'', ''trader_id'', ''job_id'', ''ts_start'',
             ''ts_end'', ''symbol''}. good_opt_string d k) \<and>
     (good_string d ''artifact_uri'' \<or> good_string d ''artifact_reference'') \<and>
     null_or_string d ''tenant_id'' \<and> null_or_string d ''correlation_id'' \<and>
     null_or_string d ''artifact_digest'' \<and>
     (\<forall>s. dict_get d ''artifact_digest'' = Some (VStr s) \<longrightarrow> blank s \<or> py_strip s = s) \<and>
     (\<exists>n \<ge> 1. dict_get d ''launch_attempt'' = Some (VInt n)) \<and>
     (\<exists>m. dict_get d ''mode'' = Some (VStr (runtime_mode_value m)) \<and>
        (if m = BACKTEST then good_string d ''ts_start'' \<and> good_string d ''ts_end''
         else \<not> good_string d ''ts_start'' \<and> \<not> good_string d ''ts_end''))"

section \<open>Lemmas\<close>

lemma dict_set_not_Nil [simp]: "dict_set k v d \<noteq> []"
  by (cases d) (auto simp: dict_set_def)

definition field_val :: "pydict \<Rightarrow> string \<Rightarrow> string option" where
  "field_val d k =
     (case dict_get d k of Some (VStr s) \<Rightarrow> if clean s then Some s else None | _ \<Rightarrow> None)"

lemma strip_clean: "(v = py_strip v) \<longleftrightarrow> v = [] \<or> clean v"
  by (metis clean_def py_strip_Nil)

lemma clean_Nil: "\<not> clean []"
  by (simp add: clean_def)

lemma require_string_fst [simp]: "fst (require_string d k r e) = field_val d k"
  by (cases "dict_get d k"; cases "the (dict_get d k)")
    (auto simp: require_string_def field_val_def strip_clean clean_Nil)

lemma require_string_snd [simp]:
  "snd (require_string d k r e) = [] \<longleftrightarrow>
     e = [] \<and> (if r then good_string d k else good_opt_string d k)"
  by (cases "dict_get d k"; cases "the (dict_get d k)")
    (auto simp: require_string_def good_string_def good_opt_string_def strip_clean clean_Nil)

lemma field_val_None: "field_val d k = None \<longleftrightarrow> \<not> good_string d k"
  by (cases "dict_get d k"; cases "the (dict_get d k)") (auto simp: field_val_def good_string_def)

lemma field_val_Some: "field_val d k = Some s \<Longrightarrow> clean s"
  by (auto simp: field_val_def split: option.splits pyval.splits if_splits)

definition mode_val :: "pydict \<Rightarrow> runtime_mode" where
  "mode_val d = fst (read_mode d [])"

definition tenant_id_val :: "pydict \<Rightarrow> string" where
  "tenant_id_val d = (fst (read_tenant_id d []))"

definition correlation_id_val :: "pydict \<Rightarrow> string option" where
  "correlation_id_val d = (fst (read_correlation_id d []))"

definition artifact_digest_val :: "pydict \<Rightarrow> string option" where
  "artifact_digest_val d = (fst (read_artifact_digest d []))"

definition attempt_val :: "pydict \<Rightarrow> int" where
  "attempt_val d = fst (read_launch_attempt d [])"

lemma step_fst:
  "fst (read_tenant_id d e) = tenant_id_val d"
  "fst (read_correlation_id d e) = correlation_id_val d"
  "fst (read_mode d e) = mode_val d"
  "fst (read_launch_attempt d e) = attempt_val d"
  "fst (choose_artifact_uri u r e) = (case u of Some x \<Rightarrow> Some x | None \<Rightarrow> r)"
  by (simp_all add: read_tenant_id_def read_correlation_id_def read_mode_def mode_val_def
      tenant_id_val_def correlation_id_val_def
      read_launch_attempt_def attempt_val_def choose_artifact_uri_def split: option.split pyval.split)

lemma digest_fst: "fst (read_artifact_digest d e) = artifact_digest_val d"
  by (simp add: read_artifact_digest_def skip_artifact_digest_validation_def Let_def
      artifact_digest_val_def split: option.split pyval.split)

lemma check_unknown_snd: "check_unknown d e = [] \<longleftrightarrow> e = [] \<and> unknown_fields d = []"
  by (auto simp: check_unknown_def)

lemma check_object_snd:
  "check_object_or_null d k e = [] \<longleftrightarrow>
     e = [] \<and> (dict_get d k \<in> {None, Some VNone} \<or> (\<exists>fs. dict_get d k = Some (VDict fs)))"
  by (cases "dict_get d k"; cases "the (dict_get d k)") (auto simp: check_object_or_null_def)

lemma tenant_snd: "snd (read_tenant_id d e) = [] \<longleftrightarrow> e = [] \<and> null_or_string d ''tenant_id''"
  by (cases "dict_get d ''tenant_id''"; cases "the (dict_get d ''tenant_id'')")
    (auto simp: read_tenant_id_def null_or_string_def)

lemma correlation_snd:
  "snd (read_correlation_id d e) = [] \<longleftrightarrow> e = [] \<and> null_or_string d ''correlation_id''"
  by (cases "dict_get d ''correlation_id''"; cases "the (dict_get d ''correlation_id'')")
    (auto simp: read_correlation_id_def null_or_string_def)

lemma digest_snd:
  "snd (read_artifact_digest d e) = [] \<longleftrightarrow> e = [] \<and> null_or_string d ''artifact_digest'' \<and>
     (\<forall>s. dict_get d ''artifact_digest'' = Some (VStr s) \<longrightarrow> blank s \<or> py_strip s = s)"
  by (cases "dict_get d ''artifact_digest''"; cases "the (dict_get d ''artifact_digest'')")
    (auto simp: read_artifact_digest_def skip_artifact_digest_validation_def null_or_string_def
      blank_def Let_def)

lemma attempt_snd:
  "snd (read_launch_attempt d e) = [] \<longleftrightarrow>
     e = [] \<and> (\<exists>n \<ge> 1. dict_get d ''launch_attempt'' = Some (VInt n))"
  by (cases "dict_get d ''launch_attempt''"; cases "the (dict_get d ''launch_attempt'')")
    (auto simp: read_launch_attempt_def)

lemma uri_snd: "snd (choose_artifact_uri u r e) = [] \<longleftrightarrow> e = [] \<and> (u \<noteq> None \<or> r \<noteq> None)"
  by (cases u; cases r) (auto simp: choose_artifact_uri_def dict_has_def)

lemma window_snd:
  "check_window m ts te e = [] \<longleftrightarrow>
     e = [] \<and> (if m = BACKTEST then ts \<noteq> None \<and> te \<noteq> None else ts = None \<and> te = None)"
  by (auto simp: check_window_def)

lemma mode_snd:
  "snd (read_mode d e) = [] \<longleftrightarrow>
     e = [] \<and> dict_get d ''mode'' = Some (VStr (runtime_mode_value (mode_val d)))"
proof (cases "dict_get d ''mode''")
  case None
  then show ?thesis by (simp add: read_mode_def)
next
  case (Some v)
  show ?thesis
  proof (cases "\<exists>s. v = VStr s")
    case True
    then obtain s where "v = VStr s" by blast
    with Some show ?thesis
      using mode_enum.parse_value [of PAPER]
      by (cases "enum_parse all_runtime_mode runtime_mode_value s")
        (auto simp: read_mode_def mode_val_def dest: mode_enum.parse_Some [THEN iffD1])
  next
    case False
    with Some show ?thesis by (cases v) (simp_all add: read_mode_def)
  qed
qed

lemma read_mode_value:
  "dict_get d ''mode'' = Some (VStr (runtime_mode_value m)) \<Longrightarrow> mode_val d = m"
  by (simp add: mode_val_def read_mode_def mode_enum.parse_value)

lemmas payload_steps = step_fst digest_fst check_unknown_snd check_object_snd tenant_snd
  correlation_snd digest_snd attempt_snd uri_snd window_snd mode_snd

definition payload_spec :: "pydict \<Rightarrow> launch_spec" where
  "payload_spec d =
     \<lparr>ls_runtime_id = or_empty (field_val d ''runtime_id''),
      ls_tenant_id = tenant_id_val d,
      ls_strategy_version_id = or_empty (field_val d ''strategy_version_id''),
      ls_mode = mode_val d, ls_launch_attempt = attempt_val d,
      ls_artifact_uri =
        or_empty (case field_val d ''artifact_uri'' of Some x \<Rightarrow> Some x
                  | None \<Rightarrow> field_val d ''artifact_reference''),
      ls_entrypoint = or_empty (field_val d ''entrypoint''),
      ls_trader_id = field_val d ''trader_id'', ls_account_id = field_val d ''account_id'',
      ls_artifact_digest = artifact_digest_val d, ls_job_id = field_val d ''job_id'',
      ls_ts_start = field_val d ''ts_start'', ls_ts_end = field_val d ''ts_end'',
      ls_symbol = (case field_val d ''symbol'' of Some s \<Rightarrow> Some s | None \<Rightarrow> nested_symbol d),
      ls_correlation_id = correlation_id_val d\<rparr>"

text \<open>The steps as pairs, so that the chain of \<open>read_payload\<close> unfolds in one pass.\<close>

definition "string_err d k r e = snd (require_string d k r e)"
definition "tenant_err d e = snd (read_tenant_id d e)"
definition "correlation_err d e = snd (read_correlation_id d e)"
definition "digest_err d e = snd (read_artifact_digest d e)"
definition "mode_err d e = snd (read_mode d e)"
definition "attempt_err d e = snd (read_launch_attempt d e)"
definition "uri_err u r e = snd (choose_artifact_uri u r e)"

lemma step_pairs:
  "require_string d k r e = (field_val d k, string_err d k r e)"
  "read_tenant_id d e = (tenant_id_val d, tenant_err d e)"
  "read_correlation_id d e = (correlation_id_val d, correlation_err d e)"
  "read_artifact_digest d e = (artifact_digest_val d, digest_err d e)"
  "read_mode d e = (mode_val d, mode_err d e)"
  "read_launch_attempt d e = (attempt_val d, attempt_err d e)"
  "choose_artifact_uri u u' e = (case u of Some x \<Rightarrow> Some x | None \<Rightarrow> u', uri_err u u' e)"
  by (simp_all add: prod_eq_iff string_err_def tenant_err_def
      correlation_err_def digest_err_def mode_err_def attempt_err_def uri_err_def
      step_fst digest_fst)

definition payload_errors :: "pydict \<Rightarrow> field_errors" where
  "payload_errors d =
     check_window (mode_val d) (field_val d ''ts_start'') (field_val d ''ts_end'')
       (attempt_err d (mode_err d (correlation_err d
       (string_err d ''symbol'' False (string_err d ''ts_end'' False (string_err d ''ts_start'' False
       (string_err d ''job_id'' False (digest_err d
       (string_err d ''account_id'' True (string_err d ''trader_id'' False
       (string_err d ''entrypoint'' True
       (uri_err (field_val d ''artifact_uri'') (field_val d ''artifact_reference'')
       (string_err d ''artifact_reference'' False (string_err d ''artifact_uri'' False
       (string_err d ''strategy_version_id'' True (tenant_err d
       (string_err d ''runtime_id'' True
       (check_object_or_null d ''initial_cash'' (check_object_or_null d ''strategy_params''
       (check_unknown d []))))))))))))))))))))"

lemma read_payload_pair: "read_payload d = (payload_spec d, payload_errors d)"
  unfolding read_payload_def step_pairs Let_def prod.case payload_spec_def payload_errors_def
  by (rule refl)

lemma payload_errors_Nil: "payload_errors d = [] \<longleftrightarrow> valid_payload d"
proof -
  have mode: "(\<exists>m. dict_get d ''mode'' = Some (VStr (runtime_mode_value m)) \<and> P m) \<longleftrightarrow>
      dict_get d ''mode'' = Some (VStr (runtime_mode_value (mode_val d))) \<and> P (mode_val d)" for P
    by (auto dest: read_mode_value)
  show ?thesis
    unfolding payload_errors_def valid_payload_def mode string_err_def tenant_err_def
      correlation_err_def digest_err_def mode_err_def attempt_err_def uri_err_def
      payload_steps require_string_snd if_True if_False field_val_None
      ball_simps
    by (simp only: simp_thms conj_ac)
qed

lemma from_payload_Inr:
  "from_payload p = Inr s \<longleftrightarrow> (\<exists>d. p = VDict d \<and> valid_payload d \<and> s = payload_spec d)"
  by (cases p) (auto simp: from_payload_def read_payload_pair payload_errors_Nil)

lemma payload_spec_clean:
  assumes "valid_payload d"
  shows "clean (ls_runtime_id (payload_spec d))" "clean (ls_strategy_version_id (payload_spec d))"
    "clean (ls_artifact_uri (payload_spec d))" "clean (ls_entrypoint (payload_spec d))"
    "py_strip (ls_tenant_id (payload_spec d)) = ls_tenant_id (payload_spec d)"
    "clean_opt (ls_trader_id (payload_spec d))" "clean_opt (ls_account_id (payload_spec d))"
    "ls_account_id (payload_spec d) \<noteq> None" "clean_opt (ls_artifact_digest (payload_spec d))"
    "1 \<le> ls_launch_attempt (payload_spec d)"
proof -
  have req: "clean (or_empty (field_val d k))" if "good_string d k" for k
    using that field_val_None [of d k] field_val_Some [of d k] by (auto simp: or_empty_def split: option.split)
  show "clean (ls_runtime_id (payload_spec d))" "clean (ls_strategy_version_id (payload_spec d))"
    "clean (ls_entrypoint (payload_spec d))"
    using assms by (simp_all add: payload_spec_def valid_payload_def req)
  show "clean (ls_artifact_uri (payload_spec d))"
  proof (cases "good_string d ''artifact_uri''")
    case True
    then show ?thesis
      using field_val_None [of d "''artifact_uri''"] field_val_Some [of d "''artifact_uri''"]
      by (auto simp: payload_spec_def or_empty_def split: option.split)
  next
    case False
    then have "field_val d ''artifact_uri'' = None" by (simp add: field_val_None)
    moreover have "good_string d ''artifact_reference''" using assms False by (simp add: valid_payload_def)
    ultimately show ?thesis using req [of "''artifact_reference''"] by (simp add: payload_spec_def)
  qed
  show "py_strip (ls_tenant_id (payload_spec d)) = ls_tenant_id (payload_spec d)"
    by (simp add: payload_spec_def tenant_id_val_def read_tenant_id_def split: option.split pyval.split)
  have opt: "clean_opt (field_val d k)" for k
    using field_val_Some [of d k] by (cases "field_val d k") auto
  then show "clean_opt (ls_trader_id (payload_spec d))" "clean_opt (ls_account_id (payload_spec d))"
    by (simp_all add: payload_spec_def)
  show "ls_account_id (payload_spec d) \<noteq> None"
    using assms by (simp add: payload_spec_def valid_payload_def field_val_None)
  show "clean_opt (ls_artifact_digest (payload_spec d))"
    by (cases "dict_get d ''artifact_digest''"; cases "the (dict_get d ''artifact_digest'')")
      (simp_all add: payload_spec_def artifact_digest_val_def read_artifact_digest_def
        skip_artifact_digest_validation_def Let_def strip_clean clean_Nil)
  show "1 \<le> ls_launch_attempt (payload_spec d)"
    using assms by (auto simp: payload_spec_def valid_payload_def attempt_val_def read_launch_attempt_def)
qed

lemma validate_grows: "accepted \<subseteq>\<^sub>m snd (validate fr accepted p)"
  by (auto simp: validate_def map_le_def Let_def split: sum.split option.split)

lemma validate_all_grows: "accepted \<subseteq>\<^sub>m validate_all fr accepted ps"
proof (induction ps arbitrary: accepted)
  case Nil
  then show ?case by simp
next
  case (Cons p ps)
  then show ?case using validate_grows map_le_trans by fastforce
qed

lemma validate_stores:
  "fst (validate fr accepted p) = Inr s \<Longrightarrow>
     \<exists>t. json_dumps fr p = Some t \<and>
       snd (validate fr accepted p) (ls_runtime_id s, ls_launch_attempt s) = Some t"
  by (auto simp: validate_def Let_def split: sum.splits option.splits if_splits)

lemma validate_known:
  assumes "from_payload q = Inr s" and "json_dumps fr q = Some u"
    and "accepted (ls_runtime_id s, ls_launch_attempt s) = Some t"
  shows "fst (validate fr accepted q) = Inr s \<longleftrightarrow> u = t"
  using assms by (simp add: validate_def)

lemma dict_get_perm:
  assumes "mset d = mset d'" and "distinct (map fst d)"
  shows "dict_get d k = dict_get d' k"
proof -
  have "mset (map fst d) = mset (map fst d')" using assms(1) by simp
  then have "distinct (map fst d')" using assms(2) by (rule mset_eq_imp_distinct_iff [THEN iffD1])
  then show ?thesis
    using assms map_of_inject_set [of d d'] mset_eq_setD [OF assms(1)] by (simp add: dict_get_def)
qed

lemma from_payload_perm:
  assumes "mset d = mset d'" and "distinct (map fst d)"
  shows "from_payload (VDict d) = from_payload (VDict d')"
proof -
  have get: "dict_get d = dict_get d'" by (rule ext) (rule dict_get_perm [OF assms])
  have "set d = set d'" using assms(1) by (rule mset_eq_setD)
  then have "unknown_fields d = unknown_fields d'"
    by (auto simp: unknown_fields_def allowed_top_level_def get intro: sorted_set_unique)
  then have steps: "check_unknown d = check_unknown d'"
    "check_object_or_null d = check_object_or_null d'" "require_string d = require_string d'"
    "read_tenant_id d = read_tenant_id d'" "read_artifact_digest d = read_artifact_digest d'"
    "nested_symbol d = nested_symbol d'" "read_correlation_id d = read_correlation_id d'"
    "read_mode d = read_mode d'" "read_launch_attempt d = read_launch_attempt d'"
    by (auto simp: fun_eq_iff check_unknown_def check_object_or_null_def require_string_def
        read_tenant_id_def read_artifact_digest_def nested_symbol_def read_correlation_id_def
        read_mode_def read_launch_attempt_def get)
  have "read_payload d = read_payload d'" unfolding read_payload_def steps by (rule refl)
  then show ?thesis by (simp add: from_payload_def)
qed

section \<open>Properties\<close>

text \<open>
  What an accepted payload says, field by field: the texts, number and mode of the spec are those
  under the payload's own keys, the artifact's URI falls back to its reference, tenant, digest and
  correlation id are stripped, the symbol falls back to that of the parameters, and there are no
  keys beyond the known ones.
\<close>

definition payload_text :: "pydict \<Rightarrow> string \<Rightarrow> string option" where
  "payload_text d k = (case dict_get d k of Some (VStr s) \<Rightarrow> Some s | _ \<Rightarrow> None)"

definition payload_stripped :: "pydict \<Rightarrow> string \<Rightarrow> string option" where
  "payload_stripped d k =
     (case payload_text d k of Some s \<Rightarrow> if py_strip s = [] then None else Some (py_strip s) | None \<Rightarrow> None)"

definition known_key :: "pydict \<Rightarrow> string \<Rightarrow> bool" where
  "known_key d k \<longleftrightarrow>
     k \<in> set [''runtime_id'', ''strategy_version_id'', ''mode'', ''launch_attempt'', ''entrypoint'',
       ''account_id'', ''tenant_id'', ''trader_id'', ''artifact_digest'', ''artifact_uri'',
       ''artifact_reference'', ''validated_parameter_identity'', ''parameter_hash'', ''job_id'',
       ''ts_start'', ''ts_end'', ''symbol'', ''correlation_id'', ''parameters'', ''strategy_params'',
       ''initial_cash''] \<or>
     k = ''backtest_job_id'' \<and> dict_get d ''mode'' = Some (VStr ''BACKTEST'')"

definition payload_says :: "pydict \<Rightarrow> launch_spec \<Rightarrow> bool" where
  "payload_says d s \<longleftrightarrow>
     dict_get d ''runtime_id'' = Some (VStr (ls_runtime_id s)) \<and>
     dict_get d ''strategy_version_id'' = Some (VStr (ls_strategy_version_id s)) \<and>
     dict_get d ''entrypoint'' = Some (VStr (ls_entrypoint s)) \<and>
     dict_get d ''mode'' = Some (VStr (runtime_mode_value (ls_mode s))) \<and>
     dict_get d ''launch_attempt'' = Some (VInt (ls_launch_attempt s)) \<and>
     ls_account_id s = payload_text d ''account_id'' \<and> ls_trader_id s = payload_text d ''trader_id'' \<and>
     ls_job_id s = payload_text d ''job_id'' \<and> ls_ts_start s = payload_text d ''ts_start'' \<and>
     ls_ts_end s = payload_text d ''ts_end'' \<and>
     Some (ls_artifact_uri s) =
       (case payload_text d ''artifact_uri'' of Some u \<Rightarrow> Some u | None \<Rightarrow> payload_text d ''artifact_reference'') \<and>
     ls_tenant_id s = (case payload_text d ''tenant_id'' of Some x \<Rightarrow> py_strip x | None \<Rightarrow> []) \<and>
     ls_artifact_digest s = payload_stripped d ''artifact_digest'' \<and>
     ls_correlation_id s = payload_stripped d ''correlation_id'' \<and>
     ls_symbol s =
       (case payload_text d ''symbol'' of
          Some x \<Rightarrow> Some x
        | None \<Rightarrow> (case dict_get d ''parameters'' of Some (VDict q) \<Rightarrow> payload_stripped q ''symbol'' | _ \<Rightarrow> None)) \<and>
     list_all (known_key d) (map fst d)"

lemma no_unknown_known:
  assumes "unknown_fields d = []"
  shows "list_all (known_key d) (map fst d)"
proof -
  have "set (unknown_fields d) = {}" by (simp only: assms set_empty)
  then have "set (map fst d) \<subseteq> set (allowed_top_level d)"
    unfolding unknown_fields_def sorted_set_def set_sort set_remdups set_filter by blast
  moreover have rest: "k \<in> set (if b then [x] else []) \<longleftrightarrow> k = x \<and> b" for k x :: string and b
    by simp
  have "allowed_top_level d =
      [''runtime_id'', ''strategy_version_id'', ''mode'', ''launch_attempt'', ''entrypoint'',
       ''account_id'', ''tenant_id'', ''trader_id'', ''artifact_digest'', ''artifact_uri'',
       ''artifact_reference'', ''validated_parameter_identity'', ''parameter_hash'', ''job_id'',
       ''ts_start'', ''ts_end'', ''symbol'', ''correlation_id'', ''parameters'', ''strategy_params'',
       ''initial_cash''] @ (if dict_get d ''mode'' = Some (VStr ''BACKTEST'') then [''backtest_job_id''] else [])"
    unfolding allowed_top_level_def REQUIRED_FIELDS_def OPTIONAL_FIELDS_def append.simps by (rule refl)
  then have "k \<in> set (allowed_top_level d) \<Longrightarrow> known_key d k" for k
    unfolding known_key_def by (simp only: set_append Un_iff rest)
  ultimately show ?thesis unfolding list_all_iff by blast
qed

lemma good_text: "good_string d k \<Longrightarrow> payload_text d k = field_val d k"
  by (auto simp: good_string_def payload_text_def field_val_def)

lemma good_opt_text: "good_opt_string d k \<Longrightarrow> payload_text d k = field_val d k"
  by (auto simp: good_opt_string_def good_text) (simp add: payload_text_def field_val_def)

lemma good_text_eq: "good_string d k \<Longrightarrow> dict_get d k = Some (VStr x) \<longleftrightarrow> or_empty (field_val d k) = x"
  by (auto simp: good_string_def field_val_def)

lemma uri_text:
  assumes "good_opt_string d k" "good_opt_string d j" "good_string d k \<or> good_string d j"
  shows "(case payload_text d k of Some u \<Rightarrow> Some u | None \<Rightarrow> payload_text d j) =
    Some (or_empty (case field_val d k of Some u \<Rightarrow> Some u | None \<Rightarrow> field_val d j))"
  using assms field_val_None [of d k] field_val_None [of d j]
  by (auto simp: good_opt_text split: option.split)

lemma tenant_text: "tenant_id_val d = (case payload_text d ''tenant_id'' of Some x \<Rightarrow> py_strip x | None \<Rightarrow> [])"
  by (simp add: tenant_id_val_def read_tenant_id_def payload_text_def split: option.split pyval.split)

lemma correlation_text: "correlation_id_val d = payload_stripped d ''correlation_id''"
  by (simp add: correlation_id_val_def read_correlation_id_def payload_stripped_def payload_text_def
      split: option.split pyval.split)

lemma digest_text:
  assumes "\<And>s. dict_get d ''artifact_digest'' = Some (VStr s) \<Longrightarrow> blank s \<or> py_strip s = s"
  shows "artifact_digest_val d = payload_stripped d ''artifact_digest''"
  using assms
  by (auto simp: artifact_digest_val_def read_artifact_digest_def skip_artifact_digest_validation_def
      payload_stripped_def payload_text_def blank_def Let_def split: option.split pyval.split)

lemma symbol_text: "nested_symbol d =
    (case dict_get d ''parameters'' of Some (VDict q) \<Rightarrow> payload_stripped q ''symbol'' | _ \<Rightarrow> None)"
  by (simp add: nested_symbol_def payload_stripped_def payload_text_def split: option.split pyval.split)

lemma spec_fields:
  "s = \<lparr>ls_runtime_id = rid, ls_tenant_id = tenant, ls_strategy_version_id = version, ls_mode = m,
     ls_launch_attempt = n, ls_artifact_uri = uri, ls_entrypoint = ep, ls_trader_id = trader,
     ls_account_id = account, ls_artifact_digest = digest, ls_job_id = job, ls_ts_start = lo, ls_ts_end = hi,
     ls_symbol = sy, ls_correlation_id = corr\<rparr> \<longleftrightarrow>
   rid = ls_runtime_id s \<and> version = ls_strategy_version_id s \<and> ep = ls_entrypoint s \<and> ls_mode s = m \<and>
   n = ls_launch_attempt s \<and> ls_account_id s = account \<and> ls_trader_id s = trader \<and> ls_job_id s = job \<and>
   ls_ts_start s = lo \<and> ls_ts_end s = hi \<and> ls_artifact_uri s = uri \<and> ls_tenant_id s = tenant \<and>
   ls_artifact_digest s = digest \<and> ls_correlation_id s = corr \<and> ls_symbol s = sy"
  by (cases s) auto

lemma payload_says_spec:
  assumes "valid_payload d"
  shows "payload_says d s \<longleftrightarrow> s = payload_spec d"
proof -
  have good: "good_string d ''runtime_id''" "good_string d ''strategy_version_id''"
      "good_string d ''entrypoint''" "good_string d ''account_id''"
    and opt: "good_opt_string d ''artifact_uri''" "good_opt_string d ''artifact_reference''"
      "good_opt_string d ''trader_id''" "good_opt_string d ''job_id''" "good_opt_string d ''ts_start''"
      "good_opt_string d ''ts_end''" "good_opt_string d ''symbol''"
    and uri: "good_string d ''artifact_uri'' \<or> good_string d ''artifact_reference''"
    and known: "unknown_fields d = []"
    and attempt: "\<exists>n \<ge> 1. dict_get d ''launch_attempt'' = Some (VInt n)"
    and mode_there: "\<exists>m. dict_get d ''mode'' = Some (VStr (runtime_mode_value m)) \<and>
        (if m = BACKTEST then good_string d ''ts_start'' \<and> good_string d ''ts_end''
         else \<not> good_string d ''ts_start'' \<and> \<not> good_string d ''ts_end'')"
    using assms by (simp_all only: valid_payload_def ball_simps simp_thms)
  have digest: "\<forall>s. dict_get d ''artifact_digest'' = Some (VStr s) \<longrightarrow> blank s \<or> py_strip s = s"
    using assms unfolding valid_payload_def by (elim conjE) assumption
  have digest': "artifact_digest_val d = payload_stripped d ''artifact_digest''"
    by (rule digest_text) (rule digest [THEN spec, THEN mp])
  obtain n where n: "dict_get d ''launch_attempt'' = Some (VInt n)" using attempt by blast
  then have n': "attempt_val d = n" by (simp add: attempt_val_def read_launch_attempt_def)
  obtain m where m: "dict_get d ''mode'' = Some (VStr (runtime_mode_value m))" using mode_there by blast
  then have m': "mode_val d = m" by (rule read_mode_value)
  have mode: "dict_get d ''mode'' = Some (VStr (runtime_mode_value x)) \<longleftrightarrow> x = m" for x
    using m read_mode_value [of d x] m' by auto
  show ?thesis
    unfolding payload_spec_def spec_fields payload_says_def good_text_eq [OF good(1)] good_text_eq [OF good(2)] good_text_eq [OF good(3)]
      mode m' n n' good_text [OF good(4)] good_opt_text [OF opt(3)] good_opt_text [OF opt(4)]
      good_opt_text [OF opt(5)] good_opt_text [OF opt(6)] good_opt_text [OF opt(7)]
      uri_text [OF opt(1,2) uri] tenant_text [symmetric] correlation_text [symmetric]
      digest' symbol_text [symmetric]
    by (simp only: no_unknown_known [OF known] option.inject pyval.inject simp_thms)
qed

text \<open>
  C38: the field-by-field reading, which collects errors as it goes, accepts a payload exactly
  when the conditions of \<open>valid_payload\<close> hold of its fields, whatever the order of the checks, and
  then yields the one spec that \<open>payload_says\<close>: every field of the spec is what the payload has
  under that field's key.
\<close>

theorem launch_payload_accepts:
  "from_payload p = Inr s \<longleftrightarrow> (\<exists>d. p = VDict d \<and> valid_payload d \<and> payload_says d s)"
  using payload_says_spec by (auto simp: from_payload_Inr)

text \<open>
  An accepted launch spec yields a worker identity exactly when it has no trader: the spec
  requires an account and allows a trader beside it, the identity allows only one of the two,
  and no other check of the identity can fail on an accepted spec.
\<close>

lemma launch_spec_identity:
  assumes "from_payload p = Inr s"
  shows "(\<exists>w. build_worker_identity s = Inr w) \<longleftrightarrow> ls_trader_id s = None"
proof -
  obtain d where d: "valid_payload d" "s = payload_spec d"
    using assms by (auto simp: from_payload_Inr)
  note clean = payload_spec_clean [OF d(1), folded d(2)]
  have "uri_candidate (ls_artifact_uri s) None = ls_artifact_uri s"
    using clean by (simp add: uri_candidate_def)
  then show ?thesis
    using clean by (auto simp: build_worker_identity_def make_worker_identity_def
        wi_fields.req_fixed wi_fields.opt_fixed mode_enum.parse_value)
qed

definition sample_payload :: pydict where
  "sample_payload =
     [(''runtime_id'', VStr ''rt''), (''strategy_version_id'', VStr ''v''),
      (''mode'', VStr ''PAPER''), (''launch_attempt'', VInt 1), (''entrypoint'', VStr ''m:S''),
      (''account_id'', VStr ''a''), (''trader_id'', VStr ''t''), (''artifact_uri'', VStr ''u'')]"

lemma sample_payload_valid: "valid_payload sample_payload"
proof -
  have "unknown_fields sample_payload = []"
    by (simp add: unknown_fields_def sorted_set_def sample_payload_def allowed_top_level_def
        REQUIRED_FIELDS_def OPTIONAL_FIELDS_def)
  then show ?thesis
    by (auto simp: valid_payload_def sample_payload_def good_string_def good_opt_string_def
        null_or_string_def clean_def str_eval intro!: exI [of _ PAPER])
qed

theorem launch_spec_identity_witness:
  "\<not> (\<exists>w. build_worker_identity (payload_spec sample_payload) = Inr w)"
proof -
  have "from_payload (VDict sample_payload) = Inr (payload_spec sample_payload)"
    by (simp add: from_payload_Inr sample_payload_valid)
  moreover have "ls_trader_id (payload_spec sample_payload) = Some ''t''"
    by (simp add: payload_spec_def field_val_def sample_payload_def clean_def str_eval)
  ultimately show ?thesis using launch_spec_identity by force
qed

text \<open>
  Once a payload has been accepted, and whatever else is validated after it, a later payload
  for the same runtime and attempt is accepted exactly when it has the same JSON text; the same
  object with its keys in another order has.
\<close>

lemma validator_first_payload_wins:
  assumes "fst (validate fr accepted p) = Inr s"
    and "from_payload q = Inr s'" and "json_dumps fr q = Some u"
    and "ls_runtime_id s' = ls_runtime_id s" and "ls_launch_attempt s' = ls_launch_attempt s"
  shows "fst (validate fr (validate_all fr (snd (validate fr accepted p)) ps) q) = Inr s' \<longleftrightarrow>
           json_dumps fr p = Some u"
proof -
  obtain t where t: "json_dumps fr p = Some t"
      "snd (validate fr accepted p) (ls_runtime_id s, ls_launch_attempt s) = Some t"
    using validate_stores [OF assms(1)] by blast
  have "validate_all fr (snd (validate fr accepted p)) ps (ls_runtime_id s', ls_launch_attempt s') = Some t"
    using t(2) validate_all_grows [of "snd (validate fr accepted p)" fr ps] assms(4,5)
    by (force simp: map_le_def dom_def)
  then show ?thesis using validate_known [OF assms(2,3)] t(1) by auto
qed

theorem validator_first_payload_wins_witness:
  "fst (validate (\<lambda>_. []) (validate_all (\<lambda>_. []) (snd (validate (\<lambda>_. []) Map.empty (VDict sample_payload)))
     [VNone]) (VDict (rev sample_payload))) = Inr (payload_spec sample_payload)"
proof -
  have dist: "distinct (map fst sample_payload)" by (simp add: sample_payload_def)
  have spec: "from_payload (VDict sample_payload) = Inr (payload_spec sample_payload)"
    by (simp add: from_payload_Inr sample_payload_valid)
  then have rev_spec: "from_payload (VDict (rev sample_payload)) = Inr (payload_spec sample_payload)"
    using from_payload_perm [of sample_payload "rev sample_payload"] dist by simp
  have json: "json_dumps (\<lambda>_. []) (VDict (rev sample_payload)) = json_dumps (\<lambda>_. []) (VDict sample_payload)"
    by (rule json_key_order [symmetric]) (simp_all add: dist)
  obtain t where t: "json_dumps (\<lambda>_. []) (VDict sample_payload) = Some t"
    by (simp add: sample_payload_def)
  have "fst (validate (\<lambda>_. []) Map.empty (VDict sample_payload)) = Inr (payload_spec sample_payload)"
    by (simp add: validate_def spec t del: json_dumps.simps)
  then show ?thesis
    using validator_first_payload_wins [OF _ rev_spec, of "\<lambda>_. []" Map.empty "VDict sample_payload"
        "payload_spec sample_payload" t "[VNone]"] json t
    by (simp del: json_dumps.simps)
qed

end
