(* ===== verification/SrmStatus.thy ===== *)
theory SrmStatus
  imports LaunchSpec
begin

text \<open>
  The status reports to the strategy-runtime-manager: \<open>runtime/transport/heartbeat.py\<close> (bodies,
  HTTP result mapping, the heartbeat client), \<open>bootstrap/srm_env_status_report.py\<close> (which
  report each bootstrap or shutdown outcome produces) and \<open>bootstrap/minimal_env_validation.py\<close>.
  A report function returns the POST it makes, \<open>None\<close> when it makes none; what the manager
  answers is a \<open>http_outcome\<close>. The current time and \<open>json.loads\<close> are arguments.
\<close>

section \<open>Bodies\<close>

definition RUNTIME_TYPE_STRATEGY_WORKER :: string where
  "RUNTIME_TYPE_STRATEGY_WORKER = ''STRATEGY_WORKER_RUNTIME''"

definition HEALTHY_LOCAL_STATES :: "string list" where
  "HEALTHY_LOCAL_STATES = [''INITIALIZING'', ''READY'', ''RUNNING'', ''STOPPING'', ''COMPLETED'']"

definition health_status_for_local_state :: "string option \<Rightarrow> string" where
  "health_status_for_local_state local_state =
     (let normalized = py_upper (py_strip (or_empty local_state))
      in if normalized \<in> set HEALTHY_LOCAL_STATES then ''HEALTHY'' else ''UNHEALTHY'')"

definition format_occurred_at :: "pydatetime \<Rightarrow> string" where
  "format_occurred_at value = wire_timestamp value"

definition build_srm_status_metadata :: "string option \<Rightarrow> string option \<Rightarrow> bool option \<Rightarrow> pydict" where
  "build_srm_status_metadata rcode message retryable =
     [(''reason_code'', VStr (py_strip (or_empty rcode))),
      (''message'', VStr (py_strip (or_empty message)))] @
     (case retryable of None \<Rightarrow> [] | Some b \<Rightarrow> [(''retryable'', VBool b)])"

definition normalize_srm_status_source :: "string option \<Rightarrow> py_exc + string" where
  "normalize_srm_status_source value =
     (let candidate =
        py_upper (py_strip (if or_empty value = [] then ''HEARTBEAT'' else or_empty value))
      in if candidate \<notin> {''HEARTBEAT'', ''UPDATE''}
         then Inl (ValueExc ''ValueError'' ''Unsupported SRM status source'' None)
         else Inr candidate)"

record srm_fields =
  sf_runtime_status :: "string option"
  sf_health_status :: "string option"
  sf_reason_code :: "string option"
  sf_message :: "string option"
  sf_retryable :: "bool option"
  sf_metadata_empty :: bool

definition build_srm_heartbeat_body ::
  "string \<Rightarrow> string \<Rightarrow> string \<Rightarrow> string option \<Rightarrow> pydatetime \<Rightarrow> string option \<Rightarrow> srm_fields \<Rightarrow>
   py_exc + pydict" where
  "build_srm_heartbeat_body runtime_id mode owner_resource_id local_state observed_at source f =
     (let phase = py_upper (py_strip (or_empty local_state)) in
      rbind (normalize_srm_status_source source) (\<lambda>status_source.
        Inr
          [(''runtime_id'', VStr runtime_id),
           (''runtime_type'', VStr RUNTIME_TYPE_STRATEGY_WORKER),
           (''mode'', VStr (py_upper (py_strip mode))),
           (''owner_resource_id'', VStr owner_resource_id),
           (''runtime_status'',
             VStr (py_upper (py_strip
               (if or_empty (sf_runtime_status f) = [] then phase else or_empty (sf_runtime_status f))))),
           (''health_status'',
             VStr (case sf_health_status f of
                     Some h \<Rightarrow> py_upper (py_strip h)
                   | None \<Rightarrow> health_status_for_local_state (Some phase))),
           (''source'', VStr status_source),
           (''occurred_at'', VStr (format_occurred_at observed_at)),
           (''metadata'',
             VDict (if sf_metadata_empty f then []
                    else build_srm_status_metadata (sf_reason_code f) (sf_message f)
                           (sf_retryable f)))]))"

section \<open>HTTP\<close>

record srm_post =
  sp_base_url :: string
  sp_runtime_id :: string
  sp_body :: pydict

datatype http_outcome =
    HttpResponse int string
  | HttpErrorResponse int string
  | UrlError string

definition rejected :: "string \<Rightarrow> string \<Rightarrow> pydict" where
  "rejected reason details =
     [(''accepted'', VBool False), (''signal_type'', VStr ''heartbeat''),
      (''reason_code'', VStr reason), (''details'', VStr details)]"

definition accepted_heartbeat :: pydict where
  "accepted_heartbeat = [(''accepted'', VBool True), (''signal_type'', VStr ''heartbeat'')]"

definition text_or :: "string \<Rightarrow> string \<Rightarrow> string" where
  "text_or s d = (if s = [] then d else s)"

definition map_http_result :: "(string \<Rightarrow> pyval option) \<Rightarrow> int \<Rightarrow> string \<Rightarrow> pydict" where
  "map_http_result json_loads status body =
     (let trimmed = py_strip body in
      if status \<in> {200, 202} then
        (if trimmed = [] then accepted_heartbeat
         else (case json_loads trimmed of
                 None \<Rightarrow> rejected ''SRM_DECODE_FAILED'' ''success response is not valid JSON''
               | Some (VDict parsed) \<Rightarrow>
                   if dict_get parsed ''success'' = Some (VBool True) then accepted_heartbeat
                   else rejected ''SRM_DECODE_FAILED'' ''success envelope missing success=true''
               | Some other \<Rightarrow>
                   rejected ''SRM_DECODE_FAILED'' ''success envelope missing success=true''))
      else if status = 404 then
        rejected ''RUNTIME_NOT_FOUND'' (text_or (take 256 trimmed) ''runtime not found'')
      else if status \<in> {409, 422} then
        rejected ''HEARTBEAT_REJECTED'' (text_or (take 256 trimmed) ''heartbeat rejected'')
      else if status = 400 then
        rejected ''VALIDATION_ERROR'' (text_or (take 256 trimmed) ''validation error'')
      else if status \<in> {401, 403} then
        rejected ''AUTH_FAILED'' (text_or (take 256 trimmed) ''authentication failed'')
      else if status \<ge> 500 then rejected ''SRM_UNAVAILABLE'' (''HTTP '' @ int_str status)
      else rejected ''UNEXPECTED_HTTP_STATUS'' (''HTTP '' @ int_str status))"

definition http_result :: "(string \<Rightarrow> pyval option) \<Rightarrow> http_outcome \<Rightarrow> pydict" where
  "http_result json_loads outcome =
     (case outcome of
        HttpResponse status text \<Rightarrow> map_http_result json_loads status text
      | HttpErrorResponse status text \<Rightarrow> map_http_result json_loads status text
      | UrlError reason \<Rightarrow> rejected ''SRM_NETWORK'' reason)"

text \<open>The POST of \<open>post_srm_runtime_status\<close>; its source is always \<open>UPDATE\<close>.\<close>

definition post_srm_runtime_status ::
  "string \<Rightarrow> string \<Rightarrow> string \<Rightarrow> string \<Rightarrow> pydatetime \<Rightarrow> srm_fields \<Rightarrow> py_exc + srm_post" where
  "post_srm_runtime_status base_url runtime_id mode owner_resource_id observed_at f =
     rbind (build_srm_heartbeat_body runtime_id mode owner_resource_id (sf_runtime_status f)
              observed_at (Some ''UPDATE'') f)
       (\<lambda>body. Inr \<lparr>sp_base_url = base_url, sp_runtime_id = runtime_id, sp_body = body\<rparr>)"

section \<open>The heartbeat client\<close>

record srm_client =
  hc_base_url :: string
  hc_owner_resource_id :: string

definition make_srm_client :: "string \<Rightarrow> string \<Rightarrow> srm_client" where
  "make_srm_client base_url owner_resource_id =
     \<lparr>hc_base_url = py_strip base_url, hc_owner_resource_id = py_strip owner_resource_id\<rparr>"

fun opt_text :: "(pyval \<Rightarrow> string) \<Rightarrow> pyval \<Rightarrow> string option" where
  "opt_text r VNone = None"
| "opt_text r v = Some (py_str r v)"

text \<open>Result: an immediate answer, or the POST whose outcome \<open>http_result\<close> maps.\<close>

definition emit_signal ::
  "(pyval \<Rightarrow> string) \<Rightarrow> srm_client \<Rightarrow> pydict \<Rightarrow> py_exc + (pydict + srm_post)" where
  "emit_signal r client envelope =
     (let signal_type = str_or_empty r (get_or_none envelope ''signal_type'') in
      if signal_type \<noteq> ''heartbeat'' then
        Inr (Inl [(''accepted'', VBool False), (''signal_type'', VStr signal_type),
                  (''reason_code'', VStr ''UNSUPPORTED_SIGNAL'')])
      else
        (case (get_or_none envelope ''identity'', get_or_none envelope ''payload'') of
           (VDict identity, VDict payload) \<Rightarrow>
             (let mode = py_upper (py_strip (str_or_empty r (get_or_none identity ''mode''))) in
              if mode = runtime_mode_value BACKTEST then
                Inr (Inl (accepted_heartbeat @ [(''skipped'', VBool True)]))
              else if hc_base_url client = [] then
                Inr (Inl [(''accepted'', VBool False), (''signal_type'', VStr ''heartbeat''),
                          (''reason_code'', VStr ''SRM_BASE_URL_NOT_CONFIGURED'')])
              else
                (let runtime_id = py_strip (str_or_empty r (get_or_none identity ''runtime_id'')) in
                 if runtime_id = [] then
                   Inl (ValueExc ''ValueError'' ''runtime_id is required for SRM heartbeat'' None)
                 else if hc_owner_resource_id client = [] then
                   Inr (Inl [(''accepted'', VBool False), (''signal_type'', VStr ''heartbeat''),
                             (''reason_code'', VStr ''OWNER_RESOURCE_ID_REQUIRED'')])
                 else
                   (case get_or_none payload ''observed_at'' of
                      VTime observed_at \<Rightarrow>
                        rbind (normalize_srm_status_source (opt_text r (get_or_none payload ''source'')))
                          (\<lambda>source.
                        rbind (build_srm_heartbeat_body runtime_id mode (hc_owner_resource_id client)
                                 (opt_text r (get_or_none payload ''local_state'')) observed_at
                                 (Some source)
                                 \<lparr>sf_runtime_status = opt_text r (get_or_none payload ''runtime_status''),
                                  sf_health_status = opt_text r (get_or_none payload ''health_status''),
                                  sf_reason_code = opt_text r (get_or_none payload ''reason_code''),
                                  sf_message = opt_text r (get_or_none payload ''message''),
                                  sf_retryable =
                                    (case get_or_none payload ''retryable'' of
                                       VBool b \<Rightarrow> Some b | _ \<Rightarrow> None),
                                  sf_metadata_empty = False\<rparr>)
                          (\<lambda>body. Inr (Inr \<lparr>sp_base_url = hc_base_url client,
                                           sp_runtime_id = runtime_id, sp_body = body\<rparr>)))
                    | _ \<Rightarrow>
                        Inl (ValueExc ''ValueError'' ''heartbeat payload.observed_at must be datetime''
                               None))))
         | (VDict identity, _) \<Rightarrow>
             Inl (ValueExc ''ValueError'' ''signal envelope must include payload mapping'' None)
         | _ \<Rightarrow>
             Inl (ValueExc ''ValueError'' ''signal envelope must include identity mapping'' None)))"

section \<open>Minimal environment\<close>

record env_snapshot =
  es_runtime_id :: string
  es_srm_base_url :: string
  es_deployment_id :: string
  es_mode :: string

record env_result =
  er_valid :: bool
  er_snapshot :: "env_snapshot option"
  er_field_errors :: field_errors
  er_message :: string

fun first_nonempty_env :: "(string \<rightharpoonup> string) \<Rightarrow> string list \<Rightarrow> string" where
  "first_nonempty_env environ [] = []"
| "first_nonempty_env environ (key # keys) =
     (let value = py_strip (or_empty (environ key))
      in if value \<noteq> [] then value else first_nonempty_env environ keys)"

definition env_runtime_id :: "(string \<rightharpoonup> string) \<Rightarrow> string" where
  "env_runtime_id environ = first_nonempty_env environ [''RUNTIME_ID'', ''SWR_RUNTIME_ID'']"

definition env_srm_base_url :: "(string \<rightharpoonup> string) \<Rightarrow> string" where
  "env_srm_base_url environ =
     first_nonempty_env environ
       [''STRATEGY_RUNTIME_MANAGER_BASE_URL'', ''SWR_STRATEGY_RUNTIME_MANAGER_BASE_URL'']"

definition env_snapshot_of :: "(string \<rightharpoonup> string) \<Rightarrow> env_snapshot" where
  "env_snapshot_of environ =
     \<lparr>es_runtime_id = env_runtime_id environ, es_srm_base_url = env_srm_base_url environ,
      es_deployment_id = first_nonempty_env environ [''DEPLOYMENT_ID''],
      es_mode = text_or (first_nonempty_env environ [''MODE'', ''SWR_MODE'']) ''LIVE''\<rparr>"

definition validate_minimal_env_from_environ :: "(string \<rightharpoonup> string) \<Rightarrow> env_result" where
  "validate_minimal_env_from_environ environ =
     (let runtime_id = env_runtime_id environ;
          srm_base_url = env_srm_base_url environ;
          errors =
            (if runtime_id = [] then
               [(''runtime_id'', ''required_field_missing: set RUNTIME_ID or SWR_RUNTIME_ID'')]
             else []) @
            (if srm_base_url = [] then
               [(''STRATEGY_RUNTIME_MANAGER_BASE_URL'',
                 ''required_field_missing: set STRATEGY_RUNTIME_MANAGER_BASE_URL '' @
                 ''or SWR_STRATEGY_RUNTIME_MANAGER_BASE_URL'')]
             else [])
      in if errors \<noteq> [] then
           \<lparr>er_valid = False,
            er_snapshot =
              (if runtime_id \<noteq> [] \<and> srm_base_url \<noteq> [] then Some (env_snapshot_of environ) else None),
            er_field_errors = errors,
            er_message =
              ''Minimal environment validation failed: '' @ py_join '', '' (py_sorted (map fst errors))\<rparr>
         else
           \<lparr>er_valid = True, er_snapshot = Some (env_snapshot_of environ), er_field_errors = [],
            er_message = ''Minimal environment validation passed.''\<rparr>)"

section \<open>Startup reports\<close>

definition CONTEXT_FETCH_REASONS :: "string list" where
  "CONTEXT_FETCH_REASONS =
     [''deployment_runtime_context_unreachable'', ''deployment_runtime_context_http_error'']"

definition CONTEXT_VALIDATION_REASONS :: "string list" where
  "CONTEXT_VALIDATION_REASONS =
     [''deployment_runtime_context_empty_body'', ''deployment_runtime_context_invalid_json'',
      ''deployment_runtime_context_missing_identity'']"

definition is_runtime_context_fetch_failure :: "launch_spec_error \<Rightarrow> bool" where
  "is_runtime_context_fetch_failure e \<longleftrightarrow>
     lse_reason e \<in> set (CONTEXT_FETCH_REASONS @ CONTEXT_VALIDATION_REASONS)"

definition runtime_context_failure_status :: "launch_spec_error \<Rightarrow> string \<times> bool" where
  "runtime_context_failure_status e =
     (if lse_reason e \<in> set CONTEXT_VALIDATION_REASONS then (''SWR_CONTEXT_VALIDATION_FAILED'', False)
      else (''SWR_CONTEXT_FETCH_FAILED'', True))"

definition build_runtime_context_fetch_failure_message :: "launch_spec_error \<Rightarrow> string" where
  "build_runtime_context_fetch_failure_message e =
     (let fe = lse_field_errors e;
          detail = or_empty (dict_get fe ''deployment_runtime_context'');
          body = or_empty (dict_get fe ''body'');
          opener = (if lse_reason e \<in> set CONTEXT_VALIDATION_REASONS
                    then ''Deployment runtime-context validation failed ('' @ lse_reason e @ '').''
                    else ''Deployment runtime-context fetch failed ('' @ lse_reason e @ '').'');
          missing = [k. (k, code) \<leftarrow> fe, k \<noteq> ''deployment_runtime_context'' \<and> k \<noteq> ''body'' \<and>
                      occurs_in ''required_field_missing'' code]
      in py_join '' ''
           ([opener] @ (if detail \<noteq> [] then [detail] else []) @
            (if body \<noteq> [] then [''response_body='' @ body] else []) @
            (if missing \<noteq> [] then [''missing='' @ py_join '','' (py_sorted missing)] else [])))"

definition report_startup_failed_fields_to_srm ::
  "pydatetime \<Rightarrow> string \<Rightarrow> string \<Rightarrow> string \<Rightarrow> string \<Rightarrow> string \<Rightarrow> string \<Rightarrow> bool \<Rightarrow>
   py_exc + srm_post option" where
  "report_startup_failed_fields_to_srm now runtime_id srm_base_url mode owner rcode message
     retryable =
     (if py_strip runtime_id = [] \<or> py_strip srm_base_url = [] then Inr None
      else rbind (post_srm_runtime_status srm_base_url runtime_id mode owner now
                    \<lparr>sf_runtime_status = Some ''STARTUP_FAILED'', sf_health_status = Some ''UNHEALTHY'',
                     sf_reason_code = Some rcode, sf_message = Some message,
                     sf_retryable = Some retryable, sf_metadata_empty = False\<rparr>)
             (\<lambda>p. Inr (Some p)))"

definition report_startup_failed_to_srm ::
  "pydatetime \<Rightarrow> env_snapshot \<Rightarrow> string \<Rightarrow> string \<Rightarrow> bool \<Rightarrow> py_exc + srm_post option" where
  "report_startup_failed_to_srm now s rcode message retryable =
     report_startup_failed_fields_to_srm now (es_runtime_id s) (es_srm_base_url s) (es_mode s)
       (es_deployment_id s) rcode message retryable"

definition report_minimal_env_validation_to_srm ::
  "pydatetime \<Rightarrow> env_result \<Rightarrow> py_exc + srm_post option" where
  "report_minimal_env_validation_to_srm now result =
     (case er_snapshot result of
        None \<Rightarrow> Inr None
      | Some s \<Rightarrow>
          if er_valid result then
            rbind (post_srm_runtime_status (es_srm_base_url s) (es_runtime_id s) (es_mode s)
                     (es_deployment_id s) now
                     \<lparr>sf_runtime_status = Some ''STARTING'', sf_health_status = Some ''UNKNOWN'',
                      sf_reason_code = None, sf_message = None, sf_retryable = None,
                      sf_metadata_empty = False\<rparr>)
              (\<lambda>p. Inr (Some p))
          else report_startup_failed_to_srm now s ''SWR_ENV_VALIDATION_FAILED'' (er_message result)
                 False)"

definition report_runtime_context_fetch_failure_to_srm ::
  "pydatetime \<Rightarrow> launch_spec_error \<Rightarrow> env_snapshot \<Rightarrow> py_exc + srm_post option" where
  "report_runtime_context_fetch_failure_to_srm now e s =
     (case runtime_context_failure_status e of (rcode, retryable) \<Rightarrow>
        report_startup_failed_to_srm now s rcode
          (build_runtime_context_fetch_failure_message e) retryable)"

fun stage_srm_reason :: "bootstrap_stage \<Rightarrow> string" where
  "stage_srm_reason ARTIFACT_FETCH = ''SWR_ARTIFACT_NOT_FOUND''"
| "stage_srm_reason ARTIFACT_VERIFY = ''SWR_ARTIFACT_DIGEST_MISMATCH''"
| "stage_srm_reason ENTRYPOINT_LOAD = ''SWR_ENTRYPOINT_INVALID''"
| "stage_srm_reason SDK_VALIDATE = ''SWR_SDK_COMPATIBILITY_FAILED''"

definition build_bootstrap_failure_message ::
  "(pyval \<Rightarrow> string) \<Rightarrow> bootstrap_stage \<Rightarrow> string \<Rightarrow> pydict \<Rightarrow> string \<Rightarrow> string" where
  "build_bootstrap_failure_message r stage rcode details message =
     py_join '' ''
       ([text_or (py_strip message)
           (''Bootstrap stage '' @ bootstrap_stage_value stage @ '' failed ('' @ rcode @ '').''),
         ''stage='' @ bootstrap_stage_value stage, ''reason='' @ rcode] @
        [k @ ''='' @ py_str r (get_or_none details k).
           k \<leftarrow> [''entrypoint'', ''entrypoint_spec'', ''artifact_reference'', ''artifact_uri'',
                 ''expected_digest'', ''actual_digest''],
           get_or_none details k \<noteq> VNone \<and> get_or_none details k \<noteq> VStr []])"

definition report_bootstrap_failure_to_srm ::
  "(pyval \<Rightarrow> string) \<Rightarrow> pydatetime \<Rightarrow> bootstrap_stage \<Rightarrow> string \<Rightarrow> pydict \<Rightarrow> string \<Rightarrow>
   string \<Rightarrow> string \<Rightarrow> string \<Rightarrow> string \<Rightarrow> py_exc + srm_post option" where
  "report_bootstrap_failure_to_srm r now stage rcode details message runtime_id mode owner
     srm_base_url =
     report_startup_failed_fields_to_srm now runtime_id srm_base_url mode owner
       (stage_srm_reason stage)
       (build_bootstrap_failure_message r stage rcode details message) False"

definition report_bootstrap_success_to_srm ::
  "pydatetime \<Rightarrow> string \<Rightarrow> string \<Rightarrow> string \<Rightarrow> string \<Rightarrow> py_exc + srm_post option" where
  "report_bootstrap_success_to_srm now runtime_id mode owner srm_base_url =
     (if py_strip runtime_id = [] \<or> py_strip srm_base_url = [] then Inr None
      else rbind (post_srm_runtime_status srm_base_url runtime_id mode owner now
                    \<lparr>sf_runtime_status = Some ''RUNNING'', sf_health_status = Some ''HEALTHY'',
                     sf_reason_code = None, sf_message = None, sf_retryable = None,
                     sf_metadata_empty = True\<rparr>)
             (\<lambda>p. Inr (Some p)))"

section \<open>Shutdown reports\<close>

definition KUBERNETES_TERMINATION_REASON :: string where
  "KUBERNETES_TERMINATION_REASON = ''KUBERNETES_TERMINATION''"

definition SHUTDOWN_UNHEALTHY_SWR_REASONS :: "string list" where
  "SHUTDOWN_UNHEALTHY_SWR_REASONS = [''SWR_ERROR_DETECTED'', ''SWR_UNHEALTHY_EXECUTION_DETECTED'']"

definition FAILURE_SHUTDOWN_CANONICAL_REASONS :: "string list" where
  "FAILURE_SHUTDOWN_CANONICAL_REASONS = [''UNHEALTHY_EXECUTION_DETECTED'']"

definition shutdown_swr_reason_code :: "string \<Rightarrow> string" where
  "shutdown_swr_reason_code canonical_reason =
     (let raw = py_upper (py_strip (text_or canonical_reason ''SWR_SHUTDOWN''))
      in if starts_with ''SWR_'' raw then raw else ''SWR_'' @ raw)"

definition default_shutdown_messages :: "(string \<times> string) list" where
  "default_shutdown_messages =
     [(''STOP_REQUESTED'', ''Worker shutdown requested.''),
      (''MANUAL_STOP_REQUESTED'', ''Worker shutdown complete.''),
      (''RUNTIME_JOB_COMPLETED'', ''Runtime job completed.''),
      (''LOCAL_TERMINATION_OBSERVED'', ''Local termination observed.''),
      (''ERROR_DETECTED'', ''Shutdown after runtime detected failure.''),
      (''UNHEALTHY_EXECUTION_DETECTED'', ''Shutdown after unhealthy execution.''),
      (''CONTROLLED_SHUTDOWN_INITIATED'', ''Controlled shutdown initiated.''),
      (KUBERNETES_TERMINATION_REASON, ''Worker received Kubernetes SIGTERM.'')]"

definition default_shutdown_message :: "string \<Rightarrow> string" where
  "default_shutdown_message canonical_reason =
     (let normalized = py_upper (py_strip canonical_reason)
      in case dict_get default_shutdown_messages normalized of
           Some m \<Rightarrow> m | None \<Rightarrow> ''Worker shutdown ('' @ normalized @ '').'')"

definition resolve_shutdown_report :: "string \<Rightarrow> string option \<Rightarrow> string \<times> string" where
  "resolve_shutdown_report canonical_reason message =
     (shutdown_swr_reason_code canonical_reason,
      text_or (py_strip (or_empty message)) (default_shutdown_message canonical_reason))"

definition shutdown_health_status :: "string \<Rightarrow> string" where
  "shutdown_health_status swr_reason_code =
     (if swr_reason_code \<in> set SHUTDOWN_UNHEALTHY_SWR_REASONS then ''UNHEALTHY'' else ''HEALTHY'')"

definition canonical_reason_from_stop_request :: "string \<Rightarrow> string" where
  "canonical_reason_from_stop_request reason =
     (let text = py_strip reason in
      if text = [] then normalize_runtime_reason_code (Some ''STOP_REQUESTED'')
      else if py_upper text \<in> {KUBERNETES_TERMINATION_REASON, ''SWR_KUBERNETES_TERMINATION'', ''SIGTERM''}
        then KUBERNETES_TERMINATION_REASON
      else if py_lower text \<in> {''error_detected'', ''error'', ''failed''}
        then normalize_runtime_reason_code (Some ''ERROR_DETECTED'')
      else if py_lower text = ''runtime_job_completed''
        then normalize_runtime_reason_code (Some ''RUNTIME_JOB_COMPLETED'')
      else
        (let candidate = normalize_runtime_reason_code (Some text) in
         if candidate = ''POLICY_VIOLATION'' \<and> py_upper text \<notin> set RUNTIME_WORKER_REASON_CODES
         then normalize_runtime_reason_code (Some ''STOP_REQUESTED'')
         else candidate))"

definition is_failure_shutdown :: "string \<Rightarrow> bool" where
  "is_failure_shutdown canonical_reason \<longleftrightarrow>
     canonical_reason \<in> set FAILURE_SHUTDOWN_CANONICAL_REASONS \<or>
     shutdown_swr_reason_code canonical_reason \<in> set SHUTDOWN_UNHEALTHY_SWR_REASONS"

definition stopping_status_retryable :: "string \<Rightarrow> bool option" where
  "stopping_status_retryable canonical_reason =
     (if canonical_reason = KUBERNETES_TERMINATION_REASON then Some False else None)"

definition build_stopping_status_update_body ::
  "pydatetime \<Rightarrow> string \<Rightarrow> string \<Rightarrow> string \<Rightarrow> string \<Rightarrow> string option \<Rightarrow> py_exc + pydict" where
  "build_stopping_status_update_body now runtime_id mode owner canonical_reason message =
     (case resolve_shutdown_report canonical_reason message of (rcode, resolved_message) \<Rightarrow>
        build_srm_heartbeat_body runtime_id mode owner (Some ''STOPPING'') now (Some ''UPDATE'')
          \<lparr>sf_runtime_status = Some ''STOPPING'', sf_health_status = Some ''UNKNOWN'',
           sf_reason_code = Some rcode, sf_message = Some resolved_message,
           sf_retryable = stopping_status_retryable canonical_reason, sf_metadata_empty = False\<rparr>)"

definition report_shutdown_status_fields_to_srm ::
  "pydatetime \<Rightarrow> string \<Rightarrow> string \<Rightarrow> string \<Rightarrow> string \<Rightarrow> string \<Rightarrow> string \<Rightarrow> string \<Rightarrow> string \<Rightarrow>
   bool option \<Rightarrow> py_exc + srm_post option" where
  "report_shutdown_status_fields_to_srm now runtime_id srm_base_url mode owner runtime_status
     health_status rcode message retryable =
     (if py_strip runtime_id = [] \<or> py_strip srm_base_url = [] then Inr None
      else if py_strip rcode = [] \<or> py_strip message = [] then Inr None
      else rbind (post_srm_runtime_status srm_base_url runtime_id mode owner now
                    \<lparr>sf_runtime_status = Some runtime_status, sf_health_status = Some health_status,
                     sf_reason_code = Some rcode, sf_message = Some message,
                     sf_retryable = retryable, sf_metadata_empty = False\<rparr>)
             (\<lambda>p. Inr (Some p)))"

definition report_stopping_to_srm ::
  "pydatetime \<Rightarrow> string \<Rightarrow> string \<Rightarrow> string \<Rightarrow> string \<Rightarrow> string \<Rightarrow> string option \<Rightarrow> bool option \<Rightarrow>
   py_exc + srm_post option" where
  "report_stopping_to_srm now runtime_id mode owner srm_base_url canonical_reason message retryable =
     (case resolve_shutdown_report canonical_reason message of (rcode, resolved_message) \<Rightarrow>
        report_shutdown_status_fields_to_srm now runtime_id srm_base_url mode owner ''STOPPING''
          ''UNKNOWN'' rcode resolved_message retryable)"

definition report_stopped_to_srm ::
  "pydatetime \<Rightarrow> string \<Rightarrow> string \<Rightarrow> string \<Rightarrow> string \<Rightarrow> string \<Rightarrow> string option \<Rightarrow>
   py_exc + srm_post option" where
  "report_stopped_to_srm now runtime_id mode owner srm_base_url canonical_reason message =
     (case resolve_shutdown_report canonical_reason message of (rcode, resolved_message) \<Rightarrow>
        report_shutdown_status_fields_to_srm now runtime_id srm_base_url mode owner ''STOPPED''
          (shutdown_health_status rcode) rcode resolved_message None)"

definition report_failed_shutdown_to_srm ::
  "pydatetime \<Rightarrow> string \<Rightarrow> string \<Rightarrow> string \<Rightarrow> string \<Rightarrow> string \<Rightarrow> string option \<Rightarrow>
   py_exc + srm_post option" where
  "report_failed_shutdown_to_srm now runtime_id mode owner srm_base_url canonical_reason message =
     (case resolve_shutdown_report canonical_reason message of (rcode, resolved_message) \<Rightarrow>
        report_shutdown_status_fields_to_srm now runtime_id srm_base_url mode owner ''FAILED''
          ''UNHEALTHY'' rcode resolved_message None)"

definition report_final_shutdown_to_srm ::
  "pydatetime \<Rightarrow> string \<Rightarrow> string \<Rightarrow> string \<Rightarrow> string \<Rightarrow> string \<Rightarrow> string option \<Rightarrow>
   py_exc + srm_post option" where
  "report_final_shutdown_to_srm now runtime_id mode owner srm_base_url canonical_reason message =
     (if is_failure_shutdown canonical_reason then
        report_failed_shutdown_to_srm now runtime_id mode owner srm_base_url canonical_reason message
      else report_stopped_to_srm now runtime_id mode owner srm_base_url canonical_reason message)"

text \<open>
  \<open>initiate_stop_status_update\<close>: the response body, the POST (\<open>None\<close> when none is made), the
  canonical reason and the resolved message. Body and POST read the clock separately.
\<close>

definition initiate_stop_status_update ::
  "pydatetime \<Rightarrow> pydatetime \<Rightarrow> string \<Rightarrow> string \<Rightarrow> string \<Rightarrow> string \<Rightarrow> string \<Rightarrow>
   py_exc + pydict \<times> srm_post option \<times> string \<times> string" where
  "initiate_stop_status_update now now' runtime_id mode owner srm_base_url reason =
     (let canonical = canonical_reason_from_stop_request reason;
          stopping_message =
            (if canonical = KUBERNETES_TERMINATION_REASON
             then Some (default_shutdown_message canonical) else None)
      in rbind (build_stopping_status_update_body now runtime_id mode owner canonical stopping_message)
           (\<lambda>body.
         rbind (report_stopping_to_srm now' runtime_id mode owner srm_base_url canonical
                  stopping_message (stopping_status_retryable canonical))
           (\<lambda>p. Inr (body, p, canonical, snd (resolve_shutdown_report canonical stopping_message)))))"

section \<open>Lemmas\<close>

lemma text_or_simps [simp]: "text_or [] d = d" "s \<noteq> [] \<Longrightarrow> text_or s d = s"
  by (simp_all add: text_or_def)

lemma text_or_Nil [simp]: "text_or s d = [] \<longleftrightarrow> s = [] \<and> d = []"
  by (auto simp: text_or_def)

lemma reason_value_upper [simp]:
  "py_upper (runtime_worker_reason_code_value r) = runtime_worker_reason_code_value r"
  by (cases r) (simp_all add: py_upper_def char_eval)

lemma swr_reason_value [simp]:
  "shutdown_swr_reason_code (runtime_worker_reason_code_value r) =
     ''SWR_'' @ runtime_worker_reason_code_value r"
  by (cases r) (simp_all add: shutdown_swr_reason_code_def Let_def str_eval)

lemma is_failure_reason:
  "is_failure_shutdown (runtime_worker_reason_code_value r) \<longleftrightarrow> r = RC_UNHEALTHY_EXECUTION_DETECTED"
  unfolding is_failure_shutdown_def swr_reason_value
  by (cases r) (simp_all add: FAILURE_SHUTDOWN_CANONICAL_REASONS_def SHUTDOWN_UNHEALTHY_SWR_REASONS_def)

lemma default_message_not_blank:
  "py_strip (default_shutdown_message (runtime_worker_reason_code_value r)) \<noteq> []"
proof -
  have "default_shutdown_message (runtime_worker_reason_code_value r) \<noteq> [] \<and>
      hd (default_shutdown_message (runtime_worker_reason_code_value r)) \<in> {CHR ''W'', CHR ''R'', CHR ''L'', CHR ''S'', CHR ''C''}"
    unfolding default_shutdown_message_def reason_value_strip reason_value_upper Let_def
    by (cases r) (simp_all add: default_shutdown_messages_def KUBERNETES_TERMINATION_REASON_def)
  then obtain c t where "default_shutdown_message (runtime_worker_reason_code_value r) = c # t"
      and "c \<in> {CHR ''W'', CHR ''R'', CHR ''L'', CHR ''S'', CHR ''C''}"
    by (cases "default_shutdown_message (runtime_worker_reason_code_value r)") auto
  moreover from this(2) have "\<not> py_isspace c" by (auto simp: py_isspace_def py_whitespace_def)
  ultimately show ?thesis by (simp add: py_strip_eq_Nil)
qed

lemma resolved_message_not_blank:
  "py_strip (text_or (py_strip m) (default_shutdown_message (runtime_worker_reason_code_value r))) \<noteq> []"
  by (cases "py_strip m = []") (simp_all add: default_message_not_blank)

lemma update_source: "normalize_srm_status_source (Some ''UPDATE'') = Inr ''UPDATE''"
  by (simp add: normalize_srm_status_source_def Let_def str_eval)

lemma report_fields_posts:
  assumes "py_strip runtime_id \<noteq> []" and "py_strip url \<noteq> []"
    and "py_strip rcode \<noteq> []" and "py_strip message \<noteq> []" and "status \<noteq> []"
  shows "\<exists>p. report_shutdown_status_fields_to_srm now runtime_id url mode owner status health rcode
             message retryable = Inr (Some p) \<and>
           sp_base_url p = url \<and> sp_runtime_id p = runtime_id \<and>
           dict_get (sp_body p) ''runtime_status'' = Some (VStr (py_upper (py_strip status))) \<and>
           dict_get (sp_body p) ''health_status'' = Some (VStr (py_upper (py_strip health))) \<and>
           dict_get (sp_body p) ''metadata'' =
             Some (VDict (build_srm_status_metadata (Some rcode) (Some message) retryable))"
  using assms by (simp add: report_shutdown_status_fields_to_srm_def post_srm_runtime_status_def
      build_srm_heartbeat_body_def update_source Let_def)

lemma swr_prefix_strip: "py_strip (''SWR_'' @ runtime_worker_reason_code_value r) =
    ''SWR_'' @ runtime_worker_reason_code_value r"
  by (cases r) (simp_all add: str_eval)

lemma status_words [simp]:
  "py_upper (py_strip ''FAILED'') = ''FAILED''" "py_upper (py_strip ''STOPPED'') = ''STOPPED''"
  "py_upper (py_strip ''STOPPING'') = ''STOPPING''" "py_upper (py_strip ''HEALTHY'') = ''HEALTHY''"
  "py_upper (py_strip ''UNHEALTHY'') = ''UNHEALTHY''" "py_upper (py_strip ''UNKNOWN'') = ''UNKNOWN''"
  by (simp_all add: str_eval)

lemma normalized_is_reason: "\<exists>r. normalize_runtime_reason_code v = runtime_worker_reason_code_value r"
  using normalize_in_range [of v RC_POLICY_VIOLATION] by (auto simp: normalize_runtime_reason_code_def)

lemma if_mem: "a \<in> A \<Longrightarrow> b \<in> A \<Longrightarrow> (if c then a else b) \<in> A"
  by simp

lemma stop_request_reason: "\<exists>r. canonical_reason_from_stop_request t = runtime_worker_reason_code_value r"
proof -
  have "KUBERNETES_TERMINATION_REASON = runtime_worker_reason_code_value RC_KUBERNETES_TERMINATION"
    by (simp add: KUBERNETES_TERMINATION_REASON_def)
  then have k: "KUBERNETES_TERMINATION_REASON \<in> range runtime_worker_reason_code_value"
    by (rule ssubst) (rule rangeI)
  have n: "normalize_runtime_reason_code v \<in> range runtime_worker_reason_code_value" for v
    using normalized_is_reason [of v] by auto
  have "canonical_reason_from_stop_request t \<in> range runtime_worker_reason_code_value"
    unfolding canonical_reason_from_stop_request_def Let_def
    by (intro if_mem k n)
  then show ?thesis by auto
qed

lemma reason_value_in_codes [simp]:
  "runtime_worker_reason_code_value r \<in> set RUNTIME_WORKER_REASON_CODES"
  by (simp add: reason_codes_range)

lemma reason_lower_special:
  "py_lower (runtime_worker_reason_code_value r) \<notin>
     {''error_detected'', ''error'', ''failed'', ''runtime_job_completed''}"
  by (cases r) (simp_all add: py_lower_def char_eval)

lemma stop_request_fixed:
  "canonical_reason_from_stop_request (runtime_worker_reason_code_value r) =
     runtime_worker_reason_code_value r"
proof (cases "r = RC_KUBERNETES_TERMINATION")
  case True
  then show ?thesis
    using reason_value_strip [of r] reason_value_upper [of r]
    by (simp add: canonical_reason_from_stop_request_def KUBERNETES_TERMINATION_REASON_def Let_def)
next
  case False
  then have "runtime_worker_reason_code_value r \<notin>
      {KUBERNETES_TERMINATION_REASON, ''SWR_KUBERNETES_TERMINATION'', ''SIGTERM''}"
    by (cases r) (simp_all add: KUBERNETES_TERMINATION_REASON_def)
  then show ?thesis
    using reason_lower_special [of r]
    by (simp add: canonical_reason_from_stop_request_def Let_def)
qed

section \<open>Properties\<close>

text \<open>
  Whatever text a stop request carries, the reason derived from it is one of the canonical
  runtime-worker codes, and deriving again from that code gives it back.
\<close>

lemma stop_request_canonical_idempotent:
  "canonical_reason_from_stop_request t \<in> set RUNTIME_WORKER_REASON_CODES \<and>
   canonical_reason_from_stop_request (canonical_reason_from_stop_request t) =
     canonical_reason_from_stop_request t"
proof -
  obtain r where "canonical_reason_from_stop_request t = runtime_worker_reason_code_value r"
    using stop_request_reason by blast
  then show ?thesis by (simp add: stop_request_fixed)
qed

text \<open>
  A canonical failure reason that arrives in lower case is not recognised: it becomes
  \<open>POLICY_VIOLATION\<close>, because the default of the normalisation is taken for a match, and a
  shutdown that would be reported as a failure is reported as a clean stop.
\<close>

lemma lower_case_stop_reason_misread:
  "canonical_reason_from_stop_request ''unhealthy_execution_detected'' = ''POLICY_VIOLATION'' \<and>
   is_failure_shutdown (canonical_reason_from_stop_request ''UNHEALTHY_EXECUTION_DETECTED'') \<and>
   \<not> is_failure_shutdown (canonical_reason_from_stop_request ''unhealthy_execution_detected'')"
proof -
  have upper: "canonical_reason_from_stop_request ''UNHEALTHY_EXECUTION_DETECTED'' =
      runtime_worker_reason_code_value RC_UNHEALTHY_EXECUTION_DETECTED"
    using stop_request_fixed [of RC_UNHEALTHY_EXECUTION_DETECTED] by simp
  have "''UNHEALTHY_EXECUTION_DETECTED'' \<in> set RUNTIME_WORKER_REASON_CODES"
    using reason_value_in_codes [of RC_UNHEALTHY_EXECUTION_DETECTED] by simp
  moreover have "''unhealthy_execution_detected'' \<notin> set RUNTIME_WORKER_REASON_CODES"
    by (simp add: RUNTIME_WORKER_REASON_CODES_def all_runtime_worker_reason_code_def)
  then have "normalize_runtime_reason_code (Some ''unhealthy_execution_detected'') = ''POLICY_VIOLATION''"
    by (simp add: normalize_runtime_reason_code_def normalize_with_default_def
        LEGACY_RUNTIME_REASON_MAP_def str_eval)
  ultimately have lower: "canonical_reason_from_stop_request ''unhealthy_execution_detected'' =
      runtime_worker_reason_code_value RC_POLICY_VIOLATION"
    by (simp add: canonical_reason_from_stop_request_def KUBERNETES_TERMINATION_REASON_def str_eval)
  show ?thesis unfolding upper lower is_failure_reason by simp
qed

text \<open>
  For every canonical reason a shutdown of an identified worker makes exactly one final
  report: \<open>FAILED\<close> and unhealthy for a detected failure, \<open>STOPPED\<close> and healthy otherwise, with
  the \<open>SWR_\<close> form of the reason and a message that is never blank.
\<close>

lemma final_shutdown_report:
  assumes "py_strip runtime_id \<noteq> []" and "py_strip url \<noteq> []"
  shows "\<exists>p text. report_final_shutdown_to_srm now runtime_id mode owner url
             (runtime_worker_reason_code_value r) message = Inr (Some p) \<and>
           dict_get (sp_body p) ''runtime_status'' =
             Some (VStr (if r = RC_UNHEALTHY_EXECUTION_DETECTED then ''FAILED'' else ''STOPPED'')) \<and>
           dict_get (sp_body p) ''health_status'' =
             Some (VStr (if r = RC_UNHEALTHY_EXECUTION_DETECTED then ''UNHEALTHY'' else ''HEALTHY'')) \<and>
           dict_get (sp_body p) ''metadata'' =
             Some (VDict [(''reason_code'', VStr (''SWR_'' @ runtime_worker_reason_code_value r)),
                          (''message'', VStr text)]) \<and> text \<noteq> []"
proof -
  let ?code = "runtime_worker_reason_code_value r"
  let ?msg = "text_or (py_strip (or_empty message)) (default_shutdown_message ?code)"
  have meta: "build_srm_status_metadata (Some (''SWR_'' @ ?code)) (Some ?msg) None =
      [(''reason_code'', VStr (''SWR_'' @ ?code)), (''message'', VStr (py_strip ?msg))]"
    by (simp add: build_srm_status_metadata_def swr_prefix_strip del: append.simps)
  have nonblank: "py_strip ?msg \<noteq> []" by (rule resolved_message_not_blank)
  have code: "py_strip (''SWR_'' @ ?code) \<noteq> []" unfolding swr_prefix_strip by simp
  note posts = report_fields_posts [OF assms code nonblank, of _ now mode owner _ None, unfolded meta]
  show ?thesis
  proof (cases "r = RC_UNHEALTHY_EXECUTION_DETECTED")
    case True
    then have "report_final_shutdown_to_srm now runtime_id mode owner url ?code message =
        report_shutdown_status_fields_to_srm now runtime_id url mode owner ''FAILED'' ''UNHEALTHY''
          (''SWR_'' @ ?code) ?msg None"
      unfolding report_final_shutdown_to_srm_def is_failure_reason report_failed_shutdown_to_srm_def
        resolve_shutdown_report_def swr_reason_value by simp
    with posts [of "''FAILED''" "''UNHEALTHY''"] nonblank True show ?thesis by auto
  next
    case False
    have "shutdown_health_status (''SWR_'' @ ?code) = ''HEALTHY''"
      using False by (cases r) (simp_all add: shutdown_health_status_def SHUTDOWN_UNHEALTHY_SWR_REASONS_def)
    then have "report_final_shutdown_to_srm now runtime_id mode owner url ?code message =
        report_shutdown_status_fields_to_srm now runtime_id url mode owner ''STOPPED'' ''HEALTHY''
          (''SWR_'' @ ?code) ?msg None"
      using False unfolding report_final_shutdown_to_srm_def is_failure_reason report_stopped_to_srm_def
        resolve_shutdown_report_def swr_reason_value by simp
    with posts [of "''STOPPED''" "''HEALTHY''"] nonblank False show ?thesis by auto
  qed
qed

theorem final_shutdown_report_witness:
  "\<exists>p. report_final_shutdown_to_srm (utc 0) ''rt'' ''LIVE'' ''d'' ''http://srm''
     (runtime_worker_reason_code_value RC_STOP_REQUESTED) None = Inr (Some p)"
  using final_shutdown_report [of "''rt''" "''http://srm''" "utc 0" "''LIVE''" "''d''" RC_STOP_REQUESTED None]
  by (auto simp: str_eval)

text \<open>
  A stop that is initiated answers with a \<open>STOPPING\<close> body that carries the canonical
  reason's \<open>SWR_\<close> form; the same instant gives the POST the same body; the POST is left out
  only for a blank runtime id or URL.
\<close>

lemma initiate_stop_reports_stopping:
  "\<exists>body p r text.
     initiate_stop_status_update now now runtime_id mode owner url reason =
       Inr (body, p, runtime_worker_reason_code_value r, text) \<and>
     runtime_worker_reason_code_value r = canonical_reason_from_stop_request reason \<and>
     dict_get body ''runtime_status'' = Some (VStr ''STOPPING'') \<and>
     (\<exists>meta. dict_get body ''metadata'' = Some (VDict meta) \<and>
        dict_get meta ''reason_code'' = Some (VStr (''SWR_'' @ runtime_worker_reason_code_value r)) \<and>
        dict_has meta ''retryable'' = (r = RC_KUBERNETES_TERMINATION)) \<and>
     p = (if py_strip runtime_id = [] \<or> py_strip url = [] then None
          else Some \<lparr>sp_base_url = url, sp_runtime_id = runtime_id, sp_body = body\<rparr>)"
proof -
  obtain r where r: "canonical_reason_from_stop_request reason = runtime_worker_reason_code_value r"
    using stop_request_reason by blast
  have kube: "runtime_worker_reason_code_value r = KUBERNETES_TERMINATION_REASON \<longleftrightarrow>
      r = RC_KUBERNETES_TERMINATION"
    using reason_enum.val_inj [of r RC_KUBERNETES_TERMINATION]
    by (simp add: KUBERNETES_TERMINATION_REASON_def)
  obtain c where c_def: "c = runtime_worker_reason_code_value r" by simp
  obtain m where m_def: "m = (if c = KUBERNETES_TERMINATION_REASON then Some (default_shutdown_message c) else None)" by simp
  obtain msg where msg_def: "msg = text_or (py_strip (or_empty m)) (default_shutdown_message c)" by simp
  obtain meta where meta_def: "meta = build_srm_status_metadata (Some (''SWR_'' @ c)) (Some msg) (stopping_status_retryable c)" by simp
  have report: "resolve_shutdown_report c m = (''SWR_'' @ c, msg)"
    by (simp add: resolve_shutdown_report_def msg_def c_def)
  have nonblank: "py_strip msg \<noteq> []" "py_strip (''SWR_'' @ c) \<noteq> []"
    using resolved_message_not_blank [of "or_empty m" r] unfolding msg_def c_def swr_prefix_strip by simp_all
  have meta_get: "dict_get meta ''reason_code'' = Some (VStr (''SWR_'' @ c))"
      "dict_has meta ''retryable'' = (r = RC_KUBERNETES_TERMINATION)"
    using swr_prefix_strip [of r] kube
    by (auto simp: meta_def build_srm_status_metadata_def stopping_status_retryable_def dict_has_def c_def
        split: if_splits)
  obtain body where body: "build_stopping_status_update_body now runtime_id mode owner c m = Inr body"
      "dict_get body ''runtime_status'' = Some (VStr ''STOPPING'')"
      "dict_get body ''metadata'' = Some (VDict meta)"
      "post_srm_runtime_status url runtime_id mode owner now
         \<lparr>sf_runtime_status = Some ''STOPPING'', sf_health_status = Some ''UNKNOWN'',
          sf_reason_code = Some (''SWR_'' @ c), sf_message = Some msg,
          sf_retryable = stopping_status_retryable c, sf_metadata_empty = False\<rparr> =
       Inr \<lparr>sp_base_url = url, sp_runtime_id = runtime_id, sp_body = body\<rparr>"
    by (simp add: build_stopping_status_update_body_def report build_srm_heartbeat_body_def
        update_source post_srm_runtime_status_def Let_def meta_def)
  have "initiate_stop_status_update now now runtime_id mode owner url reason =
      Inr (body, if py_strip runtime_id = [] \<or> py_strip url = [] then None
                 else Some \<lparr>sp_base_url = url, sp_runtime_id = runtime_id, sp_body = body\<rparr>, c, msg)"
    unfolding initiate_stop_status_update_def r c_def [symmetric] Let_def m_def [symmetric]
    using body nonblank
    by (simp add: report report_stopping_to_srm_def report_shutdown_status_fields_to_srm_def del: append.simps)
  then show ?thesis
    using body(2,3) meta_get unfolding r c_def by blast
qed

text \<open>
  An invalid minimal environment is never reported to the manager: its snapshot is built
  only when both required values are present, and then the environment is valid.
\<close>

lemma invalid_minimal_env_unreported:
  assumes "\<not> er_valid (validate_minimal_env_from_environ env)"
  shows "report_minimal_env_validation_to_srm now (validate_minimal_env_from_environ env) = Inr None"
  using assms by (auto simp: validate_minimal_env_from_environ_def
      report_minimal_env_validation_to_srm_def Let_def split: if_splits)

theorem invalid_minimal_env_unreported_witness:
  "report_minimal_env_validation_to_srm (utc 0)
     (validate_minimal_env_from_environ [''RUNTIME_ID'' \<mapsto> ''rt'']) = Inr None"
proof (rule invalid_minimal_env_unreported)
  show "\<not> er_valid (validate_minimal_env_from_environ [''RUNTIME_ID'' \<mapsto> ''rt''])"
    by (simp add: validate_minimal_env_from_environ_def env_runtime_id_def env_srm_base_url_def
        str_eval)
qed

end
