(* ===== verification/MarketData.thy ===== *)
theory MarketData
  imports Errors PyText "HOL-Library.Word"
begin

text \<open>
  \<open>runtime/integration/market_data_partition.py\<close>, \<open>market_data_redis_feed.py\<close>,
  \<open>portfolio_redis_feed.py\<close> and \<open>bootstrap/bar_timeframe.py\<close>: which Redis streams a paper or
  live worker reads, how a stream entry becomes a tick, and the processing and acknowledgement
  of what \<open>XREAD\<close> and \<open>XREADGROUP\<close> return. What the code takes from outside (JSON, ISO parsing,
  float parsing, the float product in the millisecond conversion) is the record \<open>md_env\<close>;
  log lines are not modelled.
\<close>

section \<open>Partitions\<close>

unbundle bit_operations_syntax

text \<open>UTF-8 of a string of code points below 256.\<close>

definition utf8_char :: "char \<Rightarrow> 8 word list" where
  "utf8_char c =
     (let n = (of_char c :: nat)
      in if n < 128 then [of_nat n]
         else [of_nat (192 + n div 64), of_nat (128 + n mod 64)])"

definition utf8 :: "string \<Rightarrow> 8 word list" where
  "utf8 s = concat (map utf8_char s)"

fun crc_bits :: "nat \<Rightarrow> 32 word \<Rightarrow> 32 word" where
  "crc_bits 0 c = c"
| "crc_bits (Suc n) c =
     crc_bits n (if c AND 1 = 1 then (drop_bit 1 c) XOR 0xEDB88320 else drop_bit 1 c)"

definition crc_byte :: "32 word \<Rightarrow> 8 word \<Rightarrow> 32 word" where
  "crc_byte c b = crc_bits 8 (c XOR ucast b)"

definition symbol_crc32 :: "8 word list \<Rightarrow> 32 word" where
  "symbol_crc32 bytes = NOT (foldl crc_byte 0xFFFFFFFF bytes)"

definition market_data_partition :: "string \<Rightarrow> int \<Rightarrow> py_exc + int" where
  "market_data_partition symbol partition_count =
     (if partition_count < 1 then
        Inl (ValueExc ''ValueError'' ''partition_count must be >= 1'' None)
      else Inr (uint (symbol_crc32 (utf8 (py_strip symbol))) mod partition_count))"

section \<open>Stream names\<close>

record redis_keys =
  stream_trades :: string
  stream_quotes :: string
  stream_bars_1m :: string

definition default_market_data_redis_keys :: redis_keys where
  "default_market_data_redis_keys =
     \<lparr>stream_trades = ''md:stream:trades'', stream_quotes = ''md:stream:quotes'',
      stream_bars_1m = ''md:stream:am''\<rparr>"

definition PUBSUB_PREFIX_TO_STREAM :: "(string \<times> string) list" where
  "PUBSUB_PREFIX_TO_STREAM =
     [(''md:realtime:trades'', ''md:stream:trades''),
      (''md:realtime:quotes'', ''md:stream:quotes''),
      (''md:realtime:bars'', ''md:stream:am'')]"

text \<open>The three prefixes are ASCII, so folding case is lowering on every equal text.\<close>

definition normalize_stream_prefix_for_xread :: "string \<Rightarrow> string" where
  "normalize_stream_prefix_for_xread raw =
     (let s = py_strip raw
      in case dict_get PUBSUB_PREFIX_TO_STREAM (py_lower s) of Some stream \<Rightarrow> stream | None \<Rightarrow> s)"

definition setting_or :: "string option \<Rightarrow> string \<Rightarrow> string" where
  "setting_or raw fallback =
     (let s = py_strip (or_empty raw) in if s = [] then fallback else s)"

definition market_data_redis_keys_from_settings ::
  "string option \<Rightarrow> string option \<Rightarrow> string option \<Rightarrow> redis_keys" where
  "market_data_redis_keys_from_settings trades quotes bars =
     (let d = default_market_data_redis_keys
      in \<lparr>stream_trades = normalize_stream_prefix_for_xread (setting_or trades (stream_trades d)),
          stream_quotes = normalize_stream_prefix_for_xread (setting_or quotes (stream_quotes d)),
          stream_bars_1m = normalize_stream_prefix_for_xread (setting_or bars (stream_bars_1m d))\<rparr>)"

definition normalize_bar_timeframe_label :: "string \<Rightarrow> string" where
  "normalize_bar_timeframe_label raw =
     (let t = py_lower (py_strip raw)
      in case dict_get [(''1min'', ''1m''), (''60s'', ''1m''), (''60sec'', ''1m''), (''m1'', ''1m'')] t of
           Some a \<Rightarrow> a | None \<Rightarrow> t)"

definition redis_md_stream_am_supports_timeframe :: "string \<Rightarrow> bool" where
  "redis_md_stream_am_supports_timeframe bar_timeframe \<longleftrightarrow>
     normalize_bar_timeframe_label bar_timeframe = ''1m''"

definition timeframe_or_1m :: "string option \<Rightarrow> string" where
  "timeframe_or_1m tf =
     (let s = py_strip (case tf of None \<Rightarrow> ''1m'' | Some t \<Rightarrow> if t = [] then ''1m'' else t)
      in if s = [] then ''1m'' else s)"

definition feed_to_stream :: "redis_keys \<Rightarrow> string \<Rightarrow> string option" where
  "feed_to_stream keys f =
     dict_get [(''trades'', stream_trades keys), (''quotes'', stream_quotes keys),
               (''bars'', stream_bars_1m keys)] f"

fun resolve_loop :: "redis_keys \<Rightarrow> string \<Rightarrow> string list \<Rightarrow> string list \<Rightarrow> string list" where
  "resolve_loop keys tf [] out = out"
| "resolve_loop keys tf (f # feeds) out =
     (let fl = py_lower (py_strip f) in
      if fl = ''bars'' \<and> \<not> redis_md_stream_am_supports_timeframe tf then resolve_loop keys tf feeds out
      else (case feed_to_stream keys fl of
              Some key \<Rightarrow>
                resolve_loop keys tf feeds (if key \<notin> set out then out @ [key] else out)
            | None \<Rightarrow> resolve_loop keys tf feeds out))"

definition resolve_stream_names :: "string list \<Rightarrow> string option \<Rightarrow> redis_keys \<Rightarrow> string list" where
  "resolve_stream_names feeds bar_timeframe keys =
     resolve_loop keys (timeframe_or_1m bar_timeframe) feeds []"

fun symbol_partitions :: "int \<Rightarrow> string list \<Rightarrow> int list \<Rightarrow> py_exc + int list" where
  "symbol_partitions n [] seen = Inr seen"
| "symbol_partitions n (s # ss) seen =
     rbind (market_data_partition s n) (\<lambda>p.
       symbol_partitions n ss (if p \<in> set seen then seen else seen @ [p]))"

text \<open>The symbol filter is a set; the argument lists its elements in iteration order.\<close>

definition partitions_for_realtime_subscribe :: "int \<Rightarrow> string list \<Rightarrow> py_exc + int list" where
  "partitions_for_realtime_subscribe partition_count symbol_filter =
     (if partition_count < 1 then Inr []
      else if symbol_filter = [] then Inr [0 .. partition_count - 1]
      else rbind (symbol_partitions partition_count symbol_filter []) (\<lambda>ps. Inr (sort ps)))"

definition partition_key :: "string \<Rightarrow> int \<Rightarrow> string" where
  "partition_key base p = base @ '':'' @ int_str p"

definition expand_market_data_stream_keys ::
  "string list \<Rightarrow> int \<Rightarrow> string list \<Rightarrow> py_exc + string list" where
  "expand_market_data_stream_keys bases partition_count symbol_filter =
     (if partition_count < 1 then Inr bases
      else rbind (partitions_for_realtime_subscribe partition_count symbol_filter) (\<lambda>parts.
        if parts = [] then Inr bases
        else Inr (concat (map (\<lambda>b. map (partition_key b) parts) bases))))"

section \<open>Consumer names\<close>

definition token_char :: "char \<Rightarrow> char" where
  "token_char c =
     (let n = (of_char c :: nat)
      in if (48 \<le> n \<and> n \<le> 57) \<or> (65 \<le> n \<and> n \<le> 90) \<or> (97 \<le> n \<and> n \<le> 122) \<or> n = 45 \<or> n = 95
         then c else CHR ''_'')"

definition strip_underscores :: "string \<Rightarrow> string" where
  "strip_underscores s =
     rev (dropWhile (\<lambda>c. c = CHR ''_'') (rev (dropWhile (\<lambda>c. c = CHR ''_'') s)))"

definition sanitize_redis_stream_consumer_token :: "string \<Rightarrow> nat \<Rightarrow> string" where
  "sanitize_redis_stream_consumer_token raw max_len =
     (let s = strip_underscores (map token_char (py_strip raw))
      in take max_len (if s = [] then ''swr'' else s))"

definition build_market_data_consumer_group_name ::
  "string \<Rightarrow> string option \<Rightarrow> string option \<Rightarrow> string" where
  "build_market_data_consumer_group_name group_prefix deployment_id runtime_id =
     (let dep = py_strip (or_empty deployment_id); rid = py_strip (or_empty runtime_id)
      in sanitize_redis_stream_consumer_token group_prefix 48 @ '':'' @
         sanitize_redis_stream_consumer_token (if dep \<noteq> [] then dep else rid) 48)"

definition reconnect_backoff_seconds :: "nat \<Rightarrow> nat" where
  "reconnect_backoff_seconds attempt = min 30 (2 ^ min attempt 5)"

section \<open>Ticks\<close>

record md_env =
  json_loads :: "string \<Rightarrow> pyval option"
  fromisoformat :: "string \<Rightarrow> pydatetime option"
  epoch_millis :: "pydatetime \<Rightarrow> int"
  parse_float :: "string \<Rightarrow> pyfloat option"
  repr_of :: "pyval \<Rightarrow> string"

definition ends_with :: "string \<Rightarrow> string \<Rightarrow> bool" where
  "ends_with p s \<longleftrightarrow> starts_with (rev p) (rev s)"

definition time_utc_to_epoch_ms :: "md_env \<Rightarrow> string \<Rightarrow> int option" where
  "time_utc_to_epoch_ms w time_utc =
     (let raw = py_strip time_utc in
      if raw = [] then None
      else
        (let t = py_replace ''Z'' ''+00:00'' raw;
             t = (if ends_with ''+00'' t \<and> \<not> ends_with ''+00:00'' t
                  then take (length t - 3) t @ ''+00:00'' else t)
         in case fromisoformat w t of
              None \<Rightarrow> None
            | Some dt \<Rightarrow> Some (epoch_millis w (as_utc dt))))"

text \<open>\<open>float(v or 0.0)\<close>.\<close>

definition float_or_zero :: "md_env \<Rightarrow> pyval \<Rightarrow> py_exc + pyval" where
  "float_or_zero w v =
     (if \<not> py_truthy v then Inr (VFloat (Fin 0))
      else (case v of
              VBool b \<Rightarrow> Inr (VFloat (Fin 1))
            | VInt i \<Rightarrow> Inr (VFloat (Fin (of_int i)))
            | VFloat x \<Rightarrow> Inr (VFloat x)
            | VStr s \<Rightarrow>
                (case parse_float w s of
                   Some x \<Rightarrow> Inr (VFloat x)
                 | None \<Rightarrow> Inl (ValueExc ''ValueError'' ''could not convert string to float'' None))
            | _ \<Rightarrow> Inl (TypeExc ''TypeError'' ''float() argument must be a string or a real number'')))"

fun float_fields ::
  "md_env \<Rightarrow> pydict \<Rightarrow> (string \<times> string) list \<Rightarrow> py_exc + pydict" where
  "float_fields w obj [] = Inr []"
| "float_fields w obj ((name, src) # rest) =
     rbind (float_or_zero w (get_or_none obj src)) (\<lambda>x.
     rbind (float_fields w obj rest) (\<lambda>xs. Inr ((name, x) # xs)))"

text \<open>The part the three message kinds share: time and symbol, then kind-specific entries.\<close>

definition message_to_tick ::
  "md_env \<Rightarrow> pydict \<Rightarrow> string \<Rightarrow> string \<Rightarrow> string \<Rightarrow> string \<Rightarrow> pydict \<Rightarrow> (string \<times> string) list \<Rightarrow>
   py_exc + pydict option" where
  "message_to_tick w obj stream_id field kind prefix extra floats =
     (let time_utc = py_strip (str_or_empty (repr_of w) (get_or_none obj ''time_utc'')) in
      case time_utc_to_epoch_ms w time_utc of
        None \<Rightarrow> Inr None
      | Some ts_ms \<Rightarrow>
          (let s = py_strip (py_str (repr_of w)
                     (if py_truthy (get_or_none obj ''symbol'') then get_or_none obj ''symbol''
                      else VStr field)) in
           if s = [] then Inr None
           else rbind (float_fields w obj floats) (\<lambda>fs.
             Inr (Some
               ([(''type'', VStr kind), (''event_type'', VStr kind),
                 (''event_id'', VStr (prefix @ stream_id @ '':'' @ field)),
                 (''symbol'', VStr s), (''instrument_id'', VStr s)] @ extra @ fs @
                [(''ts_ms'', VInt ts_ms), (''event_time'', VStr time_utc)])))))"

definition bar_message_to_tick ::
  "md_env \<Rightarrow> pydict \<Rightarrow> string \<Rightarrow> string \<Rightarrow> string \<Rightarrow> py_exc + pydict option" where
  "bar_message_to_tick w obj stream_id field bar_timeframe =
     message_to_tick w obj stream_id field ''market.bar'' ''md:bar:''
       [(''timeframe'', VStr (timeframe_or_1m (Some bar_timeframe)))]
       [(''open'', ''open''), (''high'', ''high''), (''low'', ''low''), (''close'', ''close''),
        (''volume'', ''volume'')]"

definition trade_message_to_tick ::
  "md_env \<Rightarrow> pydict \<Rightarrow> string \<Rightarrow> string \<Rightarrow> py_exc + pydict option" where
  "trade_message_to_tick w obj stream_id field =
     message_to_tick w obj stream_id field ''market.tick'' ''md:trade:'' []
       [(''price'', ''price''), (''size'', ''size'')]"

definition quote_message_to_tick ::
  "md_env \<Rightarrow> pydict \<Rightarrow> string \<Rightarrow> string \<Rightarrow> py_exc + pydict option" where
  "quote_message_to_tick w obj stream_id field =
     message_to_tick w obj stream_id field ''market.quote'' ''md:quote:'' []
       [(''bid'', ''bid_price''), (''ask'', ''ask_price''), (''bid_size'', ''bid_size''),
        (''ask_size'', ''ask_size'')]"

definition stream_feed_matches :: "string \<Rightarrow> string \<Rightarrow> bool" where
  "stream_feed_matches stream_name stream_base \<longleftrightarrow>
     stream_name = stream_base \<or> starts_with (stream_base @ '':'') stream_name"

definition stream_payload_to_tick ::
  "md_env \<Rightarrow> redis_keys \<Rightarrow> string \<Rightarrow> string \<Rightarrow> string \<Rightarrow> string \<Rightarrow> string \<Rightarrow>
   py_exc + pydict option" where
  "stream_payload_to_tick w keys bar_timeframe stream redis_field raw_json message_id =
     (case json_loads w raw_json of
        Some (VDict obj) \<Rightarrow>
          if stream_feed_matches stream (stream_bars_1m keys) then
            bar_message_to_tick w obj message_id redis_field bar_timeframe
          else if stream_feed_matches stream (stream_trades keys) then
            trade_message_to_tick w obj message_id redis_field
          else if stream_feed_matches stream (stream_quotes keys) then
            quote_message_to_tick w obj message_id redis_field
          else Inr None
      | _ \<Rightarrow> Inr None)"

definition classify_stream_payload_failure ::
  "md_env \<Rightarrow> redis_keys \<Rightarrow> string \<Rightarrow> string \<Rightarrow> string \<Rightarrow> string \<Rightarrow> string \<Rightarrow>
   py_exc + string option" where
  "classify_stream_payload_failure w keys bar_timeframe stream redis_field raw message_id =
     (if py_strip raw = [] then Inr (Some ''empty_payload'')
      else (case json_loads w raw of
              None \<Rightarrow> Inr (Some ''json_decode_error'')
            | Some (VDict obj) \<Rightarrow>
                if \<not> (stream_feed_matches stream (stream_bars_1m keys) \<or>
                       stream_feed_matches stream (stream_trades keys) \<or>
                       stream_feed_matches stream (stream_quotes keys))
                then Inr (Some ''unknown_stream_family'')
                else rbind (stream_payload_to_tick w keys bar_timeframe stream redis_field raw message_id)
                       (\<lambda>t. Inr (if t = None then Some ''validation_failed_time_or_symbol'' else None))
            | Some other \<Rightarrow> Inr (Some ''payload_not_object'')))"

section \<open>Processing of entries\<close>

datatype md_effect =
    Dispatch pydict
  | Dropped string
  | Ack string string

text \<open>
  One field of an entry: a dropped field, a field of another symbol, or a dispatch. An exception
  of the tick callback is caught inside, one of the parser escapes.
\<close>

definition process_one_stream_field ::
  "md_env \<Rightarrow> redis_keys \<Rightarrow> string \<Rightarrow> string option \<Rightarrow> string \<Rightarrow> string \<Rightarrow> string \<Rightarrow> string \<Rightarrow>
   py_exc + md_effect list" where
  "process_one_stream_field w keys bar_timeframe strategy_symbol stream_name msg_id field_sym payload =
     (let sym_key = py_upper (py_strip field_sym);
          traded = py_upper (py_strip (or_empty strategy_symbol));
          matches = (traded = [] \<or> sym_key = traded) in
      rbind (stream_payload_to_tick w keys bar_timeframe stream_name field_sym payload msg_id) (\<lambda>t.
        case t of
          None \<Rightarrow>
            rbind (classify_stream_payload_failure w keys bar_timeframe stream_name field_sym payload
                     msg_id)
              (\<lambda>reason. Inr [Dropped (case reason of None \<Rightarrow> ''unknown'' | Some r \<Rightarrow> r)])
        | Some tick \<Rightarrow> if matches then Inr [Dispatch tick] else Inr []))"

fun process_fields ::
  "md_env \<Rightarrow> redis_keys \<Rightarrow> string \<Rightarrow> string option \<Rightarrow> string \<Rightarrow> string \<Rightarrow> (string \<times> string) list \<Rightarrow>
   md_effect list \<Rightarrow> md_effect list \<times> py_exc option" where
  "process_fields w keys tf traded stream msg [] done = (done, None)"
| "process_fields w keys tf traded stream msg ((f, payload) # fs) done =
     (case process_one_stream_field w keys tf traded stream msg f payload of
        Inl e \<Rightarrow> (done, Some e)
      | Inr es \<Rightarrow> process_fields w keys tf traded stream msg fs (done @ es))"

text \<open>
  One entry read with \<open>XREADGROUP\<close>. \<open>pending\<close> holds the fields whose callback has not run;
  the entry is acknowledged when the last one has, and again after the loop if any is left.
\<close>

fun group_fields ::
  "md_env \<Rightarrow> redis_keys \<Rightarrow> string \<Rightarrow> string option \<Rightarrow> string \<Rightarrow> string \<Rightarrow> (string \<times> string) list \<Rightarrow>
   string list \<Rightarrow> md_effect list \<Rightarrow> string list \<times> md_effect list \<times> py_exc option" where
  "group_fields w keys tf traded stream msg [] pending done = (pending, done, None)"
| "group_fields w keys tf traded stream msg ((f, payload) # fs) pending done =
     (case process_one_stream_field w keys tf traded stream msg f payload of
        Inl e \<Rightarrow> (pending, done, Some e)
      | Inr es \<Rightarrow>
          (if f \<in> set pending then
             (let pending' = remove1 f pending
              in group_fields w keys tf traded stream msg fs pending'
                   (done @ es @ (if pending' = [] then [Ack stream msg] else [])))
           else group_fields w keys tf traded stream msg fs pending (done @ es)))"

text \<open>\<open>None\<close> stands for fields that are no dict.\<close>

definition group_message ::
  "md_env \<Rightarrow> redis_keys \<Rightarrow> string \<Rightarrow> string option \<Rightarrow> string \<Rightarrow> string \<times> (string \<times> string) list option \<Rightarrow>
   md_effect list \<times> py_exc option" where
  "group_message w keys tf traded stream entry =
     (case entry of (msg, content) \<Rightarrow>
        (case content of
           None \<Rightarrow> ([Ack stream msg], None)
         | Some fs \<Rightarrow>
             if fs = [] then ([Ack stream msg], None)
             else (case group_fields w keys tf traded stream msg fs (map fst fs) [] of
                     (pending, done, Some e) \<Rightarrow> (done, Some e)
                   | (pending, done, None) \<Rightarrow>
                       (done @ (if pending \<noteq> [] then [Ack stream msg] else []), None))))"

text \<open>The entries of one stream read with \<open>XREAD\<close>: effects, last id, and the exception if any.\<close>

fun xread_messages ::
  "md_env \<Rightarrow> redis_keys \<Rightarrow> string \<Rightarrow> string option \<Rightarrow> string \<Rightarrow>
   (string \<times> (string \<times> string) list option) list \<Rightarrow> string \<Rightarrow> md_effect list \<Rightarrow>
   string \<times> md_effect list \<times> py_exc option" where
  "xread_messages w keys tf traded stream [] last_id done = (last_id, done, None)"
| "xread_messages w keys tf traded stream ((msg, content) # ms) last_id done =
     (case content of
        None \<Rightarrow> xread_messages w keys tf traded stream ms msg done
      | Some fs \<Rightarrow>
          (case process_fields w keys tf traded stream msg fs done of
             (done', Some e) \<Rightarrow> (msg, done', Some e)
           | (done', None) \<Rightarrow> xread_messages w keys tf traded stream ms msg done'))"

type_synonym stream_entries = "(string \<times> (string \<times> string) list option) list"

text \<open>
  One response: the positions and effects it leaves. A position moves only after all entries of
  its stream have been processed.
\<close>

fun xread_response ::
  "md_env \<Rightarrow> redis_keys \<Rightarrow> string \<Rightarrow> string option \<Rightarrow> string \<Rightarrow> (string \<times> stream_entries) list \<Rightarrow>
   (string \<times> string) list \<Rightarrow> md_effect list \<Rightarrow>
   (string \<times> string) list \<times> md_effect list \<times> py_exc option" where
  "xread_response w keys tf traded start_id [] positions done = (positions, done, None)"
| "xread_response w keys tf traded start_id ((stream, ms) # resp) positions done =
     (case xread_messages w keys tf traded stream ms
             (case dict_get positions stream of None \<Rightarrow> start_id | Some p \<Rightarrow> p) done of
        (last_id, done', Some e) \<Rightarrow> (positions, done', Some e)
      | (last_id, done', None) \<Rightarrow>
          xread_response w keys tf traded start_id resp (dict_set stream last_id positions) done')"

text \<open>
  The loop: each turn the client either answers or fails with a connection error, after which the
  loop backs off and opens a new client with unchanged positions; the stop event ends the turns.
\<close>

datatype read_outcome = Response "(string \<times> stream_entries) list" | ConnectionFailed

fun xread_loop ::
  "md_env \<Rightarrow> redis_keys \<Rightarrow> string \<Rightarrow> string option \<Rightarrow> string \<Rightarrow> read_outcome list \<Rightarrow> nat \<Rightarrow>
   (string \<times> string) list \<Rightarrow> md_effect list \<Rightarrow>
   (string \<times> string) list \<times> md_effect list \<times> py_exc option" where
  "xread_loop w keys tf traded start_id [] attempt positions done = (positions, done, None)"
| "xread_loop w keys tf traded start_id (ConnectionFailed # outs) attempt positions done =
     xread_loop w keys tf traded start_id outs (attempt + 1) positions done"
| "xread_loop w keys tf traded start_id (Response resp # outs) attempt positions done =
     (case xread_response w keys tf traded start_id resp positions done of
        (positions', done', Some e) \<Rightarrow> (positions', done', Some e)
      | (positions', done', None) \<Rightarrow>
          xread_loop w keys tf traded start_id outs 0 positions' done')"

section \<open>Portfolio updates\<close>

definition portfolio_update_channel :: "string option \<Rightarrow> int \<Rightarrow> string" where
  "portfolio_update_channel channel_prefix p =
     (let base = py_strip (if or_empty channel_prefix = [] then ''portfolio:update''
                           else or_empty channel_prefix);
          base = (if base = [] then ''portfolio:update'' else base)
      in rstrip_char (CHR '':'') base @ '':'' @ int_str p)"

definition portfolio_update_partition :: "string \<Rightarrow> int \<Rightarrow> py_exc + int" where
  "portfolio_update_partition job_id partition_count = market_data_partition job_id partition_count"

definition parse_portfolio_balance_message :: "md_env \<Rightarrow> string option \<Rightarrow> pydict option" where
  "parse_portfolio_balance_message w raw =
     (case raw of
        None \<Rightarrow> None
      | Some r \<Rightarrow>
          (let t = py_strip r in
           if t = [] then None
           else (case json_loads w t of Some (VDict d) \<Rightarrow> Some d | _ \<Rightarrow> None)))"

text \<open>The update a Pub/Sub message passes on, if any.\<close>

definition portfolio_message_update ::
  "md_env \<Rightarrow> string \<Rightarrow> string \<times> string option \<Rightarrow> pydict option" where
  "portfolio_message_update w expected_job_id message =
     (if fst message \<noteq> ''message'' then None
      else (case parse_portfolio_balance_message w (snd message) of
              None \<Rightarrow> None
            | Some parsed \<Rightarrow>
                if py_strip (str_or_empty (repr_of w) (get_or_none parsed ''job_id'')) \<noteq>
                   py_strip expected_job_id
                then None else Some parsed))"

section \<open>Lemmas\<close>

lemma crc32_check_value: "symbol_crc32 (utf8 ''123456789'') = 0xCBF43926"
  by code_simp

lemma market_data_partition_range:
  "1 \<le> n \<Longrightarrow> \<exists>p. market_data_partition s n = Inr p \<and> 0 \<le> p \<and> p < n"
  by (simp add: market_data_partition_def)

lemma resolve_loop_distinct: "distinct out \<Longrightarrow> distinct (resolve_loop keys tf feeds out)"
  by (induction feeds arbitrary: out) (auto simp: Let_def split: option.split)

definition wanted_stream :: "redis_keys \<Rightarrow> string \<Rightarrow> string \<Rightarrow> string option" where
  "wanted_stream keys tf f =
     (let fl = py_lower (py_strip f)
      in if fl = ''bars'' \<and> \<not> redis_md_stream_am_supports_timeframe tf then None
         else feed_to_stream keys fl)"

lemma resolve_loop_set:
  "set (resolve_loop keys tf feeds out) = set out \<union> {k. \<exists>f \<in> set feeds. wanted_stream keys tf f = Some k}"
proof (induction feeds arbitrary: out)
  case Nil
  then show ?case by simp
next
  case (Cons f feeds)
  show ?case
  proof (cases "wanted_stream keys tf f")
    case None
    then have "resolve_loop keys tf (f # feeds) out = resolve_loop keys tf feeds out"
      by (auto simp: wanted_stream_def Let_def split: option.split if_splits)
    then show ?thesis using Cons.IH None by auto
  next
    case (Some k)
    then have "resolve_loop keys tf (f # feeds) out =
        resolve_loop keys tf feeds (if k \<notin> set out then out @ [k] else out)"
      by (auto simp: wanted_stream_def Let_def split: option.split if_splits)
    then show ?thesis using Cons.IH Some by auto
  qed
qed

definition no_acks :: "md_effect list \<Rightarrow> bool" where
  "no_acks es \<longleftrightarrow> (\<forall>s m. Ack s m \<notin> set es)"

lemma process_one_no_acks: "process_one_stream_field w keys tf t s m f p = Inr es \<Longrightarrow> no_acks es"
  by (auto simp: process_one_stream_field_def Let_def result_simps no_acks_def
      split: option.splits if_splits)

lemma process_fields_no_acks:
  "process_fields w keys tf t s m fs done = (es, x) \<Longrightarrow> no_acks done \<Longrightarrow> no_acks es"
  by (induction fs arbitrary: "done")
    (auto simp: no_acks_def split: sum.splits dest!: process_one_no_acks)

text \<open>With distinct fields the pending list is the list of fields still to come.\<close>

lemma group_fields_process:
  assumes "distinct (map fst fs)" and "fs \<noteq> []"
  shows "group_fields w keys tf t s m fs (map fst fs) done =
    (case process_fields w keys tf t s m fs done of
       (es, None) \<Rightarrow> ([], es @ [Ack s m], None)
     | (es, Some e) \<Rightarrow>
         (case group_fields w keys tf t s m fs (map fst fs) done of (p, _, _) \<Rightarrow> (p, es, Some e)))"
  using assms
proof (induction fs arbitrary: "done")
  case Nil
  then show ?case by simp
next
  case (Cons fp fs)
  obtain f p where fp: "fp = (f, p)" by (cases fp)
  show ?case
  proof (cases "process_one_stream_field w keys tf t s m f p")
    case (Inl e)
    then show ?thesis by (simp add: fp)
  next
    case (Inr es)
    have rest: "remove1 f (map fst (fp # fs)) = map fst fs" using fp by simp
    show ?thesis
    proof (cases "fs = []")
      case True
      then show ?thesis using Inr by (simp add: fp)
    next
      case False
      then show ?thesis
        using Inr Cons.IH [of "done @ es"] Cons.prems rest
        by (auto simp: fp Let_def split: prod.split option.split)
    qed
  qed
qed

lemma xread_loop_attempt:
  "xread_loop w keys tf t start outs a positions done = xread_loop w keys tf t start outs b positions done"
proof (induction outs arbitrary: a b positions "done")
  case Nil
  then show ?case by simp
next
  case (Cons r outs)
  then show ?case by (cases r) (auto split: prod.split option.split)
qed

section \<open>Properties\<close>

text \<open>
  A worker that filters on one symbol reads exactly one partition of every stream base, the
  partition lies below the count, and each of its keys is among those of the unfiltered plan.
\<close>

lemma single_symbol_stream_keys:
  assumes "1 \<le> n"
  shows "\<exists>p. market_data_partition s n = Inr p \<and> 0 \<le> p \<and> p < n \<and>
     expand_market_data_stream_keys bases n [s] = Inr (map (\<lambda>b. partition_key b p) bases) \<and>
     (\<exists>universe. expand_market_data_stream_keys bases n [] = Inr universe \<and>
        (\<lambda>b. partition_key b p) ` set bases \<subseteq> set universe)"
proof -
  obtain p where p: "market_data_partition s n = Inr p" "0 \<le> p" "p < n"
    using market_data_partition_range [OF assms] by blast
  have "expand_market_data_stream_keys bases n [s] = Inr (map (\<lambda>b. partition_key b p) bases)"
    using assms p by (simp add: expand_market_data_stream_keys_def partitions_for_realtime_subscribe_def
        concat_map_singleton)
  moreover have "expand_market_data_stream_keys bases n [] =
      Inr (concat (map (\<lambda>b. map (partition_key b) [0 .. n - 1]) bases))"
    using assms by (simp add: expand_market_data_stream_keys_def partitions_for_realtime_subscribe_def)
  ultimately show ?thesis using p by (auto intro!: exI [of _ p])
qed

theorem single_symbol_stream_keys_witness:
  "\<exists>p. expand_market_data_stream_keys [''md:stream:am''] 128 [''AAPL''] = Inr [partition_key ''md:stream:am'' p]"
  using single_symbol_stream_keys [of 128 "''AAPL''" "[''md:stream:am'']"] by auto

text \<open>
  The resolved streams are distinct and are exactly the configured streams of the requested
  feeds, where the bar stream counts only for a one-minute time frame.
\<close>

lemma resolved_streams:
  "distinct (resolve_stream_names feeds tf keys) \<and>
   set (resolve_stream_names feeds tf keys) =
     {k. \<exists>f \<in> set feeds. wanted_stream keys (timeframe_or_1m tf) f = Some k}"
  by (simp add: resolve_stream_names_def resolve_loop_distinct resolve_loop_set)

text \<open>
  Reading with a consumer group does what reading without one does and adds one
  acknowledgement after everything else; an entry whose processing raises is not acknowledged.
\<close>

lemma group_message_acks_once:
  assumes "distinct (map fst fs)"
  shows "group_message w keys tf t stream (msg, Some fs) =
     (case process_fields w keys tf t stream msg fs [] of
        (es, None) \<Rightarrow> (es @ [Ack stream msg], None) | (es, Some e) \<Rightarrow> (es, Some e)) \<and>
   no_acks (fst (process_fields w keys tf t stream msg fs []))"
proof
  show "group_message w keys tf t stream (msg, Some fs) =
     (case process_fields w keys tf t stream msg fs [] of
        (es, None) \<Rightarrow> (es @ [Ack stream msg], None) | (es, Some e) \<Rightarrow> (es, Some e))"
  proof (cases "fs = []")
    case True
    then show ?thesis by (simp add: group_message_def)
  next
    case False
    show ?thesis
      unfolding group_message_def
      by (simp add: False, subst group_fields_process [OF assms False])
        (auto split: prod.split option.split)
  qed
  show "no_acks (fst (process_fields w keys tf t stream msg fs []))"
    using process_fields_no_acks [of w keys tf t stream msg fs "[]"]
    by (cases "process_fields w keys tf t stream msg fs []") (simp add: no_acks_def)
qed

definition sample_md_env :: md_env where
  "sample_md_env =
     \<lparr>json_loads = (\<lambda>s. if s = ''ok'' then Some (VDict [(''time_utc'', VStr ''t''), (''open'', VStr ''1'')])
        else if s = ''bad'' then Some (VDict [(''time_utc'', VStr ''t''), (''open'', VStr ''x'')]) else None),
      fromisoformat = (\<lambda>_. Some (utc 0)), epoch_millis = (\<lambda>t. dt_instant t div 1000),
      parse_float = (\<lambda>s. if s = ''1'' then Some (Fin 1) else None), repr_of = (\<lambda>_. [])\<rparr>"

theorem group_message_acks_once_witness:
  "\<exists>es. group_message sample_md_env default_market_data_redis_keys ''1m'' None ''md:stream:am''
     (''1-0'', Some [(''AAPL'', ''?'')]) = (es @ [Ack ''md:stream:am'' ''1-0''], None)"
proof -
  have "process_fields sample_md_env default_market_data_redis_keys ''1m'' None ''md:stream:am'' ''1-0''
      [(''AAPL'', ''?'')] [] = ([Dropped ''json_decode_error''], None)"
    by (simp add: process_one_stream_field_def stream_payload_to_tick_def
        classify_stream_payload_failure_def sample_md_env_def str_eval Let_def)
  then show ?thesis
    using group_message_acks_once [of "[(''AAPL'', ''?'')]" sample_md_env default_market_data_redis_keys
        "''1m''" None "''md:stream:am''" "''1-0''"] by auto
qed

text \<open>
  Losing the connection any number of times between responses neither loses nor repeats an
  entry and moves no position: the loop does what it would do on the responses alone.
\<close>

lemma reconnects_transparent:
  "xread_loop w keys tf t start outs a positions done =
   xread_loop w keys tf t start (filter (\<lambda>o'. o' \<noteq> ConnectionFailed) outs) b positions done"
proof (induction outs arbitrary: a b positions "done")
  case Nil
  then show ?case by simp
next
  case (Cons r outs)
  show ?case
  proof (cases r)
    case (Response resp)
    then show ?thesis using Cons by (auto split: prod.split option.split)
  next
    case ConnectionFailed
    then show ?thesis using Cons by simp
  qed
qed

text \<open>
  A bar whose price text is no number is not dropped like other malformed fields: the
  exception of its conversion leaves the reading loop and nothing after it is read.
\<close>

lemma malformed_number_stops_loop:
  assumes "json_loads w raw = Some (VDict obj)" and "stream_feed_matches stream (stream_bars_1m keys)"
    and "time_utc_to_epoch_ms w (py_strip (str_or_empty (repr_of w) (get_or_none obj ''time_utc''))) = Some ms"
    and "py_strip (py_str (repr_of w) (if py_truthy (get_or_none obj ''symbol'')
           then get_or_none obj ''symbol'' else VStr f)) \<noteq> []"
    and "get_or_none obj ''open'' = VStr txt'" and "txt' \<noteq> []" and "parse_float w txt' = None"
  shows "\<exists>e. xread_loop w keys tf traded start
     (Response ((stream, (msg, Some ((f, raw) # fs)) # ms') # resp) # outs) a positions done =
       (positions, done, Some e)"
  using assms
  by (simp add: process_one_stream_field_def stream_payload_to_tick_def bar_message_to_tick_def
      message_to_tick_def float_or_zero_def Let_def)

theorem malformed_number_stops_loop_witness:
  "\<exists>e. xread_loop sample_md_env default_market_data_redis_keys ''1m'' None ''$''
     [Response [(''md:stream:am'', [(''1-0'', Some [(''AAPL'', ''bad'')])])]] 0 [] [] = ([], [], Some e)"
  by (rule malformed_number_stops_loop [where obj = "[(''time_utc'', VStr ''t''), (''open'', VStr ''x'')]"
        and txt' = "''x''" and ms = 0])
    (simp_all add: sample_md_env_def stream_feed_matches_def default_market_data_redis_keys_def
      time_utc_to_epoch_ms_def get_or_none_def str_or_empty_def str_eval ends_with_def Let_def utc_def as_utc_def
      dt_instant_def)

end
