(* ===== verification/ModePolicy.thy ===== *)
theory ModePolicy
  imports RuntimeState
begin

text \<open>
  \<open>runtime/runtime/mode_policy.py\<close> and \<open>runtime/integration/clock.py\<close>: which capabilities,
  dependencies, events and routes each runtime mode has, and the clock a mode is given. The
  locale \<open>gated_clock\<close> states what the code that reads a clock relies on; it is interpreted
  on \<open>SimulatedClock\<close>.
\<close>

section \<open>Capabilities and the policy\<close>

datatype capability =
    WALL_CLOCK | SIMULATED_CLOCK | OMS_EGRESS | MANAGER_SIGNAL | REPLAY_INGRESS
  | DIRECT_HISTORICAL_LOOKBACK

fun capability_value :: "capability \<Rightarrow> string" where
    "capability_value WALL_CLOCK = ''WALL_CLOCK''"
  | "capability_value SIMULATED_CLOCK = ''SIMULATED_CLOCK''"
  | "capability_value OMS_EGRESS = ''OMS_EGRESS''"
  | "capability_value MANAGER_SIGNAL = ''MANAGER_SIGNAL''"
  | "capability_value REPLAY_INGRESS = ''REPLAY_INGRESS''"
  | "capability_value DIRECT_HISTORICAL_LOOKBACK = ''DIRECT_HISTORICAL_LOOKBACK''"

record mode_policy =
  mp_mode :: runtime_mode
  mp_allowed :: "capability set"

fun MODE_CAPABILITIES :: "runtime_mode \<Rightarrow> capability set" where
    "MODE_CAPABILITIES PAPER = {WALL_CLOCK, OMS_EGRESS, MANAGER_SIGNAL, DIRECT_HISTORICAL_LOOKBACK}"
  | "MODE_CAPABILITIES LIVE = {WALL_CLOCK, OMS_EGRESS, MANAGER_SIGNAL, DIRECT_HISTORICAL_LOOKBACK}"
  | "MODE_CAPABILITIES BACKTEST = {SIMULATED_CLOCK, MANAGER_SIGNAL, REPLAY_INGRESS, OMS_EGRESS}"

fun MODE_ALLOWED_DEPENDENCIES :: "runtime_mode \<Rightarrow> string list" where
    "MODE_ALLOWED_DEPENDENCIES PAPER =
       [service_target_value STRATEGY_RUNTIME_MANAGER,
        service_target_value ORDER_MANAGEMENT_SERVICE,
        service_target_value MARKET_DATA_SERVICE,
        service_target_value HISTORICAL_DATA_SERVICE,
        dependency_access_pattern_value DA_PAPER_LIVE_ORDER_INTENT,
        dependency_access_pattern_value DA_RISK_ORDER_INTENT_EGRESS,
        dependency_access_pattern_value DA_HISTORICAL_BOUNDED_WINDOW]"
  | "MODE_ALLOWED_DEPENDENCIES LIVE =
       [service_target_value STRATEGY_RUNTIME_MANAGER,
        service_target_value ORDER_MANAGEMENT_SERVICE,
        service_target_value MARKET_DATA_SERVICE,
        service_target_value HISTORICAL_DATA_SERVICE,
        dependency_access_pattern_value DA_PAPER_LIVE_ORDER_INTENT,
        dependency_access_pattern_value DA_RISK_ORDER_INTENT_EGRESS,
        dependency_access_pattern_value DA_HISTORICAL_BOUNDED_WINDOW]"
  | "MODE_ALLOWED_DEPENDENCIES BACKTEST =
       [service_target_value STRATEGY_RUNTIME_MANAGER,
        service_target_value BACKTEST_SERVICE,
        dependency_access_pattern_value DA_BACKTEST_ORDER_INTENT,
        dependency_access_pattern_value DA_BACKTEST_REPLAY_CONTEXT,
        dependency_access_pattern_value DA_RISK_ORDER_INTENT_EGRESS]"

fun ORDER_INTENT_ROUTE :: "runtime_mode \<Rightarrow> service_target" where
    "ORDER_INTENT_ROUTE PAPER = RISK_SERVICE"
  | "ORDER_INTENT_ROUTE LIVE = RISK_SERVICE"
  | "ORDER_INTENT_ROUTE BACKTEST = RISK_SERVICE"

fun MODE_BLOCKED_EVENTS :: "runtime_mode \<Rightarrow> string list" where
    "MODE_BLOCKED_EVENTS PAPER = [''replay.chunk.direct.fetch'']"
  | "MODE_BLOCKED_EVENTS LIVE = [''replay.chunk.direct.fetch'']"
  | "MODE_BLOCKED_EVENTS BACKTEST = [''replay.chunk.direct.fetch'']"

definition allow_event :: "mode_policy \<Rightarrow> string \<Rightarrow> bool" where
  "allow_event p event_type =
     (let normalized = py_strip event_type
      in if normalized = [] then False
         else normalized \<notin> set (MODE_BLOCKED_EVENTS (mp_mode p)))"

definition allow_dependency :: "mode_policy \<Rightarrow> string \<Rightarrow> bool" where
  "allow_dependency p dependency =
     (let normalized = py_strip dependency
      in if normalized = [] then False
         else normalized \<in> set (MODE_ALLOWED_DEPENDENCIES (mp_mode p)))"

definition route_order_intent :: "mode_policy \<Rightarrow> service_target" where
  "route_order_intent p = ORDER_INTENT_ROUTE (mp_mode p)"

definition allow_historical_window :: "mode_policy \<Rightarrow> bool \<Rightarrow> bool" where
  "allow_historical_window p explicitly_approved =
     (if mp_mode p = BACKTEST then False else explicitly_approved)"

definition allow_replay_chunk_direct :: "mode_policy \<Rightarrow> bool" where
  "allow_replay_chunk_direct p = False"

definition require_event_allowed :: "mode_policy \<Rightarrow> string \<Rightarrow> py_exc + unit" where
  "require_event_allowed p event_type =
     (if allow_event p event_type then Inr ()
      else Inl (WorkerPolicyViolationError ''runtime_mode_event_gate''
             (Some ''event_not_allowed_for_mode'') None
             [(''mode'', VStr (runtime_mode_value (mp_mode p))), (''event_type'', VStr event_type)]))"

definition require_dependency_allowed :: "mode_policy \<Rightarrow> string \<Rightarrow> py_exc + unit" where
  "require_dependency_allowed p dependency =
     (if allow_dependency p dependency then Inr ()
      else Inl (UnsupportedDependencyExpansion (runtime_mode_value (mp_mode p)) dependency None
             ''dependency_not_allowed_for_mode'' None []))"

definition get_mode_policy :: "string \<Rightarrow> py_exc + mode_policy" where
  "get_mode_policy mode =
     (case enum_parse all_runtime_mode runtime_mode_value mode of
        None \<Rightarrow> Inl (WorkerModeNotSupportedError mode None)
      | Some m \<Rightarrow> Inr \<lparr>mp_mode = m, mp_allowed = MODE_CAPABILITIES m\<rparr>)"

definition require_capability :: "mode_policy \<Rightarrow> capability \<Rightarrow> py_exc + unit" where
  "require_capability p c =
     (if c \<in> mp_allowed p then Inr ()
      else Inl (UnsupportedDependencyExpansion (runtime_mode_value (mp_mode p))
             (py_lower (capability_value c)) (Some (capability_value c))
             ''capability_not_allowed_for_mode'' None []))"

section \<open>Clocks\<close>

text \<open>The state of a clock: the system clock has none, a simulated one its current time.\<close>

datatype clock = SystemClock | SimulatedClock "pydatetime option"

definition set_time :: "pydatetime option \<Rightarrow> pydatetime \<Rightarrow> py_exc + pydatetime option" where
  "set_time current value =
     (if \<not> dt_aware value
      then Inl (WorkerPolicyViolationError ''simulated_clock_requires_aware_utc''
             (Some ''simulated_time_must_be_timezone_aware'') None [])
      else Inr (Some (as_utc value)))"

definition clock_now :: "pydatetime option \<Rightarrow> py_exc + pydatetime" where
  "clock_now current =
     (case current of
        None \<Rightarrow> Inl (WorkerPolicyViolationError ''simulated_clock_initialization''
                  (Some ''simulated_clock_not_initialized'') None [])
      | Some t \<Rightarrow> Inr t)"

definition build_clock :: "mode_policy \<Rightarrow> py_exc + clock" where
  "build_clock p =
     (if mp_mode p \<in> {PAPER, LIVE} then
        rbind (require_capability p WALL_CLOCK) (\<lambda>_. Inr SystemClock)
      else if mp_mode p = BACKTEST then
        rbind (require_capability p SIMULATED_CLOCK) (\<lambda>_. Inr (SimulatedClock None))
      else Inl (WorkerModeNotSupportedError (runtime_mode_value (mp_mode p)) None))"

text \<open>What the readers of a settable clock rely on.\<close>

locale gated_clock =
  fixes set :: "'c \<Rightarrow> pydatetime \<Rightarrow> py_exc + 'c"
    and now :: "'c \<Rightarrow> py_exc + pydatetime"
  assumes now_after_set: "set c t = Inr c' \<Longrightarrow> now c' = Inr (as_utc t)"
    and set_naive: "\<not> dt_aware t \<Longrightarrow> \<exists>e. set c t = Inl e"
    and set_aware: "dt_aware t \<Longrightarrow> \<exists>c'. set c t = Inr c'"
begin

fun set_all :: "'c \<Rightarrow> pydatetime list \<Rightarrow> py_exc + 'c" where
  "set_all c [] = Inr c"
| "set_all c (t # ts) = rbind (set c t) (\<lambda>c'. set_all c' ts)"

lemma set_all_last: "set_all c (ts @ [t]) = Inr c' \<Longrightarrow> now c' = Inr (as_utc t)"
  by (induction ts arbitrary: c) (auto simp: result_simps dest: now_after_set)

lemma set_all_defined: "(\<forall>t \<in> List.set ts. dt_aware t) \<Longrightarrow> \<exists>c'. set_all c ts = Inr c'"
proof (induction ts arbitrary: c)
  case Nil
  then show ?case by simp
next
  case (Cons t ts)
  then obtain c1 where "set c t = Inr c1" using set_aware [of t c] by auto
  with Cons show ?case by auto
qed

lemma set_all_now:
  assumes "\<forall>t \<in> List.set ts. dt_aware t" and "ts \<noteq> []"
  shows "\<exists>c'. set_all c ts = Inr c' \<and> now c' = Inr (as_utc (last ts))"
proof -
  obtain c' where c': "set_all c ts = Inr c'" using set_all_defined [OF assms(1)] by blast
  then have "set_all c (butlast ts @ [last ts]) = Inr c'" using assms(2) by simp
  then show ?thesis using c' by (blast dest: set_all_last)
qed

end

section \<open>Lemmas\<close>

lemma get_mode_policy_value [simp]:
  "get_mode_policy (runtime_mode_value m) = Inr \<lparr>mp_mode = m, mp_allowed = MODE_CAPABILITIES m\<rparr>"
  by (simp add: get_mode_policy_def mode_enum.parse_value)

lemma get_mode_policy_Inr:
  "get_mode_policy s = Inr p \<longleftrightarrow>
     (\<exists>m. s = runtime_mode_value m \<and> p = \<lparr>mp_mode = m, mp_allowed = MODE_CAPABILITIES m\<rparr>)"
proof
  assume "get_mode_policy s = Inr p"
  then show "\<exists>m. s = runtime_mode_value m \<and> p = \<lparr>mp_mode = m, mp_allowed = MODE_CAPABILITIES m\<rparr>"
    by (auto simp: get_mode_policy_def mode_enum.parse_Some split: option.splits)
qed auto

lemma require_capability_ok [simp]: "require_capability p c = Inr u \<longleftrightarrow> c \<in> mp_allowed p"
  by (simp add: require_capability_def)

lemma build_clock_policy:
  "build_clock \<lparr>mp_mode = m, mp_allowed = MODE_CAPABILITIES m\<rparr> =
     Inr (if m = BACKTEST then SimulatedClock None else SystemClock)"
  by (cases m) (simp_all add: build_clock_def require_capability_def)

interpretation sim_clock: gated_clock set_time clock_now
  by unfold_locales (auto simp: set_time_def clock_now_def split: if_splits)

fun set_times :: "pydatetime option \<Rightarrow> pydatetime list \<Rightarrow> py_exc + pydatetime option" where
  "set_times c [] = Inr c"
| "set_times c (t # ts) = rbind (set_time c t) (\<lambda>c'. set_times c' ts)"

lemma set_times_eq: "set_times c ts = sim_clock.set_all c ts"
  by (induction ts arbitrary: c) (auto intro!: rbind_cong)

lemma service_target_value_strip [simp]: "py_strip (service_target_value t) = service_target_value t"
  by (rule py_strip_fixed) (cases t; simp add: py_isspace_def py_whitespace_def)+

lemma mode_strings: "(\<exists>m. s = runtime_mode_value m) \<longleftrightarrow> s \<in> {''PAPER'', ''LIVE'', ''BACKTEST''}"
proof
  assume "\<exists>m. s = runtime_mode_value m"
  then obtain m where "s = runtime_mode_value m" ..
  then show "s \<in> {''PAPER'', ''LIVE'', ''BACKTEST''}" by (cases m) simp_all
next
  assume "s \<in> {''PAPER'', ''LIVE'', ''BACKTEST''}"
  then have "s = runtime_mode_value PAPER \<or> s = runtime_mode_value LIVE \<or> s = runtime_mode_value BACKTEST"
    by simp
  then show "\<exists>m. s = runtime_mode_value m" by blast
qed

definition policy_of :: "runtime_mode \<Rightarrow> mode_policy" where
  "policy_of m = \<lparr>mp_mode = m, mp_allowed = MODE_CAPABILITIES m\<rparr>"

lemma get_policy_of: "get_mode_policy (runtime_mode_value m) = Inr (policy_of m)"
  by (simp add: policy_of_def)

lemma get_mode_policy_strings [simp]:
  "get_mode_policy ''PAPER'' = Inr (policy_of PAPER)"
  "get_mode_policy ''LIVE'' = Inr (policy_of LIVE)"
  "get_mode_policy ''BACKTEST'' = Inr (policy_of BACKTEST)"
  using get_policy_of [of PAPER] get_policy_of [of LIVE] get_policy_of [of BACKTEST] by simp_all

lemma policy_of_clock:
  "build_clock (policy_of m) = Inr (if m = BACKTEST then SimulatedClock None else SystemClock)"
  by (simp add: policy_of_def build_clock_policy)

section \<open>Properties\<close>

text \<open>
  A policy exists for a mode string exactly when it is one of the three modes; the policy
  then holds a clock capability exactly for the clock that \<open>build_clock\<close> gives, replay
  ingress exactly in backtest, direct historical lookback exactly outside it, and manager
  signalling and order egress in every mode.
\<close>

lemma mode_policy_capabilities:
  "(\<exists>p. get_mode_policy s = Inr p \<and>
        MANAGER_SIGNAL \<in> mp_allowed p \<and> OMS_EGRESS \<in> mp_allowed p \<and>
        (REPLAY_INGRESS \<in> mp_allowed p \<longleftrightarrow> s = ''BACKTEST'') \<and>
        (DIRECT_HISTORICAL_LOOKBACK \<in> mp_allowed p \<longleftrightarrow> s \<noteq> ''BACKTEST'') \<and>
        (WALL_CLOCK \<in> mp_allowed p \<longleftrightarrow> build_clock p = Inr SystemClock) \<and>
        (SIMULATED_CLOCK \<in> mp_allowed p \<longleftrightarrow> build_clock p = Inr (SimulatedClock None)))
     \<longleftrightarrow> s \<in> {''PAPER'', ''LIVE'', ''BACKTEST''}" (is "?L \<longleftrightarrow> ?R")
proof
  assume ?L
  then obtain p where "get_mode_policy s = Inr p" by blast
  then have "\<exists>m. s = runtime_mode_value m" unfolding get_mode_policy_Inr by blast
  then show ?R by (simp only: mode_strings)
next
  assume ?R
  then obtain m where s: "s = runtime_mode_value m" using mode_strings by blast
  show ?L
    by (rule exI [of _ "policy_of m"])
      (cases m; simp add: s policy_of_clock del: get_mode_policy_value; simp add: policy_of_def)
qed

text \<open>
  In every mode order intents are routed to the risk service, a target the mode's service
  table lists, and yet the policy's dependency gate refuses that very dependency: a caller
  that gates the route it was given with \<open>require_dependency_allowed\<close> always fails.
\<close>

lemma order_route_refused_by_dependency_gate:
  assumes "get_mode_policy s = Inr p"
  shows "route_order_intent p = RISK_SERVICE \<and>
         RISK_SERVICE \<in> MODE_ALLOWED_SERVICE_TARGETS (mp_mode p) \<and>
         (\<exists>e. require_dependency_allowed p (service_target_value (route_order_intent p)) = Inl e)"
proof -
  obtain m where p: "p = \<lparr>mp_mode = m, mp_allowed = MODE_CAPABILITIES m\<rparr>"
    using assms by (auto simp: get_mode_policy_Inr)
  have strip: "py_strip ''risk-service'' = ''risk-service''"
    using service_target_value_strip [of RISK_SERVICE] by simp
  show ?thesis
    by (cases m) (simp_all add: p route_order_intent_def require_dependency_allowed_def
      allow_dependency_def strip)
qed

theorem order_route_refused_by_dependency_gate_witness:
  "\<exists>p. get_mode_policy ''LIVE'' = Inr p \<and>
     (\<exists>e. require_dependency_allowed p (service_target_value (route_order_intent p)) = Inl e)"
proof -
  have "get_mode_policy ''LIVE'' = Inr (policy_of LIVE)"
    using get_mode_policy_value [of LIVE] by (simp add: policy_of_def)
  then show ?thesis using order_route_refused_by_dependency_gate by blast
qed

text \<open>
  After any non-empty sequence of aware instants, a simulated clock reads the
  last of them, in UTC.
\<close>

lemma simulated_clock_reads_last:
  assumes "\<forall>t \<in> set ts. dt_aware t" and "ts \<noteq> []"
  shows "\<exists>c. set_times c0 ts = Inr c \<and> clock_now c = Inr (as_utc (last ts))"
  unfolding set_times_eq by (rule sim_clock.set_all_now [OF assms])

theorem simulated_clock_reads_last_witness:
  "\<exists>c. set_times None [utc 5, \<lparr>dt_wall = 9, dt_offset = Some 3\<rparr>] = Inr c \<and> clock_now c = Inr (utc 6)"
  using simulated_clock_reads_last [of "[utc 5, \<lparr>dt_wall = 9, dt_offset = Some 3\<rparr>]" None]
  by (simp add: dt_aware_def utc_def as_utc_def dt_instant_def)

end
