(* ===== verification/Dependencies.thy ===== *)
theory Dependencies
  imports ModePolicy
begin

text \<open>
  \<open>runtime/runtime/dependencies.py\<close> with the constructor of \<open>integration/replay_gateway.py\<close>:
  the collaborators a mode is given. Of a client only whether there is one matters here; the
  gateways keep what their own operations read.
\<close>

record replay_gateway =
  rg_first_data_marked :: bool
  rg_tick_count :: nat

record deps =
  dp_clock :: clock
  dp_oms :: bool
  dp_replay :: "replay_gateway option"

definition make_manager_gateway :: "mode_policy \<Rightarrow> py_exc + unit" where
  "make_manager_gateway p = require_capability p MANAGER_SIGNAL"

definition make_oms_gateway :: "mode_policy \<Rightarrow> py_exc + unit" where
  "make_oms_gateway p = require_capability p OMS_EGRESS"

definition make_replay_gateway :: "mode_policy \<Rightarrow> py_exc + replay_gateway" where
  "make_replay_gateway p =
     rbind (require_capability p REPLAY_INGRESS)
       (\<lambda>_. Inr \<lparr>rg_first_data_marked = False, rg_tick_count = 0\<rparr>)"

definition validate_runtime_dependencies :: "deps \<Rightarrow> runtime_mode \<Rightarrow> py_exc + unit" where
  "validate_runtime_dependencies d mode =
     (if mode = BACKTEST then Inr ()
      else if mode \<in> {PAPER, LIVE} \<and> dp_replay d \<noteq> None then
        Inl (UnsupportedDependencyExpansion (runtime_mode_value mode) ''replay_gateway''
               (Some (capability_value REPLAY_INGRESS)) ''paper_live_cannot_own_replay_gateway'' None [])
      else Inr ())"

definition build_runtime_dependencies :: "runtime_mode \<Rightarrow> bool \<Rightarrow> bool \<Rightarrow> py_exc + deps" where
  "build_runtime_dependencies mode oms_client replay_client =
     rbind (get_mode_policy (runtime_mode_value mode)) (\<lambda>policy.
       let refuse = (\<lambda>dependency c. Inl (UnsupportedDependencyExpansion
             (runtime_mode_value (mp_mode policy)) dependency (Some (capability_value c))
             ''dependency_not_allowed_for_mode'' None []))
       in if oms_client \<and> OMS_EGRESS \<notin> mp_allowed policy then refuse ''oms_client'' OMS_EGRESS
          else if replay_client \<and> REPLAY_INGRESS \<notin> mp_allowed policy
            then refuse ''replay_client'' REPLAY_INGRESS
          else
            rbind (build_clock policy) (\<lambda>clock.
            rbind (make_manager_gateway policy) (\<lambda>_.
            rbind (if oms_client then make_oms_gateway policy else Inr ()) (\<lambda>_.
            rbind (if replay_client then rbind (make_replay_gateway policy) (\<lambda>g. Inr (Some g))
                   else Inr None) (\<lambda>replay.
              let d = \<lparr>dp_clock = clock, dp_oms = oms_client, dp_replay = replay\<rparr>
              in rbind (validate_runtime_dependencies d (mp_mode policy)) (\<lambda>_. Inr d))))))"

text \<open>
  The dependencies of a mode are built exactly when a replay client is given in backtest
  only; then a simulated clock, not yet set, goes with backtest and the system clock with paper
  and live, and there is a replay gateway, which has seen no data, exactly for a replay client.
\<close>

lemma dependencies_for_mode:
  "build_runtime_dependencies mode oms replay =
     (if replay \<and> mode \<noteq> BACKTEST
      then Inl (UnsupportedDependencyExpansion (runtime_mode_value mode) ''replay_client''
             (Some ''REPLAY_INGRESS'') ''dependency_not_allowed_for_mode'' None [])
      else Inr \<lparr>dp_clock = (if mode = BACKTEST then SimulatedClock None else SystemClock),
                dp_oms = oms,
                dp_replay = (if replay then Some \<lparr>rg_first_data_marked = False, rg_tick_count = 0\<rparr>
                             else None)\<rparr>)"
  by (cases mode; cases oms; cases replay)
    (simp_all add: build_runtime_dependencies_def get_mode_policy_def enum_parse_def
      all_runtime_mode_def result_simps build_clock_def require_capability_def make_manager_gateway_def
      make_oms_gateway_def make_replay_gateway_def validate_runtime_dependencies_def Let_def)

end
