(* ===== verification/Lifecycle.thy ===== *)
theory Lifecycle
  imports Action SrmStatus MarketData RuntimeState Dependencies
begin

text \<open>
  \<open>runtime/application/lifecycle_service.py\<close>: the service that starts, runs and stops a worker.
  Its attributes are the record \<open>svc\<close>; what it is constructed with is \<open>cfg\<close>. A call of a
  collaborator (journal, logger, manager gateway, bootstrap pipeline, feed threads, sockets) is
  an \<open>effect\<close> appended to the trace \<open>sv_trace\<close>; whether the call raises, and what it returns, is
  decided by the environment \<open>env\<close> from the trace so far, so every theorem holds for all
  behaviours of the collaborators. Methods are atomic actions; the locks that make them so are
  not modelled. The messages of log lines are left out, their names, levels and fields are not.
\<close>

section \<open>Effects, environment, configuration and state\<close>

datatype effect =
    Print pydict
  | PrintText string
  | LogEvent string string pydict
  | Journal string pydict
  | OnStep string
  | Validate
  | BindLogger
  | RunBootstrap
  | InitDeps
  | CreateAdapter
  | BindAndStart
  | StopAdapter
  | Manager string pydict
  | SrmPost srm_post
  | PeriodicStart
  | PeriodicStop
  | StopAccepting
  | FlushDiagnostics
  | CloseClient nat
  | StartThread string
  | JoinThread string
  | ReplayIngest pydict
  | StrategyEvent pydict
  | HistoricalQuery "string option" int

datatype bootstrap_result = BootSuccess string | BootFailure py_exc | BootBroken

record env =
  env_raises :: "effect list \<Rightarrow> effect \<Rightarrow> py_exc option"
  env_now :: "effect list \<Rightarrow> pydatetime"
  env_validated :: "effect list \<Rightarrow> launch_spec"
  env_bootstrap :: "effect list \<Rightarrow> bootstrap_result"
  env_deps :: "effect list \<Rightarrow> deps"
  env_bound :: "effect list \<Rightarrow> bool"
  env_http :: "effect list \<Rightarrow> pydict"
  env_alive :: "effect list \<Rightarrow> string \<Rightarrow> bool"
  env_clock_now :: "effect list \<Rightarrow> pydatetime option"
  env_repr :: "pyval \<Rightarrow> string"

record settings =
  st_srm_base_url :: string
  st_deployment_id :: string
  st_replay_bar_timeframe :: "string option"
  st_historical_data_grpc_target :: string
  st_md_redis_url :: string
  st_md_feeds :: "string list"
  st_md_keys :: "string option \<times> string option \<times> string option"
  st_md_partition_count :: int
  st_portfolio_enabled :: bool
  st_portfolio_redis_url :: string
  st_portfolio_channel_prefix :: string

datatype closeable = HasClose | HasShutdown | NotCloseable

record cfg =
  cfg_spec :: launch_spec
  cfg_payload :: pydict
  cfg_settings :: "settings option"
  cfg_identity :: "runtime_mode worker_identity"
  cfg_journal :: bool
  cfg_on_step :: bool
  cfg_instance_manager :: bool
  cfg_work_acceptor :: bool
  cfg_periodic_jobs :: bool
  cfg_flusher :: bool
  cfg_historical_client :: bool
  cfg_closeables :: "closeable list"

record feed =
  fd_started :: bool
  fd_stop :: bool
  fd_thread :: bool

record svc =
  sv_phase :: worker_phase
  sv_started :: bool
  sv_shutdown_complete :: bool
  sv_shutdown_in_progress :: bool
  sv_stop_request_accepted :: bool
  sv_stop_canonical_reason :: "string option"
  sv_stop_resolved_message :: "string option"
  sv_startup_steps :: "string list"
  sv_shutdown_steps :: "string list"
  sv_first_data_received :: bool
  sv_backtest_replay_complete :: bool
  sv_last_data_event_timestamp :: "pydatetime option"
  sv_last_replay_cursor :: string
  sv_logger :: bool
  sv_deps :: "deps option"
  sv_adapter :: bool
  sv_sampler :: "string \<Rightarrow> nat"
  sv_hds :: feed
  sv_md :: feed
  sv_portfolio :: feed
  sv_trace :: "effect list"

type_synonym 'a lc = "(svc, 'a) act"

section \<open>Calls\<close>

text \<open>Perform an effect: it is recorded, and then may raise.\<close>

definition call :: "env \<Rightarrow> effect \<Rightarrow> unit lc" where
  "call w e = (\<lambda>s.
     let s' = s\<lparr>sv_trace := sv_trace s @ [e]\<rparr>
     in case env_raises w (sv_trace s) e of None \<Rightarrow> (Inr (), s') | Some x \<Rightarrow> (Inl x, s'))"

text \<open>\<open>print\<close> of text the service builds itself: recorded, never raises.\<close>

definition say :: "effect \<Rightarrow> unit lc" where
  "say e = act_modify (\<lambda>s. s\<lparr>sv_trace := sv_trace s @ [e]\<rparr>)"

definition journal :: "cfg \<Rightarrow> env \<Rightarrow> string \<Rightarrow> pydict \<Rightarrow> unit lc" where
  "journal c w name args = act_when (cfg_journal c) (call w (Journal name args))"

definition emit_domain_event :: "env \<Rightarrow> string \<Rightarrow> string \<Rightarrow> pydict \<Rightarrow> unit lc" where
  "emit_domain_event w event level extras =
     act_with sv_logger (\<lambda>has_logger.
       act_when has_logger (act_ignore (call w (LogEvent event level extras))))"

definition sampler_next :: "string \<Rightarrow> (nat \<times> bool) lc" where
  "sampler_next key =
     (\<lambda>s. let n = sv_sampler s key + 1
          in (Inr (n, n = 1 \<or> n mod 100 = 0), s\<lparr>sv_sampler := (sv_sampler s)(key := n)\<rparr>))"

section \<open>Reading the configuration\<close>

definition worker_identity_value :: "cfg \<Rightarrow> string" where
  "worker_identity_value c =
     wi_runtime_id (cfg_identity c) @ '':'' @ wi_strategy_version_id (cfg_identity c) @ '':'' @
     int_str (wi_launch_attempt (cfg_identity c))"

definition runtime_metadata :: "cfg \<Rightarrow> pydict" where
  "runtime_metadata c =
     [(''runtime_id'', VStr (ls_runtime_id (cfg_spec c))),
      (''tenant_id'', VStr (ls_tenant_id (cfg_spec c))),
      (''account_id'', VStr (or_empty (ls_account_id (cfg_spec c)))),
      (''strategy_version_id'', VStr (ls_strategy_version_id (cfg_spec c))),
      (''launch_attempt'', VInt (ls_launch_attempt (cfg_spec c))),
      (''worker_identity'', VStr (worker_identity_value c))]"

text \<open>The settings when a manager URL is configured.\<close>

definition srm_settings :: "cfg \<Rightarrow> settings option" where
  "srm_settings c =
     (case cfg_settings c of
        None \<Rightarrow> None
      | Some st \<Rightarrow> if py_strip (st_srm_base_url st) = [] then None else Some st)"

definition mode_text :: "cfg \<Rightarrow> string" where
  "mode_text c = runtime_mode_value (ls_mode (cfg_spec c))"

section \<open>Steps and phases\<close>

definition record_startup_step :: "cfg \<Rightarrow> env \<Rightarrow> string \<Rightarrow> unit lc" where
  "record_startup_step c w step = act_seq
     [act_modify (\<lambda>s. s\<lparr>sv_startup_steps := sv_startup_steps s @ [step]\<rparr>),
      journal c w ''record_startup_step'' [(''step'', VStr step)],
      act_when (cfg_on_step c) (call w (OnStep step))]"

definition record_shutdown_step :: "cfg \<Rightarrow> env \<Rightarrow> string \<Rightarrow> unit lc" where
  "record_shutdown_step c w step = act_seq
     [act_modify (\<lambda>s. s\<lparr>sv_shutdown_steps := sv_shutdown_steps s @ [step]\<rparr>),
      journal c w ''record_shutdown_step'' [(''step'', VStr step)],
      act_when (cfg_on_step c) (call w (OnStep step))]"

definition state_event_name :: "worker_phase \<Rightarrow> string" where
  "state_event_name p =
     (if p = WP_FAILED then ''worker_launch_failed''
      else if p \<in> {WP_STOPPED, WP_COMPLETED} then ''worker_shutdown_completed''
      else ''worker_state_changed'')"

definition state_message ::
  "cfg \<Rightarrow> pydatetime \<Rightarrow> worker_phase \<Rightarrow> string \<Rightarrow> string option \<Rightarrow> pydict" where
  "state_message c now state level rcode =
     (let name = state_event_name state; sp = cfg_spec c in
      [(''event_id'', VStr (ls_runtime_id sp @ '':'' @ int_str (ls_launch_attempt sp) @ '':'' @
          name @ '':internal_state'')),
       (''event_name'', VStr name), (''event_version'', VInt 1),
       (''producer'', VStr ''strategy-worker-runtime''), (''occurred_at'', VStr (wire_timestamp now)),
       (''correlation_id'', VStr []), (''causation_id'', VStr []),
       (''tenant_id'', VStr (ls_tenant_id sp)), (''account_id'', VStr (or_empty (ls_account_id sp))),
       (''runtime_id'', VStr (ls_runtime_id sp)),
       (''worker_identity'', VStr (worker_identity_value c)),
       (''launch_attempt'', VInt (ls_launch_attempt sp)),
       (''strategy_version_id'', VStr (ls_strategy_version_id sp)),
       (''payload'', VDict
          ([(''level'', VStr level), (''local_phase'', VStr (worker_phase_value state)),
            (''mode'', VStr (mode_text c))] @
           (case rcode of None \<Rightarrow> [] | Some r \<Rightarrow> [(''reason_code'', VStr r)])))])"

definition emit_state_message ::
  "cfg \<Rightarrow> env \<Rightarrow> worker_phase \<Rightarrow> string \<Rightarrow> string option \<Rightarrow> bool \<Rightarrow> unit lc" where
  "emit_state_message c w state level rcode emit_stdout =
     act_with (\<lambda>s. env_now w (sv_trace s)) (\<lambda>now.
       act_when emit_stdout (say (Print (state_message c now state level rcode))))"

definition emit_srm_runtime_status ::
  "env \<Rightarrow> pydatetime option \<Rightarrow> string \<Rightarrow> string option \<Rightarrow> string option \<Rightarrow> bool option \<Rightarrow> unit lc" where
  "emit_srm_runtime_status w observed_at source rcode message retryable =
     act_with id (\<lambda>s.
       act_when (sv_deps s \<noteq> None)
         (call w (Manager ''emit_heartbeat''
            [(''local_state'', VStr (worker_phase_value (sv_phase s))),
             (''observed_at'',
               VTime (case observed_at of Some t \<Rightarrow> t | None \<Rightarrow> env_now w (sv_trace s))),
             (''source'', VStr source), (''reason_code'', opt_str rcode),
             (''message'', opt_str message),
             (''retryable'', case retryable of None \<Rightarrow> VNone | Some b \<Rightarrow> VBool b)])))"

definition phase_change_args ::
  "worker_phase option \<Rightarrow> worker_phase \<Rightarrow> string \<Rightarrow> string option \<Rightarrow> pydict" where
  "phase_change_args previous phase level rcode =
     [(''previous_phase'', opt_str (map_option worker_phase_value previous)),
      (''phase'', VStr (worker_phase_value phase)), (''level'', VStr level),
      (''reason_code'', opt_str rcode)]"

definition phase_events :: "env \<Rightarrow> worker_phase \<Rightarrow> string option \<Rightarrow> unit lc" where
  "phase_events w phase rcode =
     (if phase \<in> {WP_STOPPED, WP_COMPLETED} then
        emit_domain_event w ''strategy_worker.stopped'' ''INFO''
          [(''phase'', VStr (worker_phase_value phase)), (''stage'', VStr ''shutdown''),
           (''state'', VStr ''stopped'')]
      else if phase = WP_FAILED then
        act_seq
          [emit_domain_event w ''strategy_worker.failed'' ''ERROR''
             [(''phase'', VStr (worker_phase_value phase)), (''reason_code'', opt_str rcode),
              (''error_code'', opt_str rcode), (''retryable'', VBool False),
              (''stage'', VStr ''runtime''), (''state'', VStr ''failed'')],
           act_with sv_shutdown_in_progress (\<lambda>in_progress.
             act_when (\<not> in_progress)
               (let normalized = map_option (\<lambda>r. normalize_runtime_reason_code (Some r)) rcode in
                act_ignore
                  (emit_srm_runtime_status w None ''UPDATE'' normalized
                     (Some (case normalized of
                              Some r \<Rightarrow> ''Worker entered FAILED phase ('' @ r @ '').''
                            | None \<Rightarrow> ''Worker entered FAILED phase.''))
                     (Some False))))]
      else act_ret ())"

definition set_phase ::
  "cfg \<Rightarrow> env \<Rightarrow> worker_phase \<Rightarrow> string \<Rightarrow> string option \<Rightarrow> bool \<Rightarrow> unit lc" where
  "set_phase c w phase level rcode emit_stdout =
     act_with sv_phase (\<lambda>previous. act_seq
       [act_modify (\<lambda>s. s\<lparr>sv_phase := phase\<rparr>),
        emit_state_message c w phase level rcode emit_stdout,
        phase_events w phase rcode,
        journal c w ''record_phase_change'' (phase_change_args (Some previous) phase level rcode)])"

text \<open>The constructor: initial attributes, then the message and journal entry of the first phase.\<close>

definition idle_feed :: feed where
  "idle_feed = \<lparr>fd_started = False, fd_stop = False, fd_thread = False\<rparr>"

definition initial_svc :: svc where
  "initial_svc =
     \<lparr>sv_phase = WP_INITIALIZING, sv_started = False, sv_shutdown_complete = False,
      sv_shutdown_in_progress = False, sv_stop_request_accepted = False,
      sv_stop_canonical_reason = None, sv_stop_resolved_message = None, sv_startup_steps = [],
      sv_shutdown_steps = [], sv_first_data_received = False, sv_backtest_replay_complete = False,
      sv_last_data_event_timestamp = None, sv_last_replay_cursor = [], sv_logger = False,
      sv_deps = None, sv_adapter = False, sv_sampler = (\<lambda>_. 0), sv_hds = idle_feed,
      sv_md = idle_feed, sv_portfolio = idle_feed, sv_trace = []\<rparr>"

definition construct :: "cfg \<Rightarrow> env \<Rightarrow> (py_exc + unit) \<times> svc" where
  "construct c w =
     act_seq
       [emit_state_message c w WP_INITIALIZING ''INFO'' None True,
        journal c w ''record_phase_change'' (phase_change_args None WP_INITIALIZING ''INFO'' None)]
       initial_svc"

definition should_stop_for_completed_backtest_job :: "cfg \<Rightarrow> svc \<Rightarrow> bool" where
  "should_stop_for_completed_backtest_job c s =
     (if sv_shutdown_complete s \<or> sv_shutdown_in_progress s then False
      else if ls_mode (cfg_spec c) \<noteq> BACKTEST then False
      else if \<not> sv_backtest_replay_complete s then False
      else sv_phase s \<in> {WP_READY, WP_RUNNING})"

definition mark_first_data_received :: "cfg \<Rightarrow> env \<Rightarrow> unit lc" where
  "mark_first_data_received c w = act_seq
     [act_modify (\<lambda>s. s\<lparr>sv_first_data_received := True\<rparr>), journal c w ''record_first_data'' []]"

section \<open>Heartbeats and reports to the manager\<close>

definition emit_periodic_heartbeat :: "env \<Rightarrow> unit lc" where
  "emit_periodic_heartbeat w =
     act_with id (\<lambda>s.
       if sv_shutdown_in_progress s then act_ret ()
       else if sv_deps s = None then act_ret ()
       else if sv_phase s \<notin> {WP_READY, WP_RUNNING} then act_ret ()
       else
         act_bind (sampler_next ''heartbeat_sent'') (\<lambda>(n, sample). act_seq
           [emit_domain_event w ''strategy_worker.heartbeat_sent'' (if sample then ''INFO'' else ''DEBUG'')
              [(''phase'', VStr (worker_phase_value (sv_phase s))),
               (''heartbeat_count'', VInt (int n)), (''sampled'', VBool sample)],
            emit_srm_runtime_status w (Some (env_now w (sv_trace s))) ''HEARTBEAT'' None None None]))"

text \<open>A best-effort report: the POST, if one is made, and the line that prints its outcome.\<close>

definition post_report :: "env \<Rightarrow> py_exc + srm_post option \<Rightarrow> pydict \<Rightarrow> unit lc" where
  "post_report w report outcome =
     act_bind (act_of report) (\<lambda>p.
       case p of
         None \<Rightarrow> say (Print outcome)
       | Some post \<Rightarrow>
           act_then (call w (SrmPost post))
             (act_with (\<lambda>s. env_http w (sv_trace s)) (\<lambda>answer.
                say (Print (outcome @ [(''srm_status_report'', VDict answer)])))))"

definition report_bootstrap_success :: "cfg \<Rightarrow> env \<Rightarrow> unit lc" where
  "report_bootstrap_success c w =
     (case srm_settings c of
        None \<Rightarrow> act_ret ()
      | Some st \<Rightarrow>
          act_ignore (act_with (\<lambda>s. env_now w (sv_trace s)) (\<lambda>now.
            post_report w
              (report_bootstrap_success_to_srm now (ls_runtime_id (cfg_spec c)) (mode_text c)
                 (py_strip (st_deployment_id st)) (py_strip (st_srm_base_url st)))
              [(''event_name'', VStr ''worker_bootstrap_succeeded''),
               (''runtime_status'', VStr ''RUNNING''), (''health_status'', VStr ''HEALTHY'')])))"

definition report_final_shutdown :: "cfg \<Rightarrow> env \<Rightarrow> string \<Rightarrow> string option \<Rightarrow> unit lc" where
  "report_final_shutdown c w canonical_reason message =
     (case srm_settings c of
        None \<Rightarrow> act_ret ()
      | Some st \<Rightarrow>
          (case resolve_shutdown_report canonical_reason message of (rcode, resolved) \<Rightarrow>
             act_ignore (act_with (\<lambda>s. env_now w (sv_trace s)) (\<lambda>now.
               post_report w
                 (report_final_shutdown_to_srm now (ls_runtime_id (cfg_spec c)) (mode_text c)
                    (py_strip (st_deployment_id st)) (py_strip (st_srm_base_url st))
                    canonical_reason message)
                 [(''event_name'', VStr ''worker_shutdown_status''),
                  (''runtime_status'',
                    VStr (if is_failure_shutdown canonical_reason then ''FAILED'' else ''STOPPED'')),
                  (''reason_code'', VStr rcode), (''message'', VStr resolved)]))))"

definition StopAlreadyInProgress :: py_exc where
  "StopAlreadyInProgress = OtherExc ''StopAlreadyInProgress'' ''Stop is already in progress.'' None"

definition WorkerAlreadyStopped :: py_exc where
  "WorkerAlreadyStopped = OtherExc ''WorkerAlreadyStopped'' ''Worker is already stopped.'' None"

definition RuntimeError :: "string \<Rightarrow> py_exc" where
  "RuntimeError msg = OtherExc ''RuntimeError'' msg None"

definition initiate_stop_from_request :: "cfg \<Rightarrow> env \<Rightarrow> string \<Rightarrow> pydict lc" where
  "initiate_stop_from_request c w reason =
     (case cfg_settings c of
        None \<Rightarrow> act_raise (RuntimeError ''worker_runtime_settings required for stop API'')
      | Some st \<Rightarrow>
          if py_strip (st_srm_base_url st) = [] then
            act_raise (RuntimeError ''STRATEGY_RUNTIME_MANAGER_BASE_URL is not configured'')
          else
            act_with id (\<lambda>s.
              if sv_shutdown_complete s then act_raise WorkerAlreadyStopped
              else if sv_stop_request_accepted s \<or> sv_shutdown_in_progress s then
                act_raise StopAlreadyInProgress
              else
                (let now = env_now w (sv_trace s) in
                 act_bind
                   (act_of (initiate_stop_status_update now now (ls_runtime_id (cfg_spec c))
                      (mode_text c) (py_strip (st_deployment_id st)) (py_strip (st_srm_base_url st))
                      reason))
                   (\<lambda>(body, post, canonical, resolved). act_then
                      (case post of None \<Rightarrow> act_ret () | Some p \<Rightarrow> call w (SrmPost p))
                      (act_then
                         (act_modify (\<lambda>s. s\<lparr>sv_stop_request_accepted := True,
                            sv_stop_canonical_reason := Some canonical,
                            sv_stop_resolved_message := Some resolved,
                            sv_shutdown_in_progress := True\<rparr>))
                         (act_ret body))))))"

definition record_manager_stop_request_checkpoint :: "cfg \<Rightarrow> env \<Rightarrow> unit lc" where
  "record_manager_stop_request_checkpoint c w =
     act_when (cfg_journal c)
       (act_with id (\<lambda>s.
          call w (Journal ''record_manager_stop_request''
            [(''last_data_event_at'',
                case sv_last_data_event_timestamp s of None \<Rightarrow> VNone | Some t \<Rightarrow> VTime t),
             (''last_clock_at'',
                case sv_deps s of
                  None \<Rightarrow> VNone
                | Some d \<Rightarrow>
                    (case env_clock_now w (sv_trace s) of None \<Rightarrow> VNone | Some t \<Rightarrow> VTime t)),
             (''last_replay_cursor'', VStr (sv_last_replay_cursor s)),
             (''stop_requested_at'', VTime (env_now w (sv_trace s)))])))"

section \<open>Feeds\<close>

definition historical_thread :: string where "historical_thread = ''swr-historical-backtest-feed''"
definition market_data_thread :: string where "market_data_thread = ''swr-market-data-redis-feed''"
definition portfolio_thread :: string where "portfolio_thread = ''swr-portfolio-update-feed''"

definition maybe_start_historical_backtest_driver :: "cfg \<Rightarrow> env \<Rightarrow> unit lc" where
  "maybe_start_historical_backtest_driver c w =
     act_with id (\<lambda>s.
       if fd_started (sv_hds s) then act_ret ()
       else if ls_mode (cfg_spec c) \<noteq> BACKTEST then act_ret ()
       else if \<not> cfg_historical_client c then act_ret ()
       else (case cfg_settings c of
               None \<Rightarrow> act_ret ()
             | Some st \<Rightarrow>
                 if py_strip (st_historical_data_grpc_target st) = [] then act_ret ()
                 else act_seq
                   [act_modify (\<lambda>s. s\<lparr>sv_hds := \<lparr>fd_started = True, fd_stop = False,
                                       fd_thread = True\<rparr>\<rparr>),
                    call w (StartThread historical_thread)]))"

definition stop_historical_backtest_feed_worker :: "env \<Rightarrow> unit lc" where
  "stop_historical_backtest_feed_worker w = act_seq
     [act_modify (\<lambda>s. s\<lparr>sv_hds := (sv_hds s)\<lparr>fd_stop := True\<rparr>\<rparr>),
      act_with id (\<lambda>s.
        act_when (fd_thread (sv_hds s) \<and> env_alive w (sv_trace s) historical_thread)
          (call w (JoinThread historical_thread)))]"

definition paper_live_symbol :: "cfg \<Rightarrow> string option" where
  "paper_live_symbol c =
     (case dict_get (cfg_payload c) ''parameters'' of
        Some (VDict params) \<Rightarrow>
          (case dict_get params ''symbol'' of
             Some (VStr v) \<Rightarrow> if py_strip v \<noteq> [] then Some (py_upper (py_strip v)) else None
           | _ \<Rightarrow> None)
      | _ \<Rightarrow> None)"

definition live_market_data_partition_scope :: "cfg \<Rightarrow> int \<Rightarrow> (string \<times> int) option lc" where
  "live_market_data_partition_scope c partition_count =
     (case paper_live_symbol c of
        None \<Rightarrow>
          act_then (say (PrintText ''[market-data-redis] parameters.symbol is required''))
            (act_ret None)
      | Some v \<Rightarrow>
          act_bind (act_of (market_data_partition v partition_count)) (\<lambda>p.
            act_then (say (PrintText (''[market-data-redis] XREAD BLOCK 0 on partition '' @ int_str p)))
              (act_ret (Some (v, p)))))"

definition market_data_stream_log :: "env \<Rightarrow> string \<Rightarrow> string \<Rightarrow> pydict \<Rightarrow> unit lc" where
  "market_data_stream_log w level event extras =
     act_with sv_logger (\<lambda>has_logger.
       if has_logger then
         act_catch (call w (LogEvent event level extras))
           (\<lambda>_. say (Print ((''event_name'', VStr event) # extras)))
       else act_when (level \<noteq> ''DEBUG'') (say (Print ((''event_name'', VStr event) # extras))))"

definition strings :: "string list \<Rightarrow> pyval" where
  "strings xs = VList (map VStr xs)"

text \<open>\<open>_maybe_start_live_market_data_feed\<close>; of the logged fields the keys and counts are kept.\<close>

definition start_live_feed_thread :: "env \<Rightarrow> string list \<Rightarrow> string list \<Rightarrow> unit lc" where
  "start_live_feed_thread w feeds stream_names = act_seq
     [market_data_stream_log w ''INFO'' ''market_data_stream.step_expand_partitioned_streams''
        [(''physical_stream_keys'', strings stream_names)],
      market_data_stream_log w ''INFO'' ''market_data_stream.subscription_snapshot''
        [(''redis_stream_keys'', strings stream_names)],
      emit_domain_event w ''strategy_worker.market_data_subscription_started'' ''INFO''
        [(''stream_count'', VInt (int (length stream_names))), (''feeds'', strings feeds),
         (''stage'', VStr ''market_data_subscription''), (''state'', VStr ''started'')],
      act_modify (\<lambda>s. s\<lparr>sv_md := \<lparr>fd_started = True, fd_stop = False, fd_thread = True\<rparr>\<rparr>),
      call w (StartThread market_data_thread)]"

definition maybe_start_live_market_data_feed :: "cfg \<Rightarrow> env \<Rightarrow> unit lc" where
  "maybe_start_live_market_data_feed c w =
     act_with (\<lambda>s. fd_started (sv_md s)) (\<lambda>started.
       if started then act_ret ()
       else if ls_mode (cfg_spec c) \<notin> {PAPER, LIVE} then act_ret ()
       else
         (case cfg_settings c of
            None \<Rightarrow> say (PrintText ''[market-data-redis] not configured'')
          | Some st \<Rightarrow>
              if py_strip (st_md_redis_url st) = [] then
                say (PrintText ''[market-data-redis] not configured'')
              else
                (let feeds = (if st_md_feeds st = [] then [''bars''] else st_md_feeds st);
                     tf = timeframe_or_1m (st_replay_bar_timeframe st);
                     keys = (case st_md_keys st of (tr, q, b) \<Rightarrow>
                               market_data_redis_keys_from_settings tr q b);
                     bases = resolve_stream_names feeds (Some tf) keys;
                     n = st_md_partition_count st in
                 act_seq
                   [market_data_stream_log w ''INFO'' ''market_data_stream.step_resolve_stream_prefixes''
                      [(''bar_timeframe'', VStr tf), (''feeds'', strings feeds)],
                    market_data_stream_log w ''INFO'' ''market_data_stream.step_resolve_stream_bases''
                      [(''stream_bases'', strings bases)],
                    act_bind (live_market_data_partition_scope c n) (\<lambda>scope.
                      case scope of
                        None \<Rightarrow> act_ret ()
                      | Some (v, p) \<Rightarrow>
                          act_bind (act_of (expand_market_data_stream_keys bases n [v])) (\<lambda>names.
                            if names = [] then
                              say (PrintText
                                ''[market-data-redis] market_data_feeds produced no stream keys'')
                            else start_live_feed_thread w feeds names))])))"

definition stop_live_market_data_feed_worker :: "env \<Rightarrow> unit lc" where
  "stop_live_market_data_feed_worker w = act_seq
     [act_modify (\<lambda>s. s\<lparr>sv_md := (sv_md s)\<lparr>fd_stop := True\<rparr>\<rparr>),
      act_with id (\<lambda>s.
        act_when (fd_thread (sv_md s) \<and> env_alive w (sv_trace s) market_data_thread)
          (call w (JoinThread market_data_thread)))]"

definition maybe_start_portfolio_update_feed :: "cfg \<Rightarrow> env \<Rightarrow> unit lc" where
  "maybe_start_portfolio_update_feed c w =
     act_with (\<lambda>s. fd_started (sv_portfolio s)) (\<lambda>started.
       if started then act_ret ()
       else if ls_mode (cfg_spec c) \<notin> {PAPER, LIVE} then act_ret ()
       else
         (case cfg_settings c of
            None \<Rightarrow> act_ret ()
          | Some st \<Rightarrow>
              if \<not> st_portfolio_enabled st then act_ret ()
              else
                (let job_id = py_strip (or_empty (ls_job_id (cfg_spec c)));
                     url = text_or (py_strip (st_portfolio_redis_url st)) (py_strip (st_md_redis_url st)) in
                 if job_id = [] then
                   say (PrintText ''[portfolio-update-redis] launch job_id is required'')
                 else if url = [] then
                   say (PrintText ''[portfolio-update-redis] not configured'')
                 else
                   act_bind (act_of (portfolio_update_partition job_id (st_md_partition_count st)))
                     (\<lambda>p. act_seq
                        [say (PrintText (''[portfolio-update-redis] SUBSCRIBE '' @
                           portfolio_update_channel (Some (py_strip (st_portfolio_channel_prefix st))) p)),
                         act_modify (\<lambda>s. s\<lparr>sv_portfolio := \<lparr>fd_started = True, fd_stop = False,
                                                        fd_thread = True\<rparr>\<rparr>),
                         call w (StartThread portfolio_thread)]))))"

definition stop_portfolio_update_feed_worker :: "env \<Rightarrow> unit lc" where
  "stop_portfolio_update_feed_worker w = act_seq
     [act_modify (\<lambda>s. s\<lparr>sv_portfolio := (sv_portfolio s)\<lparr>fd_stop := True\<rparr>\<rparr>),
      act_with id (\<lambda>s.
        act_when (fd_thread (sv_portfolio s) \<and> env_alive w (sv_trace s) portfolio_thread)
          (call w (JoinThread portfolio_thread)))]"


section \<open>A sample configuration\<close>

definition sample_spec :: launch_spec where
  "sample_spec =
     \<lparr>ls_runtime_id = ''r1'', ls_tenant_id = ''t1'', ls_strategy_version_id = ''v1'', ls_mode = PAPER,
      ls_launch_attempt = 1, ls_artifact_uri = ''s3://a'', ls_entrypoint = ''m:f'', ls_trader_id = None,
      ls_account_id = Some ''a1'', ls_artifact_digest = None, ls_job_id = None, ls_ts_start = None,
      ls_ts_end = None, ls_symbol = None, ls_correlation_id = None\<rparr>"

definition sample_settings :: settings where
  "sample_settings =
     \<lparr>st_srm_base_url = ''http://srm'', st_deployment_id = ''d1'', st_replay_bar_timeframe = None,
      st_historical_data_grpc_target = [], st_md_redis_url = [], st_md_feeds = [],
      st_md_keys = (None, None, None), st_md_partition_count = 4, st_portfolio_enabled = False,
      st_portfolio_redis_url = [], st_portfolio_channel_prefix = []\<rparr>"

definition sample_cfg :: cfg where
  "sample_cfg =
     \<lparr>cfg_spec = sample_spec, cfg_payload = [], cfg_settings = Some sample_settings,
      cfg_identity = \<lparr>wi_runtime_id = ''r1'', wi_tenant_id = ''t1'', wi_strategy_version_id = ''v1'',
        wi_mode = PAPER, wi_trader_id = None, wi_account_id = Some ''a1'',
        wi_validated_parameter_identity = None, wi_artifact_reference = None,
        wi_artifact_uri = ''s3://a'', wi_artifact_digest = None, wi_entrypoint = ''m:f'',
        wi_launch_attempt = 1\<rparr>,
      cfg_journal = True, cfg_on_step = True, cfg_instance_manager = True, cfg_work_acceptor = True,
      cfg_periodic_jobs = True, cfg_flusher = True, cfg_historical_client = False,
      cfg_closeables = [HasClose, NotCloseable, HasShutdown]\<rparr>"

end
