(* ===== verification/LifecycleOps.thy ===== *)
theory LifecycleOps
  imports Lifecycle
begin

text \<open>
  The three operations that move a worker through its life, \<open>start\<close>, \<open>stop\<close> and \<open>run\<close> of
  \<open>lifecycle_service.py\<close>, with the rollback of a failed start and the diagnosis it records.
\<close>

section \<open>Diagnosis of a failed start\<close>

definition BOOTSTRAP_STAGE_ORDER :: "bootstrap_stage list" where
  "BOOTSTRAP_STAGE_ORDER = [ARTIFACT_FETCH, ARTIFACT_VERIFY, ENTRYPOINT_LOAD, SDK_VALIDATE]"

definition stage_values :: "bootstrap_stage list \<Rightarrow> string list" where
  "stage_values ss = map bootstrap_stage_value ss"

record field_classes =
  fc_missed :: "string list"
  fc_invalid :: "string list"
  fc_empty :: "string list"
  fc_unknown :: "string list option"

definition split_unknown :: "string \<Rightarrow> string list" where
  "split_unknown code = filter (\<lambda>x. x \<noteq> []) (py_split (CHR '','') (drop (length ''unknown_fields:'') code))"

definition classify_field :: "string \<Rightarrow> string \<Rightarrow> field_classes \<Rightarrow> field_classes" where
  "classify_field key code fc =
     (let lower = py_lower code in
      if key = ''payload'' \<and> starts_with ''unknown_fields:'' code then
        (let unknown = split_unknown code in
         if unknown \<noteq> [] then
           fc\<lparr>fc_invalid := fc_invalid fc @ unknown, fc_unknown := Some unknown\<rparr>
         else fc)
      else if occurs_in ''required_field_missing'' lower \<or> occurs_in ''required'' lower then
        fc\<lparr>fc_missed := fc_missed fc @ [key]\<rparr>
      else if occurs_in ''must_not_be_empty'' lower \<or> occurs_in ''must_not_be_blank'' lower \<or>
              occurs_in ''blank'' lower then
        fc\<lparr>fc_empty := fc_empty fc @ [key]\<rparr>
      else fc\<lparr>fc_invalid := fc_invalid fc @ [key]\<rparr>)"

text \<open>The sets are kept as lists with repetitions and turned into sorted lists at the end.\<close>

definition classify_launch_field_errors :: "(pyval \<Rightarrow> string) \<Rightarrow> pydict \<Rightarrow> field_classes" where
  "classify_launch_field_errors r field_errors =
     (let fc = fold (\<lambda>(k, v). classify_field k (py_str r v)) field_errors
                 \<lparr>fc_missed = [], fc_invalid = [], fc_empty = [], fc_unknown = None\<rparr>
      in \<lparr>fc_missed = sorted_set (fc_missed fc), fc_invalid = sorted_set (fc_invalid fc),
          fc_empty = sorted_set (fc_empty fc), fc_unknown = fc_unknown fc\<rparr>)"

fun stage_index :: "bootstrap_stage \<Rightarrow> nat" where
  "stage_index ARTIFACT_FETCH = 0"
| "stage_index ARTIFACT_VERIFY = 1"
| "stage_index ENTRYPOINT_LOAD = 2"
| "stage_index SDK_VALIDATE = 3"

text \<open>Passed, failed and unchecked stages.\<close>

definition validation_outcome :: "string list \<Rightarrow> py_exc \<Rightarrow> string list \<times> string list \<times> string list" where
  "validation_outcome startup_steps error =
     (case error of
        BootstrapExc ty stage rc retryable details message \<Rightarrow>
          (stage_values (take (stage_index stage) BOOTSTRAP_STAGE_ORDER),
           [bootstrap_stage_value stage],
           stage_values (drop (stage_index stage + 1) BOOTSTRAP_STAGE_ORDER))
      | _ \<Rightarrow>
          if exc_type_name error = ''RuntimeStartValidationFailedError'' then
            ([], [''validate_launch_metadata''], stage_values BOOTSTRAP_STAGE_ORDER)
          else if ''validate_sdk_contract'' \<in> set startup_steps then
            (stage_values BOOTSTRAP_STAGE_ORDER, [], [])
          else ([], [], stage_values BOOTSTRAP_STAGE_ORDER))"

definition bootstrap_failure_details :: "(pyval \<Rightarrow> string) \<Rightarrow> string list \<Rightarrow> py_exc \<Rightarrow> pydict" where
  "bootstrap_failure_details r startup_steps error =
     (let details = (case exc_details error of None \<Rightarrow> [] | Some d \<Rightarrow> d);
          field_errors = (case dict_get details ''field_errors'' of Some (VDict fe) \<Rightarrow> fe | _ \<Rightarrow> []);
          fc = classify_launch_field_errors r field_errors
      in case validation_outcome startup_steps error of (passed, failed, not_checked) \<Rightarrow>
           dict_update
             ([(''field_errors'', VDict field_errors),
               (''missed_fields'', strings (fc_missed fc)),
               (''invalid_fields'', strings (fc_invalid fc)),
               (''empty_fields'', strings (fc_empty fc))] @
              (case fc_unknown fc of
                 None \<Rightarrow> []
               | Some u \<Rightarrow> [(''validation_details'', VDict [(''unknown_fields'', strings u)])]) @
              [(''passed'', strings passed), (''failed'', strings failed),
               (''not_checked'', strings not_checked)])
             details)"

section \<open>Teardown\<close>

definition stop_strategy_loop :: "cfg \<Rightarrow> env \<Rightarrow> unit lc" where
  "stop_strategy_loop c w =
     act_with sv_adapter (\<lambda>present.
       act_when (cfg_instance_manager c \<and> present)
         (act_seq [call w StopAdapter, act_modify (\<lambda>s. s\<lparr>sv_adapter := False\<rparr>)]))"

definition close_one :: "env \<Rightarrow> nat \<times> closeable \<Rightarrow> unit lc" where
  "close_one w ic = (case ic of (i, k) \<Rightarrow> act_when (k \<noteq> NotCloseable) (call w (CloseClient i)))"

definition close_downstream_clients :: "cfg \<Rightarrow> env \<Rightarrow> unit lc" where
  "close_downstream_clients c w =
     act_for (enumerate 0 (cfg_closeables c)) (close_one w)"

definition report_bootstrap_failure :: "cfg \<Rightarrow> env \<Rightarrow> py_exc \<Rightarrow> unit lc" where
  "report_bootstrap_failure c w error =
     (case (error, srm_settings c) of
        (BootstrapExc ty stage rc retryable details message, Some st) \<Rightarrow>
          act_ignore (act_with (\<lambda>s. env_now w (sv_trace s)) (\<lambda>now.
            post_report w
              (report_bootstrap_failure_to_srm (env_repr w) now stage rc details message
                 (ls_runtime_id (cfg_spec c)) (mode_text c) (py_strip (st_deployment_id st))
                 (py_strip (st_srm_base_url st)))
              [(''event_name'', VStr ''worker_bootstrap_failed''),
               (''stage'', VStr (bootstrap_stage_value stage)), (''reason'', VStr rc),
               (''message'', VStr (build_bootstrap_failure_message (env_repr w) stage rc details message)),
               (''reason_code'', VStr (stage_srm_reason stage)), (''retryable'', VBool False)]))
      | _ \<Rightarrow> act_ret ())"

definition is_bootstrap_failure :: "py_exc \<Rightarrow> bool" where
  "is_bootstrap_failure e = (case e of BootstrapExc _ _ _ _ _ _ \<Rightarrow> True | _ \<Rightarrow> False)"

definition start_reason :: "py_exc \<Rightarrow> string" where
  "start_reason error =
     normalize_runtime_reason_code
       (Some (case exc_reason_code error of Some rc \<Rightarrow> rc | None \<Rightarrow> ''bootstrap_start_failed''))"

definition init_deps :: "env \<Rightarrow> unit lc" where
  "init_deps w =
     act_with (\<lambda>s. env_deps w (sv_trace s)) (\<lambda>d.
       act_then (call w InitDeps) (act_modify (\<lambda>s. s\<lparr>sv_deps := Some d\<rparr>)))"

definition rollback_partial_startup :: "cfg \<Rightarrow> env \<Rightarrow> py_exc \<Rightarrow> unit lc" where
  "rollback_partial_startup c w error =
     act_with id (\<lambda>s0.
       let failure_at = env_now w (sv_trace s0);
           details = bootstrap_failure_details (env_repr w) (sv_startup_steps s0) error;
           event = [(''occurred_at'', VTime failure_at), (''reason_code'', VStr (start_reason error)),
                    (''details'', VDict details)]
       in act_seq
         [journal c w ''record_launch_failed_event'' event,
          stop_strategy_loop c w,
          close_downstream_clients c w,
          act_with sv_deps (\<lambda>d. act_when (d = None) (act_ignore (init_deps w))),
          act_with sv_deps (\<lambda>d.
            if is_bootstrap_failure error then report_bootstrap_failure c w error
            else act_when (d \<noteq> None)
              (act_ignore (call w (Manager ''emit_bootstrap_failed'' event)))),
          act_modify (\<lambda>s. s\<lparr>sv_started := False, sv_shutdown_complete := False\<rparr>)])"

section \<open>Starting\<close>

definition initialize_strategy_coordinator :: "cfg \<Rightarrow> env \<Rightarrow> unit lc" where
  "initialize_strategy_coordinator c w =
     act_when (cfg_instance_manager c)
       (if (ls_trader_id (cfg_spec c) \<noteq> None) = (ls_account_id (cfg_spec c) \<noteq> None) then
          act_raise (ValueExc ''ValueError'' ''Exactly one of trader_id or account_id must be set.'' None)
        else act_seq [call w CreateAdapter, act_modify (\<lambda>s. s\<lparr>sv_adapter := True\<rparr>)])"

definition BindAndStartFailed :: py_exc where
  "BindAndStartFailed =
     OtherExc ''RuntimeError'' ''Strategy bind_and_start failed during worker startup.''
       (Some ''STRATEGY_BIND_AND_START_FAILED'')"

definition bind_strategy :: "cfg \<Rightarrow> env \<Rightarrow> string \<Rightarrow> unit lc" where
  "bind_strategy c w entrypoint =
     act_with sv_adapter (\<lambda>present. act_when present
       (act_with (\<lambda>s. env_bound w (sv_trace s)) (\<lambda>ok. act_seq
          [call w BindAndStart,
           act_when (\<not> ok) (act_raise BindAndStartFailed),
           emit_domain_event w ''strategy_worker.strategy_loaded'' ''INFO''
             [(''entrypoint'', VStr entrypoint),
              (''symbol'',
                (let sy = py_strip (or_empty (ls_symbol (cfg_spec c)))
                 in if sy = [] then VNone else VStr sy))]])))"

definition signal_ready :: "env \<Rightarrow> string \<Rightarrow> unit lc" where
  "signal_ready w entrypoint =
     act_with id (\<lambda>s. act_when (sv_deps s \<noteq> None)
       (call w (Manager ''emit_bootstrap_succeeded''
          [(''local_state'', VStr (worker_phase_value WP_READY)),
           (''occurred_at'', VTime (env_now w (sv_trace s))),
           (''details'', VDict [(''entrypoint'', VStr entrypoint)])])))"

definition run_bootstrap :: "env \<Rightarrow> string lc" where
  "run_bootstrap w =
     act_with (\<lambda>s. env_bootstrap w (sv_trace s)) (\<lambda>result.
       act_then (call w RunBootstrap)
         (case result of
            BootSuccess entrypoint \<Rightarrow> act_ret entrypoint
          | BootFailure e \<Rightarrow> act_raise e
          | BootBroken \<Rightarrow> act_raise (OtherExc ''AssertionError'' [] None)))"

text \<open>The body of the \<open>try\<close> of \<open>start\<close>: validation and artifacts, then the steps after them.\<close>

definition start_prepare :: "cfg \<Rightarrow> env \<Rightarrow> string lc" where
  "start_prepare c w =
     act_then
       (act_seq
         [record_startup_step c w ''validate_launch_metadata'',
          act_with (\<lambda>s. env_validated w (sv_trace s)) (\<lambda>validated. act_seq
            [call w Validate,
             act_when (validated \<noteq> cfg_spec c)
               (act_raise (ValueExc ''ValueError''
                  ''Validated launch payload does not match approved launch spec.'' None))]),
          record_startup_step c w ''bind_observability_context'',
          call w BindLogger,
          act_modify (\<lambda>s. s\<lparr>sv_logger := True\<rparr>),
          emit_domain_event w ''strategy_worker.started'' ''INFO''
            [(''phase'', VStr (worker_phase_value WP_INITIALIZING))],
          record_startup_step c w ''resolve_artifact_and_entrypoint''])
       (run_bootstrap w)"

definition start_ready :: "cfg \<Rightarrow> env \<Rightarrow> string \<Rightarrow> unit lc" where
  "start_ready c w entrypoint = act_seq
     [record_startup_step c w ''validate_sdk_contract'',
      record_startup_step c w ''initialize_runtime_dependencies'',
      init_deps w,
      record_startup_step c w ''initialize_strategy_instance_coordinator'',
      initialize_strategy_coordinator c w,
      bind_strategy c w entrypoint,
      record_startup_step c w ''emit_worker_bootstrap_ready_signal'',
      signal_ready w entrypoint,
      report_bootstrap_success c w,
      set_phase c w WP_READY ''INFO'' None True,
      emit_domain_event w ''strategy_worker.ready'' ''INFO''
        [(''phase'', VStr (worker_phase_value WP_READY))],
      act_modify (\<lambda>s. s\<lparr>sv_started := True, sv_shutdown_complete := False\<rparr>),
      record_startup_step c w ''emit_initial_srm_heartbeat'',
      emit_periodic_heartbeat w,
      record_startup_step c w ''start_heartbeat_periodic_jobs'',
      act_when (cfg_periodic_jobs c) (call w PeriodicStart)]"

definition start_failed :: "cfg \<Rightarrow> env \<Rightarrow> py_exc \<Rightarrow> unit lc" where
  "start_failed c w error = act_seq
     [set_phase c w WP_FAILED ''ERROR'' (Some (start_reason error)) True,
      rollback_partial_startup c w error,
      act_raise error]"

definition start :: "cfg \<Rightarrow> env \<Rightarrow> unit lc" where
  "start c w =
     act_with sv_started (\<lambda>started.
       if started then act_ret ()
       else act_catch (act_bind (start_prepare c w) (start_ready c w)) (start_failed c w))"

section \<open>Stopping\<close>

record stop_args =
  sa_emit_termination_signal :: bool
  sa_suppress_stopping_phase_stdout :: bool
  sa_termination_reason_code :: "string option"
  sa_termination_message :: "string option"

definition message_or :: "string option \<Rightarrow> string option \<Rightarrow> string option" where
  "message_or m d = (case m of Some x \<Rightarrow> Some x | None \<Rightarrow> d)"

text \<open>Reason and message that the shutdown reports.\<close>

definition resolve_stop :: "stop_args \<Rightarrow> svc \<Rightarrow> string \<times> string option" where
  "resolve_stop a s =
     (case sv_stop_canonical_reason s of
        Some r \<Rightarrow> (r, message_or (sa_termination_message a) (sv_stop_resolved_message s))
      | None \<Rightarrow>
          (case sa_termination_reason_code a of
             None \<Rightarrow>
               if sv_phase s = WP_FAILED then
                 (normalize_runtime_reason_code (Some ''ERROR_DETECTED''),
                  message_or (sa_termination_message a) (Some ''Shutdown after runtime detected failure.''))
               else
                 (normalize_runtime_reason_code (Some ''MANUAL_STOP_REQUESTED''),
                  message_or (sa_termination_message a) (Some ''Worker shutdown complete.''))
           | Some rc \<Rightarrow>
               if rc = ''RUNTIME_JOB_COMPLETED'' then
                 (normalize_runtime_reason_code (Some ''RUNTIME_JOB_COMPLETED''),
                  message_or (sa_termination_message a) (Some ''Runtime job completed.''))
               else (normalize_runtime_reason_code (Some rc), sa_termination_message a)))"

definition final_phase :: "cfg \<Rightarrow> stop_args \<Rightarrow> worker_phase" where
  "final_phase c a =
     (if sa_termination_reason_code a = Some ''RUNTIME_JOB_COMPLETED'' \<and> ls_mode (cfg_spec c) = BACKTEST
      then WP_COMPLETED else WP_STOPPED)"

definition emit_terminated :: "cfg \<Rightarrow> env \<Rightarrow> stop_args \<Rightarrow> string \<Rightarrow> string option \<Rightarrow> unit lc" where
  "emit_terminated c w a rcode message =
     act_with id (\<lambda>s. act_when (sa_emit_termination_signal a \<and> sv_deps s \<noteq> None)
       (call w (Manager ''emit_terminated''
          [(''occurred_at'', VTime (env_now w (sv_trace s))),
           (''local_state'', VStr (worker_phase_value (final_phase c a))),
           (''reason_code'', VStr rcode), (''message'', opt_str message)])))"

definition stop_teardown :: "cfg \<Rightarrow> env \<Rightarrow> stop_args \<Rightarrow> string \<Rightarrow> string option \<Rightarrow> unit lc" where
  "stop_teardown c w a rcode message = act_seq
     [act_modify (\<lambda>s. s\<lparr>sv_shutdown_in_progress := True\<rparr>),
      record_shutdown_step c w ''stop_live_market_data_redis_feed'',
      stop_live_market_data_feed_worker w,
      record_shutdown_step c w ''stop_portfolio_update_redis_feed'',
      stop_portfolio_update_feed_worker w,
      record_shutdown_step c w ''stop_historical_backtest_feed'',
      stop_historical_backtest_feed_worker w,
      record_shutdown_step c w ''stop_heartbeat_periodic_jobs'',
      act_when (cfg_periodic_jobs c) (call w PeriodicStop),
      set_phase c w WP_STOPPING ''INFO'' None (\<not> sa_suppress_stopping_phase_stdout a),
      record_shutdown_step c w ''stop_accepting_new_work'',
      act_when (cfg_work_acceptor c) (call w StopAccepting),
      record_shutdown_step c w ''stop_strategy_loop'',
      stop_strategy_loop c w,
      record_shutdown_step c w ''flush_diagnostics'',
      act_when (cfg_flusher c) (call w FlushDiagnostics),
      record_shutdown_step c w ''close_downstream_clients'',
      close_downstream_clients c w,
      record_shutdown_step c w ''emit_worker_shutdown_signal'',
      emit_terminated c w a rcode message,
      set_phase c w (final_phase c a) ''INFO'' None True,
      report_final_shutdown c w rcode message,
      act_modify (\<lambda>s. s\<lparr>sv_shutdown_complete := True, sv_started := False\<rparr>)]"

definition stop :: "cfg \<Rightarrow> env \<Rightarrow> stop_args \<Rightarrow> bool lc" where
  "stop c w a =
     act_with sv_shutdown_complete (\<lambda>complete.
       if complete then act_ret False
       else act_then
         (act_with id (\<lambda>s.
            emit_domain_event w ''strategy_worker.shutdown_requested'' ''INFO''
              [(''phase'', VStr (worker_phase_value (sv_phase s))),
               (''termination_reason_code'', opt_str (sa_termination_reason_code a))]))
         (act_with (resolve_stop a) (\<lambda>(rcode, message).
            act_then (stop_teardown c w a rcode message) (act_ret True))))"

section \<open>Running\<close>

definition run :: "cfg \<Rightarrow> env \<Rightarrow> unit lc" where
  "run c w = act_then (start c w)
     (act_with sv_phase (\<lambda>p. act_when (p = WP_READY) (act_seq
        [set_phase c w WP_RUNNING ''INFO'' None True,
         emit_periodic_heartbeat w,
         maybe_start_historical_backtest_driver c w,
         maybe_start_live_market_data_feed c w,
         maybe_start_portfolio_update_feed c w])))"

end
