(* ===== verification/LifecycleSpec.thy ===== *)
theory LifecycleSpec
  imports LifecycleOps
begin

text \<open>
  What \<open>start\<close> and \<open>stop\<close> promise. \<open>abs\<close> forgets the log of a service state: it keeps the
  attributes and, of the trace, the milestones: calls that start, signal or tear down something,
  of the signals to the manager the local state they carry, and the printed phase messages with
  their phase; and of the dependencies whether there are any. A successful \<open>stop\<close> or \<open>start\<close> is a fixed function of the abstract
  state, whatever the environment did; \<open>refines\<close> is that simulation and its rules follow the
  combinators. \<open>moves\<close> along the relations of this theory covers runs that raise.
\<close>

section \<open>The abstraction\<close>

text \<open>The phase that a printed message announces, and the local state that a signal carries.\<close>

definition printed_phase :: "pydict \<Rightarrow> pyval option" where
  "printed_phase d =
     (case dict_get d ''payload'' of Some (VDict p) \<Rightarrow> dict_get p ''local_phase'' | _ \<Rightarrow> None)"

definition phase_print :: "pyval \<Rightarrow> effect" where
  "phase_print v = Print [(''local_phase'', v)]"

definition local_state_of :: "pydict \<Rightarrow> pydict" where
  "local_state_of args = filter (\<lambda>(k, v). k = ''local_state'') args"

definition phase_dict :: "worker_phase \<Rightarrow> pydict" where
  "phase_dict p = [(''local_state'', VStr (worker_phase_value p))]"

definition announce :: "worker_phase \<Rightarrow> effect list" where
  "announce p = [phase_print (VStr (worker_phase_value p))]"

fun milestone :: "effect \<Rightarrow> effect option" where
  "milestone Validate = Some Validate"
| "milestone BindLogger = Some BindLogger"
| "milestone RunBootstrap = Some RunBootstrap"
| "milestone InitDeps = Some InitDeps"
| "milestone CreateAdapter = Some CreateAdapter"
| "milestone BindAndStart = Some BindAndStart"
| "milestone StopAdapter = Some StopAdapter"
| "milestone (Manager name args) = Some (Manager name (local_state_of args))"
| "milestone (Print d) = map_option phase_print (printed_phase d)"
| "milestone PeriodicStart = Some PeriodicStart"
| "milestone PeriodicStop = Some PeriodicStop"
| "milestone StopAccepting = Some StopAccepting"
| "milestone FlushDiagnostics = Some FlushDiagnostics"
| "milestone (CloseClient i) = Some (CloseClient i)"
| "milestone _ = None"

definition milestones :: "effect list \<Rightarrow> effect list" where
  "milestones es = List.map_filter milestone es"

definition any_deps :: deps where
  "any_deps = \<lparr>dp_clock = SystemClock, dp_oms = False, dp_replay = None\<rparr>"

definition abs :: "svc \<Rightarrow> svc" where
  "abs s = s\<lparr>sv_trace := milestones (sv_trace s), sv_sampler := (\<lambda>_. 0),
              sv_deps := map_option (\<lambda>_. any_deps) (sv_deps s)\<rparr>"

definition add_milestone :: "effect \<Rightarrow> svc \<Rightarrow> svc" where
  "add_milestone e x =
     (case milestone e of None \<Rightarrow> x | Some m \<Rightarrow> x\<lparr>sv_trace := sv_trace x @ [m]\<rparr>)"

lemma state_message_phase: "printed_phase (state_message c now p l r) = Some (VStr (worker_phase_value p))"
  by (simp add: printed_phase_def state_message_def Let_def)

lemma local_state_of_simps [simp]:
  "local_state_of [] = []" "local_state_of ((''local_state'', v) # args) = (''local_state'', v) # local_state_of args"
  "k \<noteq> ''local_state'' \<Longrightarrow> local_state_of ((k, v) # args) = local_state_of args"
  by (simp_all add: local_state_of_def)

lemma milestones_simps [simp]:
  "milestones [] = []" "milestones (es @ fs) = milestones es @ milestones fs"
  "milestones (e # es) = (case milestone e of None \<Rightarrow> milestones es | Some m \<Rightarrow> m # milestones es)"
  by (simp_all add: milestones_def List.map_filter_def split: option.split)

lemma abs_fields [simp]:
  "sv_phase (abs s) = sv_phase s" "sv_started (abs s) = sv_started s"
  "sv_shutdown_complete (abs s) = sv_shutdown_complete s"
  "sv_shutdown_in_progress (abs s) = sv_shutdown_in_progress s"
  "sv_stop_request_accepted (abs s) = sv_stop_request_accepted s"
  "sv_stop_canonical_reason (abs s) = sv_stop_canonical_reason s"
  "sv_stop_resolved_message (abs s) = sv_stop_resolved_message s"
  "sv_startup_steps (abs s) = sv_startup_steps s" "sv_shutdown_steps (abs s) = sv_shutdown_steps s"
  "sv_first_data_received (abs s) = sv_first_data_received s"
  "sv_backtest_replay_complete (abs s) = sv_backtest_replay_complete s"
  "sv_logger (abs s) = sv_logger s" "(sv_deps (abs s) = None) = (sv_deps s = None)" "sv_adapter (abs s) = sv_adapter s"
  "sv_hds (abs s) = sv_hds s" "sv_md (abs s) = sv_md s" "sv_portfolio (abs s) = sv_portfolio s"
  "sv_trace (abs s) = milestones (sv_trace s)"
  by (simp_all add: abs_def)

section \<open>Quiet actions\<close>

text \<open>Actions that leave the abstract state alone, whether they raise or not.\<close>

definition quiet :: "svc \<Rightarrow> svc \<Rightarrow> bool" where
  "quiet s t \<longleftrightarrow> abs t = abs s"

interpretation quiet: step_order quiet
  by unfold_locales (auto simp: quiet_def)

lemma quiet_call: "milestone e = None \<Longrightarrow> moves quiet (call w e)"
  by (auto simp: moves_def quiet_def call_def abs_def Let_def split: option.split)

lemma quiet_say: "milestone e = None \<Longrightarrow> moves quiet (say e)"
  by (auto simp: moves_def quiet_def say_def act_run abs_def)

lemma quiet_sampler: "moves quiet (sampler_next k)"
  by (auto simp: moves_def quiet_def sampler_next_def abs_def Let_def)

lemma quiet_journal: "moves quiet (journal c w n a)"
  unfolding journal_def by (intro quiet.guarded quiet_call) simp

lemma quiet_event: "moves quiet (emit_domain_event w ev l x)"
  unfolding emit_domain_event_def
  by (intro quiet.reading quiet.guarded quiet.ignore quiet_call) simp

lemma quiet_post:
  assumes "dict_get out ''payload'' = None"
  shows "moves quiet (post_report w r out)"
proof -
  have "printed_phase out = None" "printed_phase (out @ [(''srm_status_report'', x)]) = None" for x
    using assms by (simp_all add: printed_phase_def dict_get_def map_add_def)
  then show ?thesis
    unfolding post_report_def
    by (intro quiet.bind quiet.result quiet.option quiet.seq2 quiet.reading quiet_say quiet_call) simp_all
qed

lemma quiet_report_success: "moves quiet (report_bootstrap_success c w)"
  unfolding report_bootstrap_success_def
  by (intro quiet.option quiet.ret quiet.ignore quiet.reading quiet_post) simp

lemma quiet_report_final: "moves quiet (report_final_shutdown c w r m)"
  unfolding report_final_shutdown_def resolve_shutdown_report_def
  by (auto intro!: quiet.option quiet.ret quiet.ignore quiet.reading quiet_post)

lemma quiet_join: "moves quiet (act_with id (\<lambda>s. act_when (b s) (call w (JoinThread n))))"
  by (intro quiet.reading quiet.guarded quiet_call) simp

section \<open>Simulation\<close>

definition refines :: "(svc, 'a) act \<Rightarrow> (svc \<Rightarrow> svc) \<Rightarrow> bool" where
  "refines m g \<longleftrightarrow> (\<forall>s v s'. m s = (Inr v, s') \<longrightarrow> abs s' = g (abs s))"

lemma refinesD: "refines m g \<Longrightarrow> m s = (Inr v, s') \<Longrightarrow> abs s' = g (abs s)"
  by (simp add: refines_def)

lemma refines_quiet: "moves quiet m \<Longrightarrow> refines m (\<lambda>x. x)"
  by (auto simp: refines_def moves_def quiet_def) (metis snd_conv)

lemma refines_ret: "refines (act_ret v) (\<lambda>x. x)"
  by (simp add: refines_def act_run)

lemma refines_call: "refines (call w e) (add_milestone e)"
  by (auto simp: refines_def call_def Let_def abs_def add_milestone_def split: option.splits)

lemma refines_say: "refines (say e) (add_milestone e)"
  by (auto simp: refines_def say_def act_run abs_def add_milestone_def split: option.splits)

lemma refines_modify: "(\<And>s. abs (f s) = g (abs s)) \<Longrightarrow> refines (act_modify f) g"
  by (auto simp: refines_def act_run)

lemma refines_bind:
  "refines m g \<Longrightarrow> (\<And>v. refines (f v) h) \<Longrightarrow> refines (act_bind m f) (\<lambda>x. h (g x))"
  unfolding refines_def act_run by (fastforce split: prod.splits sum.splits)

lemma refines_then: "refines m g \<Longrightarrow> refines n h \<Longrightarrow> refines (act_then m n) (\<lambda>x. h (g x))"
  unfolding act_then_def by (rule refines_bind)

lemma refines_when: "refines m g \<Longrightarrow> refines (act_when b m) (\<lambda>x. if b then g x else x)"
  by (auto simp: refines_def act_run)

lemma refines_with:
  "(\<And>y. refines (m y) (g y)) \<Longrightarrow> (\<And>s. f (abs s) = f s) \<Longrightarrow> refines (act_with f m) (\<lambda>x. g (f x) x)"
  by (auto simp: refines_def act_run)

text \<open>Reading of the whole state, of which only the abstract part decides.\<close>

lemma refines_reading:
  "(\<And>s. refines (m s) (g (abs s))) \<Longrightarrow> refines (act_with id m) (\<lambda>x. g x x)"
  by (auto simp: refines_def act_run)

lemma refines_any: "(\<And>y. refines (m y) g) \<Longrightarrow> refines (act_with f m) g"
  by (auto simp: refines_def act_run)

lemma refines_raise: "refines (act_raise e) g"
  by (simp add: refines_def act_run)

lemma refines_if: "refines m g \<Longrightarrow> refines n h \<Longrightarrow> refines (if b then m else n) (\<lambda>x. if b then g x else h x)"
  by simp

lemma refines_seq:
  "list_all2 refines ms gs \<Longrightarrow> refines (act_seq ms) (\<lambda>x. fold (\<lambda>g y. g y) gs x)"
proof (induction ms gs rule: list_all2_induct)
  case Nil
  then show ?case by (simp add: refines_ret)
next
  case (Cons m ms g gs)
  then show ?case using refines_then [of m g "act_seq ms"] by simp
qed

lemma refines_eq: "refines m g \<Longrightarrow> g = h \<Longrightarrow> refines m h"
  by simp

lemma refines_update: "(\<And>s. abs (f s) = f (abs s)) \<Longrightarrow> refines (act_modify f) f"
  by (rule refines_modify)

lemma refines_seq_Nil: "refines (act_seq []) (\<lambda>x. x)"
  by (simp add: refines_ret)

lemma refines_seq_Cons: "refines m g \<Longrightarrow> refines (act_seq ms) h \<Longrightarrow> refines (act_seq (m # ms)) (\<lambda>x. h (g x))"
  using refines_then by simp

lemmas refines_rules = refines_seq_Nil refines_seq_Cons refines_then refines_ret refines_update
  refines_call refines_when

section \<open>The parts of stop and start\<close>

lemma step_rest_quiet: "moves quiet (act_seq [journal c w n a, act_when b (call w (OnStep st))])"
  by (intro quiet.seq) (auto intro!: quiet_journal quiet.guarded quiet_call)

lemma refines_startup_step:
  "refines (record_startup_step c w st) (\<lambda>x. x\<lparr>sv_startup_steps := sv_startup_steps x @ [st]\<rparr>)"
  unfolding record_startup_step_def
  by (rule refines_seq_Cons [OF refines_modify refines_quiet [OF step_rest_quiet], THEN refines_eq])
    (simp_all add: abs_def)

lemma refines_shutdown_step:
  "refines (record_shutdown_step c w st) (\<lambda>x. x\<lparr>sv_shutdown_steps := sv_shutdown_steps x @ [st]\<rparr>)"
  unfolding record_shutdown_step_def
  by (rule refines_seq_Cons [OF refines_modify refines_quiet [OF step_rest_quiet], THEN refines_eq])
    (simp_all add: abs_def)

lemma refines_stop_md:
  "refines (stop_live_market_data_feed_worker w) (\<lambda>x. x\<lparr>sv_md := (sv_md x)\<lparr>fd_stop := True\<rparr>\<rparr>)"
  unfolding stop_live_market_data_feed_worker_def
  by (rule refines_seq_Cons [OF refines_modify refines_quiet [OF quiet.seq], THEN refines_eq])
    (auto simp: abs_def intro!: quiet_join)

lemma refines_stop_portfolio:
  "refines (stop_portfolio_update_feed_worker w)
     (\<lambda>x. x\<lparr>sv_portfolio := (sv_portfolio x)\<lparr>fd_stop := True\<rparr>\<rparr>)"
  unfolding stop_portfolio_update_feed_worker_def
  by (rule refines_seq_Cons [OF refines_modify refines_quiet [OF quiet.seq], THEN refines_eq])
    (auto simp: abs_def intro!: quiet_join)

lemma refines_stop_hds:
  "refines (stop_historical_backtest_feed_worker w)
     (\<lambda>x. x\<lparr>sv_hds := (sv_hds x)\<lparr>fd_stop := True\<rparr>\<rparr>)"
  unfolding stop_historical_backtest_feed_worker_def
  by (rule refines_seq_Cons [OF refines_modify refines_quiet [OF quiet.seq], THEN refines_eq])
    (auto simp: abs_def intro!: quiet_join)

definition add_trace :: "effect list \<Rightarrow> svc \<Rightarrow> svc" where
  "add_trace es x = x\<lparr>sv_trace := sv_trace x @ es\<rparr>"

lemma add_trace_simps [simp]:
  "add_trace [] x = x" "add_trace es (add_trace fs x) = add_trace (fs @ es) x"
  by (simp_all add: add_trace_def)

lemma add_milestone_trace:
  "add_milestone e x = add_trace (case milestone e of None \<Rightarrow> [] | Some m \<Rightarrow> [m]) x"
  by (simp add: add_milestone_def add_trace_def split: option.split)

lemma refines_state_message:
  "refines (emit_state_message c w p l r b) (add_trace (if b then announce p else []))"
  unfolding emit_state_message_def
  by (rule refines_any, rule refines_when [OF refines_say, THEN refines_eq])
    (auto simp: fun_eq_iff add_milestone_trace state_message_phase announce_def)

lemma refines_set_phase:
  assumes "p \<noteq> WP_FAILED"
  shows "refines (set_phase c w p l r b)
    (\<lambda>x. add_trace (if b then announce p else []) (x\<lparr>sv_phase := p\<rparr>))"
proof -
  have "moves quiet (phase_events w p r)"
    using assms unfolding phase_events_def by (auto intro: quiet_event quiet.ret)
  then have rest: "moves quiet (act_seq [phase_events w p r, journal c w n a])"
    for n a by (intro quiet.seq) (auto intro: quiet_journal)
  show ?thesis
    unfolding set_phase_def
    by (rule refines_any, rule refines_seq_Cons [OF refines_modify refines_seq_Cons [OF refines_state_message
          refines_quiet [OF rest]], THEN refines_eq])
      (simp_all add: abs_def)
qed

definition ab_stop_adapter :: "cfg \<Rightarrow> svc \<Rightarrow> svc" where
  "ab_stop_adapter c x =
     (add_trace (if cfg_instance_manager c \<and> sv_adapter x then [StopAdapter] else []) x)
       \<lparr>sv_adapter := sv_adapter x \<and> \<not> cfg_instance_manager c\<rparr>"

lemma refines_stop_strategy_loop: "refines (stop_strategy_loop c w) (ab_stop_adapter c)"
proof -
  have two: "refines (act_seq [call w StopAdapter, act_modify (\<lambda>s. s\<lparr>sv_adapter := False\<rparr>)])
      (\<lambda>x. (add_milestone StopAdapter x)\<lparr>sv_adapter := False\<rparr>)"
    by (rule refines_eq, (rule refines_rules | (simp add: abs_def; fail))+)
  show ?thesis
    unfolding stop_strategy_loop_def
  proof (rule refines_eq)
    show "refines (act_with sv_adapter (\<lambda>present. act_when (cfg_instance_manager c \<and> present)
        (act_seq [call w StopAdapter, act_modify (\<lambda>s. s\<lparr>sv_adapter := False\<rparr>)])))
        (\<lambda>x. if cfg_instance_manager c \<and> sv_adapter x
          then (add_milestone StopAdapter x)\<lparr>sv_adapter := False\<rparr> else x)"
      by (rule refines_with [where f = sv_adapter and g = "\<lambda>present x. if cfg_instance_manager c \<and> present
          then (add_milestone StopAdapter x)\<lparr>sv_adapter := False\<rparr> else x"])
        (rule refines_when [OF two], simp)
    show "(\<lambda>x. if cfg_instance_manager c \<and> sv_adapter x
        then (add_milestone StopAdapter x)\<lparr>sv_adapter := False\<rparr> else x) = ab_stop_adapter c"
    proof (rule ext)
      show "(if cfg_instance_manager c \<and> sv_adapter x
          then (add_milestone StopAdapter x)\<lparr>sv_adapter := False\<rparr> else x) = ab_stop_adapter c x" for x
        by (cases x) (auto simp: ab_stop_adapter_def add_milestone_def add_trace_def)
    qed
  qed
qed

lemma refines_call_when:
  "milestone e = Some m \<Longrightarrow> refines (act_when b (call w e)) (add_trace (if b then [m] else []))"
  by (rule refines_when [OF refines_call, THEN refines_eq]) (auto simp: fun_eq_iff add_milestone_trace)

definition close_milestones :: "nat \<Rightarrow> closeable list \<Rightarrow> effect list" where
  "close_milestones n ks = [CloseClient i. (i, k) \<leftarrow> enumerate n ks, k \<noteq> NotCloseable]"

lemma refines_close: "refines (close_downstream_clients c w) (add_trace (close_milestones 0 (cfg_closeables c)))"
proof -
  have "refines (act_for (enumerate n ks) (close_one w)) (add_trace (close_milestones n ks))" for n ks
  proof (induction ks arbitrary: n)
    case Nil
    show ?case by (simp add: close_milestones_def refines_ret refines_eq [OF refines_ret] fun_eq_iff)
  next
    case (Cons k ks)
    have one: "refines (close_one w (n, k))
        (add_trace (if k = NotCloseable then [] else [CloseClient n]))"
      unfolding close_one_def prod.case
      by (rule refines_when [OF refines_call, THEN refines_eq]) (auto simp: fun_eq_iff add_milestone_trace)
    show ?case
      unfolding enumerate_simps act_for.simps
      by (rule refines_then [OF one Cons.IH, THEN refines_eq]) (auto simp: fun_eq_iff close_milestones_def)
  qed
  then show ?thesis unfolding close_downstream_clients_def .
qed

lemma refines_emit_terminated:
  "refines (emit_terminated c w a r m)
     (\<lambda>x. add_trace (if sa_emit_termination_signal a \<and> sv_deps x \<noteq> None
          then [Manager ''emit_terminated'' (phase_dict (final_phase c a))] else []) x)"
  unfolding emit_terminated_def
  by (rule refines_reading [where g = "\<lambda>y x. add_trace (if sa_emit_termination_signal a \<and> sv_deps y \<noteq> None
        then [Manager ''emit_terminated'' (phase_dict (final_phase c a))] else []) x"])
    (use refines_call_when in \<open>auto simp: if_split phase_dict_def\<close>)

section \<open>The abstract stop\<close>

text \<open>
  The nine shutdown steps in their order and what a successful stop does to the state. The two
  phase messages have their places in the trace: STOPPING after the jobs are stopped and before
  the rest is torn down, the final phase after the termination signal.
\<close>

definition SHUTDOWN_STEPS :: "string list" where
  "SHUTDOWN_STEPS =
     [''stop_live_market_data_redis_feed'', ''stop_portfolio_update_redis_feed'',
      ''stop_historical_backtest_feed'', ''stop_heartbeat_periodic_jobs'',
      ''stop_accepting_new_work'', ''stop_strategy_loop'', ''flush_diagnostics'',
      ''close_downstream_clients'', ''emit_worker_shutdown_signal'']"

definition stop_milestones :: "cfg \<Rightarrow> stop_args \<Rightarrow> svc \<Rightarrow> effect list" where
  "stop_milestones c a x =
     (if cfg_periodic_jobs c then [PeriodicStop] else []) @
     (if sa_suppress_stopping_phase_stdout a then [] else announce WP_STOPPING) @
     (if cfg_work_acceptor c then [StopAccepting] else []) @
     (if cfg_instance_manager c \<and> sv_adapter x then [StopAdapter] else []) @
     (if cfg_flusher c then [FlushDiagnostics] else []) @
     close_milestones 0 (cfg_closeables c) @
     (if sa_emit_termination_signal a \<and> sv_deps x \<noteq> None
      then [Manager ''emit_terminated'' (phase_dict (final_phase c a))] else []) @
     announce (final_phase c a)"

definition abstract_stop :: "cfg \<Rightarrow> stop_args \<Rightarrow> svc \<Rightarrow> svc" where
  "abstract_stop c a x =
     x\<lparr>sv_phase := final_phase c a, sv_started := False, sv_shutdown_complete := True,
       sv_shutdown_in_progress := True, sv_shutdown_steps := sv_shutdown_steps x @ SHUTDOWN_STEPS,
       sv_adapter := (sv_adapter x \<and> \<not> cfg_instance_manager c),
       sv_hds := (sv_hds x)\<lparr>fd_stop := True\<rparr>, sv_md := (sv_md x)\<lparr>fd_stop := True\<rparr>,
       sv_portfolio := (sv_portfolio x)\<lparr>fd_stop := True\<rparr>,
       sv_trace := sv_trace x @ stop_milestones c a x\<rparr>"

lemma final_phase_cases: "final_phase c a \<noteq> WP_FAILED"
  by (simp add: final_phase_def)

text \<open>The effect of every part of the teardown on the abstract state, in order.\<close>

definition teardown_parts :: "cfg \<Rightarrow> stop_args \<Rightarrow> (svc \<Rightarrow> svc) list" where
  "teardown_parts c a =
     (let step = (\<lambda>st x. x\<lparr>sv_shutdown_steps := sv_shutdown_steps x @ [st]\<rparr>) in
     [\<lambda>x. x\<lparr>sv_shutdown_in_progress := True\<rparr>,
      step ''stop_live_market_data_redis_feed'', \<lambda>x. x\<lparr>sv_md := (sv_md x)\<lparr>fd_stop := True\<rparr>\<rparr>,
      step ''stop_portfolio_update_redis_feed'',
      \<lambda>x. x\<lparr>sv_portfolio := (sv_portfolio x)\<lparr>fd_stop := True\<rparr>\<rparr>,
      step ''stop_historical_backtest_feed'', \<lambda>x. x\<lparr>sv_hds := (sv_hds x)\<lparr>fd_stop := True\<rparr>\<rparr>,
      step ''stop_heartbeat_periodic_jobs'',
      add_trace (if cfg_periodic_jobs c then [PeriodicStop] else []),
      \<lambda>x. add_trace (if \<not> sa_suppress_stopping_phase_stdout a then announce WP_STOPPING else [])
            (x\<lparr>sv_phase := WP_STOPPING\<rparr>),
      step ''stop_accepting_new_work'', add_trace (if cfg_work_acceptor c then [StopAccepting] else []),
      step ''stop_strategy_loop'', ab_stop_adapter c,
      step ''flush_diagnostics'', add_trace (if cfg_flusher c then [FlushDiagnostics] else []),
      step ''close_downstream_clients'', add_trace (close_milestones 0 (cfg_closeables c)),
      step ''emit_worker_shutdown_signal'',
      \<lambda>x. add_trace (if sa_emit_termination_signal a \<and> sv_deps x \<noteq> None
              then [Manager ''emit_terminated'' (phase_dict (final_phase c a))] else []) x,
      \<lambda>x. add_trace (if True then announce (final_phase c a) else []) (x\<lparr>sv_phase := final_phase c a\<rparr>),
      \<lambda>x. x,
      \<lambda>x. x\<lparr>sv_shutdown_complete := True, sv_started := False\<rparr>])"

lemma teardown_parts_fold: "fold (\<lambda>g y. g y) (teardown_parts c a) x = abstract_stop c a x"
  by (simp add: teardown_parts_def Let_def abstract_stop_def SHUTDOWN_STEPS_def stop_milestones_def
      ab_stop_adapter_def add_trace_def)

lemma refines_teardown: "refines (stop_teardown c w a r m) (abstract_stop c a)"
proof -
  have "refines (stop_teardown c w a r m) (\<lambda>x. fold (\<lambda>g y. g y) (teardown_parts c a) x)"
    unfolding stop_teardown_def teardown_parts_def Let_def
    by (rule refines_seq, simp only: list_all2_Cons list_all2_Nil, intro conjI)
      ((rule refines_shutdown_step refines_stop_md refines_stop_portfolio refines_stop_hds
        refines_set_phase refines_stop_strategy_loop refines_close refines_emit_terminated
        refines_quiet [OF quiet_report_final] refines_call_when refines_update refl,
        (simp add: abs_def final_phase_cases; fail)?)+)
  then show ?thesis by (rule refines_eq) (simp add: fun_eq_iff teardown_parts_fold)
qed

lemma refines_stop:
  assumes run: "stop c w a s = (Inr b, s')"
  shows "if sv_shutdown_complete s then \<not> b \<and> s' = s else b \<and> abs s' = abstract_stop c a (abs s)"
proof (cases "sv_shutdown_complete s")
  case True
  then show ?thesis using run by (simp add: stop_def act_run)
next
  case False
  have step: "refines (act_then (act_with id (\<lambda>s. emit_domain_event w n l (x s)))
      (act_with (resolve_stop a) (\<lambda>(rcode, message).
            act_then (stop_teardown c w a rcode message) (act_ret True)))) (abstract_stop c a)" for n l x
    by (rule refines_then [OF refines_quiet [OF quiet.reading [OF quiet_event]] refines_any, THEN refines_eq])
      (auto intro: refines_then [OF refines_teardown refines_ret])
  from run have b
    by (auto simp: stop_def act_run False split: prod.splits sum.splits)
  then show ?thesis
    using False run refinesD [OF step, where s = s] by (auto simp: stop_def act_with_def)
qed

section \<open>The abstract start\<close>

text \<open>
  The milestones of a start: the message of phase READY stands after the bootstrap, the
  dependencies, the strategy and the ready signal, and before the first heartbeat, which carries
  the phase.
\<close>

definition STARTUP_STEPS :: "string list" where
  "STARTUP_STEPS =
     [''validate_launch_metadata'', ''bind_observability_context'',
      ''resolve_artifact_and_entrypoint'', ''validate_sdk_contract'',
      ''initialize_runtime_dependencies'', ''initialize_strategy_instance_coordinator'',
      ''emit_worker_bootstrap_ready_signal'', ''emit_initial_srm_heartbeat'',
      ''start_heartbeat_periodic_jobs'']"

definition start_milestones :: "cfg \<Rightarrow> svc \<Rightarrow> effect list" where
  "start_milestones c x =
     [Validate, BindLogger, RunBootstrap, InitDeps] @
     (if cfg_instance_manager c then [CreateAdapter] else []) @
     (if cfg_instance_manager c \<or> sv_adapter x then [BindAndStart] else []) @
     [Manager ''emit_bootstrap_succeeded'' (phase_dict WP_READY)] @
     announce WP_READY @
     (if sv_shutdown_in_progress x then [] else [Manager ''emit_heartbeat'' (phase_dict WP_READY)]) @
     (if cfg_periodic_jobs c then [PeriodicStart] else [])"

definition abstract_start :: "cfg \<Rightarrow> svc \<Rightarrow> svc" where
  "abstract_start c x =
     x\<lparr>sv_phase := WP_READY, sv_started := True, sv_shutdown_complete := False,
       sv_startup_steps := sv_startup_steps x @ STARTUP_STEPS, sv_logger := True,
       sv_deps := Some any_deps, sv_adapter := (sv_adapter x \<or> cfg_instance_manager c),
       sv_trace := sv_trace x @ start_milestones c x\<rparr>"

lemma refines_milestone: "milestone e = Some m \<Longrightarrow> refines (call w e) (add_trace [m])"
  by (rule refines_call [THEN refines_eq]) (simp add: fun_eq_iff add_milestone_trace)

lemma refines_run_bootstrap: "refines (run_bootstrap w) (add_trace [RunBootstrap])"
  unfolding run_bootstrap_def
  by (rule refines_any, rule refines_then [OF refines_milestone, THEN refines_eq])
    (auto intro: refines_ret refines_raise split: bootstrap_result.split)

lemma refines_validate:
  "refines (act_with f (\<lambda>v. act_seq [call w Validate, act_when (b v) (act_raise e)])) (add_trace [Validate])"
  by (rule refines_any, rule refines_seq_Cons [OF refines_milestone refines_seq_Cons [OF _ refines_seq_Nil],
        THEN refines_eq]) (auto intro: refines_when [OF refines_raise [where g = "\<lambda>x. x"], THEN refines_eq])

lemma refines_init_deps:
  "refines (init_deps w) (\<lambda>x. (add_trace [InitDeps] x)\<lparr>sv_deps := Some any_deps\<rparr>)"
  unfolding init_deps_def
  by (rule refines_any, rule refines_then [OF refines_milestone refines_modify, THEN refines_eq])
    (simp_all add: abs_def)

lemma refines_coordinator:
  "refines (initialize_strategy_coordinator c w)
     (\<lambda>x. (add_trace (if cfg_instance_manager c then [CreateAdapter] else []) x)
            \<lparr>sv_adapter := sv_adapter x \<or> cfg_instance_manager c\<rparr>)"
proof (cases "cfg_instance_manager c")
  case True
  have "refines (act_seq [call w CreateAdapter, act_modify (\<lambda>s. s\<lparr>sv_adapter := True\<rparr>)])
      (\<lambda>x. (add_trace [CreateAdapter] x)\<lparr>sv_adapter := True\<rparr>)"
    by (rule refines_eq, (rule refines_milestone refines_rules | (simp add: abs_def; fail))+)
  then show ?thesis
    using True by (simp add: initialize_strategy_coordinator_def act_when_def refines_raise)
next
  case False
  then show ?thesis
    by (auto simp: initialize_strategy_coordinator_def act_when_def intro: refines_eq [OF refines_ret])
qed

lemma refines_bind_strategy:
  "refines (bind_strategy c w ep) (\<lambda>x. add_trace (if sv_adapter x then [BindAndStart] else []) x)"
proof -
  have "refines (act_with (\<lambda>s. env_bound w (sv_trace s)) (\<lambda>ok. act_seq
          [call w BindAndStart, act_when (\<not> ok) (act_raise BindAndStartFailed),
           emit_domain_event w n l x])) (add_trace [BindAndStart])" for n l x
    by (rule refines_any, rule refines_seq_Cons [OF refines_milestone refines_quiet [OF quiet.seq], THEN refines_eq])
      (auto intro: quiet.guarded quiet.raise quiet_event)
  then have "refines (act_when b (act_with (\<lambda>s. env_bound w (sv_trace s)) (\<lambda>ok. act_seq
          [call w BindAndStart, act_when (\<not> ok) (act_raise BindAndStartFailed),
           emit_domain_event w n l x]))) (add_trace (if b then [BindAndStart] else []))" for b n l x
    by (rule refines_when [THEN refines_eq]) (simp add: fun_eq_iff)
  then show ?thesis
    unfolding bind_strategy_def
    by (intro refines_with [where g = "\<lambda>b. add_trace (if b then [BindAndStart] else [])"]) simp_all
qed

lemma refines_signal_ready:
  "refines (signal_ready w ep)
     (\<lambda>x. add_trace (if sv_deps x \<noteq> None then [Manager ''emit_bootstrap_succeeded'' (phase_dict WP_READY)] else []) x)"
  unfolding signal_ready_def
  by (rule refines_reading [where g = "\<lambda>y. add_trace (if sv_deps y \<noteq> None
      then [Manager ''emit_bootstrap_succeeded'' (phase_dict WP_READY)] else [])"])
    (use refines_call_when in \<open>auto simp: if_split phase_dict_def\<close>)

definition heartbeat_due :: "svc \<Rightarrow> bool" where
  "heartbeat_due x \<longleftrightarrow>
     \<not> sv_shutdown_in_progress x \<and> sv_deps x \<noteq> None \<and> sv_phase x \<in> {WP_READY, WP_RUNNING}"

lemma refines_srm_status:
  "refines (emit_srm_runtime_status w o1 o2 o3 o4 o5)
     (\<lambda>x. add_trace (if sv_deps x \<noteq> None then [Manager ''emit_heartbeat'' (phase_dict (sv_phase x))] else []) x)"
  unfolding emit_srm_runtime_status_def
  by (rule refines_reading [where g = "\<lambda>y. add_trace (if sv_deps y \<noteq> None
      then [Manager ''emit_heartbeat'' (phase_dict (sv_phase y))] else [])"])
    (use refines_call_when in \<open>auto simp: if_split phase_dict_def\<close>)

lemma refines_heartbeat:
  "refines (emit_periodic_heartbeat w)
     (\<lambda>x. add_trace (if heartbeat_due x then [Manager ''emit_heartbeat'' (phase_dict (sv_phase x))] else []) x)"
proof -
  have beat: "refines (act_bind (sampler_next k) (\<lambda>(n, sample). act_seq
      [emit_domain_event w ev (l sample) (x n sample), emit_srm_runtime_status w o1 o2 o3 o4 o5]))
      (\<lambda>x. add_trace (if sv_deps x \<noteq> None then [Manager ''emit_heartbeat'' (phase_dict (sv_phase x))] else []) x)" for k ev l x o1 o2 o3 o4 o5
  proof (rule refines_bind [OF refines_quiet [OF quiet_sampler], THEN refines_eq])
    show "refines (case v of (n, sample) \<Rightarrow> act_seq
      [emit_domain_event w ev (l sample) (x n sample), emit_srm_runtime_status w o1 o2 o3 o4 o5])
      (\<lambda>x. add_trace (if sv_deps x \<noteq> None then [Manager ''emit_heartbeat'' (phase_dict (sv_phase x))] else []) x)" for v
      unfolding case_prod_beta
      by (rule refines_seq_Cons [OF refines_quiet [OF quiet_event]
         refines_seq_Cons [OF refines_srm_status refines_seq_Nil]])
  qed simp
  show ?thesis
    unfolding emit_periodic_heartbeat_def
    by (rule refines_reading [where g = "\<lambda>y x. if sv_shutdown_in_progress y then x
          else if sv_deps y = None then x else if sv_phase y \<notin> {WP_READY, WP_RUNNING} then x
          else add_trace (if sv_deps x \<noteq> None then [Manager ''emit_heartbeat'' (phase_dict (sv_phase x))] else []) x", THEN refines_eq],
        unfold abs_fields,
        rule refines_if [OF refines_ret refines_if [OF refines_ret refines_if [OF refines_ret beat]]])
      (auto simp: heartbeat_due_def fun_eq_iff)
qed

definition prepare_parts :: "(svc \<Rightarrow> svc) list" where
  "prepare_parts =
     (let step = (\<lambda>st x. x\<lparr>sv_startup_steps := sv_startup_steps x @ [st]\<rparr>) in
     [step ''validate_launch_metadata'', add_trace [Validate],
      step ''bind_observability_context'', add_trace [BindLogger], \<lambda>x. x\<lparr>sv_logger := True\<rparr>,
      \<lambda>x. x, step ''resolve_artifact_and_entrypoint''])"

definition ready_parts :: "cfg \<Rightarrow> (svc \<Rightarrow> svc) list" where
  "ready_parts c =
     (let step = (\<lambda>st x. x\<lparr>sv_startup_steps := sv_startup_steps x @ [st]\<rparr>) in
     [step ''validate_sdk_contract'', step ''initialize_runtime_dependencies'',
      \<lambda>x. (add_trace [InitDeps] x)\<lparr>sv_deps := Some any_deps\<rparr>,
      step ''initialize_strategy_instance_coordinator'',
      \<lambda>x. (add_trace (if cfg_instance_manager c then [CreateAdapter] else []) x)
            \<lparr>sv_adapter := sv_adapter x \<or> cfg_instance_manager c\<rparr>,
      \<lambda>x. add_trace (if sv_adapter x then [BindAndStart] else []) x,
      step ''emit_worker_bootstrap_ready_signal'',
      \<lambda>x. add_trace (if sv_deps x \<noteq> None then [Manager ''emit_bootstrap_succeeded'' (phase_dict WP_READY)] else []) x,
      \<lambda>x. x, \<lambda>x. add_trace (if True then announce WP_READY else []) (x\<lparr>sv_phase := WP_READY\<rparr>), \<lambda>x. x,
      \<lambda>x. x\<lparr>sv_started := True, sv_shutdown_complete := False\<rparr>,
      step ''emit_initial_srm_heartbeat'',
      \<lambda>x. add_trace (if heartbeat_due x then [Manager ''emit_heartbeat'' (phase_dict (sv_phase x))] else []) x,
      step ''start_heartbeat_periodic_jobs'',
      add_trace (if cfg_periodic_jobs c then [PeriodicStart] else [])])"

lemma start_parts_fold:
  "fold (\<lambda>g y. g y) (ready_parts c) (add_trace [RunBootstrap] (fold (\<lambda>g y. g y) prepare_parts x)) =
     abstract_start c x"
  by (simp add: ready_parts_def prepare_parts_def Let_def abstract_start_def STARTUP_STEPS_def
      start_milestones_def add_trace_def heartbeat_due_def disj_commute)

lemma refines_start_body:
  "refines (act_bind (start_prepare c w) (start_ready c w)) (abstract_start c)"
proof -
  have "refines (start_prepare c w) (\<lambda>x. add_trace [RunBootstrap] (fold (\<lambda>g y. g y) prepare_parts x))"
    unfolding start_prepare_def prepare_parts_def Let_def
    by (rule refines_then [OF refines_seq refines_run_bootstrap],
        simp only: list_all2_Cons list_all2_Nil, intro conjI)
      ((rule refines_startup_step refines_validate refines_milestone refines_update refl
        refines_quiet [OF quiet_event], (simp add: abs_def; fail)?)+)
  moreover have "refines (start_ready c w ep) (\<lambda>x. fold (\<lambda>g y. g y) (ready_parts c) x)" for ep
    unfolding start_ready_def ready_parts_def Let_def
    by (rule refines_seq, simp only: list_all2_Cons list_all2_Nil, intro conjI)
      ((rule refines_startup_step refines_init_deps refines_coordinator refines_bind_strategy
        refines_signal_ready refines_quiet [OF quiet_report_success] refines_set_phase refines_heartbeat
        refines_quiet [OF quiet_event] refines_call_when refines_update refl,
        (simp add: abs_def; fail)?)+)
  ultimately show ?thesis
    by (rule refines_bind [THEN refines_eq]) (simp add: fun_eq_iff start_parts_fold)
qed

text \<open>The handler of \<open>start\<close> raises whatever the rollback does.\<close>

lemma start_failed_raises: "start_failed c w e s \<noteq> (Inr v, s')"
  by (simp add: start_failed_def act_run split: prod.split sum.split)

lemma refines_start:
  assumes run: "start c w s = (Inr u, s')"
  shows "if sv_started s then s' = s else abs s' = abstract_start c (abs s)"
proof (cases "sv_started s")
  case True
  then show ?thesis using run by (simp add: start_def act_run)
next
  case False
  then have "act_bind (start_prepare c w) (start_ready c w) s = (Inr u, s')"
    using run start_failed_raises [of c w _ _ u s']
    by (auto simp: start_def act_run simp del: act_run(3) split: prod.splits sum.splits)
  then show ?thesis using False refinesD [OF refines_start_body] by simp
qed

end
