(* ===== verification/Replay.thy ===== *)
theory Replay
  imports LifecycleOps
begin

text \<open>
  The data side of \<open>lifecycle_service.py\<close>: \<open>push_replay_context\<close> (a batch of replay events),
  \<open>_dispatch_paper_live_tick\<close> (one live tick) and the loop of the historical driver, with
  \<open>integration/replay_gateway.py\<close>, \<open>bootstrap/backtest_replay_tick_filter.py\<close>,
  \<open>integration/epoch_time.py\<close> and the tick construction of
  \<open>transport/grpc/historical_data_client.py\<close>. A tick handed to the strategy is the effect
  \<open>StrategyEvent\<close>; the adapter's boundary contains whatever the strategy raises, so delivering
  never raises, and what it answers is \<open>rc_on_event\<close>. \<open>datetime.fromisoformat\<close>, the parsing of
  integers and the float arithmetic of epoch seconds are arguments.
\<close>

record replay_cfg =
  rc_fromisoformat :: "string \<Rightarrow> pydatetime option"
  rc_parse_int :: "string \<Rightarrow> int option"
  rc_epoch_seconds :: "int \<Rightarrow> int \<Rightarrow> py_exc + pydatetime"
  rc_repr :: "pyval \<Rightarrow> string"
  rc_quiet :: bool
  rc_ingestor :: bool
  rc_trace :: bool
  rc_on_event :: "effect list \<Rightarrow> pydict \<Rightarrow> (string option \<times> string option) option"

section \<open>Time stamps\<close>

definition parse_datetime :: "replay_cfg \<Rightarrow> pyval \<Rightarrow> pydatetime option" where
  "parse_datetime g v =
     (case v of
        VTime t \<Rightarrow> Some (if dt_aware t then t else utc (dt_wall t))
      | VStr s \<Rightarrow>
          if py_strip s = [] then None
          else (case rc_fromisoformat g (py_replace ''Z'' ''+00:00'' (py_strip s)) of
                  None \<Rightarrow> None
                | Some t \<Rightarrow> Some (if dt_aware t then t else utc (dt_wall t)))
      | _ \<Rightarrow> None)"

definition py_int :: "replay_cfg \<Rightarrow> pyval \<Rightarrow> py_exc + int" where
  "py_int g v =
     (case v of
        VBool b \<Rightarrow> Inr (if b then 1 else 0)
      | VInt i \<Rightarrow> Inr i
      | VFloat x \<Rightarrow> float_to_int x
      | VStr s \<Rightarrow>
          (case rc_parse_int g s of
             Some i \<Rightarrow> Inr i
           | None \<Rightarrow> Inl (ValueExc ''ValueError'' ''invalid literal for int()'' None))
      | _ \<Rightarrow> Inl (TypeExc ''TypeError'' ''int() argument must be a string or a real number''))"

fun is_value_or_type_error :: "py_exc \<Rightarrow> bool" where
  "is_value_or_type_error (ValueExc ty msg d) = True"
| "is_value_or_type_error (TypeExc ty msg) = True"
| "is_value_or_type_error e = False"

definition coerce_timestamp :: "replay_cfg \<Rightarrow> pyval \<Rightarrow> py_exc + pydatetime option" where
  "coerce_timestamp g v =
     (case parse_datetime g v of
        Some t \<Rightarrow> Inr (Some t)
      | None \<Rightarrow>
          (case v of
             VDict d \<Rightarrow>
               if get_or_none d ''seconds'' = VNone then Inr None
               else
                 (case py_int g (get_or_none d ''seconds'') of
                    Inl e \<Rightarrow> if is_value_or_type_error e then Inr None else Inl e
                  | Inr s \<Rightarrow>
                      rbind (py_int g (if py_truthy (get_or_none d ''nanos'')
                                       then get_or_none d ''nanos'' else VInt 0))
                        (\<lambda>nanos. rbind (rc_epoch_seconds g s nanos) (\<lambda>t. Inr (Some t))))
           | _ \<Rightarrow> Inr None))"

fun first_timestamp :: "replay_cfg \<Rightarrow> pydict \<Rightarrow> string list \<Rightarrow> py_exc + pydatetime option" where
  "first_timestamp g tick [] = Inr None"
| "first_timestamp g tick (k # ks) =
     rbind (coerce_timestamp g (get_or_none tick k)) (\<lambda>t.
       case t of Some x \<Rightarrow> Inr (Some x) | None \<Rightarrow> first_timestamp g tick ks)"

definition extract_market_timestamp ::
  "replay_cfg \<Rightarrow> pydict \<Rightarrow> pydict \<Rightarrow> py_exc + pydatetime option" where
  "extract_market_timestamp g event tick =
     rbind (coerce_timestamp g (get_or_none event ''event_time'')) (\<lambda>t.
       case t of
         Some x \<Rightarrow> Inr (Some x)
       | None \<Rightarrow> first_timestamp g tick [''event_time'', ''timestamp'', ''ts'', ''time''])"

text \<open>\<open>utc_from_epoch_millis\<close>; outside the years 1 to 9999 it raises \<open>OverflowError\<close>.\<close>

definition utc_from_epoch_millis :: "int \<Rightarrow> pydatetime option" where
  "utc_from_epoch_millis ms =
     (if - 62135596800000 \<le> ms \<and> ms < 253402300800000 then Some (utc (1000 * ms)) else None)"

definition backtest_window_bounds :: "replay_cfg \<Rightarrow> launch_spec \<Rightarrow> (pydatetime \<times> pydatetime) option" where
  "backtest_window_bounds g sp =
     (if ls_mode sp \<noteq> BACKTEST then None
      else if or_empty (ls_ts_start sp) = [] \<or> or_empty (ls_ts_end sp) = [] then None
      else (case (parse_datetime g (VStr (or_empty (ls_ts_start sp))),
                  parse_datetime g (VStr (or_empty (ls_ts_end sp)))) of
              (Some lo, Some hi) \<Rightarrow> Some (lo, hi)
            | _ \<Rightarrow> None))"

section \<open>Ticks\<close>

definition skip_backtest_replay_tick_for_ingest :: "(pyval \<Rightarrow> string) \<Rightarrow> pydict \<Rightarrow> string \<Rightarrow> bool" where
  "skip_backtest_replay_tick_for_ingest r tick expected =
     (let kind = (if py_truthy (get_or_none tick ''type'') then get_or_none tick ''type''
                  else get_or_none tick ''event_type'');
          et = py_lower (py_strip (str_or_empty r kind))
      in if et \<noteq> ''market.bar'' then True
         else (let tf = py_strip (str_or_empty r (get_or_none tick ''timeframe''))
               in if tf = [] then False
                  else normalize_bar_timeframe_label tf \<noteq> normalize_bar_timeframe_label expected))"

definition replay_tick_payload :: "pydict \<Rightarrow> pydict" where
  "replay_tick_payload event =
     (let tick = (case get_or_none event ''payload'' of VDict p \<Rightarrow> p | _ \<Rightarrow> []);
          tick = dict_setdefault ''event_id'' (get_or_none event ''event_id'') tick;
          tick = dict_setdefault ''event_type'' (get_or_none event ''event_type'') tick;
          tick = dict_setdefault ''instrument_id'' (get_or_none event ''instrument_id'') tick;
          tick = (case get_or_none tick ''event_type'' of
                    VStr k \<Rightarrow> dict_setdefault ''type'' (VStr k) tick
                  | _ \<Rightarrow> tick);
          tick = dict_setdefault ''sequence'' (get_or_none event ''sequence'') tick
      in dict_setdefault ''event_time'' (get_or_none event ''event_time'') tick)"

section \<open>The replay gateway\<close>

definition update_gateway :: "(replay_gateway \<Rightarrow> replay_gateway) \<Rightarrow> svc \<Rightarrow> svc" where
  "update_gateway f s =
     s\<lparr>sv_deps := map_option (\<lambda>d. d\<lparr>dp_replay := map_option f (dp_replay d)\<rparr>) (sv_deps s)\<rparr>"

definition gateway_of :: "svc \<Rightarrow> replay_gateway option" where
  "gateway_of s = (case sv_deps s of None \<Rightarrow> None | Some d \<Rightarrow> dp_replay d)"

text \<open>The gateway's simulated clock is the clock of the dependencies when that is simulated.\<close>

definition set_replay_clock :: "pydatetime option \<Rightarrow> unit lc" where
  "set_replay_clock sim =
     act_with sv_deps (\<lambda>dps.
       case (dps, sim) of
         (Some d, Some t) \<Rightarrow>
           (case dp_clock d of
              SystemClock \<Rightarrow> act_ret ()
            | SimulatedClock current \<Rightarrow>
                act_bind (act_of (set_time current t)) (\<lambda>now.
                  act_modify (\<lambda>s. s\<lparr>sv_deps := Some (d\<lparr>dp_clock := SimulatedClock now\<rparr>)\<rparr>)))
       | _ \<Rightarrow> act_ret ())"

definition log_tick_count :: "replay_cfg \<Rightarrow> unit lc" where
  "log_tick_count g =
     act_with gateway_of (\<lambda>rg.
       case rg of
         None \<Rightarrow> act_ret ()
       | Some x \<Rightarrow> act_when (\<not> rc_quiet g)
           (if rg_tick_count x = 1 then say (PrintText ''[replay] data arrived (first tick)'')
            else act_when (rg_tick_count x mod 100 = 0)
              (say (PrintText (''[replay] data arrived: tick_count='' @ nat_str (rg_tick_count x))))))"

definition ingest_replay_tick ::
  "cfg \<Rightarrow> env \<Rightarrow> replay_cfg \<Rightarrow> pydict \<Rightarrow> pydatetime option \<Rightarrow> bool \<Rightarrow> unit lc" where
  "ingest_replay_tick c w g tick sim callback = act_seq
     [set_replay_clock sim,
      act_modify (update_gateway (\<lambda>x. x\<lparr>rg_tick_count := rg_tick_count x + 1\<rparr>)),
      log_tick_count g,
      act_with gateway_of (\<lambda>rg.
        act_when (case rg of None \<Rightarrow> False | Some x \<Rightarrow> \<not> rg_first_data_marked x)
          (act_seq [mark_first_data_received c w,
                    act_modify (update_gateway (\<lambda>x. x\<lparr>rg_first_data_marked := True\<rparr>))])),
      act_when (rc_ingestor g) (call w (ReplayIngest tick)),
      act_when callback (say (StrategyEvent tick))]"

section \<open>A pushed batch\<close>

text \<open>What becomes of one event: the tick and its time, or nothing.\<close>

definition in_window :: "(pydatetime \<times> pydatetime) option \<Rightarrow> pydatetime option \<Rightarrow> bool" where
  "in_window bounds t =
     (case (bounds, t) of
        (Some (lo, hi), Some x) \<Rightarrow> dt_instant lo \<le> dt_instant x \<and> dt_instant x \<le> dt_instant hi
      | _ \<Rightarrow> True)"

definition replay_bar_timeframe :: "cfg \<Rightarrow> string" where
  "replay_bar_timeframe c =
     (case cfg_settings c of
        None \<Rightarrow> ''1m''
      | Some st \<Rightarrow> if or_empty (st_replay_bar_timeframe st) = [] then ''1m''
                   else or_empty (st_replay_bar_timeframe st))"

definition select_event ::
  "cfg \<Rightarrow> replay_cfg \<Rightarrow> pydatetime option \<Rightarrow> pydict \<Rightarrow> py_exc + (pydict \<times> pydatetime option) option" where
  "select_event c g batch_simulated event =
     (let tick = replay_tick_payload event;
          backtest = (ls_mode (cfg_spec c) = BACKTEST) in
      rbind (extract_market_timestamp g event tick) (\<lambda>t.
        let event_ts = (case t of Some x \<Rightarrow> Some x | None \<Rightarrow> batch_simulated) in
        if backtest \<and> \<not> in_window (backtest_window_bounds g (cfg_spec c)) event_ts then Inr None
        else if backtest \<and> skip_backtest_replay_tick_for_ingest (rc_repr g) tick (replay_bar_timeframe c)
          then Inr None
        else Inr (Some (tick, event_ts))))"

fun push_events ::
  "cfg \<Rightarrow> env \<Rightarrow> replay_cfg \<Rightarrow> pydatetime option \<Rightarrow> pydict list \<Rightarrow> nat \<Rightarrow> pydatetime option \<Rightarrow>
   (nat \<times> pydatetime option) lc" where
  "push_events c w g batch [] consumed latest = act_ret (consumed, latest)"
| "push_events c w g batch (event # events) consumed latest =
     act_bind (act_of (select_event c g batch event)) (\<lambda>sel.
       case sel of
         None \<Rightarrow> push_events c w g batch events consumed latest
       | Some (tick, sim) \<Rightarrow>
           act_bind (act_with sv_adapter (ingest_replay_tick c w g tick sim)) (\<lambda>_.
             push_events c w g batch events (consumed + 1)
               (case sim of None \<Rightarrow> latest | Some t \<Rightarrow> Some t)))"

definition push_reply :: "cfg \<Rightarrow> env \<Rightarrow> string \<Rightarrow> string \<Rightarrow> nat \<Rightarrow> pydict lc" where
  "push_reply c w session cursor consumed =
     act_with (\<lambda>s. env_now w (sv_trace s)) (\<lambda>now. act_ret
       [(''runtime_id'', VStr (ls_runtime_id (cfg_spec c))), (''replay_session_id'', VStr session),
        (''replay_cursor'', VStr cursor), (''consumed_count'', VInt (int consumed)),
        (''observed_at'', VTime now)])"

definition payload_events :: "pydict \<Rightarrow> pydict list" where
  "payload_events payload =
     (case get_or_none payload ''events'' of
        VList vs \<Rightarrow> concat (map (\<lambda>v. case v of VDict d \<Rightarrow> [d] | _ \<Rightarrow> []) vs)
      | _ \<Rightarrow> [])"

definition ensure_deps :: "env \<Rightarrow> unit lc" where
  "ensure_deps w = act_with sv_deps (\<lambda>d. act_when (d = None) (init_deps w))"

definition push_batch ::
  "cfg \<Rightarrow> env \<Rightarrow> replay_cfg \<Rightarrow> pydict \<Rightarrow> string \<Rightarrow> string \<Rightarrow> pydict lc" where
  "push_batch c w g payload session cursor =
     (let batch = parse_datetime g (get_or_none payload ''simulated_time'');
          events = payload_events payload in
      act_then (act_when (rc_trace g) (say (PrintText ''Replay data (trace)'')))
        (act_bind (push_events c w g batch events 0 None) (\<lambda>(consumed, latest). act_then
           (act_seq
              [act_when (latest \<noteq> None) (act_modify (\<lambda>s. s\<lparr>sv_last_data_event_timestamp := latest\<rparr>)),
               act_when (ls_mode (cfg_spec c) = BACKTEST \<and>
                         py_truthy (get_or_none payload ''end_of_stream''))
                 (act_modify (\<lambda>s. s\<lparr>sv_backtest_replay_complete := True\<rparr>))])
           (push_reply c w session cursor consumed))))"

definition push_replay_context :: "cfg \<Rightarrow> env \<Rightarrow> replay_cfg \<Rightarrow> pydict \<Rightarrow> pydict lc" where
  "push_replay_context c w g payload =
     act_then (ensure_deps w)
       (act_with gateway_of (\<lambda>rg.
          if rg = None then push_reply c w [] [] 0
          else
            (let meta = (case get_or_none payload ''replay'' of VDict d \<Rightarrow> d | _ \<Rightarrow> []);
                 session = str_or_empty (rc_repr g) (get_or_none meta ''replay_session_id'');
                 cursor = str_or_empty (rc_repr g) (get_or_none meta ''replay_cursor'')
             in act_then (act_modify (\<lambda>s. s\<lparr>sv_last_replay_cursor := cursor\<rparr>))
                  (act_with sv_backtest_replay_complete (\<lambda>complete.
                     if ls_mode (cfg_spec c) = BACKTEST \<and> complete then push_reply c w session cursor 0
                     else push_batch c w g payload session cursor)))))"

section \<open>Live ticks\<close>

definition tick_time :: "replay_cfg \<Rightarrow> pydict \<Rightarrow> pydatetime option" where
  "tick_time g tick =
     (case parse_datetime g (get_or_none tick ''event_time'') of
        Some t \<Rightarrow> Some t
      | None \<Rightarrow>
          if get_or_none tick ''ts_ms'' = VNone then None
          else (case py_int g (get_or_none tick ''ts_ms'') of
                  Inr ms \<Rightarrow> utc_from_epoch_millis ms
                | Inl e \<Rightarrow> None))"

definition tick_kind :: "replay_cfg \<Rightarrow> pydict \<Rightarrow> pyval" where
  "tick_kind g tick =
     VStr (str_or_empty (rc_repr g)
       (if py_truthy (get_or_none tick ''event_type'') then get_or_none tick ''event_type''
        else get_or_none tick ''type''))"

definition tick_outcome ::
  "cfg \<Rightarrow> env \<Rightarrow> replay_cfg \<Rightarrow> pydict \<Rightarrow> (string option \<times> string option) option \<Rightarrow> unit lc" where
  "tick_outcome c w g tick answer =
     (let text = (\<lambda>k. VStr (str_or_empty (rc_repr g) (get_or_none tick k))) in
      case answer of
        None \<Rightarrow>
          act_when (ls_mode (cfg_spec c) \<in> {PAPER, LIVE})
            (act_bind (sampler_next ''signal_generated'') (\<lambda>(n, sample).
               emit_domain_event w ''strategy_worker.signal_generated'' (if sample then ''INFO'' else ''DEBUG'')
                 [(''symbol'', text ''symbol''), (''instrument_id'', text ''instrument_id''),
                  (''event_type'', tick_kind g tick), (''signal_count'', VInt (int n)),
                  (''sampled'', VBool sample)]))
      | Some (error_code, reason) \<Rightarrow>
          market_data_stream_log w ''WARNING'' ''market_data_stream.strategy_execution_failed''
            [(''symbol'', text ''symbol''), (''event_type'', tick_kind g tick),
             (''error_code'', opt_str error_code), (''reason_code'', opt_str reason)])"

definition dispatch_paper_live_tick :: "cfg \<Rightarrow> env \<Rightarrow> replay_cfg \<Rightarrow> pydict \<Rightarrow> unit lc" where
  "dispatch_paper_live_tick c w g tick =
     act_with id (\<lambda>s.
       if sv_shutdown_in_progress s then act_ret ()
       else if sv_phase s \<notin> {WP_READY, WP_RUNNING} then act_ret ()
       else if \<not> sv_adapter s then act_ret ()
       else act_seq
         [act_when (\<not> sv_first_data_received s) (mark_first_data_received c w),
          act_when (tick_time g tick \<noteq> None)
            (act_modify (\<lambda>t. t\<lparr>sv_last_data_event_timestamp := tick_time g tick\<rparr>)),
          say (StrategyEvent tick),
          act_with (\<lambda>t. rc_on_event g (sv_trace t) tick) (tick_outcome c w g tick)])"

section \<open>What a batch does\<close>

fun delivery :: "effect \<Rightarrow> pydict option" where
  "delivery (StrategyEvent tick) = Some tick"
| "delivery e = None"

definition deliveries :: "svc \<Rightarrow> pydict list" where
  "deliveries s = List.map_filter delivery (sv_trace s)"

text \<open>Everything but the hand-over to the strategy leaves this part of the state alone.\<close>

definition undelivered :: "svc \<Rightarrow> svc \<Rightarrow> bool" where
  "undelivered s t \<longleftrightarrow>
     deliveries t = deliveries s \<and> sv_adapter t = sv_adapter s \<and> sv_phase t = sv_phase s \<and>
     sv_backtest_replay_complete t = sv_backtest_replay_complete s \<and>
     sv_shutdown_in_progress t = sv_shutdown_in_progress s \<and>
     (gateway_of t = None) = (gateway_of s = None)"

interpretation undelivered: step_order undelivered
  by unfold_locales (auto simp: undelivered_def)

lemma deliveries_append [simp]:
  "deliveries (s\<lparr>sv_trace := sv_trace s @ [e]\<rparr>) =
     deliveries s @ (case delivery e of None \<Rightarrow> [] | Some t \<Rightarrow> [t])"
  by (simp add: deliveries_def List.map_filter_def split: option.split)

lemma gateway_of_fields [simp]:
  "gateway_of (s\<lparr>sv_trace := tr\<rparr>) = gateway_of s"
  "gateway_of (s\<lparr>sv_first_data_received := b\<rparr>) = gateway_of s"
  "gateway_of (s\<lparr>sv_last_data_event_timestamp := x\<rparr>) = gateway_of s"
  "gateway_of (s\<lparr>sv_last_replay_cursor := y\<rparr>) = gateway_of s"
  "gateway_of (s\<lparr>sv_backtest_replay_complete := b\<rparr>) = gateway_of s"
  "gateway_of (s\<lparr>sv_sampler := f\<rparr>) = gateway_of s"
  by (simp_all add: gateway_of_def)

lemma gateway_update_None [simp]: "gateway_of (update_gateway f s) = map_option f (gateway_of s)"
  by (simp add: gateway_of_def update_gateway_def split: option.split)

lemma undelivered_call: "delivery e = None \<Longrightarrow> moves undelivered (call w e)"
  by (auto simp: moves_def undelivered_def call_def Let_def split: option.split)

lemma undelivered_say: "delivery e = None \<Longrightarrow> moves undelivered (say e)"
  by (simp add: moves_def undelivered_def say_def act_run)

lemma undelivered_gateway: "moves undelivered (act_modify (update_gateway f))"
  by (simp add: moves_def undelivered_def act_run) (simp add: update_gateway_def deliveries_def)

lemma undelivered_mark: "moves undelivered (mark_first_data_received c w)"
  unfolding mark_first_data_received_def journal_def act_seq.simps
  by (intro undelivered.seq2 undelivered.ret undelivered.guarded undelivered_call undelivered.modify)
    (simp_all add: undelivered_def deliveries_def)

lemma undelivered_clock: "moves undelivered (set_replay_clock sim)"
  unfolding moves_def
proof
  fix s
  show "undelivered s (snd (set_replay_clock sim s))"
    by (auto simp: set_replay_clock_def act_run undelivered_def deliveries_def gateway_of_def
        split: option.split clock.split sum.split)
qed

lemma undelivered_log: "moves undelivered (log_tick_count g)"
  unfolding log_tick_count_def
  by (intro undelivered.reading undelivered.option undelivered.ret undelivered.guarded undelivered.cond
      undelivered_say) simp_all

text \<open>One tick: all of \<open>ingest_replay_tick\<close> but its last statement is without delivery.\<close>

lemma ingest_delivers:
  assumes "ingest_replay_tick c w g tick sim callback s = (Inr u, s')"
  shows "deliveries s' = deliveries s @ (if callback then [tick] else []) \<and>
    undelivered (s\<lparr>sv_trace := []\<rparr>) (s'\<lparr>sv_trace := []\<rparr>)"
proof -
  obtain before where before_def: "before = act_then (set_replay_clock sim) (act_then
      (act_modify (update_gateway (\<lambda>x. x\<lparr>rg_tick_count := rg_tick_count x + 1\<rparr>)))
      (act_then (log_tick_count g) (act_then (act_with gateway_of (\<lambda>rg.
        act_when (case rg of None \<Rightarrow> False | Some x \<Rightarrow> \<not> rg_first_data_marked x)
          (act_seq [mark_first_data_received c w,
                    act_modify (update_gateway (\<lambda>x. x\<lparr>rg_first_data_marked := True\<rparr>))])))
        (act_when (rc_ingestor g) (call w (ReplayIngest tick))))))" by simp
  have "moves undelivered before"
    unfolding before_def act_seq.simps
    by (intro undelivered.seq2 undelivered.ret undelivered.reading undelivered.guarded undelivered_clock
        undelivered_gateway undelivered_log undelivered_mark undelivered_call) simp
  moreover have "ingest_replay_tick c w g tick sim callback s =
      act_then before (act_when callback (say (StrategyEvent tick))) s"
    by (simp add: ingest_replay_tick_def before_def act_run act_then_def split: sum.split prod.split)
  ultimately obtain t where "undelivered s t" and
    "s' = (if callback then t\<lparr>sv_trace := sv_trace t @ [StrategyEvent tick]\<rparr> else t)"
    using assms movesD [of undelivered before s]
    by (auto simp: act_run say_def split: sum.splits prod.splits if_splits)
  then show ?thesis by (auto simp: undelivered_def) (simp_all add: deliveries_def)
qed

text \<open>The events of a batch that reach the strategy, up to the first that cannot be read.\<close>

fun selected ::
  "cfg \<Rightarrow> replay_cfg \<Rightarrow> pydatetime option \<Rightarrow> pydict list \<Rightarrow> (pydict \<times> pydatetime option) list" where
  "selected c g batch [] = []"
| "selected c g batch (e # es) =
     (case select_event c g batch e of
        Inl x \<Rightarrow> []
      | Inr None \<Rightarrow> selected c g batch es
      | Inr (Some p) \<Rightarrow> p # selected c g batch es)"

fun latest_time :: "pydatetime option \<Rightarrow> (pydict \<times> pydatetime option) list \<Rightarrow> pydatetime option" where
  "latest_time t [] = t"
| "latest_time t (p # ps) = latest_time (case snd p of None \<Rightarrow> t | Some x \<Rightarrow> Some x) ps"

lemma push_events_run:
  assumes "push_events c w g batch es n t s = (Inr (n', t'), s')"
  shows "n' = n + length (selected c g batch es) \<and> t' = latest_time t (selected c g batch es) \<and>
    deliveries s' = deliveries s @ (if sv_adapter s then map fst (selected c g batch es) else []) \<and>
    undelivered (s\<lparr>sv_trace := []\<rparr>) (s'\<lparr>sv_trace := []\<rparr>)"
  using assms
proof (induction es arbitrary: n t s)
  case Nil
  then show ?case by (simp add: act_run undelivered.refl)
next
  case (Cons e es)
  show ?case
  proof (cases "select_event c g batch e")
    case (Inl x)
    then show ?thesis using Cons.prems by (simp add: act_run)
  next
    case (Inr sel)
    show ?thesis
    proof (cases sel)
      case None
      then show ?thesis using Cons.IH [of n t s] Cons.prems Inr by (simp add: act_run)
    next
      case (Some p)
      obtain tick sim where p: "p = (tick, sim)" by (cases p)
      obtain u s1 where step: "ingest_replay_tick c w g tick sim (sv_adapter s) s = (Inr u, s1)"
        and rest: "push_events c w g batch es (n + 1)
          (case sim of None \<Rightarrow> t | Some x \<Rightarrow> Some x) s1 = (Inr (n', t'), s')"
        using Cons.prems Inr Some p by (auto simp: act_run split: sum.splits prod.splits)
      note one = ingest_delivers [OF step]
      have "sv_adapter s1 = sv_adapter s" using one by (simp add: undelivered_def)
      then show ?thesis
        using Cons.IH [OF rest] one Inr Some p
        by (auto intro: undelivered.trans)
    qed
  qed
qed

lemma select_event_backtest:
  assumes "select_event c g batch e = Inr (Some (tick, sim))" and "ls_mode (cfg_spec c) = BACKTEST"
  shows "in_window (backtest_window_bounds g (cfg_spec c)) sim \<and>
    \<not> skip_backtest_replay_tick_for_ingest (rc_repr g) tick (replay_bar_timeframe c)"
  using assms by (auto simp: select_event_def Let_def result_simps split: if_splits option.splits)

lemma selected_backtest:
  assumes "ls_mode (cfg_spec c) = BACKTEST" and "(tick, sim) \<in> set (selected c g batch es)"
  shows "in_window (backtest_window_bounds g (cfg_spec c)) sim \<and>
    \<not> skip_backtest_replay_tick_for_ingest (rc_repr g) tick (replay_bar_timeframe c)"
  using assms(2)
proof (induction es)
  case Nil
  then show ?case by simp
next
  case (Cons e es)
  then show ?case
    using select_event_backtest [OF _ assms(1), of g batch e tick sim]
    by (auto split: sum.splits option.splits)
qed

lemma push_reply_run:
  "push_reply c w x y n s = (Inr r, s') \<Longrightarrow> s' = s \<and> dict_get r ''consumed_count'' = Some (VInt (int n))"
  by (auto simp: push_reply_def act_run)

lemma push_with_gateway:
  assumes "gateway_of s \<noteq> None"
  shows "push_replay_context c w g payload s =
    (let meta = (case get_or_none payload ''replay'' of VDict d \<Rightarrow> d | _ \<Rightarrow> []);
         session = str_or_empty (rc_repr g) (get_or_none meta ''replay_session_id'');
         cursor = str_or_empty (rc_repr g) (get_or_none meta ''replay_cursor'')
     in (if ls_mode (cfg_spec c) = BACKTEST \<and> sv_backtest_replay_complete s
         then push_reply c w session cursor 0 else push_batch c w g payload session cursor)
          (s\<lparr>sv_last_replay_cursor := cursor\<rparr>))"
proof -
  obtain d rg where "sv_deps s = Some d" and "gateway_of s = Some rg"
    using assms by (cases "sv_deps s") (auto simp: gateway_of_def)
  then show ?thesis
    by (simp add: push_replay_context_def ensure_deps_def act_run Let_def del: not_None_eq)
qed

lemma push_batch_run:
  assumes "push_batch c w g payload session cursor s = (Inr reply, s')"
    and "sel = selected c g (parse_datetime g (get_or_none payload ''simulated_time'')) (payload_events payload)"
  shows "dict_get reply ''consumed_count'' = Some (VInt (int (length sel))) \<and>
    deliveries s' = deliveries s @ (if sv_adapter s then map fst sel else []) \<and>
    sv_backtest_replay_complete s' = (sv_backtest_replay_complete s \<or>
      ls_mode (cfg_spec c) = BACKTEST \<and> py_truthy (get_or_none payload ''end_of_stream''))"
proof -
  let ?batch = "parse_datetime g (get_or_none payload ''simulated_time'')"
  let ?s = "snd (act_when (rc_trace g) (say (PrintText ''Replay data (trace)'')) s)"
  have trace: "undelivered s ?s"
    by (rule movesD) (intro undelivered.guarded undelivered_say, simp)
  obtain n t s1 where events: "push_events c w g ?batch (payload_events payload) 0 None ?s = (Inr (n, t), s1)"
    using assms(1) by (auto simp: push_batch_def Let_def act_run say_def split: sum.splits prod.splits if_splits)
  have tail: "s' = (let a = (if t \<noteq> None then s1\<lparr>sv_last_data_event_timestamp := t\<rparr> else s1) in
        if ls_mode (cfg_spec c) = BACKTEST \<and> py_truthy (get_or_none payload ''end_of_stream'')
        then a\<lparr>sv_backtest_replay_complete := True\<rparr> else a) \<and>
      dict_get reply ''consumed_count'' = Some (VInt (int n))"
    using assms(1) events
    by (auto simp: push_batch_def Let_def act_run say_def push_reply_def split: sum.splits prod.splits if_splits)
  show ?thesis
    using push_events_run [OF events] tail trace assms(2)
    by (auto simp: undelivered_def Let_def deliveries_def)
qed

text \<open>
  C28: a batch that is pushed while the replay runs hands the strategy exactly the selected
  events, in the order of the batch, and counts them; in backtest each lies in the launch's
  window and is a bar of the configured time frame, and the replay is complete afterwards
  exactly when the batch ends the stream. Without a strategy the same events are counted as
  consumed but reach nobody.
\<close>

theorem pushed_batch_delivers_selected:
  assumes "push_replay_context c w g payload s = (Inr reply, s')"
    and "gateway_of s \<noteq> None" and "\<not> (ls_mode (cfg_spec c) = BACKTEST \<and> sv_backtest_replay_complete s)"
    and "sel = selected c g (parse_datetime g (get_or_none payload ''simulated_time'')) (payload_events payload)"
  shows "dict_get reply ''consumed_count'' = Some (VInt (int (length sel))) \<and>
    deliveries s' = deliveries s @ (if sv_adapter s then map fst sel else []) \<and>
    sv_backtest_replay_complete s' = (sv_backtest_replay_complete s \<or>
      ls_mode (cfg_spec c) = BACKTEST \<and> py_truthy (get_or_none payload ''end_of_stream'')) \<and>
    (ls_mode (cfg_spec c) = BACKTEST \<longrightarrow>
      (\<forall>(tick, sim)\<in>set sel. in_window (backtest_window_bounds g (cfg_spec c)) sim \<and>
         \<not> skip_backtest_replay_tick_for_ingest (rc_repr g) tick (replay_bar_timeframe c)))"
proof -
  obtain session cursor where
    "push_batch c w g payload session cursor (s\<lparr>sv_last_replay_cursor := cursor\<rparr>) = (Inr reply, s')"
    using assms(1,3) push_with_gateway [OF assms(2)] by (auto simp: Let_def split: if_splits)
  from push_batch_run [OF this assms(4)] selected_backtest [of c _ _ g] show ?thesis
    using assms(4) by (auto simp: deliveries_def)
qed

definition sample_replay_cfg :: replay_cfg where
  "sample_replay_cfg =
     \<lparr>rc_fromisoformat = (\<lambda>x. None), rc_parse_int = (\<lambda>x. None),
      rc_epoch_seconds = (\<lambda>s n. Inr (utc (1000000 * s))), rc_repr = (\<lambda>v. []), rc_quiet = True,
      rc_ingestor = True, rc_trace = False, rc_on_event = (\<lambda>tr t. None)\<rparr>"

definition sample_backtest :: cfg where
  "sample_backtest = sample_cfg\<lparr>cfg_spec := sample_spec\<lparr>ls_mode := BACKTEST\<rparr>\<rparr>"

definition replaying :: svc where
  "replaying = initial_svc\<lparr>sv_adapter := True, sv_deps := Some \<lparr>dp_clock = SimulatedClock None,
     dp_oms = True, dp_replay = Some \<lparr>rg_first_data_marked = False, rg_tick_count = 0\<rparr>\<rparr>\<rparr>"

definition replay_env :: env where
  "replay_env =
     \<lparr>env_raises = (\<lambda>tr e. None), env_now = (\<lambda>tr. utc 0), env_validated = (\<lambda>tr. sample_spec),
      env_bootstrap = (\<lambda>tr. BootBroken),
      env_deps = (\<lambda>tr. \<lparr>dp_clock = SystemClock, dp_oms = False, dp_replay = None\<rparr>),
      env_bound = (\<lambda>tr. True), env_http = (\<lambda>tr. []), env_alive = (\<lambda>tr n. True),
      env_clock_now = (\<lambda>tr. None), env_repr = (\<lambda>v. [])\<rparr>"

definition sample_batch :: pydict where
  "sample_batch =
     [(''events'', VList [VDict [(''event_type'', VStr ''market.bar'')],
                          VDict [(''event_type'', VStr ''market.tick'')]])]"

theorem pushed_batch_delivers_selected_witness:
  "\<exists>reply s'. push_replay_context sample_backtest replay_env sample_replay_cfg sample_batch replaying =
       (Inr reply, s') \<and>
     dict_get reply ''consumed_count'' = Some (VInt 1) \<and> length (deliveries s') = 1"
proof -
  have returns: "isl (fst (push_replay_context sample_backtest replay_env sample_replay_cfg sample_batch
      replaying)) = False"
    by code_simp
  have one: "length (selected sample_backtest sample_replay_cfg
      (parse_datetime sample_replay_cfg (get_or_none sample_batch ''simulated_time''))
      (payload_events sample_batch)) = 1"
    by code_simp
  have start: "gateway_of replaying \<noteq> None" "sv_adapter replaying" "deliveries replaying = []"
    "\<not> (ls_mode (cfg_spec sample_backtest) = BACKTEST \<and> sv_backtest_replay_complete replaying)"
    by (simp_all add: replaying_def gateway_of_def initial_svc_def deliveries_def)
  obtain reply s' where run: "push_replay_context sample_backtest replay_env sample_replay_cfg
      sample_batch replaying = (Inr reply, s')"
    using returns
    by (cases "push_replay_context sample_backtest replay_env sample_replay_cfg sample_batch replaying";
        cases "fst (push_replay_context sample_backtest replay_env sample_replay_cfg sample_batch replaying)")
      auto
  from pushed_batch_delivers_selected [OF run start(1,4) refl] show ?thesis
    using run start one by simp
qed

text \<open>
  Once a backtest's stream has ended, every further push is answered with a count of zero,
  delivers nothing and leaves the replay complete, whatever it carries.
\<close>

lemma completed_replay_ignores_pushes:
  assumes "gateway_of s \<noteq> None" and "ls_mode (cfg_spec c) = BACKTEST" and "sv_backtest_replay_complete s"
  shows "\<exists>reply s'. push_replay_context c w g payload s = (Inr reply, s') \<and>
    dict_get reply ''consumed_count'' = Some (VInt 0) \<and> deliveries s' = deliveries s \<and>
    sv_backtest_replay_complete s' \<and> gateway_of s' = gateway_of s"
proof -
  have "deliveries (s\<lparr>sv_last_replay_cursor := x\<rparr>) = deliveries s" for x
    by (simp add: deliveries_def)
  then show ?thesis
    using assms(2,3) push_with_gateway [OF assms(1), of c w g payload]
    by (simp add: Let_def push_reply_def act_run)
qed

theorem completed_replay_ignores_pushes_witness:
  "\<exists>reply s'. push_replay_context sample_backtest replay_env sample_replay_cfg sample_batch
       (replaying\<lparr>sv_backtest_replay_complete := True\<rparr>) = (Inr reply, s') \<and>
     dict_get reply ''consumed_count'' = Some (VInt 0)"
proof -
  let ?s = "replaying\<lparr>sv_backtest_replay_complete := True\<rparr>"
  have "gateway_of ?s \<noteq> None" "ls_mode (cfg_spec sample_backtest) = BACKTEST"
    "sv_backtest_replay_complete ?s"
    by (simp_all add: replaying_def gateway_of_def initial_svc_def sample_backtest_def)
  from completed_replay_ignores_pushes [OF this, of replay_env sample_replay_cfg sample_batch]
  show ?thesis by blast
qed

lemma stream_log_returns: "\<exists>s'. market_data_stream_log w l ev x s = (Inr (), s')"
  by (auto simp: market_data_stream_log_def act_run say_def split: sum.split prod.split)

lemma tick_outcome_returns: "\<exists>s'. tick_outcome c w g tick r s = (Inr (), s')"
  by (cases r) (auto simp: tick_outcome_def Let_def act_run emit_domain_event_def sampler_next_def
      stream_log_returns split: prod.split sum.split)

lemma undelivered_event: "moves undelivered (emit_domain_event w ev l x)"
  unfolding emit_domain_event_def
  by (intro undelivered.reading undelivered.guarded undelivered.ignore undelivered_call) simp

lemma undelivered_stream_log: "moves undelivered (market_data_stream_log w l ev x)"
  unfolding market_data_stream_log_def
  by (intro undelivered.reading undelivered.cond undelivered.caught undelivered.guarded
      undelivered_call undelivered_say) simp_all

lemma undelivered_sampler: "moves undelivered (sampler_next k)"
  by (simp add: moves_def undelivered_def sampler_next_def Let_def deliveries_def)

lemma undelivered_outcome: "moves undelivered (tick_outcome c w g tick r)"
  unfolding tick_outcome_def Let_def
  by (auto intro!: undelivered.option undelivered.guarded undelivered.bind undelivered_sampler
      undelivered_event undelivered_stream_log split: option.split)

lemma outcome_first_data:
  "sv_first_data_received (snd (tick_outcome c w g tick r s)) = sv_first_data_received s"
  by (cases r) (auto simp: tick_outcome_def Let_def act_run emit_domain_event_def sampler_next_def
      market_data_stream_log_def say_def call_def split: prod.split sum.split option.split)

definition live_gate :: "svc \<Rightarrow> bool" where
  "live_gate s \<longleftrightarrow> \<not> sv_shutdown_in_progress s \<and> sv_phase s \<in> {WP_READY, WP_RUNNING} \<and> sv_adapter s"

definition first_data_fails :: "cfg \<Rightarrow> env \<Rightarrow> svc \<Rightarrow> bool" where
  "first_data_fails c w s \<longleftrightarrow> cfg_journal c \<and> \<not> sv_first_data_received s \<and>
     env_raises w (sv_trace s) (Journal ''record_first_data'' []) \<noteq> None"

lemma tick_closed: "\<not> live_gate s \<Longrightarrow> dispatch_paper_live_tick c w g tick s = (Inr (), s)"
  by (auto simp: dispatch_paper_live_tick_def act_run live_gate_def)

lemma tick_marks:
  "if first_data_fails c w s
   then \<exists>e. fst (act_when (\<not> sv_first_data_received s) (mark_first_data_received c w) s) = Inl e
   else fst (act_when (\<not> sv_first_data_received s) (mark_first_data_received c w) s) = Inr () \<and>
     sv_first_data_received (snd (act_when (\<not> sv_first_data_received s) (mark_first_data_received c w) s))"
  by (auto simp: mark_first_data_received_def journal_def act_run call_def Let_def first_data_fails_def
      split: option.split)

text \<open>What follows the marking: the time is noted, the tick delivered, the outcome logged.\<close>

lemma tick_open:
  assumes "live_gate s"
  shows "dispatch_paper_live_tick c w g tick s =
    act_then (act_when (\<not> sv_first_data_received s) (mark_first_data_received c w))
      (act_seq [act_when (tick_time g tick \<noteq> None)
            (act_modify (\<lambda>t. t\<lparr>sv_last_data_event_timestamp := tick_time g tick\<rparr>)),
          say (StrategyEvent tick),
          act_with (\<lambda>t. rc_on_event g (sv_trace t) tick) (tick_outcome c w g tick)]) s"
  using assms by (simp add: dispatch_paper_live_tick_def live_gate_def act_run(6))

lemma tick_rest:
  "\<exists>s'. act_seq [act_when (tick_time g tick \<noteq> None)
        (act_modify (\<lambda>t. t\<lparr>sv_last_data_event_timestamp := tick_time g tick\<rparr>)),
      say (StrategyEvent tick),
      act_with (\<lambda>t. rc_on_event g (sv_trace t) tick) (tick_outcome c w g tick)] t = (Inr (), s') \<and>
    deliveries s' = deliveries t @ [tick] \<and> sv_first_data_received s' = sv_first_data_received t"
proof -
  obtain t1 where t1: "t1 = (if tick_time g tick \<noteq> None
      then t\<lparr>sv_last_data_event_timestamp := tick_time g tick\<rparr> else t)" by simp
  obtain t2 where t2: "t2 = t1\<lparr>sv_trace := sv_trace t1 @ [StrategyEvent tick]\<rparr>" by simp
  obtain s' where out: "tick_outcome c w g tick (rc_on_event g (sv_trace t2) tick) t2 = (Inr (), s')"
    using tick_outcome_returns by blast
  have "deliveries t1 = deliveries t" by (simp add: t1 deliveries_def)
  then have "deliveries t2 = deliveries t @ [tick]"
    using deliveries_append [of t1 "StrategyEvent tick"] by (simp add: t2)
  then have "deliveries s' = deliveries t @ [tick]"
    using movesD [OF undelivered_outcome, of t2 c w g tick "rc_on_event g (sv_trace t2) tick"] out
    by (simp add: undelivered_def)
  moreover have "sv_first_data_received s' = sv_first_data_received t"
    using outcome_first_data [of c w g tick "rc_on_event g (sv_trace t2) tick" t2] out
    by (simp add: t1 t2)
  ultimately show ?thesis
    using out by (auto simp: act_run say_def t1 t2 simp del: not_None_eq)
qed

text \<open>
  C30: a live tick is handed to the strategy at most once, and only while the worker is READY or
  RUNNING, no shutdown has begun and a strategy is bound; otherwise nothing at all changes. A
  tick the strategy fails on has been delivered all the same, and unless the journal fails on
  the first data the dispatch never raises and leaves the first data marked.
\<close>

theorem live_tick_gated:
  "if live_gate s then
     if first_data_fails c w s
     then \<exists>e s'. dispatch_paper_live_tick c w g tick s = (Inl e, s') \<and> deliveries s' = deliveries s
     else \<exists>s'. dispatch_paper_live_tick c w g tick s = (Inr (), s') \<and>
            deliveries s' = deliveries s @ [tick] \<and> sv_first_data_received s'
   else dispatch_paper_live_tick c w g tick s = (Inr (), s)"
proof (cases "live_gate s")
  case True
  let ?mark = "act_when (\<not> sv_first_data_received s) (mark_first_data_received c w)"
  obtain r t where rt: "?mark s = (r, t)" by (cases "?mark s")
  have same: "deliveries t = deliveries s"
    using movesD [of undelivered ?mark s] undelivered_mark rt
    by (simp add: undelivered.guarded) (simp add: undelivered_def)
  then show ?thesis
    using True tick_marks [of c w s] tick_open [OF True, of c w g tick] rt tick_rest [of g tick c w t]
    by (cases r) (auto simp: act_run(4) split: if_splits)
qed (simp add: tick_closed)

end
