(* ===== verification/HistoricalDriver.thy ===== *)
theory HistoricalDriver
  imports Replay
begin

text \<open>
  \<open>_historical_backtest_driver_worker\<close> of \<open>lifecycle_service.py\<close> with the tick construction of
  \<open>transport/grpc/historical_data_client.py\<close>: the thread that reads the bars of a backtest page
  by page and replays them. What the server answers, and at each point where the thread looks
  whether it sees the stop event (\<open>hc_stop\<close>) or, without it, a shutdown in progress or at the loop
  heads a phase other than READY and RUNNING (\<open>hc_leaving\<close>), is decided by the environment from
  the trace so far and the point. The loop retries for as long as the server fails, so it takes
  fuel; \<open>OutOfFuel\<close> is a run that has not ended yet.
\<close>

record hist_bar =
  hb_time_utc :: string
  hb_instrument_id :: int
  hb_open :: pyfloat
  hb_high :: pyfloat
  hb_low :: pyfloat
  hb_close :: pyfloat
  hb_volume :: pyfloat

datatype page = QueryFailed | Page "hist_bar list" bool string

datatype sight = OuterHead | PageHead | BeforeBar | AfterWait

record hist_cfg =
  hc_query :: "effect list \<Rightarrow> string option \<Rightarrow> int \<Rightarrow> page"
  hc_stop :: "effect list \<Rightarrow> sight \<Rightarrow> bool"
  hc_leaving :: "effect list \<Rightarrow> sight \<Rightarrow> bool"
  hc_epoch_millis :: "pydatetime \<Rightarrow> int"
  hc_warmup :: int
  hc_interval :: int
  hc_backtest_symbol :: string

section \<open>Ticks from bars\<close>

definition historical_time_utc_to_epoch_ms :: "hist_cfg \<Rightarrow> replay_cfg \<Rightarrow> string \<Rightarrow> int option" where
  "historical_time_utc_to_epoch_ms h g time_utc =
     (let raw = py_strip time_utc in
      if raw = [] then None
      else
        (let t = py_replace ''Z'' ''+00:00'' raw;
             t = (if ends_with ''+00'' t \<and> \<not> ends_with ''+00:00'' t
                  then take (length t - 3) t @ ''+00:00'' else t)
         in case rc_fromisoformat g t of
              None \<Rightarrow> None
            | Some dt \<Rightarrow> Some (hc_epoch_millis h (as_utc dt))))"

definition build_historical_bar_replay_tick ::
  "hist_cfg \<Rightarrow> replay_cfg \<Rightarrow> hist_bar \<Rightarrow> string \<Rightarrow> string \<Rightarrow> nat \<Rightarrow> py_exc + pydict" where
  "build_historical_bar_replay_tick h g bar symbol timeframe sequence =
     (case historical_time_utc_to_epoch_ms h g (hb_time_utc bar) of
        None \<Rightarrow> Inl (ValueExc ''ValueError'' ''historical bar missing parseable time_utc'' None)
      | Some ts_ms \<Rightarrow>
          (let iid = hb_instrument_id bar; s = py_strip symbol in
           Inr [(''type'', VStr ''market.bar''), (''event_type'', VStr ''market.bar''),
                (''event_id'', VStr (''hds:'' @ int_str iid @ '':'' @ hb_time_utc bar @ '':'' @ nat_str sequence)),
                (''symbol'', VStr symbol),
                (''instrument_id'', VStr (if s \<noteq> [] then s else if iid = 0 then [] else int_str iid)),
                (''timeframe'', VStr timeframe), (''open'', VFloat (hb_open bar)),
                (''high'', VFloat (hb_high bar)), (''low'', VFloat (hb_low bar)),
                (''close'', VFloat (hb_close bar)), (''volume'', VFloat (hb_volume bar)),
                (''ts_ms'', VInt ts_ms), (''event_time'', VStr (hb_time_utc bar))]))"

definition launch_payload_backtest_symbol :: "pydict \<Rightarrow> string option" where
  "launch_payload_backtest_symbol payload =
     (case get_or_none payload ''parameters'' of
        VDict params \<Rightarrow>
          (case get_or_none params ''symbol'' of
             VStr v \<Rightarrow> if py_strip v \<noteq> [] then Some (py_strip v) else None
           | _ \<Rightarrow> None)
      | _ \<Rightarrow> None)"

section \<open>The loop\<close>

text \<open>
  How the loop ends: by a \<open>return\<close> (\<open>Stopped\<close>), by the \<open>break\<close> after the last page (\<open>Exhausted\<close>),
  or because the \<open>while\<close> of the pages finds the stop event set (\<open>Interrupted\<close>), which the code
  after the loop cannot tell from \<open>Exhausted\<close>.
\<close>

datatype driver_exit = Stopped | Exhausted | Interrupted | OutOfFuel

text \<open>The bars of one page; the answer tells whether a stop was seen.\<close>

fun replay_bars ::
  "cfg \<Rightarrow> env \<Rightarrow> replay_cfg \<Rightarrow> hist_cfg \<Rightarrow> string \<Rightarrow> string \<Rightarrow> nat \<Rightarrow> hist_bar list \<Rightarrow> bool lc" where
  "replay_bars c w g h symbol tf i [] = act_ret False"
| "replay_bars c w g h symbol tf i (bar # bars) =
     act_with (\<lambda>s. hc_stop h (sv_trace s) BeforeBar \<or> hc_leaving h (sv_trace s) BeforeBar) (\<lambda>stopped.
       if stopped then act_ret True
       else
         (case build_historical_bar_replay_tick h g bar symbol tf i of
            Inl e \<Rightarrow>
              act_then (say (PrintText ''[historical] skip bar''))
                (replay_bars c w g h symbol tf (i + 1) bars)
          | Inr tick \<Rightarrow>
              act_then
                (ingest_replay_tick c w g tick (parse_datetime g (get_or_none tick ''event_time'')) True)
                (act_with (\<lambda>s. hc_interval h > 0 \<and> hc_stop h (sv_trace s) AfterWait) (\<lambda>stopped.
                   if stopped then act_ret True
                   else replay_bars c w g h symbol tf (i + 1) bars))))"

definition wait_then :: "hist_cfg \<Rightarrow> driver_exit lc \<Rightarrow> driver_exit lc" where
  "wait_then h m =
     act_with (\<lambda>s. hc_stop h (sv_trace s) AfterWait) (\<lambda>stopped. if stopped then act_ret Stopped else m)"

text \<open>The head of a loop: what leaving it by its condition and by its guards answers.\<close>

definition loop_head :: "hist_cfg \<Rightarrow> sight \<Rightarrow> driver_exit \<Rightarrow> driver_exit lc \<Rightarrow> driver_exit lc" where
  "loop_head h p at_stop m =
     act_with (\<lambda>s. (hc_stop h (sv_trace s) p, hc_leaving h (sv_trace s) p)) (\<lambda>(stopped, leaving).
       if stopped then act_ret at_stop else if leaving then act_ret Stopped else m)"

primrec driver_loop ::
  "cfg \<Rightarrow> env \<Rightarrow> replay_cfg \<Rightarrow> hist_cfg \<Rightarrow> string \<Rightarrow> string \<Rightarrow> nat \<Rightarrow> string option \<Rightarrow> bool \<Rightarrow>
   driver_exit lc" where
  "driver_loop c w g h symbol tf 0 cursor very_first = act_ret OutOfFuel"
| "driver_loop c w g h symbol tf (Suc n) cursor very_first =
     loop_head h PageHead Interrupted
       (let warmup = (if very_first \<and> cursor = None then hc_warmup h else 0) in
        act_with (\<lambda>s. hc_query h (sv_trace s) cursor warmup) (\<lambda>answer.
          act_then (say (HistoricalQuery cursor warmup))
            (case answer of
               QueryFailed \<Rightarrow> wait_then h (driver_loop c w g h symbol tf n cursor very_first)
             | Page bars has_more next_cursor \<Rightarrow>
                 if bars = [] then
                   act_with sv_first_data_received (\<lambda>received.
                     if \<not> received then wait_then h (driver_loop c w g h symbol tf n cursor very_first)
                     else if has_more \<and> next_cursor \<noteq> []
                       then driver_loop c w g h symbol tf n (Some next_cursor) very_first
                     else wait_then h (act_ret Exhausted))
                 else
                   act_bind (replay_bars c w g h symbol tf 0 bars) (\<lambda>stopped.
                     if stopped then act_ret Stopped
                     else act_with sv_first_data_received (\<lambda>received.
                       if \<not> received
                         then wait_then h (driver_loop c w g h symbol tf n cursor very_first)
                       else if has_more \<and> next_cursor \<noteq> []
                         then driver_loop c w g h symbol tf n (Some next_cursor) False
                       else act_ret Exhausted)))))"

definition historical_backtest_driver_worker ::
  "cfg \<Rightarrow> env \<Rightarrow> replay_cfg \<Rightarrow> hist_cfg \<Rightarrow> nat \<Rightarrow> driver_exit lc" where
  "historical_backtest_driver_worker c w g h fuel =
     (case (cfg_historical_client c, cfg_settings c) of
        (True, Some st) \<Rightarrow>
          (let sy = (case launch_payload_backtest_symbol (cfg_payload c) of
                       Some v \<Rightarrow> v | None \<Rightarrow> py_strip (hc_backtest_symbol h));
               tf = text_or (py_strip (text_or (or_empty (st_replay_bar_timeframe st)) ''1m'')) ''1m'' in
           if sy = [] \<or> or_empty (ls_ts_start (cfg_spec c)) = [] \<or> or_empty (ls_ts_end (cfg_spec c)) = []
           then act_then (say (PrintText ''[historical] backtest feed skipped'')) (act_ret Stopped)
           else act_with id (\<lambda>s.
             if \<not> sv_adapter s then act_ret Stopped
             else loop_head h OuterHead Stopped (act_with gateway_of (\<lambda>rg.
               if rg = None then act_ret Stopped
               else act_bind (driver_loop c w g h sy tf fuel None True) (\<lambda>exit.
                 act_then
                   (act_when (exit \<in> {Exhausted, Interrupted} \<and> ls_mode (cfg_spec c) = BACKTEST)
                      (act_modify (\<lambda>s. s\<lparr>sv_backtest_replay_complete := True\<rparr>)))
                   (act_ret exit))))))
      | _ \<Rightarrow> act_ret Stopped)"

section \<open>Every page exactly once\<close>

definition page_ticks :: "hist_cfg \<Rightarrow> replay_cfg \<Rightarrow> string \<Rightarrow> string \<Rightarrow> nat \<Rightarrow> hist_bar list \<Rightarrow> pydict list" where
  "page_ticks h g symbol tf i bars =
     concat (map (\<lambda>(j, bar). case build_historical_bar_replay_tick h g bar symbol tf j of
        Inl e \<Rightarrow> [] | Inr t \<Rightarrow> [t]) (enumerate i bars))"

text \<open>
  The ticks of the pages from a cursor on: each page is what the server answered, at some time, to
  the query for its cursor (with the warm-up bars only where there is no cursor yet), and the
  cursor it carries leads to the next one, up to a page that announces no more. The server may
  answer the same cursor differently at different times.
\<close>

definition serves :: "hist_cfg \<Rightarrow> string option \<Rightarrow> page \<Rightarrow> bool" where
  "serves h cursor p \<longleftrightarrow> (\<exists>tr. hc_query h tr cursor (if cursor = None then hc_warmup h else 0) = p)"

inductive replays_pages ::
  "hist_cfg \<Rightarrow> replay_cfg \<Rightarrow> string \<Rightarrow> string \<Rightarrow> string option \<Rightarrow> pydict list \<Rightarrow> bool"
  for h g symbol tf where
  last_page: "serves h cursor (Page bars has_more nc) \<Longrightarrow> \<not> (has_more \<and> nc \<noteq> []) \<Longrightarrow>
     replays_pages h g symbol tf cursor (page_ticks h g symbol tf 0 bars)"
| next_page: "serves h cursor (Page bars True nc) \<Longrightarrow> nc \<noteq> [] \<Longrightarrow>
     replays_pages h g symbol tf (Some nc) ticks \<Longrightarrow>
     replays_pages h g symbol tf cursor (page_ticks h g symbol tf 0 bars @ ticks)"

text \<open>The gateway has not reported first data before the service knows of them.\<close>

definition marked_ok :: "svc \<Rightarrow> bool" where
  "marked_ok s \<longleftrightarrow> (\<forall>rg. gateway_of s = Some rg \<longrightarrow> rg_first_data_marked rg \<longrightarrow> sv_first_data_received s)"

lemma page_ticks_simps [simp]:
  "page_ticks h g symbol tf i [] = []"
  "page_ticks h g symbol tf i (bar # bars) =
     (case build_historical_bar_replay_tick h g bar symbol tf i of Inl e \<Rightarrow> [] | Inr t \<Rightarrow> [t]) @
     page_ticks h g symbol tf (Suc i) bars"
  by (simp_all add: page_ticks_def)

definition marks :: "svc \<Rightarrow> svc \<Rightarrow> bool" where
  "marks s t \<longleftrightarrow> (marked_ok s \<longrightarrow> marked_ok t) \<and>
     (sv_first_data_received s \<longrightarrow> sv_first_data_received t) \<and> (gateway_of t = None) = (gateway_of s = None)"

interpretation marks: step_order marks
  by unfold_locales (auto simp: marks_def)

lemma marksD:
  assumes "marks s t"
  shows "marked_ok s \<Longrightarrow> marked_ok t" "sv_first_data_received s \<Longrightarrow> sv_first_data_received t"
    "gateway_of s \<noteq> None \<Longrightarrow> gateway_of t \<noteq> None"
  using assms by (auto simp: marks_def)

lemma marks_call: "moves marks (call w e)"
  by (auto simp: moves_def marks_def call_def Let_def marked_ok_def split: option.split)

lemma marks_say: "moves marks (say e)"
  by (simp add: moves_def marks_def say_def act_run marked_ok_def)

lemma marks_clock: "moves marks (set_replay_clock sim)"
  unfolding moves_def
proof
  fix s
  show "marks s (snd (set_replay_clock sim s))"
    by (auto simp: set_replay_clock_def act_run marks_def marked_ok_def gateway_of_def
        split: option.split clock.split sum.split)
qed

lemma marks_count: "moves marks (act_modify (update_gateway (\<lambda>x. x\<lparr>rg_tick_count := rg_tick_count x + 1\<rparr>)))"
  by (auto simp: moves_def act_run marks_def marked_ok_def) (auto simp: update_gateway_def)

lemma marks_log: "moves marks (log_tick_count g)"
  unfolding log_tick_count_def
  by (intro marks.reading marks.option marks.ret marks.guarded marks.cond marks_say)

lemma update_gateway_first [simp]:
  "sv_first_data_received (update_gateway f s) = sv_first_data_received s"
  by (simp add: update_gateway_def)

abbreviation first_mark :: "cfg \<Rightarrow> env \<Rightarrow> unit lc" where
  "first_mark c w \<equiv> act_with gateway_of (\<lambda>rg.
        act_when (case rg of None \<Rightarrow> False | Some x \<Rightarrow> \<not> rg_first_data_marked x)
          (act_seq [mark_first_data_received c w,
                    act_modify (update_gateway (\<lambda>x. x\<lparr>rg_first_data_marked := True\<rparr>))]))"

lemma first_mark_run:
  assumes "first_mark c w s = (r, s')"
  shows "marks s s' \<and> (marked_ok s \<and> gateway_of s \<noteq> None \<longrightarrow> sv_first_data_received s')"
proof (cases "case gateway_of s of None \<Rightarrow> False | Some x \<Rightarrow> \<not> rg_first_data_marked x")
  case False
  then show ?thesis
    using assms by (auto simp: act_run marks.refl marked_ok_def split: option.splits)
next
  case True
  obtain r1 s1 where mark: "mark_first_data_received c w s = (r1, s1)"
    by (cases "mark_first_data_received c w s")
  then have "sv_first_data_received s1 \<and> gateway_of s1 = gateway_of s"
    by (auto simp: mark_first_data_received_def journal_def act_run call_def Let_def
        split: option.splits if_splits)
  then show ?thesis
    using assms True mark
    by (cases r1) (auto simp: act_run marks_def marked_ok_def split: option.splits)
qed

lemma ingest_marks:
  assumes "ingest_replay_tick c w g tick sim callback s = (Inr u, s')"
    and "marked_ok s" and "gateway_of s \<noteq> None"
  shows "sv_first_data_received s' \<and> marked_ok s' \<and> gateway_of s' \<noteq> None"
proof -
  let ?pre = "act_seq [set_replay_clock sim,
      act_modify (update_gateway (\<lambda>x. x\<lparr>rg_tick_count := rg_tick_count x + 1\<rparr>)), log_tick_count g]"
  let ?post = "act_seq [act_when (rc_ingestor g) (call w (ReplayIngest tick)),
      act_when callback (say (StrategyEvent tick))]"
  have pre: "moves marks ?pre"
    unfolding act_seq.simps by (intro marks.seq2 marks.ret marks_clock marks_count marks_log)
  have post: "moves marks ?post"
    unfolding act_seq.simps by (intro marks.seq2 marks.ret marks.guarded marks_call marks_say)
  have split: "ingest_replay_tick c w g tick sim callback s =
      act_then ?pre (act_then (first_mark c w) ?post) s"
    by (simp add: ingest_replay_tick_def act_run split: sum.split prod.split)
  obtain v s1 v' s2 v'' where steps: "?pre s = (Inr v, s1)" "first_mark c w s1 = (Inr v', s2)"
    "?post s2 = (Inr v'', s')"
    using assms(1) unfolding split act_run(4) by (auto split: sum.splits prod.splits)
  have a: "marks s s1" using movesD [OF pre, of s] steps(1) by simp
  have b: "marks s2 s'" using movesD [OF post, of s2] steps(3) by simp
  have s1: "marked_ok s1" "gateway_of s1 \<noteq> None" using marksD [OF a] assms(2,3) by simp_all
  then have s2: "marks s1 s2" "sv_first_data_received s2" using first_mark_run [OF steps(2)] by simp_all
  show ?thesis using marksD [OF b] marksD [OF s2(1)] s1 s2(2) by simp
qed

lemma replay_bars_run:
  assumes "replay_bars c w g h symbol tf i bars s = (Inr False, s')"
    and "marked_ok s" and "gateway_of s \<noteq> None"
  shows "deliveries s' = deliveries s @ page_ticks h g symbol tf i bars \<and> marked_ok s' \<and>
    gateway_of s' \<noteq> None \<and> (sv_first_data_received s \<longrightarrow> sv_first_data_received s') \<and>
    (page_ticks h g symbol tf i bars \<noteq> [] \<longrightarrow> sv_first_data_received s')"
  using assms
proof (induction bars arbitrary: i s)
  case Nil
  then show ?case by (simp add: act_run)
next
  case (Cons bar bars)
  show ?case
  proof (cases "build_historical_bar_replay_tick h g bar symbol tf i")
    case (Inl e)
    let ?s = "snd (say (PrintText ''[historical] skip bar'') s)"
    have "replay_bars c w g h symbol tf (i + 1) bars ?s = (Inr False, s')"
      using Cons.prems(1) Inl by (auto simp: act_run say_def split: if_splits)
    then show ?thesis
      using Cons.IH [of "i + 1" ?s] Cons.prems Inl
      by (auto simp: say_def act_run marked_ok_def)
  next
    case (Inr tick)
    obtain u s1 where step: "ingest_replay_tick c w g tick
        (parse_datetime g (get_or_none tick ''event_time'')) True s = (Inr u, s1)"
      and rest: "replay_bars c w g h symbol tf (i + 1) bars s1 = (Inr False, s')"
      using Cons.prems(1) Inr by (auto simp: act_run split: if_splits sum.splits prod.splits)
    show ?thesis
      using Cons.IH [OF rest] ingest_delivers [OF step] ingest_marks [OF step Cons.prems(2,3)] Inr
      by auto
  qed
qed

lemma driver_loop_pages:
  assumes "driver_loop c w g h symbol tf n cursor first s = (Inr Exhausted, s')"
    and "first \<or> cursor \<noteq> None" and "marked_ok s" and "gateway_of s \<noteq> None"
  shows "\<exists>ticks. replays_pages h g symbol tf cursor ticks \<and> deliveries s' = deliveries s @ ticks"
  using assms
proof (induction n arbitrary: cursor first s)
  case 0
  then show ?case by (simp add: act_run)
next
  case (Suc n)
  let ?warm = "if first \<and> cursor = None then hc_warmup h else 0"
  let ?s = "snd (say (HistoricalQuery cursor ?warm) s)"
  have s: "deliveries ?s = deliveries s" "marked_ok ?s" "gateway_of ?s \<noteq> None"
    using Suc.prems by (simp_all add: say_def act_run marked_ok_def)
  have warm: "?warm = (if cursor = None then hc_warmup h else 0)" using Suc.prems(2) by auto
  have go: "\<not> hc_stop h (sv_trace s) PageHead" "\<not> hc_leaving h (sv_trace s) PageHead"
    using Suc.prems(1) by (auto simp: loop_head_def act_run split: if_splits)
  show ?case
  proof (cases "hc_query h (sv_trace s) cursor ?warm")
    case QueryFailed
    then have "driver_loop c w g h symbol tf n cursor first ?s = (Inr Exhausted, s')"
      using Suc.prems(1) go by (auto simp: loop_head_def wait_then_def act_run say_def Let_def split: if_splits)
    from Suc.IH [OF this Suc.prems(2) s(2,3)] s(1) show ?thesis by simp
  next
    case query: (Page bars has_more nc)
    then have page: "serves h cursor (Page bars has_more nc)" unfolding serves_def warm [symmetric] by blast
    show ?thesis
    proof (cases "bars = []")
      case True
      show ?thesis
      proof (cases "sv_first_data_received s \<and> (has_more \<and> nc \<noteq> [])")
        case more: True
        then have run: "driver_loop c w g h symbol tf n (Some nc) first ?s = (Inr Exhausted, s')"
          using Suc.prems(1) go query True
          by (auto simp: loop_head_def wait_then_def act_run say_def Let_def split: if_splits)
        from Suc.IH [OF run _ s(2,3)] obtain ticks where
          "replays_pages h g symbol tf (Some nc) ticks" "deliveries s' = deliveries s @ ticks"
          using s(1) by auto
        then show ?thesis
          using next_page [of h cursor bars nc g symbol tf ticks] page more True by auto
      next
        case last: False
        show ?thesis
        proof (cases "sv_first_data_received s")
          case received: True
          then have "s' = ?s"
            using Suc.prems(1) go query True last
            by (auto simp: loop_head_def wait_then_def act_run say_def Let_def split: if_splits)
          then show ?thesis
            using last_page [of h cursor bars has_more nc g symbol tf] page last received True s(1)
            by auto
        next
          case False
          then have "driver_loop c w g h symbol tf n cursor first ?s = (Inr Exhausted, s')"
            using Suc.prems(1) go query True
            by (auto simp: loop_head_def wait_then_def act_run say_def Let_def split: if_splits)
          from Suc.IH [OF this Suc.prems(2) s(2,3)] s(1) show ?thesis by simp
        qed
      qed
    next
      case False
      obtain s2 where played: "replay_bars c w g h symbol tf 0 bars ?s = (Inr False, s2)"
        using Suc.prems(1) go query False
        by (auto simp: loop_head_def wait_then_def act_run say_def Let_def split: if_splits sum.splits prod.splits)
      note rb = replay_bars_run [OF played s(2,3)]
      have d: "deliveries s2 = deliveries s @ page_ticks h g symbol tf 0 bars" using rb s(1) by simp
      have ok: "marked_ok s2" "gateway_of s2 \<noteq> None" using rb by auto
      show ?thesis
      proof (cases "sv_first_data_received s2")
        case received: True
        show ?thesis
        proof (cases "has_more \<and> nc \<noteq> []")
          case more: True
          then have run: "driver_loop c w g h symbol tf n (Some nc) False s2 = (Inr Exhausted, s')"
            using Suc.prems(1) go query False played received
            by (auto simp: loop_head_def wait_then_def act_run say_def Let_def split: if_splits)
          from Suc.IH [OF run _ ok] obtain ticks where
            "replays_pages h g symbol tf (Some nc) ticks" "deliveries s' = deliveries s2 @ ticks"
            by auto
          then show ?thesis
            using next_page [of h cursor bars nc g symbol tf ticks] page more d by auto
        next
          case last: False
          then have "s' = s2"
            using Suc.prems(1) go query False played received
            by (auto simp: loop_head_def wait_then_def act_run say_def Let_def split: if_splits)
          then show ?thesis
            using last_page [of h cursor bars has_more nc g symbol tf] page last d by auto
        qed
      next
        case unread: False
        then have none: "page_ticks h g symbol tf 0 bars = []" using rb by auto
        have "driver_loop c w g h symbol tf n cursor first s2 = (Inr Exhausted, s')"
          using Suc.prems(1) go query False played unread
          by (auto simp: loop_head_def wait_then_def act_run say_def Let_def split: if_splits)
        from Suc.IH [OF this Suc.prems(2) ok] d none show ?thesis by simp
      qed
    qed
  qed
qed

section \<open>Properties\<close>

text \<open>
  A stop event that the page loop finds at its head ends it like the last page does: a backtest
  that was cut short is marked as completely replayed.
\<close>

lemma interrupted_backtest_marked_complete:
  assumes "historical_backtest_driver_worker c w g h fuel s = (Inr Interrupted, s')"
    and "ls_mode (cfg_spec c) = BACKTEST"
  shows "sv_backtest_replay_complete s'"
  using assms
  by (auto simp: historical_backtest_driver_worker_def Let_def loop_head_def act_run say_def
      split: bool.splits option.splits if_splits sum.splits prod.splits)

definition driver_symbol :: "cfg \<Rightarrow> hist_cfg \<Rightarrow> string" where
  "driver_symbol c h =
     (case launch_payload_backtest_symbol (cfg_payload c) of
        Some v \<Rightarrow> v | None \<Rightarrow> py_strip (hc_backtest_symbol h))"

definition driver_timeframe :: "settings \<Rightarrow> string" where
  "driver_timeframe st = text_or (py_strip (text_or (or_empty (st_replay_bar_timeframe st)) ''1m'')) ''1m''"

text \<open>
  C29: a historical driver that runs to its end has handed the strategy every readable bar of
  a chain of pages exactly once and in order: the server's answers to the cursors from the first
  page to one that announces no more, however often queries failed, pages were unreadable or
  empty in between, and whatever the server answers when a cursor is asked again; in backtest the
  replay is then complete.
\<close>

theorem historical_pages_once:
  assumes "historical_backtest_driver_worker c w g h fuel s = (Inr Exhausted, s')"
    and "marked_ok s" and "cfg_settings c = Some st"
  shows "\<exists>ticks. replays_pages h g (driver_symbol c h) (driver_timeframe st) None ticks \<and>
           deliveries s' = deliveries s @ ticks \<and>
           (ls_mode (cfg_spec c) = BACKTEST \<longrightarrow> sv_backtest_replay_complete s')"
proof -
  obtain s1 where loop: "driver_loop c w g h (driver_symbol c h) (driver_timeframe st) fuel None True s =
      (Inr Exhausted, s1)" and gateway: "gateway_of s \<noteq> None"
    and s': "s' = (if ls_mode (cfg_spec c) = BACKTEST then s1\<lparr>sv_backtest_replay_complete := True\<rparr> else s1)"
    using assms(1,3)
    by (auto simp: historical_backtest_driver_worker_def driver_symbol_def driver_timeframe_def Let_def
        loop_head_def act_run say_def split: bool.splits if_splits sum.splits prod.splits)
  obtain ticks where
    "replays_pages h g (driver_symbol c h) (driver_timeframe st) None ticks"
    "deliveries s1 = deliveries s @ ticks"
    using driver_loop_pages [OF loop _ assms(2) gateway] by blast
  then show ?thesis using s' by (auto simp: deliveries_def)
qed

lemma replay_bars_unreadable:
  assumes "\<And>i bar. bar \<in> set bars \<Longrightarrow> isl (build_historical_bar_replay_tick h g bar symbol tf i)"
    and "\<And>tr p. \<not> hc_stop h tr p" "\<And>tr p. \<not> hc_leaving h tr p"
  shows "\<exists>s'. replay_bars c w g h symbol tf i bars s = (Inr False, s') \<and>
    sv_first_data_received s' = sv_first_data_received s"
  using assms(1)
proof (induction bars arbitrary: i s)
  case Nil
  then show ?case by (simp add: act_run)
next
  case (Cons bar bars)
  then obtain e where e: "build_historical_bar_replay_tick h g bar symbol tf i = Inl e"
    by (metis isl_def list.set_intros(1))
  let ?s = "snd (say (PrintText ''[historical] skip bar'') s)"
  obtain s' where "replay_bars c w g h symbol tf (i + 1) bars ?s = (Inr False, s')"
    "sv_first_data_received s' = sv_first_data_received ?s"
    using Cons.IH [of "i + 1" ?s] Cons.prems by auto
  then show ?case using e assms(2,3) by (simp add: act_run say_def)
qed

text \<open>
  The driver asks again for a page from which it could not read a single bar before any data
  arrived: with a server whose first page holds only bars of unreadable time, the loop never
  ends, however much fuel it is given and whatever pages follow, unless the worker is stopped.
\<close>

lemma unreadable_first_page_livelock:
  assumes "\<And>tr warmup. hc_query h tr None warmup = Page bars has_more nc" and "bars \<noteq> []"
    and "\<And>i bar. bar \<in> set bars \<Longrightarrow> isl (build_historical_bar_replay_tick h g bar symbol tf i)"
    and "\<And>tr p. \<not> hc_stop h tr p" "\<And>tr p. \<not> hc_leaving h tr p" and "\<not> sv_first_data_received s"
  shows "fst (driver_loop c w g h symbol tf fuel None True s) = Inr OutOfFuel"
  using assms(6)
proof (induction fuel arbitrary: s)
  case 0
  then show ?case by (simp add: act_run)
next
  case (Suc n)
  let ?s = "snd (say (HistoricalQuery None (hc_warmup h)) s)"
  obtain s' where bars: "replay_bars c w g h symbol tf 0 bars ?s = (Inr False, s')"
    and received: "sv_first_data_received s' = sv_first_data_received ?s"
    using replay_bars_unreadable [OF assms(3,4,5), where c = c and w = w and i = 0 and s = ?s] by blast
  have "\<not> sv_first_data_received s'" using received Suc.prems by (simp add: say_def act_run)
  then show ?case
    using Suc.IH [of s'] bars assms(1,2,4,5)
    by (simp add: loop_head_def wait_then_def act_run say_def Let_def)
qed

definition sample_bar :: hist_bar where
  "sample_bar = \<lparr>hb_time_utc = ''t'', hb_instrument_id = 1, hb_open = Fin 1, hb_high = Fin 1,
     hb_low = Fin 1, hb_close = Fin 1, hb_volume = Fin 1\<rparr>"

definition sample_hist :: hist_cfg where
  "sample_hist =
     \<lparr>hc_query = (\<lambda>tr cursor warmup. if length tr = 0 then QueryFailed
         else if cursor = None then Page [sample_bar] True ''2'' else Page [sample_bar, sample_bar] False []),
      hc_stop = (\<lambda>tr p. False), hc_leaving = (\<lambda>tr p. False), hc_epoch_millis = (\<lambda>t. 0), hc_warmup = 0, hc_interval = 0,
      hc_backtest_symbol = ''AAPL''\<rparr>"

definition sample_hist_cfg :: cfg where
  "sample_hist_cfg = sample_cfg\<lparr>cfg_historical_client := True,
     cfg_spec := sample_spec\<lparr>ls_mode := BACKTEST, ls_ts_start := Some ''a'', ls_ts_end := Some ''b''\<rparr>\<rparr>"

definition reading_cfg :: replay_cfg where
  "reading_cfg = sample_replay_cfg\<lparr>rc_fromisoformat := (\<lambda>x. Some (utc 0))\<rparr>"

theorem historical_pages_once_witness:
  "\<exists>s' ticks. historical_backtest_driver_worker sample_hist_cfg replay_env reading_cfg sample_hist 5 replaying =
       (Inr Exhausted, s') \<and> deliveries s' = deliveries replaying @ ticks \<and>
     sv_backtest_replay_complete s'"
proof -
  have fst: "case fst (historical_backtest_driver_worker sample_hist_cfg replay_env reading_cfg sample_hist 5
      replaying) of Inr Exhausted \<Rightarrow> True | _ \<Rightarrow> False"
    by code_simp
  obtain r s' where rs: "historical_backtest_driver_worker sample_hist_cfg replay_env reading_cfg
      sample_hist 5 replaying = (r, s')" by (metis surj_pair)
  then have run: "historical_backtest_driver_worker sample_hist_cfg replay_env reading_cfg
      sample_hist 5 replaying = (Inr Exhausted, s')"
    using fst by (auto split: sum.splits driver_exit.splits)
  have ok: "marked_ok replaying"
    by (simp add: marked_ok_def replaying_def gateway_of_def initial_svc_def)
  have st: "cfg_settings sample_hist_cfg = Some sample_settings"
    and mode: "ls_mode (cfg_spec sample_hist_cfg) = BACKTEST"
    by (simp_all add: sample_hist_cfg_def sample_cfg_def)
  from historical_pages_once [OF run ok st] run mode show ?thesis by blast
qed

theorem interrupted_backtest_marked_complete_witness:
  "\<exists>s'. historical_backtest_driver_worker sample_hist_cfg replay_env reading_cfg
       (sample_hist\<lparr>hc_stop := \<lambda>tr p. p = PageHead \<and> length tr > 2\<rparr>) 5 replaying = (Inr Interrupted, s') \<and>
     sv_backtest_replay_complete s'"
proof -
  let ?h = "sample_hist\<lparr>hc_stop := \<lambda>tr p. p = PageHead \<and> length tr > 2\<rparr>"
  have fst: "case fst (historical_backtest_driver_worker sample_hist_cfg replay_env reading_cfg
      (sample_hist\<lparr>hc_stop := \<lambda>tr p. p = PageHead \<and> length tr > 2\<rparr>) 5 replaying) of
      Inr Interrupted \<Rightarrow> True | _ \<Rightarrow> False"
    by code_simp
  obtain r s' where rs: "historical_backtest_driver_worker sample_hist_cfg replay_env reading_cfg ?h 5
      replaying = (r, s')" by (metis surj_pair)
  then have run: "historical_backtest_driver_worker sample_hist_cfg replay_env reading_cfg ?h 5
      replaying = (Inr Interrupted, s')"
    using fst by (auto split: sum.splits driver_exit.splits)
  then show ?thesis
    using interrupted_backtest_marked_complete [OF run]
    by (simp add: sample_hist_cfg_def)
qed

theorem unreadable_first_page_livelock_witness:
  "fst (driver_loop sample_hist_cfg replay_env sample_replay_cfg
      (sample_hist\<lparr>hc_query := \<lambda>tr cursor warmup. Page [sample_bar] True ''2''\<rparr>) ''AAPL'' ''1m'' 1000 None True
      replaying) = Inr OutOfFuel"
proof -
  have "isl (build_historical_bar_replay_tick
      (sample_hist\<lparr>hc_query := \<lambda>tr cursor warmup. Page [sample_bar] True ''2''\<rparr>) sample_replay_cfg bar
      ''AAPL'' ''1m'' i)" for i bar
    by (simp add: build_historical_bar_replay_tick_def historical_time_utc_to_epoch_ms_def
        sample_replay_cfg_def Let_def)
  then show ?thesis
    by (intro unreadable_first_page_livelock [where bars = "[sample_bar]" and has_more = True and nc = "''2''"])
      (simp_all add: sample_hist_def replaying_def initial_svc_def)
qed

end
