(* ===== verification/LifecycleProps.thy ===== *)
theory LifecycleProps
  imports LifecycleSpec HistoricalDriver
begin

text \<open>
  Properties of the lifecycle service. \<open>lc_op\<close> lists what its callers may invoke, in any order
  and as often as they like; \<open>run_ops\<close> runs such a sequence, a call that raises leaving the state
  it reached. The locale \<open>latch_order\<close> collects what a relation needs so that every operation
  moves along it; it is interpreted for the shutdown flag with the heartbeats sent and for the
  accepted stop request.
\<close>

section \<open>Sequences of operations\<close>

datatype lc_op =
    OpStart
  | OpRun
  | OpStop stop_args
  | OpRequestStop string
  | OpHeartbeat
  | OpCheckpoint
  | OpFirstData
  | OpPush replay_cfg pydict
  | OpTick replay_cfg pydict
  | OpDriver replay_cfg hist_cfg nat

fun do_op :: "cfg \<Rightarrow> env \<Rightarrow> lc_op \<Rightarrow> svc \<Rightarrow> svc" where
  "do_op c w OpStart s = snd (start c w s)"
| "do_op c w OpRun s = snd (run c w s)"
| "do_op c w (OpStop a) s = snd (stop c w a s)"
| "do_op c w (OpRequestStop r) s = snd (initiate_stop_from_request c w r s)"
| "do_op c w OpHeartbeat s = snd (emit_periodic_heartbeat w s)"
| "do_op c w OpCheckpoint s = snd (record_manager_stop_request_checkpoint c w s)"
| "do_op c w OpFirstData s = snd (mark_first_data_received c w s)"
| "do_op c w (OpPush g payload) s = snd (push_replay_context c w g payload s)"
| "do_op c w (OpTick g tick) s = snd (dispatch_paper_live_tick c w g tick s)"
| "do_op c w (OpDriver g h fuel) s = snd (historical_backtest_driver_worker c w g h fuel s)"

definition run_ops :: "cfg \<Rightarrow> env \<Rightarrow> lc_op list \<Rightarrow> svc \<Rightarrow> svc" where
  "run_ops c w ops s = fold (do_op c w) ops s"

section \<open>The latched part of the state\<close>

fun is_beat :: "effect \<Rightarrow> bool" where
  "is_beat (Manager name args) = (name = ''emit_heartbeat'')"
| "is_beat _ = False"

definition beats :: "svc \<Rightarrow> effect list" where
  "beats s = filter is_beat (sv_trace s)"

definition still :: "svc \<Rightarrow> svc \<Rightarrow> bool" where
  "still s t \<longleftrightarrow>
     beats t = beats s \<and> sv_shutdown_in_progress t = sv_shutdown_in_progress s \<and>
     sv_stop_request_accepted t = sv_stop_request_accepted s \<and>
     sv_stop_canonical_reason t = sv_stop_canonical_reason s \<and>
     sv_stop_resolved_message t = sv_stop_resolved_message s"

interpretation still: step_order still
  by unfold_locales (auto simp: still_def)

lemma still_call: "\<not> is_beat e \<Longrightarrow> moves still (call w e)"
  by (auto simp: moves_def still_def call_def Let_def beats_def split: option.split)

lemma still_say: "\<not> is_beat e \<Longrightarrow> moves still (say e)"
  by (auto simp: moves_def still_def say_def act_run beats_def)

lemma still_modify: "(\<And>s. still s (f s)) \<Longrightarrow> moves still (act_modify f)"
  by (rule still.modify)

lemma still_sampler: "moves still (sampler_next k)"
  by (auto simp: moves_def still_def sampler_next_def Let_def beats_def)

lemma still_update [simp]:
  "still s (s\<lparr>sv_phase := p\<rparr>)" "still s (s\<lparr>sv_started := b\<rparr>)" "still s (s\<lparr>sv_shutdown_complete := b'\<rparr>)"
  "still s (s\<lparr>sv_started := b, sv_shutdown_complete := b'\<rparr>)"
  "still s (s\<lparr>sv_shutdown_complete := b', sv_started := b\<rparr>)"
  "still s (s\<lparr>sv_startup_steps := xs\<rparr>)" "still s (s\<lparr>sv_shutdown_steps := xs\<rparr>)"
  "still s (s\<lparr>sv_first_data_received := b\<rparr>)" "still s (s\<lparr>sv_logger := b\<rparr>)" "still s (s\<lparr>sv_deps := d\<rparr>)"
  "still s (s\<lparr>sv_adapter := b\<rparr>)" "still s (s\<lparr>sv_hds := f\<rparr>)" "still s (s\<lparr>sv_md := f\<rparr>)"
  "still s (s\<lparr>sv_portfolio := f\<rparr>)"
  by (simp_all add: still_def beats_def)

lemmas still_rules =
  still.ret still.raise still.result still.bind still.seq2 still.guarded still.reading still.caught
  still.ignore still.for_each still.option still_call still_say still_modify still_sampler

lemma still_journal: "moves still (journal c w n a)"
  unfolding journal_def by (intro still_rules) simp

lemma still_event: "moves still (emit_domain_event w ev l x)"
  unfolding emit_domain_event_def by (intro still_rules) simp

lemma still_seq_Cons: "moves still m \<Longrightarrow> moves still (act_seq ms) \<Longrightarrow> moves still (act_seq (m # ms))"
  by (simp add: still.seq2)

lemma still_seq_Nil: "moves still (act_seq [])"
  by (simp add: still.ret)

lemmas still_all = still_seq_Cons still_seq_Nil still_journal still_event still_rules

lemma still_startup_step: "moves still (record_startup_step c w st)"
  unfolding record_startup_step_def by (intro still_all) simp_all

lemma still_shutdown_step: "moves still (record_shutdown_step c w st)"
  unfolding record_shutdown_step_def by (intro still_all) simp_all

lemma still_state_message: "moves still (emit_state_message c w p l r b)"
  unfolding emit_state_message_def by (intro still_all) simp

lemma still_post: "moves still (post_report w r out)"
  unfolding post_report_def by (intro still_all) simp_all

lemma still_reports:
  "moves still (report_bootstrap_success c w)" "moves still (report_final_shutdown c w r m)"
  "moves still (report_bootstrap_failure c w e)"
  unfolding report_bootstrap_success_def report_final_shutdown_def report_bootstrap_failure_def
    resolve_shutdown_report_def
  by (auto intro!: still.option still.ret still.ignore still.reading still_post split: py_exc.split)

lemma still_join: "moves still (act_with id (\<lambda>s. act_when (b s) (call w (JoinThread n))))"
  by (intro still_all) simp

lemma still_stops:
  "moves still (stop_live_market_data_feed_worker w)" "moves still (stop_portfolio_update_feed_worker w)"
  "moves still (stop_historical_backtest_feed_worker w)" "moves still (stop_strategy_loop c w)"
  "moves still (close_downstream_clients c w)"
  unfolding stop_live_market_data_feed_worker_def stop_portfolio_update_feed_worker_def
    stop_historical_backtest_feed_worker_def stop_strategy_loop_def close_downstream_clients_def
    close_one_def prod.case
  by (auto intro!: still.seq2 still.ret still_join still_modify still.reading still.guarded
      still.for_each still_call)

lemma still_stream_log: "moves still (market_data_stream_log w l ev x)"
  unfolding market_data_stream_log_def
  by (intro still.reading still.cond still_all) simp_all

lemma still_init_deps: "moves still (init_deps w)"
  unfolding init_deps_def by (intro still_all) simp_all

lemma still_coordinator: "moves still (initialize_strategy_coordinator c w)"
  unfolding initialize_strategy_coordinator_def by (intro still.cond still_all) simp_all

lemma still_bind_strategy: "moves still (bind_strategy c w ep)"
  unfolding bind_strategy_def by (intro still_all) simp_all

lemma still_signal_ready: "moves still (signal_ready w ep)"
  unfolding signal_ready_def by (intro still_all) simp

lemma still_run_bootstrap: "moves still (run_bootstrap w)"
  unfolding run_bootstrap_def by (auto intro!: still_all split: bootstrap_result.split)

lemma still_emit_terminated: "moves still (emit_terminated c w a r m)"
  unfolding emit_terminated_def by (intro still_all) simp

lemma still_prepare: "moves still (start_prepare c w)"
  unfolding start_prepare_def
  by (intro still_startup_step still_run_bootstrap still_all) simp_all

lemma still_historical: "moves still (maybe_start_historical_backtest_driver c w)"
  unfolding maybe_start_historical_backtest_driver_def
  by (intro still.reading still.cond still.option still_all) simp_all

lemma still_start_live: "moves still (start_live_feed_thread w f n)"
  unfolding start_live_feed_thread_def by (intro still_stream_log still_all) simp_all

lemma still_scope: "moves still (live_market_data_partition_scope c n)"
  unfolding live_market_data_partition_scope_def by (intro still_all) simp_all

lemma still_portfolio: "moves still (maybe_start_portfolio_update_feed c w)"
  unfolding maybe_start_portfolio_update_feed_def Let_def
  by (intro still.reading still.cond still.option still_all) simp_all

lemma still_checkpoint: "moves still (record_manager_stop_request_checkpoint c w)"
  unfolding record_manager_stop_request_checkpoint_def by (intro still_all) simp

lemma still_first_data: "moves still (mark_first_data_received c w)"
  unfolding mark_first_data_received_def by (intro still_all) simp

lemma still_live: "moves still (maybe_start_live_market_data_feed c w)"
  unfolding maybe_start_live_market_data_feed_def Let_def
  by (intro still.reading still.cond still.option still_start_live still_scope still_stream_log still_all)
    (auto intro!: still_start_live still_scope still_stream_log still_all split: option.split prod.split)

lemma still_gateway: "moves still (act_modify (update_gateway f))"
  by (rule still_modify) (simp add: update_gateway_def)

lemma still_clock: "moves still (set_replay_clock sim)"
  unfolding set_replay_clock_def
  by (auto intro!: still.reading still.ret still.bind still.result still_modify
      split: option.split clock.split)

lemma still_ingest: "moves still (ingest_replay_tick c w g tick sim b)"
  unfolding ingest_replay_tick_def log_tick_count_def act_seq.simps
  by (intro still.seq2 still.ret still.reading still.option still.guarded still.cond still_clock
      still_gateway still_first_data still_call still_say) simp_all

lemma still_push_events: "moves still (push_events c w g batch es n t)"
proof (induction es arbitrary: n t)
  case Nil
  show ?case by (simp add: still.ret)
next
  case (Cons e es)
  then show ?case
    by (auto intro!: still.bind still.result still.reading still_ingest split: option.split prod.split)
qed

lemma still_push: "moves still (push_replay_context c w g payload)"
  unfolding push_replay_context_def ensure_deps_def push_batch_def push_reply_def Let_def act_seq.simps
  by (auto intro!: still.seq2 still.ret still.reading still.guarded still.cond still.bind
      still_init_deps still_modify still_say still_push_events simp: still_def beats_def split: prod.split)

lemma still_tick: "moves still (dispatch_paper_live_tick c w g tick)"
  unfolding dispatch_paper_live_tick_def tick_outcome_def Let_def act_seq.simps
  by (auto intro!: still.seq2 still.ret still.reading still.guarded still.cond still.bind still.option
      still_first_data still_modify still_say still_sampler still_event still_stream_log
      simp: still_def beats_def split: prod.split)

lemma still_bars: "moves still (replay_bars c w g h sy tf i bars)"
  by (induction bars arbitrary: i)
    (auto intro!: still.ret still.reading still.cond still.seq2 still_say still_ingest split: sum.split)

lemma still_loop: "moves still (driver_loop c w g h sy tf n cursor first)"
proof (induction n arbitrary: cursor first)
  case 0
  show ?case by (simp add: still.ret)
next
  case (Suc n)
  then show ?case
    by (auto simp: loop_head_def wait_then_def Let_def intro!: still.ret still.reading still.cond still.seq2 still.bind
        still_say still_bars split: page.split)
qed

lemma still_driver: "moves still (historical_backtest_driver_worker c w g h fuel)"
  unfolding historical_backtest_driver_worker_def loop_head_def wait_then_def Let_def
  by (auto intro!: still.ret still.reading still.cond still.seq2 still.bind still.guarded still_say
      still_loop still_modify simp: still_def beats_def split: bool.split option.split)

section \<open>Relations that the operations move along\<close>

definition note_accepted :: "string \<Rightarrow> string \<Rightarrow> svc \<Rightarrow> svc" where
  "note_accepted canonical resolved s =
     s\<lparr>sv_stop_request_accepted := True, sv_stop_canonical_reason := Some canonical,
       sv_stop_resolved_message := Some resolved, sv_shutdown_in_progress := True\<rparr>"

locale latch_order = step_order R for R :: "svc \<Rightarrow> svc \<Rightarrow> bool" +
  assumes from_still: "still s t \<Longrightarrow> R s t"
    and shutdown_flag: "R s (s\<lparr>sv_shutdown_in_progress := True\<rparr>)"
    and beat: "\<not> sv_shutdown_in_progress s \<Longrightarrow>
      R s (s\<lparr>sv_trace := sv_trace s @ [Manager ''emit_heartbeat'' args]\<rparr>)"
    and accepted: "\<not> sv_shutdown_in_progress s \<Longrightarrow> \<not> sv_stop_request_accepted s \<Longrightarrow>
      R s (note_accepted canonical resolved s)"
begin

lemma of_still: "moves still m \<Longrightarrow> moves R m"
  by (simp add: moves_def from_still)

lemma call_when: "\<not> is_beat e \<Longrightarrow> moves R (act_when b (call w e))"
  by (rule of_still) (simp add: still.guarded still_call)

lemma srm_status: "\<not> sv_shutdown_in_progress s \<Longrightarrow> R s (snd (emit_srm_runtime_status w o1 o2 o3 o4 o5 s))"
  by (simp add: emit_srm_runtime_status_def act_run call_def Let_def refl beat split: option.split)

lemma phase_events: "moves R (phase_events w p r)"
proof -
  have "moves R (act_with sv_shutdown_in_progress (\<lambda>b. act_when (\<not> b)
      (act_ignore (emit_srm_runtime_status w o1 o2 o3 o4 o5))))" for o1 o2 o3 o4 o5
    by (simp add: moves_def act_run refl srm_status)
  then show ?thesis
    unfolding phase_events_def Let_def
    by (auto intro!: seq2 ret of_still [OF still_event])
qed

lemma set_phase: "moves R (set_phase c w p l r b)"
  unfolding set_phase_def
  by (auto intro!: reading seq2 ret phase_events of_still [OF still_state_message]
      of_still [OF still_journal] of_still [OF still_modify])

lemma heartbeat: "moves R (emit_periodic_heartbeat w)"
proof -
  have "R s (snd (act_bind (sampler_next k) (\<lambda>(n, sample). act_seq
      [emit_domain_event w ev (l sample) (x n sample), emit_srm_runtime_status w o1 o2 o3 o4 o5]) s))"
    if "\<not> sv_shutdown_in_progress s" for s k ev l x o1 o2 o3 o4 o5
  proof -
    obtain n s1 where s1: "sampler_next k s = (Inr n, s1)"
      by (simp add: sampler_next_def Let_def)
    obtain z s2 where s2: "emit_domain_event w ev (l (snd n)) (x (fst n) (snd n)) s1 = (z, s2)"
      by (cases "emit_domain_event w ev (l (snd n)) (x (fst n) (snd n)) s1")
    have a: "still s s1" using movesD [OF still_sampler [of k], of s] s1 by simp
    have b: "still s1 s2" using movesD [OF still_event, of s1 w ev "l (snd n)" "x (fst n) (snd n)"] s2 by simp
    have "R s2 (snd (emit_srm_runtime_status w o1 o2 o3 o4 o5 s2))"
      using that a b by (intro srm_status) (simp add: still_def)
    then show ?thesis
      using a b s1 s2 trans [OF trans [OF from_still [OF a] from_still [OF b]]]
        trans [OF from_still [OF a] from_still [OF b]]
      by (auto simp: act_run case_prod_beta split: sum.split prod.split)
  qed
  then show ?thesis
    unfolding emit_periodic_heartbeat_def moves_def
    by (simp add: act_run(1) act_run(6) refl del: act_seq.simps)
qed

lemma teardown: "moves R (stop_teardown c w a r m)"
  unfolding stop_teardown_def act_seq.simps
  by (intro seq2 ret set_phase of_still [OF still_shutdown_step] of_still [OF still_stops(1)]
      of_still [OF still_stops(2)] of_still [OF still_stops(3)] of_still [OF still_stops(4)]
      of_still [OF still_stops(5)] of_still [OF still_emit_terminated] of_still [OF still_reports(2)]
      call_when modify shutdown_flag from_still still_update) simp_all

lemma stop: "moves R (stop c w a)"
  unfolding stop_def
  by (auto intro!: reading cond ret seq2 teardown of_still [OF still_event])

lemma rollback: "moves R (rollback_partial_startup c w e)"
  unfolding rollback_partial_startup_def Let_def
  by (rule reading, rule of_still, rule still.seq)
    (auto intro!: still_journal still_stops still.reading still.guarded still.ignore still_init_deps
      still_reports still_call still_modify)

lemma start: "moves R (start c w)"
proof -
  have "moves R (start_ready c w ep)" for ep
    unfolding start_ready_def act_seq.simps
    by (intro seq2 ret set_phase heartbeat of_still [OF still_startup_step] of_still [OF still_init_deps]
        of_still [OF still_coordinator] of_still [OF still_bind_strategy] of_still [OF still_signal_ready]
        of_still [OF still_reports(1)] of_still [OF still_event] call_when modify from_still
        still_update) simp_all
  moreover have "moves R (start_failed c w e)" for e
    unfolding start_failed_def by (auto intro!: seq2 ret raise set_phase rollback)
  ultimately show ?thesis
    unfolding start_def by (intro reading cond ret caught bind of_still [OF still_prepare])
qed

lemma run: "moves R (run c w)"
  unfolding run_def
  by (auto intro!: seq2 start reading guarded set_phase heartbeat ret of_still [OF still_historical]
      of_still [OF still_live] of_still [OF still_portfolio])

lemma request: "moves R (initiate_stop_from_request c w reason)"
proof -
  have "R s (snd (act_bind (act_of r) (\<lambda>(body, post, canonical, resolved). act_then
      (case post of None \<Rightarrow> act_ret () | Some p \<Rightarrow> call w (SrmPost p))
      (act_then (act_modify (note_accepted canonical resolved)) (act_ret body))) s))"
    if "\<not> sv_shutdown_in_progress s" "\<not> sv_stop_request_accepted s" for s and r :: "py_exc + pydict \<times> srm_post option \<times> string \<times> string"
  proof -
    have post: "still s (snd ((case p of None \<Rightarrow> act_ret () | Some q \<Rightarrow> call w (SrmPost q)) s))" for p
      by (rule movesD) (auto intro!: still.option still.ret still_call)
    have "R t (note_accepted x y t)" if "still s t" for t x y
      using that \<open>\<not> sv_shutdown_in_progress s\<close> \<open>\<not> sv_stop_request_accepted s\<close>
      by (intro accepted) (simp_all add: still_def)
    then show ?thesis
      using post
      by (auto simp: act_run refl split: sum.split prod.split)
        (metis from_still snd_conv trans)+
  qed
  then show ?thesis
    unfolding initiate_stop_from_request_def
    by (auto simp: moves_def act_run(2) act_run(6) refl Let_def note_accepted_def [abs_def] split: option.split)
qed

lemma op: "R s (do_op c w x s)"
  by (cases x)
    (simp_all add: movesD start run stop request heartbeat of_still still_checkpoint still_first_data
      still_push still_tick still_driver)

lemma ops: "R s (run_ops c w xs s)"
  unfolding run_ops_def by (induction xs arbitrary: s) (auto simp: refl intro: trans op)

end


section \<open>Silence after a shutdown has begun\<close>

definition silence :: "svc \<Rightarrow> svc \<Rightarrow> bool" where
  "silence s t \<longleftrightarrow> (sv_shutdown_in_progress s \<longrightarrow> sv_shutdown_in_progress t \<and> beats t = beats s)"

interpretation silent: latch_order silence
  by unfold_locales (auto simp: silence_def still_def note_accepted_def beats_def)

definition latched_stop :: "svc \<Rightarrow> svc \<Rightarrow> bool" where
  "latched_stop s t \<longleftrightarrow>
     (sv_stop_request_accepted s \<longrightarrow>
        sv_stop_request_accepted t \<and>
        sv_stop_canonical_reason t = sv_stop_canonical_reason s \<and>
        sv_stop_resolved_message t = sv_stop_resolved_message s)"

interpretation latched: latch_order latched_stop
  by unfold_locales (auto simp: latched_stop_def still_def note_accepted_def)

definition stays_failed :: "svc \<Rightarrow> svc \<Rightarrow> bool" where
  "stays_failed s t \<longleftrightarrow> (sv_phase s = WP_FAILED \<longrightarrow> sv_phase t = WP_FAILED)"

interpretation failed: step_order stays_failed
  by unfold_locales (auto simp: stays_failed_def)

section \<open>Actions that return\<close>

text \<open>With the failures that are let through named by \<open>ok\<close>, the rest of the environment being calm.\<close>

fun best_effort :: "effect \<Rightarrow> bool" where
  "best_effort (LogEvent event level extras) = True"
| "best_effort (SrmPost post) = True"
| "best_effort _ = False"

definition mostly_calm :: "env \<Rightarrow> bool" where
  "mostly_calm w \<longleftrightarrow> (\<forall>tr e. \<not> best_effort e \<longrightarrow> env_raises w tr e = None)"

definition returns :: "('s, 'a) act \<Rightarrow> bool" where
  "returns m \<longleftrightarrow> (\<forall>s. \<exists>v s'. m s = (Inr v, s'))"

lemma returnsD: "returns m \<Longrightarrow> \<exists>v s'. m s = (Inr v, s')"
  by (simp add: returns_def)

lemma returns_ret: "returns (act_ret v)"
  and returns_modify: "returns (act_modify f)"
  and returns_ignore: "returns (act_ignore k)"
  by (simp_all add: returns_def act_run)

lemma returns_bind: "returns m \<Longrightarrow> (\<And>v. returns (f v)) \<Longrightarrow> returns (act_bind m f)"
proof (unfold returns_def act_run, intro allI)
  fix s
  assume m: "\<forall>s. \<exists>v s'. m s = (Inr v, s')" and f: "\<And>v. \<forall>s. \<exists>x s'. f v s = (Inr x, s')"
  obtain v s1 where "m s = (Inr v, s1)" using m by blast
  then show "\<exists>x s'. (case m s of (Inl e, s') \<Rightarrow> (Inl e, s') | (Inr y, s') \<Rightarrow> f y s') = (Inr x, s')"
    using f by simp
qed

lemma returns_catch: "returns m \<Longrightarrow> returns (act_catch m h)"
proof (unfold returns_def act_run, intro allI)
  fix s
  assume m: "\<forall>s. \<exists>v s'. m s = (Inr v, s')"
  obtain v s1 where "m s = (Inr v, s1)" using m by blast
  then show "\<exists>x s'. (case m s of (Inl e, s') \<Rightarrow> h e s' | (Inr y, s') \<Rightarrow> (Inr y, s')) = (Inr x, s')"
    by simp
qed

lemma returns_then: "returns m \<Longrightarrow> returns n \<Longrightarrow> returns (act_then m n)"
  unfolding act_then_def by (rule returns_bind)

lemma returns_when: "(b \<Longrightarrow> returns m) \<Longrightarrow> returns (act_when b m)"
  by (simp add: returns_def act_run)

lemma returns_with: "(\<And>y. returns (m y)) \<Longrightarrow> returns (act_with f m)"
  by (simp add: returns_def act_run)

lemma returns_if: "(b \<Longrightarrow> returns m) \<Longrightarrow> (\<not> b \<Longrightarrow> returns n) \<Longrightarrow> returns (if b then m else n)"
  by simp

lemma returns_for: "(\<And>i. returns (m i)) \<Longrightarrow> returns (act_for js m)"
  by (induction js) (auto intro: returns_ret returns_then)

lemma returns_option: "returns m \<Longrightarrow> (\<And>x. returns (n x)) \<Longrightarrow> returns (case v of None \<Rightarrow> m | Some x \<Rightarrow> n x)"
  by (cases v) simp_all

lemma returns_say: "returns (say e)"
  unfolding say_def by (rule returns_modify)

lemma returns_sampler: "returns (sampler_next k)"
  by (simp add: returns_def sampler_next_def Let_def)

lemma returns_call: "mostly_calm w \<Longrightarrow> \<not> best_effort e \<Longrightarrow> returns (call w e)"
  by (simp add: returns_def call_def mostly_calm_def Let_def)

lemma returns_event: "returns (emit_domain_event w n l x)"
  unfolding emit_domain_event_def by (intro returns_with returns_when returns_ignore)

lemma returns_journal: "mostly_calm w \<Longrightarrow> returns (journal c w n x)"
  unfolding journal_def by (intro returns_when returns_call) simp_all

lemma returns_steps:
  "mostly_calm w \<Longrightarrow> returns (record_startup_step c w st)"
  "mostly_calm w \<Longrightarrow> returns (record_shutdown_step c w st)"
  unfolding record_startup_step_def record_shutdown_step_def act_seq.simps
  by (intro returns_then returns_modify returns_journal returns_when returns_call returns_ret; simp)+

lemma returns_reports:
  "returns (report_bootstrap_success c w)" "returns (report_final_shutdown c w r m)"
  unfolding report_bootstrap_success_def report_final_shutdown_def
  by (auto intro!: returns_option returns_ret returns_ignore split: prod.split)

lemma returns_join: "mostly_calm w \<Longrightarrow> returns (act_with id (\<lambda>s. act_when (b s) (call w (JoinThread n))))"
  by (intro returns_with returns_when returns_call) simp_all

lemma returns_stops:
  assumes "mostly_calm w"
  shows "returns (stop_live_market_data_feed_worker w)" "returns (stop_portfolio_update_feed_worker w)"
    "returns (stop_historical_backtest_feed_worker w)" "returns (stop_strategy_loop c w)"
    "returns (close_downstream_clients c w)" "returns (emit_terminated c w a r m)"
  unfolding stop_live_market_data_feed_worker_def stop_portfolio_update_feed_worker_def
    stop_historical_backtest_feed_worker_def stop_strategy_loop_def close_downstream_clients_def
    close_one_def emit_terminated_def act_seq.simps
  by (auto intro!: returns_then returns_modify returns_ret returns_join [OF assms] returns_with
      returns_when returns_call [OF assms] returns_for)

lemma returns_phase_events: "returns (phase_events w p r)"
  unfolding phase_events_def Let_def act_seq.simps
  by (intro returns_if returns_then returns_event returns_with returns_when returns_ignore returns_ret)

lemma returns_set_phase: "mostly_calm w \<Longrightarrow> returns (set_phase c w p l r b)"
  unfolding set_phase_def emit_state_message_def act_seq.simps
  by (intro returns_with returns_then returns_modify returns_when returns_say returns_phase_events
      returns_journal returns_ret)

lemma returns_teardown: "mostly_calm w \<Longrightarrow> returns (stop_teardown c w a r m)"
  unfolding stop_teardown_def act_seq.simps
  by (intro returns_then returns_modify returns_ret returns_steps returns_stops returns_set_phase
      returns_when returns_call returns_reports) simp_all

lemma returns_stop: "mostly_calm w \<Longrightarrow> returns (stop c w a)"
  unfolding stop_def
  by (auto intro!: returns_with returns_if returns_ret returns_then returns_event returns_teardown)

lemma returns_srm_status: "mostly_calm w \<Longrightarrow> returns (emit_srm_runtime_status w o1 o2 o3 o4 o5)"
  unfolding emit_srm_runtime_status_def by (intro returns_with returns_when returns_call) simp_all

lemma returns_heartbeat: "mostly_calm w \<Longrightarrow> returns (emit_periodic_heartbeat w)"
  unfolding emit_periodic_heartbeat_def
  by (auto intro!: returns_with returns_if returns_ret returns_bind returns_sampler returns_then
      returns_event returns_srm_status)

text \<open>A start returns when its inputs are good and the environment calm.\<close>

definition good_launch :: "cfg \<Rightarrow> env \<Rightarrow> bool" where
  "good_launch c w \<longleftrightarrow>
     mostly_calm w \<and> (\<forall>tr. env_validated w tr = cfg_spec c) \<and>
     (\<forall>tr. \<exists>ep. env_bootstrap w tr = BootSuccess ep) \<and> (\<forall>tr. env_bound w tr) \<and>
     (cfg_instance_manager c \<longrightarrow>
        (ls_trader_id (cfg_spec c) \<noteq> None) \<noteq> (ls_account_id (cfg_spec c) \<noteq> None))"

lemma returns_run_bootstrap: "good_launch c w \<Longrightarrow> returns (run_bootstrap w)"
proof (unfold returns_def, rule allI)
  fix s :: svc
  assume good: "good_launch c w"
  then obtain ep where "env_bootstrap w (sv_trace s) = BootSuccess ep"
    unfolding good_launch_def by blast
  then show "\<exists>v s'. run_bootstrap w s = (Inr v, s')"
    using good by (simp add: run_bootstrap_def good_launch_def mostly_calm_def act_run call_def Let_def)
qed

lemma returns_start_body:
  assumes "good_launch c w"
  shows "returns (act_bind (start_prepare c w) (start_ready c w))"
proof -
  have calm: "mostly_calm w" using assms by (simp add: good_launch_def)
  have valid: "returns (act_with (\<lambda>s. env_validated w (sv_trace s)) (\<lambda>v. act_then (call w Validate)
      (act_then (act_when (v \<noteq> cfg_spec c) (act_raise e)) (act_ret ()))))" for e
    using assms returns_call [OF calm, of Validate]
    by (auto simp: returns_def act_run good_launch_def call_def mostly_calm_def Let_def)
  have coordinator: "returns (initialize_strategy_coordinator c w)"
    using assms calm
    by (auto simp: initialize_strategy_coordinator_def good_launch_def
        intro!: returns_when returns_then returns_call returns_modify returns_ret)
  have bound: "returns (bind_strategy c w ep)" for ep
    using assms
    by (auto simp: bind_strategy_def good_launch_def returns_def act_run call_def mostly_calm_def
        Let_def emit_domain_event_def)
  have signal: "returns (signal_ready w ep)" for ep
    unfolding signal_ready_def by (intro returns_with returns_when returns_call calm) simp_all
  have init: "returns (init_deps w)"
    unfolding init_deps_def by (intro returns_with returns_then returns_call calm returns_modify) simp_all
  show ?thesis
    unfolding start_prepare_def start_ready_def act_seq.simps
    by (intro returns_bind returns_then returns_ret returns_modify returns_steps calm valid coordinator
        bound signal init returns_call returns_event returns_run_bootstrap [OF assms] returns_reports
        returns_set_phase returns_heartbeat returns_when) simp_all
qed

lemma returns_start: "good_launch c w \<Longrightarrow> returns (start c w)"
  unfolding start_def by (intro returns_with returns_if returns_ret returns_catch returns_start_body)


section \<open>A sample environment\<close>

text \<open>The logger and the manager's endpoint always fail here, everything else works.\<close>

definition sample_env :: env where
  "sample_env =
     \<lparr>env_raises = (\<lambda>tr e. if best_effort e then Some (RuntimeError ''down'') else None),
      env_now = (\<lambda>tr. \<lparr>dt_wall = 0, dt_offset = Some 0\<rparr>), env_validated = (\<lambda>tr. sample_spec),
      env_bootstrap = (\<lambda>tr. BootSuccess ''m:f''),
      env_deps = (\<lambda>tr. \<lparr>dp_clock = SystemClock, dp_oms = True, dp_replay = None\<rparr>), env_bound = (\<lambda>tr. True),
      env_http = (\<lambda>tr. []), env_alive = (\<lambda>tr n. True), env_clock_now = (\<lambda>tr. None),
      env_repr = (\<lambda>v. [])\<rparr>"

definition sample_stop :: stop_args where
  "sample_stop =
     \<lparr>sa_emit_termination_signal = True, sa_suppress_stopping_phase_stdout = False,
      sa_termination_reason_code = None, sa_termination_message = None\<rparr>"

lemma sample_calm: "mostly_calm sample_env"
  by (simp add: mostly_calm_def sample_env_def)

lemma sample_good: "good_launch sample_cfg sample_env"
  by (simp add: good_launch_def sample_calm, simp add: sample_env_def sample_cfg_def sample_spec_def)

section \<open>Stopping\<close>

lemma abstract_stop_fields [simp]:
  "sv_shutdown_complete (abstract_stop c a x)" "sv_shutdown_in_progress (abstract_stop c a x)"
  "\<not> sv_started (abstract_stop c a x)" "sv_phase (abstract_stop c a x) = final_phase c a"
  by (simp_all add: abstract_stop_def)

lemma stopped_fields:
  assumes "stop c w a s = (Inr True, s')"
  shows "sv_shutdown_complete s' \<and> sv_shutdown_in_progress s' \<and> \<not> sv_started s' \<and>
    sv_phase s' = final_phase c a"
proof -
  have stopped: "abs s' = abstract_stop c a (abs s)"
    using refines_stop [OF assms] by (simp split: if_splits)
  show ?thesis
    using arg_cong [OF stopped, of sv_shutdown_complete] arg_cong [OF stopped, of sv_shutdown_in_progress]
      arg_cong [OF stopped, of sv_started] arg_cong [OF stopped, of sv_phase] by simp
qed

text \<open>
  C1: A \<open>stop\<close> that returns either finds the shutdown complete, answers False and changes
  nothing, or answers True having done exactly what \<open>abstract_stop\<close> says, whatever the
  collaborators answered: the nine shutdown steps in their order, the feeds told to stop, the
  periodic jobs, the strategy, the diagnostics and the clients torn down in this order before
  the termination signal, which carries the final phase (COMPLETED only for a finished backtest
  job), the phase messages printed in their places, and that final phase.
\<close>

theorem stop_outcome:
  assumes "stop c w a s = (Inr b, s')"
  shows "if sv_shutdown_complete s then \<not> b \<and> s' = s else b \<and> abs s' = abstract_stop c a (abs s)"
  by (rule refines_stop [OF assms])

theorem stop_outcome_witness:
  "\<exists>s'. stop sample_cfg sample_env sample_stop initial_svc = (Inr True, s') \<and>
     abs s' = abstract_stop sample_cfg sample_stop (abs initial_svc)"
proof -
  obtain b s' where run: "stop sample_cfg sample_env sample_stop initial_svc = (Inr b, s')"
    using returnsD [OF returns_stop [OF sample_calm]] by blast
  then show ?thesis using stop_outcome [OF run] by (simp add: initial_svc_def)
qed

text \<open>
  C5: A failing logger or manager endpoint never makes a shutdown fail: when only log records
  and HTTP reports may raise, \<open>stop\<close> returns from every state and leaves the shutdown complete.
\<close>

theorem stop_survives_best_effort_failures:
  assumes "mostly_calm w"
  shows "\<exists>s'. stop c w a s = (Inr (\<not> sv_shutdown_complete s), s') \<and> sv_shutdown_complete s'"
proof -
  obtain b s' where run: "stop c w a s = (Inr b, s')"
    using returnsD [OF returns_stop [OF assms]] by blast
  then have "b = (\<not> sv_shutdown_complete s)" and "sv_shutdown_complete s \<Longrightarrow> s' = s"
    using refines_stop [OF run] by (auto split: if_splits)
  then show ?thesis using run stopped_fields [of c w a s s'] by auto
qed

theorem stop_survives_best_effort_failures_witness:
  "\<exists>s'. stop sample_cfg sample_env sample_stop initial_svc = (Inr True, s') \<and> sv_shutdown_complete s'"
  using stop_survives_best_effort_failures [OF sample_calm, of sample_cfg sample_stop initial_svc]
  by (simp add: initial_svc_def)

section \<open>Starting\<close>

text \<open>
  C2: A \<open>start\<close> that returns is either a no-op on a started worker or has done exactly what
  \<open>abstract_start\<close> says: validation, logger, bootstrap, dependencies, strategy creation and
  binding, and the ready signal in this order, then the change to phase READY, announced by its
  message only after all of them and before the first heartbeat, which already carries that
  phase and is sent only outside a shutdown, the periodic jobs last.
\<close>

theorem start_outcome:
  assumes "start c w s = (Inr u, s')"
  shows "if sv_started s then s' = s else abs s' = abstract_start c (abs s)"
  by (rule refines_start [OF assms])

theorem start_outcome_witness:
  "\<exists>s'. start sample_cfg sample_env initial_svc = (Inr (), s') \<and>
     abs s' = abstract_start sample_cfg (abs initial_svc)"
proof -
  obtain u s' where run: "start sample_cfg sample_env initial_svc = (Inr u, s')"
    using returnsD [OF returns_start [OF sample_good]] by blast
  then show ?thesis using start_outcome [OF run] by (simp add: initial_svc_def)
qed

lemma stays_failed_call: "moves stays_failed (call w e)"
  by (auto simp: moves_def stays_failed_def call_def Let_def split: option.split)

lemma stays_failed_still_phase: "(\<And>s. sv_phase (f s) = sv_phase s) \<Longrightarrow> moves stays_failed (act_modify f)"
  by (rule failed.modify) (simp add: stays_failed_def)

lemma stays_failed_init: "moves stays_failed (init_deps w)"
  unfolding init_deps_def
  by (intro failed.reading failed.seq2 stays_failed_call stays_failed_still_phase) simp

lemma stays_failed_report: "moves stays_failed (report_bootstrap_failure c w e)"
  unfolding report_bootstrap_failure_def post_report_def say_def
  by (auto intro!: failed.option failed.ret failed.ignore failed.reading failed.bind failed.result
      failed.seq2 stays_failed_call stays_failed_still_phase split: py_exc.split)

lemma stays_failed_rollback: "moves stays_failed (rollback_partial_startup c w e)"
  unfolding rollback_partial_startup_def Let_def journal_def stop_strategy_loop_def
    close_downstream_clients_def close_one_def prod.case act_seq.simps
  by (intro failed.reading failed.seq2 failed.ret failed.guarded failed.cond failed.ignore
      failed.for_each stays_failed_init stays_failed_report stays_failed_call stays_failed_still_phase)
    (auto intro!: failed.guarded stays_failed_call)

lemma stays_failed_events: "moves stays_failed (phase_events w p r)"
  unfolding phase_events_def Let_def emit_domain_event_def emit_srm_runtime_status_def act_seq.simps
  by (intro failed.cond failed.reading failed.seq2 failed.ret failed.guarded failed.ignore stays_failed_call)

lemma stays_failed_message: "moves stays_failed (emit_state_message c w p l r b)"
  unfolding emit_state_message_def say_def
  by (intro failed.reading failed.guarded stays_failed_still_phase) simp

lemma start_failed_phase: "sv_phase (snd (start_failed c w e s)) = WP_FAILED"
proof -
  have set: "sv_phase (snd (set_phase c w WP_FAILED l r b t)) = WP_FAILED" for l r b t
  proof -
    let ?rest = "act_seq [emit_state_message c w WP_FAILED l r b, phase_events w WP_FAILED r,
      journal c w ''record_phase_change'' (phase_change_args (Some (sv_phase t)) WP_FAILED l r)]"
    have "moves stays_failed ?rest"
      unfolding act_seq.simps journal_def
      by (intro failed.seq2 failed.ret stays_failed_events stays_failed_message failed.guarded stays_failed_call)
    then have "sv_phase (snd (?rest (t\<lparr>sv_phase := WP_FAILED\<rparr>))) = WP_FAILED"
      by (drule_tac s = "t\<lparr>sv_phase := WP_FAILED\<rparr>" in movesD) (simp add: stays_failed_def)
    then show ?thesis by (simp add: set_phase_def act_run(4) act_run(6) act_run(7))
  qed
  have "moves stays_failed (act_seq [rollback_partial_startup c w e, act_raise e])"
    unfolding act_seq.simps by (intro failed.seq2 failed.ret failed.raise stays_failed_rollback)
  then show ?thesis
    using set [of "''ERROR''" "Some (start_reason e)" True s]
    using movesD [OF \<open>moves stays_failed _\<close>, of "snd (set_phase c w WP_FAILED ''ERROR'' (Some (start_reason e)) True s)"]
    by (auto simp: start_failed_def act_run(4) stays_failed_def split: sum.split prod.split)
qed

text \<open>
  C6: A \<open>start\<close> that raises, for whatever reason and at whatever point of the start, of the
  handler or of the rollback, leaves the worker in phase FAILED.
\<close>

theorem raising_start_is_failed:
  assumes "start c w s = (Inl e, s')"
  shows "sv_phase s' = WP_FAILED"
proof -
  obtain e' s1 where "s' = snd (start_failed c w e' s1)"
    using assms by (auto simp: start_def act_run split: if_splits prod.splits sum.splits) (metis snd_conv)+
  then show ?thesis by (simp add: start_failed_phase)
qed

theorem raising_start_is_failed_witness:
  "\<exists>e s'. start sample_cfg (sample_env\<lparr>env_raises := \<lambda>tr e. Some (RuntimeError ''down'')\<rparr>) initial_svc =
     (Inl e, s') \<and> sv_phase s' = WP_FAILED"
proof -
  let ?w = "sample_env\<lparr>env_raises := \<lambda>tr e. Some (RuntimeError ''down'')\<rparr>"
  obtain r s' where run: "start sample_cfg ?w initial_svc = (r, s')"
    by (cases "start sample_cfg ?w initial_svc")
  have "\<exists>e. r = Inl e"
  proof (cases r)
    case (Inr u)
    then have "start_failed sample_cfg ?w (RuntimeError ''down'') t = (Inr u, s') \<Longrightarrow> False" for t
      using start_failed_raises by blast
    then show ?thesis
      using run Inr
      by (simp add: start_def start_prepare_def record_startup_step_def journal_def call_def act_run
          initial_svc_def sample_cfg_def)
  qed simp
  then show ?thesis using run raising_start_is_failed by blast
qed

section \<open>After a shutdown\<close>

text \<open>
  C4: Once a stop has gone through, no sequence of operations, a restart with its heartbeats
  included, reports another heartbeat to the manager, because \<open>start\<close> clears
  \<open>shutdown_complete\<close> but never \<open>shutdown_in_progress\<close>.
\<close>

theorem no_heartbeat_after_stop:
  assumes "stop c w a s = (Inr True, s1)"
  shows "sv_shutdown_in_progress (run_ops c w ops s1) \<and> beats (run_ops c w ops s1) = beats s1"
proof -
  show ?thesis
    using stopped_fields [OF assms] silent.ops [of s1 c w ops] by (simp add: silence_def)
qed

theorem no_heartbeat_after_stop_witness:
  "\<exists>s1. stop sample_cfg sample_env sample_stop initial_svc = (Inr True, s1) \<and>
     beats (run_ops sample_cfg sample_env [OpStart, OpRun, OpHeartbeat] s1) = beats s1"
proof -
  obtain b s1 where run: "stop sample_cfg sample_env sample_stop initial_svc = (Inr b, s1)"
    using returnsD [OF returns_stop [OF sample_calm]] by blast
  then have "b" using refines_stop [OF run] by (simp add: initial_svc_def)
  then show ?thesis using run no_heartbeat_after_stop [of sample_cfg sample_env sample_stop initial_svc s1] by auto
qed

text \<open>
  The service changes phase without consulting the transition graph: after a completed stop
  a further \<open>start\<close> that returns has moved a terminal phase back to READY, a transition that
  \<open>validate_transition\<close> rejects as the resurrection of a terminal phase.
\<close>

lemma restart_resurrects_terminal_phase:
  assumes "stop c w a s = (Inr True, s1)" and "start c w s1 = (Inr u, s2)"
  shows "is_terminal_phase (sv_phase s1) \<and> sv_phase s2 = WP_READY \<and>
         validate_transition (sv_phase s1) WP_READY \<noteq> Inr ()"
proof -
  have stopped: "\<not> sv_started s1" "sv_phase s1 = final_phase c a"
    using stopped_fields [OF assms(1)] by simp_all
  then have started: "abs s2 = abstract_start c (abs s1)"
    using refines_start [OF assms(2)] by simp
  have "sv_phase s2 = WP_READY"
    using arg_cong [OF started, of sv_phase] by (simp add: abstract_start_def)
  moreover have "is_terminal_phase (final_phase c a)"
    by (simp add: final_phase_def is_terminal_phase_def TERMINAL_PHASES_def)
  ultimately show ?thesis
    using stopped by (auto simp: validate_transition_ok can_transition_def)
qed

theorem restart_resurrects_terminal_phase_witness:
  "\<exists>s1 s2. stop sample_cfg sample_env sample_stop initial_svc = (Inr True, s1) \<and>
     start sample_cfg sample_env s1 = (Inr (), s2) \<and> is_terminal_phase (sv_phase s1) \<and>
     sv_phase s2 = WP_READY"
proof -
  obtain b s1 where run: "stop sample_cfg sample_env sample_stop initial_svc = (Inr b, s1)"
    using returnsD [OF returns_stop [OF sample_calm]] by blast
  then have stopped: "stop sample_cfg sample_env sample_stop initial_svc = (Inr True, s1)"
    using refines_stop [OF run] by (simp add: initial_svc_def)
  obtain u s2 where "start sample_cfg sample_env s1 = (Inr u, s2)"
    using returnsD [OF returns_start [OF sample_good]] by blast
  then show ?thesis using stopped restart_resurrects_terminal_phase [OF stopped] by auto
qed

section \<open>Stop requests\<close>

lemma request_accepted:
  assumes "initiate_stop_from_request c w r s = (Inr body, s1)"
  shows "sv_stop_request_accepted s1 \<and>
         sv_stop_canonical_reason s1 = Some (canonical_reason_from_stop_request r)"
  using assms
  by (auto simp: initiate_stop_from_request_def act_run initiate_stop_status_update_def Let_def
      result_simps split: option.splits if_splits sum.splits prod.splits)

lemma request_refused:
  assumes "sv_stop_request_accepted s" and "cfg_settings c = Some st" and "py_strip (st_srm_base_url st) \<noteq> []"
  shows "initiate_stop_from_request c w r s =
    (Inl (if sv_shutdown_complete s then WorkerAlreadyStopped else StopAlreadyInProgress), s)"
  using assms by (simp add: initiate_stop_from_request_def act_run)

text \<open>
  What the shutdown says of its reason: the termination signal carries it, the status POSTed to
  the manager and the printed outcome carry its \<open>SWR_\<close> code, and the status is FAILED exactly
  for the one reason that is a failure.
\<close>

fun gives_reason :: "runtime_worker_reason_code \<Rightarrow> effect \<Rightarrow> bool" where
  "gives_reason q (Manager name args) \<longleftrightarrow>
     name \<noteq> ''emit_terminated'' \<or>
     dict_get args ''reason_code'' = Some (VStr (runtime_worker_reason_code_value q))"
| "gives_reason q (SrmPost p) \<longleftrightarrow>
     dict_get (sp_body p) ''runtime_status'' =
       Some (VStr (if q = RC_UNHEALTHY_EXECUTION_DETECTED then ''FAILED'' else ''STOPPED'')) \<and>
     (case dict_get (sp_body p) ''metadata'' of
        Some (VDict m) \<Rightarrow>
          dict_get m ''reason_code'' = Some (VStr (''SWR_'' @ runtime_worker_reason_code_value q))
      | _ \<Rightarrow> False)"
| "gives_reason q (Print d) \<longleftrightarrow>
     dict_get d ''event_name'' \<noteq> Some (VStr ''worker_shutdown_status'') \<or>
     dict_get d ''reason_code'' = Some (VStr (''SWR_'' @ runtime_worker_reason_code_value q))"
| "gives_reason q _ \<longleftrightarrow> True"

definition tells :: "runtime_worker_reason_code \<Rightarrow> svc \<Rightarrow> svc \<Rightarrow> bool" where
  "tells q s t \<longleftrightarrow> (\<exists>es. sv_trace t = sv_trace s @ es \<and> list_all (gives_reason q) es)"

interpretation tells: step_order "tells q" for q
proof
  show "tells q s s" for s by (simp add: tells_def)
  show "tells q s u" if "tells q s t" "tells q t u" for s t u
    using that unfolding tells_def by (elim exE) (rule exI, auto)
qed

lemma tells_call: "gives_reason q e \<Longrightarrow> moves (tells q) (call w e)"
  by (auto simp: moves_def tells_def call_def Let_def split: option.split)

lemma tells_say: "gives_reason q e \<Longrightarrow> moves (tells q) (say e)"
  by (simp add: moves_def tells_def say_def act_run)

lemma tells_modify: "(\<And>s. sv_trace (f s) = sv_trace s) \<Longrightarrow> moves (tells q) (act_modify f)"
  by (simp add: moves_def tells_def act_run)

lemma tells_journal: "moves (tells q) (journal c w n a)"
  unfolding journal_def by (intro tells.guarded tells_call) simp

lemma tells_event: "moves (tells q) (emit_domain_event w ev l x)"
  unfolding emit_domain_event_def by (intro tells.reading tells.guarded tells.ignore tells_call) simp

lemma tells_step: "moves (tells q) (record_shutdown_step c w st)"
  unfolding record_shutdown_step_def act_seq.simps
  by (intro tells.seq2 tells.ret tells.guarded tells_modify tells_journal tells_call) simp_all

lemma state_event_names: "state_event_name p \<noteq> ''worker_shutdown_status''"
  by (simp add: state_event_name_def)

lemma tells_set_phase: "p \<noteq> WP_FAILED \<Longrightarrow> moves (tells q) (set_phase c w p l r b)"
  unfolding set_phase_def emit_state_message_def phase_events_def act_seq.simps
  by (intro tells.reading tells.seq2 tells.ret tells.guarded tells.cond tells_modify tells_journal
      tells_event tells_say) (simp_all add: state_message_def Let_def state_event_names)

lemma tells_stops:
  "moves (tells q) (stop_live_market_data_feed_worker w)"
  "moves (tells q) (stop_portfolio_update_feed_worker w)"
  "moves (tells q) (stop_historical_backtest_feed_worker w)" "moves (tells q) (stop_strategy_loop c w)"
  "moves (tells q) (close_downstream_clients c w)"
  unfolding stop_live_market_data_feed_worker_def stop_portfolio_update_feed_worker_def
    stop_historical_backtest_feed_worker_def stop_strategy_loop_def close_downstream_clients_def
    close_one_def prod.case act_seq.simps
  by (intro tells.seq2 tells.ret tells.reading tells.guarded tells.for_each tells_modify tells_call;
      simp add: close_one_def tells.guarded tells_call split: prod.split)+

lemma tells_terminated:
  "moves (tells q) (emit_terminated c w a (runtime_worker_reason_code_value q) m)"
  unfolding emit_terminated_def by (intro tells.reading tells.guarded tells_call) simp

lemma swr_reason_strip: "py_strip (''SWR_'' @ runtime_worker_reason_code_value q) =
    ''SWR_'' @ runtime_worker_reason_code_value q"
  by (cases q) (simp_all add: str_eval)

lemma status_post_reason:
  assumes "report_shutdown_status_fields_to_srm now i url md ow st h rc m k = Inr (Some p)"
    and "py_upper (py_strip st) = st" "st \<noteq> []" "py_strip rc = rc"
  shows "dict_get (sp_body p) ''runtime_status'' = Some (VStr st) \<and>
    (\<exists>d. dict_get (sp_body p) ''metadata'' = Some (VDict d) \<and> dict_get d ''reason_code'' = Some (VStr rc))"
  using assms
  by (auto simp: report_shutdown_status_fields_to_srm_def post_srm_runtime_status_def
      build_srm_heartbeat_body_def build_srm_status_metadata_def update_source Let_def result_simps
      split: if_splits)

lemma status_texts: "py_upper (py_strip ''STOPPED'') = ''STOPPED''" "py_upper (py_strip ''FAILED'') = ''FAILED''"
  by code_simp+

lemma final_post_reason:
  assumes "report_final_shutdown_to_srm now i md ow url (runtime_worker_reason_code_value q) m = Inr (Some p)"
  shows "gives_reason q (SrmPost p)"
proof -
  let ?st = "if q = RC_UNHEALTHY_EXECUTION_DETECTED then ''FAILED'' else ''STOPPED''"
  let ?rc = "''SWR_'' @ runtime_worker_reason_code_value q"
  let ?R = "\<lambda>st h m'. report_shutdown_status_fields_to_srm now i url md ow st h ?rc m' None"
  have split: "\<exists>h m'. F (if b then x else y) h m' = v" if "(if b then F x h1 m1 else F y h2 m1) = v"
    for F :: "string \<Rightarrow> string \<Rightarrow> string \<Rightarrow> py_exc + srm_post option" and b x y h1 h2 m1 v
    using that by (cases b) auto
  have "\<exists>h m'. ?R ?st h m' = Inr (Some p)"
    by (rule split [of _ ?R], rule assms [unfolded report_final_shutdown_to_srm_def
          report_failed_shutdown_to_srm_def report_stopped_to_srm_def resolve_shutdown_report_def
          is_failure_reason swr_reason_value prod.case])
  then obtain h m' where "?R ?st h m' = Inr (Some p)" by blast
  moreover have "py_upper (py_strip ?st) = ?st" "?st \<noteq> []"
    using status_texts by (simp_all split: if_split)
  ultimately show ?thesis
    unfolding gives_reason.simps using status_post_reason [OF _ _ _ swr_reason_strip [of q]] by fastforce
qed

lemma bind_of: "act_bind (act_of (Inr v)) f = f v" "act_bind (act_of (Inl e)) f = act_raise e"
  by (simp_all add: act_bind_def act_of_def act_raise_def fun_eq_iff)

lemma tells_post:
  assumes out: "\<And>xs. gives_reason q (Print (out @ xs))"
    and post: "\<And>p. r = Inr (Some p) \<Longrightarrow> gives_reason q (SrmPost p)"
  shows "moves (tells q) (post_report w r out)"
proof (cases r)
  case (Inl e)
  then show ?thesis by (simp add: post_report_def bind_of tells.raise)
next
  case (Inr v)
  show ?thesis
  proof (cases v)
    case None
    then show ?thesis using Inr tells_say [OF out [of "[]"]] by (simp add: post_report_def bind_of)
  next
    case (Some p)
    have "moves (tells q) (call w (SrmPost p))" using post Inr Some by (intro tells_call) simp
    then show ?thesis
      unfolding post_report_def Inr Some bind_of option.case
      by (intro tells.seq2 tells.reading tells_say out)
  qed
qed

lemma tells_report: "moves (tells q) (report_final_shutdown c w (runtime_worker_reason_code_value q) m)"
proof -
  have out: "gives_reason q (Print ([(''event_name'', n), (''runtime_status'', x),
      (''reason_code'', VStr (shutdown_swr_reason_code (runtime_worker_reason_code_value q))), y] @ xs))"
    for n x y xs
    unfolding gives_reason.simps swr_reason_value by simp
  show ?thesis
    unfolding report_final_shutdown_def resolve_shutdown_report_def prod.case
    by (intro tells.option tells.ret tells.ignore tells.reading tells_post out final_post_reason)
qed

lemma tells_stop:
  assumes "sv_stop_canonical_reason s = Some (runtime_worker_reason_code_value q)"
  shows "tells q s (snd (stop c w a s))"
proof -
  have teardown: "moves (tells q) (stop_teardown c w a (runtime_worker_reason_code_value q) m)" for m
    unfolding stop_teardown_def act_seq.simps
    by (intro tells.seq2 tells.ret tells.guarded tells_modify tells_step tells_stops tells_set_phase
        tells_terminated tells_report tells_call) (simp_all add: final_phase_cases)
  have first: "tells q s (snd (act_then m n s))"
    if "moves (tells q) m" "moves still m"
      "\<And>t. sv_stop_canonical_reason t = Some (runtime_worker_reason_code_value q) \<Longrightarrow> tells q t (snd (n t))"
    for m :: "unit lc" and n :: "bool lc"
  proof -
    obtain z t where run: "m s = (z, t)" by (cases "m s")
    then have "tells q s t" "still s t" using movesD [OF that(1), of s] movesD [OF that(2), of s] by simp_all
    then show ?thesis
      using run that(3) [of t] assms
      by (cases z) (auto simp: act_then_def act_bind_def still_def intro: tells.trans)
  qed
  have rest: "tells q t (snd (act_with (resolve_stop a) (\<lambda>(rcode, message).
      act_then (stop_teardown c w a rcode message) (act_ret True)) t))"
    if "sv_stop_canonical_reason t = Some (runtime_worker_reason_code_value q)" for t
    using that movesD [OF tells.seq2 [OF teardown tells.ret], where s = t]
    by (simp add: resolve_stop_def act_with_def)
  show ?thesis
  proof (cases "sv_shutdown_complete s")
    case True
    then show ?thesis by (simp add: stop_def act_with_def act_ret_def tells.refl)
  next
    case False
    then have "stop c w a s = act_then (act_with id (\<lambda>s. emit_domain_event w ''strategy_worker.shutdown_requested'' ''INFO''
              [(''phase'', VStr (worker_phase_value (sv_phase s))),
               (''termination_reason_code'', opt_str (sa_termination_reason_code a))]))
         (act_with (resolve_stop a) (\<lambda>(rcode, message).
            act_then (stop_teardown c w a rcode message) (act_ret True))) s"
      by (simp only: stop_def act_with_def if_False)
    then show ?thesis
      by (simp only:) (rule first, intro tells.reading tells_event, intro still.reading still_event, rule rest)
  qed
qed

text \<open>
  C3: A stop request is accepted at most once. After one has been accepted every later request
  is refused as in progress or as already stopped and changes nothing, whatever operations ran
  in between; and whatever reason \<open>stop\<close> is then called with, and whether or not it returns, all
  that it signals, POSTs and prints of its reason is the canonical reason of the accepted
  request: the termination signal names it, and the final status and its printed outcome name
  its \<open>SWR_\<close> code, the status being FAILED exactly for \<open>UNHEALTHY_EXECUTION_DETECTED\<close>.
\<close>

theorem stop_request_accepted_once:
  assumes "initiate_stop_from_request c w r s = (Inr body, s1)"
    and "s2 = run_ops c w ops s1"
  shows "initiate_stop_from_request c w r' s2 =
           (Inl (if sv_shutdown_complete s2 then WorkerAlreadyStopped else StopAlreadyInProgress), s2) \<and>
         (\<exists>q es. runtime_worker_reason_code_value q = canonical_reason_from_stop_request r \<and>
            sv_trace (snd (stop c w a s2)) = sv_trace s2 @ es \<and> list_all (gives_reason q) es)"
proof -
  have accepted: "sv_stop_request_accepted s2 \<and>
      sv_stop_canonical_reason s2 = Some (canonical_reason_from_stop_request r)"
    using latched.ops [of s1 c w ops] request_accepted [OF assms(1)] assms(2)
    by (simp add: latched_stop_def)
  obtain q where q: "canonical_reason_from_stop_request r = runtime_worker_reason_code_value q"
    using stop_request_reason by blast
  then have "tells q s2 (snd (stop c w a s2))"
    using accepted by (intro tells_stop) simp
  moreover obtain st where "cfg_settings c = Some st" "py_strip (st_srm_base_url st) \<noteq> []"
    using assms(1) by (auto simp: initiate_stop_from_request_def act_run split: option.splits if_splits)
  ultimately show ?thesis
    using accepted request_refused [of s2 c st w r'] q unfolding tells_def by auto
qed

lemma sample_request:
  "case initiate_stop_status_update \<lparr>dt_wall = 0, dt_offset = Some 0\<rparr> \<lparr>dt_wall = 0, dt_offset = Some 0\<rparr>
     ''r1'' ''PAPER'' ''d1'' ''http://srm'' ''manual'' of Inr z \<Rightarrow> fst (snd z) \<noteq> None | Inl e \<Rightarrow> False"
  by code_simp

theorem stop_request_accepted_once_witness:
  "\<exists>body s1. initiate_stop_from_request sample_cfg (sample_env\<lparr>env_raises := \<lambda>tr e. None\<rparr>) ''manual''
       initial_svc = (Inr body, s1) \<and>
     (\<exists>q es. runtime_worker_reason_code_value q = canonical_reason_from_stop_request ''manual'' \<and>
        sv_trace (snd (stop sample_cfg (sample_env\<lparr>env_raises := \<lambda>tr e. None\<rparr>) sample_stop
          (run_ops sample_cfg (sample_env\<lparr>env_raises := \<lambda>tr e. None\<rparr>) [OpStart, OpHeartbeat] s1))) =
        sv_trace (run_ops sample_cfg (sample_env\<lparr>env_raises := \<lambda>tr e. None\<rparr>) [OpStart, OpHeartbeat] s1) @ es \<and>
        list_all (gives_reason q) es)"
proof -
  let ?w = "sample_env\<lparr>env_raises := \<lambda>tr e. None\<rparr>"
  obtain body post canonical resolved where upd:
    "initiate_stop_status_update \<lparr>dt_wall = 0, dt_offset = Some 0\<rparr> \<lparr>dt_wall = 0, dt_offset = Some 0\<rparr>
       ''r1'' ''PAPER'' ''d1'' ''http://srm'' ''manual'' = Inr (body, post, canonical, resolved)"
    using sample_request by (auto split: sum.splits)
  have strip: "py_strip ''http://srm'' = ''http://srm''" "py_strip ''d1'' = ''d1''"
    by code_simp+
  have config: "cfg_settings sample_cfg = Some sample_settings" "mode_text sample_cfg = ''PAPER''"
    "ls_runtime_id (cfg_spec sample_cfg) = ''r1''"
    "py_strip (st_srm_base_url sample_settings) = ''http://srm''"
    "py_strip (st_deployment_id sample_settings) = ''d1''"
    "env_now sample_env tr = \<lparr>dt_wall = 0, dt_offset = Some 0\<rparr>"
    "\<not> sv_shutdown_complete initial_svc" "\<not> sv_stop_request_accepted initial_svc"
    "\<not> sv_shutdown_in_progress initial_svc" for tr
    by (simp_all add: mode_text_def sample_cfg_def sample_spec_def sample_settings_def sample_env_def
        initial_svc_def strip)
  obtain s1 where run: "initiate_stop_from_request sample_cfg ?w ''manual'' initial_svc = (Inr body, s1)"
    using upd by (cases post) (simp_all add: initiate_stop_from_request_def act_run config call_def Let_def)
  then show ?thesis
    using stop_request_accepted_once [OF run refl] by blast
qed

end
