(* ===== verification/Shutdown.thy ===== *)
theory Shutdown
  imports InternalAuth LifecycleProps
begin

text \<open>
  The ways a worker is told to stop: \<open>application/cooperative_shutdown.py\<close> (HTTP stop and SIGTERM,
  one shutdown thread), \<open>transport/http/stop_control_server.py\<close> (the HTTP endpoint) and
  \<open>application/worker_control_application.py\<close> (the manager's gRPC calls). The threads of the
  coordinator interleave: a thread's steps are the sections its locks make atomic, and other
  threads may call the lifecycle service between any two of them. The parsing of integers, UTF-8
  and JSON are arguments.
\<close>

section \<open>The coordinator\<close>

datatype thread =
    HttpStop string
  | HttpEnsure pydict
  | HttpSpawn pydict
  | HttpDone "py_exc + pydict"
  | SigReceived
  | SigInitiate
  | SigEnsure
  | SigSpawn
  | SigDone
  | SigStopped
  | SigIgnored
  | ShutdownThread
  | ShutdownDone

record control =
  ct_svc :: svc
  ct_thread_started :: bool
  ct_handler_invoked :: bool
  ct_threads :: "thread list"

definition shutdown_args :: stop_args where
  "shutdown_args =
     \<lparr>sa_emit_termination_signal = False, sa_suppress_stopping_phase_stdout = True,
      sa_termination_reason_code = None, sa_termination_message = None\<rparr>"

definition become :: "nat \<Rightarrow> thread \<Rightarrow> control \<Rightarrow> control" where
  "become i t k = k\<lparr>ct_threads := (ct_threads k)[i := t]\<rparr>"

text \<open>\<open>_ensure_shutdown_thread\<close>: the section under the lock, then the start of the thread.\<close>

definition ensure_shutdown_thread :: "nat \<Rightarrow> thread \<Rightarrow> thread \<Rightarrow> control \<Rightarrow> control" where
  "ensure_shutdown_thread i spawn finished k =
     (if ct_thread_started k then become i finished k
      else become i spawn (k\<lparr>ct_thread_started := True\<rparr>))"

definition spawn_shutdown :: "nat \<Rightarrow> thread \<Rightarrow> control \<Rightarrow> control" where
  "spawn_shutdown i finished k =
     (let k' = become i finished k in k'\<lparr>ct_threads := ct_threads k' @ [ShutdownThread]\<rparr>)"

definition initiate :: "cfg \<Rightarrow> env \<Rightarrow> string \<Rightarrow> (py_exc + pydict \<Rightarrow> thread) \<Rightarrow> nat \<Rightarrow> control \<Rightarrow> control" where
  "initiate c w reason continue i k =
     (case initiate_stop_from_request c w reason (ct_svc k) of
        (r, s) \<Rightarrow> become i (continue r) (k\<lparr>ct_svc := s\<rparr>))"

text \<open>\<open>request_http_stop\<close> lets the exception through, \<open>request_sigterm_shutdown\<close> keeps it.\<close>

definition after_http :: "py_exc + pydict \<Rightarrow> thread" where
  "after_http r = (case r of Inl e \<Rightarrow> HttpDone (Inl e) | Inr body \<Rightarrow> HttpEnsure body)"

definition after_sigterm :: "py_exc + pydict \<Rightarrow> thread" where
  "after_sigterm r = (if r = Inl WorkerAlreadyStopped then SigStopped else SigEnsure)"

fun thread_step :: "cfg \<Rightarrow> env \<Rightarrow> nat \<Rightarrow> thread \<Rightarrow> control \<Rightarrow> control" where
  "thread_step c w i (HttpStop reason) k = initiate c w reason after_http i k"
| "thread_step c w i (HttpEnsure body) k =
     ensure_shutdown_thread i (HttpSpawn body) (HttpDone (Inr body)) k"
| "thread_step c w i (HttpSpawn body) k = spawn_shutdown i (HttpDone (Inr body)) k"
| "thread_step c w i SigReceived k =
     (if ct_handler_invoked k then become i SigIgnored k
      else become i SigInitiate (k\<lparr>ct_handler_invoked := True\<rparr>))"
| "thread_step c w i SigInitiate k = initiate c w KUBERNETES_TERMINATION_REASON after_sigterm i k"
| "thread_step c w i SigEnsure k = ensure_shutdown_thread i SigSpawn SigDone k"
| "thread_step c w i SigSpawn k = spawn_shutdown i SigDone k"
| "thread_step c w i ShutdownThread k =
     become i ShutdownDone (k\<lparr>ct_svc := snd (stop c w shutdown_args (ct_svc k))\<rparr>)"
| "thread_step c w i t k = k"

text \<open>A thread moves, a request or a signal arrives, or another thread uses the service.\<close>

inductive control_step :: "cfg \<Rightarrow> env \<Rightarrow> control \<Rightarrow> control \<Rightarrow> bool" for c w where
  move: "i < length (ct_threads k) \<Longrightarrow> control_step c w k (thread_step c w i (ct_threads k ! i) k)"
| http: "control_step c w k (k\<lparr>ct_threads := ct_threads k @ [HttpStop reason]\<rparr>)"
| sigterm: "control_step c w k (k\<lparr>ct_threads := ct_threads k @ [SigReceived]\<rparr>)"
| other: "control_step c w k (k\<lparr>ct_svc := do_op c w x (ct_svc k)\<rparr>)"

definition initial_control :: "svc \<Rightarrow> control" where
  "initial_control s =
     \<lparr>ct_svc = s, ct_thread_started = False, ct_handler_invoked = False, ct_threads = []\<rparr>"

inductive reached :: "cfg \<Rightarrow> env \<Rightarrow> svc \<Rightarrow> control \<Rightarrow> bool" for c w s where
  start: "reached c w s (initial_control s)"
| step: "reached c w s k \<Longrightarrow> control_step c w k k' \<Longrightarrow> reached c w s k'"

inductive_cases control_stepE: "control_step c w k k'"

section \<open>The HTTP endpoint\<close>

record http_request =
  hq_path :: string
  hq_headers :: "(string \<times> string) list"
  hq_body :: string

record http_parsers =
  hp_int :: "string \<Rightarrow> int option"
  hp_utf8 :: "string \<Rightarrow> string option"
  hp_json :: "string \<Rightarrow> pyval option"
  hp_repr :: "pyval \<Rightarrow> string"

text \<open>A reply, or an exception that leaves the handler, so that no reply is written.\<close>

datatype http_reply = Reply nat pydict | Unanswered py_exc

text \<open>Header names are compared without case, the first header of a name counts.\<close>

definition header_get :: "(string \<times> string) list \<Rightarrow> string \<Rightarrow> string option" where
  "header_get hs name = map_option snd (find (\<lambda>(h, v). py_lower h = py_lower name) hs)"

definition header_dict :: "(string \<times> string) list \<Rightarrow> (string \<times> string) list" where
  "header_dict hs = fold (\<lambda>(h, v) d. dict_set h (case header_get hs h of Some x \<Rightarrow> x | None \<Rightarrow> v) d) hs []"

definition STOP_PATH :: string where
  "STOP_PATH = ''/internal/v1/stop''"

definition error_body :: "string \<Rightarrow> string \<Rightarrow> pydict" where
  "error_body code message = [(''error'', VStr code), (''message'', VStr message)]"

definition request_auth :: "http_request \<Rightarrow> py_exc + unit" where
  "request_auth q =
     rbind (parse_internal_auth_metadata (header_dict (hq_headers q)))
       (\<lambda>auth. require_internal_control auth ''POST /internal/v1/stop'')"

definition read_body :: "http_parsers \<Rightarrow> http_request \<Rightarrow> py_exc + string" where
  "read_body p q =
     (let text = (case header_get (hq_headers q) ''Content-Length'' of Some v \<Rightarrow> v | None \<Rightarrow> ''0'') in
      case (if text = [] then Some 0 else hp_int p text) of
        None \<Rightarrow> Inl (ValueExc ''ValueError'' ''invalid literal for int()'' None)
      | Some n \<Rightarrow> Inr (if n > 0 then take (nat n) (hq_body q) else ''{}''))"

definition read_reason :: "http_parsers \<Rightarrow> string \<Rightarrow> http_reply + string" where
  "read_reason p raw =
     (case hp_utf8 p raw of
        None \<Rightarrow> Inl (Unanswered (ValueExc ''UnicodeDecodeError'' [] None))
      | Some text \<Rightarrow>
          (case hp_json p text of
             None \<Rightarrow> Inl (Reply 400 (error_body ''invalid_json'' ''body must be JSON object''))
           | Some (VDict payload) \<Rightarrow> Inr (str_or_empty (hp_repr p) (get_or_none payload ''reason''))
           | Some _ \<Rightarrow> Inl (Reply 400 (error_body ''invalid_body'' ''body must be JSON object''))))"

text \<open>What \<open>do_POST\<close> does before it calls \<open>on_stop\<close>, and how it answers afterwards.\<close>

definition stop_request :: "http_parsers \<Rightarrow> http_request \<Rightarrow> http_reply + string" where
  "stop_request p q =
     (if rstrip_char CHR ''/'' (hq_path q) \<noteq> rstrip_char CHR ''/'' STOP_PATH
      then Inl (Reply 404 [(''error'', VStr ''not_found'')])
      else
        (case request_auth q of
           Inl e \<Rightarrow> Inl (Reply 403 (error_body ''forbidden'' (exc_text e)))
         | Inr u \<Rightarrow>
             (case read_body p q of
                Inl e \<Rightarrow> Inl (Unanswered e)
              | Inr raw \<Rightarrow> read_reason p raw)))"

definition stop_reply :: "py_exc + pydict \<Rightarrow> http_reply" where
  "stop_reply r =
     (case r of
        Inr body \<Rightarrow> Reply 200 body
      | Inl e \<Rightarrow>
          if exc_type_name e = ''StopAlreadyInProgress'' then Reply 409 (error_body ''conflict'' (exc_text e))
          else if exc_type_name e = ''WorkerAlreadyStopped''
            then Reply 409 (error_body ''already_stopped'' (exc_text e))
          else Unanswered e)"

text \<open>The whole request, as one call of the coordinator without interference.\<close>

definition request_http_stop :: "cfg \<Rightarrow> env \<Rightarrow> string \<Rightarrow> control \<Rightarrow> (py_exc + pydict) \<times> control" where
  "request_http_stop c w reason k =
     (case initiate_stop_from_request c w reason (ct_svc k) of
        (Inl e, s) \<Rightarrow> (Inl e, k\<lparr>ct_svc := s\<rparr>)
      | (Inr body, s) \<Rightarrow>
          (Inr body,
           if ct_thread_started k then k\<lparr>ct_svc := s\<rparr>
           else k\<lparr>ct_svc := s, ct_thread_started := True, ct_threads := ct_threads k @ [ShutdownThread]\<rparr>))"

definition do_POST :: "cfg \<Rightarrow> env \<Rightarrow> http_parsers \<Rightarrow> http_request \<Rightarrow> control \<Rightarrow> http_reply \<times> control" where
  "do_POST c w p q k =
     (case stop_request p q of
        Inl reply \<Rightarrow> (reply, k)
      | Inr reason \<Rightarrow>
          (case request_http_stop c w reason k of (r, k') \<Rightarrow> (stop_reply r, k')))"

section \<open>The manager's calls\<close>

definition canonical_worker_identity :: "launch_spec \<Rightarrow> string" where
  "canonical_worker_identity sp =
     ls_runtime_id sp @ '':'' @ ls_strategy_version_id sp @ '':'' @ int_str (ls_launch_attempt sp)"

definition control_reply ::
  "cfg \<Rightarrow> pydatetime \<Rightarrow> bool \<Rightarrow> string \<Rightarrow> string \<Rightarrow> pydict lc" where
  "control_reply c now accepted rcode message =
     act_with sv_phase (\<lambda>phase. act_ret
       ([(''accepted'', VBool accepted), (''runtime_id'', VStr (ls_runtime_id (cfg_spec c))),
         (''worker_identity'', VStr (canonical_worker_identity (cfg_spec c))),
         (''local_state'', VStr (worker_phase_value phase)), (''reason_code'', VStr rcode)] @
        (if accepted then [] else [(''error_code'', VStr (worker_error_code_value WE_INVALID_REQUEST))]) @
        [(''accepted_at'', VTime now), (''message'', VStr message)]))"

definition create_worker :: "cfg \<Rightarrow> env \<Rightarrow> launch_spec \<Rightarrow> pydict lc" where
  "create_worker c w sp =
     act_with (\<lambda>s. env_now w (sv_trace s)) (\<lambda>now.
       let refuse = (\<lambda>r f. control_reply c now False (normalize_runtime_reason_code (Some r))
             (''CreateWorker rejected: '' @ f @ '' does not match this process.'')) in
       if ls_runtime_id sp \<noteq> ls_runtime_id (cfg_spec c)
         then refuse ''runtime_id_mismatch'' ''runtime_id''
       else if ls_launch_attempt sp \<noteq> ls_launch_attempt (cfg_spec c)
         then refuse ''launch_attempt_mismatch'' ''launch_attempt''
       else if ls_strategy_version_id sp \<noteq> ls_strategy_version_id (cfg_spec c)
         then refuse ''strategy_version_id_mismatch'' ''strategy_version_id''
       else control_reply c now True (runtime_worker_reason_code_value RC_CONTROLLED_SHUTDOWN_INITIATED)
         ''CreateWorker accepted: launch metadata matches this worker.'')"

definition stop_worker_args :: stop_args where
  "stop_worker_args =
     \<lparr>sa_emit_termination_signal = False, sa_suppress_stopping_phase_stdout = True,
      sa_termination_reason_code = Some ''STOP_REQUESTED'', sa_termination_message = None\<rparr>"

definition stop_worker :: "cfg \<Rightarrow> env \<Rightarrow> string \<Rightarrow> pydict lc" where
  "stop_worker c w runtime_id =
     act_with (\<lambda>s. env_now w (sv_trace s)) (\<lambda>now.
       if runtime_id \<noteq> ls_runtime_id (cfg_spec c) then
         control_reply c now False (normalize_runtime_reason_code (Some ''identity_mismatch''))
           ''StopWorker rejected: stop command does not target this worker.''
       else act_then (record_manager_stop_request_checkpoint c w)
         (act_then (initiate_stop_from_request c w ''STOP_REQUESTED'')
           (act_then (stop c w stop_worker_args)
             (control_reply c now True ''STOP_REQUESTED'' ''StopWorker accepted; worker shutdown complete.''))))"

definition check_health :: "cfg \<Rightarrow> string \<Rightarrow> pydict lc" where
  "check_health c runtime_id =
     act_with sv_phase (\<lambda>phase. act_ret [(''state'', VStr (worker_phase_value phase))])"

section \<open>Counting threads\<close>

fun is_shutdown :: "thread \<Rightarrow> bool" where
  "is_shutdown (HttpSpawn body) = True"
| "is_shutdown SigSpawn = True"
| "is_shutdown ShutdownThread = True"
| "is_shutdown ShutdownDone = True"
| "is_shutdown _ = False"

fun is_accepted :: "thread \<Rightarrow> bool" where
  "is_accepted (HttpEnsure body) = True"
| "is_accepted (HttpSpawn body) = True"
| "is_accepted (HttpDone r) = (\<not> isl r)"
| "is_accepted _ = False"

fun is_served :: "thread \<Rightarrow> bool" where
  "is_served (HttpSpawn body) = True"
| "is_served (HttpDone r) = (\<not> isl r)"
| "is_served SigSpawn = True"
| "is_served SigDone = True"
| "is_served _ = False"

fun is_signal :: "thread \<Rightarrow> bool" where
  "is_signal SigInitiate = True"
| "is_signal SigEnsure = True"
| "is_signal SigSpawn = True"
| "is_signal SigDone = True"
| "is_signal SigStopped = True"
| "is_signal _ = False"

fun is_finished :: "thread \<Rightarrow> bool" where
  "is_finished (HttpDone r) = True"
| "is_finished SigDone = True"
| "is_finished SigStopped = True"
| "is_finished SigIgnored = True"
| "is_finished ShutdownDone = True"
| "is_finished _ = False"

definition thread_count :: "(thread \<Rightarrow> bool) \<Rightarrow> control \<Rightarrow> nat" where
  "thread_count P k = length (filter P (ct_threads k))"

lemma filter_update_length:
  "i < length xs \<Longrightarrow>
     length (filter P (xs[i := x])) + of_bool (P (xs ! i)) = length (filter P xs) + of_bool (P x)"
  using arg_cong [OF id_take_nth_drop [of i xs], of "\<lambda>ys. length (filter P ys)"]
  by (simp add: upd_conv_take_nth_drop del: append_take_drop_id)

lemma count_become:
  assumes "i < length (ct_threads k)"
  shows "P (ct_threads k ! i) = P t \<Longrightarrow> thread_count P (become i t k) = thread_count P k"
    and "\<not> P (ct_threads k ! i) \<Longrightarrow> P t \<Longrightarrow> thread_count P (become i t k) = Suc (thread_count P k)"
    and "P (ct_threads k ! i) \<Longrightarrow> \<not> P t \<Longrightarrow> thread_count P (become i t k) = thread_count P k - 1"
  using filter_update_length [OF assms, of P t] by (simp_all add: thread_count_def become_def)

lemma count_pos: "0 < thread_count P k \<longleftrightarrow> (\<exists>t\<in>set (ct_threads k). P t)"
  by (auto simp: thread_count_def filter_empty_conv)

lemma count_here: "i < length (ct_threads k) \<Longrightarrow> P (ct_threads k ! i) \<Longrightarrow> 0 < thread_count P k"
  unfolding count_pos by (meson nth_mem)

lemma count_fields [simp]:
  "thread_count P (k\<lparr>ct_svc := s\<rparr>) = thread_count P k"
  "thread_count P (k\<lparr>ct_thread_started := b\<rparr>) = thread_count P k"
  "thread_count P (k\<lparr>ct_handler_invoked := b\<rparr>) = thread_count P k"
  "thread_count P (k\<lparr>ct_threads := ct_threads k @ [t]\<rparr>) = thread_count P k + (if P t then 1 else 0)"
  by (simp_all add: thread_count_def)

lemma become_fields [simp]:
  "ct_svc (become i t k) = ct_svc k" "ct_thread_started (become i t k) = ct_thread_started k"
  "ct_handler_invoked (become i t k) = ct_handler_invoked k"
  "length (ct_threads (become i t k)) = length (ct_threads k)"
  by (simp_all add: become_def)

definition control_inv :: "control \<Rightarrow> bool" where
  "control_inv k \<longleftrightarrow>
     thread_count is_shutdown k = (if ct_thread_started k then 1 else 0) \<and>
     thread_count is_accepted k \<le> (if sv_stop_request_accepted (ct_svc k) then 1 else 0) \<and>
     (0 < thread_count is_served k) = ct_thread_started k \<and>
     thread_count is_signal k = (if ct_handler_invoked k then 1 else 0) \<and>
     (0 < thread_count ((=) SigIgnored) k \<longrightarrow> ct_handler_invoked k)"

lemma request_result:
  assumes "initiate_stop_from_request c w r s = (res, s')"
  shows "(sv_stop_request_accepted s \<longrightarrow> sv_stop_request_accepted s' \<and> isl res) \<and>
    (\<not> isl res \<longrightarrow> sv_stop_request_accepted s' \<and> \<not> sv_stop_request_accepted s \<and>
       \<not> sv_shutdown_complete s \<and> sv_shutdown_complete s' = sv_shutdown_complete s) \<and>
    (isl res \<longrightarrow> sv_stop_request_accepted s' = sv_stop_request_accepted s)"
  using assms
  by (auto simp: initiate_stop_from_request_def act_run call_def Let_def
      split: option.splits if_splits sum.splits prod.splits)

text \<open>A thread that changes only its own state.\<close>

lemma initiate_inv:
  assumes "control_inv k" "i < length (ct_threads k)"
    and "ct_threads k ! i = HttpStop r \<and> f = after_http \<or> ct_threads k ! i = SigInitiate \<and> f = after_sigterm"
  shows "control_inv (initiate c w reason f i k)"
proof -
  obtain res s where run: "initiate_stop_from_request c w reason (ct_svc k) = (res, s)"
    by (cases "initiate_stop_from_request c w reason (ct_svc k)")
  have len: "i < length (ct_threads (k\<lparr>ct_svc := s\<rparr>))" using assms(2) by simp
  show ?thesis
    using assms(3)
  proof (elim disjE conjE)
    assume "ct_threads k ! i = HttpStop r" "f = after_http"
    then show ?thesis
      using assms(1) request_result [OF run]
      by (cases res) (simp_all add: initiate_def run control_inv_def count_become [OF len] after_http_def
          split: if_splits)
  next
    assume "ct_threads k ! i = SigInitiate" "f = after_sigterm"
    then show ?thesis
      using assms(1) request_result [OF run]
      by (auto simp: initiate_def run control_inv_def count_become [OF len] after_sigterm_def split: if_splits)
  qed
qed

lemma ensure_inv:
  assumes "control_inv k" "i < length (ct_threads k)"
    and "ct_threads k ! i = HttpEnsure body \<and> spawn = HttpSpawn body \<and> finished = HttpDone (Inr body) \<or>
      ct_threads k ! i = SigEnsure \<and> spawn = SigSpawn \<and> finished = SigDone"
  shows "control_inv (ensure_shutdown_thread i spawn finished k)"
proof -
  have len: "i < length (ct_threads (k\<lparr>ct_thread_started := True\<rparr>))" using assms(2) by simp
  show ?thesis
    using assms(3,1)
    by (cases "ct_thread_started k"; elim disjE conjE)
      (simp_all add: ensure_shutdown_thread_def control_inv_def count_become [OF assms(2)]
        count_become [OF len])
qed

lemma spawn_inv:
  assumes "control_inv k" "i < length (ct_threads k)"
    and "ct_threads k ! i = HttpSpawn body \<and> finished = HttpDone (Inr body) \<or>
      ct_threads k ! i = SigSpawn \<and> finished = SigDone"
  shows "control_inv (spawn_shutdown i finished k)"
proof -
  have "0 < thread_count is_shutdown k" using assms(3) by (intro count_here [OF assms(2)]) auto
  then show ?thesis
    using assms(3,1)
    by (elim disjE conjE)
      (simp_all add: spawn_shutdown_def Let_def control_inv_def count_become [OF assms(2)] split: if_splits)
qed

lemma latched_accepted: "latched_stop s t \<Longrightarrow> sv_stop_request_accepted s \<Longrightarrow> sv_stop_request_accepted t"
  by (simp add: latched_stop_def)

lemma control_inv_svc:
  "control_inv k \<Longrightarrow> latched_stop (ct_svc k) s \<Longrightarrow> control_inv (k\<lparr>ct_svc := s\<rparr>)"
  using latched_accepted [of "ct_svc k" s] by (auto simp: control_inv_def split: if_splits)

lemma thread_step_inv:
  assumes "control_inv k" "i < length (ct_threads k)"
  shows "control_inv (thread_step c w i (ct_threads k ! i) k)"
proof (cases "ct_threads k ! i")
  case ShutdownThread
  have "control_inv (k\<lparr>ct_svc := snd (stop c w shutdown_args (ct_svc k))\<rparr>)"
    using control_inv_svc [OF assms(1)] movesD [OF latched.stop] by blast
  moreover have "i < length (ct_threads (k\<lparr>ct_svc := snd (stop c w shutdown_args (ct_svc k))\<rparr>))"
    using assms(2) by simp
  ultimately show ?thesis
    using ShutdownThread by (simp add: control_inv_def count_become)
next
  case SigReceived
  have "i < length (ct_threads (k\<lparr>ct_handler_invoked := True\<rparr>))" using assms(2) by simp
  then show ?thesis
    using assms SigReceived by (auto simp: control_inv_def count_become split: if_splits)
qed (use assms initiate_inv ensure_inv spawn_inv in auto)

lemma reached_inv: "reached c w s k \<Longrightarrow> control_inv k"
proof (induction rule: reached.induct)
  case start
  then show ?case by (simp add: control_inv_def initial_control_def thread_count_def)
next
  case (step k k')
  from step.hyps(2) show ?case
  proof (cases rule: control_step.cases)
    case (move i)
    then show ?thesis using thread_step_inv [OF step.IH] by simp
  next
    case (other x)
    then show ?thesis using control_inv_svc [OF step.IH latched.op] by simp
  qed (use step.IH in \<open>simp_all add: control_inv_def\<close>)
qed

text \<open>
  C7: however HTTP stops, SIGTERMs and other uses of the service interleave, at most one
  shutdown thread is ever started and at most one HTTP stop is accepted; once all threads have
  finished, exactly one shutdown has run if a stop was accepted or a signal served, and none
  otherwise; and a signal that arrived was either served or found the worker already stopped.
\<close>

theorem one_shutdown_thread:
  assumes "reached c w s k"
  shows "thread_count is_shutdown k \<le> 1 \<and> thread_count is_accepted k \<le> 1 \<and>
    ((\<forall>t\<in>set (ct_threads k). is_finished t) \<longrightarrow>
       thread_count ((=) ShutdownDone) k = (if \<exists>t\<in>set (ct_threads k). is_served t then 1 else 0) \<and>
       ((\<exists>t\<in>set (ct_threads k). t = SigIgnored \<or> is_signal t) \<longrightarrow>
          SigStopped \<in> set (ct_threads k) \<or> SigDone \<in> set (ct_threads k)))"
proof -
  note inv = reached_inv [OF assms, unfolded control_inv_def]
  have done_only: "thread_count is_shutdown k = thread_count ((=) ShutdownDone) k"
    if "\<forall>t\<in>set (ct_threads k). is_finished t"
    unfolding thread_count_def
    by (rule arg_cong [OF filter_cong]) (use that in \<open>auto elim: is_finished.elims(2) is_shutdown.elims(2)\<close>)
  have "SigStopped \<in> set (ct_threads k) \<or> SigDone \<in> set (ct_threads k)"
    if "\<forall>t\<in>set (ct_threads k). is_finished t" "t \<in> set (ct_threads k)" "t = SigIgnored \<or> is_signal t" for t
  proof -
    have "0 < thread_count is_signal k"
      using that inv count_pos [of "(=) SigIgnored" k] count_pos [of is_signal k] by (auto split: if_splits)
    then obtain u where "u \<in> set (ct_threads k)" "is_signal u" by (auto simp: count_pos)
    then show ?thesis using that(1) by (cases u rule: thread.exhaust) auto
  qed
  then show ?thesis
    using inv done_only count_pos [of is_served k] by (auto split: if_splits)
qed

text \<open>Schedules of the threads that there are; an HTTP stop and a SIGTERM at the same time.\<close>

fun schedule :: "cfg \<Rightarrow> env \<Rightarrow> nat list \<Rightarrow> control \<Rightarrow> control" where
  "schedule c w [] k = k"
| "schedule c w (i # is) k =
     (if i < length (ct_threads k) then schedule c w is (thread_step c w i (ct_threads k ! i) k)
      else schedule c w is k)"

lemma reached_schedule: "reached c w s k \<Longrightarrow> reached c w s (schedule c w is k)"
  by (induction "is" arbitrary: k) (auto intro: reached.step control_step.move)

definition two_requests :: control where
  "two_requests = (initial_control initial_svc)\<lparr>ct_threads := [HttpStop ''manual'', SigReceived]\<rparr>"

lemma reached_two: "reached c w initial_svc two_requests"
proof -
  have "reached c w initial_svc
      ((initial_control initial_svc)\<lparr>ct_threads := ct_threads (initial_control initial_svc) @ [HttpStop ''manual'']\<rparr>)"
    by (rule reached.step [OF reached.start control_step.http])
  from reached.step [OF this control_step.sigterm] show ?thesis
    by (simp add: two_requests_def initial_control_def)
qed

text \<open>Without a manager URL: the HTTP stop is refused, the signal shuts the worker down.\<close>

definition unmanaged_cfg :: cfg where
  "unmanaged_cfg = sample_cfg\<lparr>cfg_settings := None, cfg_journal := False\<rparr>"

lemma unmanaged_request:
  "initiate_stop_from_request unmanaged_cfg w r s =
     (Inl (RuntimeError ''worker_runtime_settings required for stop API''), s)"
  by (simp add: initiate_stop_from_request_def unmanaged_cfg_def act_run)

lemma unmanaged_threads:
  "ct_threads (schedule unmanaged_cfg w [0, 1, 1, 1, 1, 2] two_requests) =
     [HttpDone (Inl (RuntimeError ''worker_runtime_settings required for stop API'')), SigDone, ShutdownDone]"
  by (simp add: two_requests_def initial_control_def initiate_def unmanaged_request after_http_def
      after_sigterm_def become_def ensure_shutdown_thread_def spawn_shutdown_def Let_def RuntimeError_def
      WorkerAlreadyStopped_def)

theorem one_shutdown_thread_witness:
  "let k = schedule unmanaged_cfg sample_env [0, 1, 1, 1, 1, 2] two_requests in
   (\<forall>t\<in>set (ct_threads k). is_finished t) \<and> thread_count ((=) ShutdownDone) k = 1"
  using one_shutdown_thread [OF reached_schedule [OF reached_two],
      of unmanaged_cfg sample_env "[0, 1, 1, 1, 1, 2]"] unmanaged_threads [of sample_env]
  by (simp add: Let_def del: schedule.simps)

section \<open>What the endpoints promise\<close>

lemma http_stop_run:
  assumes "request_http_stop c w reason k = (r, k')"
  shows "if isl r then ct_threads k' = ct_threads k \<and> ct_thread_started k' = ct_thread_started k \<and>
      sv_stop_request_accepted (ct_svc k') = sv_stop_request_accepted (ct_svc k)
    else ct_thread_started k' \<and> sv_stop_request_accepted (ct_svc k') \<and> \<not> sv_stop_request_accepted (ct_svc k)"
proof -
  obtain x s where run: "initiate_stop_from_request c w reason (ct_svc k) = (x, s)"
    by (cases "initiate_stop_from_request c w reason (ct_svc k)")
  show ?thesis
    using assms request_result [OF run] run
    by (cases x) (auto simp: request_http_stop_def split: if_splits)
qed

lemma authorised_trust:
  "request_auth q = Inr () \<Longrightarrow>
     first_present (normalize_metadata (header_dict (hq_headers q))) TRUST_CLASS_HEADER_CANDIDATES =
       Some (internal_privilege_value RUNTIME_CONTROL) \<and>
     first_present (normalize_metadata (header_dict (hq_headers q))) CALLER_HEADER_CANDIDATES \<noteq> None"
  by (auto simp: request_auth_def result_simps parse_internal_auth_metadata_def Let_def
      require_internal_control_def require_trust_def split: option.splits)

lemma read_reason_Inl: "read_reason p raw = Inl (Reply n body) \<Longrightarrow> n = 400"
  by (auto simp: read_reason_def split: option.splits pyval.splits)

lemma stop_request_Inl: "stop_request p q = Inl (Reply n body) \<Longrightarrow> n \<in> {400, 403, 404}"
  by (auto simp: stop_request_def split: if_splits sum.splits dest: read_reason_Inl)

lemma stop_request_Inr: "stop_request p q = Inr reason \<Longrightarrow> request_auth q = Inr ()"
  by (auto simp: stop_request_def split: if_splits sum.splits)

lemma stop_reply_status:
  "stop_reply r = Reply n body \<Longrightarrow> n = (if isl r then 409 else 200)"
  by (auto simp: stop_reply_def Let_def split: sum.splits if_splits)

text \<open>
  C27: the stop endpoint answers 200 exactly for a request that newly accepted a stop, and such a
  request named a caller and the control trust class; the shutdown thread has been started then.
  With any other answer, and when the handler dies without one, no stop was accepted and no
  thread was started.
\<close>

theorem stop_endpoint_answers:
  assumes "do_POST c w p q k = (reply, k')"
  shows "if \<exists>body. reply = Reply 200 body
    then ct_thread_started k' \<and> sv_stop_request_accepted (ct_svc k') \<and>
      \<not> sv_stop_request_accepted (ct_svc k) \<and>
      first_present (normalize_metadata (header_dict (hq_headers q))) TRUST_CLASS_HEADER_CANDIDATES =
        Some (internal_privilege_value RUNTIME_CONTROL) \<and>
      first_present (normalize_metadata (header_dict (hq_headers q))) CALLER_HEADER_CANDIDATES \<noteq> None
    else (\<forall>n body. reply = Reply n body \<longrightarrow> n \<in> {400, 403, 404, 409}) \<and>
      ct_threads k' = ct_threads k \<and> ct_thread_started k' = ct_thread_started k \<and>
      sv_stop_request_accepted (ct_svc k') = sv_stop_request_accepted (ct_svc k)"
proof (cases "stop_request p q")
  case (Inl early)
  then have "reply = early" "k' = k" using assms by (simp_all add: do_POST_def)
  then show ?thesis using Inl by (cases early) (auto dest: stop_request_Inl)
next
  case (Inr reason)
  obtain r k1 where run: "request_http_stop c w reason k = (r, k1)"
    by (cases "request_http_stop c w reason k")
  then have same: "reply = stop_reply r" "k' = k1" using assms Inr by (simp_all add: do_POST_def)
  show ?thesis
  proof (cases r)
    case (Inr body)
    then have "reply = Reply 200 body" using same by (simp add: stop_reply_def)
    then show ?thesis
      using http_stop_run [OF run] Inr same authorised_trust [OF stop_request_Inr [OF \<open>stop_request p q = Inr reason\<close>]]
      by simp
  next
    case (Inl e)
    have "n = 409" if "reply = Reply n body" for n body
      using stop_reply_status [of r n body] that same Inl by simp
    then show ?thesis using http_stop_run [OF run] Inl same by auto
  qed
qed

definition sample_parsers :: http_parsers where
  "sample_parsers = \<lparr>hp_int = (\<lambda>s. Some 2), hp_utf8 = Some, hp_json = (\<lambda>s. Some (VDict [])), hp_repr = (\<lambda>v. [])\<rparr>"

definition untrusted_request :: http_request where
  "untrusted_request = \<lparr>hq_path = ''/internal/v1/stop/'',
     hq_headers = [(''X-Internal-Caller'', ''srm''), (''X-Internal-Trust-Class'', ''internal:runtimes:substrate'')],
     hq_body = ''{}''\<rparr>"

theorem stop_endpoint_answers_witness:
  "case do_POST sample_cfg sample_env sample_parsers untrusted_request (initial_control initial_svc) of
     (reply, k') \<Rightarrow> (\<forall>body. reply \<noteq> Reply 200 body) \<and> ct_threads k' = []"
proof -
  obtain reply k' where run: "do_POST sample_cfg sample_env sample_parsers untrusted_request
      (initial_control initial_svc) = (reply, k')" by (metis surj_pair)
  have "first_present (normalize_metadata (header_dict (hq_headers untrusted_request)))
      TRUST_CLASS_HEADER_CANDIDATES = Some ''internal:runtimes:substrate''"
    by code_simp
  then show ?thesis
    using stop_endpoint_answers [OF run] run by (auto simp: initial_control_def split: if_splits)
qed

lemma control_reply_run:
  "\<exists>reply. control_reply c now b r m s = (Inr reply, s) \<and> dict_get reply ''accepted'' = Some (VBool b)"
  by (simp add: control_reply_def act_run)

lemma request_fields:
  assumes "initiate_stop_from_request c w r s = (Inr body, s')"
  shows "sv_shutdown_complete s' = sv_shutdown_complete s \<and> \<not> sv_shutdown_complete s \<and>
    \<not> sv_shutdown_in_progress s \<and> \<not> sv_stop_request_accepted s"
  using assms
  by (auto simp: initiate_stop_from_request_def act_run call_def Let_def
      split: option.splits if_splits sum.splits prod.splits)

lemma checkpoint_fields:
  assumes "record_manager_stop_request_checkpoint c w s = (x, s')"
  shows "sv_shutdown_complete s' = sv_shutdown_complete s \<and> sv_stop_request_accepted s' = sv_stop_request_accepted s \<and>
    sv_shutdown_in_progress s' = sv_shutdown_in_progress s"
  using assms
  by (auto simp: record_manager_stop_request_checkpoint_def act_run call_def Let_def
      split: option.splits if_splits)

text \<open>
  StopWorker for another runtime is refused and changes nothing. For this runtime a call that
  returns has shut the worker down: it is STOPPED and the shutdown complete; when a stop was
  already accepted, under way or complete, the call raises instead of answering.
\<close>

lemma stop_worker_outcome:
  "(if runtime_id = ls_runtime_id (cfg_spec c) then
      (case stop_worker c w runtime_id s of
         (Inr reply, s') \<Rightarrow>
           dict_get reply ''accepted'' = Some (VBool True) \<and> sv_shutdown_complete s' \<and>
           sv_phase s' = WP_STOPPED \<and>
           (sv_shutdown_complete s, sv_shutdown_in_progress s, sv_stop_request_accepted s) =
             (False, False, False)
       | (Inl e, s') \<Rightarrow> True)
    else \<exists>reply. stop_worker c w runtime_id s = (Inr reply, s) \<and>
           dict_get reply ''accepted'' = Some (VBool False))"
proof (cases "runtime_id = ls_runtime_id (cfg_spec c)")
  case False
  then show ?thesis
    using control_reply_run [of c _ False _ _ s] by (simp add: stop_worker_def act_run)
next
  case True
  have "dict_get reply ''accepted'' = Some (VBool True) \<and> sv_shutdown_complete s' \<and> sv_phase s' = WP_STOPPED \<and>
      \<not> sv_shutdown_complete s \<and> \<not> sv_shutdown_in_progress s \<and> \<not> sv_stop_request_accepted s"
    if ran: "stop_worker c w runtime_id s = (Inr reply, s')" for reply s'
  proof -
    obtain s1 body s2 b s3 where steps: "record_manager_stop_request_checkpoint c w s = (Inr (), s1)"
      "initiate_stop_from_request c w ''STOP_REQUESTED'' s1 = (Inr body, s2)"
      "stop c w stop_worker_args s2 = (Inr b, s3)"
      and reply: "control_reply c (env_now w (sv_trace s)) True ''STOP_REQUESTED''
          ''StopWorker accepted; worker shutdown complete.'' s3 = (Inr reply, s')"
      using ran True
      by (auto simp: stop_worker_def act_run split: sum.splits prod.splits)
    have fresh: "\<not> sv_shutdown_complete s2" "\<not> sv_shutdown_complete s" "\<not> sv_shutdown_in_progress s"
      "\<not> sv_stop_request_accepted s"
      using request_fields [OF steps(2)] checkpoint_fields [OF steps(1)] by simp_all
    have "b" using refines_stop [OF steps(3)] fresh(1) by (auto split: if_splits)
    then have "sv_shutdown_complete s3 \<and> sv_phase s3 = WP_STOPPED"
      using stopped_fields [of c w stop_worker_args s2 s3] steps(3)
      by (simp add: final_phase_def stop_worker_args_def)
    then show ?thesis
      using fresh reply control_reply_run [of c "env_now w (sv_trace s)" True "''STOP_REQUESTED''"
          "''StopWorker accepted; worker shutdown complete.''" s3] by auto
  qed
  then show ?thesis using True by (auto split: sum.split)
qed

text \<open>
  CreateWorker is accepted exactly when runtime, attempt and version are those of this
  process, and never changes anything; the health check answers the phase for every runtime.
\<close>

lemma create_worker_accepts:
  "\<exists>reply. create_worker c w sp s = (Inr reply, s) \<and>
     dict_get reply ''accepted'' = Some (VBool
       (ls_runtime_id sp = ls_runtime_id (cfg_spec c) \<and>
        ls_launch_attempt sp = ls_launch_attempt (cfg_spec c) \<and>
        ls_strategy_version_id sp = ls_strategy_version_id (cfg_spec c))) \<and>
     check_health c other s = (Inr [(''state'', VStr (worker_phase_value (sv_phase s)))], s)"
  by (simp add: create_worker_def act_run Let_def control_reply_def check_health_def)

end
