(* ===== verification/WorkerApp.thy ===== *)
theory WorkerApp
  imports Shutdown
begin

text \<open>
  \<open>application/worker_app.py\<close>: the main thread after start-up. It polls the lifecycle service; what
  other threads do to the service during its n-th sleep is the argument \<open>aw_others\<close>, and
  \<open>aw_interrupt\<close> tells in which sleeps the operator interrupts it. The loops run on fuel, one unit
  for each poll; the time stamp and the JSON text of the printed status line are left out.
\<close>

record app_world =
  aw_others :: "nat \<Rightarrow> svc \<Rightarrow> svc"
  aw_interrupt :: "nat \<Rightarrow> bool"

datatype poll_exit = Left nat | JobCompleted | Interrupted | Waiting

definition job_completed_args :: stop_args where
  "job_completed_args =
     \<lparr>sa_emit_termination_signal = True, sa_suppress_stopping_phase_stdout = False,
      sa_termination_reason_code = Some ''RUNTIME_JOB_COMPLETED'', sa_termination_message = None\<rparr>"

definition interrupted_args :: stop_args where
  "interrupted_args =
     \<lparr>sa_emit_termination_signal = True, sa_suppress_stopping_phase_stdout = False,
      sa_termination_reason_code = Some ''MANUAL_STOP_REQUESTED'',
      sa_termination_message = Some ''Interrupted by operator (Ctrl+C).''\<rparr>"

text \<open>The two loops differ in their condition and in the line the first prints.\<close>

definition awaits_data :: "svc \<Rightarrow> bool" where
  "awaits_data s \<longleftrightarrow> sv_phase s \<in> {WP_READY, WP_RUNNING} \<and> \<not> sv_first_data_received s"

definition stays_up :: "svc \<Rightarrow> bool" where
  "stays_up s \<longleftrightarrow> sv_phase s \<in> {WP_READY, WP_RUNNING, WP_FAILED}"

primrec poll_loop ::
  "cfg \<Rightarrow> env \<Rightarrow> app_world \<Rightarrow> (svc \<Rightarrow> bool) \<Rightarrow> unit lc \<Rightarrow> nat \<Rightarrow> nat \<Rightarrow> poll_exit lc" where
  "poll_loop c w aw goes_on note 0 n = act_ret Waiting"
| "poll_loop c w aw goes_on note (Suc fuel) n =
     act_with id (\<lambda>s.
       if \<not> goes_on s then act_ret (Left n)
       else if should_stop_for_completed_backtest_job c s then
         act_bind (stop c w job_completed_args) (\<lambda>_. act_ret JobCompleted)
       else act_then note
         (if aw_interrupt aw n then act_ret Interrupted
          else act_then (act_modify (aw_others aw n)) (poll_loop c w aw goes_on note fuel (n + 1))))"

definition print_waiting :: "unit lc" where
  "print_waiting = say (PrintText ''Waiting for data'')"

definition waiting_status :: "cfg \<Rightarrow> bool \<Rightarrow> pydict" where
  "waiting_status c startup_failed =
     [(''event_id'', VStr ''worker_waiting_for_data''),
      (''event_name'', VStr ''worker.state.waiting_for_manager''), (''event_version'', VInt 1),
      (''producer'', VStr ''strategy-worker-runtime''), (''correlation_id'', VStr []),
      (''causation_id'', VStr []), (''tenant_id'', VStr (ls_tenant_id (cfg_spec c))),
      (''account_id'', VStr (or_empty (ls_account_id (cfg_spec c)))),
      (''runtime_id'', VStr (ls_runtime_id (cfg_spec c))),
      (''worker_identity'', VStr (worker_identity_value c)),
      (''launch_attempt'', VInt (ls_launch_attempt (cfg_spec c))),
      (''strategy_version_id'', VStr (ls_strategy_version_id (cfg_spec c))),
      (''payload'', VDict [(''reason_code'', VStr
         (if startup_failed then ''BOOTSTRAP_FAILED_AWAIT_MANAGER_CONTROL'' else ''AWAIT_MANAGER_CONTROL''))])]"

text \<open>The two loops in their order; a completed job in the first one ends the whole method.\<close>

definition poll :: "cfg \<Rightarrow> env \<Rightarrow> app_world \<Rightarrow> nat \<Rightarrow> bool \<Rightarrow> poll_exit lc" where
  "poll c w aw fuel startup_failed =
     act_bind (if startup_failed then act_ret (Left 0)
               else poll_loop c w aw awaits_data print_waiting fuel 0) (\<lambda>exit.
       case exit of
         Left n \<Rightarrow> poll_loop c w aw stays_up (act_ret ()) fuel n
       | _ \<Rightarrow> act_ret exit)"

definition on_interrupt :: "cfg \<Rightarrow> env \<Rightarrow> unit lc" where
  "on_interrupt c w = act_with sv_phase (\<lambda>p. act_when (p \<notin> {WP_STOPPED, WP_COMPLETED})
     (act_bind (stop c w interrupted_args) (\<lambda>_. act_ret ())))"

definition app_run :: "cfg \<Rightarrow> env \<Rightarrow> app_world \<Rightarrow> nat \<Rightarrow> poll_exit lc" where
  "app_run c w aw fuel =
     act_bind (act_catch (act_then (run c w) (act_ret False)) (\<lambda>_. act_ret True)) (\<lambda>startup_failed.
     act_then (say (Print (waiting_status c startup_failed)))
       (act_bind (poll c w aw fuel startup_failed) (\<lambda>exit.
          act_then (act_when (exit = Interrupted) (on_interrupt c w)) (act_ret exit))))"

section \<open>How the main thread ends\<close>

lemma completed_job_stop:
  assumes "should_stop_for_completed_backtest_job c s" and "stop c w job_completed_args s = (Inr b, s')"
  shows "sv_shutdown_complete s' \<and> sv_phase s' = WP_COMPLETED"
proof -
  have "\<not> sv_shutdown_complete s" and mode: "ls_mode (cfg_spec c) = BACKTEST"
    using assms(1) by (auto simp: should_stop_for_completed_backtest_job_def split: if_splits)
  then have "b" using refines_stop [OF assms(2)] by (auto split: if_splits)
  then show ?thesis
    using stopped_fields [of c w job_completed_args s s'] assms(2) mode
    by (simp add: final_phase_def job_completed_args_def)
qed

lemma poll_loop_exit:
  assumes "poll_loop c w aw goes_on note fuel n s = (Inr exit, s')"
  shows "case exit of
      Left m \<Rightarrow> \<not> goes_on s'
    | JobCompleted \<Rightarrow> sv_shutdown_complete s' \<and> sv_phase s' = WP_COMPLETED
    | _ \<Rightarrow> True"
  using assms
proof (induction fuel arbitrary: n s)
  case 0
  then show ?case by (simp add: act_run)
next
  case (Suc fuel)
  show ?case
  proof (cases "goes_on s \<and> \<not> should_stop_for_completed_backtest_job c s \<and> \<not> aw_interrupt aw n")
    case True
    then obtain u t where "note s = (Inr u, t)"
      "poll_loop c w aw goes_on note fuel (n + 1) (aw_others aw n t) = (Inr exit, s')"
      using Suc.prems by (auto simp: act_run split: sum.splits prod.splits)
    then show ?thesis using Suc.IH by blast
  next
    case False
    then show ?thesis
      using Suc.prems completed_job_stop [of c s w _ s']
      by (auto simp: act_run split: if_splits sum.splits prod.splits)
  qed
qed

lemma poll_exit_cases:
  assumes "poll c w aw fuel failed s = (Inr exit, s')"
  shows "case exit of
      Left m \<Rightarrow> \<not> stays_up s'
    | JobCompleted \<Rightarrow> sv_shutdown_complete s' \<and> sv_phase s' = WP_COMPLETED
    | _ \<Rightarrow> True"
proof -
  obtain first t where one: "(if failed then act_ret (Left 0)
      else poll_loop c w aw awaits_data print_waiting fuel 0) s = (Inr first, t)"
    and two: "(case first of Left n \<Rightarrow> poll_loop c w aw stays_up (act_ret ()) fuel n | _ \<Rightarrow> act_ret first) t =
      (Inr exit, s')"
    using assms by (auto simp: poll_def act_run split: sum.splits prod.splits)
  show ?thesis
  proof (cases first)
    case (Left n)
    then show ?thesis using poll_loop_exit [of c w aw stays_up "act_ret ()" fuel n t exit s'] two by simp
  next
    case JobCompleted
    then have "\<not> failed" using one by (auto simp: act_run)
    then show ?thesis using JobCompleted one two poll_loop_exit [of c w aw awaits_data print_waiting fuel 0 s first t]
      by (simp add: act_run)
  qed (use two in \<open>simp_all add: act_run\<close>)
qed

text \<open>
  The main thread returns only from a worker that is no longer up: when it left its loops
  the phase is none of READY, RUNNING and FAILED, a finished backtest has been stopped and is
  COMPLETED, and after an interrupt the worker is STOPPED or COMPLETED or its shutdown was
  already complete. While the worker is up and nothing stops it, the main thread keeps waiting.
\<close>

lemma app_run_returns_stopped:
  assumes "app_run c w aw fuel s = (Inr exit, s')"
  shows "case exit of
      Left m \<Rightarrow> \<not> stays_up s'
    | JobCompleted \<Rightarrow> sv_shutdown_complete s' \<and> sv_phase s' = WP_COMPLETED
    | Interrupted \<Rightarrow> sv_phase s' \<in> {WP_STOPPED, WP_COMPLETED} \<or> sv_shutdown_complete s'
    | Waiting \<Rightarrow> True"
proof -
  obtain failed t t' where polled: "poll c w aw fuel failed t = (Inr exit, t')"
    and last: "(if exit = Interrupted then on_interrupt c w t' else (Inr (), t')) = (Inr (), s')"
    using assms by (auto simp: app_run_def act_run split: sum.splits prod.splits if_splits)
  have "sv_phase s' \<in> {WP_STOPPED, WP_COMPLETED} \<or> sv_shutdown_complete s'"
    if ended: "on_interrupt c w t' = (Inr (), s')"
  proof (cases "sv_phase t' \<in> {WP_STOPPED, WP_COMPLETED}")
    case True
    then show ?thesis using ended by (auto simp: on_interrupt_def act_run)
  next
    case False
    then obtain b where "stop c w interrupted_args t' = (Inr b, s')"
      using ended by (auto simp: on_interrupt_def act_run split: sum.splits prod.splits)
    then show ?thesis
      using refines_stop [of c w interrupted_args t' b s'] stopped_fields [of c w interrupted_args t' s']
      by (cases b) (auto split: if_splits)
  qed
  then show ?thesis
    using poll_exit_cases [OF polled] last by (cases exit) auto
qed

text \<open>A failed start with nobody stopping the worker.\<close>

lemma app_waits:
  assumes "\<And>s. stays_up s \<Longrightarrow> \<not> should_stop_for_completed_backtest_job c s \<Longrightarrow>
      stays_up (f s) \<and> \<not> should_stop_for_completed_backtest_job c (f s)"
    and "stays_up s" "\<not> should_stop_for_completed_backtest_job c s"
  shows "fst (poll_loop c w \<lparr>aw_others = \<lambda>n. f, aw_interrupt = \<lambda>n. False\<rparr> stays_up (act_ret ()) fuel n s) =
    Inr Waiting"
  using assms(2,3) by (induction fuel arbitrary: n s) (simp_all add: act_run assms(1))

lemma failed_never_completed:
  "sv_phase s = WP_FAILED \<Longrightarrow> \<not> should_stop_for_completed_backtest_job c s"
  by (simp add: should_stop_for_completed_backtest_job_def)

text \<open>
  C40: a backtest whose replay has completed ends by itself: when the main thread polls a worker
  that is up and whose stream has ended, and only log records and reports may fail, it stops the
  worker in that very poll and \<open>run\<close> is left with the worker COMPLETED; a worker whose start
  failed is never stopped this way and is waited for, however long the main thread polls.
\<close>

theorem completed_backtest_ends:
  assumes "mostly_calm w" and "goes_on s"
  shows "if should_stop_for_completed_backtest_job c s
    then \<exists>s'. poll_loop c w aw goes_on note (Suc fuel) n s = (Inr JobCompleted, s') \<and>
      sv_shutdown_complete s' \<and> sv_phase s' = WP_COMPLETED
    else (sv_phase s = WP_FAILED \<longrightarrow>
      fst (poll_loop c w \<lparr>aw_others = \<lambda>n s. s, aw_interrupt = \<lambda>n. False\<rparr> stays_up (act_ret ()) fuel n s) =
        Inr Waiting)"
proof (cases "should_stop_for_completed_backtest_job c s")
  case True
  obtain b s' where run: "stop c w job_completed_args s = (Inr b, s')"
    using returnsD [OF returns_stop [OF assms(1)]] by blast
  then show ?thesis using True completed_job_stop [OF True run] assms(2) by (simp add: act_run)
next
  case False
  then show ?thesis using app_waits [of c "\<lambda>s. s" s w fuel n] by (auto simp: stays_up_def)
qed

definition ended_replay :: svc where
  "ended_replay = replaying\<lparr>sv_phase := WP_RUNNING, sv_backtest_replay_complete := True\<rparr>"

theorem completed_backtest_ends_witness:
  "\<exists>s'. poll_loop sample_backtest sample_env \<lparr>aw_others = \<lambda>n s. s, aw_interrupt = \<lambda>n. False\<rparr> stays_up
       (act_ret ()) (Suc 0) 0 ended_replay = (Inr JobCompleted, s') \<and>
     sv_phase s' = WP_COMPLETED"
proof -
  have "stays_up ended_replay" "should_stop_for_completed_backtest_job sample_backtest ended_replay"
    by (simp_all add: stays_up_def should_stop_for_completed_backtest_job_def ended_replay_def
        replaying_def initial_svc_def sample_backtest_def)
  then show ?thesis
    using completed_backtest_ends [OF sample_calm, of stays_up ended_replay sample_backtest
        "\<lparr>aw_others = \<lambda>n s. s, aw_interrupt = \<lambda>n. False\<rparr>" "act_ret ()" 0 0]
    by (auto simp del: poll_loop.simps)
qed

theorem app_run_returns_stopped_witness:
  "\<exists>exit s'. app_run sample_cfg sample_env \<lparr>aw_others = \<lambda>n s. s\<lparr>sv_phase := WP_STOPPED\<rparr>,
       aw_interrupt = \<lambda>n. False\<rparr> 2 (initial_svc\<lparr>sv_started := True\<rparr>) = (Inr exit, s') \<and>
     (\<forall>m. exit = Left m \<longrightarrow> \<not> stays_up s')"
proof -
  let ?aw = "\<lparr>aw_others = \<lambda>n s. s\<lparr>sv_phase := WP_STOPPED\<rparr>, aw_interrupt = \<lambda>n. False\<rparr>"
  let ?s = "initial_svc\<lparr>sv_started := True\<rparr>"
  obtain r s' where rs: "app_run sample_cfg sample_env ?aw 2 ?s = (r, s')" by (metis surj_pair)
  have "\<exists>x. r = Inr x"
    using rs by (auto simp: app_run_def run_def start_def act_run say_def poll_def numeral_2_eq_2
        awaits_data_def stays_up_def initial_svc_def print_waiting_def split: if_splits)
  then show ?thesis using rs app_run_returns_stopped [of sample_cfg sample_env ?aw 2 ?s] by fastforce
qed

end
