(* ===== verification/LifecycleEvents.thy ===== *)
theory LifecycleEvents
  imports RuntimeState PyText
begin

text \<open>
  \<open>runtime/events/\<close>: the envelope of a lifecycle event, the factory that builds it from a signal,
  and the filter that drops duplicates and stale attempts. SHA-256, \<open>json.dumps\<close> with
  \<open>default=str\<close> and the clock are the record \<open>signal_env\<close>.
\<close>

record signal_env =
  sg_sha256 :: "string \<Rightarrow> string"
  sg_canonical_json :: "pydict \<Rightarrow> string"
  sg_now :: pydatetime

section \<open>The envelope\<close>

record event_envelope =
  ee_event_id :: string
  ee_event_type :: string
  ee_event_name :: string
  ee_event_family :: string
  ee_event_version :: int
  ee_occurred_at :: pydatetime
  ee_correlation_id :: string
  ee_producer :: string
  ee_payload :: pydict
  ee_runtime_id :: string
  ee_launch_attempt :: int
  ee_worker_identity :: string
  ee_identity_key :: string
  ee_causation_id :: "string option"

definition event_require_non_empty :: "string \<Rightarrow> string \<Rightarrow> py_exc + string" where
  "event_require_non_empty value name =
     (if py_strip value = [] then Inl (ValueExc ''ValueError'' (name @ '' must not be blank.'') None)
      else Inr (py_strip value))"

definition make_event_envelope :: "event_envelope \<Rightarrow> py_exc + event_envelope" where
  "make_event_envelope e =
     rbind (event_require_non_empty (ee_event_id e) ''event_id'') (\<lambda>event_id.
     rbind (event_require_non_empty (ee_event_type e) ''event_type'') (\<lambda>event_type.
     rbind (event_require_non_empty (ee_event_name e) ''event_name'') (\<lambda>event_name.
     rbind (event_require_non_empty (ee_event_family e) ''event_family'') (\<lambda>event_family.
     rbind (event_require_non_empty (ee_correlation_id e) ''correlation_id'') (\<lambda>correlation_id.
     rbind (event_require_non_empty (ee_producer e) ''producer'') (\<lambda>producer.
     rbind (event_require_non_empty (ee_runtime_id e) ''runtime_id'') (\<lambda>runtime_id.
     rbind (event_require_non_empty (ee_worker_identity e) ''worker_identity'') (\<lambda>worker_identity.
     rbind (event_require_non_empty (ee_identity_key e) ''identity_key'') (\<lambda>identity_key.
     rbind (rguard (ee_event_version e \<ge> 1) (ValueExc ''ValueError'' ''event_version must be >= 1.'' None)) (\<lambda>_.
     rbind (rguard (ee_launch_attempt e \<ge> 1) (ValueExc ''ValueError'' ''launch_attempt must be >= 1.'' None)) (\<lambda>_.
     rbind (rguard (dt_aware (ee_occurred_at e))
              (ValueExc ''ValueError'' ''occurred_at must be timezone-aware.'' None)) (\<lambda>_.
       Inr (e\<lparr>ee_event_id := event_id, ee_event_type := event_type, ee_event_name := event_name,
              ee_event_family := event_family, ee_correlation_id := correlation_id,
              ee_producer := producer, ee_runtime_id := runtime_id,
              ee_worker_identity := worker_identity, ee_identity_key := identity_key\<rparr>)))))))))))))"

definition to_manager_signal :: "event_envelope \<Rightarrow> string \<Rightarrow> pydict \<Rightarrow> pydict" where
  "to_manager_signal e signal_type identity =
     [(''signal_type'', VStr signal_type), (''identity'', VDict identity),
      (''payload'', VDict (ee_payload e)), (''event_id'', VStr (ee_event_id e)),
      (''event_type'', VStr (ee_event_type e)), (''event_name'', VStr (ee_event_name e)),
      (''event_family'', VStr (ee_event_family e)), (''event_version'', VInt (ee_event_version e)),
      (''occurred_at'', VTime (ee_occurred_at e)), (''correlation_id'', VStr (ee_correlation_id e)),
      (''producer'', VStr (ee_producer e))] @
     (case ee_causation_id e of None \<Rightarrow> [] | Some x \<Rightarrow> [(''causation_id'', VStr x)])"

section \<open>The factory\<close>

text \<open>Event name, type, version and family of each signal.\<close>

definition SIGNAL_META :: "(string \<times> string \<times> string \<times> int \<times> string) list" where
  "SIGNAL_META =
     [(''bootstrap_succeeded'', ''runtime.launch_succeeded'', ''worker.lifecycle.bootstrap_succeeded'', 1,
         ''bootstrap''),
      (''bootstrap_failed'', ''runtime.launch_failed'', ''worker.lifecycle.bootstrap_failed'', 1, ''bootstrap''),
      (''heartbeat'', ''runtime.heartbeat'', ''worker.lifecycle.heartbeat'', 1, ''heartbeat''),
      (''unhealthy'', ''runtime.unhealthy'', ''worker.lifecycle.unhealthy'', 1, ''health''),
      (''controlled_stop'', ''runtime.controlled_stop'', ''worker.lifecycle.controlled_stop'', 1, ''lifecycle''),
      (''terminated'', ''runtime.terminated'', ''worker.lifecycle.terminated'', 1, ''lifecycle'')]"

definition event_identity_key :: "signal_env \<Rightarrow> string \<Rightarrow> pydict \<Rightarrow> string" where
  "event_identity_key w signal_type payload =
     (if signal_type = ''bootstrap_failed'' then ''bootstrap_failed''
      else
        (case dict_get payload ''event_id'' of
           Some (VStr s) \<Rightarrow> py_strip s
         | _ \<Rightarrow>
             (case dict_get payload ''observation_id'' of
                Some (VStr s) \<Rightarrow> py_strip s
              | _ \<Rightarrow> signal_type @ '':'' @
                  take 16 (sg_sha256 w (signal_type @ '':'' @ sg_canonical_json w payload)))))"

definition event_id_of :: "signal_env \<Rightarrow> string \<Rightarrow> int \<Rightarrow> string \<Rightarrow> string \<Rightarrow> string" where
  "event_id_of w runtime_id launch_attempt event_name identity_key =
     (let prefix = runtime_id @ '':'' @ int_str launch_attempt @ '':'' @ event_name @ '':''
      in prefix @ take 24 (sg_sha256 w (prefix @ identity_key)))"

definition resolve_occurred_at :: "signal_env \<Rightarrow> pydict \<Rightarrow> pydatetime" where
  "resolve_occurred_at w payload =
     (let aware = (\<lambda>t. if dt_aware t then t else utc (dt_wall t)) in
      case get_or_none payload ''occurred_at'' of
        VTime t \<Rightarrow> aware t
      | _ \<Rightarrow> (case get_or_none payload ''observed_at'' of VTime t \<Rightarrow> aware t | _ \<Rightarrow> sg_now w))"

text \<open>The identity of the signal as the gateway builds it.\<close>

record signal_identity =
  si_runtime_id :: string
  si_tenant_id :: string
  si_trader_id :: "string option"
  si_account_id :: "string option"
  si_strategy_version_id :: string
  si_mode :: string
  si_launch_attempt :: int
  si_worker_identity :: string

definition si_to_dict :: "signal_identity \<Rightarrow> pydict" where
  "si_to_dict i =
     [(''runtime_id'', VStr (si_runtime_id i)), (''tenant_id'', VStr (si_tenant_id i)),
      (''trader_id'', opt_str (si_trader_id i)), (''account_id'', opt_str (si_account_id i)),
      (''strategy_version_id'', VStr (si_strategy_version_id i)), (''mode'', VStr (si_mode i)),
      (''launch_attempt'', VInt (si_launch_attempt i)), (''worker_identity'', VStr (si_worker_identity i))]"

definition event_worker_identity :: "signal_identity \<Rightarrow> string" where
  "event_worker_identity i =
     (let t = py_strip (si_worker_identity i) in
      if t = [] then ''worker:'' @ si_runtime_id i @ '':'' @ int_str (si_launch_attempt i) else t)"

definition event_payload :: "string \<Rightarrow> signal_identity \<Rightarrow> pydict \<Rightarrow> pydict" where
  "event_payload signal_type i payload =
     (if signal_type = ''heartbeat'' then payload
      else if signal_type = ''terminated'' \<and> set (map fst payload) = {''local_state'', ''reason_code''}
        then payload
      else dict_setdefault ''worker_identity'' (VStr (event_worker_identity i))
        (dict_setdefault ''launch_attempt'' (VInt (si_launch_attempt i))
          (dict_setdefault ''runtime_id'' (VStr (si_runtime_id i)) payload)))"

definition create_event ::
  "signal_env \<Rightarrow> string \<Rightarrow> string \<Rightarrow> signal_identity \<Rightarrow> pydict \<Rightarrow> string option \<Rightarrow> string option \<Rightarrow> string option \<Rightarrow>
   py_exc + event_envelope" where
  "create_event w producer signal_type i payload correlation_id causation_id triggering_event_id =
     (case map_of SIGNAL_META signal_type of
        None \<Rightarrow> Inl (ValueExc ''ValueError'' (''Unsupported signal_type: '' @ signal_type) None)
      | Some (event_name, event_type, event_version, event_family) \<Rightarrow>
          (let rid = si_runtime_id i; attempt = si_launch_attempt i;
               ikey = event_identity_key w signal_type payload;
               corr = py_strip (or_empty correlation_id);
               cause = (if or_empty triggering_event_id \<noteq> [] then or_empty triggering_event_id
                        else if or_empty causation_id \<noteq> [] then or_empty causation_id
                        else ''cmd_'' @ signal_type @ ''_'' @ rid @ ''_'' @ int_str attempt)
           in make_event_envelope
             \<lparr>ee_event_id = event_id_of w rid attempt event_name ikey, ee_event_type = event_type,
              ee_event_name = event_name, ee_event_family = event_family, ee_event_version = event_version,
              ee_occurred_at = resolve_occurred_at w payload,
              ee_correlation_id = (if corr = [] then ''corr:'' @ rid @ '':'' @ int_str attempt else corr),
              ee_producer = producer, ee_payload = event_payload signal_type i payload,
              ee_runtime_id = rid, ee_launch_attempt = attempt,
              ee_worker_identity = event_worker_identity i, ee_identity_key = ikey,
              ee_causation_id = Some cause\<rparr>))"

section \<open>Duplicates and stale attempts\<close>

datatype dedupe_decision = ACCEPT | DROP_DUPLICATE | DROP_STALE_ATTEMPT

fun dedupe_decision_value :: "dedupe_decision \<Rightarrow> string" where
  "dedupe_decision_value ACCEPT = ''ACCEPT''"
| "dedupe_decision_value DROP_DUPLICATE = ''DROP_DUPLICATE''"
| "dedupe_decision_value DROP_STALE_ATTEMPT = ''DROP_STALE_ATTEMPT''"

type_synonym signal_key = "string \<times> int \<times> string \<times> string \<times> string"

record dedupe =
  dd_latest :: "string \<rightharpoonup> int"
  dd_seen :: "signal_key set"

definition signal_key_of :: "event_envelope \<Rightarrow> signal_key" where
  "signal_key_of e =
     (ee_runtime_id e, ee_launch_attempt e, ee_event_family e, ee_event_name e, ee_identity_key e)"

definition decide :: "event_envelope \<Rightarrow> int \<Rightarrow> dedupe \<Rightarrow> dedupe_decision \<times> dedupe" where
  "decide e current_launch_attempt d =
     (let latest_seen = (case dd_latest d (ee_runtime_id e) of Some n \<Rightarrow> n | None \<Rightarrow> current_launch_attempt) in
      if ee_launch_attempt e < max current_launch_attempt latest_seen then (DROP_STALE_ATTEMPT, d)
      else if signal_key_of e \<in> dd_seen d then (DROP_DUPLICATE, d)
      else (ACCEPT, \<lparr>dd_latest = (dd_latest d)(ee_runtime_id e \<mapsto> max (ee_launch_attempt e) latest_seen),
                     dd_seen = insert (signal_key_of e) (dd_seen d)\<rparr>))"

definition initial_dedupe :: dedupe where
  "initial_dedupe = \<lparr>dd_latest = Map.empty, dd_seen = {}\<rparr>"

section \<open>The filter against a specification over its history\<close>

text \<open>
  The specification knows only which envelopes were accepted before: one is accepted when its
  attempt is no older than the current one and than every accepted one of its runtime, and no
  envelope of the same key was accepted.
\<close>

fun dedupe_spec :: "(event_envelope \<times> int) list \<Rightarrow> event_envelope list \<Rightarrow> dedupe_decision list" where
  "dedupe_spec [] accepted = []"
| "dedupe_spec ((e, current) # es) accepted =
     (if ee_launch_attempt e < current \<or>
         (\<exists>a\<in>set accepted. ee_runtime_id a = ee_runtime_id e \<and> ee_launch_attempt e < ee_launch_attempt a)
      then DROP_STALE_ATTEMPT # dedupe_spec es accepted
      else if \<exists>a\<in>set accepted. signal_key_of a = signal_key_of e
      then DROP_DUPLICATE # dedupe_spec es accepted
      else ACCEPT # dedupe_spec es (e # accepted))"

fun decide_all :: "(event_envelope \<times> int) list \<Rightarrow> dedupe \<Rightarrow> dedupe_decision list" where
  "decide_all [] d = []"
| "decide_all ((e, current) # es) d =
     (case decide e current d of (x, d') \<Rightarrow> x # decide_all es d')"

text \<open>The state that a history of accepted envelopes has left.\<close>

definition dedupe_inv :: "event_envelope list \<Rightarrow> dedupe \<Rightarrow> bool" where
  "dedupe_inv accepted d \<longleftrightarrow>
     dd_seen d = signal_key_of ` set accepted \<and>
     (\<forall>r. case dd_latest d r of
        None \<Rightarrow> \<forall>a\<in>set accepted. ee_runtime_id a \<noteq> r
      | Some n \<Rightarrow> (\<exists>a\<in>set accepted. ee_runtime_id a = r \<and> ee_launch_attempt a = n) \<and>
          (\<forall>a\<in>set accepted. ee_runtime_id a = r \<longrightarrow> ee_launch_attempt a \<le> n))"

lemma dedupe_inv_latest:
  assumes "dedupe_inv accepted d"
  shows "(ee_launch_attempt e < (case dd_latest d (ee_runtime_id e) of Some n \<Rightarrow> n | None \<Rightarrow> c) \<or>
      ee_launch_attempt e < c) =
    (ee_launch_attempt e < c \<or>
     (\<exists>a\<in>set accepted. ee_runtime_id a = ee_runtime_id e \<and> ee_launch_attempt e < ee_launch_attempt a))"
  using assms [unfolded dedupe_inv_def, THEN conjunct2, rule_format, of "ee_runtime_id e"]
  by (cases "dd_latest d (ee_runtime_id e)") force+

lemma dedupe_inv_step:
  assumes "dedupe_inv accepted d" and "decide e c d = (x, d')"
  shows "dedupe_inv (if x = ACCEPT then e # accepted else accepted) d'"
proof (cases "x = ACCEPT")
  case False
  then show ?thesis using assms by (auto simp: decide_def Let_def split: if_splits)
next
  case True
  have parts: "dd_seen d' = insert (signal_key_of e) (dd_seen d)"
    "dd_latest d' = (dd_latest d)(ee_runtime_id e \<mapsto> max (ee_launch_attempt e)
       (case dd_latest d (ee_runtime_id e) of Some n \<Rightarrow> n | None \<Rightarrow> c))"
    "c \<le> ee_launch_attempt e"
    "(case dd_latest d (ee_runtime_id e) of Some n \<Rightarrow> n | None \<Rightarrow> c) \<le> ee_launch_attempt e"
    using assms(2) True by (auto simp: decide_def Let_def split: if_splits)
  then have latest: "dd_latest d' = (dd_latest d)(ee_runtime_id e \<mapsto> ee_launch_attempt e)"
    by (simp add: max_def)
  have seen: "dd_seen d' = signal_key_of ` set (e # accepted)"
    using parts(1) assms(1) by (simp add: dedupe_inv_def)
  have le: "ee_launch_attempt a \<le> ee_launch_attempt e"
    if "a \<in> set accepted" "ee_runtime_id a = ee_runtime_id e" for a
    using assms(1) [unfolded dedupe_inv_def, THEN conjunct2, rule_format, of "ee_runtime_id e"] that parts(4)
    by (force split: option.splits)
  have "case dd_latest d' r of
        None \<Rightarrow> \<forall>a\<in>set (e # accepted). ee_runtime_id a \<noteq> r
      | Some n \<Rightarrow> (\<exists>a\<in>set (e # accepted). ee_runtime_id a = r \<and> ee_launch_attempt a = n) \<and>
          (\<forall>a\<in>set (e # accepted). ee_runtime_id a = r \<longrightarrow> ee_launch_attempt a \<le> n)" for r
    using assms(1) [unfolded dedupe_inv_def, THEN conjunct2, rule_format, of r] le latest
    by (auto split: option.splits)
  then show ?thesis using seen True by (simp add: dedupe_inv_def)
qed

lemma decide_all_spec: "dedupe_inv accepted d \<Longrightarrow> decide_all es d = dedupe_spec es accepted"
proof (induction es arbitrary: accepted d)
  case Nil
  then show ?case by simp
next
  case (Cons p es)
  obtain e c where p: "p = (e, c)" by (cases p)
  obtain x d' where step: "decide e c d = (x, d')" by (cases "decide e c d")
  have seen: "(signal_key_of e \<in> dd_seen d) = (\<exists>a\<in>set accepted. signal_key_of a = signal_key_of e)"
    using Cons.prems by (simp add: dedupe_inv_def image_iff) (metis)
  have x: "x = (if ee_launch_attempt e < c \<or>
         (\<exists>a\<in>set accepted. ee_runtime_id a = ee_runtime_id e \<and> ee_launch_attempt e < ee_launch_attempt a)
       then DROP_STALE_ATTEMPT
       else if \<exists>a\<in>set accepted. signal_key_of a = signal_key_of e then DROP_DUPLICATE else ACCEPT)"
    using step dedupe_inv_latest [OF Cons.prems, of e c] seen
    by (auto simp: decide_def Let_def less_max_iff_disj split: if_splits)
  show ?case
    using Cons.IH [OF dedupe_inv_step [OF Cons.prems step]] step x p by (auto split: if_splits)
qed

text \<open>
  C32: the duplicate filter, which keeps a number per runtime and a set of keys, decides every
  sequence of signals exactly as the specification over the full history of accepted envelopes:
  each key is accepted once, and never an attempt older than one already accepted.
\<close>

theorem dedupe_meets_spec: "decide_all es initial_dedupe = dedupe_spec es []"
  by (rule decide_all_spec) (simp add: dedupe_inv_def initial_dedupe_def)

end
