(* ===== verification/ManagerGateway.thy ===== *)
theory ManagerGateway
  imports LifecycleEvents LifecycleOps
begin

text \<open>
  \<open>integration/manager_gateway.py\<close> with the clients behind it (\<open>transport/lifecycle_signal.py\<close>,
  \<open>transport/manager_client.py\<close>): a signal is validated, made an event, shown to the journal,
  filtered, and handed to the client without the fields its envelope already carries. What the
  journal and the client do is decided by the environment from the effects so far. Lists of
  field names in the details of a failure are taken to hold texts, as all callers pass them.
\<close>

datatype gw_effect =
    EventEmitted event_envelope
  | SignalSent event_envelope pydict
  | EnvelopePrinted pydict

record gw_env =
  ge_signal :: "gw_effect list \<Rightarrow> signal_env"
  ge_journal :: bool
  ge_journal_raises :: "gw_effect list \<Rightarrow> event_envelope \<Rightarrow> py_exc option"
  ge_client :: "gw_effect list \<Rightarrow> pydict \<Rightarrow> py_exc + pydict"
  ge_repr :: "pyval \<Rightarrow> string"
  ge_heartbeat_log :: bool

record gateway =
  gw_dedupe :: dedupe
  gw_trace :: "gw_effect list"

type_synonym 'a gw = "(gateway, 'a) act"

definition gw_effect :: "gw_effect \<Rightarrow> gateway \<Rightarrow> gateway" where
  "gw_effect e k = k\<lparr>gw_trace := gw_trace k @ [e]\<rparr>"

definition WIRE_PAYLOAD_EXCLUDE :: "string list" where
  "WIRE_PAYLOAD_EXCLUDE =
     [''occurred_at'', ''runtime_id'', ''launch_attempt'', ''worker_identity'', ''strategy_version_id'',
      ''tenant_id'', ''account_id'']"

definition wire_payload_only :: "pydict \<Rightarrow> pydict" where
  "wire_payload_only payload = filter (\<lambda>(k, v). k \<notin> set WIRE_PAYLOAD_EXCLUDE) payload"

section \<open>Identity and validation\<close>

definition identity_payload :: "runtime_mode worker_identity \<Rightarrow> signal_identity" where
  "identity_payload i =
     \<lparr>si_runtime_id = wi_runtime_id i, si_tenant_id = wi_tenant_id i, si_trader_id = wi_trader_id i,
      si_account_id = wi_account_id i, si_strategy_version_id = wi_strategy_version_id i,
      si_mode = runtime_mode_value (wi_mode i), si_launch_attempt = wi_launch_attempt i,
      si_worker_identity = wi_runtime_id i @ '':'' @ wi_strategy_version_id i @ '':'' @
        int_str (wi_launch_attempt i)\<rparr>"

definition value_error :: "string \<Rightarrow> py_exc" where
  "value_error msg = ValueExc ''ValueError'' msg None"

definition is_time :: "pyval \<Rightarrow> bool" where
  "is_time v = (case v of VTime t \<Rightarrow> True | _ \<Rightarrow> False)"

definition validate_required_fields ::
  "(pyval \<Rightarrow> string) \<Rightarrow> string \<Rightarrow> signal_identity \<Rightarrow> pydict \<Rightarrow> py_exc + unit" where
  "validate_required_fields r signal_type i payload =
     (let text = (\<lambda>k. py_strip (str_or_empty r (get_or_none payload k))) in
      if py_strip (si_runtime_id i) = [] then
        Inl (value_error ''runtime_id is required for lifecycle signal forwarding.'')
      else if si_launch_attempt i < 1 then
        Inl (value_error ''launch_attempt must be >= 1 for lifecycle signal forwarding.'')
      else if py_strip (si_worker_identity i) = [] then
        Inl (value_error ''worker_identity is required for lifecycle signal forwarding.'')
      else if signal_type \<notin> set (map fst SIGNAL_META) then
        Inl (value_error (''Unsupported signal_type: '' @ signal_type))
      else if signal_type = ''heartbeat'' then
        (if is_time (get_or_none payload ''observed_at'') then Inr ()
         else Inl (value_error ''payload.observed_at is required and must be datetime for heartbeat.''))
      else if signal_type = ''terminated'' \<and> dict_has payload ''local_state'' \<and>
              dict_has payload ''reason_code'' \<and> \<not> dict_has payload ''occurred_at'' then
        (if text ''local_state'' = [] then
           Inl (value_error ''payload.local_state is required for minimal termination.'')
         else if text ''reason_code'' = [] then
           Inl (value_error ''payload.reason_code is required for minimal termination.'')
         else Inr ())
      else if is_time (get_or_none payload ''occurred_at'') then Inr ()
      else Inl (value_error ''payload.occurred_at is required and must be datetime.''))"

section \<open>Emitting\<close>

definition printed_message :: "signal_identity \<Rightarrow> pydict \<Rightarrow> pydict" where
  "printed_message i wire =
     map (\<lambda>k. (k, get_or_none wire k)) [''event_id'', ''event_name'', ''event_version'', ''producer'',
       ''occurred_at'', ''correlation_id'', ''causation_id''] @
     map (\<lambda>k. (k, get_or_none (si_to_dict i) k)) [''tenant_id'', ''account_id'', ''runtime_id'',
       ''worker_identity'', ''launch_attempt'', ''strategy_version_id''] @
     [(''payload'', case get_or_none wire ''payload'' of VDict d \<Rightarrow> VDict d | _ \<Rightarrow> VDict [])]"

definition suppressed_reply :: "dedupe_decision \<Rightarrow> string \<Rightarrow> pydict" where
  "suppressed_reply d signal_type =
     [(''accepted'', VBool False), (''suppressed'', VBool True),
      (''decision'', VStr (dedupe_decision_value d)), (''signal_type'', VStr signal_type)]"

definition wire_envelope :: "event_envelope \<Rightarrow> string \<Rightarrow> signal_identity \<Rightarrow> pydict" where
  "wire_envelope ev signal_type i =
     dict_set ''payload'' (VDict (wire_payload_only (ee_payload ev)))
       (to_manager_signal ev signal_type (si_to_dict i))"

text \<open>The client is asked after the filter has already remembered the signal.\<close>

definition send_signal :: "gw_env \<Rightarrow> event_envelope \<Rightarrow> string \<Rightarrow> signal_identity \<Rightarrow> pydict gw" where
  "send_signal w ev signal_type i = (\<lambda>k.
     let wire = wire_envelope ev signal_type i;
         k' = gw_effect (SignalSent ev wire) k
     in case ge_client w (gw_trace k) wire of
          Inl e \<Rightarrow> (Inl e, k')
        | Inr result \<Rightarrow>
            (Inr result,
             if signal_type = ''heartbeat'' \<and> \<not> ge_heartbeat_log w then k'
             else gw_effect (EnvelopePrinted (printed_message i wire)) k'))"

definition decide_signal :: "event_envelope \<Rightarrow> int \<Rightarrow> dedupe_decision gw" where
  "decide_signal ev current = (\<lambda>k.
     case decide ev current (gw_dedupe k) of (x, d) \<Rightarrow> (Inr x, k\<lparr>gw_dedupe := d\<rparr>))"

definition show_event :: "gw_env \<Rightarrow> event_envelope \<Rightarrow> unit gw" where
  "show_event w ev = (\<lambda>k.
     if \<not> ge_journal w then (Inr (), k)
     else (case ge_journal_raises w (gw_trace k) ev of
             None \<Rightarrow> (Inr (), gw_effect (EventEmitted ev) k)
           | Some e \<Rightarrow> (Inl e, gw_effect (EventEmitted ev) k)))"

definition emit :: "gw_env \<Rightarrow> runtime_mode worker_identity \<Rightarrow> string \<Rightarrow> pydict \<Rightarrow> pydict gw" where
  "emit w wi signal_type payload =
     (let i = identity_payload wi;
          trigger = (if get_or_none payload ''triggering_event_id'' = VNone then None
                     else Some (py_str (ge_repr w) (get_or_none payload ''triggering_event_id'')))
      in act_then (act_of (validate_required_fields (ge_repr w) signal_type i payload))
        (act_bind (act_with gw_trace (\<lambda>tr. act_of (create_event (ge_signal w tr)
             ''strategy-worker-runtime'' signal_type i payload None None trigger))) (\<lambda>ev.
         act_then (show_event w ev)
           (act_bind (decide_signal ev (si_launch_attempt i)) (\<lambda>x.
              if x \<noteq> ACCEPT then act_ret (suppressed_reply x signal_type)
              else send_signal w ev signal_type i)))))"

text \<open>The event of a signal, and the three ways a signal ends.\<close>

abbreviation trigger_of :: "gw_env \<Rightarrow> pydict \<Rightarrow> string option" where
  "trigger_of w payload \<equiv>
     (if get_or_none payload ''triggering_event_id'' = VNone then None
      else Some (py_str (ge_repr w) (get_or_none payload ''triggering_event_id'')))"

lemma emit_cases:
  obtains (refused) e where "emit w wi signal_type payload k = (Inl e, k)"
  | (shown) ev e where "emit w wi signal_type payload k = (Inl e, snd (show_event w ev k))"
  | (decided) ev x q where
      "create_event (ge_signal w (gw_trace k)) ''strategy-worker-runtime'' signal_type (identity_payload wi)
         payload None None (trigger_of w payload) = Inr ev"
      "decide ev (wi_launch_attempt wi) (gw_dedupe (snd (show_event w ev k))) = (x, q)"
      "emit w wi signal_type payload k =
         (if x \<noteq> ACCEPT
          then (Inr (suppressed_reply x signal_type), (snd (show_event w ev k))\<lparr>gw_dedupe := q\<rparr>)
          else send_signal w ev signal_type (identity_payload wi)
            ((snd (show_event w ev k))\<lparr>gw_dedupe := q\<rparr>))"
proof -
  let ?i = "identity_payload wi"
  let ?event = "create_event (ge_signal w (gw_trace k)) ''strategy-worker-runtime'' signal_type ?i
    payload None None (trigger_of w payload)"
  have attempt: "si_launch_attempt ?i = wi_launch_attempt wi" by (simp add: identity_payload_def)
  note run = emit_def [of w wi signal_type payload, unfolded Let_def] act_run(3,4,6,8)
  consider (invalid) e where "validate_required_fields (ge_repr w) signal_type ?i payload = Inl e"
    | (no_event) u e where "validate_required_fields (ge_repr w) signal_type ?i payload = Inr u" "?event = Inl e"
    | (event) u ev where "validate_required_fields (ge_repr w) signal_type ?i payload = Inr u" "?event = Inr ev"
    by (metis sum.exhaust)
  then show ?thesis
  proof cases
    case invalid
    then show ?thesis by (intro refused) (simp only: run prod.case sum.case)
  next
    case no_event
    then show ?thesis by (intro refused) (simp only: run prod.case sum.case)
  next
    case event
    obtain r k' where seen: "show_event w ev k = (r, k')" by (cases "show_event w ev k")
    obtain x q where decide: "decide ev (wi_launch_attempt wi) (gw_dedupe k') = (x, q)"
      by (cases "decide ev (wi_launch_attempt wi) (gw_dedupe k')")
    show ?thesis
    proof (cases r)
      case (Inl e)
      then show ?thesis using event seen by (intro shown [of e ev]) (simp only: run prod.case sum.case snd_conv)
    next
      case (Inr v)
      have "emit w wi signal_type payload k =
          (if x \<noteq> ACCEPT then (Inr (suppressed_reply x signal_type), k'\<lparr>gw_dedupe := q\<rparr>)
           else send_signal w ev signal_type ?i (k'\<lparr>gw_dedupe := q\<rparr>))"
        using event seen Inr decide
        by (simp only: run decide_signal_def attempt prod.case sum.case act_ret_def if_distrib [of "\<lambda>m. m _"])
      then show ?thesis using event(2) seen decide by (intro decided [of ev x q]) simp_all
    qed
  qed
qed

section \<open>The signals\<close>

definition with_trigger :: "string option \<Rightarrow> pydict \<Rightarrow> pydict" where
  "with_trigger t payload = payload @ (case t of None \<Rightarrow> [] | Some x \<Rightarrow> [(''triggering_event_id'', VStr x)])"

definition error_code_of :: "string \<Rightarrow> pyval" where
  "error_code_of normalized = opt_str (worker_error_code_for_reason normalized)"

definition emit_bootstrap_succeeded ::
  "gw_env \<Rightarrow> runtime_mode worker_identity \<Rightarrow> string option \<Rightarrow> pydatetime \<Rightarrow> pydict \<Rightarrow> string option \<Rightarrow> pydict gw" where
  "emit_bootstrap_succeeded w wi local_state occurred_at details trigger =
     emit w wi ''bootstrap_succeeded'' (with_trigger trigger
       [(''local_state'', opt_str local_state), (''occurred_at'', VTime occurred_at),
        (''details'', VDict details)])"

definition texts_of :: "pyval \<Rightarrow> string list" where
  "texts_of v = (case v of
     VList vs \<Rightarrow> List.map_filter (\<lambda>x. case x of VStr s \<Rightarrow> Some s | _ \<Rightarrow> None) vs
   | _ \<Rightarrow> [])"

text \<open>The buckets are those of \<open>classify_launch_field_errors\<close>: the two functions read alike.\<close>

definition derive_field_buckets_from_field_errors ::
  "(pyval \<Rightarrow> string) \<Rightarrow> pydict \<Rightarrow> string list \<times> string list \<times> string list" where
  "derive_field_buckets_from_field_errors r field_errors =
     (let fc = classify_launch_field_errors r field_errors in (fc_missed fc, fc_invalid fc, fc_empty fc))"

definition mypy_validation :: "(pyval \<Rightarrow> string) \<Rightarrow> pydict \<Rightarrow> pydict" where
  "mypy_validation r details =
     (let path = get_or_none details ''mypy_result_path''; code = get_or_none details ''mypy_exit_code'';
          output = get_or_none details ''mypy_output'';
          exit_code = (case code of VInt i \<Rightarrow> VInt i | VBool b \<Rightarrow> VInt (of_bool b) | _ \<Rightarrow> VNone)
      in if (case path of VStr s \<Rightarrow> True | _ \<Rightarrow> False) \<or> exit_code \<noteq> VNone \<or>
            (case output of VStr s \<Rightarrow> True | _ \<Rightarrow> False)
         then [(''mypy_validation'', VDict [(''result_path'', VStr (str_or_empty r path)),
                 (''exit_code'', exit_code), (''output'', VStr (str_or_empty r output))])]
         else [])"

definition failure_payload :: "(pyval \<Rightarrow> string) \<Rightarrow> pydatetime \<Rightarrow> string \<Rightarrow> pydict \<Rightarrow> pydict" where
  "failure_payload r occurred_at rcode details =
     (let named = (\<lambda>k. texts_of (get_or_none details k));
          (missed, invalid, empty) =
            (case get_or_none details ''field_errors'' of
               VDict fe \<Rightarrow>
                 (case derive_field_buckets_from_field_errors r fe of (m, i, e) \<Rightarrow>
                    (sorted_set (named ''missed_fields'' @ m), sorted_set (named ''invalid_fields'' @ i),
                     sorted_set (named ''empty_fields'' @ e)))
             | _ \<Rightarrow> (named ''missed_fields'', named ''invalid_fields'', named ''empty_fields''));
          kept = filter (\<lambda>(k, v). k \<notin> {''missed_fields'', ''invalid_fields'', ''empty_fields'', ''passed'',
                                        ''failed'', ''not_checked''}) details;
          normalized = normalize_runtime_reason_code (Some rcode)
      in [(''occurred_at'', VTime occurred_at), (''reason_code'', VStr normalized),
          (''error_code'', error_code_of normalized), (''missed_fields'', strings missed),
          (''invalid_fields'', strings invalid), (''empty_fields'', strings empty),
          (''passed'', strings (named ''passed'')), (''failed'', strings (named ''failed'')),
          (''not_checked'', strings (named ''not_checked'')),
          (''details'', VDict (dict_update (mypy_validation r details) kept))])"

definition emit_bootstrap_failed ::
  "gw_env \<Rightarrow> runtime_mode worker_identity \<Rightarrow> pydatetime \<Rightarrow> string \<Rightarrow> pydict \<Rightarrow> string option \<Rightarrow> pydict gw" where
  "emit_bootstrap_failed w wi occurred_at rcode details trigger =
     emit w wi ''bootstrap_failed'' (with_trigger trigger (failure_payload (ge_repr w) occurred_at rcode details))"

definition optional :: "string \<Rightarrow> ('b \<Rightarrow> pyval) \<Rightarrow> 'b option \<Rightarrow> pydict" where
  "optional k f v = (case v of None \<Rightarrow> [] | Some x \<Rightarrow> [(k, f x)])"

definition emit_heartbeat ::
  "gw_env \<Rightarrow> runtime_mode worker_identity \<Rightarrow> string option \<Rightarrow> pydatetime \<Rightarrow> string option \<Rightarrow> string \<Rightarrow> string option \<Rightarrow>
   string option \<Rightarrow> bool option \<Rightarrow> pydict gw" where
  "emit_heartbeat w wi local_state observed_at trigger source rcode message retryable =
     emit w wi ''heartbeat''
       (with_trigger trigger [(''local_state'', opt_str local_state), (''observed_at'', VTime observed_at),
          (''source'', VStr source)] @
        optional ''reason_code'' VStr rcode @ optional ''message'' VStr message @
        optional ''retryable'' VBool retryable)"

definition unhealthy_payload :: "pydatetime \<Rightarrow> pydatetime \<Rightarrow> string \<Rightarrow> pydict \<Rightarrow> string option \<Rightarrow> pydict" where
  "unhealthy_payload occurred_at observed_at rcode details trigger =
     (let normalized = normalize_runtime_reason_code (Some rcode) in
      with_trigger trigger
        [(''reason_code'', VStr normalized), (''error_code'', error_code_of normalized),
         (''details'', VDict details), (''occurred_at'', VTime occurred_at),
         (''observed_at'', VTime observed_at)])"

definition emit_unhealthy ::
  "gw_env \<Rightarrow> runtime_mode worker_identity \<Rightarrow> pydatetime \<Rightarrow> pydatetime \<Rightarrow> string \<Rightarrow> pydict \<Rightarrow> string option \<Rightarrow> pydict gw" where
  "emit_unhealthy w wi occurred_at observed_at rcode details trigger =
     emit w wi ''unhealthy'' (unhealthy_payload occurred_at observed_at rcode details trigger)"

definition emit_controlled_stop ::
  "gw_env \<Rightarrow> runtime_mode worker_identity \<Rightarrow> pydatetime \<Rightarrow> string option \<Rightarrow> string option \<Rightarrow> pydict gw" where
  "emit_controlled_stop w wi occurred_at rcode trigger =
     (let normalized = normalize_runtime_reason_code rcode in
      emit w wi ''controlled_stop'' (with_trigger trigger
        [(''reason_code'', VStr normalized), (''error_code'', error_code_of normalized),
         (''occurred_at'', VTime occurred_at)]))"

definition termination_payload ::
  "pydatetime \<Rightarrow> string \<Rightarrow> string \<Rightarrow> string option \<Rightarrow> pydatetime option \<Rightarrow> string option \<Rightarrow> pydict" where
  "termination_payload occurred_at local_state normalized message observed_at trigger =
     (let body = [(''local_state'', VStr local_state), (''reason_code'', VStr normalized),
                  (''error_code'', error_code_of normalized)]
      in if normalized = ''LOCAL_TERMINATION_OBSERVED'' then body
         else with_trigger trigger ((''occurred_at'', VTime occurred_at) # body @
                optional ''message'' VStr message @ optional ''observed_at'' VTime observed_at))"

definition gw_emit_terminated ::
  "gw_env \<Rightarrow> runtime_mode worker_identity \<Rightarrow> pydatetime \<Rightarrow> string \<Rightarrow> string \<Rightarrow> string option \<Rightarrow> pydatetime option \<Rightarrow>
   string option \<Rightarrow> pydict gw" where
  "gw_emit_terminated w wi occurred_at local_state rcode message observed_at trigger =
     emit w wi ''terminated'' (termination_payload occurred_at local_state
       (normalize_runtime_reason_code (Some rcode)) message observed_at trigger)"

section \<open>The clients\<close>

definition flatten_lifecycle_envelope :: "(pyval \<Rightarrow> string) \<Rightarrow> pydict \<Rightarrow> pydict" where
  "flatten_lifecycle_envelope r envelope =
     (let dict_of = (\<lambda>v. case v of VDict d \<Rightarrow> d | _ \<Rightarrow> []);
          iso = (\<lambda>d. case get_or_none d ''occurred_at'' of
                       VTime t \<Rightarrow> dict_set ''occurred_at'' (VStr (format_occurred_at t)) d | _ \<Rightarrow> d);
          top = filter (\<lambda>(k, v). k \<notin> {''identity'', ''payload'', ''signal_type''}) envelope;
          body = fold (\<lambda>(k, v). dict_setdefault k v) (dict_of (get_or_none envelope ''identity'')) top;
          payload = iso (dict_of (get_or_none envelope ''payload''));
          body = dict_set ''payload'' (VDict payload) (iso body);
          body = dict_set ''signal_type''
            (VStr (py_strip (str_or_empty r (get_or_none envelope ''signal_type'')))) body
      in case get_or_none payload ''occurred_at'' of
           VStr s \<Rightarrow> dict_setdefault ''occurred_at'' (VStr s) body
         | _ \<Rightarrow> body)"

text \<open>Whether \<open>json.dumps\<close> accepts a body: dates and objects raise \<open>TypeError\<close>.\<close>

definition json_able :: "pydict \<Rightarrow> bool" where
  "json_able body \<longleftrightarrow> json_dumps (\<lambda>_. []) (VDict body) \<noteq> None"

text \<open>An immediate answer, or the body posted for a runtime to the lifecycle endpoint.\<close>

definition lifecycle_emit_signal ::
  "(pyval \<Rightarrow> string) \<Rightarrow> string \<Rightarrow> pydict \<Rightarrow> py_exc + (pydict + string \<times> pydict)" where
  "lifecycle_emit_signal r base_url envelope =
     (let signal_type = str_or_empty r (get_or_none envelope ''signal_type'');
          refuse = (\<lambda>reason. Inr (Inl [(''accepted'', VBool False), (''signal_type'', VStr signal_type),
                                      (''reason_code'', VStr reason)]))
      in if signal_type = ''heartbeat'' then refuse ''HEARTBEAT_USE_HTTP''
         else if py_strip base_url = [] then refuse ''SRM_BASE_URL_NOT_CONFIGURED''
         else
           (case get_or_none envelope ''identity'' of
              VDict identity \<Rightarrow>
                (let runtime_id = py_strip (str_or_empty r (get_or_none identity ''runtime_id'')) in
                 if runtime_id = [] then Inl (value_error ''runtime_id is required for SRM lifecycle signal'')
                 else if \<not> json_able (flatten_lifecycle_envelope r envelope) then
                   Inl (TypeExc ''TypeError'' ''Object is not JSON serializable'')
                 else Inr (Inr (runtime_id, flatten_lifecycle_envelope r envelope)))
            | _ \<Rightarrow> Inl (value_error ''signal envelope must include identity mapping'')))"

definition lifecycle_http_result :: "(string \<Rightarrow> pyval option) \<Rightarrow> string \<Rightarrow> http_outcome \<Rightarrow> pydict" where
  "lifecycle_http_result loads signal_type outcome =
     (case outcome of
        UrlError reason \<Rightarrow>
          [(''accepted'', VBool False), (''signal_type'', VStr signal_type),
           (''reason_code'', VStr ''SRM_NETWORK''), (''details'', VStr reason)]
      | _ \<Rightarrow> dict_set ''signal_type'' (VStr signal_type) (http_result loads outcome))"

datatype manager_client = NoopManagerClient | SrmHttpManagerClient srm_client string

definition build_manager_client :: "string \<Rightarrow> string \<Rightarrow> manager_client" where
  "build_manager_client srm_base_url owner =
     (if py_strip srm_base_url = [] then NoopManagerClient
      else SrmHttpManagerClient (make_srm_client (py_strip srm_base_url) owner) (py_strip srm_base_url))"

text \<open>Heartbeats go to the status endpoint, everything else to the lifecycle endpoint.\<close>

datatype manager_request = Answered pydict | StatusPost srm_post | LifecyclePost string pydict

definition manager_emit_signal ::
  "(pyval \<Rightarrow> string) \<Rightarrow> manager_client \<Rightarrow> pydict \<Rightarrow> py_exc + manager_request" where
  "manager_emit_signal r client envelope =
     (case client of
        NoopManagerClient \<Rightarrow>
          Inr (Answered [(''accepted'', VBool True), (''signal_type'', get_or_none envelope ''signal_type'')])
      | SrmHttpManagerClient heartbeat base_url \<Rightarrow>
          if str_or_empty r (get_or_none envelope ''signal_type'') = ''heartbeat'' then
            rbind (emit_signal r heartbeat envelope) (\<lambda>x. Inr (case x of
              Inl answer \<Rightarrow> Answered answer | Inr post \<Rightarrow> StatusPost post))
          else
            rbind (lifecycle_emit_signal r base_url envelope) (\<lambda>x. Inr (case x of
              Inl answer \<Rightarrow> Answered answer | Inr (rid, body) \<Rightarrow> LifecyclePost rid body)))"

section \<open>What reaches the client\<close>

fun sent_signal :: "gw_effect \<Rightarrow> (event_envelope \<times> pydict) option" where
  "sent_signal (SignalSent ev wire) = Some (ev, wire)"
| "sent_signal (EventEmitted ev) = None"
| "sent_signal (EnvelopePrinted m) = None"

definition sent :: "gw_effect list \<Rightarrow> (event_envelope \<times> pydict) list" where
  "sent tr = List.map_filter sent_signal tr"

definition sent_keys :: "gw_effect list \<Rightarrow> signal_key list" where
  "sent_keys tr = map (\<lambda>(ev, wire). signal_key_of ev) (sent tr)"

definition failed_launches :: "gw_effect list \<Rightarrow> (string \<times> int) list" where
  "failed_launches tr =
     map (\<lambda>(ev, wire). (ee_runtime_id ev, ee_launch_attempt ev))
       (filter (\<lambda>(ev, wire). ee_event_name ev = ''runtime.launch_failed'') (sent tr))"

text \<open>
  The payload on the wire is the event's payload without the seven fields that envelope and
  identity already carry, and without losing any other.
\<close>

definition carries_rest :: "event_envelope \<Rightarrow> pydict \<Rightarrow> bool" where
  "carries_rest ev wire \<longleftrightarrow>
     (case get_or_none wire ''payload'' of
        VDict d \<Rightarrow>
          (\<forall>k. dict_get d k =
             (if k \<in> {''occurred_at'', ''runtime_id'', ''launch_attempt'', ''worker_identity'',
                     ''strategy_version_id'', ''tenant_id'', ''account_id''}
              then None else dict_get (ee_payload ev) k))
      | _ \<Rightarrow> False)"

fun emit_all :: "gw_env \<Rightarrow> (runtime_mode worker_identity \<times> string \<times> pydict) list \<Rightarrow> gateway \<Rightarrow> gateway" where
  "emit_all w [] k = k"
| "emit_all w ((wi, signal_type, payload) # calls) k = emit_all w calls (snd (emit w wi signal_type payload k))"

definition initial_gateway :: gateway where
  "initial_gateway = \<lparr>gw_dedupe = initial_dedupe, gw_trace = []\<rparr>"

lemma sent_simps [simp]:
  "sent [] = []"
  "sent (tr @ [SignalSent ev wire]) = sent tr @ [(ev, wire)]"
  "sent (tr @ [EventEmitted ev]) = sent tr"
  "sent (tr @ [EnvelopePrinted m]) = sent tr"
  by (simp_all add: sent_def List.map_filter_def)

definition gateway_inv :: "gateway \<Rightarrow> bool" where
  "gateway_inv k \<longleftrightarrow>
     distinct (sent_keys (gw_trace k)) \<and> set (sent_keys (gw_trace k)) \<subseteq> dd_seen (gw_dedupe k) \<and>
     (\<forall>(ev, wire) \<in> set (sent (gw_trace k)). carries_rest ev wire \<and>
        (ee_event_name ev = ''runtime.launch_failed'' \<longrightarrow>
         ee_event_family ev = ''bootstrap'' \<and> ee_identity_key ev = ''bootstrap_failed''))"

text \<open>Only an effect of sending matters to the invariant.\<close>

lemma gateway_inv_unsent:
  "sent_signal e = None \<Longrightarrow> gateway_inv (gw_effect e k) = gateway_inv k"
  by (cases e) (simp_all add: gateway_inv_def gw_effect_def sent_keys_def)

lemma filtered_get_if:
  "dict_get (filter (\<lambda>(k, v). k \<notin> K) d) k = (if k \<in> K then None else dict_get d k)"
  by (induction d) (auto split: if_split_asm)

lemma filtered_get: "k \<notin> K \<Longrightarrow> dict_get (filter (\<lambda>(k, v). k \<notin> K) d) k = dict_get d k"
  by (simp add: filtered_get_if)

lemma wire_envelope_reduced: "carries_rest ev (wire_envelope ev signal_type i)"
proof -
  have "get_or_none (wire_envelope ev signal_type i) ''payload'' = VDict (wire_payload_only (ee_payload ev))"
    by (simp add: wire_envelope_def get_or_none_def)
  then show ?thesis
    unfolding carries_rest_def wire_payload_only_def
    by (simp only: pyval.case filtered_get_if WIRE_PAYLOAD_EXCLUDE_def list.set) simp
qed

lemma made_event_fields:
  assumes "make_event_envelope e = Inr ev"
  shows "ee_event_name ev = py_strip (ee_event_name e)" "ee_event_family ev = py_strip (ee_event_family e)"
    "ee_identity_key ev = py_strip (ee_identity_key e)"
  using assms by (auto simp: make_event_envelope_def event_require_non_empty_def rbind_eq_Inr split: if_splits)

lemma launch_failed_meta:
  assumes "map_of SIGNAL_META signal_type = Some (n, y, v, f)" and "py_strip n = ''runtime.launch_failed''"
  shows "signal_type = ''bootstrap_failed'' \<and> py_strip f = ''bootstrap''"
proof -
  have "(signal_type, n, y, v, f) \<in> set SIGNAL_META"
    by (rule map_of_SomeD) (rule assms(1))
  moreover have "list_all (\<lambda>(s, n, y, v, f). py_strip n = ''runtime.launch_failed'' \<longrightarrow>
      s = ''bootstrap_failed'' \<and> py_strip f = ''bootstrap'') SIGNAL_META"
    by code_simp
  ultimately show ?thesis using assms(2) by (auto simp: list_all_iff)
qed

lemma created_launch_failed:
  assumes created: "create_event w producer signal_type i payload corr cause trigger = Inr ev"
    and name: "ee_event_name ev = ''runtime.launch_failed''"
  shows "ee_event_family ev = ''bootstrap'' \<and> ee_identity_key ev = ''bootstrap_failed''"
proof -
  obtain n y v f where meta: "map_of SIGNAL_META signal_type = Some (n, y, v, f)"
    using created by (cases "map_of SIGNAL_META signal_type") (auto simp: create_event_def)
  have "\<exists>e. make_event_envelope e = Inr ev \<and> ee_event_name e = n \<and> ee_event_family e = f \<and>
      ee_identity_key e = event_identity_key w signal_type payload"
    using created meta by (simp add: create_event_def Let_def) (metis event_envelope.select_convs)
  then obtain e where e: "make_event_envelope e = Inr ev" "ee_event_name e = n" "ee_event_family e = f"
      "ee_identity_key e = event_identity_key w signal_type payload"
    by blast
  have "py_strip n = ''runtime.launch_failed''" using made_event_fields(1) [OF e(1)] e(2) name by simp
  then have "signal_type = ''bootstrap_failed'' \<and> py_strip f = ''bootstrap''"
    by (rule launch_failed_meta [OF meta])
  then show ?thesis
    using made_event_fields(2,3) [OF e(1)] e(3,4)
    by (auto simp: event_identity_key_def py_strip_fixed py_isspace_char)
qed

lemma decide_refused: "decide ev c d = (x, q) \<Longrightarrow> x \<noteq> ACCEPT \<Longrightarrow> q = d"
  by (auto simp: decide_def Let_def split: if_splits)

lemma decide_accepted:
  "decide ev c d = (ACCEPT, q) \<Longrightarrow> signal_key_of ev \<notin> dd_seen d \<and> dd_seen q = insert (signal_key_of ev) (dd_seen d)"
  by (auto simp: decide_def Let_def split: if_splits)

lemma sending_keeps_inv:
  assumes inv: "gateway_inv k"
    and created: "create_event f producer signal_type i payload corr cause x = Inr ev"
    and accepted: "decide ev c (gw_dedupe k) = (ACCEPT, q)"
  shows "gateway_inv (snd (send_signal w ev signal_type i (k\<lparr>gw_dedupe := q\<rparr>)))"
proof -
  have sent: "gateway_inv (gw_effect (SignalSent ev (wire_envelope ev signal_type i)) (k\<lparr>gw_dedupe := q\<rparr>))"
    using inv decide_accepted [OF accepted] created_launch_failed [OF created] wire_envelope_reduced
    by (auto simp: gateway_inv_def gw_effect_def sent_keys_def)
  then show ?thesis
    by (auto simp: send_signal_def Let_def gateway_inv_unsent split: sum.split)
qed

lemma show_event_keeps_inv:
  "gateway_inv k \<Longrightarrow> gateway_inv (snd (show_event w ev k))"
  by (simp add: show_event_def gateway_inv_unsent split: option.split)

lemma emit_keeps_inv:
  assumes "gateway_inv k"
  shows "gateway_inv (snd (emit w wi signal_type payload k))"
proof (cases rule: emit_cases [of w wi signal_type payload k])
  case (refused r)
  then show ?thesis using assms by simp
next
  case (shown ev r)
  then show ?thesis using assms show_event_keeps_inv by simp
next
  case (decided ev x q)
  have "gateway_inv (snd (show_event w ev k))" by (rule show_event_keeps_inv) (rule assms)
  then show ?thesis
    using decided(2) sending_keeps_inv [OF _ decided(1)] decide_refused [OF decided(2)]
    by (auto simp: decided(3))
qed

lemma emit_all_keeps_inv: "gateway_inv k \<Longrightarrow> gateway_inv (emit_all w calls k)"
  by (induction calls arbitrary: k) (auto simp: emit_keeps_inv)

lemma failed_launch_once:
  assumes "gateway_inv k"
  shows "distinct (failed_launches (gw_trace k))"
proof -
  let ?failed = "filter (\<lambda>(ev, wire). ee_event_name ev = ''runtime.launch_failed'') (sent (gw_trace k))"
  have "distinct (map (\<lambda>(ev, wire). signal_key_of ev) ?failed)"
    using assms by (simp add: gateway_inv_def sent_keys_def distinct_map_filter)
  moreover have "(\<lambda>(ev, wire). signal_key_of ev) p =
      (\<lambda>(r, a). (r, a, ''bootstrap'', ''runtime.launch_failed'', ''bootstrap_failed''))
        ((\<lambda>(ev, wire). (ee_runtime_id ev, ee_launch_attempt ev)) p)" if "p \<in> set ?failed" for p
    using assms that by (auto simp: gateway_inv_def signal_key_of_def)
  ultimately show ?thesis
    unfolding failed_launches_def by (auto simp: distinct_map inj_on_def)
qed

text \<open>
  C31: whatever the client and the journal do, raising included, any sequence of signals hands the
  client each signal key at most once, one failed launch at most for a runtime and attempt, and
  each time with the payload of its event less the seven fields that envelope and identity repeat
  (the time, the runtime, its attempt, worker identity, version, tenant and account). A signal whose delivery raised is
  therefore never delivered by sending it again.
\<close>

theorem gateway_sends_once:
  "distinct (sent_keys (gw_trace (emit_all w calls initial_gateway))) \<and>
   distinct (failed_launches (gw_trace (emit_all w calls initial_gateway))) \<and>
   list_all (\<lambda>(ev, wire). carries_rest ev wire) (sent (gw_trace (emit_all w calls initial_gateway)))"
proof -
  have "gateway_inv initial_gateway"
    by (simp add: gateway_inv_def initial_gateway_def sent_keys_def)
  then have inv: "gateway_inv (emit_all w calls initial_gateway)"
    by (rule emit_all_keeps_inv)
  then show ?thesis
    using failed_launch_once [OF inv] by (auto simp: gateway_inv_def list_all_iff)
qed

section \<open>Unhealthy signals cannot be posted\<close>

lemma json_able_time: "(k, VTime t) \<in> set d \<Longrightarrow> \<not> json_able d"
  by (auto simp: json_able_def json_dumps_dict_map intro!: bexI [of _ "(k, VTime t)"])

lemma json_able_dict: "(k, VDict d) \<in> set b \<Longrightarrow> \<not> json_able d \<Longrightarrow> \<not> json_able b"
  unfolding json_able_def by (auto simp: json_dumps_dict_map [of _ b] intro!: bexI [of _ "(k, VDict d)"])

lemma dict_get_in: "dict_get d k = Some v \<Longrightarrow> (k, v) \<in> set d"
  by (simp add: dict_get_def map_of_SomeD)

lemma flattened_payload:
  assumes "get_or_none envelope ''payload'' = VDict d" and "dict_get d k = Some (VTime t)"
    and "k \<noteq> ''occurred_at''"
  shows "\<not> json_able (flatten_lifecycle_envelope r envelope)"
proof -
  let ?iso = "\<lambda>d. case get_or_none d ''occurred_at'' of
      VTime t \<Rightarrow> dict_set ''occurred_at'' (VStr (format_occurred_at t)) d | _ \<Rightarrow> d"
  let ?body = "flatten_lifecycle_envelope r envelope"
  have body: "dict_get ?body ''payload'' = Some (VDict (?iso d))"
    by (simp add: flatten_lifecycle_envelope_def Let_def assms(1) split: pyval.split)
  have "dict_get (?iso d) k = Some (VTime t)"
    using assms(2,3) by (simp split: pyval.split)
  then show ?thesis using body by (meson dict_get_in json_able_time json_able_dict)
qed

lemma unhealthy_wire_refused:
  assumes "ee_payload ev = event_payload ''unhealthy'' i
      (unhealthy_payload occurred_at observed_at rcode details trigger)"
    and "py_strip url \<noteq> []"
  shows "\<exists>e. manager_emit_signal r (build_manager_client url owner) (wire_envelope ev ''unhealthy'' i) = Inl e"
proof -
  let ?wire = "wire_envelope ev ''unhealthy'' i"
  have "dict_get (ee_payload ev) ''observed_at'' = Some (VTime observed_at)"
    by (simp add: assms(1) event_payload_def unhealthy_payload_def with_trigger_def Let_def)
  then have "dict_get (wire_payload_only (ee_payload ev)) ''observed_at'' = Some (VTime observed_at)"
    unfolding wire_payload_only_def by (subst filtered_get) (simp_all add: WIRE_PAYLOAD_EXCLUDE_def)
  moreover have "get_or_none ?wire ''payload'' = VDict (wire_payload_only (ee_payload ev))"
    by (simp add: wire_envelope_def get_or_none_def)
  ultimately have "\<not> json_able (flatten_lifecycle_envelope r ?wire)"
    by (intro flattened_payload [where k = "''observed_at''"]) simp_all
  moreover have "get_or_none ?wire ''signal_type'' = VStr ''unhealthy''"
    by (simp add: wire_envelope_def get_or_none_def to_manager_signal_def)
  moreover have "get_or_none ?wire ''identity'' = VDict (si_to_dict i)"
    by (simp add: wire_envelope_def get_or_none_def to_manager_signal_def)
  ultimately show ?thesis
    using assms(2)
    by (simp add: manager_emit_signal_def build_manager_client_def lifecycle_emit_signal_def Let_def
        str_or_empty_def)
qed

text \<open>The gateway over the HTTP client; the server answers a request that was sent.\<close>

definition http_client ::
  "(pyval \<Rightarrow> string) \<Rightarrow> string \<Rightarrow> string \<Rightarrow> (manager_request \<Rightarrow> py_exc + pydict) \<Rightarrow> pydict \<Rightarrow> py_exc + pydict" where
  "http_client r url owner server wire =
     rbind (manager_emit_signal r (build_manager_client url owner) wire) server"

lemma created_payload:
  assumes "create_event f producer signal_type i payload corr cause x = Inr ev"
  shows "ee_payload ev = event_payload signal_type i payload"
  using assms
  by (auto simp: create_event_def make_event_envelope_def rbind_eq_Inr Let_def
      split: option.splits prod.splits)

text \<open>
  Over the HTTP client an unhealthy signal never succeeds: its payload carries the
  observation time as a date, of which the client converts only \<open>occurred_at\<close>, so encoding the
  body raises. The call raises, or is answered as suppressed; no server ever sees the signal.
\<close>

lemma unhealthy_never_delivered:
  assumes "\<And>tr. ge_client w tr = http_client r url owner (server tr)" and "py_strip url \<noteq> []"
  shows "case fst (emit_unhealthy w wi occurred_at observed_at rcode details trigger k) of
    Inl e \<Rightarrow> True
  | Inr reply \<Rightarrow> dict_get reply ''suppressed'' = Some (VBool True)"
proof -
  let ?i = "identity_payload wi"
  let ?p = "unhealthy_payload occurred_at observed_at rcode details trigger"
  show ?thesis
  proof (cases rule: emit_cases [of w wi "''unhealthy''" ?p k])
    case (decided ev x q)
    obtain e where "manager_emit_signal r (build_manager_client url owner)
        (wire_envelope ev ''unhealthy'' ?i) = Inl e"
      using unhealthy_wire_refused [OF created_payload [OF decided(1)] assms(2)] by blast
    then show ?thesis
      by (auto simp: emit_unhealthy_def decided(3) suppressed_reply_def send_signal_def Let_def assms(1) http_client_def)
  qed (simp_all add: emit_unhealthy_def)
qed

text \<open>A gateway of a healthy worker whose journal and server never fail.\<close>

definition sample_gw_env :: gw_env where
  "sample_gw_env =
     \<lparr>ge_signal = \<lambda>_. \<lparr>sg_sha256 = \<lambda>s. s, sg_canonical_json = \<lambda>_. [], sg_now = utc 0\<rparr>,
      ge_journal = False, ge_journal_raises = \<lambda>_ _. None,
      ge_client = \<lambda>_. http_client (\<lambda>_. []) ''http://srm'' ''owner'' (\<lambda>_. Inr []),
      ge_repr = \<lambda>_. [], ge_heartbeat_log = False\<rparr>"

theorem unhealthy_never_delivered_witness:
  "case fst (emit_unhealthy sample_gw_env
       \<lparr>wi_runtime_id = ''rt'', wi_tenant_id = ''t'', wi_strategy_version_id = ''v'', wi_mode = PAPER,
        wi_trader_id = None, wi_account_id = Some ''a'', wi_validated_parameter_identity = None,
        wi_artifact_reference = Some ''ref'', wi_artifact_uri = ''uri'', wi_artifact_digest = None,
        wi_entrypoint = ''m:S'', wi_launch_attempt = 1\<rparr>
       (utc 0) (utc 1) ''DEPENDENCY_UNHEALTHY'' [] None initial_gateway) of
     Inl e \<Rightarrow> True
   | Inr reply \<Rightarrow> dict_get reply ''suppressed'' = Some (VBool True)"
  by (rule unhealthy_never_delivered [where url = "''http://srm''" and r = "\<lambda>_. []" and owner = "''owner''"
        and server = "\<lambda>_ _. Inr []"])
     (simp_all add: sample_gw_env_def py_strip_eq_Nil py_isspace_char)

end
