(* ===== verification/WireTime.thy ===== *)
theory WireTime
  imports PyText Errors
begin

text \<open>
  The text form of timestamps in the database and on the wire: \<open>_to_wire_ts\<close> and
  \<open>_from_wire_ts\<close> of \<open>persistence/repositories.py\<close>. \<open>datetime.fromisoformat\<close> is modelled on
  the texts that \<open>isoformat\<close> of a UTC datetime yields; on any other text it is the argument
  \<open>other\<close>. The calendar inverse shows that reading gives back what was written.
\<close>

section \<open>The calendar is invertible\<close>

definition days_of_civil :: "int \<Rightarrow> int \<Rightarrow> int \<Rightarrow> int" where
  "days_of_civil y m d =
     (let y' = (if m \<le> 2 then y - 1 else y);
          era = y' div 400;
          yoe = y' mod 400;
          mp = (if m > 2 then m - 3 else m + 9);
          doy = (153 * mp + 2) div 5 + d - 1;
          doe = yoe * 365 + yoe div 4 - yoe div 100 + doy
      in era * 146097 + doe - 719468)"

text \<open>The year within an era from the day, and the first day of each year.\<close>

definition year_scale :: "int \<Rightarrow> int" where
  "year_scale doe = doe - doe div 1460 + doe div 36524 - doe div 146096"

definition year_start :: "int \<Rightarrow> int" where
  "year_start k = 365 * k + k div 4 - k div 100"

lemma div_succ:
  assumes "0 < (n::int)"
  shows "(x + 1) div n = x div n + (if n dvd x + 1 then 1 else 0)"
proof (cases "n dvd x + 1")
  case True
  then obtain q where "x + 1 = n * q" by blast
  then have x: "x = n * (q - 1) + (n - 1)" by (simp add: algebra_simps)
  have "x div n = q - 1" unfolding x using assms by (simp add: div_pos_pos_trivial)
  then show ?thesis using True \<open>x + 1 = n * q\<close> assms by simp
next
  case False
  have "x mod n \<noteq> n - 1"
  proof
    assume "x mod n = n - 1"
    then have "x + 1 = n * (x div n) + n" using mult_div_mod_eq [of n x] by simp
    then have "x + 1 = n * (x div n + 1)" by (simp add: algebra_simps)
    then show False using False by simp
  qed
  then have less: "x mod n + 1 < n" using pos_mod_bound [OF assms, of x] by linarith
  have "(x + 1) div n = ((x mod n + 1) + n * (x div n)) div n" by (simp add: algebra_simps)
  also have "\<dots> = (x mod n + 1) div n + x div n"
    using assms by (intro div_mult_self2 [THEN trans]) simp_all
  also have "(x mod n + 1) div n = 0"
    using less pos_mod_sign [OF assms, of x] by (simp add: div_pos_pos_trivial)
  finally show ?thesis using False by simp
qed

lemma year_scale_step: "year_scale x \<le> year_scale (x + 1)"
proof -
  have "146096 dvd x + 1 \<Longrightarrow> 36524 dvd x + (1::int)" by (rule dvd_trans [of _ 146096]) simp_all
  then show ?thesis by (auto simp: year_scale_def div_succ)
qed

lemma year_scale_mono: "x \<le> y \<Longrightarrow> year_scale x \<le> year_scale y"
proof (induction y rule: int_ge_induct)
  case base
  then show ?case by simp
next
  case (step i)
  then show ?case using year_scale_step [of i] by linarith
qed

text \<open>A year of an era in centuries, groups of four and the rest.\<close>

lemma year_start_parts:
  assumes "0 \<le> a" and "a < 4" and "0 \<le> c" and "c < 25" and "0 \<le> e" and "e < 4"
  shows "year_start (100 * a + 4 * c + e) = 36524 * a + 1461 * c + 365 * e"
proof -
  have "(100 * a + 4 * c + e) div 4 = 25 * a + c"
    using assms by (intro int_div_pos_eq [where r = e]) simp_all
  moreover have "(100 * a + 4 * c + e) div 100 = a"
    using assms by (intro int_div_pos_eq [where r = "4 * c + e"]) simp_all
  ultimately show ?thesis by (simp add: year_start_def)
qed

lemma year_scale_start:
  assumes "0 \<le> k" and "k < 400"
  shows "year_scale (year_start k) = 365 * k" and "0 < k \<Longrightarrow> \<not> 1460 dvd year_start k"
proof -
  obtain a c e where k: "k = 100 * a + 4 * c + e" "0 \<le> a" "a < 4" "0 \<le> c" "c < 25" "0 \<le> e" "e < 4"
  proof
    show "k = 100 * (k div 100) + 4 * (k mod 100 div 4) + k mod 100 mod 4" by presburger
    show "0 \<le> k div 100" "k div 100 < 4" "0 \<le> k mod 100 div 4" "k mod 100 div 4 < 25"
      "0 \<le> k mod 100 mod 4" "k mod 100 mod 4 < 4" using assms by presburger+
  qed
  have start: "year_start k = 36524 * a + 1461 * c + 365 * e"
    unfolding k(1) by (rule year_start_parts [OF k(2-7)])
  have rest: "24 * a + c + 365 * e < 1460" "0 \<le> 24 * a + c + 365 * e" using k(2-7) by linarith+
  have quarter: "year_start k div 1460 = 25 * a + c"
    unfolding start using rest by (intro int_div_pos_eq [where r = "24 * a + c + 365 * e"]) simp_all
  have left: "year_start k mod 1460 = 24 * a + c + 365 * e"
    unfolding start using rest by (intro int_mod_pos_eq [where q = "25 * a + c"]) simp_all
  moreover have "year_start k div 36524 = a"
    unfolding start using k(2-7) by (intro int_div_pos_eq [where r = "1461 * c + 365 * e"]) simp_all
  moreover have "year_start k div 146096 = 0"
    unfolding start using k(2-7) by (intro div_pos_pos_trivial) linarith+
  ultimately show "year_scale (year_start k) = 365 * k"
    using quarter
    unfolding year_scale_def using start k(1) by linarith
  show "\<not> 1460 dvd year_start k" if "0 < k"
    using left k that by (simp add: dvd_eq_mod_eq_0)
qed

lemma year_scale_bounds:
  assumes "0 \<le> k" and "k < 400"
  shows "365 * k \<le> year_scale (year_start k)" and "year_scale (year_start (k + 1) - 1) < 365 * (k + 1)"
    and "year_start (k + 1) \<le> year_start k + 366"
proof -
  show "365 * k \<le> year_scale (year_start k)" using year_scale_start [OF assms] by simp
  show "year_scale (year_start (k + 1) - 1) < 365 * (k + 1)"
  proof (cases "k + 1 < 400")
    case True
    have "36524 dvd year_start (k + 1) \<or> \<not> 146096 dvd year_start (k + 1)"
      using dvd_trans [of 36524 "146096::int"] by auto
    then have "year_scale (year_start (k + 1) - 1) < year_scale (year_start (k + 1))"
      using year_scale_start(2) [of "k + 1"] True assms(1)
        div_succ [of 1460 "year_start (k + 1) - 1"] div_succ [of 36524 "year_start (k + 1) - 1"]
        div_succ [of 146096 "year_start (k + 1) - 1"]
      by (auto simp: year_scale_def split: if_splits)
    then show ?thesis using year_scale_start(1) [of "k + 1"] True assms(1) by simp
  next
    case False
    then have "k = 399" using assms(2) by simp
    then show ?thesis by (simp add: year_start_def year_scale_def)
  qed
  show "year_start (k + 1) \<le> year_start k + 366"
    using div_succ [of 4 k] div_succ [of 100 k] by (simp add: year_start_def)
qed

lemma year_of_day_ex:
  assumes "0 \<le> doe" and "doe < year_start (int n)" and "n \<le> 400"
  shows "\<exists>k. 0 \<le> k \<and> k < int n \<and> year_start k \<le> doe \<and> doe < year_start (k + 1)"
  using assms
proof (induction n)
  case 0
  then show ?case by (simp add: year_start_def)
next
  case (Suc n)
  show ?case
  proof (cases "doe < year_start (int n)")
    case True
    then show ?thesis using Suc by fastforce
  next
    case False
    have "int (Suc n) = int n + 1" by simp
    then have "doe < year_start (int n + 1)" using Suc.prems(2) by (simp only:)
    then show ?thesis using False by (intro exI [of _ "int n"]) simp
  qed
qed

lemma year_of_day:
  assumes "0 \<le> doe" and "doe < 146097"
  obtains "0 \<le> year_scale doe div 365" and "year_scale doe div 365 < 400"
    and "0 \<le> doe - year_start (year_scale doe div 365)" and "doe - year_start (year_scale doe div 365) < 366"
proof -
  show ?thesis
  proof (cases "doe = 146096")
    case True
    then have "year_scale doe div 365 = 399" "year_start 399 = 145731"
      by (simp_all add: year_scale_def year_start_def)
    then show ?thesis using that True by simp
  next
    case False
    have "\<exists>k. 0 \<le> k \<and> k < int 400 \<and> year_start k \<le> doe \<and> doe < year_start (k + 1)"
      by (rule year_of_day_ex) (use assms False in \<open>simp_all add: year_start_def\<close>)
    then obtain k where k: "0 \<le> k" "k < 400" "year_start k \<le> doe" "doe < year_start (k + 1)" by auto
    have "365 * k \<le> year_scale doe"
      using year_scale_bounds(1) [OF k(1,2)] year_scale_mono [OF k(3)] by linarith
    moreover have "year_scale doe < 365 * (k + 1)"
      using year_scale_bounds(2) [OF k(1,2)] year_scale_mono [of doe "year_start (k + 1) - 1"] k(4) by linarith
    ultimately have "year_scale doe div 365 = k"
      by (intro int_div_pos_eq [where r = "year_scale doe - 365 * k"]) simp_all
    then show ?thesis using that k year_scale_bounds(3) [OF k(1,2)] by simp
  qed
qed

lemma days_of_civil_of_days:
  assumes "civil_of_days z = (y, m, d)"
  shows "days_of_civil y m d = z" and "1 \<le> m" and "m \<le> 12" and "1 \<le> d" and "d \<le> 31"
proof -
  let ?doe = "(z + 719468) mod 146097" and ?era = "(z + 719468) div 146097"
  obtain yoe where yoe: "yoe = year_scale ?doe div 365" by simp
  obtain doy where doy: "doy = ?doe - year_start yoe" by simp
  obtain mp where mp: "mp = (5 * doy + 2) div 153" by simp
  have bounds: "0 \<le> yoe" "yoe < 400" "0 \<le> doy" "doy < 366"
    using year_of_day [of ?doe] unfolding yoe doy by auto
  have mp_bounds: "0 \<le> mp" "mp < 12" using bounds(3,4) unfolding mp by auto
  have "civil_of_days z =
      (yoe + ?era * 400 + (if (if mp < 10 then mp + 3 else mp - 9) \<le> 2 then 1 else 0),
       (if mp < 10 then mp + 3 else mp - 9), doy - (153 * mp + 2) div 5 + 1)"
    by (simp only: civil_of_days_def Let_def yoe doy mp year_scale_def year_start_def)
  then have civil: "m = (if mp < 10 then mp + 3 else mp - 9)" "d = doy - (153 * mp + 2) div 5 + 1"
    "y = yoe + ?era * 400 + (if m \<le> 2 then 1 else 0)"
    using assms by simp_all
  have "(if m \<le> 2 then y - 1 else y) = yoe + ?era * 400" using civil(3) by simp
  then have era: "(if m \<le> 2 then y - 1 else y) div 400 = ?era" "(if m \<le> 2 then y - 1 else y) mod 400 = yoe"
    using bounds by simp_all
  have month: "(if m > 2 then m - 3 else m + 9) = mp" using civil(1) mp_bounds by auto
  show "days_of_civil y m d = z"
    unfolding days_of_civil_def Let_def era month
    using mult_div_mod_eq [of 146097 "z + 719468"] doy civil(2) by (simp add: year_start_def algebra_simps)
  show "1 \<le> m" "m \<le> 12" using civil(1) mp_bounds by auto
  have mp_range: "153 * mp \<le> 5 * doy + 2" "5 * doy + 2 < 153 * mp + 153"
    using mult_div_mod_eq [of 153 "5 * doy + 2"] unfolding mp [symmetric] by simp_all
  obtain q where q: "q = (153 * mp + 2) div 5" by simp
  have "5 * q \<le> 153 * mp + 2" "153 * mp + 2 < 5 * q + 5"
    using mult_div_mod_eq [of 5 "153 * mp + 2"] unfolding q [symmetric] by simp_all
  then have "- 5 < 5 * (doy - q)" and "5 * (doy - q) < 155" using mp_range unfolding right_diff_distrib by linarith+
  then show "1 \<le> d" "d \<le> 31" unfolding civil(2) q [symmetric] by simp_all
qed

section \<open>Reading and writing texts\<close>

definition all_digits :: "string \<Rightarrow> bool" where
  "all_digits s \<longleftrightarrow> list_all (\<lambda>c. 48 \<le> (of_char c :: nat) \<and> (of_char c :: nat) < 58) s"

text \<open>\<open>YYYY-MM-DDTHH:MM:SS[.ffffff]+00:00\<close> as an instant.\<close>

definition iso_fields :: "string \<Rightarrow> string list" where
  "iso_fields s = [take 4 s, take 2 (drop 5 s), take 2 (drop 8 s), take 2 (drop 11 s), take 2 (drop 14 s),
                   take 2 (drop 17 s)]"

definition iso_marks :: "string \<Rightarrow> string" where
  "iso_marks s = map (\<lambda>i. s ! i) [4, 7, 10, 13, 16]"

definition iso_instant :: "string \<Rightarrow> int option" where
  "iso_instant s =
     (let tail = drop 19 s; micro = take 6 (drop 1 tail);
          whole = tail = ''+00:00'';
          parts = length tail = 13 \<and> hd tail = CHR ''.'' \<and> all_digits micro \<and> drop 7 tail = ''+00:00'';
          n = (\<lambda>t. int (digits_value t))
      in if length s < 25 \<or> iso_marks s \<noteq> ''--T::'' \<or> \<not> list_all all_digits (iso_fields s) \<or> \<not> (whole \<or> parts)
         then None
         else (case map n (iso_fields s) of
                 [y, m, d, hh, mm, ss] \<Rightarrow>
                   Some ((days_of_civil y m d * 86400 + hh * 3600 + mm * 60 + ss) * 1000000 +
                     (if whole then 0 else n micro))
               | _ \<Rightarrow> None))"

definition datetime_fromisoformat :: "(string \<Rightarrow> pydatetime option) \<Rightarrow> string \<Rightarrow> pydatetime option" where
  "datetime_fromisoformat other s =
     (case iso_instant s of Some i \<Rightarrow> Some (utc i) | None \<Rightarrow> other s)"

text \<open>\<open>_to_wire_ts\<close> and \<open>_from_wire_ts\<close>.\<close>

definition db_require_utc :: "pydatetime \<Rightarrow> py_exc + pydatetime" where
  "db_require_utc t =
     (if dt_aware t then Inr (as_utc t)
      else Inl (ValueExc ''ValueError'' ''datetime must be timezone-aware'' None))"

definition to_wire_ts :: "pydatetime \<Rightarrow> py_exc + string" where
  "to_wire_ts t = rbind (db_require_utc t) (\<lambda>u. Inr (wire_timestamp u))"

definition from_wire_ts :: "(string \<Rightarrow> pydatetime option) \<Rightarrow> string \<Rightarrow> py_exc + pydatetime" where
  "from_wire_ts other s =
     (case datetime_fromisoformat other (py_replace ''Z'' ''+00:00'' s) of
        Some t \<Rightarrow> Inr (as_utc t)
      | None \<Rightarrow> Inl (ValueExc ''ValueError'' (''Invalid isoformat string: '' @ s) None))"

section \<open>Reading gives back what was written\<close>

lemma nat_str_length: "n < 10 ^ w \<Longrightarrow> 0 < w \<Longrightarrow> length (nat_str n) \<le> w"
proof (induction w arbitrary: n)
  case 0
  then show ?case by simp
next
  case (Suc w)
  show ?case
  proof (cases "n < 10")
    case True
    then show ?thesis by (simp add: nat_str.simps [of n])
  next
    case False
    then have "w \<noteq> 0" using Suc.prems(1) by (intro notI) simp
    moreover have "n div 10 < 10 ^ w" using Suc.prems(1) by (simp add: less_mult_imp_div_less mult.commute)
    ultimately show ?thesis using Suc.IH [of "n div 10"] False by (simp add: nat_str.simps [of n])
  qed
qed

lemma pad_nat_length: "n < 10 ^ w \<Longrightarrow> 0 < w \<Longrightarrow> length (pad_nat w n) = w"
  using nat_str_length [of n w] by (simp add: pad_nat_def Let_def)

lemma digits_value_zeros: "digits_value (replicate k (CHR ''0'') @ s) = digits_value s"
  by (induction k) (simp_all add: digits_value_def)

lemma pad_nat_value [simp]: "digits_value (pad_nat w n) = n"
  by (simp add: pad_nat_def Let_def digits_value_zeros)

lemma pad_nat_digits [simp]: "all_digits (pad_nat w n)"
  using nat_str_digits [of _ n] by (auto simp: all_digits_def list_all_iff pad_nat_def Let_def)

lemma replace_last_char:
  "z \<notin> set s \<Longrightarrow> py_replace [z] r (s @ [z]) = s @ r"
  by (induction s) auto

text \<open>Python's datetimes lie in the years 1 to 9999.\<close>

definition dt_in_range :: "pydatetime \<Rightarrow> bool" where
  "dt_in_range t \<longleftrightarrow>
     (case civil_of_days (dt_instant t div 86400000000) of (y, m, d) \<Rightarrow> 1 \<le> y \<and> y \<le> 9999)"

lemma iso_instant_parts:
  assumes "length y = 4" and "length m = 2" and "length d = 2" and "length hh = 2" and "length mm = 2"
    and "length ss = 2" and "list_all all_digits [y, m, d, hh, mm, ss]"
    and "f = [] \<or> length f = 6 \<and> all_digits f"
  shows "iso_instant (y @ ''-'' @ m @ ''-'' @ d @ ''T'' @ hh @ '':'' @ mm @ '':'' @ ss @
      (if f = [] then [] else ''.'' @ f) @ ''+00:00'') =
    Some ((days_of_civil (int (digits_value y)) (int (digits_value m)) (int (digits_value d)) * 86400 +
      int (digits_value hh) * 3600 + int (digits_value mm) * 60 + int (digits_value ss)) * 1000000 +
      int (digits_value f))"
  using assms
  by (auto simp: iso_instant_def iso_fields_def iso_marks_def nth_append Let_def digits_value_def)

lemma no_z_in_pad: "CHR ''Z'' \<notin> set (pad_nat w n)"
  using pad_nat_digits [of w n] by (auto simp: all_digits_def list_all_iff)

lemma iso_utc_no_z: "CHR ''Z'' \<notin> set (iso_utc i)"
  by (auto simp: iso_utc_def Let_def no_z_in_pad split: prod.split)

lemma pad_int_length: "0 \<le> x \<Longrightarrow> x < 10 ^ w \<Longrightarrow> 0 < w \<Longrightarrow> length (pad_nat w (nat x)) = w"
  by (rule pad_nat_length) (simp_all add: nat_less_iff)

lemma seconds_parts: "s div 3600 * 3600 + s div 60 mod 60 * 60 + s mod 60 = (s::int)"
proof -
  have "s div 3600 = s div 60 div 60" using zdiv_zmult2_eq [of 60 s 60] by simp
  then show ?thesis using div_mult_mod_eq [of s 60] div_mult_mod_eq [of "s div 60" 60] by linarith
qed

lemma micros_of_parts:
  "a + b + c = s \<Longrightarrow> (d * 86400 + a + b + c) * 1000000 + f = d * 86400000000 + (s * 1000000 + (f::int))"
  by (simp add: algebra_simps)

lemma wire_timestamp_read:
  assumes "dt_aware t" and "dt_in_range t"
  shows "rbind (to_wire_ts t) (from_wire_ts other) = Inr (as_utc t)"
proof -
  let ?i = "dt_instant t"
  obtain days secs frac where split: "days = ?i div 86400000000" "secs = ?i mod 86400000000 div 1000000"
    "frac = ?i mod 86400000000 mod 1000000" by simp
  have ranges: "0 \<le> secs" "secs < 86400" "0 \<le> frac" "frac < 1000000" unfolding split by simp_all
  obtain y m d where civil: "civil_of_days days = (y, m, d)" by (cases "civil_of_days days")
  note date = days_of_civil_of_days [OF civil]
  have y: "1 \<le> y" "y \<le> 9999" using assms(2) civil by (auto simp: dt_in_range_def split)
  have hms: "0 \<le> secs div 3600" "secs div 3600 < 100" "0 \<le> secs div 60 mod 60" "secs div 60 mod 60 < 100"
    "0 \<le> secs mod 60" "secs mod 60 < 100"
    using ranges(1,2) pos_mod_bound [of 60 "secs div 60"] pos_mod_bound [of 60 secs]
    by (simp_all add: pos_imp_zdiv_nonneg_iff div_int_pos_iff)
  have lens: "length (pad_nat 4 (nat y)) = 4" "length (pad_nat 2 (nat m)) = 2" "length (pad_nat 2 (nat d)) = 2"
    "length (pad_nat 2 (nat (secs div 3600))) = 2" "length (pad_nat 2 (nat (secs div 60 mod 60))) = 2"
    "length (pad_nat 2 (nat (secs mod 60))) = 2"
    by (rule pad_int_length, (use y date(2-5) in linarith | fact hms | simp)+)+
  have ints: "int (nat y) = y" "int (nat m) = m" "int (nat d) = d" "int (nat (secs div 3600)) = secs div 3600"
    "int (nat (secs div 60 mod 60)) = secs div 60 mod 60" "int (nat (secs mod 60)) = secs mod 60"
    by (rule nat_0_le, (use y date(2-5) in linarith | fact hms))+
  have frac_len: "length (pad_nat 6 (nat frac)) = 6" by (rule pad_int_length) (use ranges in simp_all)
  obtain f where f: "f = (if frac = 0 then [] else pad_nat 6 (nat frac))" by simp
  have f_shape: "f = [] \<or> length f = 6 \<and> all_digits f" using frac_len f by simp
  have digits: "list_all all_digits [pad_nat 4 (nat y), pad_nat 2 (nat m), pad_nat 2 (nat d),
      pad_nat 2 (nat (secs div 3600)), pad_nat 2 (nat (secs div 60 mod 60)), pad_nat 2 (nat (secs mod 60))]"
    by (simp only: list.pred_inject pad_nat_digits simp_thms)
  have shape: "iso_utc ?i @ ''+00:00'' =
      pad_nat 4 (nat y) @ ''-'' @ pad_nat 2 (nat m) @ ''-'' @ pad_nat 2 (nat d) @ ''T'' @
      pad_nat 2 (nat (secs div 3600)) @ '':'' @ pad_nat 2 (nat (secs div 60 mod 60)) @ '':'' @
      pad_nat 2 (nat (secs mod 60)) @ (if f = [] then [] else ''.'' @ f) @ ''+00:00''"
    using frac_len
    by (auto simp: iso_utc_def Let_def split [symmetric] civil f)
  have "iso_instant (iso_utc ?i @ ''+00:00'') = Some ((days_of_civil y m d * 86400 + secs div 3600 * 3600 +
      secs div 60 mod 60 * 60 + secs mod 60) * 1000000 + int (digits_value f))"
    using iso_instant_parts [OF lens digits f_shape] unfolding shape pad_nat_value ints .
  moreover have "int (digits_value f) = frac" using ranges(3) by (simp add: f digits_value_def [of "[]"])
  moreover have "(days_of_civil y m d * 86400 + secs div 3600 * 3600 + secs div 60 mod 60 * 60 + secs mod 60) *
      1000000 + frac = ?i"
    unfolding date(1) micros_of_parts [OF seconds_parts [of secs]]
    using div_mult_mod_eq [of "?i mod 86400000000" 1000000] div_mult_mod_eq [of ?i 86400000000]
    unfolding split [symmetric] by simp
  ultimately have read: "iso_instant (iso_utc ?i @ ''+00:00'') = Some ?i" by simp
  have "py_replace ''Z'' ''+00:00'' (iso_utc ?i @ ''Z'') = iso_utc ?i @ ''+00:00''"
    by (rule replace_last_char) (rule iso_utc_no_z)
  then show ?thesis
    using assms(1) read
    by (simp add: to_wire_ts_def db_require_utc_def from_wire_ts_def wire_timestamp_def
        datetime_fromisoformat_def as_utc_def)
qed

text \<open>
  C37: a timestamp read back from the database is the instant that was written, to the
  microsecond, in UTC, for every aware datetime Python can represent.
\<close>

theorem wire_timestamp_roundtrip:
  assumes "dt_aware t" and "dt_in_range t"
  shows "rbind (to_wire_ts t) (from_wire_ts other) = Inr (as_utc t)"
  using assms by (rule wire_timestamp_read)

theorem wire_timestamp_roundtrip_witness:
  "rbind (to_wire_ts \<lparr>dt_wall = 1709210096789000, dt_offset = Some 3600000000\<rparr>) (from_wire_ts (\<lambda>_. None)) =
     Inr (as_utc \<lparr>dt_wall = 1709210096789000, dt_offset = Some 3600000000\<rparr>)"
  by (rule wire_timestamp_roundtrip; code_simp)

end
