(* ===== verification/Store.thy ===== *)
theory Store
  imports WireTime Action
begin

text \<open>
  \<open>persistence/repositories.py\<close> over the tables of \<open>persistence/schema.py\<close> and
  \<open>migrations/*.sql\<close>. A table is the list of its rows in the order of insertion; a statement is
  its SQL meaning: \<open>INSERT\<close> checks the primary key, the unique constraint and the foreign key of
  the table (\<open>PRAGMA foreign_keys=ON\<close>), \<open>UPDATE\<close> changes the matching rows, \<open>ORDER BY\<close> on a text
  column compares bytes. Timestamps and JSON are stored as text. A record of the code and a row
  of the table have the same fields, so one record type with parameters serves both.
\<close>

section \<open>Records and tables\<close>

record 'ts worker_instance =
  wr_runtime_id :: string
  wr_worker_identity :: string
  wr_tenant_id :: string
  wr_strategy_version_id :: string
  wr_launch_attempt :: int
  wr_state :: string
  wr_occurred_at :: 'ts
  wr_observed_at :: 'ts
  wr_trader_id :: "string option"
  wr_account_id :: "string option"
  wr_reason_code :: "string option"
  wr_last_heartbeat_at :: "'ts option"
  wr_correlation_id :: "string option"
  wr_causation_id :: "string option"

record ('ts, 'd) attempt =
  la_runtime_id :: string
  la_launch_attempt :: int
  la_state :: string
  la_occurred_at :: 'ts
  la_observed_at :: 'ts
  la_reason_code :: "string option"
  la_correlation_id :: "string option"
  la_causation_id :: "string option"
  la_details :: 'd

record ('ts, 'd) observation =
  ho_runtime_id :: string
  ho_launch_attempt :: int
  ho_occurred_at :: 'ts
  ho_observed_at :: 'ts
  ho_correlation_id :: "string option"
  ho_causation_id :: "string option"
  ho_details :: 'd

record ('ts, 'd) worker_event =
  ev_event_id :: string
  ev_runtime_id :: string
  ev_worker_identity :: string
  ev_launch_attempt :: int
  ev_event_family :: string
  ev_occurred_at :: 'ts
  ev_observed_at :: 'ts
  ev_state :: "string option"
  ev_reason_code :: "string option"
  ev_correlation_id :: "string option"
  ev_causation_id :: "string option"
  ev_payload :: 'd

record ('ts, 'd) diagnostic =
  dg_runtime_id :: string
  dg_launch_attempt :: int
  dg_diagnostic_type :: string
  dg_occurred_at :: 'ts
  dg_observed_at :: 'ts
  dg_stage :: "string option"
  dg_reason_code :: "string option"
  dg_correlation_id :: "string option"
  dg_causation_id :: "string option"
  dg_details :: 'd

record ('ts, 'd) state_entry =
  sj_runtime_id :: string
  sj_launch_attempt :: int
  sj_kind :: string
  sj_observed_at :: 'ts
  sj_phase :: "string option"
  sj_previous_phase :: "string option"
  sj_step_name :: "string option"
  sj_level :: "string option"
  sj_reason_code :: "string option"
  sj_details :: 'd

record ('ts, 'p, 'd) order_entry =
  oj_runtime_id :: string
  oj_launch_attempt :: int
  oj_source :: string
  oj_requested_at :: 'ts
  oj_payload :: 'p
  oj_result :: 'd
  oj_correlation_id :: "string option"
  oj_created_at :: "'ts option"
  oj_job_id :: "string option"
  oj_idempotency_key :: "string option"
  oj_order_intent_id :: "string option"
  oj_symbol :: "string option"

type_synonym json = "pydict option"
type_synonym text_json = "string option"

record db =
  worker_instances :: "string worker_instance list"
  worker_launch_attempts :: "(string, text_json) attempt list"
  worker_heartbeat_observations :: "(string, text_json) observation list"
  worker_events :: "(string, text_json) worker_event list"
  worker_diagnostics :: "(string, text_json) diagnostic list"
  runtime_state_journal :: "(string, text_json) state_entry list"
  order_intent_journal :: "(string, string, text_json) order_entry list"

text \<open>\<open>fromisoformat\<close> on other texts, \<open>json.loads\<close> and the text of a float.\<close>

record wire =
  wt_iso :: "string \<Rightarrow> pydatetime option"
  wt_loads :: "string \<Rightarrow> pyval option"
  wt_float :: "rat \<Rightarrow> string"

definition IntegrityError :: "string \<Rightarrow> py_exc" where
  "IntegrityError msg = OtherExc ''IntegrityError'' msg None"

section \<open>Texts\<close>

definition to_json :: "wire \<Rightarrow> json \<Rightarrow> py_exc + text_json" where
  "to_json w value =
     (case value of
        None \<Rightarrow> Inr None
      | Some d \<Rightarrow>
          (case json_dumps (wt_float w) (VDict d) of
             Some t \<Rightarrow> Inr (Some t)
           | None \<Rightarrow> Inl (TypeExc ''TypeError'' ''Object is not JSON serializable'')))"

definition from_json :: "wire \<Rightarrow> text_json \<Rightarrow> py_exc + pydict" where
  "from_json w value =
     (case value of
        None \<Rightarrow> Inr []
      | Some t \<Rightarrow>
          if t = [] then Inr []
          else (case wt_loads w t of
                  Some (VDict d) \<Rightarrow> Inr d
                | Some v \<Rightarrow> Inr [(''value'', v)]
                | None \<Rightarrow> Inl (ValueExc ''JSONDecodeError'' ''Expecting value'' None)))"

definition opt_wire_ts :: "pydatetime option \<Rightarrow> py_exc + string option" where
  "opt_wire_ts t = (case t of None \<Rightarrow> Inr None | Some u \<Rightarrow> rbind (to_wire_ts u) (\<lambda>s. Inr (Some s)))"

definition opt_from_wire :: "wire \<Rightarrow> string option \<Rightarrow> py_exc + pydatetime option" where
  "opt_from_wire w s =
     (case s of None \<Rightarrow> Inr None | Some x \<Rightarrow> rbind (from_wire_ts (wt_iso w) x) (\<lambda>t. Inr (Some t)))"

fun read_all :: "('r \<Rightarrow> py_exc + 'a) \<Rightarrow> 'r list \<Rightarrow> py_exc + 'a list" where
  "read_all f [] = Inr []"
| "read_all f (r # rs) = rbind (f r) (\<lambda>x. rbind (read_all f rs) (\<lambda>xs. Inr (x # xs)))"

definition read_first :: "('r \<Rightarrow> py_exc + 'a) \<Rightarrow> 'r list \<Rightarrow> py_exc + 'a option" where
  "read_first f rs = (case rs of [] \<Rightarrow> Inr None | r # _ \<Rightarrow> rbind (f r) (\<lambda>x. Inr (Some x)))"

definition update_where :: "('r \<Rightarrow> bool) \<Rightarrow> ('r \<Rightarrow> 'r) \<Rightarrow> 'r list \<Rightarrow> 'r list" where
  "update_where p f rs = map (\<lambda>r. if p r then f r else r) rs"

text \<open>The foreign key of a table on \<open>worker_instances(runtime_id)\<close>.\<close>

definition known_runtime :: "db \<Rightarrow> string \<Rightarrow> bool" where
  "known_runtime d rid \<longleftrightarrow> rid \<in> wr_runtime_id ` set (worker_instances d)"

definition foreign_key :: "db \<Rightarrow> string \<Rightarrow> py_exc + unit" where
  "foreign_key d rid = rguard (known_runtime d rid) (IntegrityError ''FOREIGN KEY constraint failed'')"

section \<open>Worker instances\<close>

text \<open>The changes \<open>upsert_instance\<close> makes to an existing row: all columns but the heartbeat.\<close>

definition updated_instance ::
  "pydatetime worker_instance \<Rightarrow> string \<Rightarrow> string \<Rightarrow> string worker_instance \<Rightarrow> string worker_instance" where
  "updated_instance i occurred observed r =
     r\<lparr>wr_worker_identity := wr_worker_identity i, wr_tenant_id := wr_tenant_id i,
       wr_trader_id := wr_trader_id i, wr_account_id := wr_account_id i,
       wr_strategy_version_id := wr_strategy_version_id i, wr_launch_attempt := wr_launch_attempt i,
       wr_state := wr_state i, wr_reason_code := wr_reason_code i, wr_occurred_at := occurred,
       wr_observed_at := observed, wr_correlation_id := wr_correlation_id i,
       wr_causation_id := wr_causation_id i\<rparr>"

definition inserted_instance ::
  "pydatetime worker_instance \<Rightarrow> string \<Rightarrow> string \<Rightarrow> string option \<Rightarrow> string worker_instance" where
  "inserted_instance i occurred observed heartbeat =
     \<lparr>wr_runtime_id = wr_runtime_id i, wr_worker_identity = wr_worker_identity i, wr_tenant_id = wr_tenant_id i,
      wr_strategy_version_id = wr_strategy_version_id i, wr_launch_attempt = wr_launch_attempt i,
      wr_state = wr_state i, wr_occurred_at = occurred, wr_observed_at = observed,
      wr_trader_id = wr_trader_id i, wr_account_id = wr_account_id i, wr_reason_code = wr_reason_code i,
      wr_last_heartbeat_at = heartbeat, wr_correlation_id = wr_correlation_id i,
      wr_causation_id = wr_causation_id i\<rparr>"

definition upsert_instance :: "pydatetime worker_instance \<Rightarrow> db \<Rightarrow> py_exc + db" where
  "upsert_instance i d =
     rbind (to_wire_ts (wr_occurred_at i)) (\<lambda>occurred.
     rbind (to_wire_ts (wr_observed_at i)) (\<lambda>observed.
       if known_runtime d (wr_runtime_id i) then
         Inr (d\<lparr>worker_instances := update_where (\<lambda>r. wr_runtime_id r = wr_runtime_id i)
                  (updated_instance i occurred observed) (worker_instances d)\<rparr>)
       else
         rbind (opt_wire_ts (wr_last_heartbeat_at i)) (\<lambda>heartbeat.
           Inr (d\<lparr>worker_instances :=
                    worker_instances d @ [inserted_instance i occurred observed heartbeat]\<rparr>))))"

definition read_instance :: "wire \<Rightarrow> string worker_instance \<Rightarrow> py_exc + pydatetime worker_instance" where
  "read_instance w r =
     rbind (from_wire_ts (wt_iso w) (wr_occurred_at r)) (\<lambda>occurred.
     rbind (from_wire_ts (wt_iso w) (wr_observed_at r)) (\<lambda>observed.
     rbind (opt_from_wire w (wr_last_heartbeat_at r)) (\<lambda>heartbeat.
       Inr \<lparr>wr_runtime_id = wr_runtime_id r, wr_worker_identity = wr_worker_identity r,
            wr_tenant_id = wr_tenant_id r, wr_strategy_version_id = wr_strategy_version_id r,
            wr_launch_attempt = wr_launch_attempt r, wr_state = wr_state r, wr_occurred_at = occurred,
            wr_observed_at = observed, wr_trader_id = wr_trader_id r, wr_account_id = wr_account_id r,
            wr_reason_code = wr_reason_code r, wr_last_heartbeat_at = heartbeat,
            wr_correlation_id = wr_correlation_id r, wr_causation_id = wr_causation_id r\<rparr>)))"

definition get_by_runtime_id :: "wire \<Rightarrow> string \<Rightarrow> db \<Rightarrow> py_exc + pydatetime worker_instance option" where
  "get_by_runtime_id w rid d =
     read_first (read_instance w) (filter (\<lambda>r. wr_runtime_id r = rid) (worker_instances d))"

definition update_state ::
  "string \<Rightarrow> string \<Rightarrow> string option \<Rightarrow> int \<Rightarrow> pydatetime \<Rightarrow> pydatetime \<Rightarrow> string option \<Rightarrow> string option \<Rightarrow>
   db \<Rightarrow> py_exc + db" where
  "update_state rid state rcode attempt occurred_at observed_at corr cause d =
     rbind (to_wire_ts occurred_at) (\<lambda>occurred.
     rbind (to_wire_ts observed_at) (\<lambda>observed.
       Inr (d\<lparr>worker_instances := update_where (\<lambda>r. wr_runtime_id r = rid)
         (\<lambda>r. r\<lparr>wr_launch_attempt := attempt, wr_state := state, wr_reason_code := rcode,
                wr_occurred_at := occurred, wr_observed_at := observed, wr_correlation_id := corr,
                wr_causation_id := cause\<rparr>) (worker_instances d)\<rparr>)))"

text \<open>A heartbeat older than the last one is dropped.\<close>

definition heartbeat_accepted :: "pydatetime option \<Rightarrow> pydatetime \<Rightarrow> bool" where
  "heartbeat_accepted current candidate =
     (case current of None \<Rightarrow> True | Some t \<Rightarrow> dt_instant t \<le> dt_instant candidate)"

definition db_record_heartbeat :: "wire \<Rightarrow> string \<Rightarrow> pydatetime \<Rightarrow> pydatetime \<Rightarrow> db \<Rightarrow> py_exc + db" where
  "db_record_heartbeat w rid heartbeat_at observed_at d =
     rbind (get_by_runtime_id w rid d) (\<lambda>current.
       case current of
         None \<Rightarrow> Inr d
       | Some i \<Rightarrow>
           rbind (db_require_utc heartbeat_at) (\<lambda>candidate.
             if heartbeat_accepted (wr_last_heartbeat_at i) candidate then
               rbind (to_wire_ts candidate) (\<lambda>heartbeat.
               rbind (to_wire_ts observed_at) (\<lambda>observed.
                 Inr (d\<lparr>worker_instances := update_where (\<lambda>r. wr_runtime_id r = rid)
                   (\<lambda>r. r\<lparr>wr_last_heartbeat_at := Some heartbeat, wr_observed_at := observed\<rparr>)
                   (worker_instances d)\<rparr>)))
             else Inr d))"

definition list_by_strategy_version :: "wire \<Rightarrow> string \<Rightarrow> db \<Rightarrow> py_exc + pydatetime worker_instance list" where
  "list_by_strategy_version w version d =
     read_all (read_instance w) (filter (\<lambda>r. wr_strategy_version_id r = version) (worker_instances d))"

section \<open>Launch attempts\<close>

definition append_attempt :: "wire \<Rightarrow> (pydatetime, json) attempt \<Rightarrow> db \<Rightarrow> py_exc + db" where
  "append_attempt w a d =
     rbind (to_wire_ts (la_occurred_at a)) (\<lambda>occurred.
     rbind (to_wire_ts (la_observed_at a)) (\<lambda>observed.
     rbind (to_json w (la_details a)) (\<lambda>details.
     rbind (rguard ((la_runtime_id a, la_launch_attempt a) \<notin>
              (\<lambda>r. (la_runtime_id r, la_launch_attempt r)) ` set (worker_launch_attempts d))
              (IntegrityError ''UNIQUE constraint failed'')) (\<lambda>_.
     rbind (foreign_key d (la_runtime_id a)) (\<lambda>_.
       Inr (d\<lparr>worker_launch_attempts := worker_launch_attempts d @
         [\<lparr>la_runtime_id = la_runtime_id a, la_launch_attempt = la_launch_attempt a, la_state = la_state a,
           la_occurred_at = occurred, la_observed_at = observed, la_reason_code = la_reason_code a,
           la_correlation_id = la_correlation_id a, la_causation_id = la_causation_id a,
           la_details = details\<rparr>]\<rparr>))))))"

definition read_attempt :: "wire \<Rightarrow> (string, text_json) attempt \<Rightarrow> py_exc + (pydatetime, pydict) attempt" where
  "read_attempt w r =
     rbind (from_wire_ts (wt_iso w) (la_occurred_at r)) (\<lambda>occurred.
     rbind (from_wire_ts (wt_iso w) (la_observed_at r)) (\<lambda>observed.
     rbind (from_json w (la_details r)) (\<lambda>details.
       Inr \<lparr>la_runtime_id = la_runtime_id r, la_launch_attempt = la_launch_attempt r, la_state = la_state r,
            la_occurred_at = occurred, la_observed_at = observed, la_reason_code = la_reason_code r,
            la_correlation_id = la_correlation_id r, la_causation_id = la_causation_id r,
            la_details = details\<rparr>)))"

definition get_attempt :: "wire \<Rightarrow> string \<Rightarrow> int \<Rightarrow> db \<Rightarrow> py_exc + (pydatetime, pydict) attempt option" where
  "get_attempt w rid attempt d =
     read_first (read_attempt w)
       (filter (\<lambda>r. la_runtime_id r = rid \<and> la_launch_attempt r = attempt) (worker_launch_attempts d))"

definition list_attempts :: "wire \<Rightarrow> string \<Rightarrow> db \<Rightarrow> py_exc + (pydatetime, pydict) attempt list" where
  "list_attempts w rid d =
     read_all (read_attempt w)
       (sort_key la_launch_attempt (filter (\<lambda>r. la_runtime_id r = rid) (worker_launch_attempts d)))"

definition mark_outcome ::
  "wire \<Rightarrow> string \<Rightarrow> int \<Rightarrow> string \<Rightarrow> string option \<Rightarrow> pydatetime \<Rightarrow> pydatetime \<Rightarrow> json \<Rightarrow> db \<Rightarrow> py_exc + db" where
  "mark_outcome w rid attempt state rcode occurred_at observed_at details d =
     rbind (to_wire_ts occurred_at) (\<lambda>occurred.
     rbind (to_wire_ts observed_at) (\<lambda>observed.
     rbind (to_json w details) (\<lambda>text.
       Inr (d\<lparr>worker_launch_attempts :=
         update_where (\<lambda>r. la_runtime_id r = rid \<and> la_launch_attempt r = attempt)
           (\<lambda>r. r\<lparr>la_state := state, la_reason_code := rcode, la_occurred_at := occurred,
                  la_observed_at := observed, la_details := text\<rparr>) (worker_launch_attempts d)\<rparr>))))"

section \<open>Heartbeat observations\<close>

definition append_observation :: "wire \<Rightarrow> (pydatetime, json) observation \<Rightarrow> db \<Rightarrow> py_exc + db" where
  "append_observation w a d =
     rbind (to_wire_ts (ho_occurred_at a)) (\<lambda>occurred.
     rbind (to_wire_ts (ho_observed_at a)) (\<lambda>observed.
     rbind (to_json w (ho_details a)) (\<lambda>details.
     rbind (foreign_key d (ho_runtime_id a)) (\<lambda>_.
       Inr (d\<lparr>worker_heartbeat_observations := worker_heartbeat_observations d @
         [\<lparr>ho_runtime_id = ho_runtime_id a, ho_launch_attempt = ho_launch_attempt a, ho_occurred_at = occurred,
           ho_observed_at = observed, ho_correlation_id = ho_correlation_id a,
           ho_causation_id = ho_causation_id a, ho_details = details\<rparr>]\<rparr>)))))"

definition read_observation ::
  "wire \<Rightarrow> (string, text_json) observation \<Rightarrow> py_exc + (pydatetime, pydict) observation" where
  "read_observation w r =
     rbind (from_wire_ts (wt_iso w) (ho_occurred_at r)) (\<lambda>occurred.
     rbind (from_wire_ts (wt_iso w) (ho_observed_at r)) (\<lambda>observed.
     rbind (from_json w (ho_details r)) (\<lambda>details.
       Inr \<lparr>ho_runtime_id = ho_runtime_id r, ho_launch_attempt = ho_launch_attempt r, ho_occurred_at = occurred,
            ho_observed_at = observed, ho_correlation_id = ho_correlation_id r,
            ho_causation_id = ho_causation_id r, ho_details = details\<rparr>)))"

definition observations_of :: "string \<Rightarrow> db \<Rightarrow> (string, text_json) observation list" where
  "observations_of rid d = filter (\<lambda>r. ho_runtime_id r = rid) (worker_heartbeat_observations d)"

definition list_observations :: "wire \<Rightarrow> string \<Rightarrow> db \<Rightarrow> py_exc + (pydatetime, pydict) observation list" where
  "list_observations w rid d = read_all (read_observation w) (sort_key ho_observed_at (observations_of rid d))"

text \<open>\<open>ORDER BY observed_at DESC LIMIT 1\<close>; of several greatest texts the first row.\<close>

definition latest_observation :: "wire \<Rightarrow> string \<Rightarrow> db \<Rightarrow> py_exc + (pydatetime, pydict) observation option" where
  "latest_observation w rid d =
     read_first (read_observation w)
       (filter (\<lambda>r. \<forall>q \<in> set (observations_of rid d). ho_observed_at q \<le> ho_observed_at r) (observations_of rid d))"

section \<open>Worker events\<close>

definition read_event :: "wire \<Rightarrow> (string, text_json) worker_event \<Rightarrow> py_exc + (pydatetime, pydict) worker_event" where
  "read_event w r =
     rbind (from_wire_ts (wt_iso w) (ev_occurred_at r)) (\<lambda>occurred.
     rbind (from_wire_ts (wt_iso w) (ev_observed_at r)) (\<lambda>observed.
     rbind (from_json w (ev_payload r)) (\<lambda>payload.
       Inr \<lparr>ev_event_id = ev_event_id r, ev_runtime_id = ev_runtime_id r,
            ev_worker_identity = ev_worker_identity r, ev_launch_attempt = ev_launch_attempt r,
            ev_event_family = ev_event_family r, ev_occurred_at = occurred, ev_observed_at = observed,
            ev_state = ev_state r, ev_reason_code = ev_reason_code r, ev_correlation_id = ev_correlation_id r,
            ev_causation_id = ev_causation_id r, ev_payload = payload\<rparr>)))"

definition get_by_event_id :: "wire \<Rightarrow> string \<Rightarrow> db \<Rightarrow> py_exc + (pydatetime, pydict) worker_event option" where
  "get_by_event_id w eid d =
     read_first (read_event w) (filter (\<lambda>r. ev_event_id r = eid) (worker_events d))"

definition insert_event ::
  "(pydatetime, json) worker_event \<Rightarrow> string \<Rightarrow> string \<Rightarrow> text_json \<Rightarrow> db \<Rightarrow> py_exc + db" where
  "insert_event a occurred observed payload d =
     rbind (rguard (ev_event_id a \<notin> ev_event_id ` set (worker_events d))
              (IntegrityError ''UNIQUE constraint failed'')) (\<lambda>_.
     rbind (foreign_key d (ev_runtime_id a)) (\<lambda>_.
       Inr (d\<lparr>worker_events := worker_events d @
         [\<lparr>ev_event_id = ev_event_id a, ev_runtime_id = ev_runtime_id a,
           ev_worker_identity = ev_worker_identity a, ev_launch_attempt = ev_launch_attempt a,
           ev_event_family = ev_event_family a, ev_occurred_at = occurred, ev_observed_at = observed,
           ev_state = ev_state a, ev_reason_code = ev_reason_code a, ev_correlation_id = ev_correlation_id a,
           ev_causation_id = ev_causation_id a, ev_payload = payload\<rparr>]\<rparr>)))"

text \<open>A refused insert is a duplicate when the event can be read back, an error otherwise.\<close>

definition append_event :: "wire \<Rightarrow> (pydatetime, json) worker_event \<Rightarrow> db \<Rightarrow> py_exc + bool \<times> db" where
  "append_event w a d =
     rbind (to_wire_ts (ev_occurred_at a)) (\<lambda>occurred.
     rbind (to_wire_ts (ev_observed_at a)) (\<lambda>observed.
     rbind (to_json w (ev_payload a)) (\<lambda>payload.
       case insert_event a occurred observed payload d of
         Inr d' \<Rightarrow> Inr (True, d')
       | Inl e \<Rightarrow>
           rbind (get_by_event_id w (ev_event_id a) d) (\<lambda>existing.
             if existing = None then Inl e else Inr (False, d)))))"

section \<open>Diagnostics and journals\<close>

definition append_diagnostic :: "wire \<Rightarrow> (pydatetime, json) diagnostic \<Rightarrow> db \<Rightarrow> py_exc + db" where
  "append_diagnostic w a d =
     rbind (to_wire_ts (dg_occurred_at a)) (\<lambda>occurred.
     rbind (to_wire_ts (dg_observed_at a)) (\<lambda>observed.
     rbind (to_json w (dg_details a)) (\<lambda>details.
     rbind (foreign_key d (dg_runtime_id a)) (\<lambda>_.
       Inr (d\<lparr>worker_diagnostics := worker_diagnostics d @
         [\<lparr>dg_runtime_id = dg_runtime_id a, dg_launch_attempt = dg_launch_attempt a,
           dg_diagnostic_type = dg_diagnostic_type a, dg_occurred_at = occurred, dg_observed_at = observed,
           dg_stage = dg_stage a, dg_reason_code = dg_reason_code a, dg_correlation_id = dg_correlation_id a,
           dg_causation_id = dg_causation_id a, dg_details = details\<rparr>]\<rparr>)))))"

definition read_diagnostic ::
  "wire \<Rightarrow> (string, text_json) diagnostic \<Rightarrow> py_exc + (pydatetime, pydict) diagnostic" where
  "read_diagnostic w r =
     rbind (from_wire_ts (wt_iso w) (dg_occurred_at r)) (\<lambda>occurred.
     rbind (from_wire_ts (wt_iso w) (dg_observed_at r)) (\<lambda>observed.
     rbind (from_json w (dg_details r)) (\<lambda>details.
       Inr \<lparr>dg_runtime_id = dg_runtime_id r, dg_launch_attempt = dg_launch_attempt r,
            dg_diagnostic_type = dg_diagnostic_type r, dg_occurred_at = occurred, dg_observed_at = observed,
            dg_stage = dg_stage r, dg_reason_code = dg_reason_code r, dg_correlation_id = dg_correlation_id r,
            dg_causation_id = dg_causation_id r, dg_details = details\<rparr>)))"

definition list_diagnostics :: "wire \<Rightarrow> string \<Rightarrow> db \<Rightarrow> py_exc + (pydatetime, pydict) diagnostic list" where
  "list_diagnostics w rid d =
     read_all (read_diagnostic w)
       (sort_key dg_observed_at (filter (\<lambda>r. dg_runtime_id r = rid) (worker_diagnostics d)))"

definition append_state :: "wire \<Rightarrow> (pydatetime, json) state_entry \<Rightarrow> db \<Rightarrow> py_exc + db" where
  "append_state w a d =
     rbind (to_wire_ts (sj_observed_at a)) (\<lambda>observed.
     rbind (to_json w (sj_details a)) (\<lambda>details.
       Inr (d\<lparr>runtime_state_journal := runtime_state_journal d @
         [\<lparr>sj_runtime_id = sj_runtime_id a, sj_launch_attempt = sj_launch_attempt a, sj_kind = sj_kind a,
           sj_observed_at = observed, sj_phase = sj_phase a, sj_previous_phase = sj_previous_phase a,
           sj_step_name = sj_step_name a, sj_level = sj_level a, sj_reason_code = sj_reason_code a,
           sj_details = details\<rparr>]\<rparr>)))"

definition order_row ::
  "(pydatetime, pydict, json) order_entry \<Rightarrow> string \<Rightarrow> string option \<Rightarrow> text_json \<Rightarrow> text_json \<Rightarrow>
   (string, string, text_json) order_entry" where
  "order_row a requested created payload result =
     \<lparr>oj_runtime_id = oj_runtime_id a, oj_launch_attempt = oj_launch_attempt a, oj_source = oj_source a,
      oj_requested_at = requested,
      oj_payload = (if or_empty payload = [] then ''{}'' else or_empty payload), oj_result = result,
      oj_correlation_id = oj_correlation_id a, oj_created_at = created, oj_job_id = oj_job_id a,
      oj_idempotency_key = oj_idempotency_key a, oj_order_intent_id = oj_order_intent_id a,
      oj_symbol = oj_symbol a\<rparr>"

definition append_order :: "wire \<Rightarrow> (pydatetime, pydict, json) order_entry \<Rightarrow> db \<Rightarrow> py_exc + db" where
  "append_order w a d =
     rbind (opt_wire_ts (oj_created_at a)) (\<lambda>created.
     rbind (to_json w (Some (oj_payload a))) (\<lambda>payload.
     rbind (to_json w (oj_result a)) (\<lambda>result.
     rbind (to_wire_ts (oj_requested_at a)) (\<lambda>requested.
       Inr (d\<lparr>order_intent_journal :=
                order_intent_journal d @ [order_row a requested created payload result]\<rparr>)))))"

section \<open>Sequences of repository calls\<close>

text \<open>The calls that write; one that raises leaves the database as it was.\<close>

datatype repo_op =
    Upsert "pydatetime worker_instance"
  | UpdateState string string "string option" int pydatetime pydatetime "string option" "string option"
  | RecordHeartbeat string pydatetime pydatetime
  | AppendAttempt "(pydatetime, json) attempt"
  | MarkOutcome string int string "string option" pydatetime pydatetime json
  | AppendObservation "(pydatetime, json) observation"
  | AppendEvent "(pydatetime, json) worker_event"
  | AppendDiagnostic "(pydatetime, json) diagnostic"
  | AppendState "(pydatetime, json) state_entry"
  | AppendOrder "(pydatetime, pydict, json) order_entry"

fun repo_call :: "wire \<Rightarrow> repo_op \<Rightarrow> db \<Rightarrow> py_exc + db" where
  "repo_call w (Upsert i) d = upsert_instance i d"
| "repo_call w (UpdateState rid st rc n occ obs corr cause) d = update_state rid st rc n occ obs corr cause d"
| "repo_call w (RecordHeartbeat rid hb obs) d = db_record_heartbeat w rid hb obs d"
| "repo_call w (AppendAttempt a) d = append_attempt w a d"
| "repo_call w (MarkOutcome rid n st rc occ obs details) d = mark_outcome w rid n st rc occ obs details d"
| "repo_call w (AppendObservation a) d = append_observation w a d"
| "repo_call w (AppendEvent a) d = rbind (append_event w a d) (\<lambda>(new, d'). Inr d')"
| "repo_call w (AppendDiagnostic a) d = append_diagnostic w a d"
| "repo_call w (AppendState a) d = append_state w a d"
| "repo_call w (AppendOrder a) d = append_order w a d"

fun repo_calls :: "wire \<Rightarrow> repo_op list \<Rightarrow> db \<Rightarrow> db" where
  "repo_calls w [] d = d"
| "repo_calls w (p # ps) d = (case repo_call w p d of Inl e \<Rightarrow> repo_calls w ps d | Inr d' \<Rightarrow> repo_calls w ps d')"

definition empty_db :: db where
  "empty_db = \<lparr>worker_instances = [], worker_launch_attempts = [], worker_heartbeat_observations = [],
     worker_events = [], worker_diagnostics = [], runtime_state_journal = [], order_intent_journal = []\<rparr>"

text \<open>The constraints of the schema.\<close>

definition runtimes :: "db \<Rightarrow> string list" where
  "runtimes d = map wr_runtime_id (worker_instances d)"

definition referring :: "db \<Rightarrow> string list" where
  "referring d = map la_runtime_id (worker_launch_attempts d) @
     map ho_runtime_id (worker_heartbeat_observations d) @ map ev_runtime_id (worker_events d) @
     map dg_runtime_id (worker_diagnostics d)"

definition db_ok :: "db \<Rightarrow> bool" where
  "db_ok d \<longleftrightarrow>
     distinct (runtimes d) \<and> distinct (map ev_event_id (worker_events d)) \<and>
     distinct (map (\<lambda>r. (la_runtime_id r, la_launch_attempt r)) (worker_launch_attempts d)) \<and>
     set (referring d) \<subseteq> set (runtimes d)"

lemma update_where_map: "(\<And>r. f (g r) = f r) \<Longrightarrow> map f (update_where p g rs) = map f rs"
  by (simp add: update_where_def)

lemma update_where_image: "(\<And>r. f (g r) = f r) \<Longrightarrow> f ` set (update_where p g rs) = f ` set rs"
  by (metis list.set_map update_where_map)

lemma known_runtime_iff: "known_runtime d rid \<longleftrightarrow> rid \<in> set (runtimes d)"
  by (simp add: known_runtime_def runtimes_def)

text \<open>What each call may change.\<close>

lemma upsert_cases:
  assumes "upsert_instance i d = Inr d'"
  obtains (updated) occ obs where "known_runtime d (wr_runtime_id i)"
      "d' = d\<lparr>worker_instances := update_where (\<lambda>r. wr_runtime_id r = wr_runtime_id i)
              (updated_instance i occ obs) (worker_instances d)\<rparr>"
  | (inserted) occ obs hb where "\<not> known_runtime d (wr_runtime_id i)"
      "d' = d\<lparr>worker_instances := worker_instances d @ [inserted_instance i occ obs hb]\<rparr>"
proof -
  obtain occ obs where times: "to_wire_ts (wr_occurred_at i) = Inr occ" "to_wire_ts (wr_observed_at i) = Inr obs"
    using assms by (auto simp: upsert_instance_def rbind_eq_Inr)
  show ?thesis
  proof (cases "known_runtime d (wr_runtime_id i)")
    case True
    then show ?thesis using assms times by (intro updated [of occ obs]) (auto simp: upsert_instance_def)
  next
    case False
    then show ?thesis using assms times inserted by (auto simp: upsert_instance_def rbind_eq_Inr)
  qed
qed

lemma event_cases:
  assumes "append_event w a d = Inr (new, d')"
  obtains (duplicate) "\<not> new" "d' = d"
  | (inserted) occ obs payload where "new" "insert_event a occ obs payload d = Inr d'"
proof -
  obtain occ obs payload where args: "to_wire_ts (ev_occurred_at a) = Inr occ"
      "to_wire_ts (ev_observed_at a) = Inr obs" "to_json w (ev_payload a) = Inr payload"
    using assms by (auto simp: append_event_def rbind_eq_Inr)
  show ?thesis
  proof (cases "insert_event a occ obs payload d")
    case (Inl e)
    then show ?thesis using assms args duplicate by (auto simp: append_event_def rbind_eq_Inr split: if_splits)
  next
    case (Inr d1)
    then show ?thesis using assms args inserted by (auto simp: append_event_def)
  qed
qed

lemma upsert_ok:
  assumes "upsert_instance i d = Inr d'" and "db_ok d"
  shows "db_ok d'"
  using assms(1)
proof (cases rule: upsert_cases)
  case (updated occ obs)
  then have "runtimes d' = runtimes d"
    by (simp add: runtimes_def update_where_map updated_instance_def)
  then show ?thesis using assms(2) updated(2) by (simp add: db_ok_def referring_def)
next
  case (inserted occ obs hb)
  then have "runtimes d' = runtimes d @ [wr_runtime_id i]" by (simp add: runtimes_def inserted_instance_def)
  then show ?thesis
    using assms(2) inserted by (auto simp: db_ok_def referring_def known_runtime_iff)
qed

text \<open>A call that adds rows of a known runtime at most, and no duplicate key.\<close>

lemma db_ok_grow:
  assumes "db_ok d" and "runtimes d' = runtimes d"
    and "\<And>r. r \<in> set (referring d') \<Longrightarrow> r \<in> set (referring d) \<or> known_runtime d r"
    and "distinct (map ev_event_id (worker_events d'))"
    and "distinct (map (\<lambda>r. (la_runtime_id r, la_launch_attempt r)) (worker_launch_attempts d'))"
  shows "db_ok d'"
  using assms by (auto simp: db_ok_def known_runtime_iff)

lemma db_ok_keys:
  "db_ok d \<Longrightarrow> distinct (map ev_event_id (worker_events d))"
  "db_ok d \<Longrightarrow> distinct (map (\<lambda>r. (la_runtime_id r, la_launch_attempt r)) (worker_launch_attempts d))"
  by (simp_all add: db_ok_def)

lemma foreign_key_Inr: "foreign_key d rid = Inr u \<longleftrightarrow> known_runtime d rid"
  by (simp add: foreign_key_def rguard_eq_Inr)

lemma append_attempt_ok: "append_attempt w a d = Inr d' \<Longrightarrow> db_ok d \<Longrightarrow> db_ok d'"
  by (rule db_ok_grow [of d])
     (auto simp: append_attempt_def rbind_eq_Inr rguard_eq_Inr foreign_key_Inr runtimes_def referring_def
        db_ok_keys)

text \<open>A call that changes no key.\<close>

lemma db_ok_same:
  assumes "db_ok d" and "runtimes d' = runtimes d" and "referring d' = referring d"
    and "map ev_event_id (worker_events d') = map ev_event_id (worker_events d)"
    and "map (\<lambda>r. (la_runtime_id r, la_launch_attempt r)) (worker_launch_attempts d') =
      map (\<lambda>r. (la_runtime_id r, la_launch_attempt r)) (worker_launch_attempts d)"
  shows "db_ok d'"
  using assms by (simp add: db_ok_def)

lemma mark_outcome_ok: "mark_outcome w rid n st rc occ obs details d = Inr d' \<Longrightarrow> db_ok d \<Longrightarrow> db_ok d'"
  by (rule db_ok_same [of d])
     (auto simp: mark_outcome_def rbind_eq_Inr runtimes_def referring_def update_where_map)

lemma dt_instant_as_utc [simp]: "dt_instant (as_utc t) = dt_instant t"
  by (simp add: as_utc_def)

text \<open>The three shapes of a change to the instances of a runtime.\<close>

lemma update_state_shape:
  assumes "update_state rid st rc n occ obs corr cause d = Inr d'"
  obtains o1 o2 where "to_wire_ts occ = Inr o1" "to_wire_ts obs = Inr o2"
    "d' = d\<lparr>worker_instances := update_where (\<lambda>r. wr_runtime_id r = rid)
       (\<lambda>r. r\<lparr>wr_launch_attempt := n, wr_state := st, wr_reason_code := rc, wr_occurred_at := o1,
              wr_observed_at := o2, wr_correlation_id := corr, wr_causation_id := cause\<rparr>) (worker_instances d)\<rparr>"
  using assms by (auto simp: update_state_def rbind_eq_Inr)

lemma record_heartbeat_shape:
  assumes "db_record_heartbeat w rid hb obs d = Inr d'"
  obtains (kept) "d' = d"
  | (recorded) i h o2 where "get_by_runtime_id w rid d = Inr (Some i)"
      "heartbeat_accepted (wr_last_heartbeat_at i) hb"
      "to_wire_ts (as_utc hb) = Inr h" "to_wire_ts obs = Inr o2" "dt_aware hb"
      "d' = d\<lparr>worker_instances := update_where (\<lambda>r. wr_runtime_id r = rid)
         (\<lambda>r. r\<lparr>wr_last_heartbeat_at := Some h, wr_observed_at := o2\<rparr>) (worker_instances d)\<rparr>"
proof -
  obtain current where current: "get_by_runtime_id w rid d = Inr current"
    using assms by (cases "get_by_runtime_id w rid d") (auto simp: db_record_heartbeat_def)
  show ?thesis
  proof (cases current)
    case None
    then show ?thesis using assms current kept by (simp add: db_record_heartbeat_def)
  next
    case (Some i)
    have same: "heartbeat_accepted (wr_last_heartbeat_at i) (as_utc hb) = heartbeat_accepted (wr_last_heartbeat_at i) hb"
      by (simp add: heartbeat_accepted_def split: option.split)
    have aware: "dt_aware hb"
      using assms current Some by (cases "dt_aware hb") (auto simp: db_record_heartbeat_def db_require_utc_def)
    show ?thesis
    proof (cases "heartbeat_accepted (wr_last_heartbeat_at i) hb")
      case False
      then show ?thesis
        using assms current Some aware kept same
        by (simp add: db_record_heartbeat_def db_require_utc_def)
    next
      case True
      then show ?thesis
        using assms current Some aware same recorded [of i]
        by (auto simp: db_record_heartbeat_def db_require_utc_def rbind_eq_Inr)
    qed
  qed
qed

lemma db_ok_instances:
  "db_ok d \<Longrightarrow> (\<And>r. wr_runtime_id (g r) = wr_runtime_id r) \<Longrightarrow>
     db_ok (d\<lparr>worker_instances := update_where p g (worker_instances d)\<rparr>)"
  by (rule db_ok_same [of d]) (simp_all add: runtimes_def referring_def update_where_map)

lemma update_state_ok: "update_state rid st rc n occ obs corr cause d = Inr d' \<Longrightarrow> db_ok d \<Longrightarrow> db_ok d'"
  by (elim update_state_shape) (simp add: db_ok_instances)

lemma record_heartbeat_ok: "db_record_heartbeat w rid hb obs d = Inr d' \<Longrightarrow> db_ok d \<Longrightarrow> db_ok d'"
  by (elim record_heartbeat_shape) (simp_all add: db_ok_instances)

lemma append_observation_ok: "append_observation w a d = Inr d' \<Longrightarrow> db_ok d \<Longrightarrow> db_ok d'"
  by (rule db_ok_grow [of d])
     (auto simp: append_observation_def rbind_eq_Inr foreign_key_Inr runtimes_def referring_def db_ok_keys)

lemma append_event_ok:
  assumes "append_event w a d = Inr (new, d')" and "db_ok d"
  shows "db_ok d'"
  using assms(1)
proof (cases rule: event_cases)
  case (inserted occ obs payload)
  then show ?thesis
    using assms(2)
    by - (rule db_ok_grow [of d], auto simp: insert_event_def rbind_eq_Inr rguard_eq_Inr foreign_key_Inr
          runtimes_def referring_def db_ok_keys)
qed (simp add: assms)

lemma append_diagnostic_ok: "append_diagnostic w a d = Inr d' \<Longrightarrow> db_ok d \<Longrightarrow> db_ok d'"
  by (rule db_ok_grow [of d])
     (auto simp: append_diagnostic_def rbind_eq_Inr foreign_key_Inr runtimes_def referring_def db_ok_keys)

lemma append_state_shape:
  "append_state w a d = Inr d' \<Longrightarrow> \<exists>r. d' = d\<lparr>runtime_state_journal := runtime_state_journal d @ [r]\<rparr>"
  by (cases "to_wire_ts (sj_observed_at a)"; cases "to_json w (sj_details a)") (auto simp: append_state_def)

lemma append_order_shape:
  "append_order w a d = Inr d' \<Longrightarrow> \<exists>r. d' = d\<lparr>order_intent_journal := order_intent_journal d @ [r]\<rparr>"
  by (cases "opt_wire_ts (oj_created_at a)"; cases "to_json w (Some (oj_payload a))";
      cases "to_json w (oj_result a)"; cases "to_wire_ts (oj_requested_at a)")
     (auto simp: append_order_def)

lemma append_state_ok: "append_state w a d = Inr d' \<Longrightarrow> db_ok d \<Longrightarrow> db_ok d'"
  by (drule append_state_shape) (elim exE, simp add: db_ok_def runtimes_def referring_def)

lemma append_order_ok: "append_order w a d = Inr d' \<Longrightarrow> db_ok d \<Longrightarrow> db_ok d'"
  by (drule append_order_shape) (elim exE, simp add: db_ok_def runtimes_def referring_def)

lemmas repository_ok = upsert_ok update_state_ok record_heartbeat_ok append_attempt_ok mark_outcome_ok
  append_observation_ok append_event_ok append_diagnostic_ok append_state_ok append_order_ok

lemma repo_call_ok: "repo_call w p d = Inr d' \<Longrightarrow> db_ok d \<Longrightarrow> db_ok d'"
  by (cases p) (auto simp: rbind_eq_Inr intro: repository_ok)

lemma repo_calls_ok: "db_ok d \<Longrightarrow> db_ok (repo_calls w ps d)"
  by (induction ps arbitrary: d) (auto split: sum.splits dest: repo_call_ok)

section \<open>Heartbeats only move forward\<close>

text \<open>The texts that a timestamp of the years 1 to 9999 leaves.\<close>

definition wire_text :: "string \<Rightarrow> bool" where
  "wire_text s \<longleftrightarrow> (\<exists>t. dt_aware t \<and> dt_in_range t \<and> to_wire_ts t = Inr s)"

definition instance_readable :: "string worker_instance \<Rightarrow> bool" where
  "instance_readable r \<longleftrightarrow>
     wire_text (wr_occurred_at r) \<and> wire_text (wr_observed_at r) \<and> pred_option wire_text (wr_last_heartbeat_at r)"

definition times_in_range :: "repo_op \<Rightarrow> bool" where
  "times_in_range p \<longleftrightarrow>
     (case p of
        Upsert i \<Rightarrow> dt_in_range (wr_occurred_at i) \<and> dt_in_range (wr_observed_at i) \<and>
          pred_option dt_in_range (wr_last_heartbeat_at i)
      | UpdateState rid st rc n occ obs corr cause \<Rightarrow> dt_in_range occ \<and> dt_in_range obs
      | RecordHeartbeat rid hb obs \<Rightarrow> dt_in_range hb \<and> dt_in_range obs
      | _ \<Rightarrow> True)"

definition last_heartbeat :: "wire \<Rightarrow> string \<Rightarrow> db \<Rightarrow> int option" where
  "last_heartbeat w rid d =
     (case get_by_runtime_id w rid d of
        Inr (Some i) \<Rightarrow> map_option dt_instant (wr_last_heartbeat_at i)
      | _ \<Rightarrow> None)"

lemma to_wire_ts_aware: "to_wire_ts t = Inr s \<Longrightarrow> dt_aware t"
  by (auto simp: to_wire_ts_def db_require_utc_def split: if_splits)

lemma wire_textI: "to_wire_ts t = Inr s \<Longrightarrow> dt_in_range t \<Longrightarrow> wire_text s"
  using to_wire_ts_aware by (auto simp: wire_text_def)

lemma read_written: "to_wire_ts t = Inr s \<Longrightarrow> dt_in_range t \<Longrightarrow> from_wire_ts other s = Inr (as_utc t)"
proof -
  assume s: "to_wire_ts t = Inr s" and t: "dt_in_range t"
  show ?thesis using wire_timestamp_read [OF to_wire_ts_aware [OF s] t, of other] s by simp
qed

lemma read_instance_readable:
  assumes "instance_readable r"
  shows "\<exists>i. read_instance w r = Inr i \<and>
    opt_from_wire w (wr_last_heartbeat_at r) = Inr (wr_last_heartbeat_at i)"
proof -
  have readable: "\<exists>t. from_wire_ts (wt_iso w) s = Inr t" if "wire_text s" for s
    using that read_written by (auto simp: wire_text_def)
  obtain o1 o2 where times: "from_wire_ts (wt_iso w) (wr_occurred_at r) = Inr o1"
      "from_wire_ts (wt_iso w) (wr_observed_at r) = Inr o2"
    using assms readable by (meson instance_readable_def)
  obtain h where "opt_from_wire w (wr_last_heartbeat_at r) = Inr h"
  proof (cases "wr_last_heartbeat_at r")
    case None
    then show ?thesis using that by (simp add: opt_from_wire_def)
  next
    case (Some s)
    then obtain h where "from_wire_ts (wt_iso w) s = Inr h"
      using assms readable by (auto simp: instance_readable_def)
    then show ?thesis using that Some by (simp add: opt_from_wire_def)
  qed
  then show ?thesis using times by (simp add: read_instance_def)
qed

lemma as_utc_in_range: "dt_in_range (as_utc t) = dt_in_range t"
  by (simp add: dt_in_range_def)

definition instances_readable :: "db \<Rightarrow> bool" where
  "instances_readable d \<longleftrightarrow> (\<forall>r \<in> set (worker_instances d). instance_readable r)"

text \<open>The heartbeat a row shows, in its text.\<close>

definition row_heartbeat :: "wire \<Rightarrow> string worker_instance \<Rightarrow> int option" where
  "row_heartbeat w r =
     (case wr_last_heartbeat_at r of None \<Rightarrow> None | Some s \<Rightarrow> Some (dt_instant (projr (from_wire_ts (wt_iso w) s))))"

lemma opt_from_wire_row:
  "opt_from_wire w (wr_last_heartbeat_at r) = Inr h \<Longrightarrow> row_heartbeat w r = map_option dt_instant h"
  by (auto simp: opt_from_wire_def row_heartbeat_def rbind_eq_Inr split: option.splits)

lemma last_heartbeat_row:
  assumes "db_ok d" and "instances_readable d" and "r \<in> set (worker_instances d)"
  shows "last_heartbeat w (wr_runtime_id r) d = row_heartbeat w r"
proof -
  obtain q qs where rows: "filter (\<lambda>q. wr_runtime_id q = wr_runtime_id r) (worker_instances d) = q # qs"
    using assms(3) by (cases "filter (\<lambda>q. wr_runtime_id q = wr_runtime_id r) (worker_instances d)")
      (auto simp: filter_empty_conv)
  then have "q \<in> set (filter (\<lambda>q. wr_runtime_id q = wr_runtime_id r) (worker_instances d))" by simp
  then have q: "q \<in> set (worker_instances d)" "wr_runtime_id q = wr_runtime_id r" by simp_all
  have "inj_on wr_runtime_id (set (worker_instances d))"
    using assms(1) by (simp add: db_ok_def runtimes_def distinct_map)
  then have "q = r" using q assms(3) by (simp add: inj_on_def)
  then obtain i where "read_instance w q = Inr i" "opt_from_wire w (wr_last_heartbeat_at r) = Inr (wr_last_heartbeat_at i)"
    using read_instance_readable [of r w] assms(2,3) by (auto simp: instances_readable_def)
  then show ?thesis
    using opt_from_wire_row by (simp add: last_heartbeat_def get_by_runtime_id_def read_first_def rows)
qed

lemma last_heartbeat_unknown:
  assumes "\<not> known_runtime d rid"
  shows "last_heartbeat w rid d = None"
proof -
  have "filter (\<lambda>r. wr_runtime_id r = rid) (worker_instances d) = []"
    using assms by (auto simp: known_runtime_def filter_empty_conv)
  then show ?thesis by (simp add: last_heartbeat_def get_by_runtime_id_def read_first_def)
qed

text \<open>One row against its successor: the heartbeat is kept or moves forward.\<close>

definition heartbeat_moves :: "wire \<Rightarrow> db \<Rightarrow> db \<Rightarrow> bool" where
  "heartbeat_moves w d d' \<longleftrightarrow>
     (\<forall>rid t. last_heartbeat w rid d = Some t \<longrightarrow> (\<exists>t'. last_heartbeat w rid d' = Some t' \<and> t \<le> t'))"

lemma heartbeat_moves_same:
  "worker_instances d' = worker_instances d \<Longrightarrow> heartbeat_moves w d d'"
  by (simp add: heartbeat_moves_def last_heartbeat_def get_by_runtime_id_def)

lemma known_row:
  assumes "last_heartbeat w rid d = Some t"
  obtains r where "r \<in> set (worker_instances d)" "wr_runtime_id r = rid"
  using assms last_heartbeat_unknown [of d rid w] by (auto simp: known_runtime_def)

lemma moves_update:
  assumes "db_ok d" and "instances_readable d"
    and d': "d' = d\<lparr>worker_instances := update_where p g (worker_instances d)\<rparr>"
    and ids: "\<And>r. wr_runtime_id (g r) = wr_runtime_id r"
    and rows: "\<And>r. r \<in> set (worker_instances d) \<Longrightarrow> p r \<Longrightarrow> instance_readable (g r) \<and>
      (\<forall>t. row_heartbeat w r = Some t \<longrightarrow> (\<exists>t'. row_heartbeat w (g r) = Some t' \<and> t \<le> t'))"
  shows "instances_readable d' \<and> heartbeat_moves w d d'"
proof
  show readable: "instances_readable d'"
    using assms(2) rows by (auto simp: instances_readable_def d' update_where_def)
  have ok: "db_ok d'" unfolding d' by (rule db_ok_instances [OF assms(1) ids])
  show "heartbeat_moves w d d'"
    unfolding heartbeat_moves_def
  proof (intro allI impI)
    fix rid t
    assume last: "last_heartbeat w rid d = Some t"
    then obtain r where r: "r \<in> set (worker_instances d)" "wr_runtime_id r = rid" by (rule known_row)
    let ?r = "if p r then g r else r"
    have "?r \<in> set (worker_instances d')" "wr_runtime_id ?r = rid"
      using r ids by (simp_all add: d' update_where_def)
    then have "last_heartbeat w rid d' = row_heartbeat w ?r" using last_heartbeat_row [OF ok readable] by blast
    moreover have "row_heartbeat w r = Some t"
      using last last_heartbeat_row [OF assms(1,2) r(1), of w] r(2) by simp
    ultimately show "\<exists>t'. last_heartbeat w rid d' = Some t' \<and> t \<le> t'" using rows [OF r(1)] by auto
  qed
qed

lemma upsert_moves:
  assumes "upsert_instance i d = Inr d'" and "db_ok d" and "instances_readable d" and "times_in_range (Upsert i)"
  shows "instances_readable d' \<and> heartbeat_moves w d d'"
proof -
  obtain occ obs where times: "to_wire_ts (wr_occurred_at i) = Inr occ" "to_wire_ts (wr_observed_at i) = Inr obs"
    using assms(1) by (auto simp: upsert_instance_def rbind_eq_Inr)
  then have texts: "wire_text occ" "wire_text obs"
    using assms(4) wire_textI by (auto simp: times_in_range_def)
  show ?thesis
  proof (cases "known_runtime d (wr_runtime_id i)")
    case True
    have "d' = d\<lparr>worker_instances := update_where (\<lambda>r. wr_runtime_id r = wr_runtime_id i)
        (updated_instance i occ obs) (worker_instances d)\<rparr>"
      using assms(1) times True by (simp add: upsert_instance_def)
    then show ?thesis
      by (rule moves_update [OF assms(2,3)])
        (use texts assms(3) in \<open>auto simp: updated_instance_def instance_readable_def instances_readable_def
            row_heartbeat_def\<close>)
  next
    case False
    then obtain hb where hb: "opt_wire_ts (wr_last_heartbeat_at i) = Inr hb"
        "d' = d\<lparr>worker_instances := worker_instances d @ [inserted_instance i occ obs hb]\<rparr>"
      using assms(1) times by (auto simp: upsert_instance_def rbind_eq_Inr)
    have "pred_option wire_text hb"
      using hb(1) assms(4) wire_textI
      by (auto simp: opt_wire_ts_def times_in_range_def rbind_eq_Inr split: option.splits)
    then have readable: "instances_readable d'"
      using assms(3) texts by (simp add: instances_readable_def hb(2) inserted_instance_def instance_readable_def)
    have ok: "db_ok d'" by (rule upsert_ok [OF assms(1,2)])
    have "last_heartbeat w rid d' = Some t" if last: "last_heartbeat w rid d = Some t" for rid t
    proof -
      obtain r where r: "r \<in> set (worker_instances d)" "wr_runtime_id r = rid" using last by (rule known_row)
      then have "r \<in> set (worker_instances d')" by (simp add: hb(2))
      then show ?thesis
        using last_heartbeat_row [OF ok readable, of r w] last_heartbeat_row [OF assms(2,3) r(1), of w] last r(2)
        by simp
    qed
    then show ?thesis using readable by (auto simp: heartbeat_moves_def)
  qed
qed

lemma record_moves:
  assumes "db_record_heartbeat w rid hb obs d = Inr d'" and "db_ok d" and "instances_readable d"
    and "dt_in_range hb" and "dt_in_range obs"
  shows "instances_readable d' \<and> heartbeat_moves w d d'"
  using assms(1)
proof (cases rule: record_heartbeat_shape)
  case kept
  then show ?thesis using assms(3) heartbeat_moves_same by blast
next
  case (recorded i h o2)
  have texts: "wire_text h" "wire_text o2"
    using recorded(3,4) assms(4,5) wire_textI by (auto simp: as_utc_in_range)
  have new: "from_wire_ts (wt_iso w) h = Inr (as_utc (as_utc hb))"
    by (rule read_written [OF recorded(3)]) (simp add: as_utc_in_range assms(4))
  show ?thesis
  proof (rule moves_update [OF assms(2,3) recorded(6)])
    fix r
    assume r: "r \<in> set (worker_instances d)" "wr_runtime_id r = rid"
    have "row_heartbeat w r = map_option dt_instant (wr_last_heartbeat_at i)"
      using last_heartbeat_row [OF assms(2,3) r(1), of w] r(2) recorded(1) by (simp add: last_heartbeat_def)
    then show "instance_readable (r\<lparr>wr_last_heartbeat_at := Some h, wr_observed_at := o2\<rparr>) \<and>
        (\<forall>t. row_heartbeat w r = Some t \<longrightarrow>
          (\<exists>t'. row_heartbeat w (r\<lparr>wr_last_heartbeat_at := Some h, wr_observed_at := o2\<rparr>) = Some t' \<and> t \<le> t'))"
      using texts recorded(2) assms(3) r new
      by (auto simp: instance_readable_def instances_readable_def row_heartbeat_def heartbeat_accepted_def)
  qed simp
qed

lemma update_state_moves:
  assumes "update_state rid st rc n occ obs corr cause d = Inr d'" and "db_ok d" and "instances_readable d"
    and "dt_in_range occ" and "dt_in_range obs"
  shows "instances_readable d' \<and> heartbeat_moves w d d'"
proof -
  obtain o1 o2 where new: "to_wire_ts occ = Inr o1" "to_wire_ts obs = Inr o2"
    "d' = d\<lparr>worker_instances := update_where (\<lambda>r. wr_runtime_id r = rid)
       (\<lambda>r. r\<lparr>wr_launch_attempt := n, wr_state := st, wr_reason_code := rc, wr_occurred_at := o1,
              wr_observed_at := o2, wr_correlation_id := corr, wr_causation_id := cause\<rparr>) (worker_instances d)\<rparr>"
    using assms(1) by (rule update_state_shape)
  have texts: "wire_text o1" "wire_text o2" using new(1,2) assms(4,5) wire_textI by auto
  show ?thesis
    by (rule moves_update [OF assms(2,3) new(3)])
      (use texts assms(3) in \<open>auto simp: instance_readable_def instances_readable_def row_heartbeat_def\<close>)
qed

lemma other_calls_keep_instances:
  "append_attempt w a d = Inr d' \<Longrightarrow> worker_instances d' = worker_instances d"
  "mark_outcome w rid n st rc occ obs details d = Inr d' \<Longrightarrow> worker_instances d' = worker_instances d"
  "append_observation w b d = Inr d' \<Longrightarrow> worker_instances d' = worker_instances d"
  "append_event w c d = Inr (new, d') \<Longrightarrow> worker_instances d' = worker_instances d"
  "append_diagnostic w e d = Inr d' \<Longrightarrow> worker_instances d' = worker_instances d"
  "append_state w s d = Inr d' \<Longrightarrow> worker_instances d' = worker_instances d"
  "append_order w x d = Inr d' \<Longrightarrow> worker_instances d' = worker_instances d"
        apply (auto simp: append_attempt_def mark_outcome_def append_observation_def append_diagnostic_def
      rbind_eq_Inr dest!: append_state_shape append_order_shape) [3]
     apply (auto elim!: event_cases simp: insert_event_def rbind_eq_Inr) [1]
    apply (auto simp: append_diagnostic_def rbind_eq_Inr) [1]
   apply (auto dest!: append_state_shape) [1]
  apply (auto dest!: append_order_shape) [1]
  done

lemma repo_call_moves:
  assumes "repo_call w p d = Inr d'" and "db_ok d" and "instances_readable d" and "times_in_range p"
  shows "instances_readable d' \<and> heartbeat_moves w d d'"
proof -
  have keep: "instances_readable d' \<and> heartbeat_moves w d d'" if "worker_instances d' = worker_instances d"
    using that assms(3) heartbeat_moves_same by (simp add: instances_readable_def)
  show ?thesis
  proof (cases p)
    case (Upsert i)
    then show ?thesis using assms upsert_moves by simp
  next
    case (UpdateState rid st rc n occ obs corr cause)
    then show ?thesis using assms update_state_moves by (simp add: times_in_range_def)
  next
    case (RecordHeartbeat rid hb obs)
    then show ?thesis using assms record_moves by (simp add: times_in_range_def)
  next
    case (AppendEvent a)
    then show ?thesis using assms(1) keep other_calls_keep_instances(4) by (auto simp: rbind_eq_Inr)
  qed (use assms(1) keep other_calls_keep_instances in auto)
qed

interpretation heartbeat: step_order "heartbeat_moves w"
  by unfold_locales (fastforce simp: heartbeat_moves_def)+

lemma repo_calls_move:
  assumes "db_ok d" and "instances_readable d" and "list_all times_in_range ps"
  shows "instances_readable (repo_calls w ps d) \<and> heartbeat_moves w d (repo_calls w ps d)"
  using assms
proof (induction ps arbitrary: d)
  case Nil
  then show ?case by (simp add: heartbeat.refl)
next
  case (Cons p ps)
  show ?case
  proof (cases "repo_call w p d")
    case (Inl e)
    then show ?thesis using Cons by simp
  next
    case (Inr d')
    have step: "instances_readable d' \<and> heartbeat_moves w d d'"
      using repo_call_moves [OF Inr] Cons.prems by simp
    then show ?thesis
      using Cons.IH [of d'] repo_call_ok [OF Inr] Cons.prems Inr heartbeat.trans by (auto simp del: heartbeat_moves_def)
  qed
qed

lemma repo_calls_append: "repo_calls w (ps @ qs) d = repo_calls w qs (repo_calls w ps d)"
  by (induction ps arbitrary: d) (auto split: sum.split)

text \<open>
  C36: once a runtime has a last heartbeat, no sequence of repository calls takes it back to an
  earlier time or loses it, late heartbeats and restarts of the runtime included.
\<close>

theorem last_heartbeat_never_goes_back:
  assumes "list_all times_in_range (ps @ qs)"
    and "last_heartbeat w rid (repo_calls w ps empty_db) = Some t"
  shows "\<exists>t'. last_heartbeat w rid (repo_calls w (ps @ qs) empty_db) = Some t' \<and> t \<le> t'"
proof -
  have empty: "db_ok empty_db" "instances_readable empty_db"
    by (simp_all add: db_ok_def empty_db_def runtimes_def referring_def instances_readable_def)
  have "instances_readable (repo_calls w ps empty_db)" "db_ok (repo_calls w ps empty_db)"
    using repo_calls_move [OF empty, of ps w] assms(1) repo_calls_ok [OF empty(1)] by simp_all
  then have "heartbeat_moves w (repo_calls w ps empty_db) (repo_calls w (ps @ qs) empty_db)"
    using repo_calls_move [of _ qs w] assms(1) by (simp add: repo_calls_append)
  then show ?thesis using assms(2) by (simp add: heartbeat_moves_def)
qed

text \<open>An instance of runtime \<open>rt\<close> with a heartbeat.\<close>

definition sample_wire :: wire where
  "sample_wire = \<lparr>wt_iso = \<lambda>_. None, wt_loads = \<lambda>_. None, wt_float = \<lambda>_. []\<rparr>"

definition sample_instance :: "pydatetime worker_instance" where
  "sample_instance =
     \<lparr>wr_runtime_id = ''rt'', wr_worker_identity = ''rt:v:1'', wr_tenant_id = ''t'', wr_strategy_version_id = ''v'',
      wr_launch_attempt = 1, wr_state = ''INITIALIZING'', wr_occurred_at = utc 0, wr_observed_at = utc 0,
      wr_trader_id = None, wr_account_id = Some ''a'', wr_reason_code = None, wr_last_heartbeat_at = None,
      wr_correlation_id = None, wr_causation_id = None\<rparr>"

lemma to_wire_utc: "to_wire_ts (utc i) = Inr (wire_timestamp (utc i))"
  by (simp add: to_wire_ts_def db_require_utc_def as_utc_def)

lemma read_utc: "dt_in_range (utc i) \<Longrightarrow> from_wire_ts other (wire_timestamp (utc i)) = Inr (utc i)"
  using read_written [OF to_wire_utc] by (simp add: as_utc_def)

lemma sample_range: "dt_in_range (utc 0)" "dt_in_range (utc 1000000)" "dt_in_range (utc 5000000)"
  "dt_in_range (utc 6000000)"
  by code_simp+

theorem last_heartbeat_never_goes_back_witness:
  "last_heartbeat sample_wire ''rt'' (repo_calls sample_wire
      [Upsert sample_instance, RecordHeartbeat ''rt'' (utc 5000000) (utc 5000000)] empty_db) = Some 5000000 \<and>
   (\<exists>t'. last_heartbeat sample_wire ''rt'' (repo_calls sample_wire
      ([Upsert sample_instance, RecordHeartbeat ''rt'' (utc 5000000) (utc 5000000)] @
       [RecordHeartbeat ''rt'' (utc 1000000) (utc 6000000)]) empty_db) = Some t' \<and> 5000000 \<le> t')"
proof
  show first: "last_heartbeat sample_wire ''rt'' (repo_calls sample_wire
      [Upsert sample_instance, RecordHeartbeat ''rt'' (utc 5000000) (utc 5000000)] empty_db) = Some 5000000"
    using sample_range
    by (simp add: empty_db_def sample_instance_def upsert_instance_def known_runtime_def to_wire_utc
        opt_wire_ts_def inserted_instance_def db_record_heartbeat_def get_by_runtime_id_def read_first_def
        read_instance_def read_utc opt_from_wire_def db_require_utc_def heartbeat_accepted_def as_utc_def
        update_where_def last_heartbeat_def)
  show "\<exists>t'. last_heartbeat sample_wire ''rt'' (repo_calls sample_wire
      ([Upsert sample_instance, RecordHeartbeat ''rt'' (utc 5000000) (utc 5000000)] @
       [RecordHeartbeat ''rt'' (utc 1000000) (utc 6000000)]) empty_db) = Some t' \<and> 5000000 \<le> t'"
    by (rule last_heartbeat_never_goes_back [OF _ first])
      (simp add: times_in_range_def sample_instance_def sample_range)
qed

section \<open>The latest observation by text\<close>

lemma append_less_append: "(p @ x < p @ y) = (x < (y :: 'a :: linorder list))"
  by (induction p) auto

lemma iso_utc_whole:
  assumes "i mod 1000000 = 0" and "0 < f" and "f < 1000000"
  shows "iso_utc (i + f) = iso_utc i @ ''.'' @ pad_nat 6 (nat f)"
proof -
  obtain q where q: "i = q * 1000000" using assms(1) by (metis mod_0_imp_dvd dvd_div_mult_self)
  have parts: "(i + f) div 86400000000 = i div 86400000000"
    "(i + f) mod 86400000000 = i mod 86400000000 + f"
  proof -
    have split: "i = 86400000000 * (q div 86400) + 1000000 * (q mod 86400)"
      unfolding q using mult_div_mod_eq [of 86400 q] by linarith
    have "0 \<le> q mod 86400" "q mod 86400 \<le> 86399" by (simp_all add: zle_diff1_eq [symmetric])
    then have bounds: "0 \<le> 1000000 * (q mod 86400) + f" "1000000 * (q mod 86400) + f < 86400000000"
      "0 \<le> 1000000 * (q mod 86400)" "1000000 * (q mod 86400) < 86400000000"
      using assms(2,3) by linarith+
    have "i div 86400000000 = q div 86400"
      by (rule int_div_pos_eq [where r = "1000000 * (q mod 86400)"]) (use split bounds in simp_all)
    moreover have "i mod 86400000000 = 1000000 * (q mod 86400)"
      by (rule int_mod_pos_eq [where q = "q div 86400"]) (use split bounds in simp_all)
    moreover have "(i + f) div 86400000000 = q div 86400"
      by (rule int_div_pos_eq [where r = "1000000 * (q mod 86400) + f"]) (use split bounds in simp_all)
    moreover have "(i + f) mod 86400000000 = 1000000 * (q mod 86400) + f"
      by (rule int_mod_pos_eq [where q = "q div 86400"]) (use split bounds in simp_all)
    ultimately show "(i + f) div 86400000000 = i div 86400000000"
      "(i + f) mod 86400000000 = i mod 86400000000 + f" by simp_all
  qed
  have us: "i mod 86400000000 mod 1000000 = 0" using assms(1) by (simp add: mod_mod_cancel)
  then obtain s where s: "i mod 86400000000 = 1000000 * s" by (metis mod_0_imp_dvd dvdE)
  have fraction: "(i mod 86400000000 + f) div 1000000 = i mod 86400000000 div 1000000"
    "(i mod 86400000000 + f) mod 1000000 = f"
    unfolding s using assms(2,3) by simp_all
  obtain y m d where civil: "civil_of_days (i div 86400000000) = (y, m, d)"
    by (cases "civil_of_days (i div 86400000000)")
  have "f \<noteq> 0" using assms(2) by simp
  then show ?thesis
    unfolding iso_utc_def Let_def parts fraction us
    by (simp only: civil prod.case if_True if_False append_assoc append_Nil2 simp_thms)
qed

lemma fraction_sorts_first:
  assumes "i mod 1000000 = 0" and "0 < f" and "f < 1000000"
  shows "wire_timestamp (utc (i + f)) < wire_timestamp (utc i)"
  by (simp add: wire_timestamp_def iso_utc_whole [OF assms] append_less_append less_char_def)

definition sample_observation :: "pydatetime \<Rightarrow> (pydatetime, json) observation" where
  "sample_observation t =
     \<lparr>ho_runtime_id = ''rt'', ho_launch_attempt = 1, ho_occurred_at = t, ho_observed_at = t,
      ho_correlation_id = None, ho_causation_id = None, ho_details = None\<rparr>"

text \<open>
  Of a heartbeat observed on a whole second and one observed within the following second,
  \<open>latest_for_runtime\<close> answers the earlier: \<open>isoformat\<close> leaves out a zero fraction, and in the
  text order \<open>'.'\<close> comes before \<open>'Z'\<close>.
\<close>

lemma latest_observation_misordered:
  assumes "i mod 1000000 = 0" and "0 < f" and "f < 1000000" and "dt_in_range (utc i)"
  shows "map_option ho_observed_at (projr (latest_observation w ''rt''
    (repo_calls w [Upsert sample_instance, AppendObservation (sample_observation (utc i)),
                   AppendObservation (sample_observation (utc (i + f)))] empty_db))) = Some (utc i)"
  using fraction_sorts_first [OF assms(1-3)] assms(4) less_imp_le [OF fraction_sorts_first [OF assms(1-3)]]
  by (simp add: empty_db_def sample_instance_def sample_observation_def upsert_instance_def known_runtime_def
      to_wire_utc opt_wire_ts_def inserted_instance_def append_observation_def to_json_def foreign_key_def
      rguard_def latest_observation_def observations_of_def read_first_def read_observation_def read_utc
      from_json_def not_le)

theorem latest_observation_misordered_witness:
  "map_option ho_observed_at (projr (latest_observation sample_wire ''rt''
    (repo_calls sample_wire [Upsert sample_instance, AppendObservation (sample_observation (utc 5000000)),
       AppendObservation (sample_observation (utc (5000000 + 500000)))] empty_db))) = Some (utc 5000000)"
  by (rule latest_observation_misordered) (simp_all add: sample_range)

end
