(* ===== verification/BootstrapStore.thy ===== *)
theory BootstrapStore
  imports Store LaunchSpec Action
begin

text \<open>
  \<open>bootstrap/persistence.py\<close>: the rows a bootstrap leaves. Each handler is a sequence of
  repository calls on one connection; a call that raises ends the handler and leaves the rows of
  the calls before it.
\<close>

definition stored :: "(db \<Rightarrow> py_exc + db) \<Rightarrow> (db, unit) act" where
  "stored f = (\<lambda>d. case f d of Inl e \<Rightarrow> (Inl e, d) | Inr d' \<Rightarrow> (Inr (), d'))"

definition bootstrap_worker_identity :: "launch_spec \<Rightarrow> string" where
  "bootstrap_worker_identity s =
     ls_runtime_id s @ '':'' @ ls_strategy_version_id s @ '':'' @ int_str (ls_launch_attempt s)"

definition bootstrap_event_id :: "launch_spec \<Rightarrow> string \<Rightarrow> string" where
  "bootstrap_event_id s name = ls_runtime_id s @ '':'' @ int_str (ls_launch_attempt s) @ '':'' @ name"

definition is_integrity_error :: "py_exc \<Rightarrow> bool" where
  "is_integrity_error e \<longleftrightarrow> exc_type_name e = ''IntegrityError''"

text \<open>A launch attempt that is already there is left as it is.\<close>

definition on_bootstrap_start :: "wire \<Rightarrow> launch_spec \<Rightarrow> pydatetime \<Rightarrow> (db, unit) act" where
  "on_bootstrap_start w s observed_at =
     act_then
       (stored (upsert_instance
          \<lparr>wr_runtime_id = ls_runtime_id s, wr_worker_identity = bootstrap_worker_identity s,
           wr_tenant_id = ls_tenant_id s, wr_strategy_version_id = ls_strategy_version_id s,
           wr_launch_attempt = ls_launch_attempt s, wr_state = ''INITIALIZING'', wr_occurred_at = observed_at,
           wr_observed_at = observed_at, wr_trader_id = ls_trader_id s, wr_account_id = ls_account_id s,
           wr_reason_code = None, wr_last_heartbeat_at = None, wr_correlation_id = None,
           wr_causation_id = None\<rparr>))
       (act_catch
         (stored (append_attempt w
            \<lparr>la_runtime_id = ls_runtime_id s, la_launch_attempt = ls_launch_attempt s, la_state = ''STARTING'',
             la_occurred_at = observed_at, la_observed_at = observed_at, la_reason_code = None,
             la_correlation_id = None, la_causation_id = None,
             la_details = Some [(''stage'', VStr ''bootstrap_start'')]\<rparr>))
         (\<lambda>e. if is_integrity_error e then act_ret () else act_raise e))"

text \<open>What a failed bootstrap says of itself: stage, reason, retryable, details.\<close>

record bootstrap_failure_info =
  bf_stage :: bootstrap_stage
  bf_reason_code :: string
  bf_retryable :: bool
  bf_details :: pydict

definition append_event_of :: "wire \<Rightarrow> (pydatetime, json) worker_event \<Rightarrow> db \<Rightarrow> py_exc + db" where
  "append_event_of w a d = rbind (append_event w a d) (\<lambda>(new, d'). Inr d')"

definition bootstrap_event ::
  "launch_spec \<Rightarrow> string \<Rightarrow> string \<Rightarrow> string option \<Rightarrow> pydatetime \<Rightarrow> pydatetime \<Rightarrow> pydict \<Rightarrow>
   (pydatetime, json) worker_event" where
  "bootstrap_event s name state rcode occurred_at observed_at payload =
     \<lparr>ev_event_id = bootstrap_event_id s name, ev_runtime_id = ls_runtime_id s,
      ev_worker_identity = bootstrap_worker_identity s, ev_launch_attempt = ls_launch_attempt s,
      ev_event_family = name, ev_occurred_at = occurred_at, ev_observed_at = observed_at,
      ev_state = Some state, ev_reason_code = rcode, ev_correlation_id = None, ev_causation_id = None,
      ev_payload = Some payload\<rparr>"

definition on_bootstrap_failure ::
  "wire \<Rightarrow> launch_spec \<Rightarrow> bootstrap_failure_info \<Rightarrow> pydatetime \<Rightarrow> pydatetime \<Rightarrow> (db, unit) act" where
  "on_bootstrap_failure w s f occurred_at observed_at =
     (let rid = ls_runtime_id s; attempt = ls_launch_attempt s; reason = Some (bf_reason_code f);
          stage = bootstrap_stage_value (bf_stage f) in
      act_seq
       [stored (update_state rid ''FAILED'' reason attempt occurred_at observed_at None None),
        stored (mark_outcome w rid attempt ''FAILED'' reason occurred_at observed_at
          (Some [(''stage'', VStr stage), (''retryable'', VBool (bf_retryable f)),
                 (''details'', VDict (bf_details f))])),
        stored (append_diagnostic w
          \<lparr>dg_runtime_id = rid, dg_launch_attempt = attempt, dg_diagnostic_type = ''bootstrap_failure'',
           dg_occurred_at = occurred_at, dg_observed_at = observed_at, dg_stage = Some stage,
           dg_reason_code = reason, dg_correlation_id = None, dg_causation_id = None,
           dg_details = Some (bf_details f)\<rparr>),
        stored (append_event_of w
          (bootstrap_event s (worker_event_name_value EN_LAUNCH_FAILED) ''FAILED'' reason occurred_at observed_at
             [(''stage'', VStr stage), (''details'', VDict (bf_details f)),
              (''retryable'', VBool (bf_retryable f))]))])"

definition on_bootstrap_success ::
  "wire \<Rightarrow> launch_spec \<Rightarrow> string \<Rightarrow> pydict \<Rightarrow> pydatetime \<Rightarrow> pydatetime \<Rightarrow> (db, unit) act" where
  "on_bootstrap_success w s entrypoint sdk_details occurred_at observed_at =
     (let rid = ls_runtime_id s; attempt = ls_launch_attempt s in
      act_seq
       [stored (update_state rid ''READY'' None attempt occurred_at observed_at None None),
        stored (mark_outcome w rid attempt ''SUCCEEDED'' None occurred_at observed_at
          (Some [(''entrypoint'', VStr entrypoint), (''sdk_validation'', VDict sdk_details)])),
        stored (append_event_of w
          (bootstrap_event s (worker_event_name_value EN_LAUNCH_SUCCEEDED) ''READY'' None occurred_at observed_at
             [(''entrypoint'', VStr entrypoint)]))])"

text \<open>One transaction of \<open>_SQLiteBootstrapPersistence\<close>: a handler that raises leaves nothing.\<close>

definition transaction :: "(db, unit) act \<Rightarrow> (db, unit) act" where
  "transaction m = (\<lambda>d. case m d of (Inl e, d') \<Rightarrow> (Inl e, d) | (Inr u, d') \<Rightarrow> (Inr u, d'))"

section \<open>What a bootstrap leaves\<close>

definition instance_states :: "db \<Rightarrow> string \<Rightarrow> (string \<times> int \<times> string option) list" where
  "instance_states d rid =
     map (\<lambda>r. (wr_state r, wr_launch_attempt r, wr_reason_code r))
       (filter (\<lambda>r. wr_runtime_id r = rid) (worker_instances d))"

definition attempt_states :: "db \<Rightarrow> string \<Rightarrow> int \<Rightarrow> (string \<times> string option) list" where
  "attempt_states d rid n =
     map (\<lambda>r. (la_state r, la_reason_code r))
       (filter (\<lambda>r. la_runtime_id r = rid \<and> la_launch_attempt r = n) (worker_launch_attempts d))"

definition event_ids :: "db \<Rightarrow> string list" where
  "event_ids d = map ev_event_id (worker_events d)"

lemma transaction_Inr: "m d = (Inr u, d') \<Longrightarrow> transaction m d = (Inr u, d')"
  by (simp add: transaction_def)

lemma to_wire_ts_total: "dt_aware t \<Longrightarrow> \<exists>s. to_wire_ts t = Inr s"
  by (simp add: to_wire_ts_def db_require_utc_def)

text \<open>One row where there is a key: what an update leaves of the rows of that key.\<close>

lemma distinct_filter_single:
  assumes "distinct (map f rs)" and "r \<in> set rs"
  shows "filter (\<lambda>q. f q = f r) rs = [r]"
  using assms
proof (induction rs)
  case (Cons q rs)
  then show ?case
    by (cases "q = r") (auto simp: filter_empty_conv image_iff)
qed simp

lemma states_length:
  assumes "db_ok d"
  shows "length (instance_states d rid) = (if known_runtime d rid then 1 else 0)"
proof (cases "known_runtime d rid")
  case True
  then obtain r where "r \<in> set (worker_instances d)" "wr_runtime_id r = rid" by (auto simp: known_runtime_def)
  then show ?thesis
    using distinct_filter_single [of wr_runtime_id "worker_instances d" r] assms True
    by (simp add: instance_states_def db_ok_def runtimes_def)
next
  case False
  then show ?thesis by (auto simp: instance_states_def known_runtime_def filter_empty_conv)
qed

lemma attempts_length:
  assumes "db_ok d"
  shows "length (attempt_states d rid n) =
    (if (rid, n) \<in> (\<lambda>r. (la_runtime_id r, la_launch_attempt r)) ` set (worker_launch_attempts d) then 1 else 0)"
proof (cases "(rid, n) \<in> (\<lambda>r. (la_runtime_id r, la_launch_attempt r)) ` set (worker_launch_attempts d)")
  case True
  then obtain r where "r \<in> set (worker_launch_attempts d)" "la_runtime_id r = rid" "la_launch_attempt r = n" by auto
  then show ?thesis
    using distinct_filter_single [of "\<lambda>r. (la_runtime_id r, la_launch_attempt r)" "worker_launch_attempts d" r]
      assms True
    by (simp add: attempt_states_def db_ok_def)
next
  case False
  then have "filter (\<lambda>r. la_runtime_id r = rid \<and> la_launch_attempt r = n) (worker_launch_attempts d) = []"
    by (auto simp: filter_empty_conv image_iff)
  then show ?thesis using False by (simp add: attempt_states_def)
qed

lemma update_where_filter:
  "(\<And>r. p (g r) = p r) \<Longrightarrow> map f (filter p (update_where p g rs)) = map (\<lambda>r. f (g r)) (filter p rs)"
  by (induction rs) (simp_all add: update_where_def)

lemma upsert_total:
  assumes "dt_aware (wr_occurred_at i)" and "dt_aware (wr_observed_at i)" and "wr_last_heartbeat_at i = None"
  obtains d' where "upsert_instance i d = Inr d'" "known_runtime d' (wr_runtime_id i)"
    "worker_events d' = worker_events d" "worker_launch_attempts d' = worker_launch_attempts d"
proof -
  obtain occ obs where times: "to_wire_ts (wr_occurred_at i) = Inr occ" "to_wire_ts (wr_observed_at i) = Inr obs"
    using assms to_wire_ts_total by blast
  show ?thesis
  proof (cases "known_runtime d (wr_runtime_id i)")
    case True
    then have "known_runtime (d\<lparr>worker_instances := update_where (\<lambda>r. wr_runtime_id r = wr_runtime_id i)
        (updated_instance i occ obs) (worker_instances d)\<rparr>) (wr_runtime_id i)"
      by (simp add: known_runtime_iff runtimes_def update_where_map updated_instance_def del: set_map)
    then show ?thesis using that True times by (simp add: upsert_instance_def)
  next
    case False
    then show ?thesis
      using that times assms(3)
      by (simp add: upsert_instance_def opt_wire_ts_def known_runtime_def inserted_instance_def)
  qed
qed

text \<open>After the start of a bootstrap its runtime is known and its attempt has a row.\<close>

abbreviation attempt_key :: "('ts, 'd) attempt \<Rightarrow> string \<times> int" where
  "attempt_key r \<equiv> (la_runtime_id r, la_launch_attempt r)"

lemma bootstrap_started:
  assumes "db_ok d" and "dt_aware t"
  obtains d' where "transaction (on_bootstrap_start w s t) d = (Inr (), d')" "db_ok d'"
    "known_runtime d' (ls_runtime_id s)"
    "(ls_runtime_id s, ls_launch_attempt s) \<in> attempt_key ` set (worker_launch_attempts d')"
    "worker_events d' = worker_events d"
proof -
  let ?key = "(ls_runtime_id s, ls_launch_attempt s)"
  let ?i = "\<lparr>wr_runtime_id = ls_runtime_id s, wr_worker_identity = bootstrap_worker_identity s,
           wr_tenant_id = ls_tenant_id s, wr_strategy_version_id = ls_strategy_version_id s,
           wr_launch_attempt = ls_launch_attempt s, wr_state = ''INITIALIZING'', wr_occurred_at = t,
           wr_observed_at = t, wr_trader_id = ls_trader_id s, wr_account_id = ls_account_id s,
           wr_reason_code = None, wr_last_heartbeat_at = None, wr_correlation_id = None,
           wr_causation_id = None\<rparr> :: pydatetime worker_instance"
  let ?a = "\<lparr>la_runtime_id = ls_runtime_id s, la_launch_attempt = ls_launch_attempt s, la_state = ''STARTING'',
             la_occurred_at = t, la_observed_at = t, la_reason_code = None,
             la_correlation_id = None, la_causation_id = None,
             la_details = Some [(''stage'', VStr ''bootstrap_start'')]\<rparr> :: (pydatetime, json) attempt"
  obtain d1 where d1: "upsert_instance ?i d = Inr d1" "known_runtime d1 (ls_runtime_id s)"
      "worker_events d1 = worker_events d" "worker_launch_attempts d1 = worker_launch_attempts d"
    by (rule upsert_total [of ?i d]) (use assms(2) in simp_all)
  have ok: "db_ok d1" by (rule upsert_ok [OF d1(1) assms(1)])
  obtain ts where ts: "to_wire_ts t = Inr ts" using assms(2) to_wire_ts_total by blast
  have run: "transaction (on_bootstrap_start w s t) d = (Inr (), d')"
    if "(case append_attempt w ?a d1 of Inl e \<Rightarrow> (if is_integrity_error e then (Inr (), d1) else (Inl e, d1))
          | Inr d2 \<Rightarrow> (Inr (), d2)) = (Inr (), d')" for d'
    using that d1(1)
    by (intro transaction_Inr)
      (auto simp: on_bootstrap_start_def stored_def act_run split: sum.splits if_splits)
  show ?thesis
  proof (cases "?key \<in> attempt_key ` set (worker_launch_attempts d1)")
    case True
    then have "append_attempt w ?a d1 = Inl (IntegrityError ''UNIQUE constraint failed'')"
      using ts by (auto simp: append_attempt_def to_json_def rguard_def)
    then show ?thesis
      using run [of d1] ok d1(2,3) True
      by (intro that [of d1]) (simp_all add: is_integrity_error_def IntegrityError_def)
  next
    case False
    then obtain d2 where d2: "append_attempt w ?a d1 = Inr d2" "worker_instances d2 = worker_instances d1"
        "worker_events d2 = worker_events d1" "?key \<in> attempt_key ` set (worker_launch_attempts d2)"
      using ts d1(2) by (auto simp: append_attempt_def to_json_def rguard_def foreign_key_def)
    then show ?thesis
      using run [of d2] append_attempt_ok [OF d2(1) ok] d1(2,3)
      by (intro that [of d2]) (simp_all add: known_runtime_def)
  qed
qed

text \<open>The rows after an outcome was marked.\<close>

lemma marked_states:
  assumes "db_ok d" and "known_runtime d rid" and "update_state rid st rc n occ obs None None d = Inr d1"
    and "(rid, n) \<in> attempt_key ` set (worker_launch_attempts d)"
    and "mark_outcome w rid n st' rc occ obs details d1 = Inr d2"
  shows "instance_states d2 rid = [(st, n, rc)]" and "attempt_states d2 rid n = [(st', rc)]" and "db_ok d2"
    and "worker_events d2 = worker_events d" and "known_runtime d2 rid"
proof -
  obtain o1 o2 where d1: "d1 = d\<lparr>worker_instances := update_where (\<lambda>r. wr_runtime_id r = rid)
       (\<lambda>r. r\<lparr>wr_launch_attempt := n, wr_state := st, wr_reason_code := rc, wr_occurred_at := o1,
              wr_observed_at := o2, wr_correlation_id := None, wr_causation_id := None\<rparr>) (worker_instances d)\<rparr>"
    using assms(3) by (rule update_state_shape)
  obtain o1' o2' dt where d2: "d2 = d1\<lparr>worker_launch_attempts :=
         update_where (\<lambda>r. la_runtime_id r = rid \<and> la_launch_attempt r = n)
           (\<lambda>r. r\<lparr>la_state := st', la_reason_code := rc, la_occurred_at := o1',
                  la_observed_at := o2', la_details := dt\<rparr>) (worker_launch_attempts d1)\<rparr>"
    using assms(5) by (auto simp: mark_outcome_def rbind_eq_Inr)
  obtain r where r: "filter (\<lambda>r. wr_runtime_id r = rid) (worker_instances d) = [r]"
    using states_length [OF assms(1), of rid] assms(2)
    by (auto simp: instance_states_def length_Suc_conv)
  then show "instance_states d2 rid = [(st, n, rc)]"
    by (simp add: instance_states_def d2 d1 update_where_filter)
  obtain a where a: "filter (\<lambda>r. la_runtime_id r = rid \<and> la_launch_attempt r = n) (worker_launch_attempts d) = [a]"
    using attempts_length [OF assms(1), of rid n] assms(4)
    by (auto simp: attempt_states_def length_Suc_conv)
  then show "attempt_states d2 rid n = [(st', rc)]"
    by (simp add: attempt_states_def d2 d1 update_where_filter)
  show "db_ok d2" by (rule mark_outcome_ok [OF assms(5) update_state_ok [OF assms(3,1)]])
  show "worker_events d2 = worker_events d" by (simp add: d2 d1)
  show "known_runtime d2 rid"
    using assms(2) by (simp add: known_runtime_iff runtimes_def d2 d1 update_where_map del: set_map)
qed

lemma event_appended:
  assumes "known_runtime d (ev_runtime_id a)" and "ev_event_id a \<notin> set (event_ids d)"
    and "dt_aware (ev_occurred_at a)" and "dt_aware (ev_observed_at a)" and "to_json w (ev_payload a) = Inr p"
    and "db_ok d"
  obtains d' where "append_event_of w a d = Inr d'" "worker_instances d' = worker_instances d"
    "worker_launch_attempts d' = worker_launch_attempts d" "event_ids d' = event_ids d @ [ev_event_id a]" "db_ok d'"
proof -
  obtain occ obs where times: "to_wire_ts (ev_occurred_at a) = Inr occ" "to_wire_ts (ev_observed_at a) = Inr obs"
    using assms(3,4) to_wire_ts_total by blast
  obtain d' where d': "insert_event a occ obs p d = Inr d'" "worker_instances d' = worker_instances d"
      "worker_launch_attempts d' = worker_launch_attempts d" "event_ids d' = event_ids d @ [ev_event_id a]"
    using assms(1,2) by (auto simp: insert_event_def rguard_def foreign_key_def event_ids_def)
  then have run: "append_event w a d = Inr (True, d')" using times assms(5) by (simp add: append_event_def)
  then show ?thesis using d' append_event_ok [OF run assms(6)] by (intro that) (simp_all add: append_event_of_def)
qed

lemma states_same:
  "worker_instances d' = worker_instances d \<Longrightarrow> instance_states d' = instance_states d"
  "worker_launch_attempts d' = worker_launch_attempts d \<Longrightarrow> attempt_states d' = attempt_states d"
  by (simp_all add: instance_states_def attempt_states_def fun_eq_iff)

lemma stored_seq:
  "act_seq (stored f # ms) d = (case f d of Inl e \<Rightarrow> (Inl e, d) | Inr d' \<Rightarrow> act_seq ms d')"
  "act_seq [] d = (Inr (), d)"
  by (simp_all add: act_run stored_def split: sum.split)

text \<open>
  A bootstrap that started and failed is recorded as one instance row in FAILED with the
  failure's reason, one attempt row marked FAILED, one diagnostic more and one event more, and
  the constraints of the schema hold; a replayed start of the same attempt makes no second row.
\<close>

lemma bootstrap_failure_recorded:
  assumes "db_ok d" and "dt_aware t0" and "dt_aware t1" and "dt_aware t2"
    and "json_dumps (wt_float w) (VDict (bf_details f)) \<noteq> None"
    and "bootstrap_event_id s ''runtime.launch_failed'' \<notin> set (event_ids d)"
  shows "case act_then (transaction (on_bootstrap_start w s t0))
                (transaction (on_bootstrap_failure w s f t1 t2)) d of
      (r, d') \<Rightarrow> r = Inr () \<and> db_ok d' \<and>
        instance_states d' (ls_runtime_id s) = [(''FAILED'', ls_launch_attempt s, Some (bf_reason_code f))] \<and>
        attempt_states d' (ls_runtime_id s) (ls_launch_attempt s) = [(''FAILED'', Some (bf_reason_code f))] \<and>
        event_ids d' = event_ids d @ [bootstrap_event_id s ''runtime.launch_failed'']"
proof -
  let ?rid = "ls_runtime_id s" and ?n = "ls_launch_attempt s" and ?reason = "Some (bf_reason_code f)"
  let ?stage = "bootstrap_stage_value (bf_stage f)"
  obtain d0 where d0: "transaction (on_bootstrap_start w s t0) d = (Inr (), d0)" "db_ok d0" "known_runtime d0 ?rid"
      "(?rid, ?n) \<in> attempt_key ` set (worker_launch_attempts d0)" "worker_events d0 = worker_events d"
    by (rule bootstrap_started [OF assms(1,2)])
  obtain o1 o2 where times: "to_wire_ts t1 = Inr o1" "to_wire_ts t2 = Inr o2"
    using assms(3,4) to_wire_ts_total by blast
  obtain j where j: "json_dumps_dict (wt_float w) (bf_details f) = Some j" using assms(5) by auto
  obtain d1 where d1: "update_state ?rid ''FAILED'' ?reason ?n t1 t2 None None d0 = Inr d1"
    using times by (simp add: update_state_def)
  obtain d2 where d2: "mark_outcome w ?rid ?n ''FAILED'' ?reason t1 t2
      (Some [(''stage'', VStr ?stage), (''retryable'', VBool (bf_retryable f)), (''details'', VDict (bf_details f))]) d1
      = Inr d2"
    using times j by (simp add: mark_outcome_def to_json_def)
  note marked = marked_states [OF d0(2,3) d1 d0(4) d2]
  let ?dg = "\<lparr>dg_runtime_id = ?rid, dg_launch_attempt = ?n, dg_diagnostic_type = ''bootstrap_failure'',
     dg_occurred_at = t1, dg_observed_at = t2, dg_stage = Some ?stage, dg_reason_code = ?reason,
     dg_correlation_id = None, dg_causation_id = None, dg_details = Some (bf_details f)\<rparr>"
  obtain d3 where d3: "append_diagnostic w ?dg d2 = Inr d3" "worker_instances d3 = worker_instances d2"
      "worker_launch_attempts d3 = worker_launch_attempts d2" "worker_events d3 = worker_events d2"
    using times j marked(5) by (auto simp: append_diagnostic_def to_json_def foreign_key_def rguard_def)
  let ?ev = "bootstrap_event s (worker_event_name_value EN_LAUNCH_FAILED) ''FAILED'' ?reason t1 t2
     [(''stage'', VStr ?stage), (''details'', VDict (bf_details f)), (''retryable'', VBool (bf_retryable f))]"
  obtain p where p: "to_json w (ev_payload ?ev) = Inr p"
    using j by (simp add: to_json_def bootstrap_event_def)
  obtain d4 where d4: "append_event_of w ?ev d3 = Inr d4" "worker_instances d4 = worker_instances d3"
      "worker_launch_attempts d4 = worker_launch_attempts d3" "event_ids d4 = event_ids d3 @ [ev_event_id ?ev]" "db_ok d4"
    by (rule event_appended [of d3 ?ev w p])
      (use marked(4,5) d3 d0(5) assms(3,4,6) p append_diagnostic_ok [OF d3(1) marked(3)] in
        \<open>simp_all add: bootstrap_event_def known_runtime_def event_ids_def\<close>)
  have "on_bootstrap_failure w s f t1 t2 d0 = (Inr (), d4)"
    by (simp add: on_bootstrap_failure_def Let_def stored_seq d1 d2 d3(1) d4(1) del: act_seq.simps
        worker_event_name_value.simps)
  then have "act_then (transaction (on_bootstrap_start w s t0))
      (transaction (on_bootstrap_failure w s f t1 t2)) d = (Inr (), d4)"
    by (simp add: act_run d0(1) transaction_Inr)
  then show ?thesis
    using marked(1,2,4) d3 d4 d0(5) states_same [of d4 d3] states_same [of d3 d2]
    by (simp add: bootstrap_event_def event_ids_def)
qed

definition sample_bootstrap_spec :: launch_spec where
  "sample_bootstrap_spec =
     \<lparr>ls_runtime_id = ''rt'', ls_tenant_id = ''t'', ls_strategy_version_id = ''v'', ls_mode = PAPER,
      ls_launch_attempt = 1, ls_artifact_uri = ''u'', ls_entrypoint = ''m:S'', ls_trader_id = None,
      ls_account_id = Some ''a'', ls_artifact_digest = None, ls_job_id = None, ls_ts_start = None,
      ls_ts_end = None, ls_symbol = None, ls_correlation_id = None\<rparr>"

theorem bootstrap_failure_recorded_witness:
  "case act_then (transaction (on_bootstrap_start sample_wire sample_bootstrap_spec (utc 0)))
       (transaction (on_bootstrap_failure sample_wire sample_bootstrap_spec
          \<lparr>bf_stage = ENTRYPOINT_LOAD, bf_reason_code = ''ENTRYPOINT_INVALID'', bf_retryable = False,
           bf_details = []\<rparr> (utc 1) (utc 2))) empty_db of
     (r, d') \<Rightarrow> r = Inr () \<and> db_ok d' \<and>
       instance_states d' (ls_runtime_id sample_bootstrap_spec) =
         [(''FAILED'', ls_launch_attempt sample_bootstrap_spec, Some ''ENTRYPOINT_INVALID'')] \<and>
       attempt_states d' (ls_runtime_id sample_bootstrap_spec) (ls_launch_attempt sample_bootstrap_spec) =
         [(''FAILED'', Some ''ENTRYPOINT_INVALID'')] \<and>
       event_ids d' = event_ids empty_db @ [bootstrap_event_id sample_bootstrap_spec ''runtime.launch_failed'']"
  using bootstrap_failure_recorded [of empty_db "utc 0" "utc 1" "utc 2" sample_wire
      "\<lparr>bf_stage = ENTRYPOINT_LOAD, bf_reason_code = ''ENTRYPOINT_INVALID'', bf_retryable = False,
        bf_details = []\<rparr>" sample_bootstrap_spec]
  by (simp add: db_ok_def empty_db_def runtimes_def referring_def event_ids_def)

end
