(* ===== verification/Journal.thy ===== *)
theory Journal
  imports BootstrapStore LifecycleEvents
begin

text \<open>
  \<open>persistence/runtime_journal_sink.py\<close>: every record is one database transaction followed by one
  line of the text file. A transaction that raises is rolled back; when SQLite reports a lock the
  whole write is tried again, four times at most. What the database engine, the file system and
  the clock do is decided by the environment from the effects so far: a transaction may fail for
  a reason of the engine, appending to the file may fail with an \<open>OSError\<close>.
\<close>

datatype journal_effect =
    TransactionFailed py_exc
  | Committed
  | LineAppended pydict
  | LineFailed string
  | Slept rat
  | IntentPrinted pydict

record journal_env =
  je_wire :: wire
  je_runtime_id :: string
  je_launch_attempt :: int
  je_launch_job_id :: "string option"
  je_now :: "journal_effect list \<Rightarrow> pydatetime"
  je_fault :: "journal_effect list \<Rightarrow> py_exc option"
  je_file_fault :: "journal_effect list \<Rightarrow> string option"
  je_repr :: "pyval \<Rightarrow> string"
  je_local_offset :: "int \<Rightarrow> int"
  je_sha256 :: "string \<Rightarrow> string"

record journal =
  jn_db :: db
  jn_lines :: "pydict list"
  jn_trace :: "journal_effect list"

type_synonym 'a jn = "(journal, 'a) act"

definition jn_effect :: "journal_effect \<Rightarrow> journal \<Rightarrow> journal" where
  "jn_effect e j = j\<lparr>jn_trace := jn_trace j @ [e]\<rparr>"

section \<open>Values of the journal\<close>

text \<open>\<open>dt.astimezone(utc)\<close> reads a naive datetime as local time.\<close>

definition wire_iso :: "journal_env \<Rightarrow> pydatetime \<Rightarrow> string" where
  "wire_iso w t =
     wire_timestamp (if dt_aware t then t else utc (dt_wall t - je_local_offset w (dt_wall t)))"

fun json_safe :: "journal_env \<Rightarrow> pyval \<Rightarrow> pyval" where
  "json_safe w (VTime t) = VStr (wire_iso w t)"
| "json_safe w (VDict kvs) = VDict (map (\<lambda>(k, v). (k, json_safe w v)) kvs)"
| "json_safe w (VList vs) = VList (map (json_safe w) vs)"
| "json_safe w (VObj n) = VStr (je_repr w (VObj n))"
| "json_safe w v = v"

definition json_safe_dict :: "journal_env \<Rightarrow> pydict \<Rightarrow> pydict" where
  "json_safe_dict w d = map (\<lambda>(k, v). (k, json_safe w v)) d"

definition parse_dt :: "journal_env \<Rightarrow> pyval \<Rightarrow> pydatetime option" where
  "parse_dt w v =
     (let aware = (\<lambda>t. if dt_aware t then t else utc (dt_wall t)) in
      case v of
        VTime t \<Rightarrow> Some (aware t)
      | VStr s \<Rightarrow>
          if py_strip s = [] then None
          else map_option aware
            (datetime_fromisoformat (wt_iso (je_wire w)) (py_replace ''Z'' ''+00:00'' (py_strip s)))
      | _ \<Rightarrow> None)"

definition requested_at_for_order_intent :: "journal_env \<Rightarrow> pydatetime \<Rightarrow> pydict \<Rightarrow> pydatetime" where
  "requested_at_for_order_intent w now payload =
     (let raw = (if py_truthy (get_or_none payload ''requested_at'') then get_or_none payload ''requested_at''
                 else get_or_none payload ''occurred_at'')
      in case raw of VTime t \<Rightarrow> as_utc t | _ \<Rightarrow> now)"

definition created_at_for_order_intent :: "journal_env \<Rightarrow> pydict \<Rightarrow> pydatetime option" where
  "created_at_for_order_intent w payload =
     (case get_or_none payload ''created_at'' of
        VTime t \<Rightarrow> Some (as_utc t)
      | v \<Rightarrow> parse_dt w v)"

definition dict_pop :: "string \<Rightarrow> pydict \<Rightarrow> pydict" where
  "dict_pop k d = AList.delete k d"

definition canonical_order_intent_journal_payload :: "journal_env \<Rightarrow> pydict \<Rightarrow> pydict" where
  "canonical_order_intent_journal_payload w d =
     (let r = je_repr w;
          legacy_occ = get_or_none d ''occurred_at'';
          out = dict_pop ''occurred_at'' d;
          out = (if legacy_occ \<noteq> VNone \<and> get_or_none out ''requested_at'' \<in> {VNone, VStr []}
                 then dict_set ''requested_at'' legacy_occ out else out);
          out = fold dict_pop [''backtest_job_id'', ''strategy_context'', ''replay_session_id'', ''launch_attempt''] out;
          legacy = get_or_none out ''client_intent_id'';
          out = dict_pop ''client_intent_id'' out
      in if py_truthy legacy \<and> py_strip (str_or_empty r (get_or_none out ''idempotency_key'')) = []
         then dict_set ''idempotency_key'' (VStr (py_strip (py_str r legacy))) out
         else out)"

section \<open>One write\<close>

definition sqlite_locked :: "py_exc \<Rightarrow> bool" where
  "sqlite_locked e \<longleftrightarrow>
     exc_type_name e = ''OperationalError'' \<and>
     (occurs_in ''database is locked'' (py_lower (exc_text e)) \<or>
      occurs_in ''database table is locked'' (py_lower (exc_text e)))"

text \<open>A transaction: committed whole, or rolled back.\<close>

definition in_transaction :: "journal_env \<Rightarrow> (db \<Rightarrow> py_exc + db) \<Rightarrow> unit jn" where
  "in_transaction w f = (\<lambda>j.
     case je_fault w (jn_trace j) of
       Some e \<Rightarrow> (Inl e, jn_effect (TransactionFailed e) j)
     | None \<Rightarrow>
         (case f (jn_db j) of
            Inl e \<Rightarrow> (Inl e, jn_effect (TransactionFailed e) j)
          | Inr d \<Rightarrow> (Inr (), jn_effect Committed (j\<lparr>jn_db := d\<rparr>))))"

definition append_line :: "journal_env \<Rightarrow> pydict \<Rightarrow> unit jn" where
  "append_line w line = (\<lambda>j.
     if json_dumps (wt_float (je_wire w)) (VDict line) = None then
       (Inl (TypeExc ''TypeError'' ''Object is not JSON serializable''), j)
     else (case je_file_fault w (jn_trace j) of
             Some msg \<Rightarrow> (Inl (OtherExc ''OSError'' msg None), jn_effect (LineFailed msg) j)
           | None \<Rightarrow> (Inr (), jn_effect (LineAppended line) (j\<lparr>jn_lines := jn_lines j @ [line]\<rparr>))))"

fun sqlite_lock_retry :: "nat \<Rightarrow> rat \<Rightarrow> unit jn \<Rightarrow> unit jn" where
  "sqlite_lock_retry n delay_s op = (\<lambda>j.
     case op j of
       (Inr u, j') \<Rightarrow> (Inr (), j')
     | (Inl e, j') \<Rightarrow>
         if \<not> sqlite_locked e then (Inl e, j')
         else (case n of
                 0 \<Rightarrow> (Inl e, j')
               | Suc m \<Rightarrow> sqlite_lock_retry m (2 * delay_s) op (jn_effect (Slept delay_s) j')))"

declare sqlite_lock_retry.simps [simp del]

definition with_sqlite_lock_retry :: "unit jn \<Rightarrow> unit jn" where
  "with_sqlite_lock_retry op = sqlite_lock_retry 4 (1 / 20) op"

text \<open>The write of every record; order intents are printed as well.\<close>

definition journal_entry :: "journal_env \<Rightarrow> (db \<Rightarrow> py_exc + db) \<Rightarrow> pydict \<Rightarrow> bool \<Rightarrow> unit jn" where
  "journal_entry w f line printed =
     with_sqlite_lock_retry
       (act_then (in_transaction w f)
         (act_then (append_line w line) (act_when printed (act_modify (jn_effect (IntentPrinted line))))))"

definition journal_write :: "journal_env \<Rightarrow> (db \<Rightarrow> py_exc + db) \<Rightarrow> pydict \<Rightarrow> unit jn" where
  "journal_write w f line = journal_entry w f line False"

section \<open>The transactions\<close>

text \<open>\<open>INSERT OR IGNORE\<close> of a placeholder for the foreign keys.\<close>

definition ensure_worker_instance_stub :: "journal_env \<Rightarrow> pydatetime \<Rightarrow> db \<Rightarrow> py_exc + db" where
  "ensure_worker_instance_stub w observed_at d =
     Inr (if known_runtime d (je_runtime_id w) then d
          else d\<lparr>worker_instances := worker_instances d @
            [\<lparr>wr_runtime_id = je_runtime_id w,
              wr_worker_identity = je_runtime_id w @ '':'' @ int_str (je_launch_attempt w), wr_tenant_id = [],
              wr_strategy_version_id = [], wr_launch_attempt = je_launch_attempt w,
              wr_state = ''INITIALIZING'', wr_occurred_at = wire_iso w observed_at,
              wr_observed_at = wire_iso w observed_at, wr_trader_id = None, wr_account_id = None,
              wr_reason_code = None, wr_last_heartbeat_at = None, wr_correlation_id = None,
              wr_causation_id = None\<rparr>]\<rparr>)"

definition opt_else :: "'a option \<Rightarrow> 'a option \<Rightarrow> 'a option" where
  "opt_else x y = (case x of None \<Rightarrow> y | Some v \<Rightarrow> Some v)"

definition persist_state_tx :: "journal_env \<Rightarrow> (pydatetime, json) state_entry \<Rightarrow> db \<Rightarrow> py_exc + db" where
  "persist_state_tx w rec d =
     (let rid = je_runtime_id w in
      rbind
        (if sj_kind rec = ''phase'' then
           (case sj_phase rec of
              None \<Rightarrow> Inr d
            | Some phase \<Rightarrow>
                rbind (ensure_worker_instance_stub w (sj_observed_at rec) d) (\<lambda>d.
                rbind (get_by_runtime_id (je_wire w) rid d) (\<lambda>current.
                  update_state rid phase (opt_else (sj_reason_code rec) (Option.bind current wr_reason_code))
                    (je_launch_attempt w) (sj_observed_at rec) (sj_observed_at rec)
                    (Option.bind current wr_correlation_id) (Option.bind current wr_causation_id) d)))
         else Inr d)
        (append_state (je_wire w) rec))"

definition heartbeat_tx :: "journal_env \<Rightarrow> string \<Rightarrow> pydatetime \<Rightarrow> string option \<Rightarrow> string option \<Rightarrow> db \<Rightarrow> py_exc + db" where
  "heartbeat_tx w local_state observed_at corr cause d =
     (let rid = je_runtime_id w in
      rbind (ensure_worker_instance_stub w observed_at d) (\<lambda>d.
      rbind (append_observation (je_wire w)
        \<lparr>ho_runtime_id = rid, ho_launch_attempt = je_launch_attempt w, ho_occurred_at = observed_at,
         ho_observed_at = observed_at, ho_correlation_id = corr, ho_causation_id = cause,
         ho_details = Some [(''local_state'', VStr local_state)]\<rparr> d) (\<lambda>d.
      rbind (db_record_heartbeat (je_wire w) rid observed_at observed_at d) (\<lambda>d.
      rbind (get_by_runtime_id (je_wire w) rid d) (\<lambda>current.
        update_state rid local_state (Option.bind current wr_reason_code) (je_launch_attempt w) observed_at
          observed_at (Option.bind current wr_correlation_id) (Option.bind current wr_causation_id) d)))))"

definition lifecycle_event_tx ::
  "journal_env \<Rightarrow> event_envelope \<Rightarrow> pydict \<Rightarrow> pydatetime \<Rightarrow> string option \<Rightarrow> string option \<Rightarrow> db \<Rightarrow> py_exc + db" where
  "lifecycle_event_tx w ev payload observed_at local_state rcode d =
     (let rid = je_runtime_id w; n = je_launch_attempt w; wire = je_wire w in
      rbind (ensure_worker_instance_stub w observed_at d) (\<lambda>d.
      rbind (append_event wire
        \<lparr>ev_event_id = ee_event_id ev, ev_runtime_id = rid, ev_worker_identity = ee_worker_identity ev,
         ev_launch_attempt = n, ev_event_family = ee_event_name ev, ev_occurred_at = ee_occurred_at ev,
         ev_observed_at = observed_at, ev_state = local_state, ev_reason_code = rcode,
         ev_correlation_id = Some (ee_correlation_id ev), ev_causation_id = ee_causation_id ev,
         ev_payload = Some payload\<rparr> d) (\<lambda>(new, d).
      rbind (get_by_runtime_id wire rid d) (\<lambda>current.
      rbind
        (case local_state of
           None \<Rightarrow> Inr d
         | Some st \<Rightarrow>
             update_state rid st (opt_else rcode (Option.bind current wr_reason_code)) n (ee_occurred_at ev)
               observed_at (Some (ee_correlation_id ev)) (ee_causation_id ev) d) (\<lambda>d.
        if ee_event_name ev = ''runtime.heartbeat'' then
          rbind (append_observation wire
            \<lparr>ho_runtime_id = rid, ho_launch_attempt = n, ho_occurred_at = ee_occurred_at ev,
             ho_observed_at = observed_at, ho_correlation_id = Some (ee_correlation_id ev),
             ho_causation_id = ee_causation_id ev,
             ho_details = map_option (\<lambda>st. [(''local_state'', VStr st)]) local_state\<rparr> d) (\<lambda>d.
            db_record_heartbeat wire rid observed_at observed_at d)
        else Inr d)))))"

definition launch_failed_tx ::
  "journal_env \<Rightarrow> string \<Rightarrow> pydatetime \<Rightarrow> string \<Rightarrow> pydict \<Rightarrow> db \<Rightarrow> py_exc + db" where
  "launch_failed_tx w event_id occurred_at rcode payload d =
     (let rid = je_runtime_id w; n = je_launch_attempt w; key = rid @ '':'' @ int_str n in
      rbind (ensure_worker_instance_stub w occurred_at d) (\<lambda>d.
      rbind (append_event (je_wire w)
        \<lparr>ev_event_id = event_id, ev_runtime_id = rid, ev_worker_identity = key, ev_launch_attempt = n,
         ev_event_family = ''runtime.launch_failed'', ev_occurred_at = occurred_at, ev_observed_at = occurred_at,
         ev_state = Some ''FAILED'', ev_reason_code = Some rcode, ev_correlation_id = Some (''corr:'' @ key),
         ev_causation_id = Some (''cmd_bootstrap_failed_'' @ rid @ ''_'' @ int_str n),
         ev_payload = Some payload\<rparr> d) (\<lambda>(new, d). Inr d)))"

section \<open>The records\<close>

definition journal_keys :: "journal_env \<Rightarrow> string \<Rightarrow> pydict" where
  "journal_keys w kind =
     [(''kind'', VStr kind), (''runtime_id'', VStr (je_runtime_id w)),
      (''launch_attempt'', VInt (je_launch_attempt w))]"

definition state_entry_of ::
  "journal_env \<Rightarrow> string \<Rightarrow> pydatetime \<Rightarrow> string option \<Rightarrow> string \<Rightarrow> json \<Rightarrow> (pydatetime, json) state_entry" where
  "state_entry_of w kind observed_at step_name rcode details =
     \<lparr>sj_runtime_id = je_runtime_id w, sj_launch_attempt = je_launch_attempt w, sj_kind = kind,
      sj_observed_at = observed_at, sj_phase = None, sj_previous_phase = None, sj_step_name = step_name,
      sj_level = Some ''INFO'', sj_reason_code = Some rcode, sj_details = details\<rparr>"

definition persist_state :: "journal_env \<Rightarrow> (pydatetime, json) state_entry \<Rightarrow> pydict \<Rightarrow> unit jn" where
  "persist_state w rec line = journal_write w (persist_state_tx w rec) line"

definition jn_now :: "journal_env \<Rightarrow> (pydatetime \<Rightarrow> 'a jn) \<Rightarrow> 'a jn" where
  "jn_now w m = act_with (\<lambda>j. je_now w (jn_trace j)) m"

definition record_phase_change ::
  "journal_env \<Rightarrow> worker_phase option \<Rightarrow> worker_phase \<Rightarrow> string \<Rightarrow> string option \<Rightarrow> unit jn" where
  "record_phase_change w previous phase level rcode = jn_now w (\<lambda>observed_at.
     let before = map_option worker_phase_value previous in
     persist_state w
       \<lparr>sj_runtime_id = je_runtime_id w, sj_launch_attempt = je_launch_attempt w, sj_kind = ''phase'',
        sj_observed_at = observed_at, sj_phase = Some (worker_phase_value phase), sj_previous_phase = before,
        sj_step_name = None, sj_level = Some level, sj_reason_code = rcode, sj_details = None\<rparr>
       (journal_keys w ''phase'' @
        [(''phase'', VStr (worker_phase_value phase)), (''previous_phase'', opt_str before),
         (''level'', VStr level), (''reason_code'', opt_str rcode),
         (''observed_at'', VStr (wire_iso w observed_at))]))"

definition record_step :: "journal_env \<Rightarrow> string \<Rightarrow> string \<Rightarrow> string \<Rightarrow> string \<Rightarrow> unit jn" where
  "record_step w kind stage rcode step = jn_now w (\<lambda>observed_at.
     let details = [(''step_name'', VStr step), (''stage'', VStr stage)] in
     persist_state w (state_entry_of w kind observed_at (Some step) rcode (Some details))
       (journal_keys w kind @
        [(''step_name'', VStr step), (''level'', VStr ''INFO''), (''reason_code'', VStr rcode),
         (''details'', VDict details), (''observed_at'', VStr (wire_iso w observed_at))]))"

definition jn_record_startup_step :: "journal_env \<Rightarrow> string \<Rightarrow> unit jn" where
  "jn_record_startup_step w step = record_step w ''startup_step'' ''startup'' ''STARTUP_PROGRESS'' step"

definition jn_record_shutdown_step :: "journal_env \<Rightarrow> string \<Rightarrow> unit jn" where
  "jn_record_shutdown_step w step = record_step w ''shutdown_step'' ''shutdown'' ''SHUTDOWN_PROGRESS'' step"

definition record_first_data :: "journal_env \<Rightarrow> unit jn" where
  "record_first_data w = jn_now w (\<lambda>observed_at.
     let details = [(''marker'', VStr ''first_data_observed'')] in
     persist_state w (state_entry_of w ''first_data'' observed_at None ''FIRST_DATA_OBSERVED'' (Some details))
       (journal_keys w ''first_data'' @
        [(''level'', VStr ''INFO''), (''reason_code'', VStr ''FIRST_DATA_OBSERVED''), (''details'', VDict details),
         (''observed_at'', VStr (wire_iso w observed_at))]))"

definition record_heartbeat ::
  "journal_env \<Rightarrow> string \<Rightarrow> pydatetime \<Rightarrow> string option \<Rightarrow> string option \<Rightarrow> unit jn" where
  "record_heartbeat w local_state observed_at corr cause =
     journal_write w (heartbeat_tx w local_state observed_at corr cause)
       (journal_keys w ''heartbeat'' @
        [(''local_state'', VStr local_state), (''observed_at'', VStr (wire_iso w observed_at))])"

definition text_of :: "pyval \<Rightarrow> string option" where
  "text_of v = (case v of VStr s \<Rightarrow> Some s | _ \<Rightarrow> None)"

definition worker_event_line :: "journal_env \<Rightarrow> string \<Rightarrow> string \<Rightarrow> pydatetime \<Rightarrow> pydict" where
  "worker_event_line w event_id event_name occurred_at =
     journal_keys w ''worker_event'' @
     [(''event_id'', VStr event_id), (''event_name'', VStr event_name),
      (''occurred_at'', VStr (wire_iso w occurred_at))]"

definition record_lifecycle_event :: "journal_env \<Rightarrow> event_envelope \<Rightarrow> unit jn" where
  "record_lifecycle_event w ev =
     (let payload = json_safe_dict w (ee_payload ev);
          observed_at = (case parse_dt w (get_or_none payload ''observed_at'') of
                           Some t \<Rightarrow> t | None \<Rightarrow> ee_occurred_at ev)
      in journal_write w
           (lifecycle_event_tx w ev payload observed_at (text_of (get_or_none payload ''local_state''))
              (text_of (get_or_none payload ''reason_code'')))
           (worker_event_line w (ee_event_id ev) (ee_event_name ev) (ee_occurred_at ev)))"

definition record_launch_failed_event :: "journal_env \<Rightarrow> pydatetime \<Rightarrow> string \<Rightarrow> pydict \<Rightarrow> unit jn" where
  "record_launch_failed_event w occurred_at rcode details =
     (let key = je_runtime_id w @ '':'' @ int_str (je_launch_attempt w);
          occurred = wire_iso w occurred_at;
          payload = [(''occurred_at'', VStr occurred), (''reason_code'', VStr rcode),
                     (''details'', VDict (json_safe_dict w details)), (''runtime_id'', VStr (je_runtime_id w)),
                     (''launch_attempt'', VInt (je_launch_attempt w)), (''worker_identity'', VStr key)];
          digest = take 24 (je_sha256 w (key @ '':'' @ rcode @ '':'' @ occurred));
          event_id = key @ '':runtime.launch_failed:'' @ digest
      in journal_write w (launch_failed_tx w event_id occurred_at rcode payload)
           (worker_event_line w event_id ''runtime.launch_failed'' occurred_at))"

definition record_manager_stop_request ::
  "journal_env \<Rightarrow> pydatetime option \<Rightarrow> pydatetime option \<Rightarrow> string \<Rightarrow> pydatetime \<Rightarrow> unit jn" where
  "record_manager_stop_request w last_data last_clock cursor requested_at =
     (let iso = (\<lambda>t. opt_str (map_option (wire_iso w) t));
          details = [(''rpc'', VStr ''StopWorker''), (''last_replay_cursor'', VStr cursor),
                     (''stop_requested_at'', VStr (wire_iso w requested_at)),
                     (''last_data_event_at'', iso last_data), (''last_clock_at'', iso last_clock)]
      in persist_state w
           (state_entry_of w ''manager_stop_request'' requested_at None ''MANAGER_STOP_REQUESTED'' (Some details))
           (journal_keys w ''manager_stop_request'' @
            [(''level'', VStr ''INFO''), (''reason_code'', VStr ''MANAGER_STOP_REQUESTED''),
             (''observed_at'', VStr (wire_iso w requested_at))] @ details))"

section \<open>Order intents\<close>

definition nonempty_text :: "string \<Rightarrow> string option" where
  "nonempty_text s = (if s = [] then None else Some s)"

text \<open>The payload as journalled: the launch's job id wins, a missing symbol comes from the parameters.\<close>

definition order_payload :: "journal_env \<Rightarrow> pydict \<Rightarrow> string option \<times> pydict" where
  "order_payload w payload =
     (let r = je_repr w;
          safe = canonical_order_intent_journal_payload w (json_safe_dict w payload);
          text = (\<lambda>d k. py_strip (str_or_empty r (get_or_none d k)));
          (job, safe) =
            (case je_launch_job_id w of
               Some j \<Rightarrow> (Some j, dict_set ''job_id'' (VStr j) safe)
             | None \<Rightarrow> (nonempty_text (text safe ''job_id''), safe));
          safe =
            (if text safe ''symbol'' = [] then
               (case get_or_none safe ''parameters'' of
                  VDict nested \<Rightarrow>
                    (case get_or_none nested ''symbol'' of
                       VStr s \<Rightarrow> if py_strip s = [] then safe else dict_set ''symbol'' (VStr (py_strip s)) safe
                     | _ \<Rightarrow> safe)
                | _ \<Rightarrow> safe)
             else safe)
      in (job, safe))"

definition record_order_intent :: "journal_env \<Rightarrow> string \<Rightarrow> pydict \<Rightarrow> pydict \<Rightarrow> unit jn" where
  "record_order_intent w source payload result = jn_now w (\<lambda>now.
     let r = je_repr w;
         requested_at = requested_at_for_order_intent w now payload;
         created_at = created_at_for_order_intent w payload;
         corr = text_of (get_or_none payload ''correlation_id'');
         (job, safe) = order_payload w payload;
         text = (\<lambda>k. nonempty_text (py_strip (str_or_empty r (get_or_none safe k))));
         oid = (case get_or_none safe ''order_intent_id'' of
                  VNone \<Rightarrow> None | v \<Rightarrow> nonempty_text (py_strip (py_str r v)));
         result_safe = json_safe_dict w result;
         rec = \<lparr>oj_runtime_id = je_runtime_id w, oj_launch_attempt = je_launch_attempt w, oj_source = source,
                oj_requested_at = requested_at, oj_payload = safe, oj_result = Some result_safe,
                oj_correlation_id = corr, oj_created_at = created_at, oj_job_id = job,
                oj_idempotency_key = text ''idempotency_key'', oj_order_intent_id = oid,
                oj_symbol = text ''symbol''\<rparr>;
         line = journal_keys w ''order_intent'' @
           [(''source'', VStr source), (''job_id'', opt_str job),
            (''idempotency_key'', opt_str (text ''idempotency_key'')), (''order_intent_id'', opt_str oid),
            (''symbol'', opt_str (text ''symbol'')), (''payload'', VDict safe), (''result'', VDict result_safe),
            (''requested_at'', VStr (wire_iso w requested_at)),
            (''created_at'', opt_str (map_option (wire_iso w) created_at)), (''correlation_id'', opt_str corr)]
     in journal_entry w (append_order (je_wire w) rec) line True)"

section \<open>One row and one line per record\<close>

lemma file_errors_not_locked [simp]:
  "\<not> sqlite_locked (OtherExc ''OSError'' msg None)" "\<not> sqlite_locked (TypeExc ''TypeError'' msg)"
  by (simp_all add: sqlite_locked_def)

text \<open>One try: all of it, nothing of it, or the rows without the line.\<close>

lemma entry_try:
  assumes "act_then (in_transaction w f)
      (act_then (append_line w line) (act_when printed (act_modify (jn_effect (IntentPrinted line))))) j = (r, j')"
  obtains (failed) e where "r = Inl e" "jn_db j' = jn_db j" "jn_lines j' = jn_lines j"
  | (no_line) e where "r = Inl e" "\<not> sqlite_locked e" "f (jn_db j) = Inr (jn_db j')" "jn_lines j' = jn_lines j"
  | (all) u where "r = Inr u" "f (jn_db j) = Inr (jn_db j')" "jn_lines j' = jn_lines j @ [line]"
proof (cases "je_fault w (jn_trace j)")
  case (Some e)
  then show ?thesis using assms failed by (auto simp: act_run in_transaction_def jn_effect_def)
next
  case None
  show ?thesis
  proof (cases "f (jn_db j)")
    case (Inl e)
    then show ?thesis using assms None failed by (auto simp: act_run in_transaction_def jn_effect_def)
  next
    case (Inr d)
    then have "in_transaction w f j = (Inr (), jn_effect Committed (j\<lparr>jn_db := d\<rparr>))"
      using None by (simp add: in_transaction_def)
    then have "act_then (append_line w line) (act_when printed (act_modify (jn_effect (IntentPrinted line))))
        (jn_effect Committed (j\<lparr>jn_db := d\<rparr>)) = (r, j')"
      using assms by (simp add: act_run(4) [of "in_transaction w f"])
    then show ?thesis
      using Inr no_line all
      by (auto simp: act_run append_line_def jn_effect_def split: if_splits option.splits)
  qed
qed

definition entry_outcome ::
  "(db \<Rightarrow> py_exc + db) \<Rightarrow> pydict \<Rightarrow> journal \<Rightarrow> (py_exc + unit) \<times> journal \<Rightarrow> bool" where
  "entry_outcome f line j out \<longleftrightarrow>
     (case out of
        (Inr u, j') \<Rightarrow> f (jn_db j) = Inr (jn_db j') \<and> jn_lines j' = jn_lines j @ [line]
      | (Inl e, j') \<Rightarrow> jn_db j' \<in> (case f (jn_db j) of Inl e \<Rightarrow> {jn_db j} | Inr d \<Rightarrow> {jn_db j, d}) \<and>
          jn_lines j' = jn_lines j)"

lemma entry_outcome_cong:
  "jn_db j = jn_db k \<Longrightarrow> jn_lines j = jn_lines k \<Longrightarrow> entry_outcome f line j out = entry_outcome f line k out"
  unfolding entry_outcome_def by (simp only:)

lemma retry_outcome:
  "entry_outcome f line j (sqlite_lock_retry n delay_s (act_then (in_transaction w f)
     (act_then (append_line w line) (act_when printed (act_modify (jn_effect (IntentPrinted line)))))) j)"
proof (induction n arbitrary: delay_s j)
  case 0
  let ?op = "act_then (in_transaction w f)
     (act_then (append_line w line) (act_when printed (act_modify (jn_effect (IntentPrinted line)))))"
  obtain r j' where run: "?op j = (r, j')" by (cases "?op j")
  then show ?case
    by (cases rule: entry_try)
      (auto simp: sqlite_lock_retry.simps [of 0] run entry_outcome_def split: sum.split)
next
  case (Suc n)
  let ?op = "act_then (in_transaction w f)
     (act_then (append_line w line) (act_when printed (act_modify (jn_effect (IntentPrinted line)))))"
  obtain r j' where run: "?op j = (r, j')" by (cases "?op j")
  then show ?case
  proof (cases rule: entry_try)
    case (failed e)
    show ?thesis
    proof (cases "sqlite_locked e")
      case True
      have "entry_outcome f line j = entry_outcome f line (jn_effect (Slept delay_s) j')"
        using failed by (intro ext entry_outcome_cong) (simp_all add: jn_effect_def)
      then show ?thesis
        using Suc.IH [of "jn_effect (Slept delay_s) j'" "2 * delay_s"] failed(1) run True
        by (simp add: sqlite_lock_retry.simps [of "Suc n"])
    next
      case False
      then show ?thesis
        using failed run
        by (auto simp: sqlite_lock_retry.simps [of "Suc n"] entry_outcome_def split: sum.split)
    qed
  qed (auto simp: sqlite_lock_retry.simps [of "Suc n"] run entry_outcome_def)
qed

lemma journal_entry_outcome: "entry_outcome f line j (journal_entry w f line printed j)"
  unfolding journal_entry_def with_sqlite_lock_retry_def by (rule retry_outcome)

text \<open>
  C34: a journal record is written exactly once: when the call returns, its transaction was
  applied once and one line appended, however often a locked database made it try again; when it
  raises, no line was appended and the transaction was applied at most once.
\<close>

theorem journal_entry_once: "entry_outcome f line j (journal_entry w f line printed j)"
  by (rule journal_entry_outcome)

section \<open>The journal keeps to its own runtime\<close>

text \<open>The rows of all runtimes but one.\<close>

definition others :: "string \<Rightarrow> db \<Rightarrow> db" where
  "others rid d =
     \<lparr>worker_instances = filter (\<lambda>r. wr_runtime_id r \<noteq> rid) (worker_instances d),
      worker_launch_attempts = filter (\<lambda>r. la_runtime_id r \<noteq> rid) (worker_launch_attempts d),
      worker_heartbeat_observations = filter (\<lambda>r. ho_runtime_id r \<noteq> rid) (worker_heartbeat_observations d),
      worker_events = filter (\<lambda>r. ev_runtime_id r \<noteq> rid) (worker_events d),
      worker_diagnostics = filter (\<lambda>r. dg_runtime_id r \<noteq> rid) (worker_diagnostics d),
      runtime_state_journal = filter (\<lambda>r. sj_runtime_id r \<noteq> rid) (runtime_state_journal d),
      order_intent_journal = filter (\<lambda>r. oj_runtime_id r \<noteq> rid) (order_intent_journal d)\<rparr>"

definition own_tx :: "string \<Rightarrow> (db \<Rightarrow> py_exc + db) \<Rightarrow> bool" where
  "own_tx rid f \<longleftrightarrow> (\<forall>d d'. f d = Inr d' \<longrightarrow> db_ok d \<longrightarrow> db_ok d' \<and> others rid d' = others rid d)"

named_theorems own_intros \<open>transactions that touch one runtime only\<close>

lemma own_txI:
  "(\<And>d d'. f d = Inr d' \<Longrightarrow> db_ok d \<Longrightarrow> db_ok d' \<and> others rid d' = others rid d) \<Longrightarrow> own_tx rid f"
  by (simp add: own_tx_def)

lemma own_seq [own_intros]: "own_tx rid f \<Longrightarrow> own_tx rid g \<Longrightarrow> own_tx rid (\<lambda>d. rbind (f d) g)"
  by (fastforce simp: own_tx_def rbind_eq_Inr)

lemma own_read [own_intros]: "(\<And>x. own_tx rid (h x)) \<Longrightarrow> own_tx rid (\<lambda>d. rbind (q d) (\<lambda>x. h x d))"
  by (fastforce simp: own_tx_def rbind_eq_Inr)

lemma own_keep [own_intros]: "own_tx rid Inr"
  by (simp add: own_tx_def)

lemma own_if [own_intros]: "(b \<Longrightarrow> own_tx rid f) \<Longrightarrow> (\<not> b \<Longrightarrow> own_tx rid g) \<Longrightarrow> own_tx rid (\<lambda>d. if b then f d else g d)"
  by (simp add: own_tx_def)

lemma own_option [own_intros]:
  "own_tx rid f \<Longrightarrow> (\<And>x. own_tx rid (g x)) \<Longrightarrow> own_tx rid (\<lambda>d. case v of None \<Rightarrow> f d | Some x \<Rightarrow> g x d)"
  by (cases v) simp_all

lemma update_where_others:
  "(\<And>r. p r \<Longrightarrow> \<not> q r) \<Longrightarrow> (\<And>r. q (g r) = q r) \<Longrightarrow> filter q (update_where p g rs) = filter q rs"
  by (induction rs) (auto simp: update_where_def)

lemma own_update_state [own_intros]: "own_tx rid (update_state rid st rc n occ obs corr cause)"
proof (rule own_txI)
  fix d d'
  assume run: "update_state rid st rc n occ obs corr cause d = Inr d'" and ok: "db_ok d"
  from run have "others rid d' = others rid d"
    by (rule update_state_shape) (simp add: others_def update_where_others)
  then show "db_ok d' \<and> others rid d' = others rid d" using update_state_ok [OF run ok] by simp
qed

lemma own_record_heartbeat [own_intros]: "own_tx rid (db_record_heartbeat w rid hb obs)"
proof (rule own_txI)
  fix d d'
  assume run: "db_record_heartbeat w rid hb obs d = Inr d'" and ok: "db_ok d"
  from run have "others rid d' = others rid d"
    by (cases rule: record_heartbeat_shape) (simp_all add: others_def update_where_others)
  then show "db_ok d' \<and> others rid d' = others rid d" using record_heartbeat_ok [OF run ok] by simp
qed

lemma own_append_observation [own_intros]: "ho_runtime_id a = rid \<Longrightarrow> own_tx rid (append_observation w a)"
  by (rule own_txI)
     (auto simp: append_observation_ok, auto simp: append_observation_def rbind_eq_Inr others_def)

lemma own_append_event [own_intros]:
  assumes "ev_runtime_id a = rid" and "\<And>new. own_tx rid (h new)"
  shows "own_tx rid (\<lambda>d. rbind (append_event w a d) (\<lambda>(new, d'). h new d'))"
proof (rule own_txI)
  fix d d''
  assume run: "rbind (append_event w a d) (\<lambda>(new, d'). h new d') = Inr d''" and ok: "db_ok d"
  then obtain new d' where first: "append_event w a d = Inr (new, d')" and rest: "h new d' = Inr d''"
    by (auto simp: rbind_eq_Inr)
  have "others rid d' = others rid d"
    using first by (cases rule: event_cases) (auto simp: insert_event_def rbind_eq_Inr others_def assms(1))
  then show "db_ok d'' \<and> others rid d'' = others rid d"
    using assms(2) [of new] append_event_ok [OF first ok] rest by (auto simp: own_tx_def)
qed

lemma own_append_state [own_intros]: "sj_runtime_id a = rid \<Longrightarrow> own_tx rid (append_state w a)"
  by (rule own_txI) (auto simp: append_state_ok, auto simp: append_state_def rbind_eq_Inr others_def)

lemma own_append_order [own_intros]: "oj_runtime_id a = rid \<Longrightarrow> own_tx rid (append_order w a)"
proof (rule own_txI)
  fix d d'
  assume rid: "oj_runtime_id a = rid" and run: "append_order w a d = Inr d'" and ok: "db_ok d"
  obtain requested created payload result where
    "d' = d\<lparr>order_intent_journal := order_intent_journal d @ [order_row a requested created payload result]\<rparr>"
    using run by (auto simp: append_order_def rbind_eq_Inr)
  then have "others rid d' = others rid d" using rid by (simp add: others_def order_row_def)
  then show "db_ok d' \<and> others rid d' = others rid d" using append_order_ok [OF run ok] by simp
qed

lemma own_stub [own_intros]: "own_tx (je_runtime_id w) (ensure_worker_instance_stub w t)"
  by (rule own_txI)
     (auto simp: ensure_worker_instance_stub_def others_def db_ok_def runtimes_def referring_def
        known_runtime_def split: if_splits)

lemma own_transactions:
  "own_tx (je_runtime_id w) (heartbeat_tx w local_state observed_at corr cause)"
  "own_tx (je_runtime_id w) (lifecycle_event_tx w ev payload t st rc)"
  "own_tx (je_runtime_id w) (launch_failed_tx w eid t rcode payload)"
  "sj_runtime_id rec = je_runtime_id w \<Longrightarrow> own_tx (je_runtime_id w) (persist_state_tx w rec)"
  unfolding heartbeat_tx_def lifecycle_event_tx_def launch_failed_tx_def persist_state_tx_def Let_def
  by (intro own_intros | simp)+

datatype journal_record =
    PhaseChange "worker_phase option" worker_phase string "string option"
  | StartupStep string
  | ShutdownStep string
  | FirstData
  | HeartbeatRecord string pydatetime "string option" "string option"
  | LifecycleEvent event_envelope
  | LaunchFailed pydatetime string pydict
  | StopRequested "pydatetime option" "pydatetime option" string pydatetime
  | OrderIntent string pydict pydict

fun journal_call :: "journal_env \<Rightarrow> journal_record \<Rightarrow> unit jn" where
  "journal_call w (PhaseChange prev phase level rc) = record_phase_change w prev phase level rc"
| "journal_call w (StartupStep s) = jn_record_startup_step w s"
| "journal_call w (ShutdownStep s) = jn_record_shutdown_step w s"
| "journal_call w FirstData = record_first_data w"
| "journal_call w (HeartbeatRecord st t corr cause) = record_heartbeat w st t corr cause"
| "journal_call w (LifecycleEvent ev) = record_lifecycle_event w ev"
| "journal_call w (LaunchFailed t rc details) = record_launch_failed_event w t rc details"
| "journal_call w (StopRequested a b cursor t) = record_manager_stop_request w a b cursor t"
| "journal_call w (OrderIntent source payload result) = record_order_intent w source payload result"

text \<open>The callers of the journal go on after a record that raised.\<close>

fun journal_calls :: "journal_env \<Rightarrow> journal_record list \<Rightarrow> journal \<Rightarrow> journal" where
  "journal_calls w [] j = j"
| "journal_calls w (c # cs) j = journal_calls w cs (snd (journal_call w c j))"

definition own_rows_only :: "string \<Rightarrow> journal \<Rightarrow> journal \<Rightarrow> bool" where
  "own_rows_only rid j j' \<longleftrightarrow>
     (if db_ok (jn_db j) then db_ok (jn_db j') \<and> others rid (jn_db j') = others rid (jn_db j) else True)"

interpretation own: step_order "own_rows_only rid"
  by unfold_locales (auto simp: own_rows_only_def split: if_splits)

lemma entry_own: "own_tx rid f \<Longrightarrow> moves (own_rows_only rid) (journal_entry w f line printed)"
  unfolding moves_def
proof
  fix j
  assume tx: "own_tx rid f"
  show "own_rows_only rid j (snd (journal_entry w f line printed j))"
    using journal_entry_outcome [of f line j w printed] tx
    by (cases "journal_entry w f line printed j"; cases "f (jn_db j)")
       (auto simp: entry_outcome_def own_rows_only_def own_tx_def split: sum.splits)
qed

lemma persist_state_own:
  "sj_runtime_id rec = je_runtime_id w \<Longrightarrow> moves (own_rows_only (je_runtime_id w)) (persist_state w rec line)"
  unfolding persist_state_def journal_write_def by (intro entry_own own_transactions)

lemma now_own: "(\<And>t. moves R (m t)) \<Longrightarrow> moves R (jn_now w m)"
  by (simp add: moves_def jn_now_def act_run)

lemma journal_call_own: "moves (own_rows_only (je_runtime_id w)) (journal_call w c)"
proof (cases c)
  case (OrderIntent source payload result)
  then show ?thesis
    by (auto simp: record_order_intent_def Let_def case_prod_beta intro!: now_own entry_own own_intros)
qed (auto simp: record_phase_change_def jn_record_startup_step_def jn_record_shutdown_step_def record_step_def
      record_first_data_def record_heartbeat_def record_lifecycle_event_def record_launch_failed_event_def
      record_manager_stop_request_def state_entry_of_def journal_write_def Let_def
      intro!: now_own persist_state_own entry_own own_transactions)

text \<open>
  C35: on a database that any calls of the repositories have filled, no sequence of journal
  records, whatever faults the engine and the file system have, changes a row of another runtime
  or breaks a constraint of the schema.
\<close>

theorem journal_touches_own_runtime:
  "let j = \<lparr>jn_db = repo_calls wire ps empty_db, jn_lines = ls, jn_trace = tr\<rparr>;
       j' = journal_calls w cs j
   in db_ok (jn_db j') \<and> others (je_runtime_id w) (jn_db j') = others (je_runtime_id w) (jn_db j)"
proof -
  have move: "own_rows_only (je_runtime_id w) j (journal_calls w cs j)" for j
  proof (induction cs arbitrary: j)
    case Nil
    then show ?case by (simp add: own.refl)
  next
    case (Cons c cs)
    then show ?case using movesD [OF journal_call_own [of w c], of j] own.trans by simp
  qed
  have "db_ok (repo_calls wire ps empty_db)"
    by (rule repo_calls_ok) (simp add: db_ok_def empty_db_def runtimes_def referring_def)
  then show ?thesis
    using move [of "\<lparr>jn_db = repo_calls wire ps empty_db, jn_lines = ls, jn_trace = tr\<rparr>"]
    by (simp add: Let_def own_rows_only_def)
qed

section \<open>A recorded phase is the state of the instance\<close>

text \<open>The reason an instance shows.\<close>

definition shown_reason :: "db \<Rightarrow> string \<Rightarrow> string option" where
  "shown_reason d rid = (case instance_states d rid of (st, n, rc) # _ \<Rightarrow> rc | [] \<Rightarrow> None)"

lemma wire_iso_text: "dt_aware t \<Longrightarrow> dt_in_range t \<Longrightarrow> wire_text (wire_iso w t)"
  by (auto simp: wire_text_def wire_iso_def to_wire_ts_def db_require_utc_def wire_timestamp_def)

lemma stub_ready:
  assumes "db_ok d" and "instances_readable d" and "dt_aware t" and "dt_in_range t"
  obtains d' where "ensure_worker_instance_stub w t d = Inr d'" "db_ok d'" "instances_readable d'"
    "known_runtime d' (je_runtime_id w)" "shown_reason d' (je_runtime_id w) = shown_reason d (je_runtime_id w)"
proof -
  obtain d' where d': "ensure_worker_instance_stub w t d = Inr d'"
    by (simp add: ensure_worker_instance_stub_def)
  have ok: "db_ok d'" using own_stub [of w t] d' assms(1) by (simp add: own_tx_def)
  show ?thesis
  proof (cases "known_runtime d (je_runtime_id w)")
    case True
    then show ?thesis using that d' assms by (simp add: ensure_worker_instance_stub_def)
  next
    case False
    then have none: "instance_states d (je_runtime_id w) = []"
      using states_length [OF assms(1), of "je_runtime_id w"] by simp
    show ?thesis
      using False d' ok assms(2) wire_iso_text [OF assms(3,4), of w] none
      by (intro that [of d'])
        (auto simp: ensure_worker_instance_stub_def instances_readable_def instance_readable_def
          known_runtime_def shown_reason_def instance_states_def)
  qed
qed

lemma get_known:
  assumes "db_ok d" and "instances_readable d" and "known_runtime d rid"
  obtains i where "get_by_runtime_id w rid d = Inr (Some i)" "wr_reason_code i = shown_reason d rid"
proof -
  obtain r where r: "filter (\<lambda>r. wr_runtime_id r = rid) (worker_instances d) = [r]"
    using states_length [OF assms(1), of rid] assms(3) by (auto simp: instance_states_def length_Suc_conv)
  then have "r \<in> set (filter (\<lambda>r. wr_runtime_id r = rid) (worker_instances d))" by simp
  then have "instance_readable r" using assms(2) by (simp add: instances_readable_def)
  then obtain i where i: "read_instance w r = Inr i" using read_instance_readable by blast
  then have "wr_reason_code i = wr_reason_code r" by (auto simp: read_instance_def rbind_eq_Inr)
  then show ?thesis
    using r i by (intro that [of i])
      (simp_all add: get_by_runtime_id_def read_first_def shown_reason_def instance_states_def)
qed

lemma phase_tx:
  assumes "db_ok d" and "instances_readable d" and "dt_aware (sj_observed_at rec)" and "dt_in_range (sj_observed_at rec)"
    and "sj_kind rec = ''phase''" and "sj_phase rec = Some st" and "sj_details rec = None"
  obtains d' where "persist_state_tx w rec d = Inr d'"
    "instance_states d' (je_runtime_id w) =
       [(st, je_launch_attempt w, opt_else (sj_reason_code rec) (shown_reason d (je_runtime_id w)))]"
proof -
  let ?rid = "je_runtime_id w" and ?t = "sj_observed_at rec"
  obtain d1 where d1: "ensure_worker_instance_stub w ?t d = Inr d1" "db_ok d1" "instances_readable d1"
      "known_runtime d1 ?rid" "shown_reason d1 ?rid = shown_reason d ?rid"
    by (rule stub_ready [OF assms(1-4)])
  obtain i where i: "get_by_runtime_id (je_wire w) ?rid d1 = Inr (Some i)" "wr_reason_code i = shown_reason d ?rid"
    using get_known [OF d1(2-4), of "je_wire w"] d1(5) by metis
  obtain s where s: "to_wire_ts ?t = Inr s" using assms(3) to_wire_ts_total by blast
  let ?rc = "opt_else (sj_reason_code rec) (shown_reason d ?rid)"
  obtain d2 where d2: "update_state ?rid st ?rc (je_launch_attempt w) ?t ?t (wr_correlation_id i)
      (wr_causation_id i) d1 = Inr d2"
    using s by (simp add: update_state_def)
  obtain r where "filter (\<lambda>r. wr_runtime_id r = ?rid) (worker_instances d1) = [r]"
    using states_length [OF d1(2), of ?rid] d1(4) by (auto simp: instance_states_def length_Suc_conv)
  then have "instance_states d2 ?rid = [(st, je_launch_attempt w, ?rc)]"
    using d2 by (auto elim!: update_state_shape simp: instance_states_def update_where_filter)
  moreover obtain d3 where "append_state (je_wire w) rec d2 = Inr d3" "worker_instances d3 = worker_instances d2"
    using s assms(7) by (simp add: append_state_def to_json_def)
  ultimately show ?thesis
    using d1(1) i d2 assms(5,6)
    by (intro that [of d3]) (simp_all add: persist_state_tx_def Let_def instance_states_def)
qed

text \<open>
  With a working engine and file system a phase change is recorded without error, on any
  readable database, and the instance then shows that phase, this attempt, and the given reason
  or, without one, the reason it showed before.
\<close>

lemma phase_change_recorded:
  assumes "je_fault w = (\<lambda>_. None)" and "je_file_fault w = (\<lambda>_. None)"
    and "db_ok (jn_db j)" and "instances_readable (jn_db j)"
    and "dt_aware (je_now w (jn_trace j))" and "dt_in_range (je_now w (jn_trace j))"
  shows "case record_phase_change w prev phase level rc j of
      (r, j') \<Rightarrow> r = Inr () \<and> length (jn_lines j') = length (jn_lines j) + 1 \<and>
        instance_states (jn_db j') (je_runtime_id w) =
          [(worker_phase_value phase, je_launch_attempt w,
            opt_else rc (shown_reason (jn_db j) (je_runtime_id w)))]"
proof -
  let ?t = "je_now w (jn_trace j)"
  let ?rec = "\<lparr>sj_runtime_id = je_runtime_id w, sj_launch_attempt = je_launch_attempt w, sj_kind = ''phase'',
     sj_observed_at = ?t, sj_phase = Some (worker_phase_value phase),
     sj_previous_phase = map_option worker_phase_value prev, sj_step_name = None, sj_level = Some level,
     sj_reason_code = rc, sj_details = None\<rparr> :: (pydatetime, json) state_entry"
  obtain d' where d': "persist_state_tx w ?rec (jn_db j) = Inr d'" "instance_states d' (je_runtime_id w) =
       [(worker_phase_value phase, je_launch_attempt w, opt_else rc (shown_reason (jn_db j) (je_runtime_id w)))]"
    using phase_tx [OF assms(3,4), of ?rec "worker_phase_value phase" w] assms(5,6) by auto
  show ?thesis
    using d' assms(1,2)
    by (simp add: record_phase_change_def jn_now_def act_run Let_def persist_state_def journal_write_def
        journal_entry_def with_sqlite_lock_retry_def sqlite_lock_retry.simps [of 4] in_transaction_def
        append_line_def journal_keys_def jn_effect_def opt_str_def split: option.split)
qed

definition sample_journal_env :: journal_env where
  "sample_journal_env =
     \<lparr>je_wire = sample_wire, je_runtime_id = ''rt'', je_launch_attempt = 2, je_launch_job_id = None,
      je_now = \<lambda>_. utc 5000000, je_fault = \<lambda>_. None, je_file_fault = \<lambda>_. None, je_repr = \<lambda>_. [],
      je_local_offset = \<lambda>_. 0, je_sha256 = \<lambda>s. s\<rparr>"

theorem phase_change_recorded_witness:
  "case record_phase_change sample_journal_env None WP_READY ''INFO'' None
       \<lparr>jn_db = empty_db, jn_lines = [], jn_trace = []\<rparr> of
     (r, j') \<Rightarrow> r = Inr () \<and>
       length (jn_lines j') = length (jn_lines \<lparr>jn_db = empty_db, jn_lines = [], jn_trace = []\<rparr>) + 1 \<and>
       instance_states (jn_db j') (je_runtime_id sample_journal_env) =
         [(worker_phase_value WP_READY, je_launch_attempt sample_journal_env, opt_else None
            (shown_reason (jn_db \<lparr>jn_db = empty_db, jn_lines = [], jn_trace = []\<rparr>)
              (je_runtime_id sample_journal_env)))]"
  by (rule phase_change_recorded)
     (simp_all add: sample_journal_env_def sample_range db_ok_def empty_db_def runtimes_def referring_def
        instances_readable_def)

end
