(* ===== verification/PyDecimal.thy ===== *)
theory PyDecimal
  imports PyText
begin

text \<open>
  The part of Python's \<open>decimal.Decimal\<close> that order intents use: construction from text, the
  comparison with zero and \<open>str\<close>. A finite number is its sign, coefficient and exponent, so that
  \<open>1.0\<close> and \<open>1\<close> differ as they do in Python. The limits of the C implementation on the exponent
  (about \<open>10 ^ 18\<close>) are left out, and digits are those of ASCII.
\<close>

datatype decimal = DFin bool nat int | DInf bool | DNan bool bool string

definition is_digit :: "char \<Rightarrow> bool" where
  "is_digit c \<longleftrightarrow> 48 \<le> (of_char c :: nat) \<and> (of_char c :: nat) < 58"

text \<open>A sign and the rest of the text.\<close>

definition split_sign :: "string \<Rightarrow> bool \<times> string" where
  "split_sign s =
     (case s of
        [] \<Rightarrow> (False, [])
      | c # cs \<Rightarrow> if c = CHR ''-'' then (True, cs) else if c = CHR ''+'' then (False, cs) else (False, s))"

definition parse_exponent :: "string \<Rightarrow> int option" where
  "parse_exponent s =
     (case split_sign s of (neg, ds) \<Rightarrow>
        if ds \<noteq> [] \<and> list_all is_digit ds
        then Some (if neg then - int (digits_value ds) else int (digits_value ds)) else None)"

definition split_at :: "char \<Rightarrow> string \<Rightarrow> string \<times> string option" where
  "split_at c s = (takeWhile (\<lambda>x. x \<noteq> c) s,
     (case dropWhile (\<lambda>x. x \<noteq> c) s of [] \<Rightarrow> None | x # xs \<Rightarrow> Some xs))"

definition parse_finite :: "bool \<Rightarrow> string \<Rightarrow> decimal option" where
  "parse_finite neg s =
     (case split_at (CHR ''e'') s of (mant, ex) \<Rightarrow>
        (case (case ex of None \<Rightarrow> Some 0 | Some t \<Rightarrow> parse_exponent t) of
           None \<Rightarrow> None
         | Some e \<Rightarrow>
             (case split_at (CHR ''.'') mant of (ip, fp) \<Rightarrow>
                let ds = ip @ or_empty fp
                in if ds \<noteq> [] \<and> list_all is_digit ds
                   then Some (DFin neg (digits_value ds) (e - int (length (or_empty fp)))) else None)))"

text \<open>\<open>Decimal(s)\<close>; \<open>None\<close> is \<open>InvalidOperation\<close> (conversion syntax).\<close>

definition parse_decimal :: "string \<Rightarrow> decimal option" where
  "parse_decimal s0 =
     (case split_sign (py_lower (filter (\<lambda>c. c \<noteq> CHR ''_'') (py_strip s0))) of (neg, s) \<Rightarrow>
        if s = ''inf'' \<or> s = ''infinity'' then Some (DInf neg)
        else if take 3 s = ''nan'' \<and> list_all is_digit (drop 3 s) then Some (DNan neg False (drop 3 s))
        else if take 4 s = ''snan'' \<and> list_all is_digit (drop 4 s) then Some (DNan neg True (drop 4 s))
        else parse_finite neg s)"

definition signed_int :: "int \<Rightarrow> string" where
  "signed_int i = (if i < 0 then int_str i else CHR ''+'' # int_str i)"

text \<open>\<open>str(d)\<close>, in the scientific notation of the specification.\<close>

fun decimal_str :: "decimal \<Rightarrow> string" where
  "decimal_str (DInf neg) = (if neg then ''-Infinity'' else ''Infinity'')"
| "decimal_str (DNan neg sig digs) =
     (if neg then ''-'' else []) @ (if sig then ''sNaN'' else ''NaN'') @ digs"
| "decimal_str (DFin neg c e) =
     (let ds = nat_str c;
          left = e + int (length ds);
          dot = (if e \<le> 0 \<and> left > -6 then left else 1);
          ip = (if dot \<le> 0 then ''0''
                else if int (length ds) \<le> dot then ds @ replicate (nat (dot - int (length ds))) (CHR ''0'')
                else take (nat dot) ds);
          fp = (if dot \<le> 0 then CHR ''.'' # replicate (nat (- dot)) (CHR ''0'') @ ds
                else if int (length ds) \<le> dot then []
                else CHR ''.'' # drop (nat dot) ds)
      in (if neg then ''-'' else []) @ ip @ fp @
         (if left = dot then [] else CHR ''E'' # signed_int (left - dot)))"

text \<open>\<open>d <= 0\<close>; \<open>None\<close> is \<open>InvalidOperation\<close> on a NaN.\<close>

fun decimal_le_zero :: "decimal \<Rightarrow> bool option" where
  "decimal_le_zero (DFin neg c e) = Some (neg \<or> c = 0)"
| "decimal_le_zero (DInf neg) = Some neg"
| "decimal_le_zero (DNan neg sig digs) = None"

section \<open>A number is read back from its text\<close>

lemma digit_chars: "c \<in> set (nat_str n) \<Longrightarrow> is_digit c"
  using nat_str_digits by (simp add: is_digit_def)

lemma digit_not: "is_digit c \<Longrightarrow> c \<noteq> CHR ''e'' \<and> c \<noteq> CHR ''.'' \<and> c \<noteq> CHR ''_'' \<and> c \<noteq> CHR ''-'' \<and> c \<noteq> CHR ''+''"
  by (auto simp: is_digit_def)

lemma digit_simps [simp]:
  "is_digit (CHR ''0'')" "\<not> is_digit (CHR ''e'')" "\<not> is_digit (CHR ''.'')"
  "\<not> is_digit (CHR ''-'')" "\<not> is_digit (CHR ''+'')"
  by (simp_all add: is_digit_def)

lemma not_among_digits: "list_all is_digit s \<Longrightarrow> \<not> is_digit c \<Longrightarrow> c \<notin> set s"
  by (auto simp: list_all_iff)

lemma digit_lower: "is_digit c \<Longrightarrow> lower_char c = c"
  by (simp add: is_digit_def lower_char_def)

lemma digit_space: "is_digit c \<Longrightarrow> \<not> py_isspace c"
  by (auto simp: is_digit_def py_isspace_char)

lemma digits_value_leading_zeros [simp]: "digits_value (replicate k (CHR ''0'') @ ds) = digits_value ds"
  by (induction k) (simp_all add: digits_value_def)

lemma split_at_in: "c \<notin> set a \<Longrightarrow> split_at c (a @ c # b) = (a, Some b)"
  by (auto simp: split_at_def takeWhile_append dropWhile_append)

lemma split_at_out: "c \<notin> set a \<Longrightarrow> split_at c a = (a, None)"
  by (simp add: split_at_def takeWhile_eq_all_conv) (metis (mono_tags, lifting) dropWhile_eq_Nil_conv list.simps(4))

lemma parse_signed_int: "parse_exponent (signed_int i) = Some i"
proof -
  have "list_all is_digit (nat_str n)" for n
    by (auto simp: list_all_iff digit_chars)
  then show ?thesis
    by (auto simp: signed_int_def int_str_def parse_exponent_def split_sign_def)
qed

text \<open>The layout of a finite number: digits, a fraction and an exponent.\<close>

lemma decimal_layout:
  obtains ip fp k where
    "decimal_str (DFin neg c e) = (if neg then ''-'' else []) @ ip @
       (if fp = [] then [] else CHR ''.'' # fp) @ (if k = 0 then [] else CHR ''E'' # signed_int k)"
    "ip \<noteq> []" "list_all is_digit (ip @ fp)" "digits_value (ip @ fp) = c" "k - int (length fp) = e"
proof -
  obtain ds where ds: "ds = nat_str c" "list_all is_digit ds" "digits_value ds = c" "ds \<noteq> []"
    by (auto simp: list_all_iff digit_chars)
  obtain left where left: "left = e + int (length ds)" by simp
  obtain dot where dot: "dot = (if e \<le> 0 \<and> left > -6 then left else 1)" by simp
  have len: "0 < length ds" using ds by simp
  have layout: "decimal_str (DFin neg c e) = (if neg then ''-'' else []) @
      (if dot \<le> 0 then ''0''
       else if int (length ds) \<le> dot then ds @ replicate (nat (dot - int (length ds))) (CHR ''0'')
       else take (nat dot) ds) @
      (if dot \<le> 0 then CHR ''.'' # replicate (nat (- dot)) (CHR ''0'') @ ds
       else if int (length ds) \<le> dot then [] else CHR ''.'' # drop (nat dot) ds) @
      (if left = dot then [] else CHR ''E'' # signed_int (left - dot))"
    unfolding dot left ds(1) by (simp add: Let_def)
  consider (low) "dot \<le> 0" | (high) "0 < dot" "int (length ds) \<le> dot" | (mid) "0 < dot" "dot < int (length ds)"
    by linarith
  then show ?thesis
  proof cases
    case low
    then have "left = dot" by (auto simp: dot split: if_splits)
    moreover have "digits_value (''0'' @ replicate (nat (- dot)) (CHR ''0'') @ ds) = c"
      using digits_value_leading_zeros [of 1 "replicate (nat (- dot)) (CHR ''0'') @ ds"] ds(3) by simp
    moreover have "list_all is_digit (''0'' @ replicate (nat (- dot)) (CHR ''0'') @ ds)"
      using ds(2) by (auto simp: list_all_iff)
    ultimately show ?thesis
      using low ds(4) left
      by (intro that [of "''0''" "replicate (nat (- dot)) (CHR ''0'') @ ds" 0])
         (simp_all add: layout del: decimal_str.simps)
  next
    case high
    then have "dot = int (length ds)"
      using left len by (cases ds) (auto simp: dot split: if_splits)
    then show ?thesis
      using high ds(2-4) left len by (intro that [of ds "[]" "left - dot"]) (simp_all add: layout del: decimal_str.simps)
  next
    case mid
    then show ?thesis
      using ds(2-4) left
      by (intro that [of "take (nat dot) ds" "drop (nat dot) ds" "left - dot"])
         (simp_all add: layout del: decimal_str.simps flip: append_assoc)
  qed
qed

lemma split_mantissa:
  assumes "list_all is_digit (ip @ fp)"
  shows "split_at (CHR ''.'') (ip @ (if fp = [] then [] else CHR ''.'' # fp)) =
           (ip, if fp = [] then None else Some fp)"
  using assms split_at_in [of "CHR ''.''" ip fp] split_at_out [of "CHR ''.''" ip]
  by (auto simp: not_among_digits)

lemma parse_finite_layout:
  assumes "list_all is_digit (ip @ fp)" "ip \<noteq> []"
  shows "parse_finite neg (ip @ (if fp = [] then [] else CHR ''.'' # fp) @
            (if k = 0 then [] else CHR ''e'' # signed_int k)) =
         Some (DFin neg (digits_value (ip @ fp)) (k - int (length fp)))"
proof -
  let ?m = "ip @ (if fp = [] then [] else CHR ''.'' # fp)"
  have no_e: "CHR ''e'' \<notin> set ?m"
    using assms(1) by (auto simp: not_among_digits)
  have "split_at (CHR ''e'') (?m @ (if k = 0 then [] else CHR ''e'' # signed_int k)) =
      (?m, if k = 0 then None else Some (signed_int k))"
    using split_at_in [OF no_e, of "signed_int k"] split_at_out [OF no_e] by (cases "k = 0") simp_all
  then show ?thesis
    using assms split_mantissa [OF assms(1)]
    by (cases "k = 0"; cases "fp = []") (simp_all add: parse_finite_def parse_signed_int)
qed

text \<open>Characters that preparing a text for parsing leaves alone.\<close>

definition plain_char :: "char \<Rightarrow> bool" where
  "plain_char c \<longleftrightarrow> \<not> py_isspace c \<and> c \<noteq> CHR ''_''"

lemma plain_text:
  assumes "list_all plain_char s"
  shows "py_strip s = s" "filter (\<lambda>c. c \<noteq> CHR ''_'') s = s"
proof -
  have plain: "\<not> py_isspace c \<and> c \<noteq> CHR ''_''" if "c \<in> set s" for c
    using assms that by (auto simp: list_all_iff plain_char_def)
  show "py_strip s = s"
    using plain by (cases "s = []") (simp_all add: py_strip_fixed)
  show "filter (\<lambda>c. c \<noteq> CHR ''_'') s = s"
    using plain by (auto simp: filter_id_conv)
qed

lemma digit_plain: "is_digit c \<Longrightarrow> plain_char c"
  using digit_space digit_not by (simp add: plain_char_def)

lemma plain_simps [simp]:
  "plain_char (CHR ''e'')" "plain_char (CHR ''E'')" "plain_char (CHR ''.'')" "plain_char (CHR ''-'')"
  "plain_char (CHR ''+'')"
  by (simp_all add: plain_char_def py_isspace_char)

lemma lower_simps [simp]: "lower_char (CHR ''E'') = CHR ''e''" "lower_char (CHR ''-'') = CHR ''-''"
    "lower_char (CHR ''+'') = CHR ''+''" "lower_char (CHR ''.'') = CHR ''.''"
  by code_simp+

lemma lower_digits: "list_all is_digit s \<Longrightarrow> py_lower s = s"
  by (auto simp: py_lower_def list_all_iff digit_lower intro: map_idI)

lemma signed_int_chars: "list_all plain_char (signed_int i)" "py_lower (signed_int i) = signed_int i"
proof -
  have ds: "list_all is_digit (nat_str n)" for n
    by (auto simp: list_all_iff digit_chars)
  then have "list_all plain_char (nat_str n)" for n
    using digit_plain by (auto simp: list_all_iff)
  then show "list_all plain_char (signed_int i)"
    by (simp add: signed_int_def int_str_def)
  show "py_lower (signed_int i) = signed_int i"
    using lower_digits [OF ds] by (simp add: signed_int_def int_str_def py_lower_def)
qed

lemma decimal_finite_roundtrip: "parse_decimal (decimal_str (DFin neg c e)) = Some (DFin neg c e)"
proof -
  obtain ip fp k where
    s: "decimal_str (DFin neg c e) = (if neg then ''-'' else []) @ ip @
       (if fp = [] then [] else CHR ''.'' # fp) @ (if k = 0 then [] else CHR ''E'' # signed_int k)"
    and ip: "ip \<noteq> []" "list_all is_digit (ip @ fp)" "digits_value (ip @ fp) = c" "k - int (length fp) = e"
    by (rule decimal_layout [of neg c e])
  obtain body where body: "body = ip @ (if fp = [] then [] else CHR ''.'' # fp) @
      (if k = 0 then [] else CHR ''e'' # signed_int k)" by simp
  have "list_all plain_char (decimal_str (DFin neg c e))"
    using ip(2) digit_plain signed_int_chars(1) unfolding s by (auto simp: list_all_iff)
  moreover have "py_lower (decimal_str (DFin neg c e)) = (if neg then ''-'' else []) @ body"
    using ip(2) lower_digits [of ip] lower_digits [of fp] signed_int_chars(2)
    unfolding s body by (simp add: py_lower_def)
  moreover obtain x xs where x: "ip = x # xs" "is_digit x"
    using ip(1,2) by (cases ip) auto
  moreover have "split_sign ((if neg then ''-'' else []) @ body) = (neg, body)"
    using x digit_not by (auto simp: split_sign_def body)
  moreover have "parse_finite neg body = Some (DFin neg c e)"
    using parse_finite_layout [OF ip(2,1), of neg k] ip(3,4) by (simp add: body)
  moreover have "take (Suc n) body \<noteq> CHR ''n'' # t" "take (Suc n) body \<noteq> CHR ''s'' # t" "body \<noteq> CHR ''i'' # t" for n t
    using x by (auto simp: body is_digit_def)
  ultimately show ?thesis
    by (simp add: parse_decimal_def plain_text numeral_3_eq_3 eval_nat_numeral)
qed

end
