(* ===== verification/OrderIntent.thy ===== *)
theory OrderIntent
  imports Identity PyDecimal
begin

text \<open>
  \<open>runtime/domain/order_intent.py\<close>: the order a strategy asks for, as a frozen dataclass whose
  construction normalises and checks it. The arguments carry the declared types of the fields
  (the three enumerations are \<open>str\<close> subclasses, hence texts); where the code tests the type of a
  value the argument is a dynamic one. \<open>r\<close> is the text of floats and instants.
\<close>

datatype order_number = DecimalNumber decimal | Number pyval

record order_intent_args =
  oa_idempotency_key :: string
  oa_runtime_id :: string
  oa_strategy_version_id :: string
  oa_mode :: string
  oa_instrument_id :: string
  oa_side :: string
  oa_order_type :: string
  oa_quantity :: order_number
  oa_limit_price :: "order_number option"
  oa_stop_price :: "order_number option"
  oa_time_in_force :: "string option"
  oa_correlation_id :: "string option"
  oa_causation_id :: "string option"
  oa_created_at :: pyval
  oa_requested_at :: pyval
  oa_order_intent_id :: pyval

record order_intent =
  oi_idempotency_key :: string
  oi_runtime_id :: string
  oi_strategy_version_id :: string
  oi_mode :: runtime_mode
  oi_instrument_id :: string
  oi_side :: order_intent_side
  oi_order_type :: order_intent_type
  oi_quantity :: decimal
  oi_limit_price :: "decimal option"
  oi_stop_price :: "decimal option"
  oi_time_in_force :: "string option"
  oi_correlation_id :: "string option"
  oi_causation_id :: "string option"
  oi_created_at :: "pydatetime option"
  oi_requested_at :: "pydatetime option"
  oi_order_intent_id :: "string option"

definition oi_require_non_empty :: "string \<Rightarrow> string \<Rightarrow> py_exc + string" where
  "oi_require_non_empty = require_non_empty OrderIntentValidationError"

definition oi_normalize_optional :: "string option \<Rightarrow> string \<Rightarrow> py_exc + string option" where
  "oi_normalize_optional = normalize_optional OrderIntentValidationError"

definition oi_to_decimal :: "(pyval \<Rightarrow> string) \<Rightarrow> order_number \<Rightarrow> string \<Rightarrow> py_exc + decimal" where
  "oi_to_decimal r value field_name =
     (case value of
        DecimalNumber d \<Rightarrow> Inr d
      | Number v \<Rightarrow>
          (case parse_decimal (py_str r v) of
             None \<Rightarrow> Inl (OrderIntentValidationError field_name ''invalid_decimal'')
           | Some d \<Rightarrow> Inr d))"

text \<open>A number that has to be above zero; comparing a NaN raises.\<close>

definition positive_number ::
  "(pyval \<Rightarrow> string) \<Rightarrow> order_number \<Rightarrow> string \<Rightarrow> string \<Rightarrow> py_exc + decimal" where
  "positive_number r value field_name reason =
     rbind (oi_to_decimal r value field_name) (\<lambda>d.
       case decimal_le_zero d of
         None \<Rightarrow> Inl (OtherExc ''InvalidOperation'' ''[<class decimal.InvalidOperation>]'' None)
       | Some True \<Rightarrow> Inl (OrderIntentValidationError field_name reason)
       | Some False \<Rightarrow> Inr d)"

definition optional_price ::
  "(pyval \<Rightarrow> string) \<Rightarrow> order_number option \<Rightarrow> string \<Rightarrow> py_exc + decimal option" where
  "optional_price r value field_name =
     (case value of
        None \<Rightarrow> Inr None
      | Some v \<Rightarrow> rbind (positive_number r v field_name ''must_be_positive_when_provided'') (\<lambda>d. Inr (Some d)))"

definition required_prices ::
  "order_intent_type \<Rightarrow> decimal option \<Rightarrow> decimal option \<Rightarrow> py_exc + unit" where
  "required_prices order_type limit_price stop_price =
     (if order_type = OT_LIMIT \<and> limit_price = None
      then Inl (OrderIntentValidationError ''limit_price'' ''required_for_limit_order'')
      else if order_type = OT_STOP \<and> stop_price = None
      then Inl (OrderIntentValidationError ''stop_price'' ''required_for_stop_order'')
      else if order_type = OT_STOP_LIMIT \<and> (stop_price = None \<or> limit_price = None)
      then Inl (OrderIntentValidationError ''prices'' ''limit_and_stop_prices_required_for_stop_limit_order'')
      else Inr ())"

definition optional_time :: "pyval \<Rightarrow> string \<Rightarrow> py_exc + pydatetime option" where
  "optional_time v field_name =
     (case v of
        VNone \<Rightarrow> Inr None
      | VTime t \<Rightarrow> Inr (Some t)
      | _ \<Rightarrow> Inl (OrderIntentValidationError field_name ''must_be_datetime_or_none''))"

text \<open>A bool is an \<open>int\<close> to \<open>isinstance\<close>.\<close>

definition intent_id :: "pyval \<Rightarrow> py_exc + string option" where
  "intent_id v =
     (case v of
        VNone \<Rightarrow> Inr None
      | VInt i \<Rightarrow> Inr (Some (int_str i))
      | VBool b \<Rightarrow> Inr (Some (if b then ''True'' else ''False''))
      | VStr s \<Rightarrow>
          if py_strip s = []
          then Inl (OrderIntentValidationError ''order_intent_id'' ''must_be_non_empty_string_when_provided'')
          else Inr (Some (py_strip s))
      | _ \<Rightarrow> Inl (OrderIntentValidationError ''order_intent_id'' ''must_be_non_empty_string_when_provided''))"

definition parse_or :: "py_exc \<Rightarrow> 'e option \<Rightarrow> py_exc + 'e" where
  "parse_or e x = (case x of None \<Rightarrow> Inl e | Some m \<Rightarrow> Inr m)"

definition make_order_intent :: "(pyval \<Rightarrow> string) \<Rightarrow> order_intent_args \<Rightarrow> py_exc + order_intent" where
  "make_order_intent r a =
     rbind (oi_require_non_empty (oa_idempotency_key a) ''idempotency_key'') (\<lambda>key.
     rbind (oi_require_non_empty (oa_runtime_id a) ''runtime_id'') (\<lambda>runtime.
     rbind (oi_require_non_empty (oa_strategy_version_id a) ''strategy_version_id'') (\<lambda>version.
     rbind (oi_require_non_empty (oa_instrument_id a) ''instrument_id'') (\<lambda>instrument.
     rbind (oi_normalize_optional (oa_time_in_force a) ''time_in_force'') (\<lambda>tif.
     rbind (oi_normalize_optional (oa_correlation_id a) ''correlation_id'') (\<lambda>corr.
     rbind (oi_normalize_optional (oa_causation_id a) ''causation_id'') (\<lambda>cause.
     rbind (parse_or (UnsupportedModeError (oa_mode a) ''invalid_mode'')
             (enum_parse all_runtime_mode runtime_mode_value (oa_mode a))) (\<lambda>mode.
     rbind (parse_or (OrderIntentValidationError ''side'' ''invalid_side'')
             (enum_parse all_order_intent_side order_intent_side_value (oa_side a))) (\<lambda>side.
     rbind (parse_or (OrderIntentValidationError ''order_type'' ''invalid_order_type'')
             (enum_parse all_order_intent_type order_intent_type_value (oa_order_type a))) (\<lambda>order_type.
     rbind (positive_number r (oa_quantity a) ''quantity'' ''must_be_positive'') (\<lambda>qty.
     rbind (optional_price r (oa_limit_price a) ''limit_price'') (\<lambda>limit_price.
     rbind (optional_price r (oa_stop_price a) ''stop_price'') (\<lambda>stop_price.
     rbind (required_prices order_type limit_price stop_price) (\<lambda>_.
     rbind (optional_time (oa_created_at a) ''created_at'') (\<lambda>created.
     rbind (optional_time (oa_requested_at a) ''requested_at'') (\<lambda>requested.
     rbind (intent_id (oa_order_intent_id a)) (\<lambda>oid.
       Inr \<lparr>oi_idempotency_key = key, oi_runtime_id = runtime, oi_strategy_version_id = version,
            oi_mode = mode, oi_instrument_id = instrument, oi_side = side, oi_order_type = order_type,
            oi_quantity = qty, oi_limit_price = limit_price, oi_stop_price = stop_price,
            oi_time_in_force = tif, oi_correlation_id = corr, oi_causation_id = cause,
            oi_created_at = created, oi_requested_at = requested, oi_order_intent_id = oid\<rparr>)))))))))))))))))"

definition opt_entry :: "string \<Rightarrow> pyval option \<Rightarrow> pydict" where
  "opt_entry k v = (case v of None \<Rightarrow> [] | Some x \<Rightarrow> [(k, x)])"

definition order_intent_to_dict :: "order_intent \<Rightarrow> pydict" where
  "order_intent_to_dict o' =
     [(''idempotency_key'', VStr (oi_idempotency_key o')),
      (''runtime_id'', VStr (oi_runtime_id o')),
      (''strategy_version_id'', VStr (oi_strategy_version_id o')),
      (''mode'', VStr (runtime_mode_value (oi_mode o'))),
      (''instrument_id'', VStr (oi_instrument_id o')),
      (''side'', VStr (order_intent_side_value (oi_side o'))),
      (''order_type'', VStr (order_intent_type_value (oi_order_type o'))),
      (''quantity'', VStr (decimal_str (oi_quantity o'))),
      (''limit_price'', opt_str (map_option decimal_str (oi_limit_price o'))),
      (''stop_price'', opt_str (map_option decimal_str (oi_stop_price o'))),
      (''time_in_force'', opt_str (oi_time_in_force o')),
      (''correlation_id'', opt_str (oi_correlation_id o')),
      (''causation_id'', opt_str (oi_causation_id o'))] @
     opt_entry ''created_at'' (map_option VTime (oi_created_at o')) @
     opt_entry ''requested_at'' (map_option VTime (oi_requested_at o')) @
     opt_entry ''order_intent_id'' (map_option VStr (oi_order_intent_id o'))"

section \<open>What an accepted intent looks like\<close>

definition positive :: "decimal \<Rightarrow> bool" where
  "positive d \<longleftrightarrow> decimal_le_zero d = Some False"

definition prices_match :: "order_intent_type \<Rightarrow> decimal option \<Rightarrow> decimal option \<Rightarrow> bool" where
  "prices_match ty limit_price stop_price \<longleftrightarrow>
     (case ty of
        OT_MARKET \<Rightarrow> True
      | OT_LIMIT \<Rightarrow> limit_price \<noteq> None
      | OT_STOP \<Rightarrow> stop_price \<noteq> None
      | OT_STOP_LIMIT \<Rightarrow> limit_price \<noteq> None \<and> stop_price \<noteq> None)"

definition order_wf :: "order_intent \<Rightarrow> bool" where
  "order_wf o' \<longleftrightarrow>
     clean (oi_idempotency_key o') \<and> clean (oi_runtime_id o') \<and> clean (oi_strategy_version_id o') \<and>
     clean (oi_instrument_id o') \<and> clean_opt (oi_time_in_force o') \<and> clean_opt (oi_correlation_id o') \<and>
     clean_opt (oi_causation_id o') \<and> positive (oi_quantity o') \<and>
     pred_option positive (oi_limit_price o') \<and> pred_option positive (oi_stop_price o') \<and>
     prices_match (oi_order_type o') (oi_limit_price o') (oi_stop_price o') \<and>
     clean_opt (oi_order_intent_id o')"

text \<open>\<open>OrderIntent(**d)\<close> for a dictionary with the keys of \<open>to_dict\<close>.\<close>

fun text_value :: "pyval \<Rightarrow> string" where
  "text_value (VStr s) = s"
| "text_value v = []"

fun opt_text_value :: "pyval \<Rightarrow> string option" where
  "opt_text_value (VStr s) = Some s"
| "opt_text_value v = None"

fun opt_number :: "pyval \<Rightarrow> order_number option" where
  "opt_number VNone = None"
| "opt_number v = Some (Number v)"

definition order_intent_kwargs :: "pydict \<Rightarrow> order_intent_args" where
  "order_intent_kwargs d =
     (let t = (\<lambda>k. text_value (get_or_none d k)); x = (\<lambda>k. opt_text_value (get_or_none d k)) in
      \<lparr>oa_idempotency_key = t ''idempotency_key'', oa_runtime_id = t ''runtime_id'',
       oa_strategy_version_id = t ''strategy_version_id'', oa_mode = t ''mode'',
       oa_instrument_id = t ''instrument_id'', oa_side = t ''side'', oa_order_type = t ''order_type'',
       oa_quantity = Number (get_or_none d ''quantity''),
       oa_limit_price = opt_number (get_or_none d ''limit_price''),
       oa_stop_price = opt_number (get_or_none d ''stop_price''),
       oa_time_in_force = x ''time_in_force'', oa_correlation_id = x ''correlation_id'',
       oa_causation_id = x ''causation_id'', oa_created_at = get_or_none d ''created_at'',
       oa_requested_at = get_or_none d ''requested_at'',
       oa_order_intent_id = get_or_none d ''order_intent_id''\<rparr>)"

interpretation order_text: text_fields oi_require_non_empty oi_normalize_optional
  by unfold_locales (simp_all add: oi_require_non_empty_def oi_normalize_optional_def helpers_ok)

lemma positive_text: "positive d \<Longrightarrow> parse_decimal (decimal_str d) = Some d"
proof (cases d)
  case (DInf neg)
  assume "positive d"
  then have "d = DInf False" using DInf by (simp add: positive_def)
  moreover have "parse_decimal ''Infinity'' = Some (DInf False)" by code_simp
  ultimately show ?thesis by simp
qed (simp_all add: positive_def decimal_finite_roundtrip del: decimal_str.simps)

lemma positive_number_ok:
  "positive_number r v f why = Inr d \<Longrightarrow> positive d"
  "positive d \<Longrightarrow> positive_number r (Number (VStr (decimal_str d))) f why = Inr d"
  by (auto simp: positive_number_def positive_def result_simps oi_to_decimal_def positive_text
      split: option.splits bool.splits simp del: decimal_str.simps)

lemma optional_price_ok:
  "optional_price r v f = Inr x \<Longrightarrow> pred_option positive x"
  "pred_option positive x \<Longrightarrow> optional_price r (opt_number (opt_str (map_option decimal_str x))) f = Inr x"
  by (auto simp: optional_price_def result_simps positive_number_ok opt_str_def
      split: option.splits simp del: decimal_str.simps dest: positive_number_ok(1))

lemma required_prices_ok: "required_prices ty lp sp = Inr u \<longleftrightarrow> prices_match ty lp sp"
  by (cases ty) (auto simp: required_prices_def prices_match_def)

lemma int_str_clean: "clean (int_str i)"
proof -
  have "\<not> py_isspace (hd (nat_str n)) \<and> \<not> py_isspace (last (nat_str n))" for n
    using digit_space [OF digit_chars [OF hd_in_set]] digit_space [OF digit_chars [OF last_in_set]]
    by simp
  then show ?thesis
    unfolding clean_def int_str_def by (auto intro!: py_strip_fixed simp: py_isspace_char)
qed

lemma intent_id_ok:
  assumes "intent_id v = Inr x"
  shows "clean_opt x"
proof -
  have "clean ''True''" "clean ''False''" by code_simp+
  then have "x = None \<or> (\<exists>s. x = Some s \<and> clean s)"
    using assms clean_strip int_str_clean
    by (cases v) (auto simp: intent_id_def blank_def simp del: clean_simps split: if_splits)
  then show ?thesis by (auto simp: clean_opt_def)
qed

lemma intent_id_fixed: "clean_opt x \<Longrightarrow> intent_id (opt_str x) = Inr x"
  by (cases x) (simp_all add: intent_id_def opt_str_def)

definition opt_time :: "pydatetime option \<Rightarrow> pyval" where
  "opt_time x = (case x of None \<Rightarrow> VNone | Some t \<Rightarrow> VTime t)"

lemma optional_time_fixed: "optional_time (opt_time x) f = Inr x"
  by (cases x) (simp_all add: optional_time_def opt_time_def)

lemma opt_text_value_opt_str [simp]: "opt_text_value (opt_str x) = x"
  by (cases x) (simp_all add: opt_str_def)

lemma dict_of_intent:
  "get_or_none (order_intent_to_dict o') ''created_at'' =
     opt_time (oi_created_at o')"
  "get_or_none (order_intent_to_dict o') ''requested_at'' =
     opt_time (oi_requested_at o')"
  "get_or_none (order_intent_to_dict o') ''order_intent_id'' = opt_str (oi_order_intent_id o')"
  by (cases "oi_created_at o'"; cases "oi_requested_at o'"; cases "oi_order_intent_id o'";
      simp add: order_intent_to_dict_def get_or_none_def opt_entry_def opt_str_def opt_time_def)+

lemma kwargs_of_dict:
  "order_intent_kwargs (order_intent_to_dict o') =
     \<lparr>oa_idempotency_key = oi_idempotency_key o', oa_runtime_id = oi_runtime_id o',
      oa_strategy_version_id = oi_strategy_version_id o', oa_mode = runtime_mode_value (oi_mode o'),
      oa_instrument_id = oi_instrument_id o', oa_side = order_intent_side_value (oi_side o'),
      oa_order_type = order_intent_type_value (oi_order_type o'),
      oa_quantity = Number (VStr (decimal_str (oi_quantity o'))),
      oa_limit_price = opt_number (opt_str (map_option decimal_str (oi_limit_price o'))),
      oa_stop_price = opt_number (opt_str (map_option decimal_str (oi_stop_price o'))),
      oa_time_in_force = oi_time_in_force o', oa_correlation_id = oi_correlation_id o',
      oa_causation_id = oi_causation_id o',
      oa_created_at = opt_time (oi_created_at o'),
      oa_requested_at = opt_time (oi_requested_at o'),
      oa_order_intent_id = opt_str (oi_order_intent_id o')\<rparr>"
  unfolding order_intent_kwargs_def Let_def dict_of_intent
  by (simp add: order_intent_to_dict_def get_or_none_def)

lemmas accepted_parts = order_text.req_clean order_text.opt_clean positive_number_ok(1) optional_price_ok(1)
  intent_id_ok required_prices_ok [THEN iffD1]

lemma accepted_intent_wf: "make_order_intent r a = Inr o' \<Longrightarrow> order_wf o'"
  unfolding make_order_intent_def rbind_eq_Inr
  by (elim exE conjE, (drule accepted_parts)+, simp only: sum.inject)
     (clarsimp simp: order_wf_def simp del: clean_simps)

lemma wf_intent_rebuilt:
  assumes "order_wf o'"
  shows "make_order_intent r (order_intent_kwargs (order_intent_to_dict o')) = Inr o'"
  using assms unfolding order_wf_def kwargs_of_dict make_order_intent_def
  by (simp add: order_text.req_fixed order_text.opt_fixed mode_enum.parse_value side_enum.parse_value
      order_type_enum.parse_value parse_or_def positive_number_ok optional_price_ok required_prices_ok [where u = "()", THEN iffD2]
      optional_time_fixed intent_id_fixed del: clean_simps)

text \<open>
  C33: an order intent that is accepted is well formed: its texts are stripped and not empty, its
  quantity and prices are above zero and the prices its type needs are there; and building an
  intent from the dictionary it is sent as gives the same intent, whatever accepted texts,
  numbers and decimals the first one was built from.
\<close>

theorem accepted_intent_roundtrip:
  assumes "make_order_intent r a = Inr o'"
  shows "order_wf o' \<and> make_order_intent r (order_intent_kwargs (order_intent_to_dict o')) = Inr o'"
  using accepted_intent_wf [OF assms] wf_intent_rebuilt by blast

definition sample_order_args :: order_intent_args where
  "sample_order_args =
     \<lparr>oa_idempotency_key = '' k-1 '', oa_runtime_id = ''rt'', oa_strategy_version_id = ''v1'',
      oa_mode = ''PAPER'', oa_instrument_id = ''AAPL'', oa_side = ''BUY'', oa_order_type = ''LIMIT'',
      oa_quantity = Number (VInt 10), oa_limit_price = Some (Number (VStr ''1.50'')),
      oa_stop_price = None, oa_time_in_force = Some ''DAY'', oa_correlation_id = None,
      oa_causation_id = None, oa_created_at = VNone, oa_requested_at = VTime (utc 0),
      oa_order_intent_id = VInt 7\<rparr>"

definition sample_order :: order_intent where
  "sample_order =
     \<lparr>oi_idempotency_key = ''k-1'', oi_runtime_id = ''rt'', oi_strategy_version_id = ''v1'',
      oi_mode = PAPER, oi_instrument_id = ''AAPL'', oi_side = BUY, oi_order_type = OT_LIMIT,
      oi_quantity = DFin False 10 0, oi_limit_price = Some (DFin False 150 (-2)),
      oi_stop_price = None, oi_time_in_force = Some ''DAY'', oi_correlation_id = None,
      oi_causation_id = None, oi_created_at = None, oi_requested_at = Some (utc 0),
      oi_order_intent_id = Some ''7''\<rparr>"

lemma sample_order_made: "make_order_intent (\<lambda>v. []) sample_order_args = Inr sample_order"
  by code_simp

lemma accepted_intent_roundtrip_witness:
  "make_order_intent (\<lambda>v. []) sample_order_args = Inr sample_order \<and> order_wf sample_order \<and>
   make_order_intent (\<lambda>v. []) (order_intent_kwargs (order_intent_to_dict sample_order)) = Inr sample_order"
  using accepted_intent_roundtrip [OF sample_order_made] sample_order_made by blast

text \<open>The exceptions of a refused intent: domain errors, and \<open>InvalidOperation\<close> for a NaN only.\<close>

fun number_is_nan :: "(pyval \<Rightarrow> string) \<Rightarrow> order_number \<Rightarrow> bool" where
  "number_is_nan r (DecimalNumber d) = (decimal_le_zero d = None)"
| "number_is_nan r (Number v) = (case parse_decimal (py_str r v) of None \<Rightarrow> False | Some d \<Rightarrow> decimal_le_zero d = None)"

definition domain_error :: "py_exc \<Rightarrow> bool" where
  "domain_error e \<longleftrightarrow> (case e of DomainExc ty code msg b d \<Rightarrow> True | _ \<Rightarrow> False)"

lemma positive_number_error:
  "positive_number r v f why = Inl e \<Longrightarrow> domain_error e \<or> number_is_nan r v"
  by (cases v) (auto simp: positive_number_def result_simps oi_to_decimal_def domain_error_def
      OrderIntentValidationError_def split: option.splits bool.splits)

lemma optional_price_error:
  "optional_price r v f = Inl e \<Longrightarrow> domain_error e \<or> pred_option (number_is_nan r) v \<and> v \<noteq> None"
  by (cases v) (auto simp: optional_price_def result_simps dest: positive_number_error)

lemma text_error:
  "oi_require_non_empty v f = Inl e \<Longrightarrow> domain_error e" "oi_normalize_optional x f = Inl e \<Longrightarrow> domain_error e"
  "optional_time t f = Inl e \<Longrightarrow> domain_error e" "intent_id t = Inl e \<Longrightarrow> domain_error e"
  "required_prices ty lp sp = Inl e \<Longrightarrow> domain_error e"
  by (auto simp: oi_require_non_empty_def require_non_empty_def oi_normalize_optional_def normalize_optional_def
      optional_time_def intent_id_def required_prices_def domain_error_def OrderIntentValidationError_def Let_def
      split: option.splits if_splits pyval.splits)

lemma parse_error: "domain_error e' \<Longrightarrow> parse_or e' x = Inl e \<Longrightarrow> domain_error e"
  by (cases x) (auto simp: parse_or_def)

lemma refused_intent_error:
  "make_order_intent r a = Inl e \<Longrightarrow>
     domain_error e \<or> number_is_nan r (oa_quantity a) \<or>
     (\<exists>x. oa_limit_price a = Some x \<and> number_is_nan r x) \<or> (\<exists>x. oa_stop_price a = Some x \<and> number_is_nan r x)"
proof -
  have "domain_error (UnsupportedModeError m why)" "domain_error (OrderIntentValidationError m why)" for m why
    by (simp_all add: domain_error_def UnsupportedModeError_def OrderIntentValidationError_def)
  note errors = text_error parse_error [OF this(1)] parse_error [OF this(2)] positive_number_error
  assume "make_order_intent r a = Inl e"
  then show ?thesis
    unfolding make_order_intent_def rbind_eq_Inl
    by (elim disjE exE conjE) (auto dest: errors optional_price_error)
qed

end
