(* ===== verification/OmsClient.thy ===== *)
theory OmsClient
  imports OrderIntent Action
begin

text \<open>
  \<open>runtime/transport/grpc/oms_client.py\<close>: the mapping of order intents onto the messages of
  \<open>risk_worker.proto\<close>, what is printed of them, and the gRPC client. The world keeps the effects
  in order and how often the clock and the random source were read; what the outside answers is a
  function of the effects so far. Arguments are \<open>str\<close> of floats, instants and objects, the local
  time zone, \<open>datetime.fromisoformat\<close>, \<open>int\<close> of a text, the reading of a text field by protobuf and
  the answers of the stub.
\<close>

section \<open>Messages\<close>

record common_metadata =
  cm_correlation_id :: string
  cm_causation_id :: string
  cm_tenant_id :: string
  cm_account_id :: string
  cm_runtime_id :: string
  cm_worker_identity :: string
  cm_launch_attempt :: int
  cm_strategy_version_id :: string
  cm_job_id :: string
  cm_deployment_id :: string

record submit_request =
  sq_correlation_id :: string
  sq_account_id :: string
  sq_mode :: runtime_mode
  sq_instrument_id :: string
  sq_side :: string
  sq_order_type :: string
  sq_quantity :: string
  sq_limit_price :: string
  sq_stop_price :: string
  sq_time_in_force :: string
  sq_idempotency_key :: string
  sq_requested_at :: int
  sq_job_id :: string
  sq_order_intent_id :: string
  sq_symbol :: string
  sq_created_at :: "int option"
  sq_extension :: "common_metadata option"

text \<open>Replace and cancel; a cancel has neither quantity nor order type.\<close>

record change_request =
  cq_correlation_id :: string
  cq_account_id :: string
  cq_job_id :: string
  cq_target_oms_order_id :: string
  cq_idempotency_key :: string
  cq_requested_at :: int
  cq_mode :: runtime_mode
  cq_order_intent_id :: string
  cq_quantity :: string
  cq_order_type :: string
  cq_created_at :: "int option"
  cq_extension :: "common_metadata option"

datatype oms_request = SubmitOrderIntent submit_request
  | SubmitReplaceOrderIntent change_request | SubmitCancelOrderIntent change_request

datatype grpc_status = GS_CANCELLED | GS_UNKNOWN | GS_INVALID_ARGUMENT | GS_DEADLINE_EXCEEDED
  | GS_NOT_FOUND | GS_ALREADY_EXISTS | GS_PERMISSION_DENIED | GS_RESOURCE_EXHAUSTED
  | GS_FAILED_PRECONDITION | GS_ABORTED | GS_OUT_OF_RANGE | GS_UNIMPLEMENTED | GS_INTERNAL
  | GS_UNAVAILABLE | GS_DATA_LOSS | GS_UNAUTHENTICATED

record intent_ack =
  ak_accepted :: bool
  ak_status :: int
  ak_order_id :: string
  ak_state :: string
  ak_reason_code :: string
  ak_error_code :: string

datatype rpc_answer = Acked intent_ack | RpcError grpc_status | RpcRaised py_exc

section \<open>The world\<close>

record http_request =
  hr_url :: string
  hr_headers :: "(string \<times> string) list"
  hr_body :: pydict

datatype order_effect =
    Printed string pydict
  | Rpc oms_request
  | HttpPost http_request
  | GatewayNotified string pydict pydict
  | SubmitterNotified string pydict pyval
  | Logged string

datatype http_answer = HttpText string | HttpStatus int "string option" string
  | HttpUnreachable string | HttpRaised py_exc

record order_world =
  ow_effects :: "order_effect list"
  ow_reads :: nat
  ow_draws :: nat

record order_env =
  ov_str :: "pyval \<Rightarrow> string"
  ov_local :: "pydatetime \<Rightarrow> int"
  ov_zone :: int
  ov_fromisoformat :: "string \<Rightarrow> pydatetime option"
  ov_parse_int :: "string \<Rightarrow> int option"
  ov_pb_text :: "pyval \<Rightarrow> py_exc + string"
  ov_fault :: "order_effect list \<Rightarrow> py_exc option"
  ov_rpc :: "order_effect list \<Rightarrow> rpc_answer"
  ov_http :: "order_effect list \<Rightarrow> http_answer"
  ov_json_loads :: "string \<Rightarrow> string + pyval"
  ov_now :: "nat \<Rightarrow> int"
  ov_uuid_hex :: "nat \<Rightarrow> string"
  ov_uuid :: "nat \<Rightarrow> string"
  ov_value :: "nat \<Rightarrow> pyval option"

definition ow_add :: "order_effect \<Rightarrow> order_world \<Rightarrow> order_world" where
  "ow_add ef w = w\<lparr>ow_effects := ow_effects w @ [ef]\<rparr>"

text \<open>An effect that may fail: it is recorded, and the environment says what it raises.\<close>

definition ow_emit :: "order_env \<Rightarrow> order_effect \<Rightarrow> (order_world, unit) act" where
  "ow_emit v ef =
     act_then (act_modify (ow_add ef))
       (act_with (\<lambda>w. ov_fault v (ow_effects w))
         (\<lambda>x. case x of None \<Rightarrow> act_ret () | Some e \<Rightarrow> act_raise e))"

definition ow_now :: "order_env \<Rightarrow> (order_world, int) act" where
  "ow_now v = act_with ow_reads (\<lambda>n. act_then (act_modify (\<lambda>w. w\<lparr>ow_reads := Suc n\<rparr>)) (act_ret (ov_now v n)))"

definition ow_draw :: "(nat \<Rightarrow> string) \<Rightarrow> (order_world, string) act" where
  "ow_draw f = act_with ow_draws (\<lambda>n. act_then (act_modify (\<lambda>w. w\<lparr>ow_draws := Suc n\<rparr>)) (act_ret (f n)))"

section \<open>Values\<close>

text \<open>\<open>value.astimezone(utc)\<close>: a naive value is read as local time.\<close>

definition instant_of :: "order_env \<Rightarrow> pydatetime \<Rightarrow> int" where
  "instant_of v t = (if dt_aware t then dt_instant t else ov_local v t)"

definition to_proto_timestamp :: "order_env \<Rightarrow> pydatetime option \<Rightarrow> (order_world, int) act" where
  "to_proto_timestamp v value =
     (case value of None \<Rightarrow> ow_now v | Some t \<Rightarrow> act_ret (instant_of v t))"

definition coerce_order_intent_id :: "order_env \<Rightarrow> pyval \<Rightarrow> string" where
  "coerce_order_intent_id v x =
     (case x of VNone \<Rightarrow> [] | VBool b \<Rightarrow> [] | VInt i \<Rightarrow> int_str i | _ \<Rightarrow> py_strip (py_str (ov_str v) x))"

definition coerce_cancel_order_intent_id :: "order_env \<Rightarrow> pyval \<Rightarrow> string" where
  "coerce_cancel_order_intent_id v x = coerce_order_intent_id v x"

definition parse_rfc3339_utc :: "order_env \<Rightarrow> string \<Rightarrow> pydatetime option" where
  "parse_rfc3339_utc v value =
     (let t = py_strip value in
      if t = [] then None
      else map_option (\<lambda>d. utc (instant_of v d))
             (ov_fromisoformat v (if last t = CHR ''Z'' then butlast t @ ''+00:00'' else t)))"

definition coerce_decimal_string :: "order_env \<Rightarrow> pyval \<Rightarrow> string" where
  "coerce_decimal_string v x =
     (case x of VNone \<Rightarrow> [] | VBool b \<Rightarrow> py_str (ov_str v) x | _ \<Rightarrow> py_strip (py_str (ov_str v) x))"

text \<open>\<open>x in (None, '')\<close>, \<open>a or b\<close> and \<open>d.pop(k, None)\<close>.\<close>

definition none_or_empty :: "pyval \<Rightarrow> bool" where
  "none_or_empty x \<longleftrightarrow> x = VNone \<or> x = VStr []"

definition py_or :: "pyval \<Rightarrow> pyval \<Rightarrow> pyval" where
  "py_or a b = (if py_truthy a then a else b)"

definition payload_pop :: "string \<Rightarrow> pydict \<Rightarrow> pydict" where
  "payload_pop k d = filter (\<lambda>(k', v). k' \<noteq> k) d"

definition default_text :: "order_env \<Rightarrow> string \<Rightarrow> pydict \<Rightarrow> pydict" where
  "default_text v k d = dict_setdefault k (VStr (coerce_decimal_string v (get_or_none d k))) d"

text \<open>The legacy keys that stand in for a canonical one.\<close>

definition limit_price_of_price :: "order_env \<Rightarrow> pydict \<Rightarrow> pydict" where
  "limit_price_of_price v raw =
     (if none_or_empty (get_or_none raw ''limit_price'') \<and> \<not> none_or_empty (get_or_none raw ''price'')
      then dict_set ''limit_price'' (VStr (coerce_decimal_string v (get_or_none raw ''price''))) raw else raw)"

definition mode_of_environment :: "pydict \<Rightarrow> pydict" where
  "mode_of_environment raw =
     (if \<not> dict_has raw ''mode'' \<and> py_truthy (get_or_none raw ''environment'')
      then dict_set ''mode'' (get_or_none raw ''environment'') raw else raw)"

definition time_in_force_of_tif :: "order_env \<Rightarrow> pydict \<Rightarrow> pydict" where
  "time_in_force_of_tif v raw =
     (if none_or_empty (get_or_none raw ''time_in_force'') \<and> \<not> none_or_empty (get_or_none raw ''tif'')
      then dict_set ''time_in_force'' (VStr (coerce_decimal_string v (get_or_none raw ''tif''))) raw else raw)"

definition requested_at_of_occurred_at :: "pydict \<Rightarrow> pydict" where
  "requested_at_of_occurred_at raw =
     (if none_or_empty (get_or_none raw ''requested_at'') \<and> \<not> none_or_empty (get_or_none raw ''occurred_at'')
      then dict_set ''requested_at'' (get_or_none raw ''occurred_at'') raw else raw)"

definition set_text :: "order_env \<Rightarrow> string \<Rightarrow> pydict \<Rightarrow> pydict" where
  "set_text v k d = dict_set k (VStr (coerce_decimal_string v (get_or_none d k))) d"

definition normalize_oms_submission_payload :: "order_env \<Rightarrow> pydict \<Rightarrow> pydict" where
  "normalize_oms_submission_payload v payload =
     (let raw = payload_pop ''strategy_context'' (payload_pop ''replay_session_id'' payload);
          raw = time_in_force_of_tif v (mode_of_environment (limit_price_of_price v raw));
          raw = set_text v ''stop_price'' (set_text v ''limit_price'' (set_text v ''quantity'' raw));
          raw = fold (default_text v)
                  [''correlation_id'', ''account_id'', ''time_in_force'', ''instrument_id'', ''side'',
                   ''order_type'', ''idempotency_key'', ''job_id'', ''symbol''] raw;
          raw = dict_set ''order_intent_id'' (VStr (coerce_order_intent_id v (get_or_none raw ''order_intent_id''))) raw
      in payload_pop ''occurred_at'' (requested_at_of_occurred_at raw))"

section \<open>What is printed\<close>

definition ORDER_INTENT_DISPLAY_FIELD_NAMES :: "string list" where
  "ORDER_INTENT_DISPLAY_FIELD_NAMES =
     [''account_id'', ''causation_id'', ''correlation_id'', ''created_at'', ''deployment_id'',
      ''idempotency_key'', ''instrument_id'', ''job_id'', ''launch_attempt'', ''limit_price'', ''mode'',
      ''order_intent_id'', ''order_type'', ''quantity'', ''requested_at'', ''runtime_id'', ''side'',
      ''stop_price'', ''strategy_version_id'', ''symbol'', ''tenant_id'', ''time_in_force'',
      ''worker_identity'']"

text \<open>\<open>str(payload.get('mode') or payload.get('environment') or '').strip().upper()\<close>.\<close>

definition wire_mode_text :: "order_env \<Rightarrow> pydict \<Rightarrow> string" where
  "wire_mode_text v payload =
     py_upper (py_strip (str_or_empty (ov_str v)
       (py_or (get_or_none payload ''mode'') (get_or_none payload ''environment''))))"

definition mode_string_for_console :: "order_env \<Rightarrow> pydict \<Rightarrow> string" where
  "mode_string_for_console v payload =
     (let m = wire_mode_text v payload in
      if m = ''LIVE'' then ''LIVE'' else if m = ''PAPER'' then ''PAPER''
      else if m = ''BACKTEST'' then ''BACKTEST'' else if m \<noteq> [] then m else ''BACKTEST'')"

definition timestamp_wire_str :: "order_env \<Rightarrow> pyval \<Rightarrow> string" where
  "timestamp_wire_str v value =
     (case value of
        VTime t \<Rightarrow> wire_timestamp t
      | VNone \<Rightarrow> []
      | _ \<Rightarrow> py_strip (py_str (ov_str v) value))"

text \<open>\<open>int(x)\<close>.\<close>

definition int_of_value :: "order_env \<Rightarrow> pyval \<Rightarrow> py_exc + int" where
  "int_of_value v x =
     (case x of
        VBool b \<Rightarrow> Inr (if b then 1 else 0)
      | VInt i \<Rightarrow> Inr i
      | VFloat f \<Rightarrow> float_to_int f
      | VStr s \<Rightarrow>
          (case ov_parse_int v s of
             Some i \<Rightarrow> Inr i
           | None \<Rightarrow> Inl (ValueExc ''ValueError'' ''invalid literal for int()'' None))
      | _ \<Rightarrow> Inl (TypeExc ''TypeError'' ''int() argument must be a string or a real number''))"

definition launch_attempt_shown :: "order_env \<Rightarrow> pydict \<Rightarrow> py_exc + int" where
  "launch_attempt_shown v p =
     (if get_or_none p ''launch_attempt'' = VNone then Inr 0
      else (case int_of_value v (get_or_none p ''launch_attempt'') of
              Inr i \<Rightarrow> Inr i
            | Inl (ValueExc ty msg d) \<Rightarrow> Inr 0
            | Inl (TypeExc ty msg) \<Rightarrow> Inr 0
            | Inl e \<Rightarrow> Inl e))"

definition shown_text :: "order_env \<Rightarrow> string \<Rightarrow> pydict \<Rightarrow> pydict" where
  "shown_text v k d =
     dict_set k (VStr (if get_or_none d k = VNone then [] else coerce_decimal_string v (get_or_none d k))) d"

definition order_intent_values :: "order_env \<Rightarrow> pydict \<Rightarrow> int \<Rightarrow> pydict" where
  "order_intent_values v p launch_attempt =
     (let s = (\<lambda>k. VStr (coerce_decimal_string v (get_or_none p k))) in
      [(''account_id'', s ''account_id''), (''causation_id'', s ''causation_id''),
       (''correlation_id'', s ''correlation_id''),
       (''created_at'', VStr (timestamp_wire_str v (get_or_none p ''created_at''))),
       (''deployment_id'', s ''deployment_id''), (''idempotency_key'', s ''idempotency_key''),
       (''instrument_id'', s ''instrument_id''), (''job_id'', s ''job_id''),
       (''launch_attempt'', VInt launch_attempt), (''limit_price'', s ''limit_price''),
       (''mode'', VStr (mode_string_for_console v p)),
       (''order_intent_id'', VStr (coerce_order_intent_id v (get_or_none p ''order_intent_id''))),
       (''order_type'', s ''order_type''), (''quantity'', s ''quantity''),
       (''requested_at'', VStr (timestamp_wire_str v (get_or_none p ''requested_at''))),
       (''runtime_id'', s ''runtime_id''), (''side'', s ''side''), (''stop_price'', s ''stop_price''),
       (''strategy_version_id'', s ''strategy_version_id''), (''symbol'', s ''symbol''),
       (''tenant_id'', s ''tenant_id''), (''time_in_force'', s ''time_in_force''),
       (''worker_identity'', s ''worker_identity'')])"

definition order_intent_wire_dict_for_console :: "order_env \<Rightarrow> pydict \<Rightarrow> py_exc + pydict" where
  "order_intent_wire_dict_for_console v payload =
     (let p = fold (shown_text v) [''tenant_id'', ''worker_identity'', ''deployment_id'', ''causation_id'']
                (normalize_oms_submission_payload v payload)
      in rbind (launch_attempt_shown v p) (\<lambda>launch_attempt.
        let vals = order_intent_values v p launch_attempt
        in Inr (map (\<lambda>name. (name, get_or_none vals name)) ORDER_INTENT_DISPLAY_FIELD_NAMES)))"

definition REPLACE_INTENT_DISPLAY_FIELD_NAMES :: "string list" where
  "REPLACE_INTENT_DISPLAY_FIELD_NAMES =
     [''account_id'', ''correlation_id'', ''created_at'', ''idempotency_key'', ''job_id'', ''mode'',
      ''order_intent_id'', ''order_type'', ''quantity'', ''requested_at'', ''target_oms_order_id'']"

definition replace_order_intent_wire_dict_for_console :: "order_env \<Rightarrow> pydict \<Rightarrow> pydict" where
  "replace_order_intent_wire_dict_for_console v p =
     (let s = (\<lambda>k. VStr (coerce_decimal_string v (get_or_none p k)));
          vals =
          [(''account_id'', s ''account_id''), (''correlation_id'', s ''correlation_id''),
           (''created_at'', VStr (timestamp_wire_str v (get_or_none p ''created_at''))),
           (''idempotency_key'', s ''idempotency_key''), (''job_id'', s ''job_id''),
           (''mode'', VStr (mode_string_for_console v p)),
           (''order_intent_id'', VStr (coerce_cancel_order_intent_id v (get_or_none p ''order_intent_id''))),
           (''order_type'', s ''order_type''), (''quantity'', s ''quantity''),
           (''requested_at'', VStr (timestamp_wire_str v (get_or_none p ''requested_at''))),
           (''target_oms_order_id'', s ''target_oms_order_id'')]
      in map (\<lambda>name. (name, get_or_none vals name)) REPLACE_INTENT_DISPLAY_FIELD_NAMES)"

definition CANCEL_INTENT_DISPLAY_FIELD_NAMES :: "string list" where
  "CANCEL_INTENT_DISPLAY_FIELD_NAMES =
     [''account_id'', ''correlation_id'', ''created_at'', ''idempotency_key'', ''job_id'', ''mode'',
      ''order_intent_id'', ''requested_at'', ''target_oms_order_id'']"

definition cancel_order_intent_wire_dict_for_console :: "order_env \<Rightarrow> pydict \<Rightarrow> pydict" where
  "cancel_order_intent_wire_dict_for_console v p =
     (let s = (\<lambda>k. VStr (coerce_decimal_string v (get_or_none p k)));
          vals =
          [(''account_id'', s ''account_id''), (''correlation_id'', s ''correlation_id''),
           (''created_at'', VStr (timestamp_wire_str v (get_or_none p ''created_at''))),
           (''idempotency_key'', s ''idempotency_key''), (''job_id'', s ''job_id''),
           (''mode'', VStr (mode_string_for_console v p)),
           (''order_intent_id'', VStr (coerce_cancel_order_intent_id v (get_or_none p ''order_intent_id''))),
           (''requested_at'', VStr (timestamp_wire_str v (get_or_none p ''requested_at''))),
           (''target_oms_order_id'', s ''target_oms_order_id'')]
      in map (\<lambda>name. (name, get_or_none vals name)) CANCEL_INTENT_DISPLAY_FIELD_NAMES)"

section \<open>The client\<close>

definition oms_mode_enum :: "order_env \<Rightarrow> pydict \<Rightarrow> runtime_mode" where
  "oms_mode_enum v payload =
     (let mode = wire_mode_text v payload in
      if mode = ''LIVE'' then LIVE else if mode = ''PAPER'' \<or> mode = [] then PAPER
      else if mode = ''BACKTEST'' then BACKTEST else BACKTEST)"

text \<open>\<open>x in (None, '', 0)\<close>.\<close>

definition none_empty_or_zero :: "pyval \<Rightarrow> bool" where
  "none_empty_or_zero x \<longleftrightarrow> none_or_empty x \<or> x = VInt 0 \<or> x = VBool False \<or> x = VFloat (Fin 0)"

definition optional_extension :: "order_env \<Rightarrow> pydict \<Rightarrow> common_metadata option" where
  "optional_extension v payload =
     (let c = (\<lambda>k. coerce_decimal_string v (get_or_none payload k)) in
      if list_all (\<lambda>k. none_empty_or_zero (get_or_none payload k))
           [''runtime_id'', ''strategy_version_id'', ''tenant_id'', ''causation_id'']
      then None
      else Some \<lparr>cm_correlation_id = c ''correlation_id'', cm_causation_id = c ''causation_id'',
        cm_tenant_id = c ''tenant_id'', cm_account_id = c ''account_id'', cm_runtime_id = c ''runtime_id'',
        cm_worker_identity = c ''worker_identity'', cm_launch_attempt = 0,
        cm_strategy_version_id = c ''strategy_version_id'', cm_job_id = c ''job_id'',
        cm_deployment_id = c ''deployment_id''\<rparr>)"

record dependency_client_error =
  dce_code :: string
  dce_message :: string
  dce_retryable :: bool

definition normalize_grpc_error :: "grpc_status \<Rightarrow> dependency_client_error" where
  "normalize_grpc_error status_code =
     (if status_code = GS_NOT_FOUND then
        \<lparr>dce_code = ''DEPENDENCY_NOT_FOUND'', dce_message = ''OMS dependency entity not found.'', dce_retryable = False\<rparr>
      else if status_code = GS_INVALID_ARGUMENT then
        \<lparr>dce_code = ''DEPENDENCY_VALIDATION_FAILED'',
         dce_message = ''OMS dependency rejected request validation.'', dce_retryable = False\<rparr>
      else if status_code = GS_FAILED_PRECONDITION \<or> status_code = GS_PERMISSION_DENIED then
        \<lparr>dce_code = ''DEPENDENCY_ACCESS_DENIED'',
         dce_message = ''OMS dependency denied request by policy/access.'', dce_retryable = False\<rparr>
      else if status_code = GS_UNAVAILABLE \<or> status_code = GS_DEADLINE_EXCEEDED then
        \<lparr>dce_code = ''DEPENDENCY_UNAVAILABLE'', dce_message = ''OMS dependency is unavailable.'', dce_retryable = True\<rparr>
      else
        \<lparr>dce_code = ''DEPENDENCY_INTERNAL_FAILURE'',
         dce_message = ''OMS dependency call failed unexpectedly.'', dce_retryable = False\<rparr>)"

definition DependencyClientError :: "dependency_client_error \<Rightarrow> py_exc" where
  "DependencyClientError e = OtherExc ''DependencyClientError'' (dce_message e) None"

text \<open>\<open>IntentAckStatus.Name\<close> raises on a number the worker's copy of the contract does not know.\<close>

definition intent_ack_status_name :: "int \<Rightarrow> py_exc + string" where
  "intent_ack_status_name n =
     (if n = 0 then Inr ''INTENT_ACK_STATUS_UNSPECIFIED'' else if n = 1 then Inr ''ACCEPTED''
      else if n = 2 then Inr ''REJECTED'' else if n = 3 then Inr ''DUPLICATE''
      else if n = 4 then Inr ''INVALID''
      else Inl (ValueExc ''ValueError'' (''Enum IntentAckStatus has no name defined for value '' @ int_str n) None))"

definition text_or_none :: "string \<Rightarrow> pyval" where
  "text_or_none s = (if s = [] then VNone else VStr s)"

definition ack_result :: "intent_ack \<Rightarrow> py_exc + pydict" where
  "ack_result ack =
     (let rc = py_strip (ak_reason_code ack); ec = py_strip (ak_error_code ack) in
      rbind (intent_ack_status_name (ak_status ack)) (\<lambda>status.
        Inr [(''accepted'', VBool (ak_accepted ack)), (''status'', VStr status),
             (''order_id'', text_or_none (ak_order_id ack)), (''state'', text_or_none (ak_state ack)),
             (''reason_code'', if rc \<noteq> [] then VStr (py_upper rc) else VNone),
             (''error_code'', if ec \<noteq> [] then VStr (py_upper ec) else VNone)]))"

text \<open>The call of the stub with its error mapping; the call is recorded, whatever it answers.\<close>

definition oms_call :: "order_env \<Rightarrow> oms_request \<Rightarrow> (order_world, pydict) act" where
  "oms_call v request =
     act_then (act_modify (ow_add (Rpc request)))
       (act_with (\<lambda>w. ov_rpc v (ow_effects w))
         (\<lambda>answer. case answer of
            Acked ack \<Rightarrow> act_of (ack_result ack)
          | RpcError status \<Rightarrow> act_raise (DependencyClientError (normalize_grpc_error status))
          | RpcRaised e \<Rightarrow> act_raise e))"

fun time_value :: "pyval \<Rightarrow> pydatetime option" where
  "time_value (VTime t) = Some t"
| "time_value x = None"

text \<open>The message of an order intent; a field that protobuf cannot read raises.\<close>

definition submit_message ::
  "order_env \<Rightarrow> pydict \<Rightarrow> int \<Rightarrow> int option \<Rightarrow> py_exc + submit_request" where
  "submit_message v p requested created =
     (let f = (\<lambda>k. ov_pb_text v (get_or_none p k)) in
      rbind (f ''correlation_id'') (\<lambda>corr.
      rbind (f ''account_id'') (\<lambda>account.
      rbind (f ''instrument_id'') (\<lambda>instrument.
      rbind (f ''side'') (\<lambda>side.
      rbind (f ''order_type'') (\<lambda>order_type.
      rbind (f ''quantity'') (\<lambda>quantity.
      rbind (f ''limit_price'') (\<lambda>limit.
      rbind (f ''stop_price'') (\<lambda>stop.
      rbind (f ''time_in_force'') (\<lambda>tif.
      rbind (f ''idempotency_key'') (\<lambda>key.
      rbind (f ''job_id'') (\<lambda>job.
      rbind (f ''order_intent_id'') (\<lambda>oid.
      rbind (f ''symbol'') (\<lambda>symbol.
        Inr \<lparr>sq_correlation_id = corr, sq_account_id = account, sq_mode = oms_mode_enum v p,
             sq_instrument_id = instrument, sq_side = side, sq_order_type = order_type,
             sq_quantity = quantity, sq_limit_price = limit, sq_stop_price = stop,
             sq_time_in_force = tif, sq_idempotency_key = key, sq_requested_at = requested,
             sq_job_id = job, sq_order_intent_id = oid, sq_symbol = symbol,
             sq_created_at = created, sq_extension = optional_extension v p\<rparr>))))))))))))))"

definition oms_submit_order_intent :: "order_env \<Rightarrow> pydict \<Rightarrow> (order_world, pydict) act" where
  "oms_submit_order_intent v payload =
     (let p = normalize_oms_submission_payload v payload;
          wall_dt = time_value (get_or_none p ''requested_at'');
          created_dt = time_value (get_or_none p ''created_at'')
      in act_bind (to_proto_timestamp v wall_dt) (\<lambda>requested.
         act_bind (act_of (submit_message v p requested (map_option (instant_of v) created_dt))) (\<lambda>request.
         oms_call v (SubmitOrderIntent request))))"

definition change_time :: "order_env \<Rightarrow> pyval \<Rightarrow> pydatetime option" where
  "change_time v x =
     (case x of VTime t \<Rightarrow> Some t | VStr s \<Rightarrow> parse_rfc3339_utc v s | _ \<Rightarrow> None)"

text \<open>\<open>{**p, ...}\<close> of the extension of a replace or cancel.\<close>

definition change_extension :: "order_env \<Rightarrow> pydict \<Rightarrow> string \<Rightarrow> string \<Rightarrow> string \<Rightarrow> common_metadata option" where
  "change_extension v p corr account_id job_id =
     optional_extension v
       (dict_update [(''correlation_id'', VStr corr), (''account_id'', VStr account_id), (''job_id'', VStr job_id)] p)"

definition oms_submit_replace_order_intent :: "order_env \<Rightarrow> pydict \<Rightarrow> (order_world, pydict) act" where
  "oms_submit_replace_order_intent v p =
     (let c = (\<lambda>k. coerce_decimal_string v (get_or_none p k));
          job_id = c ''job_id''; account_id = c ''account_id''; target = c ''target_oms_order_id'';
          idem = c ''idempotency_key''; corr = c ''correlation_id'';
          order_intent_id = coerce_cancel_order_intent_id v (get_or_none p ''order_intent_id'');
          qty = c ''quantity''; ot = c ''order_type''
      in if job_id = [] \<or> account_id = [] \<or> target = [] \<or> idem = [] \<or> order_intent_id = []
         then act_raise (ValueExc ''ValueError''
                (''submit_replace_order_intent requires job_id, account_id, target_oms_order_id, '' @
                 ''idempotency_key, and order_intent_id'') None)
         else if (qty \<noteq> []) = (ot \<noteq> [])
         then act_raise (ValueExc ''ValueError''
                ''submit_replace_order_intent requires exactly one of quantity or order_type'' None)
         else
           act_bind (to_proto_timestamp v (change_time v (get_or_none p ''requested_at''))) (\<lambda>requested.
           oms_call v (SubmitReplaceOrderIntent
             \<lparr>cq_correlation_id = corr, cq_account_id = account_id, cq_job_id = job_id,
              cq_target_oms_order_id = target, cq_idempotency_key = idem, cq_requested_at = requested,
              cq_mode = oms_mode_enum v p, cq_order_intent_id = order_intent_id, cq_quantity = qty,
              cq_order_type = ot,
              cq_created_at = map_option (instant_of v) (change_time v (get_or_none p ''created_at'')),
              cq_extension = change_extension v p corr account_id job_id\<rparr>)))"

definition oms_submit_cancel_order_intent :: "order_env \<Rightarrow> pydict \<Rightarrow> (order_world, pydict) act" where
  "oms_submit_cancel_order_intent v p =
     (let c = (\<lambda>k. coerce_decimal_string v (get_or_none p k));
          job_id = c ''job_id''; account_id = c ''account_id''; target = c ''target_oms_order_id'';
          idem = c ''idempotency_key''; corr = c ''correlation_id'';
          order_intent_id = coerce_cancel_order_intent_id v (get_or_none p ''order_intent_id'')
      in if job_id = [] \<or> account_id = [] \<or> target = [] \<or> idem = [] \<or> corr = [] \<or> order_intent_id = []
         then act_raise (ValueExc ''ValueError''
                (''submit_cancel_order_intent requires job_id, account_id, target_oms_order_id, '' @
                 ''idempotency_key, correlation_id, and order_intent_id'') None)
         else
           act_bind (to_proto_timestamp v (change_time v (get_or_none p ''requested_at''))) (\<lambda>requested.
           oms_call v (SubmitCancelOrderIntent
             \<lparr>cq_correlation_id = corr, cq_account_id = account_id, cq_job_id = job_id,
              cq_target_oms_order_id = target, cq_idempotency_key = idem, cq_requested_at = requested,
              cq_mode = oms_mode_enum v p, cq_order_intent_id = order_intent_id, cq_quantity = [],
              cq_order_type = [],
              cq_created_at = map_option (instant_of v) (change_time v (get_or_none p ''created_at'')),
              cq_extension = change_extension v p corr account_id job_id\<rparr>)))"

text \<open>The methods an order client has.\<close>

record order_client =
  oc_submit :: "(pydict \<Rightarrow> (order_world, pyval) act) option"
  oc_replace :: "(pydict \<Rightarrow> (order_world, pyval) act) option"
  oc_cancel :: "(pydict \<Rightarrow> (order_world, pyval) act) option"

definition dict_answer :: "(order_world, pydict) act \<Rightarrow> (order_world, pyval) act" where
  "dict_answer m = act_bind m (\<lambda>d. act_ret (VDict d))"

definition oms_grpc_client :: "order_env \<Rightarrow> order_client" where
  "oms_grpc_client v =
     \<lparr>oc_submit = Some (\<lambda>p. dict_answer (oms_submit_order_intent v p)),
      oc_replace = Some (\<lambda>p. dict_answer (oms_submit_replace_order_intent v p)),
      oc_cancel = Some (\<lambda>p. dict_answer (oms_submit_cancel_order_intent v p))\<rparr>"

text \<open>There is a client exactly for a target that is not blank.\<close>

definition build_oms_grpc_client :: "order_env \<Rightarrow> string \<Rightarrow> order_client option" where
  "build_oms_grpc_client v target = (if py_strip target = [] then None else Some (oms_grpc_client v))"

section \<open>Normalising twice\<close>

lemma dict_get_payload_pop [simp]: "dict_get (payload_pop k d) k' = (if k' = k then None else dict_get d k')"
  by (induction d) (auto simp: payload_pop_def dict_get_def)

lemma dict_has_payload_pop [simp]: "dict_has (payload_pop k d) k' \<longleftrightarrow> k' \<noteq> k \<and> dict_has d k'"
  by (simp add: dict_has_def)

lemma payload_pop_absent: "\<not> dict_has d k \<Longrightarrow> payload_pop k d = d"
  by (induction d) (auto simp: payload_pop_def dict_has_keys)

lemma dict_set_same: "dict_get d k = Some x \<Longrightarrow> dict_set k x d = d"
  by (induction d) (auto simp: dict_set_def dict_get_def split: if_splits)

lemma dict_setdefault_present: "dict_has d k \<Longrightarrow> dict_setdefault k x d = d"
  by (simp add: dict_setdefault_def)

lemma dict_get_default_text [simp]:
  "dict_get (default_text v k d) k' =
     (if k' = k \<and> dict_get d k = None then Some (VStr []) else dict_get d k')"
  by (simp add: default_text_def get_or_none_def coerce_decimal_string_def)

lemma dict_has_default_text [simp]: "dict_has (default_text v k d) k' \<longleftrightarrow> k' = k \<or> dict_has d k'"
  by (auto simp: dict_has_def)

lemma get_or_none_set [simp]: "get_or_none (dict_set k x d) k' = (if k' = k then x else get_or_none d k')"
  by (simp add: get_or_none_def)

lemma get_or_none_pop [simp]: "get_or_none (payload_pop k d) k' = (if k' = k then VNone else get_or_none d k')"
  by (simp add: get_or_none_def)

lemma get_or_none_default_text [simp]:
  "get_or_none (default_text v k d) k' =
     (if k' = k \<and> \<not> dict_has d k then VStr [] else get_or_none d k')"
  by (simp add: get_or_none_def dict_has_def)

lemma dict_get_set_text [simp]:
  "dict_get (set_text v k d) k' = (if k' = k then Some (VStr (coerce_decimal_string v (get_or_none d k))) else dict_get d k')"
  "get_or_none (set_text v k d) k' = (if k' = k then VStr (coerce_decimal_string v (get_or_none d k)) else get_or_none d k')"
  "dict_has (set_text v k d) k' \<longleftrightarrow> k' = k \<or> dict_has d k'"
  by (simp_all add: set_text_def)

lemma legacy_other [simp]:
  "k \<noteq> ''limit_price'' \<Longrightarrow> dict_get (limit_price_of_price v d) k = dict_get d k"
  "k \<noteq> ''limit_price'' \<Longrightarrow> dict_has (limit_price_of_price v d) k = dict_has d k"
  "k \<noteq> ''limit_price'' \<Longrightarrow> get_or_none (limit_price_of_price v d) k = get_or_none d k"
  "k \<noteq> ''mode'' \<Longrightarrow> dict_get (mode_of_environment d) k = dict_get d k"
  "k \<noteq> ''mode'' \<Longrightarrow> dict_has (mode_of_environment d) k = dict_has d k"
  "k \<noteq> ''mode'' \<Longrightarrow> get_or_none (mode_of_environment d) k = get_or_none d k"
  "k \<noteq> ''time_in_force'' \<Longrightarrow> dict_get (time_in_force_of_tif v d) k = dict_get d k"
  "k \<noteq> ''time_in_force'' \<Longrightarrow> dict_has (time_in_force_of_tif v d) k = dict_has d k"
  "k \<noteq> ''time_in_force'' \<Longrightarrow> get_or_none (time_in_force_of_tif v d) k = get_or_none d k"
  "k \<noteq> ''requested_at'' \<Longrightarrow> dict_get (requested_at_of_occurred_at d) k = dict_get d k"
  "k \<noteq> ''requested_at'' \<Longrightarrow> dict_has (requested_at_of_occurred_at d) k = dict_has d k"
  "k \<noteq> ''requested_at'' \<Longrightarrow> get_or_none (requested_at_of_occurred_at d) k = get_or_none d k"
  by (simp_all add: limit_price_of_price_def mode_of_environment_def time_in_force_of_tif_def
      requested_at_of_occurred_at_def)

lemma legacy_own [simp]:
  "get_or_none (limit_price_of_price v d) ''limit_price'' =
     (if none_or_empty (get_or_none d ''limit_price'') \<and> \<not> none_or_empty (get_or_none d ''price'')
      then VStr (coerce_decimal_string v (get_or_none d ''price'')) else get_or_none d ''limit_price'')"
  "dict_get (mode_of_environment d) ''mode'' =
     (if \<not> dict_has d ''mode'' \<and> py_truthy (get_or_none d ''environment'') then Some (get_or_none d ''environment'')
      else dict_get d ''mode'')"
  "dict_get (time_in_force_of_tif v d) ''time_in_force'' =
     (if none_or_empty (get_or_none d ''time_in_force'') \<and> \<not> none_or_empty (get_or_none d ''tif'')
      then Some (VStr (coerce_decimal_string v (get_or_none d ''tif''))) else dict_get d ''time_in_force'')"
  "dict_get (requested_at_of_occurred_at d) ''requested_at'' =
     (if none_or_empty (get_or_none d ''requested_at'') \<and> \<not> none_or_empty (get_or_none d ''occurred_at'')
      then Some (get_or_none d ''occurred_at'') else dict_get d ''requested_at'')"
  by (simp_all add: limit_price_of_price_def mode_of_environment_def time_in_force_of_tif_def
      requested_at_of_occurred_at_def)

lemma coerce_fixed [simp]:
  "coerce_decimal_string v (VStr (coerce_decimal_string v x)) = coerce_decimal_string v x"
  "py_strip (coerce_decimal_string v x) = coerce_decimal_string v x"
  "py_strip (coerce_order_intent_id v x) = coerce_order_intent_id v x"
proof -
  have "py_strip ''True'' = ''True''" "py_strip ''False'' = ''False''" by code_simp+
  then show "py_strip (coerce_decimal_string v x) = coerce_decimal_string v x"
    by (cases x) (simp_all add: coerce_decimal_string_def)
  then show "coerce_decimal_string v (VStr (coerce_decimal_string v x)) = coerce_decimal_string v x"
    by (subst coerce_decimal_string_def) simp
  show "py_strip (coerce_order_intent_id v x) = coerce_order_intent_id v x"
    using clean_simps(1) [OF int_str_clean] by (cases x) (simp_all add: coerce_order_intent_id_def)
qed

lemma coerce_text [simp]:
  "coerce_decimal_string v (VStr s) = py_strip s" "coerce_decimal_string v VNone = []"
  "coerce_order_intent_id v (VStr s) = py_strip s"
  by (simp_all add: coerce_decimal_string_def coerce_order_intent_id_def)

text \<open>A payload in the canonical shape.\<close>

definition canonical_payload :: "order_env \<Rightarrow> pydict \<Rightarrow> bool" where
  "canonical_payload v n \<longleftrightarrow>
     \<not> dict_has n ''replay_session_id'' \<and> \<not> dict_has n ''strategy_context'' \<and> \<not> dict_has n ''occurred_at'' \<and>
     (\<forall>k \<in> {''quantity'', ''limit_price'', ''stop_price'', ''order_intent_id''}.
        \<exists>s. dict_get n k = Some (VStr s) \<and> py_strip s = s) \<and>
     (if dict_get n ''limit_price'' = Some (VStr []) then coerce_decimal_string v (get_or_none n ''price'') = [] else True) \<and>
     (dict_has n ''mode'' \<or> \<not> py_truthy (get_or_none n ''environment'')) \<and>
     (if none_or_empty (get_or_none n ''time_in_force'')
      then none_or_empty (get_or_none n ''tif'') \<or>
           dict_get n ''time_in_force'' = Some (VStr []) \<and> coerce_decimal_string v (get_or_none n ''tif'') = []
      else True) \<and>
     (\<forall>k \<in> {''correlation_id'', ''account_id'', ''time_in_force'', ''instrument_id'', ''side'', ''order_type'',
             ''idempotency_key'', ''job_id'', ''symbol''}. dict_has n k)"

lemma get_or_none_has: "\<not> dict_has n k \<Longrightarrow> get_or_none n k = VNone"
  by (simp add: get_or_none_def dict_has_def split: option.splits)

lemma get_or_none_get: "dict_get n k = Some x \<Longrightarrow> get_or_none n k = x"
  by (simp add: get_or_none_def)

lemma canonical_payload_fixed:
  assumes "canonical_payload v n"
  shows "normalize_oms_submission_payload v n = n"
proof -
  note c = assms [unfolded canonical_payload_def]
  obtain q l s i where texts:
      "dict_get n ''quantity'' = Some (VStr q)" "py_strip q = q" "dict_get n ''limit_price'' = Some (VStr l)" "py_strip l = l"
      "dict_get n ''stop_price'' = Some (VStr s)" "py_strip s = s" "dict_get n ''order_intent_id'' = Some (VStr i)" "py_strip i = i"
    using c by auto
  have gone: "payload_pop ''strategy_context'' (payload_pop ''replay_session_id'' n) = n" "payload_pop ''occurred_at'' n = n"
      "requested_at_of_occurred_at n = n"
    using c by (simp_all add: payload_pop_absent get_or_none_has requested_at_of_occurred_at_def none_or_empty_def)
  have legacy: "limit_price_of_price v n = n" "mode_of_environment n = n" "time_in_force_of_tif v n = n"
    using c texts(3)
    by (auto simp: limit_price_of_price_def mode_of_environment_def time_in_force_of_tif_def
        get_or_none_get none_or_empty_def dict_set_same)
  have present: "default_text v k n = n" if "dict_has n k" for k
    using that by (simp add: default_text_def dict_setdefault_present)
  have filled: "fold (default_text v) ks n = n" if "list_all (dict_has n) ks" for ks
    using that by (induction ks) (simp_all add: present)
  have texts': "set_text v ''quantity'' n = n" "set_text v ''limit_price'' n = n" "set_text v ''stop_price'' n = n"
      "dict_set ''order_intent_id'' (VStr (coerce_order_intent_id v (get_or_none n ''order_intent_id''))) n = n"
    using texts by (simp_all add: set_text_def get_or_none_get dict_set_same)
  have keys: "list_all (dict_has n) [''correlation_id'', ''account_id'', ''time_in_force'', ''instrument_id'', ''side'',
      ''order_type'', ''idempotency_key'', ''job_id'', ''symbol'']"
    using c by simp
  show ?thesis
    unfolding normalize_oms_submission_payload_def Let_def gone(1) legacy texts' filled [OF keys] gone(2,3) ..
qed

text \<open>The fields of a normalised payload.\<close>

lemma fold_default_text [simp]:
  "dict_get (fold (default_text v) ks d) k =
     (if k \<in> set ks \<and> dict_get d k = None then Some (VStr []) else dict_get d k)"
  "get_or_none (fold (default_text v) ks d) k =
     (if k \<in> set ks \<and> \<not> dict_has d k then VStr [] else get_or_none d k)"
  by (induction ks arbitrary: d) (auto simp: dict_has_def get_or_none_def)

lemmas normalize_eval = normalize_oms_submission_payload_def Let_def

lemma normalized_texts:
  "dict_get (normalize_oms_submission_payload v p) ''quantity'' =
     Some (VStr (coerce_decimal_string v (get_or_none p ''quantity'')))"
  "dict_get (normalize_oms_submission_payload v p) ''stop_price'' =
     Some (VStr (coerce_decimal_string v (get_or_none p ''stop_price'')))"
  "dict_get (normalize_oms_submission_payload v p) ''order_intent_id'' =
     Some (VStr (coerce_order_intent_id v (get_or_none p ''order_intent_id'')))"
  by (simp_all add: normalize_eval del: fold.simps)

lemma normalized_limit_price:
  "dict_get (normalize_oms_submission_payload v p) ''limit_price'' =
     Some (VStr (coerce_decimal_string v
       (if none_or_empty (get_or_none p ''limit_price'') \<and> \<not> none_or_empty (get_or_none p ''price'')
        then get_or_none p ''price'' else get_or_none p ''limit_price'')))"
  by (simp add: normalize_eval del: fold.simps)

lemma normalized_time_in_force:
  "dict_get (normalize_oms_submission_payload v p) ''time_in_force'' =
      (if none_or_empty (get_or_none p ''time_in_force'') \<and> \<not> none_or_empty (get_or_none p ''tif'')
       then Some (VStr (coerce_decimal_string v (get_or_none p ''tif'')))
       else if dict_has p ''time_in_force'' then dict_get p ''time_in_force'' else Some (VStr []))"
  by (simp add: normalize_eval dict_has_def del: fold.simps)

lemma normalized_mode:
  "dict_get (normalize_oms_submission_payload v p) ''mode'' =
     (if \<not> dict_has p ''mode'' \<and> py_truthy (get_or_none p ''environment'') then Some (get_or_none p ''environment'')
      else dict_get p ''mode'')"
  by (simp add: normalize_eval del: fold.simps)

lemma normalized_requested_at:
  "dict_get (normalize_oms_submission_payload v p) ''requested_at'' =
      (if none_or_empty (get_or_none p ''requested_at'') \<and> \<not> none_or_empty (get_or_none p ''occurred_at'')
       then Some (get_or_none p ''occurred_at'') else dict_get p ''requested_at'')"
  by (simp add: normalize_eval del: fold.simps)

lemma normalized_defaults:
  assumes "k \<in> set [''correlation_id'', ''account_id'', ''instrument_id'', ''side'', ''order_type'',
             ''idempotency_key'', ''job_id'', ''symbol'']"
  shows "dict_get (normalize_oms_submission_payload v p) k = Some (if dict_has p k then get_or_none p k else VStr [])"
proof -
  have "k \<notin> set [''requested_at'', ''occurred_at'', ''order_intent_id'', ''quantity'', ''limit_price'', ''stop_price'',
      ''mode'', ''time_in_force'', ''strategy_context'', ''replay_session_id'']"
    using assms by auto
  then have "dict_get (normalize_oms_submission_payload v p) k =
      (if dict_get p k = None then Some (VStr []) else dict_get p k)"
    using assms unfolding normalize_eval by (simp del: fold.simps)
  then show ?thesis by (auto simp: dict_has_def get_or_none_def)
qed

lemma normalized_kept:
  assumes "k \<notin> set [''correlation_id'', ''account_id'', ''instrument_id'', ''side'', ''order_type'',
      ''idempotency_key'', ''job_id'', ''symbol'', ''requested_at'', ''occurred_at'', ''order_intent_id'', ''quantity'',
      ''limit_price'', ''stop_price'', ''mode'', ''time_in_force'', ''strategy_context'', ''replay_session_id'']"
  shows "dict_get (normalize_oms_submission_payload v p) k = dict_get p k"
  using assms unfolding normalize_eval by (simp del: fold.simps)

lemma normalized_gone:
  assumes "k \<in> set [''replay_session_id'', ''strategy_context'', ''occurred_at'']"
  shows "dict_get (normalize_oms_submission_payload v p) k = None"
proof -
  have "k \<notin> set [''correlation_id'', ''account_id'', ''instrument_id'', ''side'', ''order_type'',
      ''idempotency_key'', ''job_id'', ''symbol'', ''requested_at'', ''order_intent_id'', ''quantity'',
      ''limit_price'', ''stop_price'', ''mode'', ''time_in_force'']"
    using assms by auto
  then show ?thesis using assms unfolding normalize_eval by (auto simp del: fold.simps)
qed

lemma coerce_none_or_empty: "none_or_empty x \<Longrightarrow> coerce_decimal_string v x = []"
  by (auto simp: none_or_empty_def)

lemma get_normalized:
  "get_or_none (normalize_oms_submission_payload v p) k =
     (case dict_get (normalize_oms_submission_payload v p) k of None \<Rightarrow> VNone | Some x \<Rightarrow> x)"
  by (rule get_or_none_def)

lemma normalized_is_canonical:
  assumes blank: "coerce_decimal_string v (get_or_none p ''limit_price'') = [] \<Longrightarrow> none_or_empty (get_or_none p ''limit_price'')"
  shows "canonical_payload v (normalize_oms_submission_payload v p)"
  unfolding canonical_payload_def
proof (intro conjI)
  let ?n = "normalize_oms_submission_payload v p"
  have kept: "get_or_none ?n ''price'' = get_or_none p ''price''" "get_or_none ?n ''tif'' = get_or_none p ''tif''"
      "get_or_none ?n ''environment'' = get_or_none p ''environment''"
    by (simp_all add: get_or_none_def normalized_kept)
  show "\<not> dict_has ?n ''replay_session_id''" "\<not> dict_has ?n ''strategy_context''" "\<not> dict_has ?n ''occurred_at''"
    by (simp_all add: dict_has_def normalized_gone)
  show "\<forall>k \<in> {''quantity'', ''limit_price'', ''stop_price'', ''order_intent_id''}.
      \<exists>s. dict_get ?n k = Some (VStr s) \<and> py_strip s = s"
    by (simp add: normalized_texts normalized_limit_price)
  show "if dict_get ?n ''limit_price'' = Some (VStr []) then coerce_decimal_string v (get_or_none ?n ''price'') = [] else True"
    unfolding kept normalized_limit_price
    using blank coerce_none_or_empty [of "get_or_none p ''price''" v]
    by (cases "none_or_empty (get_or_none p ''price'')"; cases "none_or_empty (get_or_none p ''limit_price'')") auto
  show "dict_has ?n ''mode'' \<or> \<not> py_truthy (get_or_none ?n ''environment'')"
    unfolding kept by (simp add: dict_has_def normalized_mode)
  show "if none_or_empty (get_or_none ?n ''time_in_force'')
      then none_or_empty (get_or_none ?n ''tif'') \<or>
           dict_get ?n ''time_in_force'' = Some (VStr []) \<and> coerce_decimal_string v (get_or_none ?n ''tif'') = []
      else True"
    unfolding kept get_normalized [of v p "''time_in_force''"] normalized_time_in_force
    by (simp add: none_or_empty_def get_or_none_has get_or_none_def dict_has_def split: option.splits)
  show "\<forall>k \<in> {''correlation_id'', ''account_id'', ''time_in_force'', ''instrument_id'', ''side'', ''order_type'',
             ''idempotency_key'', ''job_id'', ''symbol''}. dict_has ?n k"
    by (simp add: dict_has_def normalized_defaults normalized_time_in_force)
qed

section \<open>What is printed is what is sent\<close>

definition pb_reads_text :: "order_env \<Rightarrow> bool" where
  "pb_reads_text v \<longleftrightarrow> ov_pb_text v VNone = Inr [] \<and> (\<forall>s. ov_pb_text v (VStr s) = Inr s)"

fun text_field :: "pyval \<Rightarrow> bool" where
  "text_field VNone = True"
| "text_field (VStr s) = (py_strip s = s)"
| "text_field x = False"

fun aware_field :: "pyval \<Rightarrow> bool" where
  "aware_field VNone = True"
| "aware_field (VTime t) = dt_aware t"
| "aware_field x = False"

definition TEXT_KEYS :: "string list" where
  "TEXT_KEYS = [''correlation_id'', ''account_id'', ''instrument_id'', ''side'', ''order_type'',
     ''idempotency_key'', ''job_id'', ''symbol'', ''time_in_force'']"

text \<open>
  A payload with stripped texts, a mode of the contract, an aware request time and, where there is
  one, an aware creation time.
\<close>

definition plain_payload :: "order_env \<Rightarrow> pydict \<Rightarrow> bool" where
  "plain_payload v p \<longleftrightarrow>
     list_all (\<lambda>k. text_field (get_or_none p k)) TEXT_KEYS \<and>
     wire_mode_text v p \<in> {''LIVE'', ''PAPER'', ''BACKTEST''} \<and>
     aware_field (get_or_none p ''created_at'') \<and>
     (\<exists>t. get_or_none p ''requested_at'' = VTime t \<and> dt_aware t)"

text \<open>The fields of a request as the console names them.\<close>

definition request_fields :: "submit_request \<Rightarrow> pydict" where
  "request_fields q =
     [(''correlation_id'', VStr (sq_correlation_id q)), (''account_id'', VStr (sq_account_id q)),
      (''mode'', VStr (runtime_mode_value (sq_mode q))), (''instrument_id'', VStr (sq_instrument_id q)),
      (''side'', VStr (sq_side q)), (''order_type'', VStr (sq_order_type q)),
      (''quantity'', VStr (sq_quantity q)), (''limit_price'', VStr (sq_limit_price q)),
      (''stop_price'', VStr (sq_stop_price q)), (''time_in_force'', VStr (sq_time_in_force q)),
      (''idempotency_key'', VStr (sq_idempotency_key q)),
      (''requested_at'', VStr (wire_timestamp (utc (sq_requested_at q)))),
      (''created_at'', VStr (case sq_created_at q of None \<Rightarrow> [] | Some i \<Rightarrow> wire_timestamp (utc i))),
      (''job_id'', VStr (sq_job_id q)), (''order_intent_id'', VStr (sq_order_intent_id q)),
      (''symbol'', VStr (sq_symbol q))] @
     (case sq_extension q of None \<Rightarrow> [] | Some x \<Rightarrow>
        [(''runtime_id'', VStr (cm_runtime_id x)), (''tenant_id'', VStr (cm_tenant_id x)),
         (''strategy_version_id'', VStr (cm_strategy_version_id x)),
         (''causation_id'', VStr (cm_causation_id x)), (''worker_identity'', VStr (cm_worker_identity x)),
         (''deployment_id'', VStr (cm_deployment_id x))])"

lemma text_field_read: "pb_reads_text v \<Longrightarrow> text_field x \<Longrightarrow> ov_pb_text v x = Inr (coerce_decimal_string v x)"
  by (cases x) (simp_all add: pb_reads_text_def)

lemma wire_mode_text_normalized [simp]: "wire_mode_text v (normalize_oms_submission_payload v p) = wire_mode_text v p"
proof -
  let ?n = "normalize_oms_submission_payload v p"
  have "get_or_none ?n ''environment'' = get_or_none p ''environment''"
    by (simp add: get_or_none_def normalized_kept)
  moreover have "get_or_none ?n ''mode'' =
      (if \<not> dict_has p ''mode'' \<and> py_truthy (get_or_none p ''environment'') then get_or_none p ''environment''
       else get_or_none p ''mode'')"
    by (simp add: get_or_none_def [of ?n] normalized_mode get_or_none_def [of p "''mode''"])
  ultimately show ?thesis
    by (simp add: wire_mode_text_def py_or_def get_or_none_has)
qed

text \<open>A known mode is read alike by both; a blank one is not.\<close>

lemma mode_shown_is_sent:
  "wire_mode_text v p \<in> {''LIVE'', ''PAPER'', ''BACKTEST''} \<Longrightarrow>
     mode_string_for_console v p = runtime_mode_value (oms_mode_enum v p)"
  by (auto simp: mode_string_for_console_def oms_mode_enum_def Let_def)

lemma blank_mode_shown_wrong:
  "wire_mode_text v p = [] \<Longrightarrow> mode_string_for_console v p = ''BACKTEST'' \<and> oms_mode_enum v p = PAPER"
  by (simp add: mode_string_for_console_def oms_mode_enum_def)

text \<open>The value of a field after normalisation, as protobuf and the console read it.\<close>

lemma normalized_text_field:
  assumes "list_all (\<lambda>k. text_field (get_or_none p k)) TEXT_KEYS" "k \<in> set TEXT_KEYS"
  shows "text_field (get_or_none (normalize_oms_submission_payload v p) k)"
proof (cases "k = ''time_in_force''")
  case True
  then show ?thesis using assms
    by (simp add: TEXT_KEYS_def get_normalized normalized_time_in_force get_or_none_def [of p "''time_in_force''"]
        split: option.splits)
next
  case False
  then have "k \<in> set [''correlation_id'', ''account_id'', ''instrument_id'', ''side'', ''order_type'',
      ''idempotency_key'', ''job_id'', ''symbol'']"
    using assms(2) by (simp add: TEXT_KEYS_def)
  moreover have "text_field (get_or_none p k)"
    using assms by (simp add: list_all_iff)
  ultimately show ?thesis
    by (simp add: get_normalized normalized_defaults)
qed

definition MESSAGE_KEYS :: "string list" where
  "MESSAGE_KEYS = TEXT_KEYS @ [''quantity'', ''limit_price'', ''stop_price'', ''order_intent_id'']"

lemma normalized_message_field:
  assumes "list_all (\<lambda>k. text_field (get_or_none p k)) TEXT_KEYS" "k \<in> set MESSAGE_KEYS"
  shows "text_field (get_or_none (normalize_oms_submission_payload v p) k)"
proof (cases "k \<in> set TEXT_KEYS")
  case False
  then have "k \<in> set [''quantity'', ''limit_price'', ''stop_price'', ''order_intent_id'']"
    using assms(2) by (simp add: MESSAGE_KEYS_def)
  then show ?thesis
    by (auto simp: get_normalized normalized_texts normalized_limit_price)
qed (rule normalized_text_field [OF assms(1)])

text \<open>The message of a plain payload, read field by field.\<close>

definition plain_message :: "order_env \<Rightarrow> pydict \<Rightarrow> int \<Rightarrow> int option \<Rightarrow> submit_request" where
  "plain_message v n requested created =
     (let f = (\<lambda>k. coerce_decimal_string v (get_or_none n k)) in
      \<lparr>sq_correlation_id = f ''correlation_id'', sq_account_id = f ''account_id'', sq_mode = oms_mode_enum v n,
       sq_instrument_id = f ''instrument_id'', sq_side = f ''side'', sq_order_type = f ''order_type'',
       sq_quantity = f ''quantity'', sq_limit_price = f ''limit_price'', sq_stop_price = f ''stop_price'',
       sq_time_in_force = f ''time_in_force'', sq_idempotency_key = f ''idempotency_key'',
       sq_requested_at = requested, sq_job_id = f ''job_id'', sq_order_intent_id = f ''order_intent_id'',
       sq_symbol = f ''symbol'', sq_created_at = created, sq_extension = optional_extension v n\<rparr>)"

lemma message_of_plain:
  assumes "pb_reads_text v" "\<And>k. k \<in> set MESSAGE_KEYS \<Longrightarrow> text_field (get_or_none n k)"
  shows "submit_message v n requested created = Inr (plain_message v n requested created)"
proof -
  have "ov_pb_text v (get_or_none n k) = Inr (coerce_decimal_string v (get_or_none n k))" if "k \<in> set MESSAGE_KEYS" for k
    using text_field_read [OF assms(1) assms(2) [OF that]] .
  then show ?thesis
    by (simp add: submit_message_def plain_message_def MESSAGE_KEYS_def TEXT_KEYS_def Let_def)
qed

text \<open>What the console dictionary holds.\<close>

lemma shown_text_get [simp]:
  "get_or_none (shown_text v k d) k' = (if k' = k then VStr (coerce_decimal_string v (get_or_none d k)) else get_or_none d k')"
  by (simp add: shown_text_def)

definition SHOWN_KEYS :: "string list" where
  "SHOWN_KEYS = TEXT_KEYS @ [''quantity'', ''limit_price'', ''stop_price'', ''runtime_id'', ''tenant_id'',
     ''strategy_version_id'', ''causation_id'', ''worker_identity'', ''deployment_id'']"

lemma mode_of_gets:
  "get_or_none d ''mode'' = get_or_none d' ''mode'' \<Longrightarrow> get_or_none d ''environment'' = get_or_none d' ''environment'' \<Longrightarrow>
     mode_string_for_console v d = mode_string_for_console v d'"
  by (simp add: mode_string_for_console_def wire_mode_text_def)

lemma dict_get_named [simp]:
  "dict_get (map (\<lambda>name. (name, f name)) names) k = (if k \<in> set names then Some (f k) else None)"
  by (induction names) auto

lemma get_or_none_Cons [simp]: "get_or_none ((k, x) # d) k' = (if k' = k then x else get_or_none d k')"
  by (simp add: get_or_none_def)

lemma shown_values:
  "k \<in> set SHOWN_KEYS \<Longrightarrow> get_or_none (order_intent_values v p la) k = VStr (coerce_decimal_string v (get_or_none p k))"
  "k \<in> {''created_at'', ''requested_at''} \<Longrightarrow>
     get_or_none (order_intent_values v p la) k = VStr (timestamp_wire_str v (get_or_none p k))"
  "get_or_none (order_intent_values v p la) ''mode'' = VStr (mode_string_for_console v p)"
  "get_or_none (order_intent_values v p la) ''order_intent_id'' =
     VStr (coerce_order_intent_id v (get_or_none p ''order_intent_id''))"
proof -
  show "get_or_none (order_intent_values v p la) k = VStr (coerce_decimal_string v (get_or_none p k))"
    if "k \<in> set SHOWN_KEYS"
    using that unfolding SHOWN_KEYS_def TEXT_KEYS_def order_intent_values_def Let_def append.simps list.set
    by (elim insertE) simp_all
  show "get_or_none (order_intent_values v p la) k = VStr (timestamp_wire_str v (get_or_none p k))"
    if "k \<in> {''created_at'', ''requested_at''}"
    using that unfolding order_intent_values_def Let_def by (elim insertE) simp_all
qed (simp_all add: order_intent_values_def)

lemma shown_fields:
  assumes "order_intent_wire_dict_for_console v p = Inr d"
  defines "n \<equiv> normalize_oms_submission_payload v p"
  shows "k \<in> set SHOWN_KEYS \<Longrightarrow> dict_get d k = Some (VStr (coerce_decimal_string v (get_or_none n k)))"
    and "k \<in> {''created_at'', ''requested_at''} \<Longrightarrow> dict_get d k = Some (VStr (timestamp_wire_str v (get_or_none n k)))"
    and "dict_get d ''mode'' = Some (VStr (mode_string_for_console v n))"
    and "dict_get d ''order_intent_id'' = Some (VStr (coerce_order_intent_id v (get_or_none n ''order_intent_id'')))"
    and "map fst d = ORDER_INTENT_DISPLAY_FIELD_NAMES"
proof -
  obtain p' where p': "p' = fold (shown_text v) [''tenant_id'', ''worker_identity'', ''deployment_id'', ''causation_id''] n"
    by simp
  have val: "get_or_none p' k = (if k \<in> set [''tenant_id'', ''worker_identity'', ''deployment_id'', ''causation_id'']
      then VStr (coerce_decimal_string v (get_or_none n k)) else get_or_none n k)" for k
    unfolding p' by simp
  then have coerce: "coerce_decimal_string v (get_or_none p' k) = coerce_decimal_string v (get_or_none n k)" for k
    by simp
  have same: "get_or_none p' k = get_or_none n k" if "k \<in> {''created_at'', ''requested_at'', ''order_intent_id''}" for k
    using that unfolding val by auto
  have mode: "mode_string_for_console v p' = mode_string_for_console v n"
    by (rule mode_of_gets) (simp_all add: val)
  obtain la where
    d: "d = map (\<lambda>name. (name, get_or_none (order_intent_values v p' la) name)) ORDER_INTENT_DISPLAY_FIELD_NAMES"
    using assms(1) unfolding order_intent_wire_dict_for_console_def Let_def
    by (auto simp: rbind_eq_Inr p' n_def simp del: fold.simps)
  have names: "set SHOWN_KEYS \<union> {''created_at'', ''requested_at'', ''mode'', ''order_intent_id''} \<subseteq>
      set ORDER_INTENT_DISPLAY_FIELD_NAMES"
    by (simp add: SHOWN_KEYS_def TEXT_KEYS_def ORDER_INTENT_DISPLAY_FIELD_NAMES_def)
  then have get: "dict_get d k = Some (get_or_none (order_intent_values v p' la) k)"
    if "k \<in> set SHOWN_KEYS \<union> {''created_at'', ''requested_at'', ''mode'', ''order_intent_id''}" for k
    using that unfolding d by auto
  show "k \<in> set SHOWN_KEYS \<Longrightarrow> dict_get d k = Some (VStr (coerce_decimal_string v (get_or_none n k)))"
    by (simp add: get shown_values coerce)
  show "k \<in> {''created_at'', ''requested_at''} \<Longrightarrow> dict_get d k = Some (VStr (timestamp_wire_str v (get_or_none n k)))"
    using get [of k] shown_values(2) [of k v p' la] same [of k] by auto
  show "dict_get d ''mode'' = Some (VStr (mode_string_for_console v n))"
    by (simp add: get shown_values mode)
  show "dict_get d ''order_intent_id'' = Some (VStr (coerce_order_intent_id v (get_or_none n ''order_intent_id'')))"
    by (simp add: get shown_values same)
  show "map fst d = ORDER_INTENT_DISPLAY_FIELD_NAMES"
    unfolding d by (simp add: comp_def)
qed

lemma oms_call_effects [simp]: "ow_effects (snd (oms_call v rq w)) = ow_effects w @ [Rpc rq]"
  by (auto simp: oms_call_def act_run ow_add_def split: rpc_answer.splits sum.splits)

lemma proto_timestamp_time [simp]: "to_proto_timestamp v (Some t) = act_ret (instant_of v t)"
  by (simp add: to_proto_timestamp_def)

lemma normalized_requested_time:
  assumes "get_or_none p ''requested_at'' = VTime t"
  shows "get_or_none (normalize_oms_submission_payload v p) ''requested_at'' = VTime t"
  using assms by (simp add: get_normalized normalized_requested_at none_or_empty_def get_or_none_def [of p]
      split: option.splits)

lemma aware_instant: "dt_aware t \<Longrightarrow> wire_timestamp (utc (instant_of v t)) = wire_timestamp t"
  by (simp add: instant_of_def wire_timestamp_def)

definition shows_request :: "pydict \<Rightarrow> submit_request \<Rightarrow> bool" where
  "shows_request d q \<longleftrightarrow> list_all (\<lambda>(k, x). dict_get d k = Some x) (request_fields q)"

lemma console_shows_message:
  assumes plain: "plain_payload v p" and d: "order_intent_wire_dict_for_console v p = Inr d"
    and t: "get_or_none p ''requested_at'' = VTime t"
  defines "n \<equiv> normalize_oms_submission_payload v p"
  shows "shows_request d (plain_message v n (instant_of v t)
           (map_option (instant_of v) (time_value (get_or_none n ''created_at''))))"
proof -
  note shown = shown_fields [OF d, folded n_def]
  have fld: "dict_get d k = Some (VStr (coerce_decimal_string v (get_or_none n k)))" if "k \<in> set SHOWN_KEYS" for k
    using shown(1) [OF that] .
  have mode: "dict_get d ''mode'' = Some (VStr (runtime_mode_value (oms_mode_enum v n)))"
    using shown(3) mode_shown_is_sent [of v n] plain by (simp add: plain_payload_def n_def)
  have oid: "dict_get d ''order_intent_id'' = Some (VStr (coerce_decimal_string v (get_or_none n ''order_intent_id'')))"
    using shown(4) by (simp add: n_def get_normalized normalized_texts)
  have aw: "dt_aware t"
    using plain t by (auto simp: plain_payload_def)
  have rqt: "dict_get d ''requested_at'' = Some (VStr (wire_timestamp (utc (instant_of v t))))"
    using shown(2) [of "''requested_at''"] normalized_requested_time [OF t] aware_instant [OF aw]
    by (simp add: n_def timestamp_wire_str_def)
  have "get_or_none n ''created_at'' = get_or_none p ''created_at''"
    by (simp add: n_def get_or_none_def normalized_kept)
  moreover have "aware_field (get_or_none p ''created_at'')"
    using plain by (simp add: plain_payload_def)
  ultimately have cre: "dict_get d ''created_at'' =
      Some (VStr (case map_option (instant_of v) (time_value (get_or_none n ''created_at'')) of
              None \<Rightarrow> [] | Some i \<Rightarrow> wire_timestamp (utc i)))"
    using shown(2) [of "''created_at''"] aware_instant
    by (cases "get_or_none p ''created_at''") (simp_all add: timestamp_wire_str_def)
  have ext: "list_all (\<lambda>(k, x). dict_get d k = Some x)
      (case optional_extension v n of None \<Rightarrow> [] | Some x \<Rightarrow>
        [(''runtime_id'', VStr (cm_runtime_id x)), (''tenant_id'', VStr (cm_tenant_id x)),
         (''strategy_version_id'', VStr (cm_strategy_version_id x)),
         (''causation_id'', VStr (cm_causation_id x)), (''worker_identity'', VStr (cm_worker_identity x)),
         (''deployment_id'', VStr (cm_deployment_id x))])"
    by (simp add: optional_extension_def Let_def fld SHOWN_KEYS_def)
  show ?thesis
    unfolding shows_request_def request_fields_def list_all_append
    using ext fld mode oid rqt cre
    by (simp add: plain_message_def Let_def SHOWN_KEYS_def TEXT_KEYS_def)
qed

text \<open>
  What the worker prints of an order intent is what it sends. For a payload with stripped texts,
  a mode of the contract and aware times, submitting makes exactly one call, whatever it answers,
  and every field of the message, with its extension, is the field of the printed dictionary.
\<close>

lemma console_shows_request:
  assumes "pb_reads_text v" "plain_payload v p" "order_intent_wire_dict_for_console v p = Inr d"
  shows "\<exists>q. ow_effects (snd (oms_submit_order_intent v p w)) = ow_effects w @ [Rpc (SubmitOrderIntent q)] \<and>
             shows_request d q"
proof -
  obtain t where t: "get_or_none p ''requested_at'' = VTime t"
    using assms(2) by (auto simp: plain_payload_def)
  let ?n = "normalize_oms_submission_payload v p"
  have texts: "text_field (get_or_none ?n k)" if "k \<in> set MESSAGE_KEYS" for k
    using normalized_message_field [OF _ that] assms(2) by (simp add: plain_payload_def)
  have "oms_submit_order_intent v p w = oms_call v (SubmitOrderIntent (plain_message v ?n (instant_of v t)
      (map_option (instant_of v) (time_value (get_or_none ?n ''created_at''))))) w"
    using message_of_plain [OF assms(1) texts]
    by (simp add: oms_submit_order_intent_def Let_def normalized_requested_time [OF t] act_run)
  then show ?thesis
    using console_shows_message [OF assms(2,3) t] by auto
qed

definition sample_order_env :: order_env where
  "sample_order_env =
     \<lparr>ov_str = (\<lambda>x. ''<object>''), ov_local = dt_wall, ov_zone = 0, ov_fromisoformat = (\<lambda>s. None),
      ov_parse_int = (\<lambda>s. None),
      ov_pb_text = (\<lambda>x. case x of VNone \<Rightarrow> Inr [] | VStr s \<Rightarrow> Inr s
                        | _ \<Rightarrow> Inl (TypeExc ''TypeError'' ''bad argument type for built-in operation'')),
      ov_fault = (\<lambda>es. None),
      ov_rpc = (\<lambda>es. Acked \<lparr>ak_accepted = True, ak_status = 1, ak_order_id = ''o-1'', ak_state = [],
                        ak_reason_code = [], ak_error_code = []\<rparr>),
      ov_http = (\<lambda>es. HttpUnreachable ''refused''), ov_json_loads = (\<lambda>s. Inl ''no JSON''),
      ov_now = int, ov_uuid_hex = (\<lambda>n. ''hex'' @ nat_str n), ov_uuid = (\<lambda>n. ''uuid'' @ nat_str n),
      ov_value = (\<lambda>n. None)\<rparr>"

definition fresh_order_world :: order_world where
  "fresh_order_world = \<lparr>ow_effects = [], ow_reads = 0, ow_draws = 0\<rparr>"

definition sample_shown :: pydict where
  "sample_shown =
     (case order_intent_wire_dict_for_console sample_order_env (order_intent_to_dict sample_order) of
        Inr d \<Rightarrow> d | Inl e \<Rightarrow> [])"

lemma sample_shown: "order_intent_wire_dict_for_console sample_order_env (order_intent_to_dict sample_order) = Inr sample_shown"
proof -
  have "get_or_none (normalize_oms_submission_payload sample_order_env (order_intent_to_dict sample_order))
      ''launch_attempt'' = VNone"
    by (simp add: get_normalized normalized_kept order_intent_to_dict_def sample_order_def opt_entry_def)
  then show ?thesis
    by (simp add: sample_shown_def order_intent_wire_dict_for_console_def launch_attempt_shown_def Let_def)
qed

lemma sample_env_reads: "pb_reads_text sample_order_env"
  by (simp add: pb_reads_text_def sample_order_env_def)

lemma sample_plain: "plain_payload sample_order_env (order_intent_to_dict sample_order)"
proof -
  have "list_all (\<lambda>k. text_field (get_or_none (order_intent_to_dict sample_order) k)) TEXT_KEYS"
    by code_simp
  moreover have "wire_mode_text sample_order_env (order_intent_to_dict sample_order) = ''PAPER''"
    by code_simp
  ultimately show ?thesis
    by (simp add: plain_payload_def order_intent_to_dict_def sample_order_def opt_entry_def get_or_none_def utc_def dt_aware_def)
qed

lemma console_shows_request_witness:
  "\<exists>q. ow_effects (snd (oms_submit_order_intent sample_order_env (order_intent_to_dict sample_order) fresh_order_world)) =
         ow_effects fresh_order_world @ [Rpc (SubmitOrderIntent q)] \<and> shows_request sample_shown q"
  using console_shows_request [OF sample_env_reads sample_plain sample_shown] .

section \<open>Refused before the call\<close>

text \<open>
  A replace or cancel calls the service at most once, and not at all when an identifying field is
  blank; a replace needs exactly one of quantity and order type.
\<close>

definition change_ready :: "order_env \<Rightarrow> pydict \<Rightarrow> bool" where
  "change_ready v p \<longleftrightarrow>
     list_all (\<lambda>k. coerce_decimal_string v (get_or_none p k) \<noteq> [])
       [''job_id'', ''account_id'', ''target_oms_order_id'', ''idempotency_key''] \<and>
     coerce_order_intent_id v (get_or_none p ''order_intent_id'') \<noteq> []"

definition one_of_quantity_and_type :: "order_env \<Rightarrow> pydict \<Rightarrow> bool" where
  "one_of_quantity_and_type v p \<longleftrightarrow>
     (coerce_decimal_string v (get_or_none p ''quantity'') = []) \<noteq> (coerce_decimal_string v (get_or_none p ''order_type'') = [])"

definition rpcs :: "order_effect list \<Rightarrow> oms_request list" where
  "rpcs es = concat (map (\<lambda>ef. case ef of Rpc rq \<Rightarrow> [rq] | _ \<Rightarrow> []) es)"

lemma rpcs_simps [simp]:
  "rpcs [] = []" "rpcs (es @ es') = rpcs es @ rpcs es'"
  "rpcs (ef # es) = (case ef of Rpc rq \<Rightarrow> [rq] | _ \<Rightarrow> []) @ rpcs es"
  by (simp_all add: rpcs_def)

lemma timestamp_effects [simp]:
  "ow_effects (snd (to_proto_timestamp v x w)) = ow_effects w"
  by (auto simp: to_proto_timestamp_def ow_now_def act_run split: option.splits)

lemma timestamp_returns: "\<exists>i w'. to_proto_timestamp v x w = (Inr i, w') \<and> ow_effects w' = ow_effects w"
  by (cases x) (auto simp: to_proto_timestamp_def ow_now_def act_run)

definition value_error :: "py_exc + 'a \<Rightarrow> bool" where
  "value_error r \<longleftrightarrow> (case r of Inl (ValueExc ty msg d) \<Rightarrow> True | _ \<Rightarrow> False)"

text \<open>The calls of the service that an action has added.\<close>

definition new_effects :: "(order_world, 'a) act \<Rightarrow> order_world \<Rightarrow> order_effect list" where
  "new_effects m w = drop (length (ow_effects w)) (ow_effects (snd (m w)))"

definition change_fields :: "change_request \<Rightarrow> string list" where
  "change_fields q =
     [cq_job_id q, cq_account_id q, cq_target_oms_order_id q, cq_idempotency_key q, cq_order_intent_id q]"

text \<open>
  A replace or cancel that lacks an identifying field, a replace with both or neither of
  quantity and order type, or a cancel without correlation id raises \<open>ValueError\<close> and calls nobody;
  any other makes exactly one call, with all identifying fields filled, and a replace with exactly
  one of quantity and order type.
\<close>

lemma change_calls_complete:
  "(case new_effects (oms_submit_replace_order_intent v p) w of
      [] \<Rightarrow> value_error (fst (oms_submit_replace_order_intent v p w)) \<and>
            \<not> (change_ready v p \<and> one_of_quantity_and_type v p)
    | [Rpc (SubmitReplaceOrderIntent q)] \<Rightarrow>
        change_ready v p \<and> one_of_quantity_and_type v p \<and> [] \<notin> set (change_fields q) \<and>
        (cq_quantity q = []) \<noteq> (cq_order_type q = [])
    | _ \<Rightarrow> False) \<and>
   (case new_effects (oms_submit_cancel_order_intent v p) w of
      [] \<Rightarrow> value_error (fst (oms_submit_cancel_order_intent v p w)) \<and>
            \<not> (change_ready v p \<and> coerce_decimal_string v (get_or_none p ''correlation_id'') \<noteq> [])
    | [Rpc (SubmitCancelOrderIntent q)] \<Rightarrow>
        change_ready v p \<and> [] \<notin> set (cq_correlation_id q # change_fields q) \<and>
        cq_quantity q = [] \<and> cq_order_type q = []
    | _ \<Rightarrow> False)"
proof -
  obtain i w' where r: "to_proto_timestamp v (change_time v (get_or_none p ''requested_at'')) w = (Inr i, w')"
      "ow_effects w' = ow_effects w"
    using timestamp_returns by blast
  show ?thesis
    using r by (auto simp: oms_submit_replace_order_intent_def oms_submit_cancel_order_intent_def Let_def
        act_run new_effects_def value_error_def change_ready_def one_of_quantity_and_type_def change_fields_def
        coerce_cancel_order_intent_id_def)
qed

end
