(* ===== verification/OrderSubmission.thy ===== *)
theory OrderSubmission
  imports OmsClient LaunchSpec
begin

text \<open>
  \<open>runtime/integration/oms_gateway.py\<close> and \<open>runtime/runtime/sdk_order_intent_submission.py\<close>: the
  gateway prints an intent, hands it to the client and tells a callback what came of it; the
  submitter turns the order of a strategy into a payload and never raises. The order of the
  external SDK is its attributes, a dictionary; an enumeration member is an object whose \<open>value\<close>
  the environment knows. Printing of banner and JSON text is one effect. Log records are effects
  without faults.
\<close>

section \<open>The gateway\<close>

record oms_gateway =
  og_client :: order_client
  og_notifies :: bool

definition ORDER_INTENT_CLI_BANNER :: string where
  "ORDER_INTENT_CLI_BANNER = ''---------order intent from worker runtime--------------''"

definition CANCEL_INTENT_CLI_BANNER :: string where
  "CANCEL_INTENT_CLI_BANNER = ''---------cancel order intent from worker runtime--------------''"

definition REPLACE_INTENT_CLI_BANNER :: string where
  "REPLACE_INTENT_CLI_BANNER = ''---------replace order intent from worker runtime--------------''"

definition print_order_intent_to_console :: "order_env \<Rightarrow> pydict \<Rightarrow> (order_world, unit) act" where
  "print_order_intent_to_console v payload =
     act_bind (act_of (order_intent_wire_dict_for_console v payload))
       (\<lambda>wire. ow_emit v (Printed ORDER_INTENT_CLI_BANNER wire))"

definition print_cancel_order_intent_to_console :: "order_env \<Rightarrow> pydict \<Rightarrow> (order_world, unit) act" where
  "print_cancel_order_intent_to_console v payload =
     ow_emit v (Printed CANCEL_INTENT_CLI_BANNER (cancel_order_intent_wire_dict_for_console v payload))"

definition print_replace_order_intent_to_console :: "order_env \<Rightarrow> pydict \<Rightarrow> (order_world, unit) act" where
  "print_replace_order_intent_to_console v payload =
     ow_emit v (Printed REPLACE_INTENT_CLI_BANNER (replace_order_intent_wire_dict_for_console v payload))"

definition coerce_submit_result_dict :: "pyval \<Rightarrow> pydict" where
  "coerce_submit_result_dict result = (case result of VDict d \<Rightarrow> d | _ \<Rightarrow> [(''result'', result)])"

definition ow_log :: "string \<Rightarrow> (order_world, unit) act" where
  "ow_log name = act_modify (ow_add (Logged name))"

definition notify_order_intent_result ::
  "order_env \<Rightarrow> oms_gateway \<Rightarrow> pydict \<Rightarrow> pyval \<Rightarrow> (order_world, unit) act" where
  "notify_order_intent_result v g payload result =
     act_when (og_notifies g)
       (act_catch (ow_emit v (GatewayNotified ''oms'' payload (coerce_submit_result_dict result)))
          (\<lambda>_. ow_log ''oms_order_intent_journal_callback_failed''))"

text \<open>Hand a payload to a method of the client; a client without it is a \<open>TypeError\<close>.\<close>

definition gateway_send ::
  "order_env \<Rightarrow> oms_gateway \<Rightarrow> (pydict \<Rightarrow> (order_world, pyval) act) option \<Rightarrow> string \<Rightarrow> pydict \<Rightarrow> (order_world, pyval) act" where
  "gateway_send v g sender name payload =
     (case sender of
        None \<Rightarrow> act_raise (TypeExc ''TypeError'' (''OMS client must expose '' @ name @ ''(payload).''))
      | Some send \<Rightarrow>
          act_bind (send payload) (\<lambda>out.
          act_then (notify_order_intent_result v g payload out) (act_ret out)))"

definition submit_order_intent_payload :: "order_env \<Rightarrow> oms_gateway \<Rightarrow> pydict \<Rightarrow> (order_world, pyval) act" where
  "submit_order_intent_payload v g payload =
     act_then (print_order_intent_to_console v payload)
       (gateway_send v g (oc_submit (og_client g)) ''submit_order_intent'' payload)"

definition submit_order_intent :: "order_env \<Rightarrow> oms_gateway \<Rightarrow> order_intent \<Rightarrow> (order_world, pyval) act" where
  "submit_order_intent v g intent =
     (let normalized_payload = order_intent_to_dict intent in
      act_then (print_order_intent_to_console v normalized_payload)
        (gateway_send v g (oc_submit (og_client g)) ''submit_order_intent'' normalized_payload))"

definition submit_replace_order_intent_payload :: "order_env \<Rightarrow> oms_gateway \<Rightarrow> pydict \<Rightarrow> (order_world, pyval) act" where
  "submit_replace_order_intent_payload v g payload =
     act_then (print_replace_order_intent_to_console v payload)
       (gateway_send v g (oc_replace (og_client g)) ''submit_replace_order_intent'' payload)"

definition submit_cancel_order_intent_payload :: "order_env \<Rightarrow> oms_gateway \<Rightarrow> pydict \<Rightarrow> (order_world, pyval) act" where
  "submit_cancel_order_intent_payload v g payload =
     act_then (print_cancel_order_intent_to_console v payload)
       (gateway_send v g (oc_cancel (og_client g)) ''submit_cancel_order_intent'' payload)"

section \<open>The payload of an SDK order\<close>

type_synonym sdk_intent = pydict

definition attr_of :: "sdk_intent \<Rightarrow> string \<Rightarrow> pyval" where
  "attr_of intent name = get_or_none intent name"

definition key_candidate :: "order_env \<Rightarrow> sdk_intent \<Rightarrow> string \<Rightarrow> string" where
  "key_candidate v intent attr =
     (if py_truthy (attr_of intent attr) then py_strip (py_str (ov_str v) (attr_of intent attr)) else [])"

definition intent_idempotency_key :: "order_env \<Rightarrow> sdk_intent \<Rightarrow> (order_world, string) act" where
  "intent_idempotency_key v intent =
     (if key_candidate v intent ''idempotency_key'' \<noteq> [] then act_ret (key_candidate v intent ''idempotency_key'')
      else if key_candidate v intent ''client_order_id'' \<noteq> [] then act_ret (key_candidate v intent ''client_order_id'')
      else ow_draw (ov_uuid_hex v))"

definition intent_quantity_str :: "order_env \<Rightarrow> sdk_intent \<Rightarrow> string" where
  "intent_quantity_str v intent =
     (let q = attr_of intent ''quantity''; q = (if q = VNone then attr_of intent ''qty'' else q)
      in if q = VNone then [] else py_str (ov_str v) q)"

definition sdk_enum_value :: "order_env \<Rightarrow> pyval \<Rightarrow> string" where
  "sdk_enum_value v obj =
     (case obj of
        VNone \<Rightarrow> []
      | VObj n \<Rightarrow> py_str (ov_str v) (case ov_value v n of None \<Rightarrow> obj | Some x \<Rightarrow> x)
      | _ \<Rightarrow> py_str (ov_str v) obj)"

definition worker_local_requested_at :: "order_env \<Rightarrow> (order_world, pydatetime) act" where
  "worker_local_requested_at v =
     act_bind (ow_now v) (\<lambda>i. act_ret \<lparr>dt_wall = i + ov_zone v, dt_offset = Some (ov_zone v)\<rparr>)"

definition normalize_utc_dt :: "pydatetime \<Rightarrow> pydatetime" where
  "normalize_utc_dt t = as_utc t"

text \<open>A callback reads its answer off the history.\<close>

type_synonym answer = "order_effect list \<Rightarrow> py_exc + pyval"

definition ask :: "answer \<Rightarrow> (order_world, pyval) act" where
  "ask f = act_with (\<lambda>w. f (ow_effects w)) act_of"

definition intent_created_at_sim :: "order_env \<Rightarrow> sdk_intent \<Rightarrow> answer option \<Rightarrow> (order_world, pydatetime) act" where
  "intent_created_at_sim v intent clock_now =
     (case attr_of intent ''created_at'' of
        VTime t \<Rightarrow> act_ret (normalize_utc_dt t)
      | _ \<Rightarrow>
          act_bind
            (case clock_now of
               None \<Rightarrow> act_ret VNone
             | Some f \<Rightarrow> act_catch (ask f) (\<lambda>_. act_then (ow_log ''intent_created_at_clock_unavailable_using_wall_time'') (act_ret VNone)))
            (\<lambda>x. case x of
               VTime t \<Rightarrow> act_ret (normalize_utc_dt t)
             | _ \<Rightarrow> act_bind (ow_now v) (\<lambda>i. act_ret (utc i))))"

definition intent_created_at_for_payload ::
  "order_env \<Rightarrow> sdk_intent \<Rightarrow> answer option \<Rightarrow> answer option \<Rightarrow> (order_world, pydatetime) act" where
  "intent_created_at_for_payload v intent clock_now latest_market_event_at =
     act_bind
       (case latest_market_event_at of
          None \<Rightarrow> act_ret VNone
        | Some f \<Rightarrow> act_catch (ask f) (\<lambda>_. act_then (ow_log ''intent_created_at_market_snapshot_failed'') (act_ret VNone)))
       (\<lambda>snap. case snap of
          VTime t \<Rightarrow> act_ret (normalize_utc_dt t)
        | _ \<Rightarrow> intent_created_at_sim v intent clock_now)"

text \<open>\<open>launch_spec.account_id or launch_spec.trader_id or ''\<close>.\<close>

definition spec_account :: "launch_spec \<Rightarrow> string" where
  "spec_account spec =
     (if or_empty (ls_account_id spec) \<noteq> [] then or_empty (ls_account_id spec) else or_empty (ls_trader_id spec))"

definition price_text :: "order_env \<Rightarrow> pyval \<Rightarrow> pyval" where
  "price_text v x = VStr (if x = VNone then [] else py_str (ov_str v) x)"

definition instrument_of :: "sdk_intent \<Rightarrow> pyval" where
  "instrument_of intent = (case dict_get intent ''instrument_id'' of None \<Rightarrow> VStr [] | Some x \<Rightarrow> x)"

definition wire_correlation :: "order_env \<Rightarrow> launch_spec \<Rightarrow> string \<Rightarrow> (order_world, string) act" where
  "wire_correlation v spec correlation_id =
     (let bundle_corr = py_strip (or_empty (ls_correlation_id spec)); fallback_corr = py_strip correlation_id in
      if bundle_corr \<noteq> [] then act_ret bundle_corr
      else if fallback_corr \<noteq> [] then act_ret fallback_corr
      else ow_draw (ov_uuid_hex v))"

definition oms_payload :: "order_env \<Rightarrow> sdk_intent \<Rightarrow> launch_spec \<Rightarrow> string \<Rightarrow> string \<Rightarrow> pydict" where
  "oms_payload v intent spec key corr =
     (let limit = attr_of intent ''limit_price'';
          price_field = (if limit \<noteq> VNone then limit else attr_of intent ''price'')
      in [(''correlation_id'', VStr corr),
          (''account_id'', VStr (spec_account spec)),
          (''mode'', VStr (runtime_mode_value (ls_mode spec))),
          (''instrument_id'', instrument_of intent),
          (''side'', VStr (sdk_enum_value v (attr_of intent ''side''))),
          (''order_type'', VStr (sdk_enum_value v (attr_of intent ''order_type''))),
          (''time_in_force'', VStr (sdk_enum_value v (attr_of intent ''time_in_force''))),
          (''quantity'', VStr (intent_quantity_str v intent)),
          (''limit_price'', price_text v price_field),
          (''stop_price'', price_text v (attr_of intent ''stop_price'')),
          (''idempotency_key'', VStr key),
          (''runtime_id'', VStr (ls_runtime_id spec)),
          (''strategy_version_id'', VStr (ls_strategy_version_id spec)),
          (''tenant_id'', VStr (ls_tenant_id spec)),
          (''job_id'', VStr (py_strip (or_empty (ls_job_id spec)))),
          (''symbol'', VStr (py_strip (or_empty (ls_symbol spec))))])"

definition sdk_order_intent_to_oms_grpc_payload ::
  "order_env \<Rightarrow> sdk_intent \<Rightarrow> launch_spec \<Rightarrow> string \<Rightarrow> (order_world, pydict) act" where
  "sdk_order_intent_to_oms_grpc_payload v intent spec correlation_id =
     act_bind (intent_idempotency_key v intent) (\<lambda>cid.
     act_bind (wire_correlation v spec correlation_id) (\<lambda>wire_corr.
     act_ret (oms_payload v intent spec cid wire_corr)))"

definition sdk_order_intent_to_backtest_grpc_payload ::
  "order_env \<Rightarrow> sdk_intent \<Rightarrow> launch_spec \<Rightarrow> (order_world, pydict) act" where
  "sdk_order_intent_to_backtest_grpc_payload v intent spec =
     act_bind (intent_idempotency_key v intent) (\<lambda>cid.
     act_ret [(''correlation_id'', VStr (py_strip (or_empty (ls_correlation_id spec)))),
          (''account_id'', VStr (spec_account spec)),
          (''runtime_id'', VStr (ls_runtime_id spec)),
          (''job_id'', VStr (py_strip (or_empty (ls_job_id spec)))),
          (''symbol'', VStr (py_strip (or_empty (ls_symbol spec)))),
          (''instrument_id'', instrument_of intent),
          (''side'', VStr (sdk_enum_value v (attr_of intent ''side''))),
          (''order_type'', VStr (sdk_enum_value v (attr_of intent ''order_type''))),
          (''time_in_force'', VStr (sdk_enum_value v (attr_of intent ''time_in_force''))),
          (''quantity'', VStr (intent_quantity_str v intent)),
          (''limit_price'', price_text v (attr_of intent ''limit_price'')),
          (''stop_price'', price_text v (attr_of intent ''stop_price'')),
          (''idempotency_key'', VStr cid)])"

section \<open>The submitter\<close>

record submitter =
  sb_gateway :: oms_gateway
  sb_spec :: launch_spec
  sb_callback :: bool
  sb_correlation :: string
  sb_disabled :: bool
  sb_latest :: "answer option"
  sb_allocate :: "answer option"
  sb_clock_now :: "answer option"

definition can_call_oms :: "submitter \<Rightarrow> bool" where
  "can_call_oms sb \<longleftrightarrow> oc_submit (og_client (sb_gateway sb)) \<noteq> None"

definition submit_unavailable :: pydict where
  "submit_unavailable =
     [(''accepted'', VBool False),
      (''reason_code'', VStr (runtime_worker_reason_code_value RC_BOUND_DEPENDENCY_UNAVAILABLE)),
      (''error_code'', VStr (worker_error_code_value WE_DEPENDENCY_UNHEALTHY))]"

definition next_order_intent_id :: "order_env \<Rightarrow> submitter \<Rightarrow> (order_world, pyval) act" where
  "next_order_intent_id v sb =
     (case sb_allocate sb of
        Some f \<Rightarrow> ask f
      | None \<Rightarrow> act_bind (ow_draw (ov_uuid v)) (\<lambda>s. act_ret (VStr s)))"

definition prepared_payload :: "order_env \<Rightarrow> submitter \<Rightarrow> sdk_intent \<Rightarrow> (order_world, pydict) act" where
  "prepared_payload v sb intent =
     act_bind (sdk_order_intent_to_oms_grpc_payload v intent (sb_spec sb) (sb_correlation sb)) (\<lambda>payload.
     act_bind (next_order_intent_id v sb) (\<lambda>oid.
     act_bind (intent_created_at_for_payload v intent (sb_clock_now sb) (sb_latest sb)) (\<lambda>created.
     act_bind (worker_local_requested_at v) (\<lambda>requested.
     act_ret (dict_set ''requested_at'' (VTime requested) (dict_set ''created_at'' (VTime created)
               (dict_set ''order_intent_id'' oid payload)))))))"

definition prepare_failed_payload :: "order_env \<Rightarrow> submitter \<Rightarrow> sdk_intent \<Rightarrow> pydict" where
  "prepare_failed_payload v sb intent =
     [(''_prepare_failed'', VBool True),
      (''runtime_id'', VStr (ls_runtime_id (sb_spec sb))),
      (''instrument_id'', VStr (str_or_empty (ov_str v) (instrument_of intent))),
      (''symbol'', VStr (py_strip (or_empty (ls_symbol (sb_spec sb)))))]"

definition submit_or_decline :: "order_env \<Rightarrow> submitter \<Rightarrow> pydict \<Rightarrow> (order_world, pyval) act" where
  "submit_or_decline v sb payload =
     (if sb_disabled sb \<or> \<not> can_call_oms sb then act_ret (VDict submit_unavailable)
      else submit_order_intent_payload v (sb_gateway sb) payload)"

definition sdk_submit :: "order_env \<Rightarrow> submitter \<Rightarrow> sdk_intent \<Rightarrow> (order_world, pyval) act" where
  "sdk_submit v sb intent =
     act_bind
       (act_catch
          (act_bind (prepared_payload v sb intent) (\<lambda>payload.
           act_bind (submit_or_decline v sb payload) (\<lambda>result. act_ret (payload, result))))
          (\<lambda>_. act_then (ow_log ''risk_order_intent_submit_prepare_failed'')
                 (act_ret (prepare_failed_payload v sb intent, VDict submit_unavailable))))
       (\<lambda>(payload, result).
          act_then
            (act_when (sb_callback sb)
               (act_catch (ow_emit v (SubmitterNotified ''oms'' payload result))
                  (\<lambda>_. ow_log ''on_order_intent_result_callback_failed'')))
            (act_ret result))"

text \<open>There is a submitter when a gateway is there and somebody is told: the service or the callback.\<close>

definition build_sdk_order_intent_submitter ::
  "order_env \<Rightarrow> oms_gateway option \<Rightarrow> submitter \<Rightarrow> (sdk_intent \<Rightarrow> (order_world, pyval) act) option" where
  "build_sdk_order_intent_submitter v oms sb0 =
     (case oms of
        None \<Rightarrow> None
      | Some g \<Rightarrow>
          let sb = sb0\<lparr>sb_gateway := g\<rparr> in
          if (\<not> sb_disabled sb \<and> can_call_oms sb) \<or> sb_callback sb then Some (sdk_submit v sb) else None)"

definition safe_submit_sdk_order_intent ::
  "(sdk_intent \<Rightarrow> (order_world, pyval) act) \<Rightarrow> sdk_intent \<Rightarrow> (order_world, unit) act" where
  "safe_submit_sdk_order_intent submit intent =
     act_catch (act_then (submit intent) (act_ret ()))
       (\<lambda>_. ow_log ''sdk_order_intent_grpc_submit_failed'')"

section \<open>What preparing and printing do\<close>

definition submitter_notes :: "order_effect list \<Rightarrow> (pydict \<times> pyval) list" where
  "submitter_notes es = concat (map (\<lambda>ef. case ef of SubmitterNotified s p r \<Rightarrow> [(p, r)] | _ \<Rightarrow> []) es)"

lemma submitter_notes_simps [simp]:
  "submitter_notes [] = []" "submitter_notes (es @ es') = submitter_notes es @ submitter_notes es'"
  "submitter_notes (ef # es) = (case ef of SubmitterNotified s p r \<Rightarrow> [(p, r)] | _ \<Rightarrow> []) @ submitter_notes es"
  by (simp_all add: submitter_notes_def)

text \<open>Only effects are added, none of them a call or a note of the submitter.\<close>

definition silent :: "order_world \<Rightarrow> order_world \<Rightarrow> bool" where
  "silent w w' \<longleftrightarrow>
     (\<exists>es. ow_effects w' = ow_effects w @ es \<and> rpcs es = [] \<and> submitter_notes es = [])"

interpretation quiet: step_order silent
proof
  show "silent w w" for w
    by (simp add: silent_def)
  show "silent w w' \<Longrightarrow> silent w' w'' \<Longrightarrow> silent w w''" for w w' w''
    unfolding silent_def by force
qed

lemma quiet_base:
  "moves silent (ow_now v)" "moves silent (ow_draw f)" "moves silent (ask g)" "moves silent (ow_log name)"
  by (auto simp: moves_def silent_def ow_now_def ow_draw_def ask_def ow_log_def ow_add_def act_run)

lemma quiet_emit:
  "(case ef of Rpc q \<Rightarrow> False | SubmitterNotified s p r \<Rightarrow> False | _ \<Rightarrow> True) \<Longrightarrow> moves silent (ow_emit v ef)"
  by (auto simp: moves_def silent_def ow_emit_def ow_add_def act_run split: order_effect.splits option.splits)

lemmas quiet_intros = quiet.ret quiet.raise quiet.result quiet.bind quiet.seq2 quiet.guarded quiet.reading
  quiet.caught quiet.cond quiet.option quiet_base quiet_emit

lemma quiet_pyval: "(\<And>t. x = VTime t \<Longrightarrow> moves silent (m t)) \<Longrightarrow> moves silent n \<Longrightarrow>
    moves silent (case x of VTime t \<Rightarrow> m t | _ \<Rightarrow> n)"
  by (cases x) simp_all

lemma prepared_quiet: "moves silent (prepared_payload v sb intent)"
  unfolding prepared_payload_def sdk_order_intent_to_oms_grpc_payload_def intent_idempotency_key_def
    wire_correlation_def Let_def next_order_intent_id_def intent_created_at_for_payload_def
    intent_created_at_sim_def worker_local_requested_at_def
  by (intro quiet_intros quiet_pyval)

lemma print_quiet: "moves silent (print_order_intent_to_console v p)"
  unfolding print_order_intent_to_console_def by (intro quiet_intros) simp

text \<open>The client's submit makes at most one call and ends with it.\<close>

lemma client_submit_effects:
  obtains es where "ow_effects (snd (oms_submit_order_intent v p w)) = ow_effects w @ es"
    "length (rpcs es) \<le> 1" "submitter_notes es = []"
proof -
  obtain i w' where r: "to_proto_timestamp v (time_value (get_or_none (normalize_oms_submission_payload v p) ''requested_at'')) w
      = (Inr i, w')" "ow_effects w' = ow_effects w"
    using timestamp_returns by blast
  show ?thesis
    by (cases "submit_message v (normalize_oms_submission_payload v p) i
          (map_option (instant_of v) (time_value (get_or_none (normalize_oms_submission_payload v p) ''created_at'')))")
       (use r that in \<open>auto simp: oms_submit_order_intent_def Let_def act_run\<close>)
qed

text \<open>At most one call, and no note of the submitter.\<close>

definition one_call :: "order_world \<Rightarrow> order_world \<Rightarrow> bool" where
  "one_call w w' \<longleftrightarrow>
     (\<exists>es. ow_effects w' = ow_effects w @ es \<and> length (rpcs es) \<le> 1 \<and> submitter_notes es = [])"

lemma one_call_silent: "one_call w w' \<Longrightarrow> silent w' w'' \<Longrightarrow> one_call w w''" "silent w w' \<Longrightarrow> one_call w' w'' \<Longrightarrow> one_call w w''"
    "silent w w' \<Longrightarrow> one_call w w'"
  unfolding one_call_def silent_def by force+

lemma notify_quiet: "moves silent (notify_order_intent_result v g p r)"
  unfolding notify_order_intent_result_def by (intro quiet_intros) simp

lemma submit_payload_one_call:
  assumes "og_client g = oms_grpc_client v"
  shows "moves one_call (submit_order_intent_payload v g p)"
  unfolding moves_def
proof
  fix w
  have print: "silent w (snd (print_order_intent_to_console v p w))"
    by (rule movesD [OF print_quiet])
  have send: "one_call w (snd (gateway_send v g (oc_submit (og_client g)) name p w))" for w name
  proof -
    have "one_call w (snd (oms_submit_order_intent v p w))"
      using client_submit_effects [of v p w] unfolding one_call_def by metis
    then show ?thesis
      using movesD [OF notify_quiet] one_call_silent(1)
      by (auto simp: gateway_send_def assms oms_grpc_client_def dict_answer_def act_run split: prod.splits sum.splits)
         (metis snd_conv)+
  qed
  show "one_call w (snd (submit_order_intent_payload v g p w))"
    using print one_call_silent(2,3) send
    by (auto simp: submit_order_intent_payload_def act_run split: prod.splits sum.splits)
qed

section \<open>The submitter always answers\<close>

definition attempt :: "order_env \<Rightarrow> submitter \<Rightarrow> sdk_intent \<Rightarrow> (order_world, pydict \<times> pyval) act" where
  "attempt v sb intent =
     act_catch
       (act_bind (prepared_payload v sb intent) (\<lambda>payload.
        act_bind (submit_or_decline v sb payload) (\<lambda>result. act_ret (payload, result))))
       (\<lambda>_. act_then (ow_log ''risk_order_intent_submit_prepare_failed'')
              (act_ret (prepare_failed_payload v sb intent, VDict submit_unavailable)))"

lemma sdk_submit_attempt:
  "sdk_submit v sb intent = act_bind (attempt v sb intent)
     (\<lambda>(payload, result). act_then
        (act_when (sb_callback sb)
           (act_catch (ow_emit v (SubmitterNotified ''oms'' payload result))
              (\<lambda>_. ow_log ''on_order_intent_result_callback_failed'')))
        (act_ret result))"
  by (simp add: sdk_submit_def attempt_def)

lemma attempt_returns: "\<exists>p r w'. attempt v sb intent w = (Inr (p, r), w')"
  by (simp add: attempt_def act_run ow_log_def split: prod.split sum.split)

lemma decline_one_call:
  assumes "og_client (sb_gateway sb) = oms_grpc_client v"
  shows "one_call w (snd (submit_or_decline v sb p w))"
    and "sb_disabled sb \<Longrightarrow> silent w (snd (submit_or_decline v sb p w))"
  using movesD [OF submit_payload_one_call [OF assms], of w p]
  by (auto simp: submit_or_decline_def act_run one_call_def silent_def)

lemma attempt_effects:
  assumes "og_client (sb_gateway sb) = oms_grpc_client v"
  shows "one_call w (snd (attempt v sb intent w))"
    and "sb_disabled sb \<Longrightarrow> silent w (snd (attempt v sb intent w))"
proof -
  obtain r1 w1 where prep: "prepared_payload v sb intent w = (r1, w1)" by (cases "prepared_payload v sb intent w")
  have q1: "silent w w1"
    using movesD [OF prepared_quiet, of w v sb intent] by (simp add: prep)
  have log: "silent w' (ow_add (Logged name) w')" for w' name
    using movesD [OF quiet_base(4), of w' name] by (simp add: ow_log_def act_run)
  have one: "one_call w w2" if "submit_or_decline v sb p w1 = (r2, w2)" for p r2 w2
    using one_call_silent(2) [OF q1 decline_one_call(1) [OF assms, of w1 p]] that by simp
  show "one_call w (snd (attempt v sb intent w))"
    using one one_call_silent(1) [OF one log] one_call_silent(3) [OF quiet.trans [OF q1 log]]
    by (cases r1) (auto simp: attempt_def act_run prep ow_log_def split: prod.splits sum.splits)
  assume off: "sb_disabled sb"
  have one: "silent w w2" if "submit_or_decline v sb p w1 = (r2, w2)" for p r2 w2
    using quiet.trans [OF q1 decline_one_call(2) [OF assms off, of w1 p]] that by simp
  show "silent w (snd (attempt v sb intent w))"
    using one quiet.trans [OF one log] quiet.trans [OF q1 log]
    by (cases r1) (auto simp: attempt_def act_run prep ow_log_def split: prod.splits sum.splits)
qed

lemma callback_effects:
  "\<exists>es. snd (act_catch (ow_emit v (SubmitterNotified ''oms'' p r)) (\<lambda>_. ow_log name) w) =
      w\<lparr>ow_effects := ow_effects w @ [SubmitterNotified ''oms'' p r] @ es\<rparr> \<and> rpcs es = [] \<and> submitter_notes es = [] \<and>
      fst (act_catch (ow_emit v (SubmitterNotified ''oms'' p r)) (\<lambda>_. ow_log name) w) = Inr ()"
  by (auto simp: ow_emit_def ow_log_def ow_add_def act_run split: option.splits
      intro: exI [of _ "[]"] exI [of _ "[Logged name]"])

text \<open>
  C25: submitting an order of the strategy never raises, whatever the order holds and whatever the
  random source, the market snapshot, the console, the service and the callbacks do. It makes at
  most one call of the service, none when order calls are switched off, and tells the callback, if
  there is one, exactly once, with the very result it returns.
\<close>

theorem submitter_always_answers:
  assumes "og_client (sb_gateway sb) = oms_grpc_client v"
  shows "\<exists>r p. fst (sdk_submit v sb intent w) = Inr r \<and>
           length (rpcs (new_effects (sdk_submit v sb intent) w)) \<le> (if sb_disabled sb then 0 else 1) \<and>
           submitter_notes (new_effects (sdk_submit v sb intent) w) = (if sb_callback sb then [(p, r)] else [])"
proof -
  obtain p r w1 where a: "attempt v sb intent w = (Inr (p, r), w1)"
    using attempt_returns by blast
  obtain es where es: "ow_effects w1 = ow_effects w @ es" "submitter_notes es = []"
      "length (rpcs es) \<le> (if sb_disabled sb then 0 else 1)"
    using attempt_effects [OF assms, of w intent] a by (cases "sb_disabled sb") (auto simp: one_call_def silent_def)
  obtain es' where cb: "snd (act_catch (ow_emit v (SubmitterNotified ''oms'' p r))
        (\<lambda>_. ow_log ''on_order_intent_result_callback_failed'') w1) =
      w1\<lparr>ow_effects := ow_effects w1 @ [SubmitterNotified ''oms'' p r] @ es'\<rparr>" "rpcs es' = []" "submitter_notes es' = []"
      "fst (act_catch (ow_emit v (SubmitterNotified ''oms'' p r))
        (\<lambda>_. ow_log ''on_order_intent_result_callback_failed'') w1) = Inr ()"
    using callback_effects by blast
  have "sdk_submit v sb intent w = (Inr r, if sb_callback sb
      then w1\<lparr>ow_effects := ow_effects w1 @ [SubmitterNotified ''oms'' p r] @ es'\<rparr> else w1)"
    using cb(1,4) by (simp add: sdk_submit_attempt act_run(3,4,5) a act_run(1) prod_eq_iff split: prod.splits)
  then show ?thesis
    using es cb(2,3) by (auto simp: new_effects_def)
qed

section \<open>What the service answers and what is reported\<close>

text \<open>The dictionary of an acknowledgement; \<open>None\<close> when the answer raises.\<close>

definition answered :: "rpc_answer \<Rightarrow> pydict option" where
  "answered a =
     (case a of Acked ack \<Rightarrow> (case ack_result ack of Inl e \<Rightarrow> None | Inr d \<Rightarrow> Some d) | _ \<Rightarrow> None)"

lemma oms_call_run:
  "\<exists>e. oms_call v rq w =
     ((case answered (ov_rpc v (ow_effects w @ [Rpc rq])) of Some d \<Rightarrow> Inr d | None \<Rightarrow> Inl e),
      w\<lparr>ow_effects := ow_effects w @ [Rpc rq]\<rparr>)"
  by (cases "ov_rpc v (ow_effects w @ [Rpc rq])")
     (auto simp: oms_call_def act_run ow_add_def answered_def split: sum.splits)

definition no_faults :: "order_env \<Rightarrow> bool" where
  "no_faults v \<longleftrightarrow> (\<forall>es. ov_fault v es = None)"

lemma emit_ok: "no_faults v \<Longrightarrow> ow_emit v ef w = (Inr (), ow_add ef w)"
  by (simp add: ow_emit_def no_faults_def act_run)

text \<open>A payload the submitter has prepared is read by protobuf and the console.\<close>

fun plain_text_value :: "pyval \<Rightarrow> bool" where
  "plain_text_value VNone = True"
| "plain_text_value (VStr s) = True"
| "plain_text_value x = False"

lemma message_made:
  assumes "pb_reads_text v" "\<And>k. k \<in> set MESSAGE_KEYS \<Longrightarrow> plain_text_value (get_or_none n k)"
  shows "\<exists>q. submit_message v n requested created = Inr q \<and>
            sq_idempotency_key q = text_value (get_or_none n ''idempotency_key'') \<and>
            sq_order_intent_id q = text_value (get_or_none n ''order_intent_id'') \<and>
            sq_requested_at q = requested"
proof -
  have "ov_pb_text v x = Inr (text_value x)" if "plain_text_value x" for x
    using that assms(1) by (cases x) (simp_all add: pb_reads_text_def)
  then have "ov_pb_text v (get_or_none n k) = Inr (text_value (get_or_none n k))" if "k \<in> set MESSAGE_KEYS" for k
    using assms(2) [OF that] .
  then show ?thesis
    by (simp add: submit_message_def MESSAGE_KEYS_def TEXT_KEYS_def Let_def)
qed

definition PAYLOAD_KEYS :: "string list" where
  "PAYLOAD_KEYS = [''correlation_id'', ''account_id'', ''side'', ''order_type'', ''idempotency_key'', ''job_id'', ''symbol'',
     ''time_in_force'']"

definition prepared :: "sdk_intent \<Rightarrow> pydict \<Rightarrow> bool" where
  "prepared intent p \<longleftrightarrow>
     list_all (\<lambda>k. \<exists>s. dict_get p k = Some (VStr s)) PAYLOAD_KEYS \<and>
     dict_get p ''instrument_id'' = Some (instrument_of intent) \<and> dict_get p ''launch_attempt'' = None \<and>
     (\<exists>t. dict_get p ''requested_at'' = Some (VTime t) \<and> dt_aware t)"

lemma act_bind_returns:
  "act_bind m f w = (Inr y, w') \<longleftrightarrow> (\<exists>x w1. m w = (Inr x, w1) \<and> f x w1 = (Inr y, w'))"
  by (auto simp: act_run split: prod.splits sum.splits)

lemma prepared_payload_shape:
  assumes "prepared_payload v sb intent w = (Inr p, w1)"
  shows "prepared intent p"
proof -
  obtain key corr oid created requested where
    p: "p = dict_set ''requested_at'' (VTime requested) (dict_set ''created_at'' (VTime created)
          (dict_set ''order_intent_id'' oid (oms_payload v intent (sb_spec sb) key corr)))"
    and aw: "dt_aware requested"
    using assms
    by (auto simp: prepared_payload_def sdk_order_intent_to_oms_grpc_payload_def act_bind_returns act_ret_def
        worker_local_requested_at_def dt_aware_def)
  show ?thesis
    using aw by (simp add: p prepared_def PAYLOAD_KEYS_def oms_payload_def Let_def price_text_def)
qed

lemma prepared_shown:
  assumes "prepared intent p"
  obtains d where "order_intent_wire_dict_for_console v p = Inr d"
proof -
  have "get_or_none (normalize_oms_submission_payload v p) ''launch_attempt'' = VNone"
    using assms by (simp add: prepared_def get_normalized normalized_kept)
  then show ?thesis
    by (intro that) (simp add: order_intent_wire_dict_for_console_def launch_attempt_shown_def Let_def)
qed

lemma prepared_message_text:
  assumes "prepared intent p" "instrument_of intent = VStr s" "k \<in> set MESSAGE_KEYS"
  shows "plain_text_value (get_or_none (normalize_oms_submission_payload v p) k)"
proof -
  have given: "\<exists>s. dict_get p k = Some (VStr s)" if "k \<in> set (''instrument_id'' # PAYLOAD_KEYS)" for k
    using that assms(1,2) by (auto simp: prepared_def list_all_iff)
  show ?thesis
  proof (cases "k \<in> set [''quantity'', ''limit_price'', ''stop_price'', ''order_intent_id'']")
    case True
    then show ?thesis by (auto simp: get_normalized normalized_texts normalized_limit_price)
  next
    case other: False
    show ?thesis
    proof (cases "k = ''time_in_force''")
      case True
      then obtain s' where "dict_get p k = Some (VStr s')"
        using given [of k] by (auto simp: PAYLOAD_KEYS_def)
      then show ?thesis
        unfolding True get_normalized normalized_time_in_force by (simp add: dict_has_def)
    next
      case False
      then have d: "k \<in> set [''correlation_id'', ''account_id'', ''instrument_id'', ''side'', ''order_type'',
          ''idempotency_key'', ''job_id'', ''symbol'']"
        using assms(3) other by (simp add: MESSAGE_KEYS_def TEXT_KEYS_def)
      then have "k \<in> set (''instrument_id'' # PAYLOAD_KEYS)" by (auto simp: PAYLOAD_KEYS_def)
      then obtain s' where "dict_get p k = Some (VStr s')"
        using given by blast
      then have "get_or_none (normalize_oms_submission_payload v p) k = VStr s'"
        unfolding get_normalized normalized_defaults [OF d] by (simp add: get_or_none_def dict_has_def)
      then show ?thesis by simp
    qed
  qed
qed

text \<open>The effects after the payload is prepared, and the result.\<close>

fun outcome_effects :: "bool \<Rightarrow> bool \<Rightarrow> pydict \<Rightarrow> pydict \<Rightarrow> pydict option \<Rightarrow> order_effect list" where
  "outcome_effects notifies callback p failed (Some r) =
     (if notifies then [GatewayNotified ''oms'' p r] else []) @
     (if callback then [SubmitterNotified ''oms'' p (VDict r)] else [])"
| "outcome_effects notifies callback p failed None =
     Logged ''risk_order_intent_submit_prepare_failed'' #
     (if callback then [SubmitterNotified ''oms'' failed (VDict submit_unavailable)] else [])"

lemma client_submit_run:
  assumes "pb_reads_text v" "prepared intent p" "instrument_of intent = VStr s"
  obtains q e where "sq_idempotency_key q = text_value (get_or_none (normalize_oms_submission_payload v p) ''idempotency_key'')"
    "oms_submit_order_intent v p w =
      ((case answered (ov_rpc v (ow_effects w @ [Rpc (SubmitOrderIntent q)])) of Some d \<Rightarrow> Inr d | None \<Rightarrow> Inl e),
       w\<lparr>ow_effects := ow_effects w @ [Rpc (SubmitOrderIntent q)]\<rparr>)"
proof -
  let ?n = "normalize_oms_submission_payload v p"
  obtain t where t: "get_or_none p ''requested_at'' = VTime t"
    using assms(2) by (auto simp: prepared_def get_or_none_def)
  obtain q where q: "submit_message v ?n (instant_of v t)
      (map_option (instant_of v) (time_value (get_or_none ?n ''created_at''))) = Inr q"
    "sq_idempotency_key q = text_value (get_or_none ?n ''idempotency_key'')"
    using message_made [OF assms(1) prepared_message_text [OF assms(2,3)]] by blast
  have "oms_submit_order_intent v p w = oms_call v (SubmitOrderIntent q) w"
    by (simp add: oms_submit_order_intent_def Let_def normalized_requested_time [OF t] act_run q)
  then show ?thesis
    using oms_call_run [of v "SubmitOrderIntent q" w] q(2) that by metis
qed

text \<open>
  C26: with order calls enabled and console and callbacks working, an order whose instrument is a
  text is printed and sent exactly once. If the service's answer can be read, both the callback of
  the gateway and the one of the submitter are told payload and answer; otherwise (an error of the
  call, a deadline included, or an acknowledgement with an unknown status) the strategy is told that
  the service is unavailable and the callback gets a payload of exactly four fields, the mark of a
  failed preparation, runtime, instrument and symbol, with neither the idempotency key nor the
  order id, although the order was sent.
\<close>

theorem submit_outcome:
  assumes "pb_reads_text v" "no_faults v" "og_client (sb_gateway sb) = oms_grpc_client v" "\<not> sb_disabled sb"
    and "instrument_of intent = VStr s" "prepared_payload v sb intent w = (Inr p, w1)"
  shows "\<exists>d q. let es = ow_effects w1 @ [Printed ORDER_INTENT_CLI_BANNER d, Rpc (SubmitOrderIntent q)];
                  r = answered (ov_rpc v es);
                  failed = [(''_prepare_failed'', VBool True), (''runtime_id'', VStr (ls_runtime_id (sb_spec sb))),
                    (''instrument_id'', VStr s), (''symbol'', VStr (py_strip (or_empty (ls_symbol (sb_spec sb)))))]
              in ow_effects (snd (sdk_submit v sb intent w)) =
                   es @ outcome_effects (og_notifies (sb_gateway sb)) (sb_callback sb) p failed r \<and>
                 dict_get failed ''idempotency_key'' = None \<and> dict_get failed ''order_intent_id'' = None \<and>
                 fst (sdk_submit v sb intent w) =
                   Inr (VDict (case r of Some d \<Rightarrow> d | None \<Rightarrow> submit_unavailable)) \<and>
                 sq_idempotency_key q = text_value (get_or_none p ''idempotency_key'')"
proof -
  have shape: "prepared intent p"
    by (rule prepared_payload_shape [OF assms(6)])
  obtain d where d: "order_intent_wire_dict_for_console v p = Inr d"
    by (rule prepared_shown [OF shape])
  let ?w = "ow_add (Printed ORDER_INTENT_CLI_BANNER d) w1"
  obtain q e where q: "sq_idempotency_key q = text_value (get_or_none (normalize_oms_submission_payload v p) ''idempotency_key'')"
    and sent: "oms_submit_order_intent v p ?w =
      ((case answered (ov_rpc v (ow_effects ?w @ [Rpc (SubmitOrderIntent q)])) of Some d \<Rightarrow> Inr d | None \<Rightarrow> Inl e),
       ?w\<lparr>ow_effects := ow_effects ?w @ [Rpc (SubmitOrderIntent q)]\<rparr>)"
    by (rule client_submit_run [OF assms(1) shape assms(5)])
  have key: "text_value (get_or_none (normalize_oms_submission_payload v p) ''idempotency_key'') =
      text_value (get_or_none p ''idempotency_key'')"
    by (simp add: get_normalized normalized_defaults get_or_none_def dict_has_def split: option.splits)
  have print: "print_order_intent_to_console v p w1 = (Inr (), ?w)"
    by (simp add: print_order_intent_to_console_def d act_run emit_ok [OF assms(2)])
  have emit: "ow_emit v ef w = (Inr (), ow_add ef w)" for ef w
    by (rule emit_ok [OF assms(2)])
  have run: "submit_or_decline v sb p w1 =
      (case answered (ov_rpc v (ow_effects ?w @ [Rpc (SubmitOrderIntent q)])) of
         Some r \<Rightarrow> (Inr (VDict r), w1\<lparr>ow_effects := ow_effects ?w @ [Rpc (SubmitOrderIntent q)] @
            (if og_notifies (sb_gateway sb) then [GatewayNotified ''oms'' p r] else [])\<rparr>)
       | None \<Rightarrow> (Inl e, w1\<lparr>ow_effects := ow_effects ?w @ [Rpc (SubmitOrderIntent q)]\<rparr>))"
    using assms(3,4) sent print
    by (simp add: submit_or_decline_def can_call_oms_def oms_grpc_client_def submit_order_intent_payload_def
        gateway_send_def dict_answer_def notify_order_intent_result_def act_run emit coerce_submit_result_dict_def
        ow_add_def split: option.split)
  have failed: "prepare_failed_payload v sb intent =
      [(''_prepare_failed'', VBool True), (''runtime_id'', VStr (ls_runtime_id (sb_spec sb))),
       (''instrument_id'', VStr s), (''symbol'', VStr (py_strip (or_empty (ls_symbol (sb_spec sb)))))]"
    by (simp add: prepare_failed_payload_def assms(5) str_or_empty_def)
  show ?thesis
    using run q key failed
    by (intro exI [of _ d] exI [of _ q])
       (simp add: sdk_submit_def act_run assms(6) emit ow_log_def ow_add_def split: option.split)
qed

definition sample_submitter :: submitter where
  "sample_submitter =
     \<lparr>sb_gateway = \<lparr>og_client = oms_grpc_client sample_order_env, og_notifies = True\<rparr>,
      sb_spec = \<lparr>ls_runtime_id = ''rt'', ls_tenant_id = ''t'', ls_strategy_version_id = ''v1'', ls_mode = PAPER,
        ls_launch_attempt = 1, ls_artifact_uri = ''file:///a'', ls_entrypoint = ''m:C'', ls_trader_id = None,
        ls_account_id = Some ''acc'', ls_artifact_digest = None, ls_job_id = Some ''job'', ls_ts_start = None,
        ls_ts_end = None, ls_symbol = Some ''AAPL'', ls_correlation_id = None\<rparr>,
      sb_callback = True, sb_correlation = [], sb_disabled = False, sb_latest = None, sb_allocate = None,
      sb_clock_now = None\<rparr>"

definition sample_intent :: sdk_intent where
  "sample_intent = [(''instrument_id'', VStr ''AAPL''), (''side'', VStr ''BUY''), (''order_type'', VStr ''MARKET''),
     (''quantity'', VInt 5), (''idempotency_key'', VStr ''k-1'')]"

lemma submitter_always_answers_witness:
  "\<exists>r p. fst (sdk_submit sample_order_env sample_submitter sample_intent fresh_order_world) = Inr r \<and>
     length (rpcs (new_effects (sdk_submit sample_order_env sample_submitter sample_intent) fresh_order_world)) \<le> 1 \<and>
     submitter_notes (new_effects (sdk_submit sample_order_env sample_submitter sample_intent) fresh_order_world) = [(p, r)]"
  using submitter_always_answers [of sample_submitter sample_order_env sample_intent fresh_order_world]
  by (simp add: sample_submitter_def)

lemma sample_prepared: "\<exists>p w1. prepared_payload sample_order_env sample_submitter sample_intent fresh_order_world = (Inr p, w1)"
  by (simp add: prepared_payload_def sdk_order_intent_to_oms_grpc_payload_def intent_idempotency_key_def
      wire_correlation_def next_order_intent_id_def intent_created_at_for_payload_def intent_created_at_sim_def
      worker_local_requested_at_def sample_submitter_def sample_intent_def attr_of_def get_or_none_def
      key_candidate_def act_run ow_now_def ow_draw_def Let_def)

lemma submit_outcome_witness:
  "\<exists>p w1 d q. let es = ow_effects w1 @ [Printed ORDER_INTENT_CLI_BANNER d, Rpc (SubmitOrderIntent q)];
                  r = answered (ov_rpc sample_order_env es);
                  failed = [(''_prepare_failed'', VBool True), (''runtime_id'', VStr ''rt''),
                    (''instrument_id'', VStr ''AAPL''), (''symbol'', VStr (py_strip ''AAPL''))]
     in prepared_payload sample_order_env sample_submitter sample_intent fresh_order_world = (Inr p, w1) \<and>
        ow_effects (snd (sdk_submit sample_order_env sample_submitter sample_intent fresh_order_world)) =
          es @ outcome_effects True True p failed r \<and>
        fst (sdk_submit sample_order_env sample_submitter sample_intent fresh_order_world) =
          Inr (VDict (case r of Some d \<Rightarrow> d | None \<Rightarrow> submit_unavailable)) \<and>
        sq_idempotency_key q = text_value (get_or_none p ''idempotency_key'')"
proof -
  obtain p w1 where p: "prepared_payload sample_order_env sample_submitter sample_intent fresh_order_world = (Inr p, w1)"
    using sample_prepared by blast
  have "no_faults sample_order_env"
    by (simp add: no_faults_def sample_order_env_def)
  moreover have "og_client (sb_gateway sample_submitter) = oms_grpc_client sample_order_env"
      "\<not> sb_disabled sample_submitter" "instrument_of sample_intent = VStr ''AAPL''"
      "og_notifies (sb_gateway sample_submitter)" "sb_callback sample_submitter"
    by (simp_all add: sample_submitter_def sample_intent_def instrument_of_def)
  moreover have "ls_runtime_id (sb_spec sample_submitter) = ''rt''" "ls_symbol (sb_spec sample_submitter) = Some ''AAPL''"
    by (simp_all add: sample_submitter_def)
  ultimately show ?thesis
    using submit_outcome [OF sample_env_reads _ _ _ _ p] p by (simp add: Let_def or_empty_def)
qed

text \<open>An accepted order whose acknowledgement carries a status unknown to the worker is reported unavailable.\<close>

lemma unknown_status_not_answered: "4 < ak_status ack \<Longrightarrow> answered (Acked ack) = None"
  by (simp add: answered_def ack_result_def intent_ack_status_name_def Let_def)

end
