(* ===== verification/RiskClient.thy ===== *)
theory RiskClient
  imports OrderSubmission
begin

text \<open>
  \<open>runtime/integration/risk_hotpath_client.py\<close>: the HTTP client of the risk service with the shape
  of its JSON bodies, the reading of its answers and the parsing of its address. The exchange is
  the effect \<open>HttpPost\<close>; the answer, an error that \<open>urlopen\<close> or \<open>read\<close> raises included, and
  \<open>json.loads\<close> belong to the environment. A body holds texts only, so \<open>json.dumps\<close> succeeds.
\<close>

section \<open>Bodies\<close>

definition utc_iso :: "order_env \<Rightarrow> pyval \<Rightarrow> string option" where
  "utc_iso v value =
     (case value of
        VNone \<Rightarrow> None
      | VTime t \<Rightarrow> Some (wire_timestamp t)
      | _ \<Rightarrow> (let s = py_strip (py_str (ov_str v) value) in if s = [] then None else Some s))"

text \<open>\<open>str(payload.get(k) or '').strip()\<close>.\<close>

definition field_text :: "order_env \<Rightarrow> pydict \<Rightarrow> string \<Rightarrow> string" where
  "field_text v payload k = py_strip (str_or_empty (ov_str v) (get_or_none payload k))"

definition risk_order_intent_id :: "order_env \<Rightarrow> pyval \<Rightarrow> string" where
  "risk_order_intent_id v oid =
     (case oid of
        VNone \<Rightarrow> []
      | VBool b \<Rightarrow> []
      | VInt i \<Rightarrow> int_str i
      | _ \<Rightarrow> py_strip (py_str (ov_str v) oid))"

definition number_text :: "order_env \<Rightarrow> pyval \<Rightarrow> string option" where
  "number_text v x =
     (if x = VNone then None
      else (let s = py_strip (py_str (ov_str v) x) in if s = [] then None else Some s))"

definition opt_member :: "string \<Rightarrow> string option \<Rightarrow> (string \<times> string) list" where
  "opt_member k x = (case x of None \<Rightarrow> [] | Some s \<Rightarrow> if s = [] then [] else [(k, s)])"

definition job_or_runtime :: "order_env \<Rightarrow> pydict \<Rightarrow> string" where
  "job_or_runtime v payload =
     (if field_text v payload ''job_id'' \<noteq> [] then field_text v payload ''job_id''
      else field_text v payload ''runtime_id'')"

text \<open>\<open>payload.get(a) or payload.get(b) or ''\<close>, as a stripped text.\<close>

definition first_text :: "order_env \<Rightarrow> pydict \<Rightarrow> string \<Rightarrow> string \<Rightarrow> string" where
  "first_text v payload a b = py_strip (str_or_empty (ov_str v) (py_or (get_or_none payload a) (get_or_none payload b)))"

definition oms_style_payload_to_risk_evaluate_json :: "order_env \<Rightarrow> pydict \<Rightarrow> (string \<times> string) list" where
  "oms_style_payload_to_risk_evaluate_json v payload =
     (let t = field_text v payload; g = get_or_none payload in
      [(''idempotency_key'', t ''idempotency_key''), (''instrument_id'', t ''instrument_id''),
       (''job_id'', job_or_runtime v payload), (''order_type'', py_lower (t ''order_type'')),
       (''side'', py_lower (t ''side'')), (''order_intent_id'', risk_order_intent_id v (g ''order_intent_id''))] @
      opt_member ''correlation_id'' (Some (first_text v payload ''correlation_id'' ''corr_id'')) @
      opt_member ''created_at'' (utc_iso v (g ''created_at'')) @
      opt_member ''requested_at'' (utc_iso v (g ''requested_at'')) @
      opt_member ''limit_price'' (number_text v (g ''limit_price'')) @
      opt_member ''stop_price'' (number_text v (g ''stop_price'')) @
      opt_member ''quantity'' (number_text v (g ''quantity'')) @
      opt_member ''time_in_force'' (Some (t ''time_in_force'')) @
      opt_member ''runtime_id'' (Some (t ''runtime_id'')) @
      opt_member ''account_id'' (Some (t ''account_id'')))"

definition oms_style_payload_to_risk_evaluate_replace_json :: "order_env \<Rightarrow> pydict \<Rightarrow> (string \<times> string) list" where
  "oms_style_payload_to_risk_evaluate_replace_json v payload =
     (let t = field_text v payload; g = get_or_none payload in
      [(''idempotency_key'', t ''idempotency_key''), (''job_id'', job_or_runtime v payload),
       (''order_intent_id'', risk_order_intent_id v (g ''order_intent_id'')),
       (''order_type'', py_lower (t ''order_type'')), (''target_oms_order_id'', t ''target_oms_order_id''),
       (''account_id'', t ''account_id'')] @
      opt_member ''quantity'' (number_text v (g ''quantity'')) @
      opt_member ''correlation_id'' (Some (first_text v payload ''correlation_id'' ''corr_id'')) @
      opt_member ''created_at'' (utc_iso v (g ''created_at'')) @
      opt_member ''requested_at'' (utc_iso v (g ''requested_at'')) @
      opt_member ''runtime_id'' (Some (t ''runtime_id'')))"

section \<open>Answers\<close>

definition map_risk_success_response :: "order_env \<Rightarrow> pydict \<Rightarrow> pydict" where
  "map_risk_success_response v data =
     (let status = py_upper (field_text v data ''status''); rc = field_text v data ''reason_code'' in
      [(''accepted'', VBool (status = ''APPROVED'')), (''status'', VStr status),
       (''order_id'', get_or_none data ''oms_order_id''), (''state'', VNone),
       (''reason_code'', if rc \<noteq> [] then VStr (py_upper rc) else VNone), (''error_code'', VNone),
       (''risk_decision_id'', get_or_none data ''risk_decision_id''),
       (''oms_forward_required'', get_or_none data ''oms_forward_required'')])"

definition http_error_result :: "int \<Rightarrow> string \<Rightarrow> string \<Rightarrow> pydict" where
  "http_error_result status_code code message =
     [(''accepted'', VBool False), (''status'', VStr ''ERROR''), (''order_id'', VNone), (''state'', VNone),
      (''reason_code'', VStr (if code \<noteq> [] then code else ''HTTP_'' @ int_str status_code)),
      (''error_code'', text_or_none code), (''error_message'', VStr message)]"

text \<open>JSON that is not an object has no \<open>get\<close>: the \<open>AttributeError\<close> is not caught.\<close>

definition risk_map_http_error :: "order_env \<Rightarrow> int \<Rightarrow> string \<Rightarrow> py_exc + pydict" where
  "risk_map_http_error v status_code raw_body =
     (let message = take 500 raw_body in
      case ov_json_loads v raw_body of
        Inl msg \<Rightarrow> Inr (http_error_result status_code [] message)
      | Inr (VDict d) \<Rightarrow>
          (case get_or_none d ''error'' of
             VDict err \<Rightarrow>
               Inr (http_error_result status_code (py_upper (field_text v err ''code''))
                     (py_strip (py_str (ov_str v)
                        (if py_truthy (get_or_none err ''message'') then get_or_none err ''message'' else VStr message))))
           | _ \<Rightarrow> Inr (http_error_result status_code [] message))
      | Inr other \<Rightarrow> Inl (OtherExc ''AttributeError'' ''object has no attribute get'' None))"

definition failed_exchange :: "string \<Rightarrow> string \<Rightarrow> string \<Rightarrow> pydict" where
  "failed_exchange status code message =
     [(''accepted'', VBool False), (''status'', VStr status), (''order_id'', VNone), (''state'', VNone),
      (''reason_code'', VStr code), (''error_code'', VStr code), (''error_message'', VStr message)]"

definition risk_answer :: "order_env \<Rightarrow> http_answer \<Rightarrow> py_exc + pydict" where
  "risk_answer v answer =
     (case answer of
        HttpText s \<Rightarrow>
          (case ov_json_loads v s of
             Inl msg \<Rightarrow> Inr (failed_exchange ''ERROR'' ''INVALID_JSON'' msg)
           | Inr (VDict data) \<Rightarrow> Inr (map_risk_success_response v data)
           | Inr other \<Rightarrow> risk_map_http_error v 500 ''non_object_json_response'')
      | HttpStatus code body err \<Rightarrow>
          risk_map_http_error v code (case body of Some b \<Rightarrow> b | None \<Rightarrow> err)
      | HttpUnreachable reason \<Rightarrow> Inr (failed_exchange ''UNAVAILABLE'' ''RISK_UNREACHABLE'' reason)
      | HttpRaised e \<Rightarrow> Inl e)"

section \<open>The client\<close>

record risk_client =
  rk_host :: string
  rk_port :: int

definition evaluate_url :: "risk_client \<Rightarrow> string" where
  "evaluate_url c = ''http://'' @ rk_host c @ '':'' @ int_str (rk_port c) @ ''/order-intents/evaluate/new''"

definition evaluate_replace_url :: "risk_client \<Rightarrow> string" where
  "evaluate_replace_url c = ''http://'' @ rk_host c @ '':'' @ int_str (rk_port c) @ ''/order-intents/evaluate/replace''"

definition risk_correlation :: "order_env \<Rightarrow> pydict \<Rightarrow> (string \<times> string) list \<Rightarrow> string" where
  "risk_correlation v payload body =
     (let corr = first_text v payload ''corr_id'' ''correlation_id'' in
      if corr \<noteq> [] then corr else py_strip (or_empty (dict_get body ''correlation_id'')))"

definition risk_headers :: "string \<Rightarrow> string \<Rightarrow> string \<Rightarrow> (string \<times> string) list \<Rightarrow> (string \<times> string) list" where
  "risk_headers corr request_id user_id body =
     [(''Content-Type'', ''application/json''), (''Accept'', ''application/json''), (''x-request-id'', request_id)] @
     (if user_id \<noteq> [] then [(''x-user-id'', user_id)] else []) @
     (if corr \<noteq> [] \<and> \<not> dict_has body ''correlation_id'' then [(''x-corr-id'', corr)] else [])"

definition risk_post :: "order_env \<Rightarrow> string \<Rightarrow> string \<Rightarrow> pydict \<Rightarrow> (string \<times> string) list \<Rightarrow> (order_world, pydict) act" where
  "risk_post v name url payload body =
     (let corr = risk_correlation v payload body;
          request_id = field_text v payload ''request_id'';
          user_id = field_text v payload ''user_id''
      in if corr = [] \<or> request_id = []
         then act_raise (ValueExc ''ValueError'' (name @ '' requires correlation and request_id'') None)
         else
           act_then (act_modify (ow_add (HttpPost \<lparr>hr_url = url,
               hr_headers = risk_headers corr request_id user_id body,
               hr_body = map (\<lambda>(k, s). (k, VStr s)) body\<rparr>)))
             (act_with (\<lambda>w. ov_http v (ow_effects w)) (\<lambda>answer. act_of (risk_answer v answer))))"

definition risk_submit_order_intent :: "order_env \<Rightarrow> risk_client \<Rightarrow> pydict \<Rightarrow> (order_world, pydict) act" where
  "risk_submit_order_intent v c payload =
     risk_post v ''submit_order_intent'' (evaluate_url c) payload
       (oms_style_payload_to_risk_evaluate_json v payload)"

definition risk_submit_replace_order_intent :: "order_env \<Rightarrow> risk_client \<Rightarrow> pydict \<Rightarrow> (order_world, pydict) act" where
  "risk_submit_replace_order_intent v c payload =
     risk_post v ''submit_replace_order_intent'' (evaluate_replace_url c) payload
       (oms_style_payload_to_risk_evaluate_replace_json v payload)"

text \<open>The client has no method to cancel.\<close>

definition risk_hotpath_client :: "order_env \<Rightarrow> risk_client \<Rightarrow> order_client" where
  "risk_hotpath_client v c =
     \<lparr>oc_submit = Some (\<lambda>p. dict_answer (risk_submit_order_intent v c p)),
      oc_replace = Some (\<lambda>p. dict_answer (risk_submit_replace_order_intent v c p)),
      oc_cancel = None\<rparr>"

section \<open>The address\<close>

text \<open>\<open>int(s)\<close> of a text: a sign, then digits with single underscores between them.\<close>

fun int_digits :: "bool \<Rightarrow> string \<Rightarrow> nat \<Rightarrow> nat option" where
  "int_digits digit_before [] n = (if digit_before then Some n else None)"
| "int_digits digit_before (c # cs) n =
     (if is_digit c then int_digits True cs (10 * n + (of_char c - 48))
      else if c = CHR ''_'' \<and> digit_before then int_digits False cs n else None)"

definition py_int_of_text :: "string \<Rightarrow> int option" where
  "py_int_of_text s =
     (case split_sign (py_strip s) of (neg, ds) \<Rightarrow>
        map_option (\<lambda>n. if neg then - int n else int n) (int_digits False ds 0))"

definition strip_scheme :: "string \<Rightarrow> string" where
  "strip_scheme t =
     (if py_lower (take 7 t) = ''http://'' then drop 7 t
      else if py_lower (take 8 t) = ''https://'' then drop 8 t else t)"

text \<open>\<open>t.rpartition(':')\<close> of a text with a colon.\<close>

definition rpartition_colon :: "string \<Rightarrow> string \<times> string" where
  "rpartition_colon t =
     (rev (drop 1 (dropWhile (\<lambda>c. c \<noteq> CHR '':'') (rev t))), rev (takeWhile (\<lambda>c. c \<noteq> CHR '':'') (rev t)))"

definition parse_host_port :: "string \<Rightarrow> (string \<times> int) option" where
  "parse_host_port target =
     (let t = py_strip target in
      if t = [] then None
      else
        (let t = py_strip (strip_scheme t);
             t = (if CHR ''/'' \<in> set t then py_strip (takeWhile (\<lambda>c. c \<noteq> CHR ''/'') t) else t)
         in if CHR '':'' \<notin> set t then None
            else (case rpartition_colon t of (host, port_s) \<Rightarrow>
              let host = py_strip host in
              if host = [] then None
              else (case py_int_of_text (py_strip port_s) of
                      None \<Rightarrow> None
                    | Some port \<Rightarrow> if port \<le> 0 \<or> 65535 < port then None else Some (host, port)))))"

definition build_risk_hotpath_client :: "order_env \<Rightarrow> string \<Rightarrow> order_client option" where
  "build_risk_hotpath_client v target =
     map_option (\<lambda>(host, port). risk_hotpath_client v \<lparr>rk_host = host, rk_port = port\<rparr>) (parse_host_port target)"

section \<open>Accepted only when approved\<close>

definition approved :: "order_env \<Rightarrow> http_answer \<Rightarrow> bool" where
  "approved v answer \<longleftrightarrow>
     (case answer of
        HttpText s \<Rightarrow>
          (case ov_json_loads v s of
             Inr (VDict data) \<Rightarrow> py_upper (field_text v data ''status'') = ''APPROVED''
           | _ \<Rightarrow> False)
      | _ \<Rightarrow> False)"

lemma error_not_accepted:
  "risk_map_http_error v code b = Inr d \<Longrightarrow> dict_get d ''accepted'' = Some (VBool False)"
  by (auto simp: risk_map_http_error_def http_error_result_def Let_def split: sum.splits pyval.splits)

lemma answer_accepted:
  "risk_answer v answer = Inr d \<Longrightarrow> dict_get d ''accepted'' = Some (VBool (approved v answer))"
  by (cases answer)
     (auto simp: risk_answer_def approved_def failed_exchange_def map_risk_success_response_def Let_def
        dest: error_not_accepted split: sum.splits pyval.splits)

text \<open>
  The risk client makes at most one request, none when correlation or request id is missing, and
  reports an order accepted exactly when the answer is a JSON object whose status is APPROVED; an
  HTTP error, an unreachable service, bad JSON or JSON of another kind is never an acceptance.
\<close>

lemma risk_post_outcome:
  "(case risk_post v name url payload body w of (r, w') \<Rightarrow>
      if risk_correlation v payload body = [] \<or> field_text v payload ''request_id'' = []
      then value_error r \<and> w' = w
      else (\<exists>rq. hr_url rq = url \<and> ow_effects w' = ow_effects w @ [HttpPost rq] \<and>
              dict_get (hr_headers rq) ''x-request-id'' = Some (field_text v payload ''request_id'') \<and>
              (case r of
                 Inl e \<Rightarrow> \<not> approved v (ov_http v (ow_effects w'))
               | Inr d \<Rightarrow> dict_get d ''accepted'' = Some (VBool (approved v (ov_http v (ow_effects w')))))))"
proof (cases "risk_correlation v payload body = [] \<or> field_text v payload ''request_id'' = []")
  case True
  then show ?thesis by (simp add: risk_post_def Let_def act_run value_error_def)
next
  case False
  have raised: "\<not> approved v answer" if "risk_answer v answer = Inl e" for answer e
    using that by (cases answer) (auto simp: risk_answer_def approved_def split: sum.splits pyval.splits)
  show ?thesis
    using False
    by (auto simp: risk_post_def Let_def act_run ow_add_def risk_headers_def split: sum.splits
        intro!: exI dest: raised answer_accepted)
qed

text \<open>An SDK order carries no request id, so this client can never send it.\<close>

lemma prepared_has_no_request_id:
  assumes "prepared_payload v sb intent w = (Inr p, w1)"
  shows "field_text v p ''request_id'' = []"
  using assms
  by (auto simp: prepared_payload_def sdk_order_intent_to_oms_grpc_payload_def act_bind_returns act_ret_def
      worker_local_requested_at_def oms_payload_def Let_def field_text_def get_or_none_def str_or_empty_def)

lemma sdk_order_never_posted:
  assumes "prepared_payload v sb intent w = (Inr p, w1)"
  shows "value_error (fst (risk_submit_order_intent v c p w')) \<and> snd (risk_submit_order_intent v c p w') = w'"
  using prepared_has_no_request_id [OF assms]
  by (simp add: risk_submit_order_intent_def risk_post_def Let_def act_run value_error_def)

section \<open>Addresses\<close>

lemma int_digits_number:
  "list_all is_digit ds \<Longrightarrow> int_digits b ds n = (if ds = [] \<and> \<not> b then None
      else Some (foldl (\<lambda>acc c. 10 * acc + (of_char c - 48)) n ds))"
  by (induction ds arbitrary: b n) auto

lemma rpartition_append:
  assumes "CHR '':'' \<notin> set b"
  shows "rpartition_colon (a @ CHR '':'' # b) = (a, b)"
proof -
  have away: "c \<noteq> CHR '':''" if "c \<in> set (rev b)" for c
    using assms that by auto
  have "takeWhile (\<lambda>c. c \<noteq> CHR '':'') (rev b @ CHR '':'' # rev a) = rev b"
    using takeWhile_append2 [of "rev b" "\<lambda>c. c \<noteq> CHR '':''", OF away] by simp
  moreover have "dropWhile (\<lambda>c. c \<noteq> CHR '':'') (rev b @ CHR '':'' # rev a) = CHR '':'' # rev a"
    using dropWhile_append2 [of "rev b" "\<lambda>c. c \<noteq> CHR '':''", OF away] by simp
  ultimately show ?thesis by (simp add: rpartition_colon_def)
qed

lemma no_slash_no_scheme: "CHR ''/'' \<notin> set t \<Longrightarrow> strip_scheme t = t"
proof -
  assume no: "CHR ''/'' \<notin> set t"
  have "CHR ''/'' \<notin> set (py_lower u)" if "set u \<subseteq> set t" for u
  proof
    assume "CHR ''/'' \<in> set (py_lower u)"
    then obtain c where "c \<in> set u" "lower_char c = CHR ''/''" by (auto simp: py_lower_def)
    then have "c = CHR ''/''"
      using of_char_lower [of c]
      by (cases "65 \<le> (of_char c :: nat) \<and> (of_char c :: nat) \<le> 90 \<or>
          192 \<le> (of_char c :: nat) \<and> (of_char c :: nat) \<le> 222 \<and> (of_char c :: nat) \<noteq> 215")
         (simp_all add: lower_char_def Let_def)
    then show False using no that \<open>c \<in> set u\<close> by auto
  qed
  then have "CHR ''/'' \<notin> set (py_lower (take n t))" for n
    by (simp add: set_take_subset)
  from this [of 7] this [of 8] have "py_lower (take 7 t) \<noteq> ''http://''" "py_lower (take 8 t) \<noteq> ''https://''"
    by auto
  then show ?thesis by (simp add: strip_scheme_def)
qed

text \<open>A host name: no blanks, no slash.\<close>

definition host_name :: "string \<Rightarrow> bool" where
  "host_name h \<longleftrightarrow> h \<noteq> [] \<and> list_all (\<lambda>c. \<not> py_isspace c \<and> c \<noteq> CHR ''/'') h"

lemma digits_no_space: "list_all (\<lambda>c. \<not> py_isspace c \<and> c \<noteq> CHR ''/'' \<and> c \<noteq> CHR '':'') (nat_str n)"
proof -
  have "\<not> py_isspace c \<and> c \<noteq> CHR ''/'' \<and> c \<noteq> CHR '':''" if "is_digit c" for c
    using that digit_space [OF that] by (auto simp: is_digit_def)
  then show ?thesis by (auto simp: list_all_iff digit_chars)
qed

lemma strip_solid: "list_all (\<lambda>c. \<not> py_isspace c) s \<Longrightarrow> py_strip s = s"
  by (cases "s = []") (auto simp: list_all_iff intro: py_strip_fixed)

lemma py_int_of_nat_str: "py_int_of_text (nat_str n) = Some (int n)"
proof -
  obtain c cs where s: "nat_str n = c # cs" by (cases "nat_str n") auto
  have digits: "list_all is_digit (nat_str n)" by (auto simp: list_all_iff digit_chars)
  have "list_all (\<lambda>c. \<not> py_isspace c) (nat_str n)"
    using digits_no_space [of n] by (auto simp: list_all_iff)
  then have "py_strip (nat_str n) = nat_str n" by (rule strip_solid)
  moreover have "split_sign (nat_str n) = (False, nat_str n)"
    using digits digit_not [of c] by (simp add: s split_sign_def)
  moreover have "int_digits False (nat_str n) 0 = Some n"
    using int_digits_number [OF digits, of False 0] digits_value_nat_str [of n] by (simp add: digits_value_def)
  ultimately show ?thesis by (simp add: py_int_of_text_def)
qed

text \<open>
  A host and a port written as \<open>host:port\<close> are read back exactly when the port lies between 1
  and 65535, and there is a client then; any other port gives none.
\<close>

lemma host_port_roundtrip:
  assumes "host_name host"
  shows "parse_host_port (host @ '':'' @ nat_str port) =
           (if 1 \<le> port \<and> port \<le> 65535 then Some (host, int port) else None)"
proof -
  let ?t = "host @ CHR '':'' # nat_str port"
  have solid: "list_all (\<lambda>c. \<not> py_isspace c \<and> c \<noteq> CHR ''/'') ?t"
    using assms digits_no_space [of port] by (auto simp: host_name_def list_all_iff py_isspace_char)
  have part: "py_strip s = s" if "set s \<subseteq> set ?t" for s
    using solid that by (intro strip_solid) (auto simp: list_all_iff)
  have strip: "py_strip ?t = ?t" "py_strip host = host" "py_strip (nat_str port) = nat_str port"
    by (intro part; auto)+
  have "CHR ''/'' \<notin> set ?t"
    using solid by (auto simp: list_all_iff)
  moreover from this have "strip_scheme ?t = ?t" by (rule no_slash_no_scheme)
  moreover have "rpartition_colon ?t = (host, nat_str port)"
    using digits_no_space [of port] by (intro rpartition_append) (auto simp: list_all_iff)
  moreover have "host \<noteq> []" using assms by (simp add: host_name_def)
  ultimately show ?thesis
    using strip by (simp add: parse_host_port_def Let_def py_int_of_nat_str)
qed

lemma host_port_roundtrip_witness:
  "parse_host_port (''risk'' @ '':'' @ nat_str 8080) = Some (''risk'', 8080)"
proof -
  have "host_name ''risk''" by code_simp
  from host_port_roundtrip [OF this, of 8080] show ?thesis by simp
qed

end
