(* ===== verification/EventMapper.thy ===== *)
theory EventMapper
  imports HistoricalDriver
begin

text \<open>
  \<open>runtime/bootstrap/event_mapper.py\<close>: raw payloads (a Redis message, a replay event, a historical
  bar) become one of four typed events. Parsing of floats and ISO texts, the float of an integer
  and the float product of \<open>utc_datetime_to_epoch_millis\<close> are arguments. Values are those of
  \<open>pyval\<close>, so the branch for numpy scalars is not modelled.
\<close>

record map_env =
  me_fromisoformat :: "string \<Rightarrow> pydatetime option"
  me_epoch_millis :: "pydatetime \<Rightarrow> int"
  me_parse_float :: "string \<Rightarrow> pyfloat option"
  me_int_to_float :: "int \<Rightarrow> py_exc + pyfloat"

section \<open>Reading fields\<close>

text \<open>The attribute \<open>reason\<close> of the exception, which nothing reads, is left out.\<close>

definition EventMappingError :: "pydict \<Rightarrow> py_exc" where
  "EventMappingError details =
     ValueExc ''EventMappingError'' ''Raw event payload could not be mapped.'' (Some details)"

definition missing_field :: "string \<Rightarrow> py_exc" where
  "missing_field name = EventMappingError [(''field_name'', VStr name)]"

definition wrong_type :: "string \<Rightarrow> string \<Rightarrow> py_exc" where
  "wrong_type name expected = EventMappingError [(''field_name'', VStr name), (''expected'', VStr expected)]"

definition require_mapping :: "pyval \<Rightarrow> string \<Rightarrow> py_exc + pydict" where
  "require_mapping v name = (case v of VDict d \<Rightarrow> Inr d | _ \<Rightarrow> Inl (wrong_type name ''mapping''))"

definition require_str :: "pydict \<Rightarrow> string \<Rightarrow> py_exc + string" where
  "require_str raw name =
     (case dict_get raw name of
        None \<Rightarrow> Inl (missing_field name)
      | Some (VStr s) \<Rightarrow>
          if s = [] then Inl (EventMappingError
            [(''field_name'', VStr name), (''message'', VStr ''must_not_be_empty'')])
          else Inr s
      | Some v \<Rightarrow> Inl (wrong_type name ''string''))"

definition coerce_float :: "map_env \<Rightarrow> pyval \<Rightarrow> string \<Rightarrow> py_exc + pyfloat" where
  "coerce_float m v name =
     (let refuse = Inl (wrong_type name ''number'') in
      case v of
        VInt i \<Rightarrow> me_int_to_float m i
      | VFloat x \<Rightarrow> Inr x
      | VStr s \<Rightarrow>
          if py_strip s = [] then refuse
          else (case me_parse_float m (py_strip s) of Some x \<Rightarrow> Inr x | None \<Rightarrow> refuse)
      | _ \<Rightarrow> refuse)"

definition coerce_int :: "map_env \<Rightarrow> pyval \<Rightarrow> string \<Rightarrow> py_exc + int" where
  "coerce_int m v name =
     (let refuse = Inl (wrong_type name ''integer'') in
      case v of
        VInt i \<Rightarrow> Inr i
      | VFloat x \<Rightarrow> float_to_int x
      | VStr s \<Rightarrow>
          if py_strip s = [] then refuse
          else
            (case me_parse_float m (py_strip s) of
               None \<Rightarrow> refuse
             | Some x \<Rightarrow>
                 (case float_to_int x of
                    Inr i \<Rightarrow> Inr i
                  | Inl e \<Rightarrow> if exc_type_name e = ''ValueError'' then refuse else Inl e))
      | _ \<Rightarrow> refuse)"

definition require_int :: "map_env \<Rightarrow> pydict \<Rightarrow> string \<Rightarrow> py_exc + int" where
  "require_int m raw name =
     (case dict_get raw name of None \<Rightarrow> Inl (missing_field name) | Some v \<Rightarrow> coerce_int m v name)"

definition require_float :: "map_env \<Rightarrow> pydict \<Rightarrow> string \<Rightarrow> py_exc + pyfloat" where
  "require_float m raw name =
     (case dict_get raw name of None \<Rightarrow> Inl (missing_field name) | Some v \<Rightarrow> coerce_float m v name)"

definition parse_iso_to_ts_ms :: "map_env \<Rightarrow> pyval \<Rightarrow> int option" where
  "parse_iso_to_ts_ms m v =
     (case v of
        VStr s \<Rightarrow>
          if py_strip s = [] then None
          else map_option (\<lambda>dt. me_epoch_millis m (if dt_aware dt then dt else utc (dt_wall dt)))
                 (me_fromisoformat m (py_replace ''Z'' ''+00:00'' (py_strip s)))
      | _ \<Rightarrow> None)"

definition lower_key_index :: "pydict \<Rightarrow> (string \<times> string) list" where
  "lower_key_index payload = fold (\<lambda>(k, v). dict_set (py_lower k) k) payload []"

fun pick_field :: "pydict \<Rightarrow> string list \<Rightarrow> pyval" where
  "pick_field payload [] = VNone"
| "pick_field payload (name # names) =
     (case dict_get payload name of
        Some v \<Rightarrow> v
      | None \<Rightarrow>
          (case dict_get (lower_key_index payload) (py_lower name) of
             Some key \<Rightarrow> get_or_none payload key
           | None \<Rightarrow> pick_field payload names))"

section \<open>Normalisation\<close>

definition align :: "string \<Rightarrow> pyval \<Rightarrow> pydict \<Rightarrow> pydict" where
  "align name v payload = (if v \<noteq> VNone \<and> \<not> dict_has payload name then dict_set name v payload else payload)"

definition symbol_names :: "string list" where
  "symbol_names = [''symbol'', ''Symbol'', ''ticker'', ''instrument_id'']"

definition align_all :: "pydict \<Rightarrow> (string \<times> string list) list \<Rightarrow> pydict" where
  "align_all payload wanted = fold (\<lambda>(name, cs). align name (pick_field payload cs)) wanted payload"

definition wants_ts_ms :: "pydict \<Rightarrow> pydict \<Rightarrow> bool" where
  "wants_ts_ms payload aligned \<longleftrightarrow>
     pick_field payload [''ts_ms'', ''TsMs''] = VNone \<and> \<not> dict_has aligned ''ts_ms''"

definition add_bar_ts_ms :: "map_env \<Rightarrow> pydict \<Rightarrow> pydict \<Rightarrow> py_exc + pydict" where
  "add_bar_ts_ms m payload aligned =
     (if \<not> wants_ts_ms payload aligned then Inr aligned
      else
        (let et = pick_field aligned [''event_time'', ''timestamp'', ''datetime'', ''Date'', ''date''] in
         case parse_iso_to_ts_ms m et of
           Some ts \<Rightarrow> Inr (dict_set ''ts_ms'' (VInt ts) aligned)
         | None \<Rightarrow>
             if et = VNone then Inr aligned
             else
               (case coerce_int m et ''ts_ms'' of
                  Inr ts \<Rightarrow> Inr (dict_set ''ts_ms'' (VInt ts) aligned)
                | Inl e \<Rightarrow> if exc_type_name e = ''EventMappingError'' then Inr aligned else Inl e)))"

definition normalize_market_bar_payload :: "map_env \<Rightarrow> pydict \<Rightarrow> py_exc + pydict" where
  "normalize_market_bar_payload m payload = add_bar_ts_ms m payload (align_all payload
     [(''open'', [''open'', ''Open'', ''OPEN'']), (''high'', [''high'', ''High'', ''HIGH'']),
      (''low'', [''low'', ''Low'', ''LOW'']),
      (''close'', [''close'', ''Close'', ''CLOSE'', ''Adj Close'', ''adj_close'']),
      (''volume'', [''volume'', ''Volume'', ''VOLUME'']), (''symbol'', symbol_names)])"

text \<open>Quotes and ticks take the time only from an ISO text.\<close>

definition add_iso_ts_ms :: "map_env \<Rightarrow> pydict \<Rightarrow> pydict \<Rightarrow> pydict" where
  "add_iso_ts_ms m payload aligned =
     (if \<not> wants_ts_ms payload aligned then aligned
      else (case parse_iso_to_ts_ms m (pick_field aligned [''event_time'', ''timestamp'', ''datetime'']) of
              Some ts \<Rightarrow> dict_set ''ts_ms'' (VInt ts) aligned
            | None \<Rightarrow> aligned))"

definition normalize_market_quote_payload :: "map_env \<Rightarrow> pydict \<Rightarrow> pydict" where
  "normalize_market_quote_payload m payload = add_iso_ts_ms m payload (align_all payload
     [(''symbol'', symbol_names), (''bid'', [''bid'', ''bid_price'', ''Bid'', ''BID'']),
      (''ask'', [''ask'', ''ask_price'', ''Ask'', ''ASK'']),
      (''bid_size'', [''bid_size'', ''bidSize'', ''BidSize'']),
      (''ask_size'', [''ask_size'', ''askSize'', ''AskSize''])])"

definition normalize_market_tick_payload :: "map_env \<Rightarrow> pydict \<Rightarrow> pydict" where
  "normalize_market_tick_payload m payload = add_iso_ts_ms m payload (align_all payload
     [(''symbol'', symbol_names),
      (''price'', [''price'', ''last'', ''last_price'', ''Last'', ''trade_price'']),
      (''size'', [''size'', ''volume'', ''last_size'', ''trade_size'', ''qty''])])"

definition with_type :: "pydict \<Rightarrow> pydict" where
  "with_type payload =
     (case get_or_none payload ''event_type'' of
        VStr et \<Rightarrow> if et \<noteq> [] then dict_setdefault ''type'' (VStr et) payload else payload
      | _ \<Rightarrow> payload)"

definition normalize_payload :: "map_env \<Rightarrow> pydict \<Rightarrow> py_exc + pydict" where
  "normalize_payload m raw =
     (let payload = with_type raw in
      case get_or_none payload ''type'' of
        VStr t \<Rightarrow>
          if t = ''market.bar'' then normalize_market_bar_payload m payload
          else if t = ''market.quote'' then Inr (normalize_market_quote_payload m payload)
          else if t = ''market.tick'' then Inr (normalize_market_tick_payload m payload)
          else Inr payload
      | _ \<Rightarrow> Inr payload)"

section \<open>Events\<close>

datatype mapped_event =
    MarketBarEvent string string pyfloat pyfloat pyfloat pyfloat pyfloat int
  | MarketQuoteEvent string string pyfloat pyfloat pyfloat pyfloat int
  | MarketTickEvent string string pyfloat pyfloat int
  | TimerEvent string string int pydict

definition bar_event :: "map_env \<Rightarrow> pydict \<Rightarrow> string \<Rightarrow> py_exc + mapped_event" where
  "bar_event m p t =
     rbind (require_str p ''symbol'') (\<lambda>symbol.
     rbind (require_float m p ''open'') (\<lambda>v_open.
     rbind (require_float m p ''high'') (\<lambda>high.
     rbind (require_float m p ''low'') (\<lambda>low.
     rbind (require_float m p ''close'') (\<lambda>close.
     rbind (require_float m p ''volume'') (\<lambda>volume.
     rbind (require_int m p ''ts_ms'') (\<lambda>ts_ms.
       Inr (MarketBarEvent t symbol v_open high low close volume ts_ms))))))))"

definition quote_event :: "map_env \<Rightarrow> pydict \<Rightarrow> string \<Rightarrow> py_exc + mapped_event" where
  "quote_event m p t =
     rbind (require_str p ''symbol'') (\<lambda>symbol.
     rbind (require_float m p ''bid'') (\<lambda>bid.
     rbind (require_float m p ''ask'') (\<lambda>ask.
     rbind (require_float m p ''bid_size'') (\<lambda>bid_size.
     rbind (require_float m p ''ask_size'') (\<lambda>ask_size.
     rbind (require_int m p ''ts_ms'') (\<lambda>ts_ms.
       Inr (MarketQuoteEvent t symbol bid ask bid_size ask_size ts_ms)))))))"

definition tick_event :: "map_env \<Rightarrow> pydict \<Rightarrow> string \<Rightarrow> py_exc + mapped_event" where
  "tick_event m p t =
     rbind (require_str p ''symbol'') (\<lambda>symbol.
     rbind (require_float m p ''price'') (\<lambda>price.
     rbind (require_float m p ''size'') (\<lambda>sz.
     rbind (require_int m p ''ts_ms'') (\<lambda>ts_ms.
       Inr (MarketTickEvent t symbol price sz ts_ms)))))"

definition timer_event :: "map_env \<Rightarrow> pydict \<Rightarrow> string \<Rightarrow> py_exc + mapped_event" where
  "timer_event m p t =
     rbind (if get_or_none p ''metadata'' = VNone then Inr []
            else require_mapping (get_or_none p ''metadata'') ''metadata'') (\<lambda>metadata.
     rbind (require_str p ''timer_id'') (\<lambda>timer_id.
     rbind (require_int m p ''scheduled_at_ms'') (\<lambda>at_ms.
       Inr (TimerEvent t timer_id at_ms metadata))))"

definition map_event :: "map_env \<Rightarrow> pyval \<Rightarrow> py_exc + mapped_event" where
  "map_event m raw_event =
     rbind (require_mapping raw_event ''raw_event'') (\<lambda>raw.
     rbind (normalize_payload m raw) (\<lambda>p.
     rbind (require_str p ''type'') (\<lambda>t.
       if t = ''market.bar'' then bar_event m p t
       else if t = ''market.quote'' then quote_event m p t
       else if t = ''market.tick'' then tick_event m p t
       else if t = ''timer'' then timer_event m p t
       else Inl (EventMappingError [(''event_type'', VStr t)]))))"

section \<open>What the mapper does\<close>

lemma align_has [simp]: "dict_has p name \<Longrightarrow> align name v p = p"
  by (simp add: align_def)

lemma align_all_present:
  "(\<forall>name\<in>fst ` set wanted. dict_has p name) \<Longrightarrow> align_all p wanted = p"
proof -
  have "(\<forall>name\<in>fst ` set wanted. dict_has p name) \<Longrightarrow>
      fold (\<lambda>(name, cs). align name (pick_field q cs)) wanted p = p" for q
    by (induction wanted) auto
  then show "(\<forall>name\<in>fst ` set wanted. dict_has p name) \<Longrightarrow> align_all p wanted = p"
    by (simp add: align_all_def)
qed

text \<open>
  C10: every tick that the historical driver builds is mapped, in every environment, to the bar
  event with the symbol, prices, volume and time of the bar, whatever the other fields are.
\<close>

theorem historical_tick_maps_to_bar:
  assumes "build_historical_bar_replay_tick h g bar symbol timeframe sequence = Inr tick"
    and "symbol \<noteq> []"
  shows "\<exists>ts_ms. historical_time_utc_to_epoch_ms h g (hb_time_utc bar) = Some ts_ms \<and>
    map_event m (VDict tick) = Inr (MarketBarEvent ''market.bar'' symbol (hb_open bar) (hb_high bar)
      (hb_low bar) (hb_close bar) (hb_volume bar) ts_ms)"
proof -
  obtain ts_ms where ts: "historical_time_utc_to_epoch_ms h g (hb_time_utc bar) = Some ts_ms"
    using assms(1) by (auto simp: build_historical_bar_replay_tick_def split: option.splits)
  have get: "dict_get tick ''type'' = Some (VStr ''market.bar'')" "dict_get tick ''symbol'' = Some (VStr symbol)"
    "dict_get tick ''open'' = Some (VFloat (hb_open bar))" "dict_get tick ''high'' = Some (VFloat (hb_high bar))"
    "dict_get tick ''low'' = Some (VFloat (hb_low bar))" "dict_get tick ''close'' = Some (VFloat (hb_close bar))"
    "dict_get tick ''volume'' = Some (VFloat (hb_volume bar))" "dict_get tick ''ts_ms'' = Some (VInt ts_ms)"
    using assms(1) by (auto simp: build_historical_bar_replay_tick_def Let_def ts)
  have "with_type tick = tick"
    by (simp add: with_type_def dict_setdefault_def dict_has_def get split: pyval.split)
  moreover have "normalize_market_bar_payload m tick = Inr tick"
    by (simp add: normalize_market_bar_payload_def align_all_present add_bar_ts_ms_def wants_ts_ms_def
        dict_has_def get)
  ultimately have "normalize_payload m tick = Inr tick"
    by (simp add: normalize_payload_def get_or_none_def get)
  then have "map_event m (VDict tick) = Inr (MarketBarEvent ''market.bar'' symbol (hb_open bar) (hb_high bar)
      (hb_low bar) (hb_close bar) (hb_volume bar) ts_ms)"
    using assms(2)
    by (simp add: map_event_def require_mapping_def require_str_def get bar_event_def require_float_def
        require_int_def coerce_float_def coerce_int_def Let_def)
  then show ?thesis using ts by blast
qed

definition sample_map_env :: map_env where
  "sample_map_env =
     \<lparr>me_fromisoformat = (\<lambda>s. None), me_epoch_millis = (\<lambda>t. 0),
      me_parse_float = (\<lambda>s. if s = ''inf'' then Some PosInf else None),
      me_int_to_float = (\<lambda>i. Inr (Fin (of_int i)))\<rparr>"

theorem historical_tick_maps_to_bar_witness:
  "\<exists>tick ts_ms. build_historical_bar_replay_tick sample_hist reading_cfg sample_bar ''AAPL'' ''1m'' 0 = Inr tick \<and>
     map_event sample_map_env (VDict tick) =
       Inr (MarketBarEvent ''market.bar'' ''AAPL'' (Fin 1) (Fin 1) (Fin 1) (Fin 1) (Fin 1) ts_ms)"
proof -
  have "\<not> isl (build_historical_bar_replay_tick sample_hist reading_cfg sample_bar ''AAPL'' ''1m'' 0)"
    by code_simp
  then obtain tick where tick: "build_historical_bar_replay_tick sample_hist reading_cfg sample_bar ''AAPL'' ''1m'' 0 = Inr tick"
    by (metis isl_def sum.exhaust_sel)
  show ?thesis
    using historical_tick_maps_to_bar [OF tick, of sample_map_env] tick by (auto simp: sample_bar_def)
qed

text \<open>Which exceptions leave the mapper.\<close>

definition mapper_exception :: "py_exc \<Rightarrow> bool" where
  "mapper_exception e \<longleftrightarrow> exc_type_name e \<in> {''EventMappingError'', ''ValueError'', ''OverflowError''}"

definition raises_only :: "('e \<Rightarrow> bool) \<Rightarrow> 'e + 'a \<Rightarrow> bool" where
  "raises_only P r \<longleftrightarrow> (\<forall>e. r = Inl e \<longrightarrow> P e)"

lemma raises_only_rules:
  "raises_only P (Inr x)" "P e \<Longrightarrow> raises_only P (Inl e)"
  "raises_only P r \<Longrightarrow> (\<And>x. raises_only P (f x)) \<Longrightarrow> raises_only P (rbind r f)"
  "raises_only P q \<Longrightarrow> raises_only P q' \<Longrightarrow> raises_only P (if c then q else q')"
  by (auto simp: raises_only_def rbind_eq_Inl)

lemma mapping_error_exception [simp]:
  "mapper_exception (EventMappingError d)" "mapper_exception (missing_field n)" "mapper_exception (wrong_type n x)"
  by (simp_all add: mapper_exception_def EventMappingError_def missing_field_def wrong_type_def)

lemma float_to_int_raises: "raises_only mapper_exception (float_to_int x)"
  by (cases x) (auto simp: raises_only_def mapper_exception_def)

lemma coerce_int_raises: "raises_only mapper_exception (coerce_int m v n)"
  using float_to_int_raises
  by (auto simp: coerce_int_def Let_def raises_only_def split: pyval.split option.split sum.split)

lemma require_raises:
  "raises_only mapper_exception (require_str p n)" "raises_only mapper_exception (require_int m p n)"
  "raises_only mapper_exception (require_mapping v n)"
  using coerce_int_raises
  by (auto simp: require_str_def require_int_def require_mapping_def raises_only_def
      split: option.split pyval.split)

lemma require_float_raises:
  assumes "\<forall>i e. me_int_to_float m i = Inl e \<longrightarrow> exc_type_name e = ''OverflowError''"
  shows "raises_only mapper_exception (require_float m p n)"
proof -
  have "raises_only mapper_exception (me_int_to_float m i)" for i
    using assms by (simp add: raises_only_def mapper_exception_def)
  then show ?thesis
    by (auto simp: require_float_def coerce_float_def Let_def raises_only_def split: option.split pyval.split)
qed

lemma normalize_bar_raises: "raises_only mapper_exception (normalize_market_bar_payload m p)"
proof -
  have ts: "raises_only mapper_exception (case coerce_int m et n of Inr ts \<Rightarrow> Inr (f ts)
      | Inl e \<Rightarrow> if exc_type_name e = x then Inr al else Inl e)" for et n x f and al :: pydict
    using coerce_int_raises [of m et n] by (cases "coerce_int m et n") (simp_all add: raises_only_def)
  show ?thesis
    unfolding normalize_market_bar_payload_def add_bar_ts_ms_def Let_def
    by (intro raises_only_rules(1,4) ts) (simp add: raises_only_rules ts split: option.split)
qed

lemma normalize_raises: "raises_only mapper_exception (normalize_payload m raw)"
  unfolding normalize_payload_def Let_def
  by (cases "get_or_none (with_type raw) ''type''")
    (simp_all add: raises_only_rules(1) normalize_bar_raises)

text \<open>
  The mapper fails only with an event mapping error, a \<open>ValueError\<close> or an \<open>OverflowError\<close>,
  so a raw event never makes it raise anything the boundary around it does not expect.
\<close>

lemma mapper_exceptions:
  assumes "map_event m raw = Inl e"
    and "\<forall>i e. me_int_to_float m i = Inl e \<longrightarrow> exc_type_name e = ''OverflowError''"
  shows "mapper_exception e"
proof -
  have "raises_only mapper_exception (map_event m raw)"
    unfolding map_event_def bar_event_def quote_event_def tick_event_def timer_event_def
    by (intro raises_only_rules require_raises require_float_raises [OF assms(2)] normalize_raises
        mapping_error_exception)
  then show ?thesis using assms(1) by (simp add: raises_only_def)
qed

definition infinite_time_bar :: pydict where
  "infinite_time_bar = [(''type'', VStr ''market.bar''), (''symbol'', VStr ''AAPL''), (''open'', VInt 1),
     (''high'', VInt 1), (''low'', VInt 1), (''close'', VInt 1), (''volume'', VInt 1), (''event_time'', VStr ''inf'')]"

text \<open>A time that reads as infinity is no mapping error: the conversion itself overflows.\<close>

lemma infinite_time_overflows:
  "map_event sample_map_env (VDict infinite_time_bar) =
     Inl (OtherExc ''OverflowError'' ''cannot convert float infinity to integer'' None)"
  by code_simp

theorem mapper_exceptions_witness:
  "mapper_exception (OtherExc ''OverflowError'' ''cannot convert float infinity to integer'' None)"
  by (rule mapper_exceptions [OF infinite_time_overflows]) (simp add: sample_map_env_def)

end
