(* ===== verification/PyFloat.thy ===== *)
theory PyFloat
  imports Py_Prelude
begin

text \<open>
  The order of Python floats: \<open>x < y\<close> with infinities, false where one side is a NaN, and \<open>max\<close> as Python
  computes it (the second argument only where it is greater).
\<close>

fun float_less :: "pyfloat \<Rightarrow> pyfloat \<Rightarrow> bool" where
  "float_less NaN y = False"
| "float_less x NaN = False"
| "float_less PosInf y = False"
| "float_less x NegInf = False"
| "float_less NegInf y = True"
| "float_less x PosInf = True"
| "float_less (Fin a) (Fin b) = (a < b)"

definition py_max :: "pyfloat \<Rightarrow> pyfloat \<Rightarrow> pyfloat" where
  "py_max a b = (if float_less a b then b else a)"

lemma py_max_not_less: "a \<noteq> NaN \<Longrightarrow> \<not> float_less (py_max a b) a"
  by (cases a; cases b) (auto simp: py_max_def)

end
