(* ===== verification/ReplaySupport.thy ===== *)
theory ReplaySupport
  imports EventMapper OrderSubmission PyFloat
begin

text \<open>
  \<open>bootstrap/replay_runtime_support.py\<close>, the data service of \<open>bootstrap/replay_sdk_bridge.py\<close> and the
  simulated clock service: the state behind the context of a strategy. The SDK's value classes may
  refuse their arguments, its objects answer \<open>float()\<close>, indicators are objects known by what they
  answer to the updates they got: these are arguments, collected in \<open>bridge_env\<close>.
\<close>

section \<open>Values handed to a strategy\<close>

record sdk_bar =
  bar_symbol :: string
  bar_timeframe :: string
  bar_open :: pyfloat
  bar_high :: pyfloat
  bar_low :: pyfloat
  bar_close :: pyfloat
  bar_volume :: pyfloat
  bar_timestamp :: pydatetime
  bar_instrument_id :: string

record sdk_quote =
  qt_symbol :: string
  qt_bid :: pyfloat
  qt_ask :: pyfloat
  qt_bid_size :: pyfloat
  qt_ask_size :: pyfloat
  qt_timestamp :: pydatetime
  qt_instrument_id :: string

record sdk_tick =
  tk_symbol :: string
  tk_timestamp :: pydatetime
  tk_price :: pyfloat
  tk_size :: pyfloat
  tk_instrument_id :: string

datatype hook_payload = BarItem sdk_bar | QuoteItem sdk_quote | TickItem sdk_tick | TimerItem pydatetime

datatype data_source = DS_BAR | DS_QUOTE | DS_TICK

record bridge_env =
  be_str :: "pyval \<Rightarrow> string"
  be_parse_float :: "string \<Rightarrow> pyfloat option"
  be_float_of :: "nat \<Rightarrow> pyfloat option"
  be_fromisoformat :: "string \<Rightarrow> pydatetime option"
  be_wall :: pydatetime
  be_overflow :: "int \<Rightarrow> string"
  be_bar_error :: "sdk_bar \<Rightarrow> py_exc option"
  be_quote_error :: "sdk_quote \<Rightarrow> py_exc option"
  be_tick_error :: "sdk_tick \<Rightarrow> py_exc option"
  be_make_order :: "pydict \<Rightarrow> py_exc + pydict"
  be_times :: "pyfloat \<Rightarrow> pyfloat \<Rightarrow> pyfloat"
  be_mid_price :: "sdk_quote \<Rightarrow> pyfloat"
  be_updatable :: "nat \<Rightarrow> bool"
  be_update_error :: "nat \<Rightarrow> hook_payload list \<Rightarrow> py_exc option"
  be_indicator_value :: "nat \<Rightarrow> hook_payload list \<Rightarrow> pyfloat option"
  be_attr :: "nat \<Rightarrow> string \<Rightarrow> pyval option"
  be_buy :: pyval
  be_sell :: pyval
  be_market :: pyval

text \<open>\<open>float(v)\<close> and the comparisons of floats and of datetimes.\<close>

definition not_a_float :: py_exc where
  "not_a_float = TypeExc ''TypeError'' ''float() argument must be a string or a real number''"

definition py_float :: "bridge_env \<Rightarrow> pyval \<Rightarrow> py_exc + pyfloat" where
  "py_float e v =
     (case v of
        VFloat x \<Rightarrow> Inr x
      | VInt i \<Rightarrow> Inr (Fin (of_int i))
      | VBool b \<Rightarrow> Inr (Fin (if b then 1 else 0))
      | VStr s \<Rightarrow> (case be_parse_float e s of
           None \<Rightarrow> Inl (ValueExc ''ValueError'' ''could not convert string to float'' None)
         | Some x \<Rightarrow> Inr x)
      | VObj n \<Rightarrow> (case be_float_of e n of None \<Rightarrow> Inl not_a_float | Some x \<Rightarrow> Inr x)
      | _ \<Rightarrow> Inl not_a_float)"

definition dt_less :: "pydatetime \<Rightarrow> pydatetime \<Rightarrow> py_exc + bool" where
  "dt_less s t =
     (if dt_aware s \<noteq> dt_aware t
      then Inl (TypeExc ''TypeError'' (''can'' @ [CHR 0x27] @ ''t compare offset-naive and offset-aware datetimes''))
      else Inr (dt_instant s < dt_instant t))"

section \<open>Market data in memory\<close>

record replay_data =
  rd_primary_tf :: string
  rd_bars :: "string \<times> string \<Rightarrow> sdk_bar list"
  rd_quotes :: "string \<Rightarrow> sdk_quote option"
  rd_ticks :: "string \<Rightarrow> sdk_tick option"

definition InMemoryReplayDataService :: "string \<Rightarrow> replay_data" where
  "InMemoryReplayDataService primary_timeframe =
     \<lparr>rd_primary_tf = primary_timeframe, rd_bars = (\<lambda>k. []), rd_quotes = (\<lambda>i. None), rd_ticks = (\<lambda>i. None)\<rparr>"

definition append_bar :: "sdk_bar \<Rightarrow> replay_data \<Rightarrow> replay_data" where
  "append_bar b d =
     (let key = (bar_instrument_id b, bar_timeframe b)
      in d\<lparr>rd_bars := (rd_bars d)(key := rd_bars d key @ [b])\<rparr>)"

definition record_quote :: "sdk_quote \<Rightarrow> replay_data \<Rightarrow> replay_data" where
  "record_quote q d = d\<lparr>rd_quotes := (rd_quotes d)(qt_instrument_id q := Some q)\<rparr>"

definition record_tick :: "sdk_tick \<Rightarrow> replay_data \<Rightarrow> replay_data" where
  "record_tick t d = d\<lparr>rd_ticks := (rd_ticks d)(tk_instrument_id t := Some t)\<rparr>"

definition bars_of :: "replay_data \<Rightarrow> string \<Rightarrow> string \<Rightarrow> sdk_bar list" where
  "bars_of d instrument_id timeframe = rd_bars d (instrument_id, timeframe)"

text \<open>\<open>xs[-n:]\<close> for a positive \<open>n\<close>.\<close>

definition take_last :: "int \<Rightarrow> 'a list \<Rightarrow> 'a list" where
  "take_last n xs = drop (length xs - nat n) xs"

definition bar_history :: "replay_data \<Rightarrow> string \<Rightarrow> string \<Rightarrow> int \<Rightarrow> sdk_bar list" where
  "bar_history d instrument_id timeframe lookback =
     (let series = rd_bars d (instrument_id, timeframe)
      in if series = [] \<or> lookback \<le> 0 then [] else take_last lookback series)"

definition data_latest_quote :: "replay_data \<Rightarrow> string \<Rightarrow> sdk_quote option" where
  "data_latest_quote d instrument_id = rd_quotes d instrument_id"

definition data_latest_bar :: "replay_data \<Rightarrow> string \<Rightarrow> string \<Rightarrow> sdk_bar option" where
  "data_latest_bar d instrument_id timeframe =
     (let series = rd_bars d (instrument_id, timeframe) in if series = [] then None else Some (last series))"

definition data_latest_tick :: "replay_data \<Rightarrow> string \<Rightarrow> sdk_tick option" where
  "data_latest_tick d instrument_id = rd_ticks d instrument_id"

definition latest_price :: "bridge_env \<Rightarrow> replay_data \<Rightarrow> string \<Rightarrow> pyfloat option" where
  "latest_price e d instrument_id =
     (case rd_ticks d instrument_id of
        Some t \<Rightarrow> Some (tk_price t)
      | None \<Rightarrow>
          (case rd_quotes d instrument_id of
             Some q \<Rightarrow> Some (be_mid_price e q)
           | None \<Rightarrow> map_option bar_close (data_latest_bar d instrument_id (rd_primary_tf d))))"

section \<open>Indicators\<close>

text \<open>
  Registrations and values of the service; \<open>is_updates\<close> is the history of the updates the indicator
  objects got, from which the environment knows their values.
\<close>

record indicator_service =
  is_registrations :: "(string \<times> nat \<times> data_source) list"
  is_values :: "(string \<times> pyfloat option) list"
  is_updates :: "(nat \<times> hook_payload) list"

definition IndicatorService :: indicator_service where
  "IndicatorService = \<lparr>is_registrations = [], is_values = [], is_updates = []\<rparr>"

definition register_indicator :: "string \<Rightarrow> nat \<Rightarrow> data_source \<Rightarrow> indicator_service \<Rightarrow> indicator_service" where
  "register_indicator indicator_name indicator ds s =
     s\<lparr>is_registrations := is_registrations s @ [(indicator_name, indicator, ds)],
       is_values := dict_set indicator_name None (is_values s)\<rparr>"

definition updates_of :: "nat \<Rightarrow> indicator_service \<Rightarrow> hook_payload list" where
  "updates_of ind s = map snd (filter (\<lambda>u. fst u = ind) (is_updates s))"

text \<open>One round over the registrations of a source; an \<open>update\<close> that raises ends it.\<close>

definition update_indicator ::
  "bridge_env \<Rightarrow> hook_payload \<Rightarrow> string \<Rightarrow> nat \<Rightarrow> (indicator_service, unit) act" where
  "update_indicator e item name ind =
     act_then (act_modify (\<lambda>s. s\<lparr>is_updates := is_updates s @ [(ind, item)]\<rparr>))
       (act_with (updates_of ind) (\<lambda>us.
          case be_update_error e ind us of
            Some exc \<Rightarrow> act_raise exc
          | None \<Rightarrow>
              act_modify (\<lambda>s. s\<lparr>is_values := dict_set name (be_indicator_value e ind us) (is_values s)\<rparr>)))"

definition advance_one ::
  "bridge_env \<Rightarrow> data_source \<Rightarrow> hook_payload \<Rightarrow> string \<times> nat \<times> data_source \<Rightarrow> (indicator_service, unit) act" where
  "advance_one e source item reg =
     (case reg of (name, ind, ds) \<Rightarrow>
        act_when (ds = source \<and> be_updatable e ind) (update_indicator e item name ind))"

definition advance_on :: "bridge_env \<Rightarrow> data_source \<Rightarrow> hook_payload \<Rightarrow> (indicator_service, unit) act" where
  "advance_on e source item =
     act_with is_registrations (\<lambda>regs. act_for regs (advance_one e source item))"

definition get_indicator_value :: "indicator_service \<Rightarrow> string \<Rightarrow> pyfloat option" where
  "get_indicator_value s indicator_id =
     (case dict_get (is_values s) indicator_id of None \<Rightarrow> None | Some x \<Rightarrow> x)"

section \<open>The portfolio snapshot\<close>

record cash_balance =
  cb_currency :: string
  cb_free :: pyfloat
  cb_locked :: pyfloat
  cb_buying_power :: "pyfloat option"
  cb_equity :: "pyfloat option"

text \<open>A position is an object of the SDK's class or another object with attributes.\<close>

datatype position_entry = SdkPosition pydict | OtherPosition pydict | NoPosition

record portfolio_snapshot =
  ps_account_id :: string
  ps_run_id :: string
  ps_ts_event :: pydatetime
  ps_cash :: cash_balance
  ps_positions :: "(string \<times> position_entry) list"

definition apply_balance ::
  "pyfloat \<Rightarrow> pyfloat \<Rightarrow> pyfloat \<Rightarrow> pydatetime \<Rightarrow> portfolio_snapshot \<Rightarrow> portfolio_snapshot" where
  "apply_balance cash buying_power equity timestamp s =
     s\<lparr>ps_ts_event := timestamp,
       ps_cash := \<lparr>cb_currency = cb_currency (ps_cash s), cb_free = cash, cb_locked = cb_locked (ps_cash s),
                   cb_buying_power = Some buying_power, cb_equity = Some equity\<rparr>\<rparr>"

section \<open>The state behind the context\<close>

record replay_world =
  rw_clock :: "pydatetime option"
  rw_data :: replay_data
  rw_indicators :: indicator_service
  rw_portfolio :: portfolio_snapshot
  rw_orders :: order_world

type_synonym 'a rp = "(replay_world, 'a) act"

text \<open>An action on one part of the state.\<close>

definition on_part ::
  "(replay_world \<Rightarrow> 'p) \<Rightarrow> ('p \<Rightarrow> replay_world \<Rightarrow> replay_world) \<Rightarrow> ('p, 'a) act \<Rightarrow> 'a rp" where
  "on_part get put m = (\<lambda>w. case m (get w) of (r, p) \<Rightarrow> (r, put p w))"

definition put_orders :: "order_world \<Rightarrow> replay_world \<Rightarrow> replay_world" where
  "put_orders p w = w\<lparr>rw_orders := p\<rparr>"

definition put_indicators :: "indicator_service \<Rightarrow> replay_world \<Rightarrow> replay_world" where
  "put_indicators p w = w\<lparr>rw_indicators := p\<rparr>"

definition clock_service_now :: "pydatetime rp" where
  "clock_service_now = act_with rw_clock (\<lambda>c. act_of (clock_now c))"

section \<open>The order service\<close>

text \<open>
  \<open>DefaultOrderService\<close> and \<open>GrpcSubmittingOrderService\<close>, which differ in the delivery: without a
  submitter an intent is dropped. An order is known by its attributes.
\<close>

record order_service =
  os_strategy_id :: "string option"
  os_user_id :: "string option"
  os_submit :: "(sdk_intent \<Rightarrow> (order_world, pyval) act) option"
  os_log :: order_env

definition opt_float :: "bridge_env \<Rightarrow> pyval \<Rightarrow> py_exc + pyval" where
  "opt_float e v = (if v = VNone then Inr VNone else rbind (py_float e v) (\<lambda>x. Inr (VFloat x)))"

definition ReplayOrderIntent ::
  "string \<Rightarrow> pyval \<Rightarrow> pyfloat \<Rightarrow> pyfloat \<Rightarrow> pyval \<Rightarrow> pyval \<Rightarrow> pyval \<Rightarrow> pyval \<Rightarrow> pydatetime \<Rightarrow> sdk_intent" where
  "ReplayOrderIntent instrument_id side quantity price order_type limit_price stop_price time_in_force created_at =
     [(''instrument_id'', VStr instrument_id), (''side'', side), (''quantity'', VFloat quantity),
      (''price'', VFloat price), (''order_type'', order_type), (''limit_price'', limit_price),
      (''stop_price'', stop_price), (''time_in_force'', time_in_force), (''client_order_id'', VNone),
      (''created_at'', VTime created_at), (''qty'', VFloat quantity)]"

definition replay_intent_from_sdk :: "bridge_env \<Rightarrow> pydict \<Rightarrow> sdk_intent rp" where
  "replay_intent_from_sdk e oi =
     act_bind clock_service_now (\<lambda>created.
     act_of
       (rbind (py_float e (attr_of oi ''quantity'')) (\<lambda>quantity.
        rbind (py_float e (attr_of oi ''price'')) (\<lambda>price.
        rbind (opt_float e (attr_of oi ''limit_price'')) (\<lambda>limit_price.
        rbind (opt_float e (attr_of oi ''stop_price'')) (\<lambda>stop_price.
        Inr (ReplayOrderIntent (py_str (be_str e) (attr_of oi ''instrument_id'')) (attr_of oi ''side'')
          quantity price (attr_of oi ''order_type'') limit_price stop_price (attr_of oi ''time_in_force'')
          (as_utc created))))))))"

definition deliver_replay_intent :: "order_service \<Rightarrow> sdk_intent \<Rightarrow> unit rp" where
  "deliver_replay_intent svc intent =
     (case os_submit svc of
        None \<Rightarrow> act_ret ()
      | Some submit \<Rightarrow> on_part rw_orders put_orders (safe_submit_sdk_order_intent submit intent))"

definition service_buy :: "bridge_env \<Rightarrow> order_service \<Rightarrow> pydict \<Rightarrow> unit rp" where
  "service_buy e svc oi =
     (if attr_of oi ''side'' \<noteq> be_buy e
      then act_raise (ValueExc ''ValueError'' ''buy() requires OrderIntent with side=BUY'' None)
      else act_bind (replay_intent_from_sdk e oi) (deliver_replay_intent svc))"

definition service_sell :: "bridge_env \<Rightarrow> order_service \<Rightarrow> pydict \<Rightarrow> unit rp" where
  "service_sell e svc oi =
     (if attr_of oi ''side'' \<noteq> be_sell e
      then act_raise (ValueExc ''ValueError'' ''sell() requires OrderIntent with side=SELL'' None)
      else act_bind (replay_intent_from_sdk e oi) (deliver_replay_intent svc))"

end
