(* ===== verification/FileTree.thy ===== *)
theory FileTree
  imports Action PyText
begin

text \<open>
  The part of the file system and of \<open>pathlib\<close> (on a POSIX system) that the artifact pipeline uses. A
  path is the list of its segments from the root; a file tree lists its nodes. Operations may raise
  the \<open>OSError\<close> the operating system gives for them; links are known by the argument \<open>resolve\<close> of the
  code that uses them.
\<close>

type_synonym path = "string list"

datatype node = FileNode string | DirNode

type_synonym file_tree = "(path \<times> node) list"

section \<open>Paths\<close>

text \<open>\<open>Path(text)\<close>: segments without the empty ones and \<open>.\<close>; is it absolute?\<close>

definition path_parts :: "string \<Rightarrow> path" where
  "path_parts t = filter (\<lambda>s. s \<noteq> [] \<and> s \<noteq> ''.'') (py_split (CHR ''/'') t)"

definition is_absolute :: "string \<Rightarrow> bool" where
  "is_absolute t = starts_with ''/'' t"

definition path_str :: "path \<Rightarrow> string" where
  "path_str p = ''/'' @ py_join ''/'' p"

definition path_name :: "path \<Rightarrow> string" where
  "path_name p = (if p = [] then [] else last p)"

text \<open>\<open>Path.suffix\<close> and \<open>Path.stem\<close> of a file name.\<close>

definition extension_of :: "string \<Rightarrow> string" where
  "extension_of name = rev (takeWhile (\<lambda>c. c \<noteq> CHR ''.'') (rev name))"

definition has_suffix :: "string \<Rightarrow> bool" where
  "has_suffix name \<longleftrightarrow>
     extension_of name \<noteq> [] \<and> length (extension_of name) + 1 < length name"

definition path_suffix :: "string \<Rightarrow> string" where
  "path_suffix name = (if has_suffix name then ''.'' @ extension_of name else [])"

definition file_stem :: "string \<Rightarrow> string" where
  "file_stem name = (if has_suffix name then take (length name - length (extension_of name) - 1) name else name)"

text \<open>\<open>q.relative_to(p)\<close> does not raise.\<close>

fun is_below :: "path \<Rightarrow> path \<Rightarrow> bool" where
  "is_below [] q = True"
| "is_below (s # p) [] = False"
| "is_below (s # p) (t # q) = (s = t \<and> is_below p q)"

lemma is_below_append: "is_below p q \<longleftrightarrow> (\<exists>r. q = p @ r)"
  by (induction p q rule: is_below.induct) auto

lemma is_below_refl [simp]: "is_below p p" "is_below p (p @ r)"
  by (auto simp: is_below_append)

section \<open>Nodes\<close>

definition node_at :: "file_tree \<Rightarrow> path \<Rightarrow> node option" where
  "node_at fs p = (if p = [] then Some DirNode else map_of fs p)"

definition file_at :: "file_tree \<Rightarrow> path \<Rightarrow> string option" where
  "file_at fs p = (case node_at fs p of Some (FileNode b) \<Rightarrow> Some b | _ \<Rightarrow> None)"

definition tree_exists :: "file_tree \<Rightarrow> path \<Rightarrow> bool" where
  "tree_exists fs p \<longleftrightarrow> node_at fs p \<noteq> None"

definition is_file :: "file_tree \<Rightarrow> path \<Rightarrow> bool" where
  "is_file fs p \<longleftrightarrow> file_at fs p \<noteq> None"

definition is_dir :: "file_tree \<Rightarrow> path \<Rightarrow> bool" where
  "is_dir fs p \<longleftrightarrow> node_at fs p = Some DirNode"

definition os_error :: "string \<Rightarrow> path \<Rightarrow> py_exc" where
  "os_error ty p = OtherExc ty (path_str p) None"

definition ancestors :: "path \<Rightarrow> path list" where
  "ancestors p = map (\<lambda>n. take (n + 1) p) [0..<length p]"

definition add_dir :: "path \<Rightarrow> file_tree \<Rightarrow> file_tree" where
  "add_dir p fs = (if node_at fs p = None then AList.update p DirNode fs else fs)"

text \<open>\<open>p.mkdir(parents=True, exist_ok=True)\<close>.\<close>

definition mkdir_parents :: "path \<Rightarrow> (file_tree, unit) act" where
  "mkdir_parents p =
     act_with (\<lambda>fs. (is_file fs p, list_ex (is_file fs) (ancestors p))) (\<lambda>(here, blocked).
       if here then act_raise (os_error ''FileExistsError'' p)
       else if blocked then act_raise (os_error ''NotADirectoryError'' p)
       else act_modify (\<lambda>fs. fold add_dir (ancestors p) fs))"

definition write_file :: "path \<Rightarrow> string \<Rightarrow> (file_tree, unit) act" where
  "write_file p bytes =
     act_with (\<lambda>fs. (is_dir fs p, is_dir fs (butlast p))) (\<lambda>(here, parent).
       if here then act_raise (os_error ''IsADirectoryError'' p)
       else if \<not> parent then act_raise (os_error ''FileNotFoundError'' p)
       else act_modify (AList.update p (FileNode bytes)))"

definition remove_tree :: "path \<Rightarrow> file_tree \<Rightarrow> file_tree" where
  "remove_tree p fs = filter (\<lambda>(q, n). \<not> is_below p q) fs"

text \<open>Everything below \<open>source\<close> is copied below \<open>target\<close>.\<close>

definition nodes_below :: "path \<Rightarrow> file_tree \<Rightarrow> (path \<times> node) list" where
  "nodes_below p fs = map (\<lambda>(q, n). (drop (length p) q, n)) (filter (\<lambda>(q, n). is_below p q \<and> q \<noteq> p) fs)"

definition copy_tree :: "path \<Rightarrow> path \<Rightarrow> file_tree \<Rightarrow> file_tree" where
  "copy_tree source target fs = fold (\<lambda>(r, n). AList.update (target @ r) n) (nodes_below source fs) fs"

text \<open>The files below a path, relative to it, sorted by their text (\<open>sorted(root.rglob('*'), key=str)\<close>).\<close>

definition files_below :: "path \<Rightarrow> file_tree \<Rightarrow> (path \<times> string) list" where
  "files_below p fs =
     sort_key (\<lambda>(r, b). path_str (p @ r))
       (concat (map (\<lambda>(r, n). case n of FileNode b \<Rightarrow> [(r, b)] | DirNode \<Rightarrow> []) (nodes_below p fs)))"

section \<open>Lemmas\<close>

lemma node_at_update:
  "node_at (AList.update p n fs) q = (if q = p \<and> p \<noteq> [] then Some n else node_at fs q)"
  by (simp add: node_at_def update_conv)

lemma file_at_add_dir [simp]: "file_at (add_dir p fs) q = file_at fs q"
  by (auto simp: add_dir_def file_at_def node_at_update)

lemma file_at_add_dirs [simp]: "file_at (fold add_dir ps fs) q = file_at fs q"
  by (induction ps arbitrary: fs) simp_all

lemma node_at_add_dir_Some: "node_at fs q = Some n \<Longrightarrow> node_at (add_dir p fs) q = Some n"
  by (auto simp: add_dir_def node_at_update)

lemma map_of_remove_tree: "map_of (remove_tree p fs) q = (if is_below p q then None else map_of fs q)"
  unfolding remove_tree_def by (induction fs) auto

lemma node_at_remove_tree:
  "node_at (remove_tree p fs) q = (if q \<noteq> [] \<and> is_below p q then None else node_at fs q)"
  by (simp add: node_at_def map_of_remove_tree)

text \<open>What an operation may change: files below one path only.\<close>

definition confined :: "path \<Rightarrow> file_tree \<Rightarrow> file_tree \<Rightarrow> bool" where
  "confined p fs fs' \<longleftrightarrow> (\<forall>q. \<not> is_below p q \<longrightarrow> file_at fs' q = file_at fs q)"

interpretation confined: step_order "confined p" for p
  by unfold_locales (auto simp: confined_def)

lemma mkdir_confined: "moves (confined p) (mkdir_parents q)"
  unfolding mkdir_parents_def
  by (intro confined.reading) (auto simp: confined_def intro!: confined.raise confined.modify split: prod.split)

lemma write_confined: "is_below p q \<Longrightarrow> moves (confined p) (write_file q bytes)"
  unfolding write_file_def
  by (intro confined.reading) (auto simp: confined_def file_at_def node_at_update
      intro!: confined.raise confined.modify split: prod.split)

end
