(* ===== verification/StrategyContexts.thy ===== *)
theory StrategyContexts
  imports ReplaySupport FileTree
begin

text \<open>
  \<open>strategy_contract/\<close>: the contexts through which a strategy reads market data, indicators, time,
  parameters and its account, and places orders, over the services of \<open>ReplaySupport\<close>; and the
  parameter files beside the strategy module (\<open>strategy_params_yaml.py\<close>). The file system and the
  YAML reader are arguments. Conversions to data frames are left to pandas.
\<close>

section \<open>Market data\<close>

datatype timestamp_like = TsNone | TsTime pydatetime | TsText string

definition as_datetime :: "bridge_env \<Rightarrow> timestamp_like \<Rightarrow> py_exc + pydatetime option" where
  "as_datetime e value =
     (case value of
        TsNone \<Rightarrow> Inr None
      | TsTime t \<Rightarrow> Inr (Some t)
      | TsText s \<Rightarrow>
          (case be_fromisoformat e (py_replace ''Z'' ''+00:00'' s) of
             None \<Rightarrow> Inl (ValueExc ''ValueError'' ''Invalid isoformat string'' None)
           | Some t \<Rightarrow> Inr (Some t)))"

text \<open>Is an instant outside a window? The lower bound is looked at first.\<close>

definition outside_window :: "pydatetime option \<Rightarrow> pydatetime option \<Rightarrow> pydatetime \<Rightarrow> py_exc + bool" where
  "outside_window t0 t1 ts =
     rbind (case t0 of None \<Rightarrow> Inr False | Some s \<Rightarrow> dt_less ts s) (\<lambda>early.
     if early then Inr True
     else (case t1 of None \<Rightarrow> Inr False | Some t \<Rightarrow> dt_less t ts))"

fun select_series ::
  "('a \<Rightarrow> pydatetime) \<Rightarrow> pydatetime option \<Rightarrow> pydatetime option \<Rightarrow> 'a list \<Rightarrow> py_exc + 'a list" where
  "select_series ts t0 t1 [] = Inr []"
| "select_series ts t0 t1 (x # xs) =
     rbind (outside_window t0 t1 (ts x)) (\<lambda>skip.
     rbind (select_series ts t0 t1 xs) (\<lambda>out. Inr (if skip then out else x # out)))"

definition limit_series :: "int option \<Rightarrow> 'a list \<Rightarrow> 'a list" where
  "limit_series limit out =
     (case limit of None \<Rightarrow> out
      | Some n \<Rightarrow> if n \<ge> 0 then (if n \<noteq> 0 then take_last n out else []) else out)"

definition filter_series ::
  "('a \<Rightarrow> pydatetime) \<Rightarrow> pydatetime option \<Rightarrow> pydatetime option \<Rightarrow> int option \<Rightarrow> 'a list \<Rightarrow> py_exc + 'a list" where
  "filter_series ts t0 t1 limit series =
     rbind (select_series ts t0 t1 series) (\<lambda>out. Inr (limit_series limit out))"

definition latest_bar :: "replay_data \<Rightarrow> string \<Rightarrow> string \<Rightarrow> sdk_bar option" where
  "latest_bar d symbol timeframe = data_latest_bar d symbol timeframe"

definition latest_quote :: "replay_data \<Rightarrow> string \<Rightarrow> sdk_quote option" where
  "latest_quote d symbol = data_latest_quote d symbol"

definition latest_tick :: "replay_data \<Rightarrow> string \<Rightarrow> sdk_tick option" where
  "latest_tick d symbol = data_latest_tick d symbol"

definition get_bars ::
  "bridge_env \<Rightarrow> replay_data \<Rightarrow> string \<Rightarrow> string \<Rightarrow> timestamp_like \<Rightarrow> timestamp_like \<Rightarrow> int option \<Rightarrow>
     py_exc + sdk_bar list" where
  "get_bars e d symbol timeframe t0 t1 limit =
     rbind (as_datetime e t0) (\<lambda>s0.
     rbind (as_datetime e t1) (\<lambda>e0.
     filter_series bar_timestamp s0 e0 limit (bars_of d symbol timeframe)))"

text \<open>Ticks and quotes are kept one per instrument.\<close>

definition get_latest_only ::
  "bridge_env \<Rightarrow> ('a \<Rightarrow> pydatetime) \<Rightarrow> 'a option \<Rightarrow> timestamp_like \<Rightarrow> timestamp_like \<Rightarrow> int option \<Rightarrow>
     py_exc + 'a list" where
  "get_latest_only e ts item t0 t1 limit =
     (case item of
        None \<Rightarrow> Inr []
      | Some x \<Rightarrow>
          rbind (as_datetime e t0) (\<lambda>s0.
          rbind (as_datetime e t1) (\<lambda>e0.
          rbind (outside_window s0 e0 (ts x)) (\<lambda>out.
          Inr (if out \<or> limit = Some 0 then [] else [x])))))"

definition get_ticks ::
  "bridge_env \<Rightarrow> replay_data \<Rightarrow> string \<Rightarrow> timestamp_like \<Rightarrow> timestamp_like \<Rightarrow> int option \<Rightarrow> py_exc + sdk_tick list" where
  "get_ticks e d symbol t0 t1 limit = get_latest_only e tk_timestamp (latest_tick d symbol) t0 t1 limit"

definition get_quotes ::
  "bridge_env \<Rightarrow> replay_data \<Rightarrow> string \<Rightarrow> timestamp_like \<Rightarrow> timestamp_like \<Rightarrow> int option \<Rightarrow> py_exc + sdk_quote list" where
  "get_quotes e d symbol t0 t1 limit = get_latest_only e qt_timestamp (latest_quote d symbol) t0 t1 limit"

definition context_indicator_value :: "indicator_service \<Rightarrow> string \<Rightarrow> pyfloat" where
  "context_indicator_value s indicator_id =
     (case get_indicator_value s indicator_id of None \<Rightarrow> Fin 0 | Some x \<Rightarrow> x)"

section \<open>Orders\<close>

text \<open>An intent of the SDK, or an instrument with the arguments \<open>qty\<close> (\<open>None\<close>: not given) and \<open>kwargs\<close>.\<close>

datatype order_request = ByIntent pydict | ByQuantity pyval pyval pydict

definition request_price :: "bridge_env \<Rightarrow> pydict \<Rightarrow> py_exc + pyfloat" where
  "request_price e kwargs =
     py_float e (py_or (py_or (get_or_none kwargs ''price'') (get_or_none kwargs ''reference_price'')) (VFloat (Fin 1)))"

definition quantity_order :: "bridge_env \<Rightarrow> pyval \<Rightarrow> pyval \<Rightarrow> pyval \<Rightarrow> pydict \<Rightarrow> py_exc + pydict" where
  "quantity_order e side first qty kwargs =
     rbind (request_price e kwargs) (\<lambda>price.
     rbind (py_float e qty) (\<lambda>quantity.
     be_make_order e
       [(''instrument_id'', VStr (py_str (be_str e) first)), (''side'', side), (''quantity'', VFloat quantity),
        (''price'', VFloat price), (''order_type'', be_market e)]))"

definition context_buy :: "bridge_env \<Rightarrow> order_service \<Rightarrow> order_request \<Rightarrow> unit rp" where
  "context_buy e svc req =
     (case req of
        ByIntent oi \<Rightarrow> service_buy e svc oi
      | ByQuantity first qty kwargs \<Rightarrow>
          if qty = VNone
          then act_raise (TypeExc ''TypeError''
                 ''buy(instrument_id, qty=...) requires qty= when not passing OrderIntent'')
          else act_bind (act_of (quantity_order e (be_buy e) first qty kwargs)) (service_buy e svc))"

definition context_sell :: "bridge_env \<Rightarrow> order_service \<Rightarrow> order_request \<Rightarrow> unit rp" where
  "context_sell e svc req =
     (case req of
        ByIntent oi \<Rightarrow> service_sell e svc oi
      | ByQuantity first qty kwargs \<Rightarrow>
          if qty = VNone
          then act_raise (TypeExc ''TypeError''
                 ''sell(instrument_id, qty=...) requires qty= when not passing OrderIntent'')
          else act_bind (act_of (quantity_order e (be_sell e) first qty kwargs)) (service_sell e svc))"

section \<open>Parameters\<close>

text \<open>\<open>RuntimeParamsContext.get\<close>: a schema maps names to specifications.\<close>

fun first_attr :: "(string \<Rightarrow> pyval option) \<Rightarrow> string list \<Rightarrow> pyval" where
  "first_attr f [] = VNone"
| "first_attr f (a # as) =
     (case f a of Some v \<Rightarrow> if v \<noteq> VNone then v else first_attr f as | None \<Rightarrow> first_attr f as)"

definition params_get :: "bridge_env \<Rightarrow> pydict \<Rightarrow> string \<Rightarrow> py_exc + pyval" where
  "params_get e schema key =
     (case get_or_none schema key of
        VNone \<Rightarrow> Inl (OtherExc ''KeyError'' key None)
      | VDict spec \<Rightarrow>
          Inr (if dict_has spec ''default'' then get_or_none spec ''default''
               else if dict_has spec ''value'' then get_or_none spec ''value'' else VNone)
      | VObj n \<Rightarrow> Inr (first_attr (be_attr e n) [''default'', ''value'', ''default_value''])
      | _ \<Rightarrow> Inr VNone)"

fun get_params :: "bridge_env \<Rightarrow> pydict \<Rightarrow> string list \<Rightarrow> py_exc + pyval list" where
  "get_params e schema [] = Inr []"
| "get_params e schema (k # ks) =
     rbind (params_get e schema k) (\<lambda>v. rbind (get_params e schema ks) (\<lambda>vs. Inr (v # vs)))"

text \<open>The parameter file beside the strategy module.\<close>

datatype file_read = FileText string | FileOsError | FileRaises py_exc

datatype yaml_read = Parsed pyval | YamlError | YamlRaises py_exc

record param_files =
  pf_module_file :: "string option"
  pf_parent :: "string \<Rightarrow> string"
  pf_is_file :: "string \<Rightarrow> bool"
  pf_read :: "string \<Rightarrow> file_read"
  pf_yaml :: "(string \<Rightarrow> yaml_read) option"

definition params_yaml_filename_for_module :: "param_files \<Rightarrow> string \<Rightarrow> string" where
  "params_yaml_filename_for_module pf module_file = file_stem (path_name (path_parts module_file)) @ ''.yaml''"

definition discover_params_yaml_adjacent_to_module_file :: "param_files \<Rightarrow> string \<Rightarrow> string option" where
  "discover_params_yaml_adjacent_to_module_file pf module_file =
     (let parent = pf_parent pf module_file;
          stem_yaml = parent @ ''/'' @ params_yaml_filename_for_module pf module_file;
          legacy = parent @ ''/params.yaml''
      in if pf_is_file pf stem_yaml then Some stem_yaml
         else if pf_is_file pf legacy then Some legacy else None)"

definition discover_adjacent_params_yaml :: "param_files \<Rightarrow> string option" where
  "discover_adjacent_params_yaml pf =
     (case pf_module_file pf of None \<Rightarrow> None | Some f \<Rightarrow> discover_params_yaml_adjacent_to_module_file pf f)"

definition is_dict_value :: "string \<times> pyval \<Rightarrow> bool" where
  "is_dict_value kv = (case snd kv of VDict d \<Rightarrow> True | _ \<Rightarrow> False)"

definition dict_specs_from_mapping_block :: "pyval \<Rightarrow> pydict" where
  "dict_specs_from_mapping_block raw = (case raw of VDict d \<Rightarrow> filter is_dict_value d | _ \<Rightarrow> [])"

definition parameter_specs_from_yaml_mapping :: "pydict \<Rightarrow> pydict" where
  "parameter_specs_from_yaml_mapping data =
     (let props = dict_specs_from_mapping_block (get_or_none data ''properties'')
      in if props \<noteq> [] then props else dict_specs_from_mapping_block (get_or_none data ''indicator_params''))"

text \<open>The mapping a YAML file holds; missing packages, files and syntax errors give none.\<close>

definition yaml_mapping :: "param_files \<Rightarrow> string \<Rightarrow> py_exc + pydict option" where
  "yaml_mapping pf path =
     (case pf_yaml pf of None \<Rightarrow> Inr None
      | Some safe_load \<Rightarrow>
          if \<not> pf_is_file pf path then Inr None
          else (case pf_read pf path of
             FileOsError \<Rightarrow> Inr None
           | FileRaises exc \<Rightarrow> Inl exc
           | FileText t \<Rightarrow>
               (case safe_load t of
                  YamlError \<Rightarrow> Inr None
                | YamlRaises exc \<Rightarrow> Inl exc
                | Parsed (VDict d) \<Rightarrow> Inr (Some d)
                | Parsed _ \<Rightarrow> Inr None)))"

definition load_indicator_params_from_params_yaml :: "param_files \<Rightarrow> string \<Rightarrow> py_exc + pydict" where
  "load_indicator_params_from_params_yaml pf path =
     rbind (yaml_mapping pf path) (\<lambda>m.
     Inr (case m of None \<Rightarrow> [] | Some d \<Rightarrow> parameter_specs_from_yaml_mapping d))"

definition merge_parameter_schema_with_adjacent_params_yaml :: "param_files \<Rightarrow> pydict \<Rightarrow> py_exc + pydict" where
  "merge_parameter_schema_with_adjacent_params_yaml pf schema =
     (case discover_adjacent_params_yaml pf of
        None \<Rightarrow> Inr schema
      | Some yaml_path \<Rightarrow>
          rbind (load_indicator_params_from_params_yaml pf yaml_path) (\<lambda>from_yaml.
          Inr (if from_yaml = [] then schema else dict_update schema from_yaml)))"

text \<open>The number of warm-up bars. \<open>str.isdigit\<close> also holds of the superscripts 1, 2 and 3, which \<open>int\<close> rejects.\<close>

definition isdigit_char :: "char \<Rightarrow> bool" where
  "isdigit_char c \<longleftrightarrow> (of_char c :: nat) \<in> {48..57} \<union> {178, 179, 185}"

definition digits_int :: "string \<Rightarrow> int option" where
  "digits_int t =
     (if list_all (\<lambda>c. (of_char c :: nat) \<in> {48..57}) t
      then Some (int (digits_value t)) else None)"

definition warmup_default :: "pydict \<Rightarrow> py_exc + int option" where
  "warmup_default spec =
     (case get_or_none spec ''default'' of
        VInt d \<Rightarrow> Inr (if d > 0 then Some d else None)
      | VStr s \<Rightarrow>
          (let t = py_strip s in
           if t = [] \<or> \<not> list_all isdigit_char t then Inr None
           else (case digits_int t of
              None \<Rightarrow> Inl (ValueExc ''ValueError'' ''invalid literal for int() with base 10'' None)
            | Some v \<Rightarrow> Inr (Some (if v > 0 then v else 0))))
      | _ \<Rightarrow> Inr None)"

fun first_warmup :: "pydict \<Rightarrow> string list \<Rightarrow> py_exc + int" where
  "first_warmup specs [] = Inr 0"
| "first_warmup specs (k # ks) =
     (case get_or_none specs k of
        VDict spec \<Rightarrow> rbind (warmup_default spec) (\<lambda>d. case d of None \<Rightarrow> first_warmup specs ks | Some v \<Rightarrow> Inr v)
      | _ \<Rightarrow> first_warmup specs ks)"

definition load_warmup_bars_default_from_params_yaml :: "param_files \<Rightarrow> string \<Rightarrow> py_exc + int" where
  "load_warmup_bars_default_from_params_yaml pf path =
     rbind (yaml_mapping pf path) (\<lambda>m.
     case m of None \<Rightarrow> Inr 0
     | Some d \<Rightarrow>
         first_warmup (dict_specs_from_mapping_block (get_or_none d ''warmup_params''))
           [''warmup_bars'', ''warmup_lookback_days''])"

definition load_warmup_bars_default_for_strategy :: "param_files \<Rightarrow> py_exc + int" where
  "load_warmup_bars_default_for_strategy pf =
     (case discover_adjacent_params_yaml pf of None \<Rightarrow> Inr 0
      | Some path \<Rightarrow> load_warmup_bars_default_from_params_yaml pf path)"

section \<open>The account\<close>

text \<open>What the SDK's \<open>Portfolio\<close> is built from.\<close>

record portfolio =
  pf_timestamp :: pydatetime
  pf_cash_balance :: pyfloat
  pf_buying_power :: pyfloat
  pf_equity :: pyfloat
  pf_available_funds :: pyfloat
  pf_positions :: "pydict list"

definition float_attr :: "bridge_env \<Rightarrow> pydict \<Rightarrow> string \<Rightarrow> pyfloat \<Rightarrow> py_exc + pyfloat" where
  "float_attr e pos name x = py_float e (py_or (attr_of pos name) (VFloat x))"

definition position_symbol :: "bridge_env \<Rightarrow> pydict \<Rightarrow> string" where
  "position_symbol e pos =
     py_str (be_str e) (py_or (py_or (attr_of pos ''symbol'') (attr_of pos ''instrument_id'')) (VStr []))"

definition read_position :: "bridge_env \<Rightarrow> pydatetime \<Rightarrow> pydict \<Rightarrow> py_exc + pydict list" where
  "read_position e ts pos =
     rbind (float_attr e pos ''quantity'' (Fin 0)) (\<lambda>qty.
     rbind (float_attr e pos ''average_price'' (Fin 0)) (\<lambda>avg.
     rbind (float_attr e pos ''market_price'' avg) (\<lambda>mkt.
     rbind (float_attr e pos ''market_value'' (be_times e qty mkt)) (\<lambda>mv.
     rbind (float_attr e pos ''unrealized_pnl'' (Fin 0)) (\<lambda>upnl.
     Inr (if position_symbol e pos = [] then []
          else [[(''symbol'', VStr (position_symbol e pos)), (''quantity'', VFloat qty),
                 (''average_price'', VFloat avg), (''market_price'', VFloat mkt), (''market_value'', VFloat mv),
                 (''unrealized_pnl'', VFloat upnl),
                 (''timestamp'', case attr_of pos ''timestamp'' of VTime t \<Rightarrow> VTime t | _ \<Rightarrow> VTime ts)]]))))))"

fun read_positions ::
  "bridge_env \<Rightarrow> pydatetime \<Rightarrow> (string \<times> position_entry) list \<Rightarrow> py_exc + pydict list" where
  "read_positions e ts [] = Inr []"
| "read_positions e ts ((k, p) # ps) =
     rbind (case p of SdkPosition d \<Rightarrow> Inr [d] | NoPosition \<Rightarrow> Inr [] | OtherPosition d \<Rightarrow> read_position e ts d) (\<lambda>xs.
     rbind (read_positions e ts ps) (\<lambda>ys. Inr (xs @ ys)))"

definition snapshot_to_portfolio :: "bridge_env \<Rightarrow> portfolio_snapshot \<Rightarrow> py_exc + portfolio" where
  "snapshot_to_portfolio e snap =
     (let cash = ps_cash snap; free = cb_free cash;
          buying_power = (case cb_buying_power cash of None \<Rightarrow> free | Some x \<Rightarrow> x);
          equity = (case cb_equity cash of None \<Rightarrow> free | Some x \<Rightarrow> x)
      in rbind (read_positions e (ps_ts_event snap) (ps_positions snap)) (\<lambda>positions.
         Inr \<lparr>pf_timestamp = ps_ts_event snap, pf_cash_balance = free, pf_buying_power = buying_power,
              pf_equity = equity,
              pf_available_funds = (if float_less equity buying_power then equity else buying_power),
              pf_positions = positions\<rparr>))"

definition portfolio_of :: "bridge_env \<Rightarrow> portfolio rp" where
  "portfolio_of e = act_with rw_portfolio (\<lambda>snap. act_of (snapshot_to_portfolio e snap))"

definition parse_cash_value :: "bridge_env \<Rightarrow> pyval \<Rightarrow> py_exc + pyfloat" where
  "parse_cash_value e raw =
     (case raw of
        VNone \<Rightarrow> Inr (Fin 0)
      | VInt i \<Rightarrow> py_float e raw
      | VFloat x \<Rightarrow> py_float e raw
      | VBool b \<Rightarrow> py_float e raw
      | _ \<Rightarrow>
          (let t = py_strip (py_str (be_str e) raw) in if t = [] then Inr (Fin 0) else py_float e (VStr t)))"

definition aware_or_utc :: "pydatetime \<Rightarrow> pydatetime" where
  "aware_or_utc t = (if dt_aware t then t else utc (dt_wall t))"

definition parse_pls_timestamp :: "bridge_env \<Rightarrow> pyval \<Rightarrow> pydatetime option" where
  "parse_pls_timestamp e raw =
     (case raw of
        VTime t \<Rightarrow> Some (aware_or_utc t)
      | VStr s \<Rightarrow>
          if py_strip s = [] then None
          else map_option aware_or_utc (be_fromisoformat e (py_replace ''Z'' ''+00:00'' (py_strip s)))
      | _ \<Rightarrow> None)"

definition apply_pls_balance_update :: "bridge_env \<Rightarrow> pydict \<Rightarrow> bool rp" where
  "apply_pls_balance_update e msg =
     (case get_or_none msg ''balance'' of
        VDict balance \<Rightarrow>
          (let ts = (case parse_pls_timestamp e (get_or_none msg ''timestamp'') of None \<Rightarrow> be_wall e | Some t \<Rightarrow> t) in
           act_bind (act_of (parse_cash_value e (get_or_none balance ''cash_balance''))) (\<lambda>cash.
           act_bind (act_of (parse_cash_value e (get_or_none balance ''buying_power''))) (\<lambda>bp.
           act_bind (act_of (parse_cash_value e (get_or_none balance ''equity''))) (\<lambda>eq.
           act_then (act_modify (\<lambda>w. w\<lparr>rw_portfolio := apply_balance cash bp eq ts (rw_portfolio w)\<rparr>))
             (act_ret True)))))
      | _ \<Rightarrow> act_ret False)"

end
