(* ===== verification/StrategyAdapter.thy ===== *)
theory StrategyAdapter
  imports EventMapper
begin

text \<open>
  \<open>bootstrap/strategy_error_boundary.py\<close>, \<open>strategy_adapter.py\<close> and \<open>strategy_instance_manager.py\<close>:
  the strategy behind its error boundary. The strategy and the bridge to the SDK are not part of
  the repository's core: which hooks exist is the record \<open>strategy\<close>, and what a call of a hook
  answers is decided by \<open>st_answer\<close> from the calls made so far. Only \<open>Exception\<close> is contained.
\<close>

section \<open>The error boundary\<close>

record 'a call_result =
  cr_ok :: bool
  cr_value :: "'a option"
  cr_error_code :: "string option"
  cr_reason_code :: "string option"
  cr_exception :: "py_exc option"
  cr_diagnostics :: pydict

definition normal_code :: "string option \<Rightarrow> string option" where
  "normal_code code =
     (case code of None \<Rightarrow> None
      | Some t \<Rightarrow> if py_upper (py_strip t) = [] then None else Some (py_upper (py_strip t)))"

definition StrategyCallResult ::
  "bool \<Rightarrow> 'a option \<Rightarrow> string option \<Rightarrow> string option \<Rightarrow> py_exc option \<Rightarrow> pydict \<Rightarrow> 'a call_result" where
  "StrategyCallResult ok value error_code rcode exc diagnostics =
     \<lparr>cr_ok = ok, cr_value = value, cr_error_code = normal_code error_code,
      cr_reason_code = normal_code rcode, cr_exception = exc, cr_diagnostics = diagnostics\<rparr>"

fun is_contract_exception :: "py_exc \<Rightarrow> bool" where
  "is_contract_exception (BootstrapExc _ _ _ _ _ _) = False"
| "is_contract_exception (OtherExc _ _ _) = False"
| "is_contract_exception _ = True"

definition invoke :: "string \<Rightarrow> py_exc + 'a \<Rightarrow> bool \<Rightarrow> 'a call_result" where
  "invoke operation outcome is_cleanup =
     (case outcome of
        Inr value \<Rightarrow>
          StrategyCallResult True (Some value) None None None [(''operation'', VStr operation)]
      | Inl e \<Rightarrow>
          (let contract = is_contract_exception e;
               rcode = (if contract
                 then (if is_cleanup then ''STRATEGY_CLEANUP_CONTRACT_VIOLATION''
                       else ''STRATEGY_CALLBACK_CONTRACT_VIOLATION'')
                 else (if is_cleanup then ''STRATEGY_CLEANUP_UNHANDLED_EXCEPTION''
                       else ''STRATEGY_CALLBACK_UNHANDLED_EXCEPTION''));
               error_code = (if contract then get_machine_error_code e
                             else worker_error_code_value WE_INTERNAL_ERROR);
               diagnostics = [(''operation'', VStr operation),
                 (''failure_kind'', VStr (if contract then ''contract'' else ''unhandled'')),
                 (''exception_type'', VStr (exc_type_name e))] @
                 (case exc_details e of None \<Rightarrow> [] | Some d \<Rightarrow> [(''error_details'', VDict d)])
           in StrategyCallResult False None (Some error_code) (Some rcode) (Some e) diagnostics))"

definition call_cleanup :: "py_exc + 'a \<Rightarrow> 'a call_result" where
  "call_cleanup outcome = invoke ''strategy.cleanup'' outcome True"

section \<open>The adapter\<close>

text \<open>What a hook is called with: plain arguments, a mapped event, or both forms through the bridge.\<close>

datatype hook_arg = Args "pyval list" | Mapped mapped_event | Bridged pydict mapped_event

record strategy =
  st_sdk :: bool
  st_hook :: "string \<Rightarrow> bool"
  st_overrides :: "string \<Rightarrow> bool"
  st_initialize_params :: nat
  st_bridge :: bool
  st_binds :: bool
  st_answer :: "(string \<times> hook_arg) list \<Rightarrow> string \<times> hook_arg \<Rightarrow> py_exc + pyval"

record adapter =
  ad_started :: bool
  ad_calls :: "(string \<times> hook_arg) list"

type_synonym 'a adapter_op = "(adapter, 'a) act"

text \<open>One call of strategy code through the boundary: it always answers.\<close>

definition bounded_call :: "strategy \<Rightarrow> string \<Rightarrow> string \<Rightarrow> hook_arg \<Rightarrow> bool \<Rightarrow> pyval call_result adapter_op" where
  "bounded_call st operation hook arg is_cleanup = (\<lambda>a.
     (Inr (invoke operation (st_answer st (ad_calls a) (hook, arg)) is_cleanup),
      a\<lparr>ad_calls := ad_calls a @ [(hook, arg)]\<rparr>))"

definition ok_result :: "string \<Rightarrow> string option \<Rightarrow> 'a call_result" where
  "ok_result operation skipped =
     StrategyCallResult True None None None None
       ((''operation'', VStr operation) #
        (case skipped of None \<Rightarrow> [] | Some t \<Rightarrow> [(''skipped'', VStr t)]))"

text \<open>The context object of the bridge.\<close>

definition bridge_context :: "strategy \<Rightarrow> pyval" where
  "bridge_context st = (if st_bridge st then VObj 0 else VNone)"

definition legacy_initialize :: "strategy \<Rightarrow> pyval call_result adapter_op" where
  "legacy_initialize st =
     (if \<not> st_hook st ''initialize'' then act_ret (ok_result ''strategy.initialize'' (Some ''no_hook''))
      else bounded_call st ''strategy.initialize'' ''initialize''
        (if st_initialize_params st \<ge> 1 then Args [bridge_context st] else Args []) False)"

text \<open>\<open>_bind_context\<close> is called outside the boundary: what it raises gets through.\<close>

definition bind_context :: "strategy \<Rightarrow> unit adapter_op" where
  "bind_context st = (\<lambda>a.
     if st_bridge st \<and> st_binds st then
       (case st_answer st (ad_calls a) (''_bind_context'', Args [bridge_context st]) of
          Inl e \<Rightarrow> (Inl e, a\<lparr>ad_calls := ad_calls a @ [(''_bind_context'', Args [bridge_context st])]\<rparr>)
        | Inr v \<Rightarrow> (Inr (), a\<lparr>ad_calls := ad_calls a @ [(''_bind_context'', Args [bridge_context st])]\<rparr>))
     else (Inr (), a))"

definition initialize_strategy :: "strategy \<Rightarrow> pyval call_result adapter_op" where
  "initialize_strategy st =
     (if st_sdk st then
        act_then (bind_context st)
          (bounded_call st ''strategy.initialize'' ''initialize'' (Args []) False)
      else legacy_initialize st)"

definition bind_and_start :: "strategy \<Rightarrow> pyval call_result adapter_op" where
  "bind_and_start st =
     act_with ad_started (\<lambda>started.
       if started then act_ret (ok_result ''strategy.bind_and_start'' (Some ''already_started''))
       else act_bind (initialize_strategy st) (\<lambda>init_result.
         if \<not> cr_ok init_result then act_ret init_result
         else act_bind
           (if st_hook st ''on_start'' then bounded_call st ''strategy.on_start'' ''on_start'' (Args []) False
            else act_ret (ok_result ''strategy.on_start'' None)) (\<lambda>start_result.
           if \<not> cr_ok start_result then act_ret start_result
           else act_then (act_modify (\<lambda>a. a\<lparr>ad_started := True\<rparr>))
             (act_ret (ok_result ''strategy.bind_and_start'' None)))))"

definition initialize :: "strategy \<Rightarrow> pyval list \<Rightarrow> pyval call_result adapter_op" where
  "initialize st args =
     (if \<not> st_hook st ''initialize'' then act_ret (ok_result ''strategy.initialize'' None)
      else bounded_call st ''strategy.initialize'' ''initialize'' (Args args) False)"

text \<open>The typed hook of a mapped event.\<close>

fun event_hook :: "mapped_event \<Rightarrow> string" where
  "event_hook (MarketBarEvent _ _ _ _ _ _ _ _) = ''on_bar''"
| "event_hook (MarketQuoteEvent _ _ _ _ _ _ _) = ''on_quote''"
| "event_hook (MarketTickEvent _ _ _ _ _) = ''on_tick''"
| "event_hook (TimerEvent _ _ _ _) = ''on_timer''"

definition uses_typed_hook :: "strategy \<Rightarrow> mapped_event \<Rightarrow> bool" where
  "uses_typed_hook st ev \<longleftrightarrow>
     st_bridge st \<and> st_hook st (event_hook ev) \<and> st_overrides st (event_hook ev)"

definition on_event :: "strategy \<Rightarrow> map_env \<Rightarrow> pydict \<Rightarrow> pyval call_result adapter_op" where
  "on_event st m raw_event =
     (case map_event m (VDict raw_event) of
        Inl e \<Rightarrow>
          (let r = invoke ''event.map'' (Inl e :: py_exc + mapped_event) False in
           act_ret (StrategyCallResult False None (cr_error_code r) (cr_reason_code r)
             (cr_exception r) (cr_diagnostics r)))
      | Inr ev \<Rightarrow>
          if uses_typed_hook st ev then
            bounded_call st (''strategy.'' @ event_hook ev) (event_hook ev) (Bridged raw_event ev) False
          else if \<not> st_hook st ''on_event'' then
            act_ret (ok_result ''strategy.on_event'' (Some ''no_on_event_hook''))
          else bounded_call st ''strategy.on_event'' ''on_event'' (Mapped ev) False)"

definition adapter_stop :: "strategy \<Rightarrow> pyval call_result adapter_op" where
  "adapter_stop st =
     (if st_sdk st then bounded_call st ''strategy.cleanup'' ''on_stop'' (Args []) True
      else if \<not> st_hook st ''stop'' then act_ret (ok_result ''strategy.stop'' None)
      else bounded_call st ''strategy.cleanup'' ''stop'' (Args []) True)"

section \<open>The instance manager\<close>

record assignment_key =
  ak_runtime_id :: string
  ak_strategy_version_id :: string
  ak_tenant_id :: string
  ak_mode :: runtime_mode
  ak_launch_attempt :: int
  ak_validated_parameter_identity :: "string option"
  ak_trader_id :: "string option"
  ak_account_id :: "string option"

definition make_assignment_key :: "assignment_key \<Rightarrow> py_exc + assignment_key" where
  "make_assignment_key k =
     (if (ak_trader_id k \<noteq> None) = (ak_account_id k \<noteq> None)
      then Inl (ValueExc ''ValueError'' ''Exactly one of trader_id or account_id must be set.'' None)
      else Inr k)"

definition ak_to_dict :: "assignment_key \<Rightarrow> pydict" where
  "ak_to_dict k =
     [(''runtime_id'', VStr (ak_runtime_id k)), (''strategy_version_id'', VStr (ak_strategy_version_id k)),
      (''tenant_id'', VStr (ak_tenant_id k)), (''trader_id'', opt_str (ak_trader_id k)),
      (''account_id'', opt_str (ak_account_id k)), (''mode'', VStr (runtime_mode_value (ak_mode k))),
      (''launch_attempt'', VInt (ak_launch_attempt k)),
      (''validated_parameter_identity'', opt_str (ak_validated_parameter_identity k))]"

text \<open>The active instance; adapters are told apart by a number.\<close>

type_synonym manager = "(assignment_key \<times> nat) option"

definition create :: "assignment_key \<Rightarrow> py_exc + nat \<Rightarrow> (manager, nat) act" where
  "create key made = (\<lambda>active.
     case active of
       Some (k, a) \<Rightarrow>
         if k = key then (Inr a, active)
         else (Inl (SingleAssignmentViolationError ''distinct_active_assignment_conflict''), active)
     | None \<Rightarrow>
         (case made of Inl e \<Rightarrow> (Inl e, None) | Inr a \<Rightarrow> (Inr a, Some (key, a))))"

definition get_active :: "manager \<Rightarrow> nat option" where
  "get_active active = map_option snd active"

definition clear :: "(manager, unit) act" where
  "clear = (\<lambda>active. (Inr (), None))"

text \<open>\<open>finally: self.clear()\<close>.\<close>

definition manager_stop :: "py_exc + 'a call_result \<Rightarrow> (manager, 'a call_result) act" where
  "manager_stop stopped = (\<lambda>active. (stopped, snd (clear active)))"

section \<open>Containment\<close>

lemma code_fixed: "normal_code (Some t) = Some t"
  if "py_upper (py_strip t) = t" "t \<noteq> []" for t
  using that by (simp add: normal_code_def)

lemma boundary_codes:
  "normal_code (Some ''STRATEGY_CALLBACK_CONTRACT_VIOLATION'') = Some ''STRATEGY_CALLBACK_CONTRACT_VIOLATION''"
  "normal_code (Some ''STRATEGY_CALLBACK_UNHANDLED_EXCEPTION'') = Some ''STRATEGY_CALLBACK_UNHANDLED_EXCEPTION''"
  "normal_code (Some ''STRATEGY_CLEANUP_CONTRACT_VIOLATION'') = Some ''STRATEGY_CLEANUP_CONTRACT_VIOLATION''"
  "normal_code (Some ''STRATEGY_CLEANUP_UNHANDLED_EXCEPTION'') = Some ''STRATEGY_CLEANUP_UNHANDLED_EXCEPTION''"
  "normal_code (Some ''WORKER_INTERNAL_ERROR'') = Some ''WORKER_INTERNAL_ERROR''"
  by (rule code_fixed; code_simp)+

lemma invoke_fields [simp]:
  "cr_ok (invoke op r b) = (\<not> isl r)"
  "cr_exception (invoke op r b) = (case r of Inl e \<Rightarrow> Some e | Inr v \<Rightarrow> None)"
  "cr_value (invoke op r b) = (case r of Inl e \<Rightarrow> None | Inr v \<Rightarrow> Some v)"
  by (simp_all add: invoke_def StrategyCallResult_def Let_def split: sum.split)

lemma invoke_failure_codes:
  "cr_reason_code (invoke op (Inl e) b) =
     Some (''STRATEGY_'' @ (if b then ''CLEANUP'' else ''CALLBACK'') @
       (if is_contract_exception e then ''_CONTRACT_VIOLATION'' else ''_UNHANDLED_EXCEPTION''))"
  by (simp add: invoke_def StrategyCallResult_def Let_def boundary_codes)

lemma invoke_unhandled_code:
  "\<not> is_contract_exception e \<Longrightarrow> cr_error_code (invoke op (Inl e) b) = Some ''WORKER_INTERNAL_ERROR''"
  by (simp add: invoke_def StrategyCallResult_def Let_def boundary_codes)

lemma bounded_call_run:
  "bounded_call st op hook arg b a =
     (Inr (invoke op (st_answer st (ad_calls a) (hook, arg)) b), a\<lparr>ad_calls := ad_calls a @ [(hook, arg)]\<rparr>)"
  by (simp add: bounded_call_def)

text \<open>
  C8: an event that cannot be mapped never reaches the strategy; any other event calls exactly
  one hook of the strategy, the typed one of its kind when the strategy overrides it and
  \<open>on_event\<close> otherwise, or none when there is no such hook. Whatever the strategy does,
  \<open>on_event\<close> answers: it reports success exactly when neither mapping nor hook raised, and a
  failure carries the exception with the code of a contract or of an unhandled exception.
\<close>

theorem on_event_contained:
  "case on_event st m raw a of
     (Inl e, a') \<Rightarrow> False
   | (Inr r, a') \<Rightarrow>
       ad_started a' = ad_started a \<and>
       (case map_event m (VDict raw) of
          Inl e \<Rightarrow> a' = a \<and> \<not> cr_ok r \<and> cr_exception r = Some e
        | Inr ev \<Rightarrow>
            (let (hook, arg) = (if uses_typed_hook st ev then (event_hook ev, Bridged raw ev)
                                else (''on_event'', Mapped ev)) in
             if st_hook st hook
             then ad_calls a' = ad_calls a @ [(hook, arg)] \<and>
               r = invoke (''strategy.'' @ hook) (st_answer st (ad_calls a) (hook, arg)) False
             else a' = a \<and> cr_ok r)) \<and>
       (case cr_exception r of
          None \<Rightarrow> cr_ok r
        | Some e \<Rightarrow> \<not> cr_ok r \<and>
            cr_reason_code r = Some (''STRATEGY_CALLBACK'' @
              (if is_contract_exception e then ''_CONTRACT_VIOLATION'' else ''_UNHANDLED_EXCEPTION'')))"
proof (cases "map_event m (VDict raw)")
  case (Inl e)
  have "normal_code (cr_reason_code (invoke ''event.map'' (Inl e :: py_exc + mapped_event) False)) =
      cr_reason_code (invoke ''event.map'' (Inl e :: py_exc + mapped_event) False)"
    by (simp add: invoke_failure_codes boundary_codes)
  then show ?thesis
    using Inl by (simp add: on_event_def act_run Let_def StrategyCallResult_def invoke_failure_codes)
next
  case (Inr ev)
  have "uses_typed_hook st ev \<Longrightarrow> st_hook st (event_hook ev)" by (simp add: uses_typed_hook_def)
  then show ?thesis
    using Inr
    by (auto simp: on_event_def act_run bounded_call_run Let_def ok_result_def StrategyCallResult_def
        invoke_failure_codes split: sum.split)
qed

definition start_calls :: "strategy \<Rightarrow> (string \<times> hook_arg) list" where
  "start_calls st =
     (if st_sdk st \<and> st_bridge st \<and> st_binds st then [(''_bind_context'', Args [bridge_context st])] else []) @
     (if st_sdk st then [(''initialize'', Args [])]
      else if st_hook st ''initialize''
        then [(''initialize'', if st_initialize_params st \<ge> 1 then Args [bridge_context st] else Args [])]
      else []) @
     (if st_hook st ''on_start'' then [(''on_start'', Args [])] else [])"

text \<open>
  \<open>bind_and_start\<close> calls the strategy in the order context, \<open>initialize\<close>, \<open>on_start\<close>, each at
  most once and \<open>on_start\<close> only after a successful initialisation; it marks the adapter started
  exactly when it reports success, after which it never calls the strategy again. A failing
  \<open>_bind_context\<close> alone raises out of it.
\<close>

lemma bind_and_start_order:
  "case bind_and_start st a of
     (Inr r, a') \<Rightarrow>
       cr_ok r = ad_started a' \<and>
       (if ad_started a then a' = a
        else \<exists>skipped. ad_calls a' @ skipped = ad_calls a @ start_calls st \<and>
               (if cr_ok r then skipped = [] else True))
   | (Inl e, a') \<Rightarrow>
       \<not> ad_started a' \<and> ad_calls a' = ad_calls a @ [(''_bind_context'', Args [bridge_context st])] \<and>
       st_answer st (ad_calls a) (''_bind_context'', Args [bridge_context st]) = Inl e"
proof (cases "ad_started a")
  case True
  then show ?thesis by (simp add: bind_and_start_def act_run ok_result_def StrategyCallResult_def)
next
  case False
  show ?thesis
  proof (cases "bind_and_start st a")
    case (Pair x a')
    then show ?thesis
      using False
      by (auto simp: bind_and_start_def act_run initialize_strategy_def legacy_initialize_def bind_context_def
          bounded_call_run ok_result_def StrategyCallResult_def start_calls_def
          split: if_splits sum.splits prod.splits)
  qed
qed

text \<open>Once an assignment is active no later one replaces it, whatever is created.\<close>

fun creates :: "(assignment_key \<times> (py_exc + nat)) list \<Rightarrow> (manager, (py_exc + nat) list) act" where
  "creates [] = act_ret []"
| "creates ((key, made) # rest) = (\<lambda>active.
     case create key made active of
       (r, active') \<Rightarrow> (case creates rest active' of (rs, s) \<Rightarrow> (map_sum id (\<lambda>xs. r # xs) rs, s)))"

lemma first_assignment_wins:
  "creates cs (Some (k, a)) =
     (Inr (map (\<lambda>(key, made). if key = k then Inr a
         else Inl (SingleAssignmentViolationError ''distinct_active_assignment_conflict'')) cs), Some (k, a))"
  by (induction cs) (auto simp: act_run create_def)

end
