(* ===== verification/ReplayBridge.thy ===== *)
theory ReplayBridge
  imports StrategyContexts StrategyAdapter
begin

text \<open>
  \<open>bootstrap/replay_sdk_bridge.py\<close>: the construction of the context a strategy gets, and the dispatch
  of mapped events to its hooks: clock first, then the data service, then the indicators, then the
  hook. A hook is a program over the operations of the context that change state; between them it
  sees the whole state (\<open>hook_prog\<close>), so statements about all hooks are statements about all
  strategies.
\<close>

section \<open>Parameters and opening cash\<close>

definition VALID_TIMEFRAMES :: "string list" where
  "VALID_TIMEFRAMES = [''1m'', ''5m'', ''10m'', ''15m'', ''30m'', ''1h'', ''1w'', ''1mo'', ''1d'']"

definition NON_STRATEGY_PARAMETER_KEYS :: "string list" where
  "NON_STRATEGY_PARAMETER_KEYS =
     [''bar_timeframe'', ''data_source'', ''symbol'', ''instrument_id'', ''ts_start'', ''ts_end'']"

definition strip_keys :: "pydict \<Rightarrow> pydict" where
  "strip_keys d = dict_update (map (\<lambda>(k, v). (py_strip k, v)) (filter (\<lambda>(k, v). py_strip k \<noteq> []) d)) []"

definition strategy_parameter_overrides_from_launch_payload :: "pydict \<Rightarrow> pydict" where
  "strategy_parameter_overrides_from_launch_payload launch_payload =
     (let from_parameters =
            (case get_or_none launch_payload ''parameters'' of
               VDict params \<Rightarrow>
                 filter (\<lambda>(k, v). py_strip k \<noteq> [] \<and> k \<notin> set NON_STRATEGY_PARAMETER_KEYS) params
             | _ \<Rightarrow> [])
      in case get_or_none launch_payload ''strategy_params'' of
           VDict sp \<Rightarrow> if sp \<noteq> [] then strip_keys sp else from_parameters
         | _ \<Rightarrow> from_parameters)"

definition override_parameter :: "string \<times> pyval \<Rightarrow> pydict \<Rightarrow> pydict" where
  "override_parameter kv merged =
     (let k = py_strip (fst kv) in
      if k = [] then merged
      else dict_set k
        (case get_or_none merged k of
           VDict spec \<Rightarrow> VDict (dict_set ''default'' (snd kv) spec)
         | _ \<Rightarrow> VDict [(''default'', snd kv)]) merged)"

definition merge_parameter_schema_with_strategy_overrides :: "pydict \<Rightarrow> pydict \<Rightarrow> pydict" where
  "merge_parameter_schema_with_strategy_overrides schema overrides = fold override_parameter overrides schema"

definition seed_cash_from_launch_payload :: "bridge_env \<Rightarrow> pydict option \<Rightarrow> string \<times> pyfloat" where
  "seed_cash_from_launch_payload e launch_payload =
     (let default_cash = Fin 1000000; default_currency = ''USD'' in
      case launch_payload of
        None \<Rightarrow> (default_currency, default_cash)
      | Some p \<Rightarrow>
          (case get_or_none p ''initial_cash'' of
             VDict raw \<Rightarrow>
               (let t = py_upper (py_strip (py_str (be_str e) (py_or (get_or_none raw ''currency'') (VStr default_currency))));
                    currency = (if t \<noteq> [] then t else default_currency);
                    amount_raw = get_or_none raw ''amount''
                in if amount_raw = VNone then (currency, default_cash)
                   else (case be_parse_float e (py_strip (py_str (be_str e) amount_raw)) of
                      None \<Rightarrow> (currency, default_cash)
                    | Some cash \<Rightarrow> (currency, if float_less (Fin 0) cash then cash else Fin 0)))
           | _ \<Rightarrow> (default_currency, default_cash)))"

section \<open>The bridge\<close>

record replay_bridge =
  bg_default_tf :: string
  bg_schema :: pydict
  bg_orders :: order_service

text \<open>What the bridge is built from; \<open>bi_built_schema\<close> is the strategy's own schema, if it has one.\<close>

record bridge_input =
  bi_spec :: launch_spec
  bi_strategy_version_id :: string
  bi_built_schema :: "pydict option"
  bi_files :: param_files
  bi_payload :: "pydict option"
  bi_submit :: "(sdk_intent \<Rightarrow> (order_world, pyval) act) option"
  bi_log :: order_env
  bi_timeframe :: string

definition default_tf_of :: "string \<Rightarrow> string" where
  "default_tf_of default_timeframe =
     (let tf = (if py_strip default_timeframe \<noteq> [] then py_strip default_timeframe else ''1m'')
      in if tf \<in> set VALID_TIMEFRAMES then tf else ''1m'')"

definition snapshot_account :: "launch_spec \<Rightarrow> string" where
  "snapshot_account spec = (if spec_account spec \<noteq> [] then spec_account spec else ''replay'')"

definition opening_snapshot :: "bridge_env \<Rightarrow> launch_spec \<Rightarrow> pydict option \<Rightarrow> portfolio_snapshot" where
  "opening_snapshot e spec payload =
     (let (currency, cash) = seed_cash_from_launch_payload e payload in
      \<lparr>ps_account_id = snapshot_account spec, ps_run_id = ls_runtime_id spec, ps_ts_event = be_wall e,
       ps_cash = \<lparr>cb_currency = currency, cb_free = cash, cb_locked = Fin 0, cb_buying_power = Some cash,
                  cb_equity = Some cash\<rparr>,
       ps_positions = []\<rparr>)"

definition build_order_service :: "bridge_input \<Rightarrow> order_service" where
  "build_order_service i =
     \<lparr>os_strategy_id = Some (bi_strategy_version_id i),
      os_user_id = (if bi_submit i = None then None
                    else if or_empty (ls_account_id (bi_spec i)) \<noteq> [] then ls_account_id (bi_spec i)
                    else ls_trader_id (bi_spec i)),
      os_submit = bi_submit i, os_log = bi_log i\<rparr>"

text \<open>The bridge and the state of its services, over the clock and the order path it shares.\<close>

definition build_replay_sdk_bridge ::
  "bridge_env \<Rightarrow> bridge_input \<Rightarrow> pydatetime option \<Rightarrow> order_world \<Rightarrow> py_exc + replay_bridge \<times> replay_world" where
  "build_replay_sdk_bridge e i clock ow =
     (let schema0 = (case bi_built_schema i of None \<Rightarrow> [] | Some s \<Rightarrow> s) in
      rbind (merge_parameter_schema_with_adjacent_params_yaml (bi_files i) schema0) (\<lambda>schema.
      let overrides = (case bi_payload i of None \<Rightarrow> []
                       | Some p \<Rightarrow> strategy_parameter_overrides_from_launch_payload p);
          tf = default_tf_of (bi_timeframe i)
      in Inr (\<lparr>bg_default_tf = tf,
               bg_schema = merge_parameter_schema_with_strategy_overrides schema overrides,
               bg_orders = build_order_service i\<rparr>,
              \<lparr>rw_clock = clock, rw_data = InMemoryReplayDataService tf, rw_indicators = IndicatorService,
               rw_portfolio = opening_snapshot e (bi_spec i) (bi_payload i), rw_orders = ow\<rparr>)))"

section \<open>The coordinator\<close>

definition wire_instrument_id_str :: "bridge_env \<Rightarrow> pyval \<Rightarrow> string" where
  "wire_instrument_id_str e raw =
     (case raw of
        VStr s \<Rightarrow> py_strip s
      | VInt i \<Rightarrow> py_strip (int_str i)
      | VFloat x \<Rightarrow> py_strip (py_str (be_str e) raw)
      | _ \<Rightarrow> [])"

definition resolve_timeframe :: "string \<Rightarrow> pydict \<Rightarrow> string" where
  "resolve_timeframe default_tf raw_event =
     (case py_or (get_or_none raw_event ''timeframe'') (get_or_none raw_event ''bar_timeframe'') of
        VStr s \<Rightarrow> if s \<in> set VALID_TIMEFRAMES then s else default_tf
      | _ \<Rightarrow> default_tf)"

definition resolve_instrument_id :: "bridge_env \<Rightarrow> pydict \<Rightarrow> string \<Rightarrow> string" where
  "resolve_instrument_id e raw_event symbol =
     (let sy = py_strip symbol; wire_id = wire_instrument_id_str e (get_or_none raw_event ''instrument_id'')
      in case get_or_none raw_event ''bar'' of
           VDict d \<Rightarrow> if wire_id \<noteq> [] then wire_id else sy
         | _ \<Rightarrow> if sy \<noteq> [] then sy else wire_id)"

definition event_instant :: "bridge_env \<Rightarrow> int \<Rightarrow> py_exc + pydatetime" where
  "event_instant e ts_ms =
     (case utc_from_epoch_millis ts_ms of
        None \<Rightarrow> Inl (OtherExc ''OverflowError'' (be_overflow e ts_ms) None)
      | Some t \<Rightarrow> Inr t)"

definition set_event_time :: "pydatetime \<Rightarrow> unit rp" where
  "set_event_time ts =
     act_with rw_clock (\<lambda>c. act_bind (act_of (set_time c ts)) (\<lambda>c'. act_modify (\<lambda>w. w\<lparr>rw_clock := c'\<rparr>)))"

text \<open>Clock first, then the value; only a value that could be built is recorded.\<close>

definition build_value :: "('v \<Rightarrow> py_exc option) \<Rightarrow> 'v \<Rightarrow> 'v rp" where
  "build_value refuses v = (case refuses v of None \<Rightarrow> act_ret v | Some exc \<Rightarrow> act_raise exc)"

definition change_data :: "(replay_data \<Rightarrow> replay_data) \<Rightarrow> unit rp" where
  "change_data f = act_modify (\<lambda>w. w\<lparr>rw_data := f (rw_data w)\<rparr>)"

definition at_event_time :: "bridge_env \<Rightarrow> int \<Rightarrow> (pydatetime \<Rightarrow> 'a rp) \<Rightarrow> 'a rp" where
  "at_event_time e ts_ms m =
     act_bind (act_of (event_instant e ts_ms)) (\<lambda>ts. act_then (set_event_time ts) (m ts))"

fun apply_event :: "bridge_env \<Rightarrow> replay_bridge \<Rightarrow> pydict \<Rightarrow> mapped_event \<Rightarrow> hook_payload rp" where
  "apply_event e br raw (MarketBarEvent ty sy op hi lo cl vol ts_ms) =
     at_event_time e ts_ms (\<lambda>ts.
       act_bind
         (build_value (be_bar_error e)
           \<lparr>bar_symbol = sy, bar_timeframe = resolve_timeframe (bg_default_tf br) raw, bar_open = op,
            bar_high = hi, bar_low = lo, bar_close = cl, bar_volume = vol, bar_timestamp = ts,
            bar_instrument_id = resolve_instrument_id e raw sy\<rparr>) (\<lambda>bar.
       act_then (change_data (append_bar bar)) (act_ret (BarItem bar))))"
| "apply_event e br raw (MarketQuoteEvent ty sy bid ask_price bid_size ask_size ts_ms) =
     at_event_time e ts_ms (\<lambda>ts.
       act_bind
         (build_value (be_quote_error e)
           \<lparr>qt_symbol = sy, qt_bid = bid, qt_ask = (if float_less ask_price bid then bid else ask_price),
            qt_bid_size = bid_size, qt_ask_size = ask_size, qt_timestamp = ts,
            qt_instrument_id = resolve_instrument_id e raw sy\<rparr>) (\<lambda>quote.
       act_then (change_data (record_quote quote)) (act_ret (QuoteItem quote))))"
| "apply_event e br raw (MarketTickEvent ty sy price sz ts_ms) =
     at_event_time e ts_ms (\<lambda>ts.
       act_bind
         (build_value (be_tick_error e)
           \<lparr>tk_symbol = sy, tk_timestamp = ts, tk_price = price, tk_size = sz,
            tk_instrument_id = resolve_instrument_id e raw sy\<rparr>) (\<lambda>tick.
       act_then (change_data (record_tick tick)) (act_ret (TickItem tick))))"
| "apply_event e br raw (TimerEvent ty timer_id at_ms metadata) =
     at_event_time e at_ms (\<lambda>ts. act_ret (TimerItem ts))"

section \<open>Hooks\<close>

datatype ctx_op = OpRegister string nat data_source | OpBuy order_request | OpSell order_request

datatype hook_prog =
    HookReturn pyval
  | HookRaise py_exc
  | HookDo ctx_op "py_exc + unit \<Rightarrow> replay_world \<Rightarrow> hook_prog"

fun run_op :: "bridge_env \<Rightarrow> replay_bridge \<Rightarrow> ctx_op \<Rightarrow> unit rp" where
  "run_op e br (OpRegister name ind ds) =
     act_modify (\<lambda>w. w\<lparr>rw_indicators := register_indicator name ind ds (rw_indicators w)\<rparr>)"
| "run_op e br (OpBuy req) = context_buy e (bg_orders br) req"
| "run_op e br (OpSell req) = context_sell e (bg_orders br) req"

primrec run_hook :: "bridge_env \<Rightarrow> replay_bridge \<Rightarrow> hook_prog \<Rightarrow> pyval rp" where
  "run_hook e br (HookReturn v) = act_ret v"
| "run_hook e br (HookRaise exc) = act_raise exc"
| "run_hook e br (HookDo op k) = (\<lambda>w. case run_op e br op w of (r, w') \<Rightarrow> run_hook e br (k r w') w')"

text \<open>
  The hooks of a strategy: the number of positional parameters each declares, and what it does with
  its payload and, if it is given one, the context as second argument.
\<close>

record hooks =
  hk_params :: "string \<Rightarrow> nat"
  hk_run :: "string \<Rightarrow> hook_payload \<Rightarrow> bool \<Rightarrow> replay_world \<Rightarrow> hook_prog"

definition dispatch_hook_payload ::
  "bridge_env \<Rightarrow> replay_bridge \<Rightarrow> hooks \<Rightarrow> string \<Rightarrow> hook_payload \<Rightarrow> pyval rp" where
  "dispatch_hook_payload e br hk hook item =
     act_with id (\<lambda>w. run_hook e br (hk_run hk hook item (hk_params hk hook \<ge> 2) w))"

definition advance_indicators :: "bridge_env \<Rightarrow> hook_payload \<Rightarrow> unit rp" where
  "advance_indicators e item =
     (case item of
        BarItem b \<Rightarrow> on_part rw_indicators put_indicators (advance_on e DS_BAR item)
      | QuoteItem q \<Rightarrow> on_part rw_indicators put_indicators (advance_on e DS_QUOTE item)
      | TickItem t \<Rightarrow> on_part rw_indicators put_indicators (advance_on e DS_TICK item)
      | TimerItem t \<Rightarrow> act_ret ())"

text \<open>Everything before the hook is called.\<close>

definition prepare_hook :: "bridge_env \<Rightarrow> replay_bridge \<Rightarrow> pydict \<Rightarrow> mapped_event \<Rightarrow> hook_payload rp" where
  "prepare_hook e br raw ev =
     act_bind (apply_event e br raw ev) (\<lambda>item. act_then (advance_indicators e item) (act_ret item))"

definition dispatch :: "bridge_env \<Rightarrow> replay_bridge \<Rightarrow> hooks \<Rightarrow> pydict \<Rightarrow> mapped_event \<Rightarrow> pyval rp" where
  "dispatch e br hk raw ev =
     act_bind (prepare_hook e br raw ev) (dispatch_hook_payload e br hk (event_hook ev))"

section \<open>The adapter with its bridge\<close>

text \<open>
  \<open>StrategyAdapter.on_event\<close> with the calls of the strategy carried out: a typed hook is reached through
  the bridge, \<open>on_event\<close> with the mapped event and past the bridge. Both run inside the error boundary.
\<close>

record bridged_strategy =
  bs_strategy :: strategy
  bs_hooks :: hooks
  bs_on_event :: "mapped_event \<Rightarrow> replay_world \<Rightarrow> hook_prog"

definition bounded :: "string \<Rightarrow> pyval rp \<Rightarrow> pyval call_result rp" where
  "bounded operation m = (\<lambda>w. case m w of (r, w') \<Rightarrow> (Inr (invoke operation r False), w'))"

definition bridged_on_event ::
  "bridge_env \<Rightarrow> replay_bridge \<Rightarrow> bridged_strategy \<Rightarrow> map_env \<Rightarrow> pydict \<Rightarrow> pyval call_result rp" where
  "bridged_on_event e br bs m raw_event =
     (case map_event m (VDict raw_event) of
        Inl exc \<Rightarrow>
          (let r = invoke ''event.map'' (Inl exc :: py_exc + mapped_event) False in
           act_ret (StrategyCallResult False None (cr_error_code r) (cr_reason_code r)
             (cr_exception r) (cr_diagnostics r)))
      | Inr ev \<Rightarrow>
          if uses_typed_hook (bs_strategy bs) ev then
            bounded (''strategy.'' @ event_hook ev) (dispatch e br (bs_hooks bs) raw_event ev)
          else if \<not> st_hook (bs_strategy bs) ''on_event'' then
            act_ret (ok_result ''strategy.on_event'' (Some ''no_on_event_hook''))
          else bounded ''strategy.on_event'' (act_with id (\<lambda>w. run_hook e br (bs_on_event bs ev w))))"

text \<open>\<open>replay_sdk_hook_overridden\<close>: what the class of a strategy has under a name.\<close>

datatype class_attr = NoAttr | NotCallable | Callable nat

definition replay_sdk_hook_overridden :: "class_attr \<Rightarrow> bool \<Rightarrow> class_attr \<Rightarrow> bool" where
  "replay_sdk_hook_overridden impl is_sdk_strategy base_impl =
     (case impl of
        Callable n \<Rightarrow> \<not> (is_sdk_strategy \<and> base_impl \<noteq> NoAttr \<and> impl = base_impl)
      | _ \<Rightarrow> False)"

end
