(* ===== verification/BridgeProps.thy ===== *)
theory BridgeProps
  imports ReplayBridge
begin

text \<open>
  What a strategy can see and do through the bridge. Market data is specified by the list of the values
  recorded so far; the data service represents that list. Operations of a hook move neither the data nor
  the clock nor the portfolio (\<open>same_market\<close>), so what is seen is decided by the events alone.
\<close>

section \<open>Hooks do not touch the market\<close>

definition same_market :: "replay_world \<Rightarrow> replay_world \<Rightarrow> bool" where
  "same_market w w' \<longleftrightarrow>
     rw_data w' = rw_data w \<and> rw_clock w' = rw_clock w \<and> rw_portfolio w' = rw_portfolio w \<and>
     is_updates (rw_indicators w') = is_updates (rw_indicators w)"

interpretation market: step_order same_market
  by unfold_locales (auto simp: same_market_def)

lemma part_same_market: "moves same_market (on_part rw_orders put_orders m)"
  by (auto simp: moves_def on_part_def same_market_def put_orders_def split: prod.split)

lemma deliver_same_market: "moves same_market (deliver_replay_intent svc intent)"
  unfolding deliver_replay_intent_def by (intro market.option market.ret part_same_market)

lemma from_sdk_same_market: "moves same_market (replay_intent_from_sdk e oi)"
  unfolding replay_intent_from_sdk_def clock_service_now_def
  by (intro market.bind market.reading market.result)

lemma service_same_market:
  "moves same_market (service_buy e svc oi)" "moves same_market (service_sell e svc oi)"
  unfolding service_buy_def service_sell_def
  by (intro market.cond market.raise market.bind from_sdk_same_market deliver_same_market)+

lemma context_same_market:
  "moves same_market (context_buy e svc req)" "moves same_market (context_sell e svc req)"
  unfolding context_buy_def context_sell_def
  by (cases req; simp add: market.raise market.bind market.result service_same_market)+

lemma op_same_market: "moves same_market (run_op e br op)"
proof (cases op)
  case (OpRegister name ind ds)
  have "moves same_market (act_modify (\<lambda>w. w\<lparr>rw_indicators := register_indicator name ind ds (rw_indicators w)\<rparr>))"
    by (rule market.modify) (simp add: same_market_def register_indicator_def)
  then show ?thesis by (simp only: OpRegister run_op.simps)
qed (simp_all only: run_op.simps context_same_market)

lemma hook_same_market: "moves same_market (run_hook e br h)"
proof (induction h)
  case (HookDo op k)
  show ?case
    unfolding moves_def
  proof
    fix w
    obtain r w1 where op: "run_op e br op w = (r, w1)" by fastforce
    have "same_market w w1" using movesD [OF op_same_market, of w e br op] op by simp
    moreover have "same_market w1 (snd (run_hook e br (k r w1) w1))"
      by (rule movesD, rule HookDo.IH, rule rangeI, rule rangeI)
    ultimately show "same_market w (snd (run_hook e br (HookDo op k) w))"
      using op by (simp add: market.trans [of w w1])
  qed
qed (simp_all add: market.ret market.raise)

lemma dispatched_same_market: "moves same_market (dispatch_hook_payload e br hk hook item)"
  unfolding dispatch_hook_payload_def by (intro market.reading hook_same_market)

text \<open>Advancing the indicators changes nothing else and feeds them nothing but the item.\<close>

definition fed :: "hook_payload \<Rightarrow> indicator_service \<Rightarrow> indicator_service \<Rightarrow> bool" where
  "fed item s s' \<longleftrightarrow> snd ` set (is_updates s') \<subseteq> insert item (snd ` set (is_updates s))"

interpretation fed: step_order "fed item" for item
  by unfold_locales (unfold fed_def, blast+)

lemma advance_fed: "moves (fed item) (advance_on e source item)"
proof -
  have upd: "moves (fed item) (update_indicator e item name ind)" for name ind
    unfolding update_indicator_def
    by (intro fed.seq2 fed.modify fed.reading fed.option fed.raise) (auto simp: fed_def)
  show ?thesis
    unfolding advance_on_def advance_one_def
    by (intro fed.reading fed.for_each) (auto intro!: fed.guarded upd split: prod.split)
qed

lemma advance_outcome:
  fixes e :: bridge_env and item :: hook_payload and w :: replay_world
  shows "\<exists>s. snd (advance_indicators e item w) = w\<lparr>rw_indicators := s\<rparr> \<and> fed item (rw_indicators w) s"
proof -
  have part: "\<exists>s. snd (on_part rw_indicators put_indicators (advance_on e source item) w) =
      w\<lparr>rw_indicators := s\<rparr> \<and> fed item (rw_indicators w) s" for source
    using movesD [OF advance_fed, of item "rw_indicators w" e source]
    by (auto simp: on_part_def put_indicators_def split: prod.split)
  have "\<exists>s. w = w\<lparr>rw_indicators := s\<rparr> \<and> fed item (rw_indicators w) s"
    by (rule exI [of _ "rw_indicators w"]) (simp add: fed_def subset_insertI)
  then show ?thesis using part by (cases item) (simp_all add: advance_indicators_def act_run)
qed

section \<open>The data service represents the values recorded\<close>

fun item_bars :: "hook_payload \<Rightarrow> sdk_bar list" where
  "item_bars (BarItem b) = [b]" | "item_bars _ = []"

fun item_quotes :: "hook_payload \<Rightarrow> sdk_quote list" where
  "item_quotes (QuoteItem q) = [q]" | "item_quotes _ = []"

fun item_ticks :: "hook_payload \<Rightarrow> sdk_tick list" where
  "item_ticks (TickItem t) = [t]" | "item_ticks _ = []"

definition history_bars :: "hook_payload list \<Rightarrow> string \<Rightarrow> string \<Rightarrow> sdk_bar list" where
  "history_bars items i tf =
     filter (\<lambda>b. bar_instrument_id b = i \<and> bar_timeframe b = tf) (concat (map item_bars items))"

definition last_option :: "'a list \<Rightarrow> 'a option" where
  "last_option xs = (if xs = [] then None else Some (last xs))"

definition history_quote :: "hook_payload list \<Rightarrow> string \<Rightarrow> sdk_quote option" where
  "history_quote items i = last_option (filter (\<lambda>q. qt_instrument_id q = i) (concat (map item_quotes items)))"

definition history_tick :: "hook_payload list \<Rightarrow> string \<Rightarrow> sdk_tick option" where
  "history_tick items i = last_option (filter (\<lambda>t. tk_instrument_id t = i) (concat (map item_ticks items)))"

definition represents :: "hook_payload list \<Rightarrow> replay_data \<Rightarrow> bool" where
  "represents items d \<longleftrightarrow>
     (\<forall>i tf. rd_bars d (i, tf) = history_bars items i tf) \<and>
     rd_quotes d = history_quote items \<and> rd_ticks d = history_tick items"

fun record_item :: "hook_payload \<Rightarrow> replay_data \<Rightarrow> replay_data" where
  "record_item (BarItem b) d = append_bar b d"
| "record_item (QuoteItem q) d = record_quote q d"
| "record_item (TickItem t) d = record_tick t d"
| "record_item (TimerItem t) d = d"

lemma last_option_snoc [simp]: "last_option (xs @ [x]) = Some x" "last_option [] = None"
  by (simp_all add: last_option_def)

lemma represents_empty: "represents [] (InMemoryReplayDataService tf)"
  by (auto simp: represents_def InMemoryReplayDataService_def history_bars_def history_quote_def history_tick_def)

lemma represents_record: "represents items d \<Longrightarrow> represents (items @ [x]) (record_item x d)"
  by (cases x)
    (auto simp: represents_def append_bar_def record_quote_def record_tick_def history_bars_def
      history_quote_def history_tick_def fun_eq_iff Let_def)

lemma primary_tf_record [simp]: "rd_primary_tf (record_item x d) = rd_primary_tf d"
  by (cases x) (simp_all add: append_bar_def record_quote_def record_tick_def Let_def)

section \<open>One event\<close>

fun item_time :: "hook_payload \<Rightarrow> pydatetime" where
  "item_time (BarItem b) = bar_timestamp b"
| "item_time (QuoteItem q) = qt_timestamp q"
| "item_time (TickItem t) = tk_timestamp t"
| "item_time (TimerItem t) = t"

fun event_ms :: "mapped_event \<Rightarrow> int" where
  "event_ms (MarketBarEvent _ _ _ _ _ _ _ ts_ms) = ts_ms"
| "event_ms (MarketQuoteEvent _ _ _ _ _ _ ts_ms) = ts_ms"
| "event_ms (MarketTickEvent _ _ _ _ ts_ms) = ts_ms"
| "event_ms (TimerEvent _ _ at_ms _) = at_ms"

lemma at_event_time_run:
  "at_event_time e ts_ms m w =
     (case event_instant e ts_ms of
        Inl exc \<Rightarrow> (Inl exc, w) | Inr ts \<Rightarrow> m ts (w\<lparr>rw_clock := Some ts\<rparr>))"
  by (auto simp: at_event_time_def act_run set_event_time_def set_time_def event_instant_def utc_from_epoch_millis_def Let_def
      as_utc_def split: sum.split if_splits)

lemma event_instant_Inr: "event_instant e ms = Inr ts \<Longrightarrow> ts = utc (ms * 1000)"
  by (auto simp: event_instant_def utc_from_epoch_millis_def mult.commute split: if_splits)

text \<open>
  An event that can be applied sets the clock to its time and records exactly one value of that time;
  any other changes no more than the clock.
\<close>

lemma apply_event_outcome:
  fixes e :: bridge_env and br :: replay_bridge and raw :: pydict and ev :: mapped_event and w :: replay_world
  shows "case apply_event e br raw ev w of
     (Inr item, w') \<Rightarrow>
       item_time item = utc (event_ms ev * 1000) \<and>
       w' = w\<lparr>rw_clock := Some (item_time item), rw_data := record_item item (rw_data w)\<rparr>
   | (Inl exc, w') \<Rightarrow> w' = w\<lparr>rw_clock := rw_clock w'\<rparr>"
  by (cases ev)
    (auto simp: at_event_time_run act_run build_value_def change_data_def
      dest!: event_instant_Inr split: sum.split option.split)

section \<open>Sequences of events\<close>

definition recorded :: "bridge_env \<Rightarrow> replay_bridge \<Rightarrow> pydict \<Rightarrow> mapped_event \<Rightarrow> replay_world \<Rightarrow> hook_payload list" where
  "recorded e br raw ev w = (case fst (apply_event e br raw ev w) of Inl exc \<Rightarrow> [] | Inr item \<Rightarrow> [item])"

text \<open>The values recorded by the events, each dispatched whatever became of the one before.\<close>

fun run_events ::
  "bridge_env \<Rightarrow> replay_bridge \<Rightarrow> hooks \<Rightarrow> (pydict \<times> mapped_event) list \<Rightarrow> replay_world \<Rightarrow>
     hook_payload list \<times> replay_world" where
  "run_events e br hk [] w = ([], w)"
| "run_events e br hk ((raw, ev) # evs) w =
     (case run_events e br hk evs (snd (dispatch e br hk raw ev w)) of
        (items, w') \<Rightarrow> (recorded e br raw ev w @ items, w'))"

text \<open>What is in the state a strategy reads: the values \<open>xs\<close>, and indicators fed with no other.\<close>

definition informed :: "hook_payload list \<Rightarrow> replay_world \<Rightarrow> bool" where
  "informed xs w \<longleftrightarrow> represents xs (rw_data w) \<and> snd ` set (is_updates (rw_indicators w)) \<subseteq> set xs"

lemma informed_same: "informed xs w \<Longrightarrow> same_market w w' \<Longrightarrow> informed xs w'"
  by (simp add: informed_def same_market_def)

lemma recorded_apply:
  "apply_event e br raw ev w = (Inr item, w1) \<Longrightarrow> recorded e br raw ev w = [item]"
  "apply_event e br raw ev w = (Inl exc, w1) \<Longrightarrow> recorded e br raw ev w = []"
  by (simp_all add: recorded_def)

lemma prepare_informed:
  fixes e :: bridge_env and br :: replay_bridge and raw :: pydict and ev :: mapped_event
  assumes "informed xs w"
  shows "informed (xs @ recorded e br raw ev w) (snd (prepare_hook e br raw ev w))"
proof (cases "apply_event e br raw ev w")
  case (Pair q w1)
  show ?thesis
  proof (cases q)
    case (Inl exc)
    obtain c where "w1 = w\<lparr>rw_clock := c\<rparr>"
      using apply_event_outcome [where e = e and br = br and raw = raw and ev = ev and w = w] Pair Inl by auto
    then show ?thesis
      using assms Pair Inl by (simp add: recorded_apply prepare_hook_def act_run informed_def)
  next
    case (Inr item)
    have w1: "w1 = w\<lparr>rw_clock := Some (item_time item), rw_data := record_item item (rw_data w)\<rparr>"
      using apply_event_outcome [where e = e and br = br and raw = raw and ev = ev and w = w] Pair Inr by simp
    obtain s where adv: "snd (advance_indicators e item w1) = w1\<lparr>rw_indicators := s\<rparr>"
      and fed: "fed item (rw_indicators w1) s"
      using advance_outcome by blast
    have "snd (prepare_hook e br raw ev w) = w1\<lparr>rw_indicators := s\<rparr>"
      using Pair Inr adv by (auto simp: prepare_hook_def act_run split: prod.split sum.split)
    then show ?thesis
      using assms fed represents_record [of xs "rw_data w" item] Pair Inr
      by (auto simp: informed_def w1 fed_def recorded_apply)
  qed
qed

lemma dispatch_informed:
  assumes "informed xs w"
  shows "informed (xs @ recorded e br raw ev w) (snd (dispatch e br hk raw ev w))"
proof (cases "prepare_hook e br raw ev w")
  case (Pair r w1)
  have w1: "informed (xs @ recorded e br raw ev w) w1"
    using prepare_informed [OF assms, of e br raw ev] Pair by simp
  show ?thesis
  proof (cases r)
    case (Inl exc)
    then show ?thesis using w1 Pair by (simp add: dispatch_def act_run)
  next
    case (Inr item)
    then show ?thesis
      using w1 Pair informed_same [OF w1 movesD [OF dispatched_same_market, of w1]]
      by (simp add: dispatch_def act_run)
  qed
qed

lemma run_events_informed:
  "informed xs w \<Longrightarrow> run_events e br hk evs w = (items, w') \<Longrightarrow> informed (xs @ items) w'"
proof (induction evs arbitrary: xs w items)
  case Nil
  then show ?case by simp
next
  case (Cons x evs)
  obtain raw ev where x: "x = (raw, ev)" by (cases x)
  obtain more where rest: "run_events e br hk evs (snd (dispatch e br hk raw ev w)) = (more, w')"
    and items: "items = recorded e br raw ev w @ more"
    using Cons.prems(2) by (auto simp: x split: prod.splits)
  show ?case using Cons.IH [OF dispatch_informed [OF Cons.prems(1)] rest] by (simp add: items)
qed

lemma recorded_times: "x \<in> set (recorded e br raw ev w) \<Longrightarrow> item_time x = utc (event_ms ev * 1000)"
  using apply_event_outcome [where e = e and br = br and raw = raw and ev = ev and w = w]
  by (auto simp: recorded_def split: sum.splits prod.splits)

lemma run_events_times:
  "run_events e br hk evs w = (items, w') \<Longrightarrow> x \<in> set items \<Longrightarrow>
     \<exists>(raw, ev) \<in> set evs. item_time x = utc (event_ms ev * 1000)"
proof (induction evs arbitrary: w items)
  case (Cons y evs)
  obtain raw ev where y: "y = (raw, ev)" by (cases y)
  obtain more where rest: "run_events e br hk evs (snd (dispatch e br hk raw ev w)) = (more, w')"
    and items: "items = recorded e br raw ev w @ more"
    using Cons.prems(1) by (auto simp: y split: prod.splits)
  show ?case using Cons.prems(2) Cons.IH [OF rest] by (auto simp: items y dest: recorded_times)
qed simp

text \<open>Values that can be read from a state, through the data service or in the memory of an indicator.\<close>

definition sees :: "replay_world \<Rightarrow> hook_payload \<Rightarrow> bool" where
  "sees w x \<longleftrightarrow>
     (case x of
        BarItem b \<Rightarrow> \<exists>i tf. b \<in> set (bars_of (rw_data w) i tf)
      | QuoteItem q \<Rightarrow> \<exists>i. data_latest_quote (rw_data w) i = Some q
      | TickItem t \<Rightarrow> \<exists>i. data_latest_tick (rw_data w) i = Some t
      | TimerItem t \<Rightarrow> False) \<or>
     x \<in> snd ` set (is_updates (rw_indicators w))"

lemma last_option_in: "last_option xs = Some x \<Longrightarrow> x \<in> set xs"
  by (auto simp: last_option_def split: if_splits)

lemma item_lists: "b \<in> set (item_bars x) \<longleftrightarrow> x = BarItem b" "q \<in> set (item_quotes x) \<longleftrightarrow> x = QuoteItem q"
  "t \<in> set (item_ticks x) \<longleftrightarrow> x = TickItem t"
  by (cases x; auto)+

lemma informed_sees:
  assumes "informed xs w" and "sees w x"
  shows "x \<in> set xs"
proof (cases x)
  case (BarItem b)
  then show ?thesis
    using assms by (auto simp: informed_def represents_def sees_def bars_of_def history_bars_def item_lists)
next
  case (QuoteItem q)
  then show ?thesis
    using assms by (auto simp: informed_def represents_def sees_def data_latest_quote_def history_quote_def
        item_lists dest!: last_option_in)
next
  case (TickItem t)
  then show ?thesis
    using assms by (auto simp: informed_def represents_def sees_def data_latest_tick_def history_tick_def
        item_lists dest!: last_option_in)
next
  case (TimerItem t)
  then show ?thesis using assms by (auto simp: informed_def sees_def)
qed

text \<open>A strategy that has been built but not yet called with data.\<close>

definition fresh_world :: "string \<Rightarrow> replay_world \<Rightarrow> bool" where
  "fresh_world tf w \<longleftrightarrow> rw_data w = InMemoryReplayDataService tf \<and> is_updates (rw_indicators w) = []"

lemma fresh_informed: "fresh_world tf w \<Longrightarrow> informed [] w"
  by (simp add: fresh_world_def informed_def represents_empty)

text \<open>
  C9: whatever a strategy does in its hooks, every value it can read when a hook is called, market
  data and the memory of its indicators alike, is one that was delivered before and, when the events
  come in the order of their times, none is later than the clock, which shows the time of the event.
\<close>

theorem no_look_ahead:
  assumes "fresh_world tf w0"
    and "run_events e br hk evs w0 = (items, w)"
    and "prepare_hook e br raw ev w = (Inr item, w')"
    and "sorted (map (event_ms \<circ> snd) (evs @ [(raw, ev)]))"
  shows "rw_clock w' = Some (item_time item) \<and> item_time item = utc (event_ms ev * 1000) \<and>
    (\<forall>x. sees w' x \<longrightarrow> x \<in> set (items @ [item]) \<and> dt_instant (item_time x) \<le> dt_instant (item_time item))"
proof -
  obtain w1 where ap: "apply_event e br raw ev w = (Inr item, w1)" and adv: "w' = snd (advance_indicators e item w1)"
    using assms(3) by (auto simp: prepare_hook_def act_run split: prod.splits sum.splits)
  have item: "item_time item = utc (event_ms ev * 1000)" and w1: "rw_clock w1 = Some (item_time item)"
    using apply_event_outcome [where e = e and br = br and raw = raw and ev = ev and w = w] ap by auto
  have clock: "rw_clock w' = Some (item_time item)"
    using advance_outcome [where e = e and item = item and w = w1] w1 adv by auto
  have "informed (items @ [item]) w'"
    using prepare_informed [OF run_events_informed [OF fresh_informed [OF assms(1)] assms(2)], of e br raw ev]
      recorded_apply(1) [OF ap] assms(3) by simp
  then have seen: "x \<in> set (items @ [item])" if "sees w' x" for x
    using informed_sees that by blast
  have "dt_instant (item_time x) \<le> dt_instant (item_time item)" if "x \<in> set (items @ [item])" for x
    using that assms(4) run_events_times [OF assms(2)] item by (force simp: sorted_append)
  then show ?thesis using clock item seen by blast
qed

end
