(* ===== verification/ContextProps.thy ===== *)
theory ContextProps
  imports BridgeProps
begin

text \<open>
  What the contexts of a strategy answer: bars of a window, resolved parameters, the account after
  balance updates, and where its orders go.
\<close>

section \<open>Market data\<close>

definition in_bounds :: "pydatetime option \<Rightarrow> pydatetime option \<Rightarrow> int \<Rightarrow> bool" where
  "in_bounds s0 e0 i \<longleftrightarrow>
     (case s0 of None \<Rightarrow> True | Some s \<Rightarrow> dt_instant s \<le> i) \<and>
     (case e0 of None \<Rightarrow> True | Some t \<Rightarrow> i \<le> dt_instant t)"

definition aware_bound :: "pydatetime option \<Rightarrow> bool" where
  "aware_bound t \<longleftrightarrow> (case t of None \<Rightarrow> True | Some s \<Rightarrow> dt_aware s)"

lemma outside_window_aware:
  "aware_bound s0 \<Longrightarrow> aware_bound e0 \<Longrightarrow> dt_aware t \<Longrightarrow>
     outside_window s0 e0 t = Inr (\<not> in_bounds s0 e0 (dt_instant t))"
  by (cases s0; cases e0) (auto simp: outside_window_def aware_bound_def dt_less_def in_bounds_def not_le)

lemma select_series_aware:
  "aware_bound s0 \<Longrightarrow> aware_bound e0 \<Longrightarrow> \<forall>x \<in> set xs. dt_aware (ts x) \<Longrightarrow>
     select_series ts s0 e0 xs = Inr (filter (\<lambda>x. in_bounds s0 e0 (dt_instant (ts x))) xs)"
  by (induction xs) (simp_all add: outside_window_aware)

lemma recorded_aware: "run_events e br hk evs w = (items, w') \<Longrightarrow> x \<in> set items \<Longrightarrow> dt_aware (item_time x)"
  by (auto dest!: run_events_times)

lemma history_bars_in: "b \<in> set (history_bars items i tf) \<Longrightarrow> BarItem b \<in> set items"
  by (auto simp: history_bars_def item_lists)

text \<open>
  C11: after any events, \<open>get_bars\<close> of a symbol and a time frame gives, in the order of their delivery, the
  last \<open>limit\<close> of exactly those bars delivered for them whose time lies in the window, both
  ends included (all of them when the limit is absent or negative); the latest bar, quote and tick are the last
  delivered ones.
\<close>

theorem market_view_is_history:
  assumes "fresh_world tf0 w0" and "run_events e br hk evs w0 = (items, w)"
    and "as_datetime e t0 = Inr s0" "as_datetime e t1 = Inr e0" and "aware_bound s0" "aware_bound e0"
  shows "get_bars e (rw_data w) sy tf t0 t1 limit =
      Inr (limit_series limit (filter (\<lambda>b. in_bounds s0 e0 (dt_instant (bar_timestamp b))) (history_bars items sy tf))) \<and>
    latest_bar (rw_data w) sy tf = last_option (history_bars items sy tf) \<and>
    latest_quote (rw_data w) sy = history_quote items sy \<and>
    latest_tick (rw_data w) sy = history_tick items sy"
proof -
  have rep: "represents items (rw_data w)"
    using run_events_informed [OF fresh_informed [OF assms(1)] assms(2)] by (simp add: informed_def)
  have aware: "\<forall>b \<in> set (history_bars items sy tf). dt_aware (bar_timestamp b)"
    using recorded_aware [OF assms(2)] by (fastforce dest: history_bars_in)
  show ?thesis
    using rep select_series_aware [OF assms(5,6) aware] assms(3,4)
    by (simp add: get_bars_def filter_series_def bars_of_def represents_def latest_bar_def data_latest_bar_def
        latest_quote_def data_latest_quote_def latest_tick_def data_latest_tick_def last_option_def Let_def
       )
qed

text \<open>A bound without a time zone raises as soon as there is a bar to compare it with.\<close>

lemma get_bars_naive_bound:
  assumes "fresh_world tf0 w0" and "run_events e br hk evs w0 = (items, w)"
    and "as_datetime e t0 = Inr (Some s)" "as_datetime e t1 = Inr e0" and "\<not> dt_aware s"
    and "history_bars items sy tf \<noteq> []"
  shows "\<exists>msg. get_bars e (rw_data w) sy tf t0 t1 limit = Inl (TypeExc ''TypeError'' msg)"
proof -
  have "represents items (rw_data w)"
    using run_events_informed [OF fresh_informed [OF assms(1)] assms(2)] by (simp add: informed_def)
  moreover obtain b bs where "history_bars items sy tf = b # bs" using assms(6) by (cases "history_bars items sy tf") auto
  moreover from this have "dt_aware (bar_timestamp b)"
    using recorded_aware [OF assms(2)] history_bars_in [of b items sy tf] by fastforce
  ultimately show ?thesis
    using assms(3-5) by (simp add: get_bars_def filter_series_def bars_of_def represents_def outside_window_def dt_less_def)
qed

section \<open>Parameters\<close>

text \<open>The last override of a name, names read without the white space around them.\<close>

definition override_of :: "pydict \<Rightarrow> string \<Rightarrow> pyval option" where
  "override_of overrides k =
     (if k = [] then None else map_of (rev (map (\<lambda>(n, v). (py_strip n, v)) overrides)) k)"

lemma override_of_Cons:
  "override_of ((n, v) # ovs) k =
     (case override_of ovs k of Some x \<Rightarrow> Some x
      | None \<Rightarrow> if k \<noteq> [] \<and> py_strip n = k then Some v else None)"
  by (auto simp: override_of_def map_add_Some_iff split: option.split)

lemma spec_get_or_none_set [simp]: "get_or_none (dict_set k v d) k' = (if k' = k then v else get_or_none d k')"
  by (simp add: get_or_none_def)

definition with_default :: "pyval \<Rightarrow> pyval \<Rightarrow> pyval" where
  "with_default v spec =
     (case spec of VDict d \<Rightarrow> VDict (dict_set ''default'' v d) | _ \<Rightarrow> VDict [(''default'', v)])"

lemma with_default_dict: "\<exists>d. with_default v spec = VDict d \<and> dict_get d ''default'' = Some v"
  by (cases spec) (simp_all add: with_default_def)

lemma params_get_default:
  "params_get e (dict_set m (with_default v spec) schema) k = (if m = k then Inr v else params_get e schema k)"
proof -
  obtain d where "with_default v spec = VDict d" "dict_get d ''default'' = Some v"
    using with_default_dict by blast
  then show ?thesis by (simp add: params_get_def get_or_none_def dict_has_def)
qed

lemma params_get_override:
  "params_get e (override_parameter (n, v) schema) k =
     (if k \<noteq> [] \<and> py_strip n = k then Inr v else params_get e schema k)"
proof -
  have eq: "override_parameter (n, v) schema =
      (if py_strip n = [] then schema
       else dict_set (py_strip n) (with_default v (get_or_none schema (py_strip n))) schema)"
    by (simp add: override_parameter_def with_default_def Let_def cong: pyval.case_cong)
  show ?thesis by (auto simp: eq params_get_default)
qed

lemma params_get_overrides:
  "params_get e (merge_parameter_schema_with_strategy_overrides schema overrides) k =
     (case override_of overrides k of Some v \<Rightarrow> Inr v | None \<Rightarrow> params_get e schema k)"
proof (induction overrides arbitrary: schema)
  case Nil
  then show ?case by (simp add: merge_parameter_schema_with_strategy_overrides_def override_of_def)
next
  case (Cons nv overrides)
  then show ?case
    by (cases nv)
      (simp add: merge_parameter_schema_with_strategy_overrides_def override_of_Cons params_get_override split: option.split)
qed

lemma dict_get_update_rev: "dict_get (dict_update extra d) k = (case map_of (rev extra) k of Some v \<Rightarrow> Some v | None \<Rightarrow> dict_get d k)"
  unfolding dict_update_def
  by (induction extra arbitrary: d) (auto simp: map_add_Some_iff split: option.split)

lemma dict_get_update: "distinct (map fst extra) \<Longrightarrow>
  dict_get (dict_update extra d) k = (case dict_get extra k of Some v \<Rightarrow> Some v | None \<Rightarrow> dict_get d k)"
proof -
  assume d: "distinct (map fst extra)"
  then have "distinct (map fst (rev extra))" by (simp add: rev_map [symmetric])
  then have "map_of (rev extra) = map_of extra" using d by (simp add: map_of_inject_set)
  then show ?thesis unfolding dict_get_update_rev by (simp add: dict_get_def)
qed

text \<open>The specifications of the parameter file, without those the strategy's own schema replaces.\<close>

definition file_specs :: "param_files \<Rightarrow> py_exc + pydict" where
  "file_specs pf =
     (case discover_adjacent_params_yaml pf of None \<Rightarrow> Inr []
      | Some path \<Rightarrow> load_indicator_params_from_params_yaml pf path)"

definition own_schema :: "bridge_input \<Rightarrow> pydict" where
  "own_schema i = (case bi_built_schema i of None \<Rightarrow> [] | Some s \<Rightarrow> s)"

definition launch_overrides :: "bridge_input \<Rightarrow> pydict" where
  "launch_overrides i =
     (case bi_payload i of None \<Rightarrow> [] | Some p \<Rightarrow> strategy_parameter_overrides_from_launch_payload p)"

lemma merged_schema:
  assumes "distinct (map fst schema)"
  shows "merge_parameter_schema_with_adjacent_params_yaml pf schema = Inr merged \<Longrightarrow>
    (\<exists>specs. file_specs pf = Inr specs \<and>
      params_get e merged k = (if dict_has schema k then params_get e schema k else params_get e specs k))"
  using assms
  by (auto simp: merge_parameter_schema_with_adjacent_params_yaml_def file_specs_def result_simps
      params_get_def get_or_none_def dict_has_def dict_get_update split: option.splits if_splits)

text \<open>
  C12: in the context a bridge is built with, the value of a parameter is the last override of the
  launch payload for its name; without one, the default of the strategy's own schema; without that the
  default of the parameter file; otherwise reading it raises \<open>KeyError\<close>.
\<close>

theorem resolved_parameter:
  assumes "build_replay_sdk_bridge e i clock ow = Inr (br, w)" and "distinct (map fst (own_schema i))"
  shows "\<exists>specs. file_specs (bi_files i) = Inr specs \<and>
    params_get e (bg_schema br) k =
      (case override_of (launch_overrides i) k of
         Some v \<Rightarrow> Inr v
       | None \<Rightarrow>
           if dict_has (own_schema i) k then params_get e (own_schema i) k
           else if dict_has specs k then params_get e specs k
           else Inl (OtherExc ''KeyError'' k None))"
proof -
  obtain schema where schema: "merge_parameter_schema_with_adjacent_params_yaml (bi_files i) (own_schema i) = Inr schema"
    and br: "bg_schema br = merge_parameter_schema_with_strategy_overrides schema (launch_overrides i)"
    using assms(1) by (auto simp: build_replay_sdk_bridge_def own_schema_def launch_overrides_def result_simps Let_def)
  obtain specs where "file_specs (bi_files i) = Inr specs"
    "params_get e schema k =
      (if dict_has (own_schema i) k then params_get e (own_schema i) k else params_get e specs k)"
    using merged_schema [OF assms(2) schema] by blast
  moreover have "\<not> dict_has specs k \<Longrightarrow> params_get e specs k = Inl (OtherExc ''KeyError'' k None)" for specs
    by (simp add: params_get_def get_or_none_def dict_has_def)
  ultimately show ?thesis by (auto simp: br params_get_overrides split: option.split)
qed

section \<open>Orders\<close>

text \<open>The SDK's order keeps the arguments it is given and has no limit and no stop price by itself.\<close>

definition plain_orders :: "bridge_env \<Rightarrow> bool" where
  "plain_orders e \<longleftrightarrow>
     (\<forall>kw. \<not> dict_has kw ''limit_price'' \<longrightarrow> \<not> dict_has kw ''stop_price'' \<longrightarrow>
       (\<exists>oi. be_make_order e kw = Inr oi \<and> (\<forall>k. dict_has kw k \<longrightarrow> attr_of oi k = get_or_none kw k) \<and>
         attr_of oi ''limit_price'' = VNone \<and> attr_of oi ''stop_price'' = VNone))"

definition quantity_intent ::
  "bridge_env \<Rightarrow> pyval \<Rightarrow> string \<Rightarrow> pyfloat \<Rightarrow> pyfloat \<Rightarrow> pyval \<Rightarrow> pydatetime \<Rightarrow> sdk_intent" where
  "quantity_intent e side instrument quantity price tif created =
     ReplayOrderIntent instrument side quantity price (be_market e) VNone VNone tif created"

lemma intent_of_quantity:
  assumes "plain_orders e" and "py_float e qty = Inr q" and "request_price e kwargs = Inr p"
  obtains oi where "quantity_order e side first qty kwargs = Inr oi" "attr_of oi ''side'' = side"
    "\<And>w. replay_intent_from_sdk e oi w =
       (case clock_now (rw_clock w) of Inl exc \<Rightarrow> (Inl exc, w)
        | Inr t \<Rightarrow> (Inr (quantity_intent e side (py_str (be_str e) first) q p (attr_of oi ''time_in_force'') (as_utc t)), w))"
proof -
  obtain kw where kw: "kw = [(''instrument_id'', VStr (py_str (be_str e) first)), (''side'', side), (''quantity'', VFloat q),
        (''price'', VFloat p), (''order_type'', be_market e)]" by blast
  have "\<not> dict_has kw ''limit_price''" "\<not> dict_has kw ''stop_price''"
    by (simp_all add: kw dict_has_def)
  then obtain oi where oi: "be_make_order e kw = Inr oi"
    and attrs: "\<forall>k. dict_has kw k \<longrightarrow> attr_of oi k = get_or_none kw k"
    and none: "attr_of oi ''limit_price'' = VNone" "attr_of oi ''stop_price'' = VNone"
    using assms(1) unfolding plain_orders_def by blast
  have set: "attr_of oi ''instrument_id'' = VStr (py_str (be_str e) first)" "attr_of oi ''side'' = side"
    "attr_of oi ''quantity'' = VFloat q" "attr_of oi ''price'' = VFloat p" "attr_of oi ''order_type'' = be_market e"
    by (subst attrs [rule_format]; simp add: kw dict_has_def get_or_none_def)+
  have "quantity_order e side first qty kwargs = Inr oi"
    using assms(2,3) oi by (simp add: quantity_order_def kw)
  moreover have "replay_intent_from_sdk e oi w =
       (case clock_now (rw_clock w) of Inl exc \<Rightarrow> (Inl exc, w)
        | Inr t \<Rightarrow> (Inr (quantity_intent e side (py_str (be_str e) first) q p (attr_of oi ''time_in_force'') (as_utc t)), w))" for w
    by (simp add: replay_intent_from_sdk_def clock_service_now_def act_run set none opt_float_def py_float_def
        quantity_intent_def split: sum.split)
  ultimately show ?thesis using that set(2) by blast
qed

lemma safe_submit_returns: "fst (safe_submit_sdk_order_intent submit intent ow) = Inr ()"
  by (auto simp: safe_submit_sdk_order_intent_def act_run ow_log_def split: prod.split sum.split)

lemma deliver_run:
  "deliver_replay_intent svc intent w =
     (Inr (), case os_submit svc of None \<Rightarrow> w
              | Some submit \<Rightarrow> put_orders (snd (safe_submit_sdk_order_intent submit intent (rw_orders w))) w)"
  using safe_submit_returns
  by (auto simp: deliver_replay_intent_def on_part_def act_run split: option.split prod.split) (metis fst_conv)

lemma request_price_default: "request_price e [] = Inr (Fin 1)"
  by (simp add: request_price_def py_float_def py_or_def get_or_none_def)

text \<open>
  Buying a quantity of an instrument through the context never changes what the strategy sees. Before the first
  event it raises, the clock not being set, and nothing is sent; afterwards it returns, whatever
  sending does, and the submitter is handed exactly one market order of that quantity, stamped with
  the clock. As it carries the reference price, the payload for the OMS has it as the limit price of
  the market order: 1.0 when the strategy gave no price.
\<close>

lemma quantity_order_sent:
  assumes "plain_orders e" and "qty \<noteq> VNone" and "py_float e qty = Inr q" and "request_price e kwargs = Inr p"
  shows "case rw_clock w of
      None \<Rightarrow> \<exists>exc. context_buy e svc (ByQuantity first qty kwargs) w = (Inl exc, w)
    | Some t \<Rightarrow> \<exists>tif.
        (let intent = quantity_intent e (be_buy e) (py_str (be_str e) first) q p tif (as_utc t) in
         context_buy e svc (ByQuantity first qty kwargs) w =
           (Inr (), case os_submit svc of None \<Rightarrow> w
                    | Some submit \<Rightarrow> put_orders (snd (safe_submit_sdk_order_intent submit intent (rw_orders w))) w) \<and>
         attr_of intent ''order_type'' = be_market e \<and>
         (\<forall>v spec key corr. dict_get (oms_payload v intent spec key corr) ''limit_price'' =
            Some (VStr (py_str (ov_str v) (VFloat p))))) \<and>
        (kwargs = [] \<longrightarrow> p = Fin 1)"
proof -
  obtain oi where oi: "quantity_order e (be_buy e) first qty kwargs = Inr oi" "attr_of oi ''side'' = be_buy e"
    and made: "\<And>w. replay_intent_from_sdk e oi w =
       (case clock_now (rw_clock w) of Inl exc \<Rightarrow> (Inl exc, w)
        | Inr t \<Rightarrow> (Inr (quantity_intent e (be_buy e) (py_str (be_str e) first) q p (attr_of oi ''time_in_force'') (as_utc t)), w))"
    by (rule intent_of_quantity [OF assms(1,3,4), of "be_buy e" first]) (rule that)
  have run: "context_buy e svc (ByQuantity first qty kwargs) w =
      (case clock_now (rw_clock w) of Inl exc \<Rightarrow> (Inl exc, w)
       | Inr t \<Rightarrow> deliver_replay_intent svc
           (quantity_intent e (be_buy e) (py_str (be_str e) first) q p (attr_of oi ''time_in_force'') (as_utc t)) w)"
    using assms(2) oi by (simp add: context_buy_def act_run service_buy_def made split: sum.split)
  have payload: "dict_get (oms_payload v (quantity_intent e side i q p tif t) spec key corr) ''limit_price'' =
      Some (VStr (py_str (ov_str v) (VFloat p)))"
    "attr_of (quantity_intent e side i q p tif t) ''order_type'' = be_market e" for v side i tif t spec key corr
    by (simp_all add: oms_payload_def quantity_intent_def ReplayOrderIntent_def attr_of_def get_or_none_def price_text_def Let_def)
  have "p = Fin 1" if "kwargs = []" using assms(4) request_price_default that by simp
  then show ?thesis
    using payload by (auto simp: run clock_now_def deliver_run Let_def split: option.split)
qed

section \<open>The account\<close>

text \<open>
  A balance message either leaves everything as it was or is applied as a whole: then the account reads
  exactly the amounts of the message, absent ones as zero, at its time, and nothing else has changed.
\<close>

lemma balance_update_visible:
  assumes "ps_positions (rw_portfolio w) = []"
  shows "case apply_pls_balance_update e msg w of
      (Inr True, w') \<Rightarrow> \<exists>balance cash bp eq.
        get_or_none msg ''balance'' = VDict balance \<and>
        parse_cash_value e (get_or_none balance ''cash_balance'') = Inr cash \<and>
        parse_cash_value e (get_or_none balance ''buying_power'') = Inr bp \<and>
        parse_cash_value e (get_or_none balance ''equity'') = Inr eq \<and>
        fst (portfolio_of e w') = Inr \<lparr>pf_timestamp =
            (case parse_pls_timestamp e (get_or_none msg ''timestamp'') of None \<Rightarrow> be_wall e | Some t \<Rightarrow> t),
          pf_cash_balance = cash, pf_buying_power = bp, pf_equity = eq,
          pf_available_funds = (if float_less eq bp then eq else bp), pf_positions = []\<rparr> \<and>
        w' = w\<lparr>rw_portfolio := rw_portfolio w'\<rparr> \<and> cb_currency (ps_cash (rw_portfolio w')) = cb_currency (ps_cash (rw_portfolio w))
    | (r, w') \<Rightarrow> w' = w"
proof (cases "get_or_none msg ''balance''")
  case (VDict balance)
  show ?thesis
  proof (cases "\<exists>cash bp eq. parse_cash_value e (get_or_none balance ''cash_balance'') = Inr cash \<and>
      parse_cash_value e (get_or_none balance ''buying_power'') = Inr bp \<and>
      parse_cash_value e (get_or_none balance ''equity'') = Inr eq")
    case True
    then obtain cash bp eq where parsed: "parse_cash_value e (get_or_none balance ''cash_balance'') = Inr cash"
      "parse_cash_value e (get_or_none balance ''buying_power'') = Inr bp"
      "parse_cash_value e (get_or_none balance ''equity'') = Inr eq" by blast
    obtain ts where ts: "(case parse_pls_timestamp e (get_or_none msg ''timestamp'') of None \<Rightarrow> be_wall e | Some t \<Rightarrow> t) = ts"
      by blast
    obtain w' where w': "w' = w\<lparr>rw_portfolio := apply_balance cash bp eq ts (rw_portfolio w)\<rparr>" by blast
    have run: "apply_pls_balance_update e msg w = (Inr True, w')"
      by (simp add: apply_pls_balance_update_def VDict act_run parsed Let_def ts w')
    have read: "fst (portfolio_of e w') = Inr \<lparr>pf_timestamp = ts, pf_cash_balance = cash, pf_buying_power = bp,
        pf_equity = eq, pf_available_funds = (if float_less eq bp then eq else bp), pf_positions = []\<rparr>"
      by (simp add: w' assms portfolio_of_def act_run snapshot_to_portfolio_def apply_balance_def Let_def)
    show ?thesis
      unfolding run prod.case sum.case bool.case ts
      by (intro exI conjI, rule VDict, (rule parsed)+, rule read) (simp_all add: w' apply_balance_def)
  next
    case False
    then show ?thesis
      by (auto simp: apply_pls_balance_update_def VDict act_run Let_def split: sum.split)
  qed
qed (simp_all add: apply_pls_balance_update_def act_run)

lemma opening_portfolio: "ps_positions (opening_snapshot e spec payload) = []"
  by (simp add: opening_snapshot_def split: prod.split)

lemma seed_cash_not_negative:
  "snd (seed_cash_from_launch_payload e payload) = Fin 0 \<or> float_less (Fin 0) (snd (seed_cash_from_launch_payload e payload))"
  by (auto simp: seed_cash_from_launch_payload_def Let_def split: option.split pyval.split)

section \<open>The adapter\<close>

text \<open>
  Market data, clock and indicators move only for a typed hook: a strategy that handles the event in
  \<open>on_event\<close> never finds it in its context.
\<close>

lemma untyped_event_unseen:
  assumes "map_event m (VDict raw) = Inr ev" and "\<not> uses_typed_hook (bs_strategy bs) ev"
  shows "same_market w (snd (bridged_on_event e br bs m raw w))"
proof -
  have "same_market w (snd (run_hook e br (bs_on_event bs ev w) w))"
    by (rule movesD [OF hook_same_market])
  then show ?thesis
    using assms by (auto simp: bridged_on_event_def act_run bounded_def market.refl split: prod.split)
qed

section \<open>Instances\<close>

definition sample_bridge_env :: bridge_env where
  "sample_bridge_env =
     \<lparr>be_str = (\<lambda>v. ''1.0''), be_parse_float = (\<lambda>s. Some (Fin 5)), be_float_of = (\<lambda>n. None),
      be_fromisoformat = (\<lambda>s. None), be_wall = utc 0, be_overflow = (\<lambda>i. []), be_bar_error = (\<lambda>b. None),
      be_quote_error = (\<lambda>q. None), be_tick_error = (\<lambda>t. None),
      be_make_order = (\<lambda>kw. Inr (kw @ [(''limit_price'', VNone), (''stop_price'', VNone)])),
      be_times = (\<lambda>x y. x), be_mid_price = qt_bid, be_updatable = (\<lambda>n. True), be_update_error = (\<lambda>n us. None),
      be_indicator_value = (\<lambda>n us. None), be_attr = (\<lambda>n a. None), be_buy = VObj 1, be_sell = VObj 2, be_market = VObj 3\<rparr>"

definition sample_input :: bridge_input where
  "sample_input =
     \<lparr>bi_spec = sample_spec, bi_strategy_version_id = ''sv'',
      bi_built_schema = Some [(''window'', VDict [(''default'', VInt 5)])],
      bi_files = \<lparr>pf_module_file = None, pf_parent = (\<lambda>f. []), pf_is_file = (\<lambda>f. False),
        pf_read = (\<lambda>f. FileOsError), pf_yaml = None\<rparr>,
      bi_payload = Some [(''strategy_params'', VDict [(''window'', VInt 9)])],
      bi_submit = None, bi_log = sample_order_env, bi_timeframe = ''5m''\<rparr>"

definition sample_bridge :: replay_bridge where
  "sample_bridge = \<lparr>bg_default_tf = ''5m'', bg_schema = [], bg_orders = build_order_service sample_input\<rparr>"

definition sample_world :: replay_world where
  "sample_world =
     \<lparr>rw_clock = None, rw_data = InMemoryReplayDataService ''5m'', rw_indicators = IndicatorService,
      rw_portfolio = opening_snapshot sample_bridge_env sample_spec None, rw_orders = fresh_order_world\<rparr>"

definition sample_hooks :: hooks where
  "sample_hooks =
     \<lparr>hk_params = (\<lambda>h. 1),
      hk_run = (\<lambda>h item legacy w. HookDo (OpSell (ByQuantity (VStr ''ACME'') VNone [])) (\<lambda>r w'. HookReturn VNone))\<rparr>"

definition sample_bar_event :: "int \<Rightarrow> mapped_event" where
  "sample_bar_event ms = MarketBarEvent ''market.bar'' ''ACME'' (Fin 1) (Fin 2) (Fin 1) (Fin 2) (Fin 10) ms"

definition sample_bar :: "int \<Rightarrow> sdk_bar" where
  "sample_bar ms =
     \<lparr>bar_symbol = ''ACME'', bar_timeframe = ''5m'', bar_open = Fin 1, bar_high = Fin 2, bar_low = Fin 1,
      bar_close = Fin 2, bar_volume = Fin 10, bar_timestamp = utc (ms * 1000), bar_instrument_id = ''ACME''\<rparr>"

lemma strip_sample [simp]: "py_strip ''ACME'' = ''ACME''"
  by (simp add: str_eval)

lemma apply_sample:
  "0 \<le> ms \<Longrightarrow> ms < 1000000 \<Longrightarrow>
   apply_event sample_bridge_env sample_bridge [] (sample_bar_event ms) w =
     (Inr (BarItem (sample_bar ms)),
      w\<lparr>rw_clock := Some (utc (ms * 1000)), rw_data := append_bar (sample_bar ms) (rw_data w)\<rparr>)"
  by (simp add: sample_bar_event_def sample_bar_def at_event_time_run event_instant_def utc_from_epoch_millis_def mult.commute sample_bridge_env_def
      sample_bridge_def build_value_def act_run change_data_def resolve_timeframe_def resolve_instrument_id_def
      get_or_none_def py_or_def wire_instrument_id_str_def Let_def)

lemma prepare_sample:
  assumes "0 \<le> ms" "ms < 1000000" "is_registrations (rw_indicators w) = []"
  shows "prepare_hook sample_bridge_env sample_bridge [] (sample_bar_event ms) w =
     (Inr (BarItem (sample_bar ms)),
      w\<lparr>rw_clock := Some (utc (ms * 1000)), rw_data := append_bar (sample_bar ms) (rw_data w)\<rparr>)"
  using assms
  by (simp add: prepare_hook_def act_run apply_sample advance_indicators_def on_part_def put_indicators_def advance_on_def)

lemma fresh_sample: "fresh_world ''5m'' sample_world"
  by (simp add: fresh_world_def sample_world_def IndicatorService_def)

lemma sample_env_plain: "plain_orders sample_bridge_env"
  by (auto simp: plain_orders_def sample_bridge_env_def attr_of_def get_or_none_def dict_has_def dict_get_def map_add_def
      split: option.split)

lemma dispatch_sample:
  assumes "0 \<le> ms" "ms < 1000000" "is_registrations (rw_indicators w) = []"
  shows "snd (dispatch sample_bridge_env sample_bridge sample_hooks [] (sample_bar_event ms) w) =
      w\<lparr>rw_clock := Some (utc (ms * 1000)), rw_data := append_bar (sample_bar ms) (rw_data w)\<rparr>"
  using assms
  by (simp add: dispatch_def act_run prepare_sample dispatch_hook_payload_def sample_hooks_def context_sell_def)

lemma run_sample:
  "run_events sample_bridge_env sample_bridge sample_hooks [([], sample_bar_event 60)] sample_world =
     ([BarItem (sample_bar 60)],
      sample_world\<lparr>rw_clock := Some (utc 60000), rw_data := append_bar (sample_bar 60) (rw_data sample_world)\<rparr>)"
  using dispatch_sample [of 60 sample_world]
  by (simp add: recorded_def apply_sample sample_world_def IndicatorService_def)

theorem no_look_ahead_witness:
  "\<exists>w'. rw_clock w' = Some (utc 120000) \<and> sees w' (BarItem (sample_bar 120)) \<and>
     (\<forall>x. sees w' x \<longrightarrow> x \<in> {BarItem (sample_bar 60), BarItem (sample_bar 120)})"
proof -
  obtain w where w: "w = sample_world\<lparr>rw_clock := Some (utc 60000), rw_data := append_bar (sample_bar 60) (rw_data sample_world)\<rparr>"
    by blast
  obtain w' where w': "w' = w\<lparr>rw_clock := Some (utc 120000), rw_data := append_bar (sample_bar 120) (rw_data w)\<rparr>"
    by blast
  have prep: "prepare_hook sample_bridge_env sample_bridge [] (sample_bar_event 120) w = (Inr (BarItem (sample_bar 120)), w')"
    using prepare_sample [of 120 w] by (simp add: w w' sample_world_def IndicatorService_def)
  have "sample_bar 120 \<in> set (bars_of (rw_data w') ''ACME'' ''5m'')"
    by (simp add: w' w bars_of_def append_bar_def sample_bar_def Let_def)
  then have "sees w' (BarItem (sample_bar 120))" unfolding sees_def by auto
  moreover have "rw_clock w' = Some (item_time (BarItem (sample_bar 120))) \<and>
      item_time (BarItem (sample_bar 120)) = utc (event_ms (sample_bar_event 120) * 1000) \<and>
      (\<forall>x. sees w' x \<longrightarrow> x \<in> set ([BarItem (sample_bar 60)] @ [BarItem (sample_bar 120)]) \<and>
        dt_instant (item_time x) \<le> dt_instant (item_time (BarItem (sample_bar 120))))"
    by (rule no_look_ahead [OF fresh_sample run_sample [folded w] prep]) (simp add: sample_bar_event_def)
  ultimately show ?thesis by (auto simp: sample_bar_event_def)
qed

theorem market_view_is_history_witness:
  "get_bars sample_bridge_env (rw_data (sample_world\<lparr>rw_clock := Some (utc 60000),
       rw_data := append_bar (sample_bar 60) (rw_data sample_world)\<rparr>)) ''ACME'' ''5m'' TsNone (TsTime (utc 60000)) (Some 3) =
     Inr [sample_bar 60]"
  using market_view_is_history [OF fresh_sample run_sample, of TsNone None "TsTime (utc 60000)" "Some (utc 60000)"
      "''ACME''" "''5m''" "Some 3"]
  by (simp add: as_datetime_def aware_bound_def history_bars_def in_bounds_def sample_bar_def limit_series_def take_last_def)

theorem resolved_parameter_witness:
  "\<exists>br w. build_replay_sdk_bridge sample_bridge_env sample_input None fresh_order_world = Inr (br, w) \<and>
     params_get sample_bridge_env (bg_schema br) ''window'' = Inr (VInt 9)"
proof -
  obtain br w where built: "build_replay_sdk_bridge sample_bridge_env sample_input None fresh_order_world = Inr (br, w)"
    by (simp add: build_replay_sdk_bridge_def sample_input_def merge_parameter_schema_with_adjacent_params_yaml_def
        discover_adjacent_params_yaml_def Let_def)
  have "py_strip ''window'' = ''window''" by (simp add: str_eval)
  then have "override_of (launch_overrides sample_input) ''window'' = Some (VInt 9)"
    by (simp add: launch_overrides_def sample_input_def strategy_parameter_overrides_from_launch_payload_def
        get_or_none_def strip_keys_def dict_update_def override_of_def dict_set_def Let_def)
  moreover have "distinct (map fst (own_schema sample_input))"
    by (simp add: own_schema_def sample_input_def)
  ultimately show ?thesis using resolved_parameter [OF built, of "''window''"] built by auto
qed

theorem quantity_order_sent_witness:
  "\<exists>tif. context_buy sample_bridge_env \<lparr>os_strategy_id = None, os_user_id = None,
        os_submit = Some (\<lambda>intent. act_ret VNone), os_log = sample_order_env\<rparr>
      (ByQuantity (VStr ''ACME'') (VInt 3) []) (sample_world\<lparr>rw_clock := Some (utc 5)\<rparr>) =
        (Inr (), sample_world\<lparr>rw_clock := Some (utc 5)\<rparr>) \<and>
      dict_get (oms_payload sample_order_env
        (quantity_intent sample_bridge_env (VObj 1) ''ACME'' (Fin 3) (Fin 1) tif (utc 5)) sample_spec [] []) ''limit_price'' =
        Some (VStr (py_str (ov_str sample_order_env) (VFloat (Fin 1))))"
proof -
  have q: "py_float sample_bridge_env (VInt 3) = Inr (Fin 3)" by (simp add: py_float_def)
  have buy: "be_buy sample_bridge_env = VObj 1" by (simp add: sample_bridge_env_def)
  obtain w where w: "w = sample_world\<lparr>rw_clock := Some (utc 5)\<rparr>" by blast
  obtain svc where svc: "svc = \<lparr>os_strategy_id = None, os_user_id = None, os_submit = Some (\<lambda>intent. act_ret VNone),
      os_log = sample_order_env\<rparr>" by blast
  have same: "put_orders (snd (safe_submit_sdk_order_intent (\<lambda>intent. act_ret VNone) intent (rw_orders w))) w = w" for intent
    by (simp add: safe_submit_sdk_order_intent_def act_run put_orders_def)
  have clk: "rw_clock w = Some (utc 5)" and sub: "os_submit svc = Some (\<lambda>intent. act_ret VNone)"
    by (simp_all add: w svc)
  have "VInt 3 \<noteq> VNone" by simp
  from quantity_order_sent [OF sample_env_plain this q request_price_default, where w = w and svc = svc and first = "VStr ''ACME''"]
  obtain tif where "context_buy sample_bridge_env svc (ByQuantity (VStr ''ACME'') (VInt 3) []) w = (Inr (), w)"
    and "\<forall>v spec key corr. dict_get (oms_payload v
        (quantity_intent sample_bridge_env (VObj 1) ''ACME'' (Fin 3) (Fin 1) tif (utc 5)) spec key corr) ''limit_price'' =
        Some (VStr (py_str (ov_str v) (VFloat (Fin 1))))"
    unfolding clk sub by (auto simp: same buy as_utc_def Let_def)
  then show ?thesis unfolding w svc by blast
qed

theorem balance_update_visible_witness:
  "\<exists>w'. apply_pls_balance_update sample_bridge_env
        [(''balance'', VDict [(''cash_balance'', VInt 7), (''equity'', VInt 4)]), (''timestamp'', VTime (utc 9))] sample_world =
        (Inr True, w') \<and>
     fst (portfolio_of sample_bridge_env w') = Inr \<lparr>pf_timestamp = utc 9, pf_cash_balance = Fin 7, pf_buying_power = Fin 0,
       pf_equity = Fin 4, pf_available_funds = Fin 0, pf_positions = []\<rparr>"
proof -
  have no: "ps_positions (rw_portfolio sample_world) = []" by (simp add: sample_world_def opening_portfolio)
  obtain w' where run: "apply_pls_balance_update sample_bridge_env
        [(''balance'', VDict [(''cash_balance'', VInt 7), (''equity'', VInt 4)]), (''timestamp'', VTime (utc 9))] sample_world =
        (Inr True, w')"
    by (simp add: apply_pls_balance_update_def get_or_none_def act_run parse_cash_value_def py_float_def Let_def)
  show ?thesis
    using balance_update_visible [OF no, where e = sample_bridge_env and
        msg = "[(''balance'', VDict [(''cash_balance'', VInt 7), (''equity'', VInt 4)]), (''timestamp'', VTime (utc 9))]"] run
    by (auto simp: get_or_none_def parse_cash_value_def py_float_def parse_pls_timestamp_def aware_or_utc_def)
qed

end
