(* ===== verification/Artifacts.thy ===== *)
theory Artifacts
  imports FileTree LaunchSpec
begin

text \<open>
  \<open>bootstrap/artifact_fetcher.py\<close>, \<open>artifact_verifier.py\<close> and the digests of
  \<open>strategy_bundle_loader.py\<close>: from the reference of an artifact to files in the working directory
  of the launch, and the check of its digest. URL parsing, hashing, the reading of a ZIP archive,
  symbolic links and faults of the disk while copying are arguments (\<open>art_env\<close>). Bytes are
  characters. The providers are the default ones.
\<close>

text \<open>
  An entry of an archive: its name, and what reading it gives, an exception at once or bytes and perhaps an
  exception after them.
\<close>

type_synonym zip_entry = "string \<times> (py_exc + string \<times> py_exc option)"

record art_env =
  ae_resolve :: "path \<Rightarrow> path"
  ae_cwd :: path
  ae_repr :: "string \<Rightarrow> string"
  ae_urlparse :: "string \<Rightarrow> string \<times> string \<times> string"
  ae_unquote :: "string \<Rightarrow> string"
  ae_as_uri :: "path \<Rightarrow> string"
  ae_sha256 :: "string \<Rightarrow> string"
  ae_hash :: "string \<Rightarrow> (string \<Rightarrow> string) option"
  ae_unzip :: "string \<Rightarrow> py_exc + zip_entry list"
  ae_disk_fault :: "path \<Rightarrow> file_tree \<Rightarrow> (py_exc \<times> file_tree) option"

type_synonym 'a on_tree = "(file_tree, 'a) act"

section \<open>Failures\<close>

definition provider_error :: "string \<Rightarrow> string \<Rightarrow> py_exc" where
  "provider_error ty msg = OtherExc ty msg None"

definition the_exc :: "py_exc + py_exc \<Rightarrow> py_exc" where
  "the_exc r = (case r of Inl e \<Rightarrow> e | Inr e \<Rightarrow> e)"

definition fetch_failure :: "string \<Rightarrow> bool \<Rightarrow> pydict \<Rightarrow> string \<Rightarrow> py_exc" where
  "fetch_failure rcode retryable details msg = the_exc (ArtifactFetchFailure rcode retryable details msg)"

definition verification_failure :: "string \<Rightarrow> pydict \<Rightarrow> string \<Rightarrow> py_exc" where
  "verification_failure rcode details msg = the_exc (ArtifactVerificationFailure rcode False details msg)"

section \<open>References\<close>

definition REGISTRY_LOCAL_URI_PREFIX :: string where
  "REGISTRY_LOCAL_URI_PREFIX = ''registry-local:///''"

definition lstrip_slash :: "string \<Rightarrow> string" where
  "lstrip_slash s = dropWhile (\<lambda>c. c = CHR ''/'') s"

definition resolve_registry_local_uri_to_path :: "art_env \<Rightarrow> string \<Rightarrow> path \<Rightarrow> py_exc + path" where
  "resolve_registry_local_uri_to_path e artifact_uri local_base =
     (let raw = py_strip artifact_uri in
      if \<not> starts_with REGISTRY_LOCAL_URI_PREFIX raw
      then Inl (provider_error ''ArtifactProviderFetchError'' (''Not a registry-local URI: '' @ ae_repr e artifact_uri))
      else
        (let rest = lstrip_slash (drop (length REGISTRY_LOCAL_URI_PREFIX) raw); segs = py_split (CHR ''/'') rest in
         if rest = [] then Inl (provider_error ''ArtifactProviderFetchError''
             ''registry-local artifact_uri must include a path after registry-local:///'')
         else if list_ex (\<lambda>s. s = [] \<or> s = ''..'') segs then Inl (provider_error ''ArtifactProviderFetchError''
             ''registry-local path must not contain empty or `..` segments'')
         else Inr (ae_resolve e local_base @ filter (\<lambda>s. s \<noteq> ''.'') segs)))"

text \<open>\<open>Path(text)\<close>, relative paths taken from a base.\<close>

definition path_from :: "path \<Rightarrow> string \<Rightarrow> path" where
  "path_from base t = (if is_absolute t then path_parts t else base @ path_parts t)"

definition resolve_source_path :: "art_env \<Rightarrow> string \<Rightarrow> py_exc + path" where
  "resolve_source_path e artifact_reference =
     (case ae_urlparse e artifact_reference of (scheme, netloc, url_path) \<Rightarrow>
        if scheme = ''file'' then
          (if netloc \<noteq> [] then Inr (path_from (ae_cwd e) (''//'' @ netloc @ ae_unquote e url_path))
           else
             (let raw = ae_unquote e url_path;
                  raw = (if starts_with ''/'' raw \<and> length raw > 2 \<and> raw ! 2 = CHR '':'' then drop 1 raw else raw)
              in Inr (path_from (ae_cwd e) raw)))
        else if scheme \<noteq> [] then Inl (provider_error ''ArtifactProviderFetchError''
            (''Unsupported provider scheme for LocalArtifactProvider: '' @ scheme))
        else Inr (path_from (ae_cwd e) artifact_reference))"

text \<open>\<open>discover_params_yaml_adjacent_to_module_file\<close>: directory from the resolved path, name from the given one.\<close>

definition adjacent_yaml :: "art_env \<Rightarrow> file_tree \<Rightarrow> path \<Rightarrow> path option" where
  "adjacent_yaml e fs p =
     (let parent = butlast (ae_resolve e p); stem_yaml = parent @ [file_stem (path_name p) @ ''.yaml''];
          legacy = parent @ [''params.yaml'']
      in if is_file fs (ae_resolve e stem_yaml) then Some stem_yaml
         else if is_file fs (ae_resolve e legacy) then Some legacy else None)"

section \<open>The local providers\<close>

record materialization =
  mt_source_reference :: string
  mt_root :: path
  mt_provenance :: pydict
  mt_scope :: "string list option"

definition copy_file :: "art_env \<Rightarrow> path \<Rightarrow> path \<Rightarrow> unit on_tree" where
  "copy_file e source target =
     act_with (\<lambda>fs. file_at fs (ae_resolve e source)) (\<lambda>content.
       case content of
         None \<Rightarrow> act_raise (os_error ''FileNotFoundError'' source)
       | Some b \<Rightarrow> write_file target b)"

definition copy_directory :: "path \<Rightarrow> path \<Rightarrow> unit on_tree" where
  "copy_directory source target = act_modify (copy_tree source target)"

definition disk :: "art_env \<Rightarrow> path \<Rightarrow> unit on_tree \<Rightarrow> unit on_tree" where
  "disk e target m =
     (\<lambda>fs. case ae_disk_fault e target fs of None \<Rightarrow> m fs | Some (exc, fs') \<Rightarrow> (Inl exc, fs'))"

definition materialize :: "art_env \<Rightarrow> path \<Rightarrow> path \<Rightarrow> unit on_tree" where
  "materialize e source destination_root =
     disk e destination_root
       (act_then (act_modify (remove_tree destination_root))
       (act_then (mkdir_parents destination_root)
       (act_with (\<lambda>fs. (is_dir fs (ae_resolve e source), adjacent_yaml e fs source)) (\<lambda>(directory, sibling).
          if directory then copy_directory (ae_resolve e source) destination_root
          else act_then (copy_file e source (destination_root @ [path_name source]))
            (case sibling of
               None \<Rightarrow> act_ret ()
             | Some y \<Rightarrow> copy_file e y (destination_root @ [path_name y]))))))"

definition local_fetch :: "art_env \<Rightarrow> string \<Rightarrow> path \<Rightarrow> materialization on_tree" where
  "local_fetch e artifact_reference target_dir =
     act_bind (act_of (resolve_source_path e artifact_reference)) (\<lambda>source.
     act_with (\<lambda>fs. tree_exists fs (ae_resolve e source)) (\<lambda>there.
       if \<not> there then act_raise (provider_error ''ArtifactProviderNotFoundError'' (''Artifact not found: '' @ artifact_reference))
       else
         act_then (mkdir_parents target_dir)
         (act_then (materialize e source target_dir)
         (act_with (\<lambda>fs. (is_file fs (ae_resolve e source), adjacent_yaml e fs source)) (\<lambda>(single, sibling).
            act_ret \<lparr>mt_source_reference = artifact_reference, mt_root = target_dir,
              mt_provenance = [(''provider'', VStr ''local''), (''source_path'', VStr (path_str source))],
              mt_scope = (if single
                then Some (path_name source # (case sibling of None \<Rightarrow> [] | Some y \<Rightarrow> [path_name y])) else None)\<rparr>)))))"

definition registry_fetch :: "art_env \<Rightarrow> path \<Rightarrow> string \<Rightarrow> path \<Rightarrow> materialization on_tree" where
  "registry_fetch e local_base artifact_reference target_dir =
     act_bind (act_of (resolve_registry_local_uri_to_path e artifact_reference local_base)) (\<lambda>source.
     act_bind (local_fetch e (ae_as_uri e (ae_resolve e source)) target_dir) (\<lambda>mat.
     act_ret (mat\<lparr>mt_source_reference := artifact_reference,
       mt_provenance := dict_update [(''provider'', VStr ''registry-local''),
         (''registry_local_base'', VStr (path_str local_base)), (''resolved_path'', VStr (path_str source))]
         (mt_provenance mat)\<rparr>)))"

section \<open>ZIP archives\<close>

record fetch_result =
  fr_reference :: string
  fr_root :: path
  fr_expected :: "string option"
  fr_diagnostics :: pydict
  fr_scope :: "string list option"
  fr_preverified :: bool

definition unsafe_zip :: "path \<Rightarrow> string \<Rightarrow> string \<Rightarrow> py_exc" where
  "unsafe_zip zip_path name msg =
     fetch_failure ''artifact_unsafe_zip'' False
       [(''zip_path'', VStr (path_str zip_path)), (''entry'', VStr name)] msg"

definition extract_entry :: "art_env \<Rightarrow> path \<Rightarrow> path \<Rightarrow> zip_entry \<Rightarrow> unit on_tree" where
  "extract_entry e zip_path dest entry =
     (case entry of (name, content) \<Rightarrow>
        if name = [] \<or> is_absolute name then act_raise (unsafe_zip zip_path name ''Zip entry has an unsafe path.'')
        else if ''..'' \<in> set (path_parts name)
        then act_raise (unsafe_zip zip_path name ''Zip entry escapes target directory.'')
        else
          (let target = ae_resolve e (dest @ path_parts name) in
           if \<not> is_below dest target
           then act_raise (unsafe_zip zip_path name ''Zip entry resolves outside strategy_bundle.'')
           else if last name = CHR ''/'' then mkdir_parents target
           else act_then (mkdir_parents (butlast target))
             (act_bind (act_of content) (\<lambda>(bytes, fault).
              act_then (write_file target bytes)
                (case fault of None \<Rightarrow> act_ret () | Some exc \<Rightarrow> act_raise exc)))))"

definition extract_zip_to_directory :: "art_env \<Rightarrow> path \<Rightarrow> path \<Rightarrow> unit on_tree" where
  "extract_zip_to_directory e zip_path dest_dir =
     act_then (mkdir_parents dest_dir)
       (act_with (\<lambda>fs. file_at fs zip_path) (\<lambda>archive.
          act_bind (act_of (case archive of
              None \<Rightarrow> Inl (os_error ''FileNotFoundError'' zip_path) | Some b \<Rightarrow> ae_unzip e b)) (\<lambda>entries.
          act_for entries (extract_entry e zip_path (ae_resolve e dest_dir)))))"

definition hex_digits :: "char list" where
  "hex_digits = ''0123456789abcdef''"

definition digest_unsupported :: "string \<Rightarrow> string \<Rightarrow> py_exc" where
  "digest_unsupported digest msg = fetch_failure ''digest_unsupported'' False [(''artifact_digest'', VStr digest)] msg"

definition parse_sha256_digest :: "string \<Rightarrow> py_exc + string" where
  "parse_sha256_digest digest =
     (case py_split (CHR '':'') digest of
        [algorithm, encoded] \<Rightarrow>
          (let algo = py_lower (py_strip algorithm); hex_part = py_lower (py_strip encoded) in
           if algo \<noteq> ''sha256'' \<or> hex_part = [] \<or> \<not> set hex_part \<subseteq> set hex_digits
           then Inl (digest_unsupported digest ''Verified zip artifacts require a lowercase sha256:hex digest.'')
           else Inr hex_part)
      | _ \<Rightarrow> Inl (digest_unsupported digest ''Digest must be algorithm:hex.''))"

definition zip_result :: "launch_spec \<Rightarrow> path \<Rightarrow> path \<Rightarrow> string \<Rightarrow> string option \<Rightarrow> bool \<Rightarrow> fetch_result" where
  "zip_result sp zip_path extract_root provider expected skipped =
     \<lparr>fr_reference = ls_artifact_uri sp, fr_root = extract_root, fr_expected = expected,
      fr_diagnostics = [(''runtime_id'', VStr (ls_runtime_id sp)), (''launch_attempt'', VInt (ls_launch_attempt sp)),
        (''provenance'', VDict ([(''provider'', VStr provider), (''zip_path'', VStr (path_str zip_path)),
          (''extracted_to'', VStr (path_str extract_root))] @
          (if skipped then [(''digest_validation_skipped'', VBool True)] else [])))],
      fr_scope = None, fr_preverified = True\<rparr>"

record zip_texts =
  zt_provider :: string
  zt_required :: string
  zt_mismatch :: string

definition verified_zip_extract ::
  "bool \<Rightarrow> art_env \<Rightarrow> path \<Rightarrow> launch_spec \<Rightarrow> path \<Rightarrow> zip_texts \<Rightarrow> fetch_result on_tree" where
  "verified_zip_extract skip_digest e zip_path sp extract_root zt =
     (let expected = or_empty (ls_artifact_digest sp);
          extracted = (\<lambda>digest skipped. act_then (extract_zip_to_directory e zip_path extract_root)
            (act_ret (zip_result sp zip_path extract_root (zt_provider zt) digest skipped)))
      in if py_strip expected = [] then
           (if \<not> skip_digest then
              act_raise (fetch_failure ''expected_digest_missing'' False
                [(''artifact_uri'', VStr (ls_artifact_uri sp)), (''zip_path'', VStr (path_str zip_path))] (zt_required zt))
            else extracted None True)
         else if skip_digest then extracted (Some (py_strip expected)) True
         else
           act_bind (act_of (parse_sha256_digest expected)) (\<lambda>expected_hex.
           act_with (\<lambda>fs. file_at fs zip_path) (\<lambda>archive.
             case archive of
               None \<Rightarrow> act_raise (os_error ''FileNotFoundError'' zip_path)
             | Some b \<Rightarrow>
                 if ae_sha256 e b \<noteq> expected_hex then
                   act_raise (fetch_failure ''digest_mismatch'' False
                     [(''artifact_uri'', VStr (ls_artifact_uri sp)), (''zip_path'', VStr (path_str zip_path)),
                      (''expected_digest'', VStr expected), (''actual_digest'', VStr (''sha256:'' @ ae_sha256 e b))]
                     (zt_mismatch zt))
                 else extracted (Some expected) False)))"

section \<open>The fetcher\<close>

record fetcher =
  ft_work_root :: path
  ft_bundle_base :: "path option"
  ft_local_base :: "path option"

definition ArtifactFetcher :: "art_env \<Rightarrow> path \<Rightarrow> path option \<Rightarrow> path option \<Rightarrow> fetcher" where
  "ArtifactFetcher e work_root bundle_base local_base =
     \<lparr>ft_work_root = work_root, ft_bundle_base = bundle_base, ft_local_base = map_option (ae_resolve e) local_base\<rparr>"

definition relative_artifact_base :: "art_env \<Rightarrow> fetcher \<Rightarrow> path" where
  "relative_artifact_base e f = (case ft_bundle_base f of Some b \<Rightarrow> ae_resolve e b | None \<Rightarrow> ae_cwd e)"

definition resolve_local_artifact_path :: "art_env \<Rightarrow> string \<Rightarrow> path \<Rightarrow> path option" where
  "resolve_local_artifact_path e artifact_uri base_dir =
     (let raw = py_strip artifact_uri in
      if raw = [] then None
      else if starts_with ''file://'' raw then
        (let local = ae_unquote e (snd (snd (ae_urlparse e raw))) in
         if is_absolute local then Some (path_parts local)
         else Some (ae_resolve e (base_dir @ path_parts local)))
      else Some (ae_resolve e (path_from base_dir raw)))"

definition materialization_dir :: "fetcher \<Rightarrow> launch_spec \<Rightarrow> path" where
  "materialization_dir f sp =
     ft_work_root f @ [ls_runtime_id sp @ ''-'' @ int_str (ls_launch_attempt sp), ''artifact'']"

definition is_zip_file :: "art_env \<Rightarrow> file_tree \<Rightarrow> path option \<Rightarrow> bool" where
  "is_zip_file e fs p =
     (case p of None \<Rightarrow> False
      | Some q \<Rightarrow> py_lower (path_suffix (path_name q)) = ''.zip'' \<and> is_file fs (ae_resolve e q))"

definition maybe_fetch_strategy_bundle_zip ::
  "bool \<Rightarrow> art_env \<Rightarrow> fetcher \<Rightarrow> launch_spec \<Rightarrow> fetch_result option on_tree" where
  "maybe_fetch_strategy_bundle_zip skip_digest e f sp =
     (case ft_bundle_base f of
        None \<Rightarrow> act_ret None
      | Some base \<Rightarrow>
          (let bundle_root = ae_resolve e (base @ [''strategy_bundle'']);
               zip_path = resolve_local_artifact_path e (ls_artifact_uri sp) base
           in act_with (\<lambda>fs. is_zip_file e fs zip_path) (\<lambda>zipped.
              if \<not> zipped \<or> \<not> is_below bundle_root (ae_resolve e (the zip_path)) then act_ret None
              else act_bind (verified_zip_extract skip_digest e (ae_resolve e (the zip_path)) sp bundle_root
                  \<lparr>zt_provider = ''strategy_bundle_zip'',
                   zt_required = ''artifact_digest is required to verify strategy_bundle zip.'',
                   zt_mismatch = ''strategy_bundle zip SHA-256 does not match artifact_digest.''\<rparr>)
                (\<lambda>r. act_ret (Some r)))))"

definition resolve_artifact_zip_path :: "art_env \<Rightarrow> fetcher \<Rightarrow> launch_spec \<Rightarrow> py_exc + path option" where
  "resolve_artifact_zip_path e f sp =
     (let uri = py_strip (ls_artifact_uri sp) in
      if uri = [] then Inr None
      else if starts_with REGISTRY_LOCAL_URI_PREFIX uri then
        (case ft_local_base f of
           None \<Rightarrow> Inr None
         | Some base \<Rightarrow> map_sum id Some (resolve_registry_local_uri_to_path e uri base))
      else Inr (resolve_local_artifact_path e uri (relative_artifact_base e f)))"

definition maybe_fetch_generic_verified_zip ::
  "bool \<Rightarrow> art_env \<Rightarrow> fetcher \<Rightarrow> launch_spec \<Rightarrow> fetch_result option on_tree" where
  "maybe_fetch_generic_verified_zip skip_digest e f sp =
     (case resolve_artifact_zip_path e f sp of
        Inl exc \<Rightarrow>
          act_raise (fetch_failure ''artifact_fetch_failed'' False
            [(''artifact_uri'', VStr (ls_artifact_uri sp)), (''provider_error'', VStr (exc_text exc))]
            ''Could not resolve artifact_uri to a local zip path.'')
      | Inr zip_path \<Rightarrow>
          act_with (\<lambda>fs. is_zip_file e fs zip_path) (\<lambda>zipped.
            if \<not> zipped then act_ret None
            else act_bind (verified_zip_extract skip_digest e (ae_resolve e (the zip_path)) sp (materialization_dir f sp)
                \<lparr>zt_provider = ''artifact_zip'',
                 zt_required = ''artifact_digest is required to verify artifact zip.'',
                 zt_mismatch = ''artifact zip SHA-256 does not match artifact_digest.''\<rparr>)
              (\<lambda>r. act_ret (Some r))))"

text \<open>The provider for the scheme of a reference.\<close>

definition provider_fetch :: "art_env \<Rightarrow> fetcher \<Rightarrow> string \<Rightarrow> (path \<Rightarrow> materialization on_tree) option" where
  "provider_fetch e f artifact_reference =
     (let scheme = fst (ae_urlparse e artifact_reference) in
      if scheme = ''file'' \<or> scheme = [] then Some (local_fetch e artifact_reference)
      else case (if scheme = ''registry-local'' then ft_local_base f else None) of
        Some base \<Rightarrow> Some (registry_fetch e base artifact_reference)
      | None \<Rightarrow> if CHR '':'' \<notin> set artifact_reference then Some (local_fetch e artifact_reference) else None)"

definition is_os_error :: "py_exc \<Rightarrow> bool" where
  "is_os_error exc \<longleftrightarrow> exc_type_name exc \<in> {''OSError'', ''FileNotFoundError'', ''FileExistsError'',
     ''IsADirectoryError'', ''NotADirectoryError'', ''PermissionError''}"

definition provider_failure :: "launch_spec \<Rightarrow> py_exc \<Rightarrow> py_exc" where
  "provider_failure sp exc =
     (let uri = (''artifact_uri'', VStr (ls_artifact_uri sp)); txt = (''provider_error'', VStr (exc_text exc));
          ty = exc_type_name exc in
      if ty = ''ArtifactProviderNotFoundError'' then
        fetch_failure ''artifact_not_found'' False
          [uri, (''launch_attempt'', VInt (ls_launch_attempt sp)), txt]
          ''Artifact could not be located by approved provider.''
      else if ty = ''ArtifactProviderAccessDeniedError'' then
        fetch_failure ''artifact_access_denied'' False [uri, txt] ''Artifact access was denied by provider policy.''
      else if ty = ''ArtifactProviderFetchError'' then
        fetch_failure ''artifact_fetch_failed'' True [uri, txt] ''Artifact fetch failed before bootstrap execution.''
      else if is_os_error exc then
        fetch_failure ''artifact_materialization_failed'' True
          [uri, (''os_error'', VStr (exc_text exc)), (''exception_type'', VStr ty)]
          ''Artifact fetch failed during local materialization.''
      else exc)"

definition fetch_by_provider :: "art_env \<Rightarrow> fetcher \<Rightarrow> launch_spec \<Rightarrow> fetch_result on_tree" where
  "fetch_by_provider e f sp =
     (case provider_fetch e f (ls_artifact_uri sp) of
        None \<Rightarrow>
          act_raise (fetch_failure ''artifact_provider_unsupported'' False
            [(''artifact_reference'', VStr (ls_artifact_uri sp)),
             (''scheme'', VStr (fst (ae_urlparse e (ls_artifact_uri sp))))]
            ''No approved provider is registered for artifact reference.'')
      | Some provider \<Rightarrow>
          act_bind (act_catch (provider (materialization_dir f sp)) (\<lambda>exc. act_raise (provider_failure sp exc))) (\<lambda>mat.
          act_ret \<lparr>fr_reference = mt_source_reference mat, fr_root = mt_root mat, fr_expected = ls_artifact_digest sp,
            fr_diagnostics = [(''runtime_id'', VStr (ls_runtime_id sp)), (''launch_attempt'', VInt (ls_launch_attempt sp)),
              (''provenance'', VDict (mt_provenance mat))],
            fr_scope = mt_scope mat, fr_preverified = False\<rparr>))"

definition fetch_artifact :: "bool \<Rightarrow> art_env \<Rightarrow> fetcher \<Rightarrow> launch_spec \<Rightarrow> fetch_result on_tree" where
  "fetch_artifact skip_digest e f sp =
     act_bind (maybe_fetch_strategy_bundle_zip skip_digest e f sp) (\<lambda>bundled.
     case bundled of Some r \<Rightarrow> act_ret r
     | None \<Rightarrow>
         if starts_with REGISTRY_LOCAL_URI_PREFIX (py_strip (ls_artifact_uri sp)) \<and> ft_local_base f = None then
           act_raise (fetch_failure ''artifact_fetch_failed'' False
             [(''artifact_uri'', VStr (ls_artifact_uri sp)), (''scheme'', VStr ''registry-local'')]
             ''registry-local artifact_uri requires SWR_ARTIFACT_LOCAL_BASE_PATH or ARTIFACT_LOCAL_BASE_PATH (absolute directory matching strategy-registry).'')
         else
           act_bind (maybe_fetch_generic_verified_zip skip_digest e f sp) (\<lambda>zipped.
           case zipped of Some r \<Rightarrow> act_ret r | None \<Rightarrow> fetch_by_provider e f sp))"

section \<open>The verifier\<close>

record verification =
  vr_verified :: bool
  vr_algorithm :: "string option"
  vr_expected :: "string option"
  vr_actual :: "string option"
  vr_details :: pydict

definition unsupported_digest_failure :: "string \<Rightarrow> string \<Rightarrow> string option \<Rightarrow> py_exc" where
  "unsupported_digest_failure digest why algorithm =
     verification_failure ''digest_unsupported''
       [(''expected_digest'', VStr digest), (''reason'', VStr why), (''algorithm'', opt_str algorithm)]
       ''Digest format or algorithm is not supported.''"

definition parse_digest :: "art_env \<Rightarrow> string \<Rightarrow> py_exc + string \<times> string" where
  "parse_digest e digest =
     (case py_split (CHR '':'') digest of
        [algorithm, encoded] \<Rightarrow>
          (let algo = py_lower (py_strip algorithm); hex_part = py_lower (py_strip encoded) in
           if algo = [] \<or> hex_part = [] then Inl (unsupported_digest_failure digest ''algorithm_or_hex_missing'' None)
           else if \<not> set hex_part \<subseteq> set hex_digits
           then Inl (unsupported_digest_failure digest ''digest_hex_not_lowercase_hexadecimal'' None)
           else if ae_hash e algo = None
           then Inl (unsupported_digest_failure digest ''unsupported_hash_algorithm'' (Some algo))
           else Inr (algo, hex_part))
      | _ \<Rightarrow> Inl (unsupported_digest_failure digest ''expected_format_algorithm_colon_hex'' None))"

text \<open>UTF-8 of a text of code points below 256.\<close>

definition utf8 :: "string \<Rightarrow> string" where
  "utf8 s = concat (map (\<lambda>c. let n = (of_char c :: nat) in
     if n < 128 then [c] else [char_of (192 + n div 64), char_of (128 + n mod 64)]) s)"

definition digest_entry :: "string \<times> string \<Rightarrow> string" where
  "digest_entry rb = utf8 (fst rb) @ [CHR 0x00] @ snd rb"

definition materialization_missing :: "string \<Rightarrow> pydict \<Rightarrow> py_exc" where
  "materialization_missing msg details = verification_failure ''artifact_materialization_missing'' details msg"

fun scoped_entries :: "art_env \<Rightarrow> file_tree \<Rightarrow> path \<Rightarrow> string list \<Rightarrow> py_exc + (string \<times> string) list" where
  "scoped_entries e fs rt [] = Inr []"
| "scoped_entries e fs rt (rel # rels) =
     (case file_at fs (ae_resolve e (rt @ path_parts rel)) of
        None \<Rightarrow> Inl (materialization_missing ''Materialized artifact file missing for digest scope.''
          [(''materialized_root'', VStr (path_str rt)), (''relative_path'', VStr rel)])
      | Some b \<Rightarrow>
          rbind (scoped_entries e fs rt rels) (\<lambda>es. Inr ((py_join ''/'' (path_parts rel), b) # es)))"

definition tree_entries :: "file_tree \<Rightarrow> path \<Rightarrow> (string \<times> string) list" where
  "tree_entries fs rt = map (\<lambda>(r, b). (py_join ''/'' r, b)) (files_below rt fs)"

definition compute_digest ::
  "art_env \<Rightarrow> (string \<Rightarrow> string) \<Rightarrow> file_tree \<Rightarrow> path \<Rightarrow> string list option \<Rightarrow> py_exc + string" where
  "compute_digest e hash fs rt scope =
     (case file_at fs rt of
        Some b \<Rightarrow> Inr (hash b)
      | None \<Rightarrow>
          if \<not> tree_exists fs rt
          then Inl (materialization_missing ''Materialized artifact path is missing.''
            [(''materialized_root'', VStr (path_str rt))])
          else
            (case scope of
               Some rels \<Rightarrow>
                 rbind (scoped_entries e fs rt (sorted_set rels)) (\<lambda>es. Inr (hash (concat (map digest_entry es))))
             | None \<Rightarrow> Inr (hash (concat (map digest_entry (tree_entries fs rt))))))"

definition verify_artifact :: "bool \<Rightarrow> art_env \<Rightarrow> file_tree \<Rightarrow> fetch_result \<Rightarrow> py_exc + verification" where
  "verify_artifact skip_digest e fs r =
     (let ref = (''artifact_reference'', VStr (fr_reference r)) in
      if skip_digest then
        Inr \<lparr>vr_verified = True, vr_algorithm = None, vr_expected = fr_expected r, vr_actual = None,
             vr_details = [ref, (''digest_validation_skipped'', VBool True)]\<rparr>
      else case fr_expected r of
        None \<Rightarrow> Inl (verification_failure ''expected_digest_missing'' [ref]
                 ''Expected artifact digest is required for verification.'')
      | Some expected \<Rightarrow>
          rbind (parse_digest e expected) (\<lambda>(algo, expected_hex).
          if fr_preverified r then
            Inr \<lparr>vr_verified = True, vr_algorithm = Some algo, vr_expected = Some expected, vr_actual = Some expected,
                 vr_details = [ref, (''preverified'', VBool True)]\<rparr>
          else
            rbind (compute_digest e (the (ae_hash e algo)) fs (fr_root r) (fr_scope r)) (\<lambda>actual_hex.
            if expected_hex \<noteq> actual_hex then
              Inl (verification_failure ''digest_mismatch''
                [ref, (''expected_digest'', VStr expected), (''actual_digest'', VStr (algo @ '':'' @ actual_hex)),
                 (''algorithm'', VStr algo)] ''Artifact digest verification failed.'')
            else
              Inr \<lparr>vr_verified = True, vr_algorithm = Some algo, vr_expected = Some expected,
                   vr_actual = Some (algo @ '':'' @ actual_hex), vr_details = [ref]\<rparr>)))"

section \<open>The digest of a local bundle\<close>

text \<open>\<open>_tree_digest\<close>: what a worker started from \<open>setting.json\<close> puts into its launch payload.\<close>

definition slashes :: "string \<Rightarrow> string" where
  "slashes s = map (\<lambda>c. if c = CHR 0x5C then CHR ''/'' else c) s"

definition bundle_entries :: "art_env \<Rightarrow> file_tree \<Rightarrow> path \<Rightarrow> (string \<times> string) list" where
  "bundle_entries e fs rt =
     (case file_at fs rt of
        Some b \<Rightarrow>
          map (\<lambda>(p, b). (drop (length (path_str (butlast rt)) + 1) (path_str p), b))
            (sort_key (\<lambda>(p, b). path_name p) ((rt, b) #
              (case adjacent_yaml e fs rt of
                 None \<Rightarrow> []
               | Some y \<Rightarrow> [(ae_resolve e y, or_empty (file_at fs (ae_resolve e y)))])))
      | None \<Rightarrow> if is_dir fs rt then tree_entries fs rt else [])"

definition tree_digest :: "art_env \<Rightarrow> (string \<Rightarrow> string) \<Rightarrow> file_tree \<Rightarrow> path \<Rightarrow> string" where
  "tree_digest e hash fs root_path =
     hash (concat (map (\<lambda>(rel, b). digest_entry (slashes rel, b)) (bundle_entries e fs (ae_resolve e root_path))))"

end
