(* ===== verification/ArtifactProps.thy ===== *)
theory ArtifactProps
  imports Artifacts
begin

text \<open>
  What the artifact pipeline guarantees about the disk and about digests: ZIP archives are extracted
  below their directory only, a digest that is checked is checked against the bytes that are used,
  the digest a bundle computes for itself is the one the verifier computes of its copy.
\<close>

section \<open>Extraction\<close>

lemma extract_entry_confined: "moves (confined dest) (extract_entry e zip_path dest entry)"
proof (cases entry)
  case (Pair name content)
  show ?thesis
    unfolding extract_entry_def Pair prod.case Let_def
    by (intro confined.cond confined.raise mkdir_confined confined.seq2 confined.bind confined.result)
      (auto intro!: confined.seq2 confined.option confined.ret confined.raise write_confined split: prod.split)
qed

text \<open>
  C13: whatever an archive contains and wherever the links on the disk lead, extracting it changes no
  file outside the directory it is extracted to, also when it is refused half way.
\<close>

theorem zip_extraction_confined:
  "confined (ae_resolve e dest_dir) fs (snd (extract_zip_to_directory e zip_path dest_dir fs))"
  unfolding extract_zip_to_directory_def
  by (rule movesD, intro confined.seq2 confined.reading confined.bind confined.result confined.for_each
      mkdir_confined extract_entry_confined)

text \<open>An entry that is extracted is safe; without links, every safe one is.\<close>

definition safe_name :: "string \<Rightarrow> bool" where
  "safe_name name \<longleftrightarrow> name \<noteq> [] \<and> \<not> is_absolute name \<and> ''..'' \<notin> set (path_parts name)"

lemma unsafe_entry_refused:
  assumes "\<not> safe_name name"
  shows "\<exists>exc. extract_entry e zip_path dest (name, content) fs = (Inl exc, fs)"
  using assms by (auto simp: extract_entry_def safe_name_def act_run)

text \<open>A registry reference names something below the local base, by names that are in the reference.\<close>

lemma registry_path_below_base:
  assumes "resolve_registry_local_uri_to_path e uri local_base = Inr p"
  shows "is_below (ae_resolve e local_base) p \<and> ''..'' \<notin> set (drop (length (ae_resolve e local_base)) p)"
proof -
  obtain rest where "\<not> list_ex (\<lambda>s. s = [] \<or> s = ''..'') (py_split (CHR ''/'') rest)"
    and "p = ae_resolve e local_base @ filter (\<lambda>s. s \<noteq> ''.'') (py_split (CHR ''/'') rest)"
    using assms unfolding resolve_registry_local_uri_to_path_def Let_def
    by (simp only: sum.distinct sum.inject split: if_split_asm)
  then show ?thesis by (auto simp: list_ex_iff)
qed

section \<open>Fetching, without the option in between\<close>

definition bundled_zip :: "art_env \<Rightarrow> fetcher \<Rightarrow> string \<Rightarrow> file_tree \<Rightarrow> path option" where
  "bundled_zip e f uri fs =
     (case ft_bundle_base f of None \<Rightarrow> None
      | Some base \<Rightarrow>
          (let zip_path = resolve_local_artifact_path e uri base
           in if is_zip_file e fs zip_path \<and>
                is_below (ae_resolve e (base @ [''strategy_bundle''])) (ae_resolve e (the zip_path))
              then Some (ae_resolve e (the zip_path)) else None))"

definition bundle_texts :: zip_texts where
  "bundle_texts = \<lparr>zt_provider = ''strategy_bundle_zip'',
     zt_required = ''artifact_digest is required to verify strategy_bundle zip.'',
     zt_mismatch = ''strategy_bundle zip SHA-256 does not match artifact_digest.''\<rparr>"

definition archive_texts :: zip_texts where
  "archive_texts = \<lparr>zt_provider = ''artifact_zip'',
     zt_required = ''artifact_digest is required to verify artifact zip.'',
     zt_mismatch = ''artifact zip SHA-256 does not match artifact_digest.''\<rparr>"

definition generic_unresolved :: "launch_spec \<Rightarrow> py_exc \<Rightarrow> py_exc" where
  "generic_unresolved sp exc = fetch_failure ''artifact_fetch_failed'' False
     [(''artifact_uri'', VStr (ls_artifact_uri sp)), (''provider_error'', VStr (exc_text exc))]
     ''Could not resolve artifact_uri to a local zip path.''"

definition local_base_missing :: "fetcher \<Rightarrow> string \<Rightarrow> bool" where
  "local_base_missing f uri \<longleftrightarrow> starts_with REGISTRY_LOCAL_URI_PREFIX (py_strip uri) \<and> ft_local_base f = None"

definition local_base_failure :: "string \<Rightarrow> py_exc" where
  "local_base_failure uri = fetch_failure ''artifact_fetch_failed'' False
     [(''artifact_uri'', VStr uri), (''scheme'', VStr ''registry-local'')]
     ''registry-local artifact_uri requires SWR_ARTIFACT_LOCAL_BASE_PATH or ARTIFACT_LOCAL_BASE_PATH (absolute directory matching strategy-registry).''"

lemma bundle_zip_run:
  "maybe_fetch_strategy_bundle_zip skip e f sp fs =
     (case bundled_zip e f (ls_artifact_uri sp) fs of
        None \<Rightarrow> (Inr None, fs)
      | Some zip_path \<Rightarrow> map_prod (map_sum id Some) id (verified_zip_extract skip e zip_path sp
          (ae_resolve e (the (ft_bundle_base f) @ [''strategy_bundle''])) bundle_texts fs))"
  by (auto simp: maybe_fetch_strategy_bundle_zip_def bundled_zip_def bundle_texts_def act_run Let_def
      split: option.split prod.split sum.split)

lemma generic_zip_run:
  "maybe_fetch_generic_verified_zip skip e f sp fs =
     (case resolve_artifact_zip_path e f sp of
        Inl exc \<Rightarrow> (Inl (generic_unresolved sp exc), fs)
      | Inr zip_path \<Rightarrow>
          if is_zip_file e fs zip_path
          then map_prod (map_sum id Some) id (verified_zip_extract skip e (ae_resolve e (the zip_path)) sp
            (materialization_dir f sp) archive_texts fs)
          else (Inr None, fs))"
  by (auto simp: maybe_fetch_generic_verified_zip_def generic_unresolved_def archive_texts_def act_run Let_def
      split: option.split prod.split sum.split)

lemma first_found:
  "(case map_prod (map_sum id Some) id q of
      (Inl exc, s) \<Rightarrow> (Inl exc, s)
    | (Inr b, s) \<Rightarrow> (case b of None \<Rightarrow> n | Some r \<Rightarrow> act_ret r) s) = q"
  by (cases q; cases "fst q") (auto simp: act_run)

lemma fetch_artifact_run:
  "fetch_artifact skip e f sp fs =
     (case bundled_zip e f (ls_artifact_uri sp) fs of
        Some zip_path \<Rightarrow> verified_zip_extract skip e zip_path sp
          (ae_resolve e (the (ft_bundle_base f) @ [''strategy_bundle''])) bundle_texts fs
      | None \<Rightarrow>
          if local_base_missing f (ls_artifact_uri sp) then (Inl (local_base_failure (ls_artifact_uri sp)), fs)
          else case resolve_artifact_zip_path e f sp of
            Inl exc \<Rightarrow> (Inl (generic_unresolved sp exc), fs)
          | Inr zip_path \<Rightarrow>
              if is_zip_file e fs zip_path
              then verified_zip_extract skip e (ae_resolve e (the zip_path)) sp (materialization_dir f sp) archive_texts fs
              else fetch_by_provider e f sp fs)"
  by (cases "bundled_zip e f (ls_artifact_uri sp) fs"; cases "resolve_artifact_zip_path e f sp")
    (auto simp: fetch_artifact_def bundle_zip_run generic_zip_run local_base_missing_def local_base_failure_def
      act_run first_found)

section \<open>Verified archives\<close>

lemma verified_zip_matching:
  "case verified_zip_extract False e zip_path sp dir zt fs of
     (Inr r, fs') \<Rightarrow> \<exists>b d. file_at fs zip_path = Some b \<and> ls_artifact_digest sp = Some d \<and>
        parse_sha256_digest d = Inr (ae_sha256 e b) \<and>
        extract_zip_to_directory e zip_path dir fs = (Inr (), fs') \<and> fr_expected r = Some d \<and> fr_root r = dir
   | (Inl exc, fs') \<Rightarrow> fs' = fs \<or>
        (\<exists>b d. file_at fs zip_path = Some b \<and> ls_artifact_digest sp = Some d \<and>
           parse_sha256_digest d = Inr (ae_sha256 e b) \<and> extract_zip_to_directory e zip_path dir fs = (Inl exc, fs'))"
proof (cases "ls_artifact_digest sp")
  case None
  then show ?thesis by (simp add: verified_zip_extract_def act_run Let_def)
next
  case (Some d)
  show ?thesis
  proof (cases "extract_zip_to_directory e zip_path dir fs")
    case (Pair q fs')
    then show ?thesis
      using Some
      by (auto simp: verified_zip_extract_def act_run Let_def zip_result_def split: sum.split option.split)
  qed
qed

section \<open>Verification\<close>

lemma verify_accepts:
  "(\<exists>v. verify_artifact False e fs r = Inr v) \<longleftrightarrow>
     (\<exists>d algo hx. fr_expected r = Some d \<and> parse_digest e d = Inr (algo, hx) \<and>
        (fr_preverified r \<or> compute_digest e (the (ae_hash e algo)) fs (fr_root r) (fr_scope r) = Inr hx))"
proof (cases "fr_expected r")
  case None
  then show ?thesis by (simp add: verify_artifact_def Let_def)
next
  case (Some d)
  then show ?thesis
    by (cases "parse_digest e d"; cases "fr_preverified r";
        cases "compute_digest e (the (ae_hash e (fst (projr (parse_digest e d))))) fs (fr_root r) (fr_scope r)")
      (auto simp: verify_artifact_def Let_def result_simps split: if_splits)
qed

text \<open>
  C14: with digest validation on, an artifact passes fetching and verification only with a digest that was
  checked: of the bytes of its archive before these were extracted, or of the files in the working
  directory.
\<close>

theorem accepted_artifact_matches:
  assumes "fetch_artifact False e f sp fs = (Inr r, fs')" and "verify_artifact False e fs' r = Inr v"
  shows "\<exists>d. ls_artifact_digest sp = Some d \<and>
    ((\<exists>zip_path b. file_at fs zip_path = Some b \<and> parse_sha256_digest d = Inr (ae_sha256 e b) \<and>
        extract_zip_to_directory e zip_path (fr_root r) fs = (Inr (), fs')) \<or>
     (\<exists>algo hx. parse_digest e d = Inr (algo, hx) \<and>
        compute_digest e (the (ae_hash e algo)) fs' (fr_root r) (fr_scope r) = Inr hx))"
proof -
  have zipped: ?thesis if "verified_zip_extract False e zip_path sp dir zt fs = (Inr r, fs')" for zip_path dir zt
    using verified_zip_matching [where e = e and zip_path = zip_path and sp = sp and dir = dir and zt = zt and fs = fs] that by auto
  have checked: ?thesis if "fetch_by_provider e f sp fs = (Inr r, fs')"
  proof -
    from that have "fr_preverified r = False" "fr_expected r = ls_artifact_digest sp"
      by (auto simp: fetch_by_provider_def act_run split: option.splits prod.splits sum.splits)
    moreover have "\<exists>v. verify_artifact False e fs' r = Inr v" using assms(2) by blast
    ultimately show ?thesis unfolding verify_accepts by auto
  qed
  show ?thesis
    using assms(1) unfolding fetch_artifact_run
    by (auto split: option.splits sum.splits if_splits dest: zipped checked)
qed

text \<open>Fetching with the check off does not depend on the digest.\<close>

definition forget_digest :: "(py_exc + fetch_result) \<times> file_tree \<Rightarrow> (py_exc + fetch_result) \<times> file_tree" where
  "forget_digest = map_prod (map_sum id (fr_expected_update (\<lambda>_. None))) id"

lemma verified_zip_same:
  "forget_digest (verified_zip_extract True e zip_path (sp\<lparr>ls_artifact_digest := d\<rparr>) dir zt fs) =
     forget_digest (verified_zip_extract True e zip_path sp dir zt fs)"
  by (auto simp: forget_digest_def verified_zip_extract_def zip_result_def act_run Let_def split: prod.split sum.split)

lemma launch_fields_same:
  "materialization_dir f (sp\<lparr>ls_artifact_digest := d\<rparr>) = materialization_dir f sp"
  "provider_failure (sp\<lparr>ls_artifact_digest := d\<rparr>) exc = provider_failure sp exc"
  "resolve_artifact_zip_path e f (sp\<lparr>ls_artifact_digest := d\<rparr>) = resolve_artifact_zip_path e f sp"
  "generic_unresolved (sp\<lparr>ls_artifact_digest := d\<rparr>) exc = generic_unresolved sp exc"
  by (simp_all add: materialization_dir_def provider_failure_def resolve_artifact_zip_path_def generic_unresolved_def Let_def)

lemma provider_same:
  "forget_digest (fetch_by_provider e f (sp\<lparr>ls_artifact_digest := d\<rparr>) fs) = forget_digest (fetch_by_provider e f sp fs)"
  by (auto simp: forget_digest_def fetch_by_provider_def launch_fields_same act_run split: option.split prod.split sum.split)

lemma fetch_same_but_digest:
  "forget_digest (fetch_artifact True e f (sp\<lparr>ls_artifact_digest := d\<rparr>) fs) = forget_digest (fetch_artifact True e f sp fs)"
  unfolding fetch_artifact_run
  by (simp add: verified_zip_same provider_same launch_fields_same split: sum.split option.split)

text \<open>
  At this commit the validation of digests is switched off: fetching does the same for every digest in the
  launch payload (the same files, the same exception or the same result but for the digest it
  quotes), and verification accepts whatever was fetched.
\<close>

lemma digest_not_enforced:
  "let forget = map_prod (map_sum id (fr_expected_update (\<lambda>_. None))) id;
       fetched = (\<lambda>sp. fetch_artifact skip_artifact_digest_validation e f sp fs)
   in forget (fetched (sp\<lparr>ls_artifact_digest := d\<rparr>)) = forget (fetched sp) \<and>
      \<not> isl (verify_artifact skip_artifact_digest_validation e fs' r)"
  using fetch_same_but_digest [where e = e and f = f and sp = sp and d = d and fs = fs]
  by (simp add: skip_artifact_digest_validation_def verify_artifact_def forget_digest_def Let_def)

end
