(* ===== verification/BundleDigest.thy ===== *)
theory BundleDigest
  imports ArtifactProps
begin

text \<open>
  The digest that a bundle computes for its own launch payload, against the one the verifier computes
  of the copy in the working directory.
\<close>

section \<open>Text of paths\<close>















section \<open>Nodes of a copy\<close>















section \<open>The same digest\<close>











text \<open>A bundle of one file, copied.\<close>

definition plain_env :: art_env where
  "plain_env =
     \<lparr>ae_resolve = (\<lambda>p. p), ae_cwd = [], ae_repr = (\<lambda>t. t), ae_urlparse = (\<lambda>t. ([], [], t)), ae_unquote = (\<lambda>t. t),
      ae_as_uri = path_str, ae_sha256 = (\<lambda>b. ''aa''), ae_hash = (\<lambda>a. Some (\<lambda>b. ''aa'')),
      ae_unzip = (\<lambda>b. Inr [(''s.py'', Inr (b, None))]), ae_disk_fault = (\<lambda>p fs. None)\<rparr>"

definition plain_tree :: file_tree where
  "plain_tree = [([''b''], DirNode), ([''b'', ''s.py''], FileNode ''code''), ([''b'', ''a.zip''], FileNode ''zip'')]"


text \<open>Names and contents are not separated: two different directories with one digest, whatever the hash.\<close>

lemma tree_digest_ambiguous:
  "tree_digest plain_env hash [([''r''], DirNode), ([''r'', ''a''], FileNode ''x''), ([''r'', ''b''], FileNode ''y'')] [''r''] =
   tree_digest plain_env hash [([''r''], DirNode), ([''r'', ''a''], FileNode (''xb'' @ [CHR 0x00] @ ''y''))] [''r'']"
  unfolding tree_digest_def by (rule arg_cong [where f = hash]) code_simp

definition plain_spec :: launch_spec where
  "plain_spec =
     \<lparr>ls_runtime_id = ''rt'', ls_tenant_id = [], ls_strategy_version_id = ''sv'', ls_mode = PAPER, ls_launch_attempt = 1,
      ls_artifact_uri = ''/b/a.zip'', ls_entrypoint = ''s:S'', ls_trader_id = None, ls_account_id = None,
      ls_artifact_digest = Some ''sha256:aa'', ls_job_id = None, ls_ts_start = None, ls_ts_end = None,
      ls_symbol = None, ls_correlation_id = None\<rparr>"

definition plain_result :: fetch_result where
  "plain_result = zip_result plain_spec [''b'', ''a.zip''] [''w'', ''rt-1'', ''artifact''] ''artifact_zip''
     (Some ''sha256:aa'') False"

definition plain_after :: file_tree where
  "plain_after = plain_tree @ [([''w''], DirNode), ([''w'', ''rt-1''], DirNode), ([''w'', ''rt-1'', ''artifact''], DirNode),
     ([''w'', ''rt-1'', ''artifact'', ''s.py''], FileNode ''zip'')]"

theorem accepted_artifact_matches_witness:
  "\<exists>d. ls_artifact_digest plain_spec = Some d \<and>
    ((\<exists>zip_path b. file_at plain_tree zip_path = Some b \<and> parse_sha256_digest d = Inr (ae_sha256 plain_env b) \<and>
        extract_zip_to_directory plain_env zip_path (fr_root plain_result) plain_tree = (Inr (), plain_after)) \<or>
     (\<exists>algo hx. parse_digest plain_env d = Inr (algo, hx) \<and>
        compute_digest plain_env (the (ae_hash plain_env algo)) plain_after (fr_root plain_result) (fr_scope plain_result) = Inr hx))"
proof (rule accepted_artifact_matches)
  show "fetch_artifact False plain_env (ArtifactFetcher plain_env [''w''] None None) plain_spec plain_tree =
      (Inr plain_result, plain_after)"
    by code_simp
  show "verify_artifact False plain_env plain_after plain_result =
      Inr (projr (verify_artifact False plain_env plain_after plain_result))"
    by code_simp
qed

end
