(* ===== verification/Bootstrap.thy ===== *)
theory Bootstrap
  imports BundleDigest BootstrapStore LifecycleOps
begin

text \<open>
  \<open>bootstrap/entrypoint_loader.py\<close> and \<open>sdk_contract_validator.py\<close>: the module of the entry point is
  imported from the working directory, its symbol is checked against the contract of the SDK, and the
  pipeline that runs the four stages tells the persistence port how it ended. The interpreter (import,
  attributes, classes, signatures, constructors) and the mypy process are arguments (\<open>interp\<close>); Python
  objects are names (numbers). Strategy code that is imported or constructed may change the files and
  \<open>sys.path\<close>.
\<close>

record boot_state =
  bs_files :: file_tree
  bs_path :: "string list"
  bs_db :: db

type_synonym 'a boot = "(boot_state, 'a) act"

datatype param_kind = POSITIONAL_ONLY | POSITIONAL_OR_KEYWORD | OTHER_KIND

record py_param =
  pp_kind :: param_kind
  pp_has_default :: bool

record interp =
  in_import :: "string \<Rightarrow> (file_tree \<times> string list, nat) act"
  in_instantiate :: "nat \<Rightarrow> (file_tree \<times> string list, nat) act"
  in_getattr :: "nat \<Rightarrow> string \<Rightarrow> nat option"
  in_is_class :: "nat \<Rightarrow> bool"
  in_is_function :: "nat \<Rightarrow> bool"
  in_callable :: "nat \<Rightarrow> bool"
  in_name :: "nat \<Rightarrow> string"
  in_type_name :: "nat \<Rightarrow> string"
  in_subclass :: "nat \<Rightarrow> nat \<Rightarrow> bool"
  in_text :: "nat \<Rightarrow> string option"
  in_signature :: "nat \<Rightarrow> py_exc + py_param list"
  in_signature_text :: "nat \<Rightarrow> string"
  in_mypy :: "path \<Rightarrow> file_tree \<Rightarrow> py_exc + int \<times> string \<times> string"
  in_project_root :: path
  in_int :: "string \<Rightarrow> int option"
  in_repr :: "string \<Rightarrow> string"

definition on_files :: "'a on_tree \<Rightarrow> 'a boot" where
  "on_files m = (\<lambda>s. case m (bs_files s) of (r, fs) \<Rightarrow> (r, s\<lparr>bs_files := fs\<rparr>))"

definition on_db :: "(db, 'a) act \<Rightarrow> 'a boot" where
  "on_db m = (\<lambda>s. case m (bs_db s) of (r, d) \<Rightarrow> (r, s\<lparr>bs_db := d\<rparr>))"

definition on_world :: "(file_tree \<times> string list, 'a) act \<Rightarrow> 'a boot" where
  "on_world m = (\<lambda>s. case m (bs_files s, bs_path s) of (r, fs, ps) \<Rightarrow> (r, s\<lparr>bs_files := fs, bs_path := ps\<rparr>))"

definition text_attr :: "interp \<Rightarrow> nat \<Rightarrow> string \<Rightarrow> string option" where
  "text_attr i ob name = (case in_getattr i ob name of Some a \<Rightarrow> in_text i a | None \<Rightarrow> None)"

section \<open>The entry point\<close>

definition entrypoint_failure :: "string \<Rightarrow> string \<Rightarrow> pydict \<Rightarrow> py_exc" where
  "entrypoint_failure rcode msg details = the_exc (EntrypointLoadFailure rcode False details msg)"

definition malformed_entrypoint_failure :: "string \<Rightarrow> string \<Rightarrow> py_exc" where
  "malformed_entrypoint_failure entrypoint why =
     entrypoint_failure ''entrypoint_invalid'' ''Entrypoint specification is malformed.''
       [(''entrypoint'', VStr entrypoint), (''reason'', VStr why)]"

definition parse_entrypoint_spec :: "string \<Rightarrow> py_exc + string \<times> string" where
  "parse_entrypoint_spec entrypoint =
     (case py_split (CHR '':'') entrypoint of
        [m, y] \<Rightarrow>
          (let module_name = py_strip m; symbol_name = py_strip y in
           if module_name = [] \<or> symbol_name = []
           then Inl (malformed_entrypoint_failure entrypoint ''module_or_symbol_missing'')
           else Inr (module_name, symbol_name))
      | _ \<Rightarrow> Inl (malformed_entrypoint_failure entrypoint ''expected_format_module_colon_symbol''))"

definition is_valid_symbol :: "interp \<Rightarrow> nat \<Rightarrow> bool" where
  "is_valid_symbol i ob \<longleftrightarrow> in_is_class i ob \<or> in_callable i ob"

text \<open>A \<open>with\<close> block around code that finds its imports below a directory.\<close>

definition materialized_import_path :: "art_env \<Rightarrow> path \<Rightarrow> 'a boot \<Rightarrow> 'a boot" where
  "materialized_import_path e p body =
     (let resolved = path_str (ae_resolve e p);
          leave = act_modify (\<lambda>s. s\<lparr>bs_path := remove1 resolved (bs_path s)\<rparr>) in
      act_then (act_modify (\<lambda>s. s\<lparr>bs_path := resolved # bs_path s\<rparr>))
        (act_bind (act_catch body (\<lambda>exc. act_then leave (act_raise exc))) (\<lambda>x.
         act_then leave (act_ret x))))"

record entrypoint_result =
  er_spec :: string
  er_module_name :: string
  er_symbol_name :: string
  er_symbol :: nat
  er_artifact_reference :: string
  er_module_file :: "path option"

definition load_symbol :: "interp \<Rightarrow> string \<Rightarrow> string \<Rightarrow> string \<Rightarrow> (nat \<times> nat) boot" where
  "load_symbol i entrypoint module_name symbol_name =
     (let names = [(''entrypoint'', VStr entrypoint), (''module_name'', VStr module_name)];
          symbol = (''symbol_name'', VStr symbol_name) in
      act_bind
        (act_catch (on_world (in_import i module_name)) (\<lambda>exc. act_raise
          (entrypoint_failure ''entrypoint_import_failed'' ''Entrypoint module import failed.''
            (names @ [(''exception_type'', VStr (exc_type_name exc)), (''exception_message'', VStr (exc_text exc))]))))
        (\<lambda>m. case in_getattr i m symbol_name of
           None \<Rightarrow> act_raise (entrypoint_failure ''entrypoint_symbol_not_found''
             ''Entrypoint symbol was not found in module.'' (names @ [symbol]))
         | Some y \<Rightarrow>
             if \<not> is_valid_symbol i y then act_raise (entrypoint_failure ''entrypoint_symbol_invalid''
               ''Entrypoint symbol is not valid for bootstrap.''
               (names @ [symbol, (''symbol_type'', VStr (in_type_name i y))]))
             else act_ret (m, y)))"

definition load_entrypoint :: "art_env \<Rightarrow> interp \<Rightarrow> launch_spec \<Rightarrow> fetch_result \<Rightarrow> entrypoint_result boot" where
  "load_entrypoint e i sp fetched =
     act_bind (act_of (parse_entrypoint_spec (ls_entrypoint sp))) (\<lambda>(module_name, symbol_name).
     act_bind (materialized_import_path e (fr_root fetched) (load_symbol i (ls_entrypoint sp) module_name symbol_name))
       (\<lambda>(m, y).
     act_ret \<lparr>er_spec = ls_entrypoint sp, er_module_name = module_name, er_symbol_name = symbol_name, er_symbol = y,
       er_artifact_reference = fr_reference fetched,
       er_module_file = (case text_attr i m ''__file__'' of
          None \<Rightarrow> None
        | Some t \<Rightarrow> if t = [] then None else Some (ae_resolve e (path_from (ae_cwd e) t)))\<rparr>))"

section \<open>The contract of the SDK\<close>

record sdk_contract =
  sc_methods :: "string list"
  sc_major :: int
  sc_base :: "nat option"

definition SdkContractValidator :: "nat \<Rightarrow> sdk_contract" where
  "SdkContractValidator alphovex_strategy = \<lparr>sc_methods = [], sc_major = 1, sc_base = Some alphovex_strategy\<rparr>"

definition sdk_failure :: "string \<Rightarrow> string \<Rightarrow> pydict \<Rightarrow> py_exc" where
  "sdk_failure rcode msg details = the_exc (SDKContractFailure rcode False details msg)"

definition construct_strategy :: "interp \<Rightarrow> string \<Rightarrow> nat \<Rightarrow> (nat \<times> string) boot" where
  "construct_strategy i entrypoint candidate =
     act_bind
       (act_catch (on_world (in_instantiate i candidate)) (\<lambda>exc. act_raise
         (sdk_failure ''sdk_non_instantiable'' ''Resolved strategy class is not instantiable.''
           [(''entrypoint'', VStr entrypoint), (''class_name'', VStr (in_name i candidate)),
            (''exception_type'', VStr (exc_type_name exc)), (''exception_message'', VStr (exc_text exc))])))
       (\<lambda>inst. act_ret (inst, in_name i candidate))"

text \<open>A class is constructed; another callable stands for itself, where no base class is required.\<close>

definition contract_instance :: "interp \<Rightarrow> sdk_contract \<Rightarrow> string \<Rightarrow> nat \<Rightarrow> (nat \<times> string) boot" where
  "contract_instance i k entrypoint candidate =
     (if in_is_class i candidate then
        (case sc_base k of
           Some b \<Rightarrow> if \<not> in_subclass i candidate b then
               act_raise (sdk_failure ''sdk_protocol_mismatch''
                 ''Resolved strategy class does not implement required protocol/base type.''
                 [(''entrypoint'', VStr entrypoint), (''required_base_type'', VStr (in_name i b)),
                  (''resolved_type'', VStr (in_name i candidate))])
             else construct_strategy i entrypoint candidate
         | None \<Rightarrow> construct_strategy i entrypoint candidate)
      else
        (case sc_base k of
           Some b \<Rightarrow> act_raise (sdk_failure ''sdk_protocol_mismatch''
             (''Strategy entrypoint must resolve to a strategy class (subclass of '' @ in_name i b @ ''), not a bare callable.'')
             [(''entrypoint'', VStr entrypoint), (''required_base_type'', VStr (in_name i b)),
              (''resolved_kind'', VStr (in_type_name i candidate))])
         | None \<Rightarrow> act_ret (candidate, in_type_name i candidate)))"

definition resolve_method :: "interp \<Rightarrow> string \<Rightarrow> nat \<Rightarrow> string \<Rightarrow> py_exc + nat" where
  "resolve_method i entrypoint inst method_name =
     (if method_name = ''run'' \<and> in_is_function i inst then Inr inst
      else
        (let missing = sdk_failure ''sdk_missing_required_method'' ''SDK-required method is missing.''
           [(''entrypoint'', VStr entrypoint), (''missing_method'', VStr method_name),
            (''resolved_type'', VStr (in_type_name i inst))]
         in case in_getattr i inst method_name of
           None \<Rightarrow> Inl missing
         | Some m \<Rightarrow> if \<not> in_callable i m then Inl missing else Inr m))"

definition expected_signature_description :: "interp \<Rightarrow> string \<Rightarrow> string" where
  "expected_signature_description i method_name =
     (if method_name = ''run'' then
        ''legacy run(context): exactly one required positional parameter (in addition to self on methods), or use a Strategy subclass with the default validator''
      else ''callable '' @ in_repr i method_name @ '' present (no additional signature checks)'')"

definition signature_is_compatible :: "string \<Rightarrow> py_param list \<Rightarrow> bool" where
  "signature_is_compatible method_name params \<longleftrightarrow>
     method_name \<noteq> ''run'' \<or>
     length (filter (\<lambda>p. pp_kind p \<in> {POSITIONAL_ONLY, POSITIONAL_OR_KEYWORD} \<and> \<not> pp_has_default p) params) = 1"

fun validate_required_methods :: "interp \<Rightarrow> string \<Rightarrow> nat \<Rightarrow> string list \<Rightarrow> py_exc + unit" where
  "validate_required_methods i entrypoint inst [] = Inr ()"
| "validate_required_methods i entrypoint inst (method_name # rest) =
     rbind (resolve_method i entrypoint inst method_name) (\<lambda>m.
     rbind (in_signature i m) (\<lambda>params.
     if \<not> signature_is_compatible method_name params then
       Inl (sdk_failure ''sdk_invalid_signature'' ''SDK-required method signature is incompatible.''
         [(''entrypoint'', VStr entrypoint), (''method'', VStr method_name),
          (''signature'', VStr (in_signature_text i m)),
          (''expected'', VStr (expected_signature_description i method_name))])
     else validate_required_methods i entrypoint inst rest))"

record mypy_validation =
  mv_details :: pydict
  mv_exit_code :: int
  mv_output :: string

definition collect_mypy_validation ::
  "art_env \<Rightarrow> interp \<Rightarrow> file_tree \<Rightarrow> entrypoint_result \<Rightarrow> py_exc + mypy_validation option" where
  "collect_mypy_validation e i fs er =
     (case er_module_file er of
        None \<Rightarrow> Inr None
      | Some p \<Rightarrow>
          (let module_file = ae_resolve e p in
           if \<not> is_file fs module_file \<or> path_suffix (path_name module_file) \<noteq> ''.py'' then Inr None
           else rbind (in_mypy i module_file fs) (\<lambda>(code, out, err).
             let output = take 4000 (py_strip (out @ err)) in
             Inr (Some \<lparr>mv_details = [(''entrypoint'', VStr (er_spec er)), (''module_file'', VStr (path_str module_file)),
                 (''mypy_result_path'', VStr (path_str (in_project_root i @ [''mypy_result.txt'']))),
                 (''mypy_exit_code'', VInt code), (''mypy_output'', VStr output)],
               mv_exit_code = code, mv_output = output\<rparr>))))"

definition text_contains :: "string \<Rightarrow> string \<Rightarrow> bool" where
  "text_contains pat t \<longleftrightarrow> list_ex (\<lambda>n. starts_with pat (drop n t)) [0..<Suc (length t)]"

definition validate_mypy_compatibility :: "mypy_validation option \<Rightarrow> py_exc + unit" where
  "validate_mypy_compatibility v =
     (case v of
        None \<Rightarrow> Inr ()
      | Some m \<Rightarrow>
          if mv_exit_code m = 0 then Inr ()
          else if text_contains ''No module named mypy'' (mv_output m) \<or>
            text_contains (''No module named '' @ [CHR 0x27] @ ''mypy'' @ [CHR 0x27]) (mv_output m) then Inr ()
          else Inl (sdk_failure ''sdk_protocol_mismatch'' ''Strategy code failed mypy compatibility validation.''
            (mv_details m)))"

definition resolve_sdk_marker :: "interp \<Rightarrow> nat \<Rightarrow> nat \<Rightarrow> string option boot" where
  "resolve_sdk_marker i candidate inst =
     (case text_attr i candidate ''__strategy_sdk_version__'' of
        Some v \<Rightarrow> act_ret (Some v)
      | None \<Rightarrow>
          (case text_attr i inst ''__strategy_sdk_version__'' of
             Some v \<Rightarrow> act_ret (Some v)
           | None \<Rightarrow>
               (case text_attr i candidate ''__module__'' of
                  None \<Rightarrow> act_ret None
                | Some m \<Rightarrow>
                    act_catch (act_bind (on_world (in_import i m)) (\<lambda>ob. act_ret (text_attr i ob ''__strategy_sdk_version__'')))
                      (\<lambda>_. act_ret None))))"

text \<open>\<open>str.isdigit\<close> on code points below 256: also true of the superscripts that \<open>int\<close> refuses.\<close>

definition py_isdigit :: "string \<Rightarrow> bool" where
  "py_isdigit t \<longleftrightarrow> t \<noteq> [] \<and> set t \<subseteq> set (''0123456789'' @ [CHR 0xB2, CHR 0xB3, CHR 0xB9])"

definition validate_sdk_marker :: "interp \<Rightarrow> sdk_contract \<Rightarrow> string \<Rightarrow> pydict \<Rightarrow> string option \<Rightarrow> py_exc + unit" where
  "validate_sdk_marker i k entrypoint extra marker =
     (case marker of
        None \<Rightarrow> Inr ()
      | Some v \<Rightarrow>
          (let major = takeWhile (\<lambda>c. c \<noteq> CHR ''.'') v;
               details = dict_update [(''entrypoint'', VStr entrypoint), (''sdk_version_marker'', VStr v)] extra in
           if \<not> py_isdigit major then
             Inl (sdk_failure ''sdk_marker_invalid'' ''SDK version marker is malformed.'' details)
           else case in_int i major of
             None \<Rightarrow> Inl (ValueExc ''ValueError'' (''invalid literal for int() with base 10: '' @ in_repr i major) None)
           | Some n \<Rightarrow>
               if n \<noteq> sc_major k then
                 Inl (sdk_failure ''sdk_marker_incompatible''
                   ''SDK version marker is incompatible with runtime contract.''
                   (dict_set ''required_sdk_major'' (VInt (sc_major k)) details))
               else Inr ()))"

record sdk_validation =
  sv_marker :: "string option"
  sv_type :: string
  sv_details :: pydict

definition validate_sdk :: "art_env \<Rightarrow> interp \<Rightarrow> sdk_contract \<Rightarrow> entrypoint_result \<Rightarrow> sdk_validation boot" where
  "validate_sdk e i k er =
     act_bind (contract_instance i k (er_spec er) (er_symbol er)) (\<lambda>(inst, validated_type).
     act_then (act_of (validate_required_methods i (er_spec er) inst (sc_methods k)))
     (act_with bs_files (\<lambda>fs.
     act_bind (act_of (collect_mypy_validation e i fs er)) (\<lambda>mypy.
     act_then (act_of (validate_mypy_compatibility mypy))
     (act_bind (resolve_sdk_marker i (er_symbol er) inst) (\<lambda>marker.
     act_then (act_of (validate_sdk_marker i k (er_spec er)
         (case mypy of None \<Rightarrow> [] | Some m \<Rightarrow> mv_details m) marker))
     (act_ret \<lparr>sv_marker = marker, sv_type = validated_type,
       sv_details = [(''required_methods'', VList (map VStr (sc_methods k))),
         (''required_base_type'', opt_str (map_option (in_name i) (sc_base k)))]\<rparr>)))))))"

section \<open>The pipeline\<close>

record pipeline =
  pl_env :: art_env
  pl_interp :: interp
  pl_fetcher :: fetcher
  pl_contract :: sdk_contract
  pl_skip_digest :: bool
  pl_wire :: "wire option"

record bootstrap_success =
  bx_artifact :: fetch_result
  bx_verification :: verification
  bx_entrypoint :: entrypoint_result
  bx_sdk :: sdk_validation

datatype pipeline_result = PipelineSuccess bootstrap_success | PipelineFailure py_exc

definition bootstrap_stages :: "pipeline \<Rightarrow> launch_spec \<Rightarrow> bootstrap_success boot" where
  "bootstrap_stages p sp =
     act_bind (on_files (fetch_artifact (pl_skip_digest p) (pl_env p) (pl_fetcher p) sp)) (\<lambda>artifact.
     act_with bs_files (\<lambda>fs.
     act_bind (act_of (verify_artifact (pl_skip_digest p) (pl_env p) fs artifact)) (\<lambda>verified.
     act_bind (load_entrypoint (pl_env p) (pl_interp p) sp artifact) (\<lambda>entrypoint.
     act_bind (validate_sdk (pl_env p) (pl_interp p) (pl_contract p) entrypoint) (\<lambda>sdk.
     act_ret \<lparr>bx_artifact = artifact, bx_verification = verified, bx_entrypoint = entrypoint, bx_sdk = sdk\<rparr>)))))"

definition failure_info :: "py_exc \<Rightarrow> bootstrap_failure_info" where
  "failure_info exc =
     (case exc of
        BootstrapExc ty stage rcode retryable details msg \<Rightarrow>
          \<lparr>bf_stage = stage, bf_reason_code = rcode, bf_retryable = retryable, bf_details = details\<rparr>)"

text \<open>
  \<open>_SQLiteBootstrapPersistence\<close>: each handler in a transaction of its own. Without persistence nothing is
  recorded.
\<close>

definition persisted :: "pipeline \<Rightarrow> (wire \<Rightarrow> (db, unit) act) \<Rightarrow> unit boot" where
  "persisted p handler =
     (case pl_wire p of None \<Rightarrow> act_ret () | Some w \<Rightarrow> on_db (transaction (handler w)))"

definition bootstrap_run ::
  "pipeline \<Rightarrow> launch_spec \<Rightarrow> pydatetime \<Rightarrow> pydatetime \<Rightarrow> pipeline_result boot" where
  "bootstrap_run p sp started_at observed_at =
     act_then (persisted p (\<lambda>w. on_bootstrap_start w sp started_at))
       (act_bind
         (act_catch (act_bind (bootstrap_stages p sp) (\<lambda>x. act_ret (PipelineSuccess x)))
           (\<lambda>exc. if is_bootstrap_failure exc then act_ret (PipelineFailure exc) else act_raise exc))
         (\<lambda>r. case r of
            PipelineFailure exc \<Rightarrow>
              act_then (persisted p (\<lambda>w. on_bootstrap_failure w sp (failure_info exc) observed_at observed_at))
                (act_ret r)
          | PipelineSuccess x \<Rightarrow>
              act_then (persisted p (\<lambda>w. on_bootstrap_success w sp (er_spec (bx_entrypoint x))
                  (sv_details (bx_sdk x)) observed_at observed_at))
                (act_ret r)))"

end
