(* ===== verification/BootstrapProps.thy ===== *)
theory BootstrapProps
  imports Bootstrap
begin

text \<open>
  The bootstrap pipeline as a whole: the stage a failure names, what a success guarantees of the strategy
  class, the rows the run leaves, the state of the interpreter's search path, and the exceptions that
  are no bootstrap failures.
\<close>

section \<open>What may be raised\<close>

definition raises_only :: "(py_exc \<Rightarrow> bool) \<Rightarrow> ('s, 'a) act \<Rightarrow> bool" where
  "raises_only E m \<longleftrightarrow> (\<forall>s exc. fst (m s) = Inl exc \<longrightarrow> E exc)"

named_theorems raises_intros \<open>rules that derive raises_only from the parts\<close>

lemma raises_ret [raises_intros]: "raises_only E (act_ret x)" "raises_only E (act_modify f)"
  by (simp_all add: raises_only_def act_run)

lemma raises_raise [raises_intros]: "E exc \<Longrightarrow> raises_only E (act_raise exc)"
  by (simp add: raises_only_def act_run)

lemma raises_of [raises_intros]: "(\<And>exc. r = Inl exc \<Longrightarrow> E exc) \<Longrightarrow> raises_only E (act_of r)"
  by (simp add: raises_only_def act_run)

lemma raises_bind [raises_intros]: "raises_only E m \<Longrightarrow> (\<And>x. raises_only E (f x)) \<Longrightarrow> raises_only E (act_bind m f)"
  unfolding raises_only_def act_run by (auto split: prod.splits sum.splits) (metis fst_conv)+

lemma raises_then [raises_intros]: "raises_only E m \<Longrightarrow> raises_only E n \<Longrightarrow> raises_only E (act_then m n)"
  by (simp add: act_then_def raises_bind)

lemma raises_with [raises_intros]: "(\<And>x. raises_only E (m x)) \<Longrightarrow> raises_only E (act_with f m)"
  by (simp add: raises_only_def act_run)

lemma raises_catch: "(\<And>exc. raises_only E (h exc)) \<Longrightarrow> raises_only E (act_catch m h)"
  unfolding raises_only_def act_run by (auto split: prod.splits sum.splits)

lemma raises_catch_of:
  "raises_only E' m \<Longrightarrow> (\<And>exc. E' exc \<Longrightarrow> raises_only E (h exc)) \<Longrightarrow> raises_only E (act_catch m h)"
  unfolding raises_only_def act_run by (auto split: prod.splits sum.splits) (metis fst_conv)+

lemma raises_for [raises_intros]: "(\<And>i. i \<in> set xs \<Longrightarrow> raises_only E (m i)) \<Longrightarrow> raises_only E (act_for xs m)"
  by (induction xs) (auto intro: raises_intros)

lemma raises_cond [raises_intros]: "raises_only E m \<Longrightarrow> raises_only E n \<Longrightarrow> raises_only E (if b then m else n)"
  by simp

lemma raises_option [raises_intros]:
  "raises_only E m \<Longrightarrow> (\<And>x. raises_only E (n x)) \<Longrightarrow> raises_only E (case v of None \<Rightarrow> m | Some x \<Rightarrow> n x)"
  by (cases v) simp_all

lemma raises_pair [raises_intros]: "(\<And>x y. raises_only E (n x y)) \<Longrightarrow> raises_only E (case v of (x, y) \<Rightarrow> n x y)"
  by (cases v) simp

lemma raises_lifted [raises_intros]: "raises_only E m \<Longrightarrow> raises_only E (on_files m)"
  by (auto simp: raises_only_def on_files_def split: prod.splits) (metis fst_conv)

lemma raises_lifted_world: "raises_only E n \<Longrightarrow> raises_only E (on_world n)"
  by (auto simp: raises_only_def on_world_def split: prod.splits) (metis fst_conv)

lemma raisesD: "raises_only E m \<Longrightarrow> m s = (Inl exc, s') \<Longrightarrow> E exc"
  unfolding raises_only_def by (metis fst_conv)

section \<open>Each stage raises its own failures\<close>

text \<open>A bootstrap failure of another stage is not raised.\<close>

definition own_stage :: "bootstrap_stage \<Rightarrow> py_exc \<Rightarrow> bool" where
  "own_stage k exc \<longleftrightarrow> (case exc of BootstrapExc _ stage _ _ _ _ \<Rightarrow> stage = k | _ \<Rightarrow> True)"

lemma own_stage_simps [simp]:
  "own_stage k (OtherExc ty m c)" "own_stage k (ValueExc ty m d)"
  "own_stage k (os_error ty p)" "own_stage k (provider_error ty m)"
  by (simp_all add: own_stage_def os_error_def provider_error_def)

lemma own_failures [simp]:
  "own_stage ARTIFACT_FETCH (fetch_failure rc rt d m)"
  "own_stage ARTIFACT_VERIFY (verification_failure rc d m)"
  "own_stage ENTRYPOINT_LOAD (entrypoint_failure rc m d)"
  "own_stage SDK_VALIDATE (sdk_failure rc m d)"
  by (simp_all add: own_stage_def fetch_failure_def verification_failure_def entrypoint_failure_def sdk_failure_def
      the_exc_def ArtifactFetchFailure_def ArtifactVerificationFailure_def EntrypointLoadFailure_def
      SDKContractFailure_def BootstrapFailure_def Let_def)

text \<open>The disk, the archive reader and the inspection of signatures raise no bootstrap failures of their own.\<close>

definition foreign :: "py_exc \<Rightarrow> bool" where
  "foreign exc \<longleftrightarrow> \<not> is_bootstrap_failure exc"

lemma foreign_own: "foreign exc \<Longrightarrow> own_stage k exc"
  by (auto simp: foreign_def own_stage_def is_bootstrap_failure_def split: py_exc.splits)

definition entry_calm :: "zip_entry \<Rightarrow> bool" where
  "entry_calm x \<longleftrightarrow>
     (case snd x of Inl exc \<Rightarrow> foreign exc | Inr (b, None) \<Rightarrow> True | Inr (b, Some exc) \<Rightarrow> foreign exc)"

definition calm_env :: "art_env \<Rightarrow> bool" where
  "calm_env e \<longleftrightarrow>
     (\<forall>b exc. ae_unzip e b = Inl exc \<longrightarrow> foreign exc) \<and>
     (\<forall>b es. ae_unzip e b = Inr es \<longrightarrow> (\<forall>x \<in> set es. entry_calm x)) \<and>
     (\<forall>p fs exc fs'. ae_disk_fault e p fs = Some (exc, fs') \<longrightarrow> foreign exc)"

definition calm_interp :: "interp \<Rightarrow> bool" where
  "calm_interp i \<longleftrightarrow>
     (\<forall>m exc. in_signature i m = Inl exc \<longrightarrow> foreign exc) \<and>
     (\<forall>p fs exc. in_mypy i p fs = Inl exc \<longrightarrow> foreign exc)"

lemma foreign_simps [simp]: "foreign (OtherExc ty m c)" "foreign (ValueExc ty m d)" "foreign (os_error ty p)" "foreign (provider_error ty m)"
  by (simp_all add: foreign_def is_bootstrap_failure_def os_error_def provider_error_def)

subsection \<open>Fetching\<close>

lemma raises_weaken: "raises_only E m \<Longrightarrow> (\<And>exc. E exc \<Longrightarrow> E' exc) \<Longrightarrow> raises_only E' m"
  by (auto simp: raises_only_def)

lemma files_raise [raises_intros]: "raises_only foreign (mkdir_parents p)" "raises_only foreign (write_file p b)"
  "raises_only foreign (copy_file e p q)" "raises_only foreign (copy_directory p q)"
  unfolding mkdir_parents_def write_file_def copy_file_def copy_directory_def
  by (intro raises_intros; simp add: raises_only_def act_run split: prod.split option.split)+

lemma disk_raises [raises_intros]: "calm_env e \<Longrightarrow> raises_only foreign m \<Longrightarrow> raises_only foreign (disk e p m)"
  by (auto simp: raises_only_def disk_def calm_env_def split: option.splits)

lemma resolve_raises:
  "resolve_source_path e ref = Inl exc \<Longrightarrow> foreign exc"
  "resolve_registry_local_uri_to_path e ref base = Inl exc \<Longrightarrow> foreign exc"
  unfolding resolve_source_path_def resolve_registry_local_uri_to_path_def Let_def
  by (auto split: prod.splits if_split_asm)

lemma provider_raises [raises_intros]:
  assumes "calm_env e"
  shows "raises_only foreign (local_fetch e ref dir)" "raises_only foreign (registry_fetch e base ref dir)"
  unfolding local_fetch_def materialize_def registry_fetch_def
  by (intro raises_intros assms; (erule resolve_raises | simp))+

lemma unsafe_zip_own [simp]: "own_stage ARTIFACT_FETCH (unsafe_zip p n m)" "own_stage ARTIFACT_FETCH (digest_unsupported d m)"
  by (simp_all add: unsafe_zip_def digest_unsupported_def)

lemmas files_own [raises_intros] = files_raise [THEN raises_weaken, OF foreign_own]

lemma extract_entry_raises:
  assumes "entry_calm entry"
  shows "raises_only (own_stage ARTIFACT_FETCH) (extract_entry e p dest entry)"
proof (cases entry)
  case (Pair name content)
  have written: "raises_only (own_stage ARTIFACT_FETCH) (act_bind (act_of content) (\<lambda>(bytes, fault).
      act_then (write_file q bytes) (case fault of None \<Rightarrow> act_ret () | Some exc \<Rightarrow> act_raise exc)))" for q
  proof (cases content)
    case (Inl exc)
    then have "foreign exc" using assms Pair by (simp add: entry_calm_def)
    then show ?thesis by (simp add: Inl raises_only_def act_run foreign_own)
  next
    case (Inr bf)
    obtain b fault where bf: "bf = (b, fault)" by (cases bf)
    have "raises_only (own_stage ARTIFACT_FETCH)
        (act_then (write_file q b) (case fault of None \<Rightarrow> act_ret () | Some exc \<Rightarrow> act_raise exc))"
      using assms Pair Inr bf
      by (intro raises_then files_own) (auto simp: entry_calm_def intro!: raises_intros foreign_own split: option.splits)
    then show ?thesis by (simp add: Inr bf raises_only_def act_run(3,8))
  qed
  show ?thesis
    unfolding extract_entry_def Pair prod.case Let_def
    by (intro raises_cond raises_then raises_raise files_own written) simp_all
qed

lemma extract_zip_raises [raises_intros]:
  assumes "calm_env e"
  shows "raises_only (own_stage ARTIFACT_FETCH) (extract_zip_to_directory e p dest)"
proof -
  have entries: "raises_only (own_stage ARTIFACT_FETCH) (act_bind (act_of r) (\<lambda>es. act_for es (extract_entry e p d)))"
    if "\<And>exc. r = Inl exc \<Longrightarrow> foreign exc" and "\<And>es. r = Inr es \<Longrightarrow> \<forall>x \<in> set es. entry_calm x" for r d
  proof (cases r)
    case (Inl exc)
    then show ?thesis using that(1) by (simp add: raises_only_def act_run foreign_own)
  next
    case (Inr es)
    have "raises_only (own_stage ARTIFACT_FETCH) (act_for es (extract_entry e p d))"
      using that(2) [OF Inr] by (intro raises_for extract_entry_raises) blast
    then show ?thesis by (simp add: Inr raises_only_def act_run)
  qed
  have "raises_only (own_stage ARTIFACT_FETCH)
      (act_bind (act_of (case archive of None \<Rightarrow> Inl (os_error ''FileNotFoundError'' p) | Some b \<Rightarrow> ae_unzip e b))
        (\<lambda>es. act_for es (extract_entry e p (ae_resolve e dest))))" for archive
    by (rule entries) (use assms in \<open>auto simp: calm_env_def split: option.splits\<close>)
  then show ?thesis
    unfolding extract_zip_to_directory_def by (intro raises_then raises_with files_own)
qed

lemma verified_zip_raises:
  assumes "calm_env e"
  shows "raises_only (own_stage ARTIFACT_FETCH) (verified_zip_extract skip e p sp dir zt)"
proof -
  have "own_stage ARTIFACT_FETCH exc" if "parse_sha256_digest d = Inl exc" for d exc
    using that by (auto simp: parse_sha256_digest_def Let_def split: list.splits if_split_asm)
  then show ?thesis
    unfolding verified_zip_extract_def Let_def by (intro raises_intros assms) simp_all
qed

lemma provider_failure_own: "foreign exc \<Longrightarrow> own_stage ARTIFACT_FETCH (provider_failure sp exc)"
  by (simp add: provider_failure_def Let_def foreign_own)

lemma provider_fetch_raises:
  assumes "calm_env e" and "provider_fetch e f ref = Some m"
  shows "raises_only foreign (m dir)"
proof -
  have "m \<in> {local_fetch e ref} \<union> range (\<lambda>base. registry_fetch e base ref)"
    using assms(2) by (auto simp: provider_fetch_def Let_def split: if_split_asm option.splits)
  then show ?thesis using provider_raises [OF assms(1)] by auto
qed

lemma fetch_by_provider_raises:
  assumes "calm_env e"
  shows "raises_only (own_stage ARTIFACT_FETCH) (fetch_by_provider e f sp)"
proof (cases "provider_fetch e f (ls_artifact_uri sp)")
  case None
  then show ?thesis by (simp add: fetch_by_provider_def raises_raise)
next
  case (Some m)
  have "raises_only (own_stage ARTIFACT_FETCH)
      (act_catch (m (materialization_dir f sp)) (\<lambda>exc. act_raise (provider_failure sp exc)))"
    using provider_fetch_raises [OF assms Some] by (rule raises_catch_of) (simp add: raises_raise provider_failure_own)
  then show ?thesis by (simp add: fetch_by_provider_def Some raises_bind raises_ret)
qed

lemma fetch_stage:
  assumes "calm_env e"
  shows "raises_only (own_stage ARTIFACT_FETCH) (fetch_artifact skip e f sp)"
proof -
  note zip = verified_zip_raises [OF assms, unfolded raises_only_def, rule_format]
  note rest = fetch_by_provider_raises [OF assms, unfolded raises_only_def, rule_format]
  show ?thesis
    unfolding raises_only_def fetch_artifact_run
    by (auto simp: local_base_failure_def generic_unresolved_def split: option.splits sum.splits if_split_asm
        intro: zip rest)
qed

subsection \<open>Verification, entry point and SDK\<close>

lemma verify_stage: "verify_artifact skip e fs r = Inl exc \<Longrightarrow> own_stage ARTIFACT_VERIFY exc"
proof -
  have parse: "own_stage ARTIFACT_VERIFY x" if "parse_digest e d = Inl x" for d x
    using that by (auto simp: parse_digest_def unsupported_digest_failure_def Let_def split: list.splits if_split_asm)
  have scoped: "own_stage ARTIFACT_VERIFY x" if "scoped_entries e fs rt rels = Inl x" for rt rels x
    using that by (induction rels)
      (auto simp: materialization_missing_def result_simps split: option.splits)
  have computed: "own_stage ARTIFACT_VERIFY x" if "compute_digest e hash fs rt scope = Inl x" for hash rt scope x
    using that scoped
    by (auto simp: compute_digest_def materialization_missing_def result_simps split: option.splits if_split_asm)
  show "verify_artifact skip e fs r = Inl exc \<Longrightarrow> own_stage ARTIFACT_VERIFY exc"
    by (auto simp: verify_artifact_def Let_def result_simps split: option.splits if_split_asm dest: parse computed)
qed

lemma load_stage: "raises_only (own_stage ENTRYPOINT_LOAD) (load_entrypoint e i sp fetched)"
proof -
  have parse: "own_stage ENTRYPOINT_LOAD exc" if "parse_entrypoint_spec t = Inl exc" for t exc
    using that by (auto simp: parse_entrypoint_spec_def malformed_entrypoint_failure_def Let_def
        split: list.splits if_split_asm)
  have symbol: "raises_only (own_stage ENTRYPOINT_LOAD) (load_symbol i t m y)" for t m y
    unfolding load_symbol_def Let_def by (intro raises_bind raises_catch raises_raise raises_option raises_cond raises_ret) simp_all
  have path: "raises_only E (materialized_import_path e p m)" if "raises_only E m" for E p and m :: "'a boot"
    unfolding materialized_import_path_def Let_def
    by (intro raises_then raises_bind raises_ret raises_catch_of [OF that]) (simp_all add: raises_only_def act_run)
  show ?thesis
    unfolding load_entrypoint_def by (intro raises_bind raises_of raises_pair raises_ret path symbol) (rule parse)
qed

lemma sdk_stage:
  assumes "calm_interp i"
  shows "raises_only (own_stage SDK_VALIDATE) (validate_sdk e i k er)"
proof -
  have made: "raises_only (own_stage SDK_VALIDATE) (construct_strategy i t c)" for t c
    unfolding construct_strategy_def by (intro raises_bind raises_catch raises_raise raises_ret) simp_all
  have inst: "raises_only (own_stage SDK_VALIDATE) (contract_instance i k t c)" for t c
    unfolding contract_instance_def by (intro raises_cond raises_option raises_raise raises_ret made) simp_all
  have methods: "own_stage SDK_VALIDATE exc" if "validate_required_methods i t ob ms = Inl exc" for t ob ms exc
    using that assms
    by (induction ms)
      (auto simp: result_simps resolve_method_def Let_def calm_interp_def intro: foreign_own
        split: if_split_asm option.splits)
  have mypy: "own_stage SDK_VALIDATE exc" if "collect_mypy_validation e i fs er = Inl exc" for fs exc
    using that assms
    by (auto simp: collect_mypy_validation_def Let_def result_simps calm_interp_def intro: foreign_own
        split: option.splits if_split_asm)
  have checked: "own_stage SDK_VALIDATE exc" if "validate_mypy_compatibility v = Inl exc" for v exc
    using that by (auto simp: validate_mypy_compatibility_def split: option.splits if_split_asm)
  have marker: "own_stage SDK_VALIDATE exc" if "validate_sdk_marker i k t d v = Inl exc" for t d v exc
    using that by (auto simp: validate_sdk_marker_def Let_def split: option.splits if_split_asm)
  have resolved: "raises_only (own_stage SDK_VALIDATE) (resolve_sdk_marker i c ob)" for c ob
    unfolding resolve_sdk_marker_def by (intro raises_option raises_ret raises_catch)
  show ?thesis
    unfolding validate_sdk_def
    by (intro raises_bind raises_pair raises_then raises_with raises_of raises_ret inst resolved;
        erule methods mypy checked marker)
qed

section \<open>The stage a failure names\<close>

text \<open>Which stage raises, going through them in order.\<close>

definition failed_stage :: "pipeline \<Rightarrow> launch_spec \<Rightarrow> boot_state \<Rightarrow> bootstrap_stage option" where
  "failed_stage p sp s =
     (case on_files (fetch_artifact (pl_skip_digest p) (pl_env p) (pl_fetcher p) sp) s of
        (Inl exc, s') \<Rightarrow> Some ARTIFACT_FETCH
      | (Inr artifact, s') \<Rightarrow>
          if isl (verify_artifact (pl_skip_digest p) (pl_env p) (bs_files s') artifact) then Some ARTIFACT_VERIFY
          else
            (case load_entrypoint (pl_env p) (pl_interp p) sp artifact s' of
               (Inl exc, s'') \<Rightarrow> Some ENTRYPOINT_LOAD
             | (Inr entrypoint, s'') \<Rightarrow>
                 if isl (fst (validate_sdk (pl_env p) (pl_interp p) (pl_contract p) entrypoint s''))
                 then Some SDK_VALIDATE else None))"

definition started :: "pipeline \<Rightarrow> launch_spec \<Rightarrow> pydatetime \<Rightarrow> boot_state \<Rightarrow> boot_state" where
  "started p sp t s = snd (persisted p (\<lambda>w. on_bootstrap_start w sp t) s)"

lemma stages_fail:
  assumes "calm_env (pl_env p)" and "calm_interp (pl_interp p)" and "bootstrap_stages p sp s = (Inl exc, s')"
  obtains k where "failed_stage p sp s = Some k" and "own_stage k exc"
proof -
  let ?fetch = "on_files (fetch_artifact (pl_skip_digest p) (pl_env p) (pl_fetcher p) sp)"
  have fetch: "own_stage ARTIFACT_FETCH x" if "?fetch s = (Inl x, q)" for x q
    using fetch_stage [OF assms(1)] that by (blast intro: raisesD [OF raises_lifted])
  have load: "own_stage ENTRYPOINT_LOAD x" if "load_entrypoint (pl_env p) (pl_interp p) sp a t = (Inl x, q)" for a t x q
    using load_stage that by (rule raisesD)
  have sdk: "own_stage SDK_VALIDATE x"
    if "validate_sdk (pl_env p) (pl_interp p) (pl_contract p) er t = (Inl x, q)" for er t x q
    using sdk_stage [OF assms(2)] that by (rule raisesD)
  have "\<exists>k. failed_stage p sp s = Some k \<and> own_stage k exc"
    using assms(3) unfolding bootstrap_stages_def failed_stage_def act_run
    by (auto split: prod.splits sum.splits dest: fetch load sdk verify_stage)
  then show thesis using that by blast
qed

lemma run_failure:
  assumes "bootstrap_run p sp t0 t1 s = (Inr (PipelineFailure exc), s')"
  obtains s1 where "bootstrap_stages p sp (started p sp t0 s) = (Inl exc, s1)" and "is_bootstrap_failure exc"
    and "persisted p (\<lambda>w. on_bootstrap_failure w sp (failure_info exc) t1 t1) s1 = (Inr (), s')"
  using assms
  by (auto simp: bootstrap_run_def started_def act_run split: prod.splits sum.splits if_split_asm pipeline_result.splits)

text \<open>
  C15: a bootstrap failure that the pipeline returns names the stage that failed, the first one that does.
\<close>

theorem failure_names_stage:
  assumes "calm_env (pl_env p)" and "calm_interp (pl_interp p)"
    and "bootstrap_run p sp t0 t1 s = (Inr (PipelineFailure exc), s')"
  shows "failed_stage p sp (started p sp t0 s) = Some (bf_stage (failure_info exc))"
proof -
  obtain s1 where fail: "bootstrap_stages p sp (started p sp t0 s) = (Inl exc, s1)" and "is_bootstrap_failure exc"
    using assms(3) by (rule run_failure)
  moreover obtain k where "failed_stage p sp (started p sp t0 s) = Some k" "own_stage k exc"
    using assms(1,2) fail by (rule stages_fail)
  ultimately show ?thesis
    by (cases exc) (simp_all add: own_stage_def is_bootstrap_failure_def failure_info_def)
qed

section \<open>What is accepted\<close>

lemma success_stages:
  assumes "bootstrap_run p sp t0 t1 s = (Inr (PipelineSuccess x), s')"
  obtains s1 where "bootstrap_stages p sp (started p sp t0 s) = (Inr x, s1)"
    and "persisted p (\<lambda>w. on_bootstrap_success w sp (er_spec (bx_entrypoint x)) (sv_details (bx_sdk x)) t1 t1) s1 =
      (Inr (), s')"
  using assms
  by (auto simp: bootstrap_run_def started_def act_run split: prod.splits sum.splits if_split_asm pipeline_result.splits)

lemma bind_returns:
  "act_bind m f s = (Inr x, s') \<longleftrightarrow> (\<exists>y t. m s = (Inr y, t) \<and> f y t = (Inr x, s'))"
  "act_then m n s = (Inr x, s') \<longleftrightarrow> (\<exists>y t. m s = (Inr y, t) \<and> n t = (Inr x, s'))"
  by (auto simp: act_run split: prod.split sum.split)

text \<open>
  What the entry point \<open>module:symbol\<close> stands for: the module imported with the working directory
  of the artifact first on the search path, and its attribute of that name.
\<close>

definition names_symbol :: "interp \<Rightarrow> string \<Rightarrow> string \<Rightarrow> string \<Rightarrow> nat \<Rightarrow> bool" where
  "names_symbol i dir module_name symbol_name y \<longleftrightarrow>
     (\<exists>fs ps m. fst (in_import i module_name (fs, dir # ps)) = Inr m \<and> in_getattr i m symbol_name = Some y)"

text \<open>
  The SDK version a strategy declares: the text of the class, else of its instance, else of the
  module the class names as its own, if that can be imported; otherwise there is none.
\<close>

definition version_of :: "interp \<Rightarrow> nat \<Rightarrow> string option" where
  "version_of i ob =
     (case in_getattr i ob ''__strategy_sdk_version__'' of Some a \<Rightarrow> in_text i a | None \<Rightarrow> None)"

definition module_version :: "interp \<Rightarrow> nat \<Rightarrow> string option \<Rightarrow> bool" where
  "module_version i candidate marker \<longleftrightarrow>
     (case in_getattr i candidate ''__module__'' of
        None \<Rightarrow> marker = None
      | Some a \<Rightarrow>
          (case in_text i a of
             None \<Rightarrow> marker = None
           | Some name \<Rightarrow>
               (\<exists>w. marker = (case fst (in_import i name w) of Inl e \<Rightarrow> None | Inr ob \<Rightarrow> version_of i ob))))"

definition declares_version :: "interp \<Rightarrow> nat \<Rightarrow> nat \<Rightarrow> string option \<Rightarrow> bool" where
  "declares_version i candidate inst marker \<longleftrightarrow>
     (case (version_of i candidate, version_of i inst) of
        (Some v, _) \<Rightarrow> marker = Some v
      | (None, Some v) \<Rightarrow> marker = Some v
      | (None, None) \<Rightarrow> module_version i candidate marker)"

lemma on_world_run: "on_world m s = (Inr x, s') \<Longrightarrow> fst (m (bs_files s, bs_path s)) = Inr x"
  by (auto simp: on_world_def split: prod.splits)

lemma load_symbol_run:
  assumes "load_symbol i ep mn sn s = (Inr (m, y), s')"
  shows "fst (in_import i mn (bs_files s, bs_path s)) = Inr m \<and> in_getattr i m sn = Some y"
  using assms on_world_run [of "in_import i mn" s]
  by (auto simp: load_symbol_def Let_def act_run split: prod.splits sum.splits option.splits if_split_asm)

lemma loaded_symbol:
  assumes "load_entrypoint e i sp fetched s = (Inr er, s')"
  shows "parse_entrypoint_spec (ls_entrypoint sp) = Inr (er_module_name er, er_symbol_name er) \<and>
    names_symbol i (path_str (ae_resolve e (fr_root fetched))) (er_module_name er) (er_symbol_name er) (er_symbol er)"
proof -
  obtain mn sn where parsed: "parse_entrypoint_spec (ls_entrypoint sp) = Inr (mn, sn)"
    using assms by (auto simp: load_entrypoint_def act_run split: sum.splits)
  let ?s = "s\<lparr>bs_path := path_str (ae_resolve e (fr_root fetched)) # bs_path s\<rparr>"
  obtain m y q where run: "load_symbol i (ls_entrypoint sp) mn sn ?s = (Inr (m, y), q)"
    and er: "er_module_name er = mn" "er_symbol_name er = sn" "er_symbol er = y"
    using assms parsed
    by (auto simp: load_entrypoint_def materialized_import_path_def Let_def act_run split: prod.splits sum.splits)
  from load_symbol_run [OF run] show ?thesis
    unfolding names_symbol_def using parsed er by auto
qed

lemma resolved_marker:
  assumes "resolve_sdk_marker i candidate inst s = (Inr marker, s')"
  shows "declares_version i candidate inst marker"
proof (cases "version_of i candidate = None \<and> version_of i inst = None")
  case False
  then show ?thesis
    using assms
    by (auto simp: resolve_sdk_marker_def declares_version_def version_of_def text_attr_def act_run
        split: option.splits)
next
  case True
  then have texts: "text_attr i candidate ''__strategy_sdk_version__'' = None"
    "text_attr i inst ''__strategy_sdk_version__'' = None"
    by (simp_all add: version_of_def text_attr_def)
  show ?thesis
  proof (cases "text_attr i candidate ''__module__''")
    case None
    then show ?thesis
      using assms texts True
      by (auto simp: resolve_sdk_marker_def declares_version_def module_version_def text_attr_def act_run
          split: option.splits)
  next
    case (Some name)
    then obtain a where name: "in_getattr i candidate ''__module__'' = Some a" "in_text i a = Some name"
      by (auto simp: text_attr_def split: option.splits)
    have run: "act_catch (act_bind (on_world (in_import i name))
        (\<lambda>ob. act_ret (text_attr i ob ''__strategy_sdk_version__''))) (\<lambda>_. act_ret None) s = (Inr marker, s')"
      using assms texts Some by (simp add: resolve_sdk_marker_def)
    obtain r q where import: "in_import i name (bs_files s, bs_path s) = (r, q)"
      by (cases "in_import i name (bs_files s, bs_path s)")
    have "marker = (case fst (in_import i name (bs_files s, bs_path s)) of Inl e \<Rightarrow> None | Inr ob \<Rightarrow> version_of i ob)"
      using run import
      by (cases r) (auto simp: act_run on_world_def version_of_def text_attr_def split: prod.splits)
    then show ?thesis
      using True name unfolding declares_version_def module_version_def by auto
  qed
qed

lemma validated_class:
  assumes "validate_sdk e i k er s = (Inr v, s')" and "sc_base k = Some b"
  shows "in_is_class i (er_symbol er) \<and> in_subclass i (er_symbol er) b \<and>
    (\<exists>w inst. fst (in_instantiate i (er_symbol er) w) = Inr inst \<and>
       declares_version i (er_symbol er) inst (sv_marker v)) \<and>
    (\<forall>t. sv_marker v = Some t \<longrightarrow> in_int i (takeWhile (\<lambda>c. c \<noteq> CHR ''.'') t) = Some (sc_major k))"
proof -
  obtain inst s1 q q' where made: "contract_instance i k (er_spec er) (er_symbol er) s = (Inr (inst, sv_type v), s1)"
    and found: "resolve_sdk_marker i (er_symbol er) inst q = (Inr (sv_marker v), q')"
    and marker: "\<exists>d. validate_sdk_marker i k (er_spec er) d (sv_marker v) = Inr ()"
    using assms(1) by (fastforce simp: validate_sdk_def bind_returns act_run(1,6,8) split: prod.splits)
  have "in_is_class i (er_symbol er) \<and> in_subclass i (er_symbol er) b"
    using made assms(2)
    by (auto simp: contract_instance_def act_run split: prod.splits sum.splits if_split_asm)
  moreover from this have "construct_strategy i (er_spec er) (er_symbol er) s = (Inr (inst, sv_type v), s1)"
    using made assms(2) by (simp add: contract_instance_def)
  then have "fst (in_instantiate i (er_symbol er) (bs_files s, bs_path s)) = Inr inst"
    using on_world_run [of "in_instantiate i (er_symbol er)" s]
    by (auto simp: construct_strategy_def act_run split: prod.splits sum.splits)
  moreover have "in_int i (takeWhile (\<lambda>c. c \<noteq> CHR ''.'') t) = Some (sc_major k)" if "sv_marker v = Some t" for t
    using marker that by (auto simp: validate_sdk_marker_def Let_def split: if_split_asm option.splits)
  ultimately show ?thesis using resolved_marker [OF found] by blast
qed

text \<open>
  C16: what a successful bootstrap accepts is the object that the entry point names, the attribute
  of that name of the module of that name, imported with the artifact's working directory first on
  the search path; it is a class below the required base class that can be instantiated, and the
  SDK version recorded for it is the one that the class, its instance or its own module declares,
  which is absent or has the required major version.
\<close>

theorem accepted_strategy:
  assumes "bootstrap_run p sp t0 t1 s = (Inr (PipelineSuccess x), s')" and "sc_base (pl_contract p) = Some b"
  shows "parse_entrypoint_spec (ls_entrypoint sp) = Inr (er_module_name (bx_entrypoint x), er_symbol_name (bx_entrypoint x)) \<and>
    names_symbol (pl_interp p) (path_str (ae_resolve (pl_env p) (fr_root (bx_artifact x))))
      (er_module_name (bx_entrypoint x)) (er_symbol_name (bx_entrypoint x)) (er_symbol (bx_entrypoint x)) \<and>
    in_is_class (pl_interp p) (er_symbol (bx_entrypoint x)) \<and>
    in_subclass (pl_interp p) (er_symbol (bx_entrypoint x)) b \<and>
    (\<exists>w inst. fst (in_instantiate (pl_interp p) (er_symbol (bx_entrypoint x)) w) = Inr inst \<and>
       declares_version (pl_interp p) (er_symbol (bx_entrypoint x)) inst (sv_marker (bx_sdk x))) \<and>
    (case sv_marker (bx_sdk x) of None \<Rightarrow> True
     | Some v \<Rightarrow> in_int (pl_interp p) (takeWhile (\<lambda>c. c \<noteq> CHR ''.'') v) = Some (sc_major (pl_contract p)))"
proof -
  obtain s1 where "bootstrap_stages p sp (started p sp t0 s) = (Inr x, s1)" using assms(1) by (rule success_stages)
  then obtain q q' r r' where
    "load_entrypoint (pl_env p) (pl_interp p) sp (bx_artifact x) q = (Inr (bx_entrypoint x), q')"
    "validate_sdk (pl_env p) (pl_interp p) (pl_contract p) (bx_entrypoint x) r = (Inr (bx_sdk x), r')"
    by (fastforce simp: bootstrap_stages_def bind_returns act_run(1,6,8))
  then show ?thesis
    using loaded_symbol validated_class [OF _ assms(2)] by (auto split: option.split)
qed

section \<open>The search path\<close>

definition same_path :: "boot_state \<Rightarrow> boot_state \<Rightarrow> bool" where
  "same_path s s' \<longleftrightarrow> bs_path s' = bs_path s"

interpretation same_path: step_order same_path
  by unfold_locales (simp_all add: same_path_def)

text \<open>Strategy code that does not touch \<open>sys.path\<close>.\<close>

definition leaves_path :: "interp \<Rightarrow> bool" where
  "leaves_path i \<longleftrightarrow>
     (\<forall>m w. snd (snd (in_import i m w)) = snd w) \<and> (\<forall>c w. snd (snd (in_instantiate i c w)) = snd w)"

lemma world_moves_path:
  assumes "\<And>w. snd (snd (n w)) = snd w"
  shows "moves same_path (on_world n)"
  unfolding moves_def on_world_def same_path_def
  using assms by (auto split: prod.split) (metis snd_conv)

lemma world_path:
  assumes "leaves_path i"
  shows "moves same_path (on_world (in_import i m))" "moves same_path (on_world (in_instantiate i c))"
  by (intro world_moves_path; use assms in \<open>simp only: leaves_path_def\<close>)+

lemma import_path_restored:
  assumes "moves same_path m"
  shows "moves same_path (materialized_import_path e p m)"
  unfolding moves_def same_path_def
proof
  fix s :: boot_state
  have kept: "bs_path (snd (m q)) = bs_path q" for q using assms by (simp add: moves_def same_path_def)
  let ?s = "s\<lparr>bs_path := path_str (ae_resolve e p) # bs_path s\<rparr>"
  show "bs_path (snd (materialized_import_path e p m s)) = bs_path s"
    using kept [of ?s]
    by (cases "m ?s"; cases "fst (m ?s)") (auto simp: materialized_import_path_def Let_def act_run)
qed

lemma lifted_path: "moves same_path (on_files m)" "moves same_path (on_db n)"
  by (auto simp: moves_def same_path_def on_files_def on_db_def split: prod.split)

lemma load_path: "leaves_path i \<Longrightarrow> moves same_path (load_entrypoint e i sp fetched)"
  unfolding load_entrypoint_def load_symbol_def Let_def case_prod_unfold
  by (intro same_path.bind same_path.result import_path_restored same_path.caught same_path.raise same_path.option
      same_path.cond same_path.ret world_path)

lemma sdk_path: "leaves_path i \<Longrightarrow> moves same_path (validate_sdk e i k er)"
  unfolding validate_sdk_def contract_instance_def construct_strategy_def resolve_sdk_marker_def case_prod_unfold
  by (intro same_path.bind same_path.seq2 same_path.reading same_path.result same_path.caught same_path.raise
      same_path.option same_path.cond same_path.ret world_path)

lemma persisted_path: "moves same_path (persisted p h)"
  unfolding persisted_def by (intro same_path.option same_path.ret lifted_path)

text \<open>
  Strategy code that leaves \<open>sys.path\<close> alone finds its modules in the working directory, and after the
  run, however it ended, \<open>sys.path\<close> is what it was.
\<close>

lemma run_restores_search_path:
  assumes "leaves_path (pl_interp p)"
  shows "bs_path (snd (bootstrap_run p sp t0 t1 s)) = bs_path s"
proof -
  have "moves same_path (bootstrap_stages p sp)"
    unfolding bootstrap_stages_def
    by (intro same_path.bind same_path.reading same_path.result same_path.ret lifted_path load_path sdk_path assms)
  then have "moves same_path (bootstrap_run p sp t0 t1)"
    unfolding bootstrap_run_def
    by (intro same_path.bind same_path.seq2 same_path.caught same_path.cond same_path.ret same_path.raise persisted_path)
      (auto split: pipeline_result.split intro: same_path.seq2 same_path.ret persisted_path)
  then show ?thesis using movesD [of same_path "bootstrap_run p sp t0 t1" s] by (simp add: same_path_def)
qed

section \<open>The rows of a run\<close>

definition same_rows :: "boot_state \<Rightarrow> boot_state \<Rightarrow> bool" where
  "same_rows s s' \<longleftrightarrow> bs_db s' = bs_db s"

interpretation same_rows: step_order same_rows
  by unfold_locales (simp_all add: same_rows_def)

lemma world_rows: "moves same_rows (on_files m)" "moves same_rows (on_world n)"
  by (auto simp: moves_def same_rows_def on_files_def on_world_def split: prod.split)

lemma import_rows: "moves same_rows m \<Longrightarrow> moves same_rows (materialized_import_path e p m)"
  unfolding materialized_import_path_def Let_def
  by (intro same_rows.seq2 same_rows.bind same_rows.caught same_rows.ret same_rows.raise same_rows.modify)
    (simp_all add: same_rows_def)

lemma stages_rows: "moves same_rows (bootstrap_stages p sp)"
  unfolding bootstrap_stages_def load_entrypoint_def load_symbol_def validate_sdk_def contract_instance_def
    construct_strategy_def resolve_sdk_marker_def Let_def case_prod_unfold
  by (intro same_rows.bind same_rows.seq2 same_rows.reading same_rows.result same_rows.ret same_rows.caught
      same_rows.raise same_rows.option same_rows.cond world_rows import_rows)

text \<open>
  C17: when a stage of the bootstrap fails, the run returns that failure and leaves one instance row in FAILED
  with its reason, the attempt row marked FAILED, and one more event; the schema's constraints hold.
\<close>

theorem failed_run_recorded:
  assumes "bootstrap_stages p sp (started p sp t0 s) = (Inl exc, s1)" and "is_bootstrap_failure exc"
    and "pl_wire p = Some w" and "db_ok (bs_db s)" and "dt_aware t0" and "dt_aware t1"
    and "json_dumps (wt_float w) (VDict (bf_details (failure_info exc))) \<noteq> None"
    and "bootstrap_event_id sp ''runtime.launch_failed'' \<notin> set (event_ids (bs_db s))"
  shows "case bootstrap_run p sp t0 t1 s of
    (r, s') \<Rightarrow> r = Inr (PipelineFailure exc) \<and> db_ok (bs_db s') \<and>
      instance_states (bs_db s') (ls_runtime_id sp) =
        [(''FAILED'', ls_launch_attempt sp, Some (bf_reason_code (failure_info exc)))] \<and>
      attempt_states (bs_db s') (ls_runtime_id sp) (ls_launch_attempt sp) =
        [(''FAILED'', Some (bf_reason_code (failure_info exc)))] \<and>
      event_ids (bs_db s') = event_ids (bs_db s) @ [bootstrap_event_id sp ''runtime.launch_failed'']"
proof -
  have "bs_db s1 = bs_db (started p sp t0 s)"
    using movesD [OF stages_rows, of "started p sp t0 s" p sp] assms(1) by (simp add: same_rows_def)
  moreover obtain d0 where d0: "transaction (on_bootstrap_start w sp t0) (bs_db s) = (Inr (), d0)"
    using bootstrap_started [OF assms(4,5)] by metis
  ultimately have s1: "bs_db s1 = d0" using assms(3) by (simp add: started_def persisted_def on_db_def)
  obtain d1 where d1: "transaction (on_bootstrap_failure w sp (failure_info exc) t1 t1) d0 = (Inr (), d1)"
    using bootstrap_failure_recorded [OF assms(4,5,6,6,7,8)] by (auto simp: act_run d0 split: prod.splits sum.splits)
  have "persisted p (\<lambda>w. on_bootstrap_start w sp t0) s = (Inr (), started p sp t0 s)"
    using assms(3) by (simp add: started_def persisted_def on_db_def d0)
  then have "bootstrap_run p sp t0 t1 s = (Inr (PipelineFailure exc), s1\<lparr>bs_db := d1\<rparr>)"
    using assms(1,2,3) by (simp add: bootstrap_run_def act_run persisted_def on_db_def s1 d1)
  then show ?thesis
    using bootstrap_failure_recorded [OF assms(4,5,6,6,7,8)] by (simp add: act_run d0 d1)
qed

section \<open>Exceptions that are no bootstrap failures\<close>

text \<open>
  A damaged archive (and a disk fault while it is extracted, and a version marker of superscript digits) is
  not turned into a failure of its stage: the run raises and records no outcome.
\<close>

lemma foreign_exception_escapes:
  assumes "bootstrap_stages p sp (started p sp t0 s) = (Inl exc, s1)" and "foreign exc"
    and "persisted p (\<lambda>w. on_bootstrap_start w sp t0) s = (Inr (), started p sp t0 s)"
  shows "bootstrap_run p sp t0 t1 s = (Inl exc, s1)"
  using assms by (simp add: bootstrap_run_def act_run foreign_def)

lemma damaged_archive_escapes:
  assumes "bundled_zip e f (ls_artifact_uri sp) fs = Some zip_path" and "file_at fs zip_path = Some b"
    and "ae_unzip e b = Inl exc"
    and "mkdir_parents (ae_resolve e (the (ft_bundle_base f) @ [''strategy_bundle''])) fs = (Inr (), fs')"
    and "file_at fs' zip_path = Some b"
  shows "fetch_artifact True e f sp fs = (Inl exc, fs')"
  using assms by (simp add: fetch_artifact_run verified_zip_extract_def extract_zip_to_directory_def act_run Let_def)

lemma superscript_marker_escapes:
  assumes "in_int i [CHR 0xB2] = None"
  shows "\<exists>msg. validate_sdk_marker i k t d (Some [CHR 0xB2]) = Inl (ValueExc ''ValueError'' msg None)"
  using assms by (simp add: validate_sdk_marker_def py_isdigit_def)

section \<open>A pipeline on concrete inputs\<close>

definition plain_interp :: interp where
  "plain_interp =
     \<lparr>in_import = (\<lambda>m w. (Inr 1, w)), in_instantiate = (\<lambda>c w. (Inr 4, w)),
      in_getattr = (\<lambda>ob name. if ob = 1 \<and> name = ''S'' then Some 2 else None),
      in_is_class = (\<lambda>ob. ob = 2), in_is_function = (\<lambda>ob. False), in_callable = (\<lambda>ob. ob = 2),
      in_name = (\<lambda>ob. ''S''), in_type_name = (\<lambda>ob. ''type''), in_subclass = (\<lambda>c b. b = 3),
      in_text = (\<lambda>ob. None), in_signature = (\<lambda>ob. Inr []), in_signature_text = (\<lambda>ob. ''()''),
      in_mypy = (\<lambda>p fs. Inr (0, [], [])), in_project_root = [], in_int = (\<lambda>t. None), in_repr = (\<lambda>t. t)\<rparr>"

definition plain_pipeline :: "wire option \<Rightarrow> pipeline" where
  "plain_pipeline w =
     \<lparr>pl_env = plain_env, pl_interp = plain_interp, pl_fetcher = ArtifactFetcher plain_env [''w''] None None,
      pl_contract = SdkContractValidator 3, pl_skip_digest = True, pl_wire = w\<rparr>"

definition plain_state :: boot_state where
  "plain_state = \<lparr>bs_files = plain_tree, bs_path = [], bs_db = empty_db\<rparr>"

definition homeless_spec :: launch_spec where
  "homeless_spec = plain_spec\<lparr>ls_artifact_uri := ''registry-local:///x''\<rparr>"

lemma plain_calm: "calm_env plain_env" "calm_interp plain_interp" "leaves_path plain_interp"
  by (simp_all add: calm_env_def entry_calm_def calm_interp_def leaves_path_def plain_env_def plain_interp_def)

lemma plain_pipeline_simps [simp]:
  "pl_env (plain_pipeline w) = plain_env" "pl_interp (plain_pipeline w) = plain_interp"
  "pl_fetcher (plain_pipeline w) = ArtifactFetcher plain_env [''w''] None None"
  "pl_contract (plain_pipeline w) = SdkContractValidator 3" "pl_skip_digest (plain_pipeline w) = True"
  "pl_wire (plain_pipeline w) = w"
  by (simp_all add: plain_pipeline_def)

lemma homeless_fails:
  "bootstrap_stages (plain_pipeline w) homeless_spec s = (Inl (local_base_failure ''registry-local:///x''), s)"
proof -
  have "local_base_missing (ArtifactFetcher plain_env [''w''] None None) ''registry-local:///x''" by code_simp
  then show ?thesis
    by (simp add: bootstrap_stages_def on_files_def homeless_spec_def fetch_artifact_run
        bundled_zip_def ArtifactFetcher_def act_run)
qed

lemma homeless_exception:
  "local_base_failure t = BootstrapExc ''ArtifactFetchFailure'' ARTIFACT_FETCH ''ARTIFACT_FETCH_FAILED'' False
     [(''artifact_uri'', VStr t), (''scheme'', VStr ''registry-local'')]
     ''registry-local artifact_uri requires SWR_ARTIFACT_LOCAL_BASE_PATH or ARTIFACT_LOCAL_BASE_PATH (absolute directory matching strategy-registry).''"
proof -
  have "py_upper (py_strip ''artifact_fetch_failed'') = ''ARTIFACT_FETCH_FAILED''" by code_simp
  then show ?thesis
    by (simp add: local_base_failure_def fetch_failure_def the_exc_def ArtifactFetchFailure_def BootstrapFailure_def)
qed

lemma homeless_failure: "is_bootstrap_failure (local_base_failure t)"
  by (simp add: is_bootstrap_failure_def homeless_exception)

theorem failure_names_stage_witness:
  "failed_stage (plain_pipeline None) homeless_spec (started (plain_pipeline None) homeless_spec (utc 0) plain_state) =
     Some (bf_stage (failure_info (local_base_failure ''registry-local:///x'')))"
proof (rule failure_names_stage)
  show "bootstrap_run (plain_pipeline None) homeless_spec (utc 0) (utc 1) plain_state =
      (Inr (PipelineFailure (local_base_failure ''registry-local:///x'')), plain_state)"
    using homeless_failure homeless_fails
    by (simp add: bootstrap_run_def persisted_def act_run)
qed (simp_all add: plain_calm)

theorem failed_run_recorded_witness:
  "case bootstrap_run (plain_pipeline (Some sample_wire)) homeless_spec (utc 0) (utc 1) plain_state of
    (r, s') \<Rightarrow> r = Inr (PipelineFailure (local_base_failure ''registry-local:///x'')) \<and> db_ok (bs_db s') \<and>
      instance_states (bs_db s') (ls_runtime_id homeless_spec) =
        [(''FAILED'', ls_launch_attempt homeless_spec,
          Some (bf_reason_code (failure_info (local_base_failure ''registry-local:///x''))))] \<and>
      attempt_states (bs_db s') (ls_runtime_id homeless_spec) (ls_launch_attempt homeless_spec) =
        [(''FAILED'', Some (bf_reason_code (failure_info (local_base_failure ''registry-local:///x''))))] \<and>
      event_ids (bs_db s') = event_ids (bs_db plain_state) @ [bootstrap_event_id homeless_spec ''runtime.launch_failed'']"
  by (rule failed_run_recorded [OF homeless_fails homeless_failure])
    (simp_all add: plain_state_def db_ok_def empty_db_def runtimes_def referring_def event_ids_def
      failure_info_def homeless_exception sample_wire_def)

theorem run_restores_search_path_witness:
  "bs_path (snd (bootstrap_run (plain_pipeline None) plain_spec (utc 0) (utc 1) plain_state)) = bs_path plain_state"
  by (rule run_restores_search_path) (simp add: plain_calm)

definition plain_skipped :: fetch_result where
  "plain_skipped = zip_result plain_spec [''b'', ''a.zip''] [''w'', ''rt-1'', ''artifact''] ''artifact_zip''
     (Some ''sha256:aa'') True"

definition plain_entrypoint :: entrypoint_result where
  "plain_entrypoint = \<lparr>er_spec = ''s:S'', er_module_name = ''s'', er_symbol_name = ''S'', er_symbol = 2,
     er_artifact_reference = ''/b/a.zip'', er_module_file = None\<rparr>"

lemma plain_stages:
  "\<exists>x s'. bootstrap_stages (plain_pipeline w) plain_spec plain_state = (Inr x, s')"
proof -
  have fetched: "fetch_artifact True plain_env (ArtifactFetcher plain_env [''w''] None None) plain_spec plain_tree =
      (Inr plain_skipped, plain_after)"
    by code_simp
  have parsed: "parse_entrypoint_spec ''s:S'' = Inr (''s'', ''S'')" by code_simp
  have loaded: "\<exists>s'. load_entrypoint plain_env plain_interp plain_spec plain_skipped s = (Inr plain_entrypoint, s')" for s
    by (simp add: load_entrypoint_def parsed materialized_import_path_def load_symbol_def on_world_def is_valid_symbol_def
        text_attr_def plain_interp_def plain_entrypoint_def plain_skipped_def zip_result_def plain_spec_def act_run Let_def)
  have valid: "\<exists>v s'. validate_sdk plain_env plain_interp (SdkContractValidator 3) plain_entrypoint s = (Inr v, s')" for s
    by (simp add: validate_sdk_def contract_instance_def construct_strategy_def SdkContractValidator_def plain_interp_def
        plain_entrypoint_def on_world_def collect_mypy_validation_def validate_mypy_compatibility_def
        resolve_sdk_marker_def text_attr_def validate_sdk_marker_def act_run)
  obtain s1 where "load_entrypoint plain_env plain_interp plain_spec plain_skipped (plain_state\<lparr>bs_files := plain_after\<rparr>) =
      (Inr plain_entrypoint, s1)"
    using loaded by blast
  moreover obtain v s2 where "validate_sdk plain_env plain_interp (SdkContractValidator 3) plain_entrypoint s1 = (Inr v, s2)"
    using valid by blast
  ultimately show ?thesis
    by (simp add: bootstrap_stages_def on_files_def plain_state_def fetched verify_artifact_def act_run Let_def)
qed

theorem accepted_strategy_witness:
  "\<exists>x s'. bootstrap_run (plain_pipeline None) plain_spec (utc 0) (utc 1) plain_state = (Inr (PipelineSuccess x), s') \<and>
    names_symbol plain_interp (path_str (ae_resolve plain_env (fr_root (bx_artifact x))))
      (er_module_name (bx_entrypoint x)) (er_symbol_name (bx_entrypoint x)) (er_symbol (bx_entrypoint x)) \<and>
    in_is_class plain_interp (er_symbol (bx_entrypoint x)) \<and>
    in_subclass plain_interp (er_symbol (bx_entrypoint x)) 3 \<and>
    (\<exists>w inst. fst (in_instantiate plain_interp (er_symbol (bx_entrypoint x)) w) = Inr inst \<and>
       declares_version plain_interp (er_symbol (bx_entrypoint x)) inst (sv_marker (bx_sdk x)))"
proof -
  obtain x s' where "bootstrap_stages (plain_pipeline None) plain_spec plain_state = (Inr x, s')"
    using plain_stages by blast
  then have run:
    "bootstrap_run (plain_pipeline None) plain_spec (utc 0) (utc 1) plain_state = (Inr (PipelineSuccess x), s')"
    by (simp add: bootstrap_run_def persisted_def act_run)
  have "pl_interp (plain_pipeline None) = plain_interp" "pl_env (plain_pipeline None) = plain_env"
    "pl_contract (plain_pipeline None) = SdkContractValidator 3"
    by simp_all
  then show ?thesis
    using run accepted_strategy [OF run, of 3] unfolding SdkContractValidator_def by (metis sdk_contract.select_convs(3))
qed

end
