(* ===== verification/FeedLoops.thy ===== *)
theory FeedLoops
  imports MarketData Action
begin

text \<open>
  The feed threads as they run: \<open>run_market_data_redis_loop\<close> and \<open>_run_xreadgroup_loop\<close> of
  \<open>market_data_redis_feed.py\<close>, \<open>run_portfolio_update_pubsub_loop\<close> of \<open>portfolio_redis_feed.py\<close>. Redis, the stop
  event and the callback for balances are arguments (\<open>feed_env\<close>), asked with the trace so far; which
  exceptions count as a lost connection is one too. A blocking read may not have returned yet
  (\<open>fv_blocked\<close>), for ever where \<open>BLOCK 0\<close> meets a stream without new entries; the thread then waits in it and
  does not look at the stop event. A loop ends when it is told to, so it takes fuel, one unit per turn and
  per look at a blocking read; \<open>FeedOutOfFuel\<close> is a run that has not ended.
\<close>

datatype feed_call =
    FeedLog string
  | FeedPrint string
  | Opened
  | Closed
  | PubsubClosed
  | GroupCreated string
  | AskedStreams "(string \<times> string) list" int int
  | AskedGroup int int
  | StillBlocked
  | Answered "(string \<times> stream_entries) list"
  | Waited nat
  | Fed md_effect
  | Subscribed string
  | AskedMessage
  | Updated pydict

datatype feed_exit = FeedEnded | FeedOutOfFuel

record feed_state =
  fd_trace :: "feed_call list"
  fd_attempt :: nat
  fd_client :: bool
  fd_pubsub :: bool

type_synonym 'a fd = "(feed_state, 'a) act"

record feed_env =
  fv_md :: md_env
  fv_stopped :: "feed_call list \<Rightarrow> bool"
  fv_wait :: "feed_call list \<Rightarrow> bool"
  fv_open :: "feed_call list \<Rightarrow> py_exc option"
  fv_create :: "feed_call list \<Rightarrow> string \<Rightarrow> py_exc option"
  fv_blocked :: "feed_call list \<Rightarrow> bool"
  fv_xread :: "feed_call list \<Rightarrow> (string \<times> string) list \<Rightarrow> py_exc + (string \<times> stream_entries) list"
  fv_xreadgroup :: "feed_call list \<Rightarrow> py_exc + (string \<times> stream_entries) list"
  fv_ack :: "feed_call list \<Rightarrow> py_exc option"
  fv_lost :: "py_exc \<Rightarrow> bool"
  fv_busy :: "py_exc \<Rightarrow> bool"
  fv_subscribe :: "feed_call list \<Rightarrow> py_exc option"
  fv_message :: "feed_call list \<Rightarrow> py_exc + (string \<times> string option) option"
  fv_update :: "feed_call list \<Rightarrow> py_exc option"

section \<open>Steps\<close>

definition feed_note :: "feed_call \<Rightarrow> unit fd" where
  "feed_note x = act_modify (\<lambda>s. s\<lparr>fd_trace := fd_trace s @ [x]\<rparr>)"

definition feed_log :: "string \<Rightarrow> unit fd" where
  "feed_log event = feed_note (FeedLog (''market_data_stream.'' @ event))"

definition raised :: "py_exc option \<Rightarrow> unit fd" where
  "raised x = (case x of None \<Rightarrow> act_ret () | Some e \<Rightarrow> act_raise e)"

text \<open>\<open>try: m finally: f\<close>.\<close>

definition finally_do :: "'a fd \<Rightarrow> unit fd \<Rightarrow> 'a fd" where
  "finally_do m f = act_bind (act_catch m (\<lambda>e. act_then f (act_raise e))) (\<lambda>x. act_then f (act_ret x))"

definition open_redis_client :: "feed_env \<Rightarrow> unit fd" where
  "open_redis_client v =
     act_with (\<lambda>s. fv_open v (fd_trace s)) (\<lambda>x.
       act_then (raised x) (act_then (feed_note Opened) (act_modify (\<lambda>s. s\<lparr>fd_client := True\<rparr>))))"

definition close_client :: "unit fd" where
  "close_client = act_with fd_client (\<lambda>there. act_when there (feed_note Closed))"

text \<open>After a lost connection: wait, and unless stopped meanwhile, close and open again.\<close>

definition back_off :: "feed_exit fd \<Rightarrow> feed_env \<Rightarrow> feed_exit fd" where
  "back_off again v =
     act_with fd_attempt (\<lambda>n.
       act_then (feed_note (Waited (reconnect_backoff_seconds n)))
         (act_with (\<lambda>s. fv_wait v (fd_trace s)) (\<lambda>stopped.
            if stopped then act_ret FeedEnded
            else act_then (act_modify (\<lambda>s. s\<lparr>fd_attempt := n + 1\<rparr>)) again)))"

definition reconnect :: "feed_env \<Rightarrow> feed_exit fd \<Rightarrow> feed_exit fd" where
  "reconnect v again =
     act_then (feed_log ''step_reconnect'')
       (back_off (act_then close_client (act_then (open_redis_client v) again)) v)"

definition fresh_attempts :: "unit fd" where
  "fresh_attempts = act_modify (\<lambda>s. s\<lparr>fd_attempt := 0\<rparr>)"

text \<open>
  A turn of a reading loop, unless it goes on with a read that is still blocked: the loop's condition, then
  the call. A read that has not returned is looked at again, without the condition.
\<close>

definition turn_head :: "feed_env \<Rightarrow> bool \<Rightarrow> feed_call \<Rightarrow> feed_exit fd \<Rightarrow> feed_exit fd" where
  "turn_head v waiting ask rest =
     (if waiting then rest
      else act_with (\<lambda>s. fv_stopped v (fd_trace s)) (\<lambda>stopped.
        if stopped then act_ret FeedEnded else act_then (feed_note ask) rest))"

abbreviation when_returned :: "feed_env \<Rightarrow> feed_exit fd \<Rightarrow> feed_exit fd \<Rightarrow> feed_exit fd" where
  "when_returned v wait rest \<equiv>
     act_with (\<lambda>s. fv_blocked v (fd_trace s)) (\<lambda>blocked.
       if blocked then act_then (feed_note StillBlocked) wait else rest)"

section \<open>XREAD\<close>

record feed_plan =
  fp_keys :: redis_keys
  fp_timeframe :: string
  fp_symbol :: "string option"
  fp_streams :: "string list"
  fp_start :: string
  fp_block_ms :: int
  fp_count :: int
  fp_use_group :: bool
  fp_group :: string
  fp_consumer :: string

primrec xread_turns :: "feed_env \<Rightarrow> feed_plan \<Rightarrow> nat \<Rightarrow> bool \<Rightarrow> (string \<times> string) list \<Rightarrow> feed_exit fd" where
  "xread_turns v p 0 waiting positions = act_ret FeedOutOfFuel"
| "xread_turns v p (Suc n) waiting positions =
     turn_head v waiting (AskedStreams positions (max 1 (fp_count p)) (max 0 (fp_block_ms p)))
       (when_returned v (xread_turns v p n True positions)
         (act_with (\<lambda>s. fv_xread v (fd_trace s) positions) (\<lambda>answer.
           case answer of
             Inl e \<Rightarrow>
               if fv_lost v e then reconnect v (xread_turns v p n False positions) else act_raise e
           | Inr resp \<Rightarrow>
               act_then fresh_attempts (act_then (feed_note (Answered resp))
                 (case xread_response (fv_md v) (fp_keys p) (fp_timeframe p) (fp_symbol p) (fp_start p) resp positions [] of
                    (positions', effects, failure) \<Rightarrow>
                      act_then (act_for effects (\<lambda>x. feed_note (Fed x)))
                        (act_then (raised failure) (xread_turns v p n False positions')))))))"

definition run_xread_loop :: "feed_env \<Rightarrow> feed_plan \<Rightarrow> nat \<Rightarrow> feed_exit fd" where
  "run_xread_loop v p fuel =
     finally_do
       (act_then (open_redis_client v)
         (act_then (act_seq (map feed_log [''step_redis_client_open'', ''consumer_started'', ''contract_keys'',
             ''step_begin_xread_loop'']))
           (xread_turns v p fuel False (map (\<lambda>s. (s, fp_start p)) (fp_streams p)))))
       (act_then close_client (feed_log ''consumer_stopped''))"

section \<open>XREADGROUP\<close>

definition ensure_consumer_groups :: "feed_env \<Rightarrow> string list \<Rightarrow> unit fd" where
  "ensure_consumer_groups v streams =
     act_then (feed_log ''step_xgroup_create_plan'')
       (act_then
         (act_for streams (\<lambda>sn.
            act_then (feed_note (GroupCreated sn))
              (act_with (\<lambda>s. fv_create v (fd_trace s) sn) (\<lambda>x.
                 case x of None \<Rightarrow> act_ret () | Some e \<Rightarrow> if fv_busy v e then act_ret () else act_raise e))))
         (feed_log ''consumer_groups_ready''))"

text \<open>The effects of an entry in order; an acknowledgement may fail, and nothing catches that.\<close>

definition feed_effect :: "feed_env \<Rightarrow> md_effect \<Rightarrow> unit fd" where
  "feed_effect v x =
     act_then (feed_note (Fed x))
       (case x of Ack stream msg \<Rightarrow> act_with (\<lambda>s. fv_ack v (fd_trace s)) raised | _ \<Rightarrow> act_ret ())"

definition feed_group_entry :: "feed_env \<Rightarrow> feed_plan \<Rightarrow> string \<Rightarrow> string \<times> (string \<times> string) list option \<Rightarrow> unit fd" where
  "feed_group_entry v p stream entry =
     (case group_message (fv_md v) (fp_keys p) (fp_timeframe p) (fp_symbol p) stream entry of
        (effects, failure) \<Rightarrow> act_then (act_for effects (feed_effect v)) (raised failure))"

primrec xreadgroup_turns :: "feed_env \<Rightarrow> feed_plan \<Rightarrow> nat \<Rightarrow> bool \<Rightarrow> feed_exit fd" where
  "xreadgroup_turns v p 0 waiting = act_ret FeedOutOfFuel"
| "xreadgroup_turns v p (Suc n) waiting =
     turn_head v waiting (AskedGroup (max 1 (fp_count p)) (max 0 (fp_block_ms p)))
       (when_returned v (xreadgroup_turns v p n True)
         (act_with (\<lambda>s. fv_xreadgroup v (fd_trace s)) (\<lambda>answer.
           case answer of
             Inl e \<Rightarrow>
               if fv_lost v e
               then reconnect v (act_then (ensure_consumer_groups v (fp_streams p)) (xreadgroup_turns v p n False))
               else act_raise e
           | Inr resp \<Rightarrow>
               act_then fresh_attempts (act_then (feed_note (Answered resp))
                 (act_then (act_for resp (\<lambda>(stream, ms). act_for ms (feed_group_entry v p stream)))
                   (xreadgroup_turns v p n False))))))"

definition run_xreadgroup_loop :: "feed_env \<Rightarrow> feed_plan \<Rightarrow> nat \<Rightarrow> feed_exit fd" where
  "run_xreadgroup_loop v p fuel =
     finally_do
       (act_then (open_redis_client v)
         (act_then (feed_log ''step_redis_client_open'')
           (act_then (ensure_consumer_groups v (fp_streams p))
             (act_then (act_seq (map feed_log [''consumer_started'', ''contract_keys'', ''step_begin_xreadgroup_loop'']))
               (xreadgroup_turns v p fuel False)))))
       (act_then close_client (feed_log ''consumer_stopped''))"

definition run_market_data_redis_loop :: "feed_env \<Rightarrow> feed_plan \<Rightarrow> nat \<Rightarrow> feed_exit fd" where
  "run_market_data_redis_loop v p fuel =
     (let plan = p\<lparr>fp_start := (let t = py_strip (fp_start p) in if t = [] then ''$'' else t),
            fp_group := py_strip (fp_group p), fp_consumer := py_strip (fp_consumer p)\<rparr>
      in if fp_streams p = [] then act_ret FeedEnded
         else act_then (feed_log ''step_ingress_plan'')
           (if fp_use_group p then
              (if fp_group plan = [] \<or> fp_consumer plan = [] then
                 act_raise (ValueExc ''ValueError''
                   ''consumer_group_name and consumer_name are required when use_consumer_group is True'' None)
               else run_xreadgroup_loop v plan fuel)
            else run_xread_loop v plan fuel))"

section \<open>Balances over Pub/Sub\<close>

definition portfolio_log :: "string \<Rightarrow> unit fd" where
  "portfolio_log event = feed_note (FeedLog (''portfolio_update_feed.'' @ event))"

definition close_pubsub :: "unit fd" where
  "close_pubsub = act_with fd_pubsub (\<lambda>there. act_when there (feed_note PubsubClosed))"

text \<open>The body of the \<open>try\<close>: a new subscription where there is no client, then one message.\<close>

definition subscribe_portfolio :: "feed_env \<Rightarrow> string \<Rightarrow> unit fd" where
  "subscribe_portfolio v channel =
     act_then (open_redis_client v)
       (act_then (act_modify (\<lambda>s. s\<lparr>fd_pubsub := True\<rparr>))
         (act_then (feed_note (Subscribed channel))
           (act_then (act_with (\<lambda>s. fv_subscribe v (fd_trace s)) raised)
             (act_then (portfolio_log ''subscribed'') fresh_attempts))))"

definition portfolio_step :: "feed_env \<Rightarrow> string \<Rightarrow> string \<Rightarrow> unit fd" where
  "portfolio_step v channel job_id =
     act_then (act_with fd_client (\<lambda>there. act_when (\<not> there) (subscribe_portfolio v channel)))
       (act_then (feed_note AskedMessage)
         (act_bind (act_with (\<lambda>s. fv_message v (fd_trace s)) act_of) (\<lambda>got.
            case got of
              None \<Rightarrow> act_ret ()
            | Some message \<Rightarrow>
                (case portfolio_message_update (fv_md v) job_id message of
                   None \<Rightarrow> act_ret ()
                 | Some parsed \<Rightarrow>
                     act_then (feed_note (Updated parsed))
                       (act_with (\<lambda>s. fv_update v (fd_trace s)) raised)))))"

definition drop_connection :: "unit fd" where
  "drop_connection =
     act_then close_pubsub (act_then close_client
       (act_modify (\<lambda>s. s\<lparr>fd_pubsub := False, fd_client := False\<rparr>)))"

primrec portfolio_turns :: "feed_env \<Rightarrow> string \<Rightarrow> string \<Rightarrow> nat \<Rightarrow> feed_exit fd" where
  "portfolio_turns v channel job_id 0 = act_ret FeedOutOfFuel"
| "portfolio_turns v channel job_id (Suc n) =
     act_with (\<lambda>s. fv_stopped v (fd_trace s)) (\<lambda>stopped.
       if stopped then act_ret FeedEnded
       else act_bind
         (act_catch (act_then (portfolio_step v channel job_id) (act_ret None)) (\<lambda>e.
            if fv_lost v e then act_ret (Some e) else act_raise e))
         (\<lambda>lost. case lost of
            None \<Rightarrow> portfolio_turns v channel job_id n
          | Some e \<Rightarrow>
              act_then (portfolio_log ''reconnect'')
                (back_off (act_then drop_connection (portfolio_turns v channel job_id n)) v)))"

definition run_portfolio_update_pubsub_loop :: "feed_env \<Rightarrow> string \<Rightarrow> string \<Rightarrow> nat \<Rightarrow> feed_exit fd" where
  "run_portfolio_update_pubsub_loop v channel expected_job_id fuel =
     (let job_id = py_strip expected_job_id in
      if job_id = [] then act_then (portfolio_log ''skipped'') (act_ret FeedEnded)
      else finally_do (portfolio_turns v channel job_id fuel) (act_then close_pubsub close_client))"

definition idle_feed_state :: feed_state where
  "idle_feed_state = \<lparr>fd_trace = [], fd_attempt = 0, fd_client = False, fd_pubsub = False\<rparr>"

section \<open>One client at a time\<close>

text \<open>The number of open clients after some calls, where there is never more than one.\<close>

fun live_clients :: "nat \<Rightarrow> feed_call list \<Rightarrow> nat option" where
  "live_clients n [] = Some n"
| "live_clients n (Opened # cs) = (if n = 0 then live_clients 1 cs else None)"
| "live_clients n (Closed # cs) = live_clients 0 cs"
| "live_clients n (_ # cs) = live_clients n cs"

lemma live_append: "live_clients n (a @ b) = Option.bind (live_clients n a) (\<lambda>m. live_clients m b)"
  by (induction n a rule: live_clients.induct) auto

definition live :: "feed_state \<Rightarrow> nat option" where
  "live s = live_clients 0 (fd_trace s)"

text \<open>Between calls: an open client is one the loop holds.\<close>

definition tidy :: "feed_state \<Rightarrow> bool" where
  "tidy s \<longleftrightarrow> (\<exists>n. live s = Some n \<and> (n = 0 \<or> n = 1 \<and> fd_client s))"

definition closed_up :: "feed_state \<Rightarrow> bool" where
  "closed_up s \<longleftrightarrow> live s = Some 0"

definition tidies :: "feed_state \<Rightarrow> feed_state \<Rightarrow> bool" where
  "tidies s s' \<longleftrightarrow> (tidy s \<longrightarrow> tidy s')"

interpretation tidies: step_order tidies
  by unfold_locales (auto simp: tidies_def)

lemma live_note:
  "live (s\<lparr>fd_trace := fd_trace s @ [x]\<rparr>) = Option.bind (live s) (\<lambda>n. live_clients n [x])"
  by (simp add: live_def live_append)

definition silent :: "feed_call \<Rightarrow> bool" where
  "silent x \<longleftrightarrow> x \<noteq> Opened \<and> x \<noteq> Closed"

lemma tidies_note: "silent x \<Longrightarrow> moves tidies (feed_note x)"
  by (cases x) (auto simp: moves_def tidies_def tidy_def feed_note_def act_run live_note silent_def)

lemma tidies_log: "moves tidies (feed_log ev)" "moves tidies (portfolio_log ev)"
  unfolding feed_log_def portfolio_log_def by (simp_all add: tidies_note silent_def)

lemma tidies_raised: "moves tidies (raised x)"
  by (cases x) (simp_all add: raised_def tidies.ret tidies.raise)

lemma tidies_attempts:
  "moves tidies (act_modify (\<lambda>s. s\<lparr>fd_attempt := n\<rparr>))" "moves tidies fresh_attempts"
  "moves tidies (act_modify (\<lambda>s. s\<lparr>fd_pubsub := b\<rparr>))"
  unfolding fresh_attempts_def by (intro tidies.modify; simp add: tidies_def tidy_def live_def)+

lemma close_closes: "tidy s \<Longrightarrow> live (snd (close_client s)) = Some 0 \<and> fst (close_client s) = Inr ()"
  by (auto simp: close_client_def act_run feed_note_def tidy_def live_note)

lemma open_tidy: "live s = Some 0 \<Longrightarrow> tidy (snd (open_redis_client v s))"
  by (auto simp: open_redis_client_def act_run raised_def feed_note_def tidy_def live_note live_def live_append
      split: option.split)

lemma tidies_reopen:
  assumes "moves tidies again"
  shows "moves tidies (act_then close_client (act_then (open_redis_client v) again))"
  unfolding moves_def tidies_def
proof (intro allI impI)
  fix s assume "tidy s"
  then have closed: "live (snd (close_client s)) = Some 0" "fst (close_client s) = Inr ()" by (simp_all add: close_closes)
  obtain s1 where s1: "close_client s = (Inr (), s1)" using closed(2) by (cases "close_client s") simp
  then have "tidy (snd (open_redis_client v s1))" using closed(1) by (simp add: open_tidy)
  then show "tidy (snd (act_then close_client (act_then (open_redis_client v) again) s))"
    using movesD [OF assms] by (auto simp: act_run s1 tidies_def split: prod.split sum.split)
qed

lemma tidies_back_off: "moves tidies again \<Longrightarrow> moves tidies (back_off again v)"
  unfolding back_off_def
  by (intro tidies.reading tidies.seq2 tidies.cond tidies.ret tidies_note tidies_attempts) (simp_all add: silent_def)

lemma tidies_reconnect: "moves tidies again \<Longrightarrow> moves tidies (reconnect v again)"
  unfolding reconnect_def by (intro tidies.seq2 tidies_log tidies_back_off tidies_reopen)

lemma tidies_turn: "silent ask \<Longrightarrow> moves tidies rest \<Longrightarrow> moves tidies (turn_head v waiting ask rest)"
  unfolding turn_head_def by (intro tidies.cond tidies.reading tidies.ret tidies.seq2 tidies_note)

lemma tidies_returned: "moves tidies wait \<Longrightarrow> moves tidies rest \<Longrightarrow> moves tidies (when_returned v wait rest)"
  by (intro tidies.cond tidies.reading tidies.seq2 tidies_note) (simp_all add: silent_def)

lemma tidies_xread: "moves tidies (xread_turns v p n waiting positions)"
proof (induction n arbitrary: waiting positions)
  case (Suc n)
  then show ?case
    by (auto intro!: tidies_turn tidies_returned tidies.reading tidies.seq2 tidies.cond tidies.ret tidies.raise tidies_note tidies_attempts
        tidies_reconnect tidies.for_each tidies_raised simp: silent_def split: sum.split prod.split)
qed (simp add: tidies.ret)

lemma tidies_groups: "moves tidies (ensure_consumer_groups v streams)"
  unfolding ensure_consumer_groups_def
  by (auto intro!: tidies.reading tidies.seq2 tidies.cond tidies.ret tidies.raise tidies_note tidies_log tidies.for_each
      simp: silent_def split: option.split)

lemma tidies_group_entry: "moves tidies (feed_group_entry v p stream entry)"
  unfolding feed_group_entry_def feed_effect_def
  by (auto intro!: tidies.reading tidies.seq2 tidies.ret tidies_note tidies.for_each tidies_raised
      simp: silent_def split: prod.split md_effect.split)

lemma tidies_xreadgroup: "moves tidies (xreadgroup_turns v p n waiting)"
proof (induction n arbitrary: waiting)
  case (Suc n)
  then show ?case
    by (auto intro!: tidies_turn tidies_returned tidies.reading tidies.seq2 tidies.cond tidies.ret tidies.raise tidies_note tidies_attempts
        tidies_reconnect tidies.for_each tidies_groups tidies_group_entry simp: silent_def split: sum.split prod.split)
qed (simp add: tidies.ret)

lemma first_open:
  assumes "moves tidies m"
  shows "live s = Some 0 \<Longrightarrow> tidy (snd (act_then (open_redis_client v) m s))"
  using open_tidy [of s v] movesD [OF assms] by (auto simp: act_run tidies_def split: prod.split sum.split)

lemma tidies_subscribe:
  "moves tidies (act_with fd_client (\<lambda>there. act_when (\<not> there) (subscribe_portfolio v channel)))"
proof -
  have rest: "moves tidies (act_then (act_modify (\<lambda>s. s\<lparr>fd_pubsub := True\<rparr>))
      (act_then (feed_note (Subscribed channel))
        (act_then (act_with (\<lambda>s. fv_subscribe v (fd_trace s)) raised)
          (act_then (portfolio_log ''subscribed'') fresh_attempts))))" (is "moves tidies ?rest")
    by (intro tidies.reading tidies.seq2 tidies_note tidies_attempts tidies_log tidies_raised) (simp add: silent_def)
  have "tidy (snd (act_then (open_redis_client v) ?rest s))" if "tidy s" "\<not> fd_client s" for s
    using that by (intro first_open [OF rest]) (auto simp: tidy_def)
  then show ?thesis by (simp add: moves_def tidies_def act_run(5,6) subscribe_portfolio_def)
qed

lemma tidies_drop: "moves tidies drop_connection"
  by (auto simp: moves_def tidies_def drop_connection_def close_pubsub_def close_client_def act_run feed_note_def tidy_def
      live_def live_append)

lemma tidies_portfolio: "moves tidies (portfolio_turns v channel job_id n)"
proof (induction n)
  case (Suc n)
  have message: "moves tidies (act_with (\<lambda>s. fv_message v (fd_trace s)) act_of)"
    by (intro tidies.reading tidies.result)
  have "moves tidies (portfolio_step v channel job_id)"
    unfolding portfolio_step_def
    by (auto intro!: tidies.seq2 tidies_subscribe tidies_note tidies.bind message tidies.ret tidies.reading tidies_raised
        simp: silent_def split: option.split)
  then show ?case
    using Suc.IH
    by (auto intro!: tidies.reading tidies.seq2 tidies.bind tidies.caught tidies.cond tidies.ret tidies.raise tidies_log
        tidies_back_off tidies_drop split: option.split)
qed (simp add: tidies.ret)

lemma finally_closes:
  assumes "tidy (snd (m s))" and "\<And>s. tidy s \<Longrightarrow> live (snd (f s)) = Some 0"
  shows "live (snd (finally_do m f s)) = Some 0"
proof -
  have "live (snd (f (snd (m s)))) = Some 0" using assms by blast
  then show ?thesis by (auto simp: finally_do_def act_run split: prod.split sum.split)
qed

lemma idle_tidy: "tidy idle_feed_state" "live idle_feed_state = Some 0"
  by (simp_all add: tidy_def live_def idle_feed_state_def)

lemma log_keeps_live: "live (snd (feed_log ev s)) = live s" "fst (feed_log ev s) = Inr ()"
  by (simp_all add: feed_log_def feed_note_def act_run live_note Option.bind_runit)

lemma then_runs: "fst (m s) = Inr () \<Longrightarrow> act_then m n s = n (snd (m s))"
  by (cases "m s") (simp add: act_run)

lemma close_and_log: "tidy s \<Longrightarrow> live (snd (act_then close_client (feed_log ev) s)) = Some 0"
  using close_closes [of s] by (simp add: then_runs log_keeps_live)

lemma tidies_logs: "moves tidies (act_seq (map feed_log evs))"
  by (intro tidies.seq) (auto simp: tidies_log)

lemma xread_closes: "live s = Some 0 \<Longrightarrow> live (snd (run_xread_loop v p fuel s)) = Some 0"
  unfolding run_xread_loop_def
  by (rule finally_closes [OF first_open]) (intro tidies.seq2 tidies_logs tidies_xread, simp_all only: close_and_log)

lemma xreadgroup_closes: "live s = Some 0 \<Longrightarrow> live (snd (run_xreadgroup_loop v p fuel s)) = Some 0"
  unfolding run_xreadgroup_loop_def
  by (rule finally_closes [OF first_open])
    (intro tidies.seq2 tidies_log tidies_logs tidies_groups tidies_xreadgroup, simp_all only: close_and_log)

text \<open>
  C22: however a feed runs and however it ends, there are never two open Redis clients, and after it has
  returned or raised none is left open.
\<close>

theorem feeds_close_their_client:
  "live_clients 0 (fd_trace (snd (run_market_data_redis_loop v p fuel idle_feed_state))) = Some 0 \<and>
   live_clients 0 (fd_trace (snd (run_portfolio_update_pubsub_loop v channel job fuel idle_feed_state))) = Some 0"
proof
  have "live (snd (feed_log ''step_ingress_plan'' idle_feed_state)) = Some 0" by (simp add: log_keeps_live idle_tidy)
  then have "live (snd (run_market_data_redis_loop v p fuel idle_feed_state)) = Some 0"
    by (simp add: run_market_data_redis_loop_def Let_def act_run(1,2) then_runs log_keeps_live idle_tidy xread_closes
        xreadgroup_closes)
  then show "live_clients 0 (fd_trace (snd (run_market_data_redis_loop v p fuel idle_feed_state))) = Some 0"
    by (simp add: live_def)
  have "live (snd (act_then close_pubsub close_client s)) = Some 0" if "tidy s" for s
    using that by (auto simp: act_run close_pubsub_def close_client_def feed_note_def tidy_def live_note live_def live_append)
  then have "live (snd (finally_do (portfolio_turns v channel t fuel) (act_then close_pubsub close_client) idle_feed_state)) =
      Some 0" for t
    using movesD [OF tidies_portfolio, of idle_feed_state v channel t fuel]
    by (intro finally_closes) (simp_all add: tidies_def idle_tidy)
  then have "live (snd (run_portfolio_update_pubsub_loop v channel job fuel idle_feed_state)) = Some 0"
    by (simp add: run_portfolio_update_pubsub_loop_def Let_def act_run(1,4) portfolio_log_def feed_note_def act_run(7)
        live_note idle_tidy)
  then show "live_clients 0 (fd_trace (snd (run_portfolio_update_pubsub_loop v channel job fuel idle_feed_state))) = Some 0"
    by (simp add: live_def)
qed

end
