(* ===== verification/FeedProps.thy ===== *)
theory FeedProps
  imports FeedLoops
begin

text \<open>
  What the feeds do with the streams: \<open>XREAD\<close> hands every entry after the starting id (with \<open>$\<close>, after the
  point where the first answer begins) on once and in order, whatever connections are lost; \<open>XREADGROUP\<close>
  acknowledges every entry once, after its fields; a feed that is told to stop ends, unless a read blocks it.
\<close>

section \<open>What a run has read\<close>

definition responses :: "feed_call list \<Rightarrow> (string \<times> stream_entries) list list" where
  "responses tr = concat (map (\<lambda>x. case x of Answered resp \<Rightarrow> [resp] | _ \<Rightarrow> []) tr)"

definition answered :: "string \<Rightarrow> feed_call list \<Rightarrow> stream_entries" where
  "answered s tr = concat (map (\<lambda>resp. concat (map snd (filter (\<lambda>r. fst r = s) resp))) (responses tr))"

definition fed_effects :: "feed_call list \<Rightarrow> md_effect list" where
  "fed_effects tr = concat (map (\<lambda>x. case x of Fed e \<Rightarrow> [e] | _ \<Rightarrow> []) tr)"

lemma responses_append [simp]: "responses (a @ b) = responses a @ responses b"
  by (simp add: responses_def)

lemma answered_append [simp]: "answered s (a @ b) = answered s a @ answered s b"
  by (simp add: answered_def)

lemma fed_append [simp]: "fed_effects (a @ b) = fed_effects a @ fed_effects b"
  by (simp add: fed_effects_def)

lemma one_call [simp]:
  "responses (x # tr) = (case x of Answered resp \<Rightarrow> resp # responses tr | _ \<Rightarrow> responses tr)"
  "fed_effects (x # tr) = (case x of Fed e \<Rightarrow> e # fed_effects tr | _ \<Rightarrow> fed_effects tr)"
  "responses [] = []" "answered s [] = []" "fed_effects [] = []"
  by (auto simp: responses_def fed_effects_def answered_def split: feed_call.split)

lemma distinct_stream:
  "distinct (map fst resp) \<Longrightarrow>
   concat (map snd (filter (\<lambda>r. fst r = s) resp)) = (case map_of resp s of None \<Rightarrow> [] | Some ms \<Rightarrow> ms)"
proof (induction resp)
  case (Cons r resp)
  have "filter (\<lambda>r. fst r = s) resp = []" if "fst r = s"
    using Cons.prems that by (auto simp: filter_empty_conv) (metis fst_conv image_eqI)
  then show ?case using Cons by (cases r) auto
qed simp

section \<open>Logs\<close>

text \<open>The entries of a stream after an id, in the order of the server.\<close>

definition after_id :: "(string \<Rightarrow> string \<Rightarrow> bool) \<Rightarrow> string \<Rightarrow> stream_entries \<Rightarrow> stream_entries" where
  "after_id gt q es = filter (\<lambda>e. gt (fst e) q) es"

definition id_order :: "(string \<Rightarrow> string \<Rightarrow> bool) \<Rightarrow> bool" where
  "id_order gt \<longleftrightarrow> (\<forall>a. \<not> gt a a) \<and> (\<forall>a b c. gt a b \<longrightarrow> gt b c \<longrightarrow> gt a c)"

text \<open>The ids of a stream grow, and none is the word for its end.\<close>

definition log_ok :: "(string \<Rightarrow> string \<Rightarrow> bool) \<Rightarrow> stream_entries \<Rightarrow> bool" where
  "log_ok gt es \<longleftrightarrow> sorted_wrt (\<lambda>a b. gt (fst b) (fst a)) es \<and> ''$'' \<notin> fst ` set es"

text \<open>
  \<open>XREAD\<close>: an answer names streams that were asked for, once each, and gives of each some of the entries
  after the position asked with, in order and from the first one on. Asked with \<open>$\<close>, the position is where
  the stream ended when the server got the call.
\<close>

definition lawful_answer ::
  "(string \<Rightarrow> string \<Rightarrow> bool) \<Rightarrow> (string \<Rightarrow> stream_entries) \<Rightarrow> (string \<times> string) list \<Rightarrow>
   (string \<times> stream_entries) list \<Rightarrow> bool" where
  "lawful_answer gt entries pos resp \<longleftrightarrow> distinct (map fst resp) \<and>
     (\<forall>(t, ms) \<in> set resp. \<exists>q q' n. dict_get pos t = Some q \<and> (q \<noteq> ''$'' \<longrightarrow> q' = q) \<and>
        ms = take n (after_id gt q' (entries t)))"

definition reads_log :: "feed_env \<Rightarrow> (string \<Rightarrow> string \<Rightarrow> bool) \<Rightarrow> (string \<Rightarrow> stream_entries) \<Rightarrow> bool" where
  "reads_log v gt entries \<longleftrightarrow>
     (\<forall>tr positions resp. fv_xread v tr positions = Inr resp \<longrightarrow>
        lawful_answer gt entries positions resp)"

lemma filter_after:
  assumes "id_order gt" and "sorted_wrt (\<lambda>a b. gt (fst b) (fst a)) xs" and "j < length xs"
  shows "filter (\<lambda>e. gt (fst e) (fst (xs ! j))) xs = drop (Suc j) xs"
  using assms(2,3)
proof (induction xs arbitrary: j)
  case (Cons x xs)
  show ?case
  proof (cases j)
    case 0
    then show ?thesis using Cons.prems assms(1) by (simp add: id_order_def)
  next
    case (Suc i)
    have "gt (fst (xs ! i)) (fst x)" using Cons.prems Suc by simp
    then have "\<not> gt (fst x) (fst (xs ! i))" using assms(1) unfolding id_order_def by blast
    then show ?thesis using Cons Suc by simp
  qed
qed simp

lemma after_last:
  assumes "id_order gt" and "log_ok gt es" and "ms = take n (after_id gt q es)" and "ms \<noteq> []"
  shows "after_id gt (fst (last ms)) es = drop (length ms) (after_id gt q es)"
proof -
  let ?L = "after_id gt q es" and ?j = "length ms - 1"
  have "length ms \<le> length ?L" "0 < length ms" using assms(3,4) by auto
  then have j: "?j < length ?L" "Suc ?j = length ms" by linarith+
  have "?j < n" using assms(3,4) by (cases n) auto
  then have last: "last ms = ?L ! ?j" using assms(3,4) by (metis last_conv_nth nth_take)
  have sorted: "sorted_wrt (\<lambda>a b. gt (fst b) (fst a)) ?L"
    using assms(2) by (simp add: log_ok_def after_id_def sorted_wrt_filter)
  have "gt (fst (?L ! ?j)) q" using nth_mem [OF j(1)] by (simp add: after_id_def)
  then have "after_id gt (fst (last ms)) es = filter (\<lambda>e. gt (fst e) (fst (?L ! ?j))) ?L"
    using assms(1) unfolding last after_id_def id_order_def by (auto simp: conj_commute intro!: filter_cong)
  then show ?thesis using filter_after [OF assms(1) sorted j(1)] j(2) by simp
qed

lemma after_not_end: "log_ok gt es \<Longrightarrow> e \<in> set (after_id gt q es) \<Longrightarrow> fst e \<noteq> ''$''"
  unfolding log_ok_def after_id_def by (metis filter_is_subset image_eqI subsetD)

section \<open>What a response leaves\<close>

definition entry_effects :: "feed_env \<Rightarrow> feed_plan \<Rightarrow> string \<Rightarrow> string \<times> (string \<times> string) list option \<Rightarrow> md_effect list" where
  "entry_effects v p stream entry =
     (case snd entry of
        None \<Rightarrow> []
      | Some fs \<Rightarrow> fst (process_fields (fv_md v) (fp_keys p) (fp_timeframe p) (fp_symbol p) stream (fst entry) fs []))"

definition response_effects :: "feed_env \<Rightarrow> feed_plan \<Rightarrow> (string \<times> stream_entries) list \<Rightarrow> md_effect list" where
  "response_effects v p resp = concat (map (\<lambda>(stream, ms). concat (map (entry_effects v p stream) ms)) resp)"

lemma process_fields_done:
  "process_fields w keys tf t s m fs done =
     (case process_fields w keys tf t s m fs [] of (es, x) \<Rightarrow> (done @ es, x))"
proof (induction fs arbitrary: "done")
  case (Cons f fs)
  show ?case
  proof (cases "process_one_stream_field w keys tf t s m (fst f) (snd f)")
    case (Inr es)
    show ?thesis
      using Cons.IH [of "done @ es"] Cons.IH [of es] Inr by (cases f) (simp split: prod.split)
  qed (cases f, simp)
qed simp

lemma messages_left:
  assumes "xread_messages (fv_md v) (fp_keys p) (fp_timeframe p) (fp_symbol p) s ms l done = (l', done', None)"
  shows "l' = (if ms = [] then l else fst (last ms)) \<and> done' = done @ concat (map (entry_effects v p s) ms)"
  using assms
proof (induction ms arbitrary: l "done")
  case (Cons m ms)
  obtain i content where m: "m = (i, content)" by (cases m)
  show ?case
  proof (cases content)
    case None
    then show ?thesis using Cons by (auto simp: m entry_effects_def)
  next
    case (Some fs)
    obtain es x where es: "process_fields (fv_md v) (fp_keys p) (fp_timeframe p) (fp_symbol p) s i fs [] = (es, x)"
      by (metis surj_pair)
    moreover have "x = None" "xread_messages (fv_md v) (fp_keys p) (fp_timeframe p) (fp_symbol p) s ms i (done @ es) = (l', done', None)"
      using Cons.prems es Some by (auto simp: m process_fields_done [of _ _ _ _ _ _ fs "done"] split: option.splits)
    ultimately show ?thesis using Cons.IH [of i "done @ es"] Some by (auto simp: m entry_effects_def)
  qed
qed simp

lemma response_left:
  assumes "xread_response (fv_md v) (fp_keys p) (fp_timeframe p) (fp_symbol p) start resp pos done = (pos', done', None)"
    and "distinct (map fst resp)"
  shows "done' = done @ response_effects v p resp \<and>
    dict_get pos' s = (case map_of resp s of
        None \<Rightarrow> dict_get pos s
      | Some ms \<Rightarrow> Some (if ms = [] then (case dict_get pos s of None \<Rightarrow> start | Some q \<Rightarrow> q) else fst (last ms)))"
  using assms
proof (induction resp arbitrary: pos "done")
  case (Cons r resp)
  obtain t ms where r: "r = (t, ms)" by (cases r)
  obtain l d where read: "xread_messages (fv_md v) (fp_keys p) (fp_timeframe p) (fp_symbol p) t ms
      (case dict_get pos t of None \<Rightarrow> start | Some q \<Rightarrow> q) done = (l, d, None)"
    and rest: "xread_response (fv_md v) (fp_keys p) (fp_timeframe p) (fp_symbol p) start resp (dict_set t l pos) d =
      (pos', done', None)"
    using Cons.prems(1) by (auto simp: r split: prod.splits option.splits)
  have "map_of resp t = None" using Cons.prems(2) r by (simp add: map_of_eq_None_iff)
  then show ?case
    using Cons.IH [OF rest] Cons.prems(2) messages_left [OF read]
    by (auto simp: r response_effects_def split: option.split)
qed (simp add: response_effects_def)

section \<open>XREAD reads on\<close>

definition same_reading :: "feed_state \<Rightarrow> feed_state \<Rightarrow> bool" where
  "same_reading s s' \<longleftrightarrow> responses (fd_trace s') = responses (fd_trace s) \<and>
     fed_effects (fd_trace s') = fed_effects (fd_trace s)"

interpretation same_reading: step_order same_reading
  by unfold_locales (simp_all add: same_reading_def)

definition other_call :: "feed_call \<Rightarrow> bool" where
  "other_call x \<longleftrightarrow> responses [x] = [] \<and> fed_effects [x] = []"

lemma reading_note: "other_call x \<Longrightarrow> moves same_reading (feed_note x)"
  unfolding feed_note_def by (intro same_reading.modify) (simp add: same_reading_def other_call_def)

lemma other_calls [simp]:
  "other_call (FeedLog t)" "other_call Opened" "other_call Closed" "other_call (GroupCreated t)"
  "other_call StillBlocked" "other_call (AskedStreams ps i j)" "other_call (AskedGroup i j)" "other_call (FeedPrint t)" "other_call (Waited n)"
  by (simp_all add: other_call_def)

lemma reading_log: "moves same_reading (feed_log ev)"
  unfolding feed_log_def by (simp add: reading_note)

lemma reading_raised: "moves same_reading (raised x)"
  by (cases x) (simp_all add: raised_def same_reading.ret same_reading.raise)

lemma reading_client:
  "moves same_reading (open_redis_client v)" "moves same_reading close_client" "moves same_reading fresh_attempts"
  unfolding open_redis_client_def close_client_def fresh_attempts_def
  by (intro same_reading.reading same_reading.seq2 same_reading.guarded reading_raised reading_note same_reading.modify;
      simp add: same_reading_def)+

lemma reading_groups: "moves same_reading (ensure_consumer_groups v streams)"
  unfolding ensure_consumer_groups_def
  by (auto intro!: same_reading.reading same_reading.seq2 same_reading.ret same_reading.raise reading_note reading_log
      same_reading.for_each split: option.split)

text \<open>A predicate on what was read, over steps that read nothing.\<close>

definition about_reading :: "(feed_state \<Rightarrow> bool) \<Rightarrow> bool" where
  "about_reading P \<longleftrightarrow> (\<forall>s s'. same_reading s s' \<longrightarrow> P s = P s')"

lemma still_reading:
  assumes "about_reading P" and "moves same_reading m"
  shows "triple P m (\<lambda>_. P) (\<lambda>_. P)"
  using movesD [OF assms(2)] assms(1) unfolding triple_def about_reading_def
  by (auto split: prod.split sum.split) (metis snd_conv)+

lemma triple_with:
  "(\<And>s. triple P (m (f s)) Q E) \<Longrightarrow> triple P (act_with f m) Q E"
  by (simp add: triple_def act_run)

lemma triple_if:
  "(b \<Longrightarrow> triple P m Q E) \<Longrightarrow> (\<not> b \<Longrightarrow> triple P n Q E) \<Longrightarrow> triple P (if b then m else n) Q E"
  by simp

lemma triple_ends: "(\<And>s. P s \<Longrightarrow> Q x s) \<Longrightarrow> triple P (act_ret x) Q E"
  by (simp add: triple_def act_run)

lemma triple_fails: "(\<And>s. P s \<Longrightarrow> E e s) \<Longrightarrow> triple P (act_raise e) Q E"
  by (simp add: triple_def act_run)

lemma still_then:
  assumes "about_reading P" and "moves same_reading m" and "\<And>s. P s \<Longrightarrow> X s"
    and "triple P n Q (\<lambda>_. X)"
  shows "triple P (act_then m n) Q (\<lambda>_. X)"
proof (rule triple_then)
  show "triple P m (\<lambda>_. P) (\<lambda>_. X)"
    by (rule triple_weaken [OF still_reading [OF assms(1,2)]]) (simp_all add: assms(3))
qed (rule assms(4))

lemma turn_reading:
  assumes "about_reading P" and "other_call ask" and "triple P rest (\<lambda>_. N) (\<lambda>_. X)"
    and "\<And>s. P s \<Longrightarrow> N s" and "\<And>s. P s \<Longrightarrow> X s"
  shows "triple P (turn_head v waiting ask rest) (\<lambda>_. N) (\<lambda>_. X)"
  unfolding turn_head_def
  by (rule triple_if, rule assms(3), rule triple_with, rule triple_if, rule triple_ends, erule assms(4),
      rule still_then [OF assms(1) reading_note [OF assms(2)] assms(5,3)])

lemma returned_reading:
  assumes "about_reading P" and "triple P wait (\<lambda>_. N) (\<lambda>_. X)" and "triple P rest (\<lambda>_. N) (\<lambda>_. X)"
    and "\<And>s. P s \<Longrightarrow> X s"
  shows "triple P (when_returned v wait rest) (\<lambda>_. N) (\<lambda>_. X)"
proof -
  have "moves same_reading (feed_note StillBlocked)" by (simp add: reading_note)
  then show ?thesis
    by (intro triple_with triple_if assms(3) still_then [OF assms(1) _ assms(4,2)])
qed

lemma reconnect_reading:
  assumes "about_reading P" and "triple P again (\<lambda>_. N) (\<lambda>_. X)" and "\<And>s. P s \<Longrightarrow> N s" and "\<And>s. P s \<Longrightarrow> X s"
  shows "triple P (reconnect v again) (\<lambda>_. N) (\<lambda>_. X)"
proof -
  have attempts: "moves same_reading (act_modify (\<lambda>s. s\<lparr>fd_attempt := n\<rparr>))" for n
    by (intro same_reading.modify) (simp add: same_reading_def)
  have reopened: "triple P (act_then close_client (act_then (open_redis_client v) again)) (\<lambda>_. N) (\<lambda>_. X)"
    by (rule still_then [OF assms(1) reading_client(2) assms(4)], assumption)
      (rule still_then [OF assms(1) reading_client(1) assms(4) assms(2)])
  have waited: "triple P (act_with (\<lambda>s. fv_wait v (fd_trace s)) (\<lambda>stopped. if stopped then act_ret FeedEnded
      else act_then (act_modify (\<lambda>s. s\<lparr>fd_attempt := n + 1\<rparr>))
        (act_then close_client (act_then (open_redis_client v) again)))) (\<lambda>_. N) (\<lambda>_. X)" for n
    by (rule triple_with, rule triple_if, rule triple_ends, erule assms(3))
      (rule still_then [OF assms(1) attempts assms(4) reopened])
  have noted: "moves same_reading (feed_note (Waited n))" for n by (simp add: reading_note)
  have "triple P (back_off (act_then close_client (act_then (open_redis_client v) again)) v) (\<lambda>_. N) (\<lambda>_. X)"
    unfolding back_off_def
    by (rule triple_with) (rule still_then [OF assms(1) noted assms(4) waited])
  then show ?thesis
    unfolding reconnect_def by (intro still_then [OF assms(1) reading_log assms(4)])
qed

definition read_up_to ::
  "(string \<Rightarrow> string \<Rightarrow> bool) \<Rightarrow> (string \<Rightarrow> stream_entries) \<Rightarrow> string \<Rightarrow> string set \<Rightarrow> feed_state \<Rightarrow> bool" where
  "read_up_to gt entries start streams s \<longleftrightarrow>
     (\<forall>t \<in> streams. \<exists>q k. (start \<noteq> ''$'' \<longrightarrow> q = start) \<and>
        answered t (fd_trace s) = take k (after_id gt q (entries t)))"

definition all_fed :: "feed_env \<Rightarrow> feed_plan \<Rightarrow> feed_state \<Rightarrow> bool" where
  "all_fed v p s \<longleftrightarrow> fed_effects (fd_trace s) = concat (map (response_effects v p) (responses (fd_trace s)))"

text \<open>Read and left to read: the two parts of what comes after the start.\<close>

definition reads_from ::
  "(string \<Rightarrow> string \<Rightarrow> bool) \<Rightarrow> stream_entries \<Rightarrow> string \<Rightarrow> stream_entries \<Rightarrow> stream_entries \<Rightarrow> bool" where
  "reads_from gt es start got left \<longleftrightarrow>
     (\<exists>q k. (start \<noteq> ''$'' \<longrightarrow> q = start) \<and> got = take k (after_id gt q es) \<and> left = drop k (after_id gt q es))"

definition reading_at ::
  "(string \<Rightarrow> string \<Rightarrow> bool) \<Rightarrow> (string \<Rightarrow> stream_entries) \<Rightarrow> string \<Rightarrow> string set \<Rightarrow> (string \<times> string) list \<Rightarrow>
   feed_state \<Rightarrow> bool" where
  "reading_at gt entries start streams pos s \<longleftrightarrow>
     (\<forall>t \<in> streams. \<exists>q. dict_get pos t = Some q \<and>
        (q = ''$'' \<and> start = ''$'' \<and> answered t (fd_trace s) = [] \<or>
         q \<noteq> ''$'' \<and> reads_from gt (entries t) start (answered t (fd_trace s)) (after_id gt q (entries t))))"

lemma about_reading_at:
  "about_reading (\<lambda>s. reading_at gt entries start streams pos s \<and> all_fed v p s)"
  unfolding about_reading_def same_reading_def reading_at_def all_fed_def answered_def by simp

lemma nothing_read: "\<exists>q k. (start \<noteq> ''$'' \<longrightarrow> q = start) \<and> [] = take k (after_id gt q es)"
  by (intro exI [of _ start] exI [of _ 0]) simp

lemma reading_up_to: "reading_at gt entries start streams pos s \<Longrightarrow> read_up_to gt entries start streams s"
  unfolding reading_at_def read_up_to_def reads_from_def using nothing_read [of start gt] by fastforce

text \<open>An answer continues what was read, and its last ids are where reading goes on.\<close>

definition next_id :: "(string \<times> string) list \<Rightarrow> (string \<times> stream_entries) list \<Rightarrow> string \<Rightarrow> string" where
  "next_id pos resp t =
     (case map_of resp t of
        None \<Rightarrow> the (dict_get pos t) | Some ms \<Rightarrow> if ms = [] then the (dict_get pos t) else fst (last ms))"

lemma take_prefix: "take (length (take n xs)) xs = take n xs"
  by (cases "n \<le> length xs") simp_all

lemma reads_some:
  assumes "id_order gt" and "log_ok gt es" and "ms = take n (after_id gt q es)" and "ms \<noteq> []"
    and "reads_from gt es start got (after_id gt q es)"
  shows "fst (last ms) \<noteq> ''$'' \<and> reads_from gt es start (got @ ms) (after_id gt (fst (last ms)) es)"
proof -
  obtain q0 k where q0: "start \<noteq> ''$'' \<longrightarrow> q0 = start" "got = take k (after_id gt q0 es)"
    "after_id gt q es = drop k (after_id gt q0 es)"
    using assms(5) unfolding reads_from_def by blast
  have "last ms \<in> set (after_id gt q es)" using last_in_set [OF assms(4)] assms(3) by (metis in_set_takeD)
  then have "fst (last ms) \<noteq> ''$''" by (rule after_not_end [OF assms(2)])
  moreover have "got @ ms = take (k + length ms) (after_id gt q0 es)"
    using assms(3) q0(2,3) take_prefix [of n "drop k (after_id gt q0 es)"] by (simp add: take_add)
  moreover have "after_id gt (fst (last ms)) es = drop (k + length ms) (after_id gt q0 es)"
    using after_last [OF assms(1,2,3,4)] q0(3) by (simp add: add.commute)
  ultimately show ?thesis unfolding reads_from_def using q0(1) by blast
qed

lemma reads_nothing_yet: "(start \<noteq> ''$'' \<longrightarrow> q = start) \<Longrightarrow> reads_from gt es start [] (after_id gt q es)"
  unfolding reads_from_def by (intro exI [of _ q] exI [of _ 0]) simp

lemma answer_continues:
  assumes "reading_at gt entries start streams pos s0" and "t \<in> streams"
    and "id_order gt" and "\<And>t. log_ok gt (entries t)" and "lawful_answer gt entries pos resp"
    and "fd_trace s = fd_trace s0 @ Answered resp # map Fed effects"
  shows "dict_get pos t \<noteq> None \<and>
    (next_id pos resp t = ''$'' \<and> start = ''$'' \<and> answered t (fd_trace s) = [] \<or>
     next_id pos resp t \<noteq> ''$'' \<and>
       reads_from gt (entries t) start (answered t (fd_trace s)) (after_id gt (next_id pos resp t) (entries t)))"
proof -
  obtain q where q: "dict_get pos t = Some q"
    "q = ''$'' \<and> start = ''$'' \<and> answered t (fd_trace s0) = [] \<or>
     q \<noteq> ''$'' \<and> reads_from gt (entries t) start (answered t (fd_trace s0)) (after_id gt q (entries t))"
    using assms(1,2) unfolding reading_at_def by blast
  have quiet: "answered t (map Fed effects) = []"
    by (induction effects) (simp_all add: answered_def responses_def)
  have "distinct (map fst resp)" using assms(5) by (simp add: lawful_answer_def)
  then have read: "answered t (fd_trace s) = answered t (fd_trace s0) @ (case map_of resp t of None \<Rightarrow> [] | Some ms \<Rightarrow> ms)"
    using distinct_stream [of resp t] quiet by (simp add: assms(6) answered_def responses_def)
  show ?thesis
  proof (cases "map_of resp t = None \<or> map_of resp t = Some []")
    case True
    then have "next_id pos resp t = q" by (auto simp: next_id_def q(1))
    then show ?thesis using True q read by auto
  next
    case False
    then obtain ms where ms: "map_of resp t = Some ms" "ms \<noteq> []" by auto
    then have "(t, ms) \<in> set resp" by (blast intro: map_of_SomeD)
    then obtain q' n where n: "q \<noteq> ''$'' \<longrightarrow> q' = q" "ms = take n (after_id gt q' (entries t))"
      using assms(5) q(1) unfolding lawful_answer_def by fastforce
    have from': "reads_from gt (entries t) start (answered t (fd_trace s0)) (after_id gt q' (entries t))"
      using q(2) n(1) reads_nothing_yet [of start q' gt "entries t"] by auto
    have "next_id pos resp t = fst (last ms)" using ms by (simp add: next_id_def)
    then show ?thesis
      using reads_some [OF assms(3,4) n(2) ms(2) from'] q(1) read ms(1) by simp
  qed
qed

lemma answer_moves_on:
  assumes "reading_at gt entries start streams pos s0" and "id_order gt" and "\<And>t. log_ok gt (entries t)"
    and "lawful_answer gt entries pos resp" and "fd_trace s = fd_trace s0 @ Answered resp # map Fed effects"
    and "\<And>t. dict_get pos t \<noteq> None \<Longrightarrow> dict_get pos' t = Some (next_id pos resp t)"
  shows "reading_at gt entries start streams pos' s"
  unfolding reading_at_def using answer_continues [OF assms(1) _ assms(2,3,4,5)] assms(6) by metis

lemma answer_read:
  assumes "reading_at gt entries start streams pos s0" and "id_order gt" and "\<And>t. log_ok gt (entries t)"
    and "lawful_answer gt entries pos resp" and "fd_trace s = fd_trace s0 @ Answered resp # map Fed effects"
  shows "read_up_to gt entries start streams s"
  using answer_continues [OF assms(1) _ assms(2,3,4,5)] nothing_read [of start gt]
  unfolding read_up_to_def reads_from_def by fastforce

lemma note_run: "feed_note x s = (Inr (), s\<lparr>fd_trace := fd_trace s @ [x]\<rparr>)"
  by (simp add: feed_note_def act_run)

lemma fed_noted: "act_for effects (\<lambda>x. feed_note (Fed x)) s = (Inr (), s\<lparr>fd_trace := fd_trace s @ map Fed effects\<rparr>)"
  by (induction effects arbitrary: s) (simp_all add: act_run feed_note_def)

lemma feds: "fed_effects (map Fed effects) = effects" "responses (map Fed effects) = []"
  by (induction effects) (simp_all add: fed_effects_def responses_def)

lemma xread_reads_on:
  assumes laws: "reads_log v gt entries" "id_order gt" "\<And>t. log_ok gt (entries t)"
  shows "triple (\<lambda>s. reading_at gt entries start streams pos s \<and> all_fed v p s) (xread_turns v p n waiting pos)
    (\<lambda>_ s. read_up_to gt entries start streams s \<and> all_fed v p s) (\<lambda>_. read_up_to gt entries start streams)"
proof (induction n arbitrary: waiting pos)
  case 0
  show ?case by (simp, rule triple_ends) (auto intro: reading_up_to)
next
  case (Suc n)
  let ?P = "\<lambda>s. reading_at gt entries start streams pos s \<and> all_fed v p s"
  let ?N = "\<lambda>(_::feed_exit) s. read_up_to gt entries start streams s \<and> all_fed v p s"
  let ?X = "\<lambda>(_::py_exc). read_up_to gt entries start streams"
  let ?read = "xread_response (fv_md v) (fp_keys p) (fp_timeframe p) (fp_symbol p) (fp_start p)"
  let ?answer = "\<lambda>resp. act_then fresh_attempts (act_then (feed_note (Answered resp))
      (case ?read resp pos [] of (pos', effects, failure) \<Rightarrow> act_then (act_for effects (\<lambda>x. feed_note (Fed x)))
        (act_then (raised failure) (xread_turns v p n False pos'))))"
  have answer: "triple ?P (?answer resp) ?N ?X" if lawful: "lawful_answer gt entries pos resp" for resp
    unfolding triple_def
  proof (intro allI impI)
    fix s assume P: "?P s"
    obtain pos' effects failure where resp: "?read resp pos [] = (pos', effects, failure)" by (metis surj_pair)
    let ?s = "s\<lparr>fd_attempt := 0, fd_trace := fd_trace s @ Answered resp # map Fed effects\<rparr>"
    have run: "?answer resp s = act_then (raised failure) (xread_turns v p n False pos') ?s"
      by (simp add: resp act_run(4,7) fresh_attempts_def note_run fed_noted)
    show "case ?answer resp s of (Inr x, s') \<Rightarrow> ?N x s' | (Inl e, s') \<Rightarrow> ?X e s'"
    proof (cases failure)
      case (Some e)
      have "read_up_to gt entries start streams ?s" using P by (intro answer_read [OF _ laws(2,3) lawful]) simp_all
      then show ?thesis unfolding run by (simp add: Some raised_def act_run(2,4))
    next
      case None
      have left: "effects = response_effects v p resp" "\<And>t. dict_get pos t \<noteq> None \<Longrightarrow> dict_get pos' t = Some (next_id pos resp t)"
        using response_left [OF resp [unfolded None]] lawful
        by (auto simp: lawful_answer_def next_id_def split: option.splits)
      have "reading_at gt entries start streams pos' ?s"
        using P by (intro answer_moves_on [OF _ laws(2,3) lawful _ left(2)]) simp_all
      moreover have "all_fed v p ?s" using P left(1) by (simp add: all_fed_def feds)
      ultimately show ?thesis
        using Suc.IH [of pos' False] unfolding run by (simp add: None raised_def act_run(1,4) triple_def)
    qed
  qed
  have asked: "triple ?P (act_with (\<lambda>s. fv_xread v (fd_trace s) pos) (\<lambda>a. case a of
      Inl e \<Rightarrow> if fv_lost v e then reconnect v (xread_turns v p n False pos) else act_raise e
    | Inr resp \<Rightarrow> ?answer resp)) ?N ?X"
  proof (rule triple_with)
    fix s
    show "triple ?P (case fv_xread v (fd_trace s) pos of
        Inl e \<Rightarrow> if fv_lost v e then reconnect v (xread_turns v p n False pos) else act_raise e | Inr resp \<Rightarrow> ?answer resp) ?N ?X"
    proof (cases "fv_xread v (fd_trace s) pos")
      case (Inl e)
      then show ?thesis
        using reconnect_reading [OF about_reading_at Suc.IH] by (auto intro!: triple_fails intro: reading_up_to)
    next
      case (Inr resp)
      then have "lawful_answer gt entries pos resp" using laws(1) unfolding reads_log_def by blast
      then show ?thesis using answer Inr by simp
    qed
  qed
  show ?case
    unfolding xread_turns.simps
    by (rule turn_reading [OF about_reading_at _ returned_reading [OF about_reading_at Suc.IH asked]])
      (auto intro: reading_up_to)
qed

lemma finally_reading:
  assumes "about_reading N" and "about_reading X" and "moves same_reading f"
    and "triple P m (\<lambda>_. N) (\<lambda>_. X)" and "\<And>s. N s \<Longrightarrow> X s"
  shows "triple P (finally_do m f) (\<lambda>_. N) (\<lambda>_. X)"
  unfolding finally_do_def
proof (rule triple_bind)
  have "triple X (act_then f (act_raise e)) (\<lambda>_. N) (\<lambda>_. X)" for e
    by (rule triple_then [OF still_reading [OF assms(2,3)]]) (rule triple_fails, assumption)
  then show "triple P (act_catch m (\<lambda>e. act_then f (act_raise e))) (\<lambda>_. N) (\<lambda>_. X)"
    by (rule triple_catch [OF assms(4)])
  show "triple N (act_then f (act_ret x)) (\<lambda>_. N) (\<lambda>_. X)" for x
    by (rule still_then [OF assms(1,3,5)], assumption) (rule triple_ends, assumption)
qed

lemma triple_outcome:
  assumes "triple P m (\<lambda>_. N) (\<lambda>_. X)" and "P s" and "m s = (r, s')" and "\<And>s. N s \<Longrightarrow> X s"
  shows "X s' \<and> (\<not> isl r \<longrightarrow> N s')"
  using assms by (cases r) (auto simp: triple_def)

lemma about_read: "about_reading (read_up_to gt entries start streams)"
  "about_reading (\<lambda>s. read_up_to gt entries start streams s \<and> all_fed v p s)"
  unfolding about_reading_def same_reading_def read_up_to_def all_fed_def answered_def by simp_all

lemma xread_loop_reads:
  assumes "reads_log v gt entries" and "id_order gt" and "\<And>t. log_ok gt (entries t)"
    and pos: "pos = map (\<lambda>s. (s, fp_start p)) (fp_streams p)"
  shows "triple (\<lambda>s. reading_at gt entries start streams pos s \<and> all_fed v p s) (run_xread_loop v p n)
    (\<lambda>_ s. read_up_to gt entries start streams s \<and> all_fed v p s) (\<lambda>_. read_up_to gt entries start streams)"
proof -
  let ?P = "\<lambda>s. reading_at gt entries start streams pos s \<and> all_fed v p s"
  have closing: "moves same_reading (act_then close_client (feed_log ''consumer_stopped''))"
    by (intro same_reading.seq2 reading_client reading_log)
  have logs: "moves same_reading (act_seq (map feed_log evs))" for evs
    by (intro same_reading.seq) (auto simp: reading_log)
  have up_to: "?P s \<Longrightarrow> read_up_to gt entries start streams s" for s
    by (auto intro: reading_up_to)
  show ?thesis
    unfolding run_xread_loop_def pos [symmetric]
    by (rule finally_reading [OF about_read(2,1) closing],
        rule still_then [OF about_reading_at reading_client(1) up_to], assumption,
        rule still_then [OF about_reading_at logs up_to], assumption,
        rule xread_reads_on [OF assms(1,2,3)], simp)
qed

text \<open>
  C20: read with plain \<open>XREAD\<close>, not with a consumer group, the feed reads every stream on without a gap or
  a repetition, however often the connection is lost and reads block: from its starting id, or, where that is
  \<open>$\<close> (which an empty one stands for), from the point where the first answer for the stream begins; and unless it
  raises it hands on exactly the effects of what it read, in order.
\<close>

theorem stream_read_once:
  assumes "reads_log v gt entries" and "id_order gt" and "\<And>t. log_ok gt (entries t)"
    and "\<not> fp_use_group p" and "t \<in> set (fp_streams p)"
    and "run_market_data_redis_loop v p fuel idle_feed_state = (r, s')"
  shows "(\<exists>q k. (py_strip (fp_start p) \<notin> {[], ''$''} \<longrightarrow> q = py_strip (fp_start p)) \<and>
       answered t (fd_trace s') = take k (after_id gt q (entries t))) \<and>
    (\<not> isl r \<longrightarrow> fed_effects (fd_trace s') = concat (map (response_effects v p) (responses (fd_trace s'))))"
proof -
  let ?start = "let t = py_strip (fp_start p) in if t = [] then ''$'' else t"
  let ?plan = "p\<lparr>fp_start := ?start, fp_group := py_strip (fp_group p), fp_consumer := py_strip (fp_consumer p)\<rparr>"
  let ?pos = "map (\<lambda>s. (s, ?start)) (fp_streams p)" and ?streams = "set (fp_streams p)"
  let ?P = "\<lambda>s. reading_at gt entries ?start ?streams ?pos s \<and> all_fed v ?plan s"
  have start: "py_strip (fp_start p) \<notin> {[], ''$''} \<Longrightarrow> ?start = py_strip (fp_start p) \<and> ?start \<noteq> ''$''"
    by (simp add: Let_def)
  have "fp_streams p \<noteq> []" using assms(5) by auto
  then have run: "run_market_data_redis_loop v p fuel = act_then (feed_log ''step_ingress_plan'') (run_xread_loop v ?plan fuel)"
    using assms(4) by (simp add: run_market_data_redis_loop_def Let_def)
  have "dict_get (map (\<lambda>s. (s, x)) (fp_streams p)) t = Some x" if "t \<in> ?streams" for t and x :: string
    using that by (induction "fp_streams p") (auto simp: dict_get_def map_of_map_restrict)
  then have idle: "?P idle_feed_state"
    using reads_nothing_yet [of ?start ?start gt]
    by (auto simp: reading_at_def all_fed_def idle_feed_state_def)
  have read: "triple ?P (run_market_data_redis_loop v p fuel)
      (\<lambda>_ s. read_up_to gt entries ?start ?streams s \<and> all_fed v ?plan s) (\<lambda>_. read_up_to gt entries ?start ?streams)"
    unfolding run
    by (rule still_then [OF about_reading_at reading_log _ xread_loop_reads [OF assms(1,2,3)]])
      (auto intro: reading_up_to)
  have "read_up_to gt entries ?start ?streams s' \<and>
      (\<not> isl r \<longrightarrow> read_up_to gt entries ?start ?streams s' \<and> all_fed v ?plan s')"
    by (rule triple_outcome [OF read idle assms(6)]) simp
  moreover have "entry_effects v ?plan = entry_effects v p"
    by (intro ext) (auto simp: entry_effects_def split: option.split)
  then have "response_effects v ?plan = response_effects v p" by (intro ext) (simp only: response_effects_def)
  ultimately have "\<exists>q k. (?start \<noteq> ''$'' \<longrightarrow> q = ?start) \<and> answered t (fd_trace s') = take k (after_id gt q (entries t))"
    and fed: "\<not> isl r \<longrightarrow> fed_effects (fd_trace s') = concat (map (response_effects v p) (responses (fd_trace s')))"
    using assms(5) by (auto simp: read_up_to_def all_fed_def)
  then show ?thesis using start by metis
qed

section \<open>Acknowledgements\<close>

definition entry_ids :: "(string \<times> stream_entries) list \<Rightarrow> (string \<times> string) list" where
  "entry_ids resp = concat (map (\<lambda>(stream, ms). map (\<lambda>e. (stream, fst e)) ms) resp)"

definition acked :: "md_effect list \<Rightarrow> (string \<times> string) list" where
  "acked es = concat (map (\<lambda>x. case x of Ack stream msg \<Rightarrow> [(stream, msg)] | _ \<Rightarrow> []) es)"

definition unacked :: "(string \<times> string) list \<Rightarrow> feed_state \<Rightarrow> bool" where
  "unacked rest s \<longleftrightarrow> concat (map entry_ids (responses (fd_trace s))) = acked (fed_effects (fd_trace s)) @ rest"

text \<open>The fields of an entry are a dictionary: no name twice.\<close>

definition fields_once :: "feed_env \<Rightarrow> bool" where
  "fields_once v \<longleftrightarrow>
     (\<forall>tr resp. fv_xreadgroup v tr = Inr resp \<longrightarrow>
        (\<forall>(stream, ms) \<in> set resp. \<forall>(msg, content) \<in> set ms. case content of None \<Rightarrow> True | Some fs \<Rightarrow> distinct (map fst fs)))"

lemma acked_append [simp]: "acked (a @ b) = acked a @ acked b" "acked [] = []" "acked [Ack t m] = [(t, m)]"
  by (simp_all add: acked_def)

lemma acked_none: "no_acks es \<Longrightarrow> acked es = []"
  by (induction es) (auto simp: acked_def no_acks_def split: md_effect.split)

lemma about_unacked: "about_reading (unacked rest)" "about_reading (\<lambda>s. \<exists>rest. unacked rest s)"
  unfolding about_reading_def same_reading_def unacked_def by simp_all

lemma group_entry_effects:
  assumes "group_message w keys tf t stream (msg, content) = (effects, failure)"
    and "case content of None \<Rightarrow> True | Some fs \<Rightarrow> distinct (map fst fs)"
  shows "case failure of None \<Rightarrow> \<exists>es. effects = es @ [Ack stream msg] \<and> no_acks es | Some e \<Rightarrow> no_acks effects"
proof (cases "content = None \<or> content = Some []")
  case True
  then show ?thesis using assms(1) by (auto simp: group_message_def no_acks_def)
next
  case False
  then obtain fs where fs: "content = Some fs" "fs \<noteq> []" by auto
  obtain es x where processed: "process_fields w keys tf t stream msg fs [] = (es, x)" by (metis surj_pair)
  then have "no_acks es" using process_fields_no_acks [of w keys tf t stream msg fs "[]" es x] by (simp add: no_acks_def)
  moreover have "distinct (map fst fs)" using assms(2) fs by simp
  ultimately show ?thesis
    using assms(1) fs group_fields_process [of fs w keys tf t stream msg "[]"] processed
    by (cases x) (auto simp: group_message_def split: prod.splits)
qed

lemma effects_without_acks:
  "no_acks es \<Longrightarrow> act_for es (feed_effect v) s = (Inr (), s\<lparr>fd_trace := fd_trace s @ map Fed es\<rparr>)"
  by (induction es arbitrary: s)
    (auto simp: act_run(1,4) note_run feed_effect_def no_acks_def split: md_effect.split)

lemma for_append: "act_for (a @ b) m s = act_then (act_for a m) (act_for b m) s"
  by (induction a arbitrary: s) (auto simp: act_run split: prod.split sum.split)

lemma entry_acked:
  assumes "case content of None \<Rightarrow> True | Some fs \<Rightarrow> distinct (map fst fs)"
  shows "triple (unacked ((stream, msg) # rest)) (feed_group_entry v p stream (msg, content))
    (\<lambda>_. unacked rest) (\<lambda>_ s. \<exists>rest. unacked rest s)"
  unfolding triple_def
proof (intro allI impI)
  fix s assume before: "unacked ((stream, msg) # rest) s"
  obtain effects failure where g: "group_message (fv_md v) (fp_keys p) (fp_timeframe p) (fp_symbol p) stream (msg, content) =
      (effects, failure)" by (metis surj_pair)
  show "case feed_group_entry v p stream (msg, content) s of (Inr x, s') \<Rightarrow> unacked rest s' | (Inl e, s') \<Rightarrow> \<exists>rest. unacked rest s'"
  proof (cases failure)
    case (Some e)
    then have "no_acks effects" using group_entry_effects [OF g assms] by simp
    then show ?thesis
      using before
      by (auto simp: feed_group_entry_def g Some act_run(2,4) raised_def effects_without_acks unacked_def feds acked_none)
  next
    case None
    then obtain es where es: "effects = es @ [Ack stream msg]" "no_acks es" using group_entry_effects [OF g assms] by auto
    have "unacked rest (s\<lparr>fd_trace := fd_trace s @ map Fed es @ [Fed (Ack stream msg)]\<rparr>)"
      using before es(2) by (simp add: unacked_def feds acked_none)
    then show ?thesis
      by (auto simp: feed_group_entry_def g None es for_append act_run(1,2,4,6) raised_def effects_without_acks [OF es(2)]
          feed_effect_def note_run split: option.split)
  qed
qed

lemma entries_acked:
  assumes "\<forall>(msg, content) \<in> set ms. case content of None \<Rightarrow> True | Some fs \<Rightarrow> distinct (map fst fs)"
  shows "triple (unacked (map (\<lambda>e. (stream, fst e)) ms @ rest)) (act_for ms (feed_group_entry v p stream))
    (\<lambda>_. unacked rest) (\<lambda>_ s. \<exists>rest. unacked rest s)"
  using assms
proof (induction ms)
  case (Cons e ms)
  obtain msg content where e: "e = (msg, content)" by (cases e)
  have "triple (unacked ((stream, msg) # map (\<lambda>e. (stream, fst e)) ms @ rest)) (feed_group_entry v p stream e)
      (\<lambda>_. unacked (map (\<lambda>e. (stream, fst e)) ms @ rest)) (\<lambda>_ s. \<exists>rest. unacked rest s)"
    unfolding e by (rule entry_acked) (use Cons.prems e in auto)
  moreover have "triple (unacked (map (\<lambda>e. (stream, fst e)) ms @ rest)) (act_for ms (feed_group_entry v p stream))
      (\<lambda>_. unacked rest) (\<lambda>_ s. \<exists>rest. unacked rest s)"
    using Cons by auto
  ultimately show ?case by (simp add: e triple_then)
qed (simp add: triple_ends)

lemma response_acked:
  assumes "\<forall>(stream, ms) \<in> set resp. \<forall>(msg, content) \<in> set ms.
      case content of None \<Rightarrow> True | Some fs \<Rightarrow> distinct (map fst fs)"
  shows "triple (unacked (entry_ids resp)) (act_for resp (\<lambda>(stream, ms). act_for ms (feed_group_entry v p stream)))
    (\<lambda>_. unacked []) (\<lambda>_ s. \<exists>rest. unacked rest s)"
  using assms
proof (induction resp)
  case (Cons r resp)
  obtain stream ms where r: "r = (stream, ms)" by (cases r)
  have "triple (unacked (map (\<lambda>e. (stream, fst e)) ms @ entry_ids resp)) (act_for ms (feed_group_entry v p stream))
      (\<lambda>_. unacked (entry_ids resp)) (\<lambda>_ s. \<exists>rest. unacked rest s)"
    by (rule entries_acked) (use Cons.prems r in auto)
  moreover have "triple (unacked (entry_ids resp)) (act_for resp (\<lambda>(stream, ms). act_for ms (feed_group_entry v p stream)))
      (\<lambda>_. unacked []) (\<lambda>_ s. \<exists>rest. unacked rest s)"
    using Cons by auto
  ultimately show ?case by (simp add: r entry_ids_def triple_then)
qed (simp add: triple_ends entry_ids_def)

lemma xreadgroup_acks:
  assumes "fields_once v"
  shows "triple (unacked []) (xreadgroup_turns v p n waiting) (\<lambda>_. unacked []) (\<lambda>_ s. \<exists>rest. unacked rest s)"
proof (induction n arbitrary: waiting)
  case (Suc n)
  have weak: "unacked [] s \<Longrightarrow> \<exists>rest. unacked rest s" for s by blast
  have again: "triple (unacked []) (act_then (ensure_consumer_groups v (fp_streams p)) (xreadgroup_turns v p n False))
      (\<lambda>_. unacked []) (\<lambda>_ s. \<exists>rest. unacked rest s)"
    by (rule still_then [OF about_unacked(1) reading_groups weak Suc.IH])
  have noted: "triple (unacked []) (feed_note (Answered resp)) (\<lambda>_. unacked (entry_ids resp)) (\<lambda>_ s. \<exists>rest. unacked rest s)"
    for resp by (simp add: triple_def note_run unacked_def)
  have answer: "triple (unacked []) (case fv_xreadgroup v tr of
      Inl e \<Rightarrow> if fv_lost v e
        then reconnect v (act_then (ensure_consumer_groups v (fp_streams p)) (xreadgroup_turns v p n False)) else act_raise e
    | Inr resp \<Rightarrow> act_then fresh_attempts (act_then (feed_note (Answered resp))
        (act_then (act_for resp (\<lambda>(stream, ms). act_for ms (feed_group_entry v p stream))) (xreadgroup_turns v p n False))))
      (\<lambda>_. unacked []) (\<lambda>_ s. \<exists>rest. unacked rest s)" for tr
  proof (cases "fv_xreadgroup v tr")
    case (Inl e)
    then show ?thesis using reconnect_reading [OF about_unacked(1) again] weak by (auto intro!: triple_fails)
  next
    case (Inr resp)
    then have "\<forall>(stream, ms) \<in> set resp. \<forall>(msg, content) \<in> set ms.
        case content of None \<Rightarrow> True | Some fs \<Rightarrow> distinct (map fst fs)"
      using assms unfolding fields_once_def by blast
    then have acking: "triple (unacked []) (act_then (feed_note (Answered resp))
        (act_then (act_for resp (\<lambda>(stream, ms). act_for ms (feed_group_entry v p stream))) (xreadgroup_turns v p n False)))
        (\<lambda>_. unacked []) (\<lambda>_ s. \<exists>rest. unacked rest s)"
      by (rule triple_then [OF noted triple_then [OF response_acked Suc.IH]])
    have "triple (unacked []) (act_then fresh_attempts (act_then (feed_note (Answered resp))
        (act_then (act_for resp (\<lambda>(stream, ms). act_for ms (feed_group_entry v p stream))) (xreadgroup_turns v p n False))))
        (\<lambda>_. unacked []) (\<lambda>_ s. \<exists>rest. unacked rest s)"
      by (rule still_then [OF about_unacked(1) reading_client(3) _ acking]) (rule weak)
    then show ?thesis using Inr by simp
  qed
  show ?case
    unfolding xreadgroup_turns.simps
    by (rule turn_reading [OF about_unacked(1) _ returned_reading [OF about_unacked(1) Suc.IH]], simp,
        rule triple_with, rule answer, auto intro: weak)
qed (simp add: triple_def act_run(1))

text \<open>
  C21: read with a consumer group, every entry is acknowledged once and in order, after what its fields
  caused; an exception leaves only entries behind it unacknowledged.
\<close>

theorem entries_acknowledged:
  assumes "fields_once v" and "fp_use_group p" and "run_market_data_redis_loop v p fuel idle_feed_state = (r, s')"
  shows "\<exists>rest. concat (map entry_ids (responses (fd_trace s'))) = acked (fed_effects (fd_trace s')) @ rest \<and>
    (\<not> isl r \<longrightarrow> rest = [])"
proof -
  let ?plan = "p\<lparr>fp_start := (let t = py_strip (fp_start p) in if t = [] then ''$'' else t),
    fp_group := py_strip (fp_group p), fp_consumer := py_strip (fp_consumer p)\<rparr>"
  let ?N = "\<lambda>_::feed_exit. unacked []" and ?X = "\<lambda>(_::py_exc) s. \<exists>rest. unacked rest s"
  have weak: "unacked [] s \<Longrightarrow> \<exists>rest. unacked rest s" for s by blast
  have logs: "moves same_reading (act_seq (map feed_log evs))" for evs
    by (intro same_reading.seq) (auto simp: reading_log)
  have closing: "moves same_reading (act_then close_client (feed_log ''consumer_stopped''))"
    by (intro same_reading.seq2 reading_client reading_log)
  have turns: "triple (unacked []) (act_then (act_seq (map feed_log evs)) (xreadgroup_turns v ?plan fuel False)) ?N ?X" for evs
    by (rule still_then [OF about_unacked(1) logs _ xreadgroup_acks [OF assms(1)]]) (rule weak)
  have grouped: "triple (unacked []) (act_then (ensure_consumer_groups v streams)
      (act_then (act_seq (map feed_log evs)) (xreadgroup_turns v ?plan fuel False))) ?N ?X" for streams evs
    by (rule still_then [OF about_unacked(1) reading_groups _ turns]) (rule weak)
  have opened: "triple (unacked []) (act_then (feed_log ev) (act_then (ensure_consumer_groups v streams)
      (act_then (act_seq (map feed_log evs)) (xreadgroup_turns v ?plan fuel False)))) ?N ?X" for ev streams evs
    by (rule still_then [OF about_unacked(1) reading_log _ grouped]) (rule weak)
  have group: "triple (unacked []) (run_xreadgroup_loop v ?plan fuel) ?N ?X"
    unfolding run_xreadgroup_loop_def
    by (rule finally_reading [OF about_unacked closing still_then [OF about_unacked(1) reading_client(1) _ opened]])
      (rule weak, assumption)+
  have planned: "triple (unacked []) (if fp_group ?plan = [] \<or> fp_consumer ?plan = [] then act_raise e
      else run_xreadgroup_loop v ?plan fuel) ?N ?X" for e
    by (intro triple_if group triple_fails) (rule weak)
  have run: "triple (unacked []) (run_market_data_redis_loop v p fuel) ?N ?X"
    unfolding run_market_data_redis_loop_def Let_def [of ?plan] if_P [OF assms(2)]
    by (rule triple_if, rule triple_ends, assumption)
      (rule still_then [OF about_unacked(1) reading_log _ planned], rule weak)
  have idle: "unacked [] idle_feed_state" by (simp add: unacked_def idle_feed_state_def)
  have "(\<exists>rest. unacked rest s') \<and> (\<not> isl r \<longrightarrow> unacked [] s')"
    by (rule triple_outcome [OF run idle assms(3)]) (rule weak)
  then show ?thesis by (auto simp: unacked_def)
qed

section \<open>Ending\<close>

definition grows :: "feed_state \<Rightarrow> feed_state \<Rightarrow> bool" where
  "grows s s' \<longleftrightarrow> length (fd_trace s) \<le> length (fd_trace s')"

text \<open>
  A run with enough fuel for what is left: it does not use it up when the stop event is set and reads return
  once the trace has \<open>k\<close> calls. A turn that goes on with a blocked read needs one more.
\<close>

definition has_fuel :: "nat \<Rightarrow> nat \<Rightarrow> feed_state \<Rightarrow> bool" where
  "has_fuel k n s \<longleftrightarrow> 0 < n \<and> k < n + length (fd_trace s)"

definition does_end :: "nat \<Rightarrow> nat \<Rightarrow> feed_exit fd \<Rightarrow> bool" where
  "does_end k n m \<longleftrightarrow> triple (has_fuel k n) m (\<lambda>x _. x \<noteq> FeedOutOfFuel) (\<lambda>_ _. True)"

definition waits_out :: "nat \<Rightarrow> nat \<Rightarrow> feed_exit fd \<Rightarrow> bool" where
  "waits_out k n m \<longleftrightarrow>
     triple (\<lambda>s. 1 < n \<and> Suc k < n + length (fd_trace s)) m (\<lambda>x _. x \<noteq> FeedOutOfFuel) (\<lambda>_ _. True)"

lemma kept:
  assumes "\<And>s. P s \<Longrightarrow> P (snd (m s))"
  shows "triple P m (\<lambda>_. P) (\<lambda>_ _. True)"
  unfolding triple_def
proof (intro allI impI)
  fix s assume "P s"
  then have "P (snd (m s))" by (rule assms)
  then show "case m s of (Inr x, s') \<Rightarrow> P s' | (Inl e, s') \<Rightarrow> True" by (cases "m s") (auto split: sum.split)
qed

lemma end_after:
  assumes "moves grows m" and "does_end k n again"
  shows "does_end k n (act_then m again)"
  unfolding does_end_def
proof (rule triple_then)
  have "has_fuel k n s \<Longrightarrow> has_fuel k n (snd (m s))" for s
    using movesD [OF assms(1), of s] by (simp add: has_fuel_def grows_def)
  then show "triple (has_fuel k n) m (\<lambda>_. has_fuel k n) (\<lambda>_ _. True)"
    by (rule kept)
  show "triple (has_fuel k n) again (\<lambda>x _. x \<noteq> FeedOutOfFuel) (\<lambda>_ _. True)"
    using assms(2) by (simp add: does_end_def)
qed

lemma end_value: "x \<noteq> FeedOutOfFuel \<Longrightarrow> does_end k n (act_ret x)" "does_end k n (act_raise e)"
  by (simp_all add: does_end_def triple_def act_run)

lemma end_with: "(\<And>y. does_end k n (m y)) \<Longrightarrow> does_end k n (act_with f m)"
  by (simp add: does_end_def triple_def act_run)

interpretation grows: step_order grows
  by unfold_locales (auto simp: grows_def)

lemma grows_note: "moves grows (feed_note x)"
  by (simp add: moves_def grows_def note_run)

lemma grows_raised: "moves grows (raised x)"
  by (cases x) (simp_all add: raised_def grows.ret grows.raise)

lemma grows_client:
  "moves grows (open_redis_client v)" "moves grows close_client" "moves grows close_pubsub" "moves grows fresh_attempts"
  "moves grows (feed_log ev)" "moves grows (portfolio_log ev)" "moves grows drop_connection"
  unfolding drop_connection_def open_redis_client_def close_client_def close_pubsub_def fresh_attempts_def feed_log_def
    portfolio_log_def
  by (intro grows.reading grows.seq2 grows.guarded grows_raised grows_note grows.modify; simp add: grows_def)+

lemma grows_groups: "moves grows (ensure_consumer_groups v streams)"
  unfolding ensure_consumer_groups_def
  by (auto intro!: grows.reading grows.seq2 grows.ret grows.raise grows_note grows_client grows.for_each split: option.split)

lemma grows_entry: "moves grows (feed_group_entry v p stream entry)"
  unfolding feed_group_entry_def feed_effect_def
  by (auto intro!: grows.reading grows.seq2 grows.ret grows_note grows.for_each grows_raised
      split: prod.split md_effect.split)

lemma end_back_off: "does_end k n again \<Longrightarrow> does_end k n (back_off again v)"
  unfolding back_off_def
  by (intro end_with end_after grows_note)
    (auto intro!: end_value end_after grows.modify simp: grows_def)

lemma end_reconnect: "does_end k n again \<Longrightarrow> does_end k n (reconnect v again)"
  unfolding reconnect_def by (intro end_after grows_client end_back_off)

definition stops_by :: "feed_env \<Rightarrow> nat \<Rightarrow> bool" where
  "stops_by v k \<longleftrightarrow> (\<forall>tr. k \<le> length tr \<longrightarrow> fv_stopped v tr \<and> \<not> fv_blocked v tr)"

text \<open>A turn: stopped, or a first call, a blocked read perhaps, and then the rest.\<close>

lemma end_returned:
  assumes "stops_by v k" and "waits_out k n wait" and "does_end k n rest"
    and "0 < n" and "k < n + length (fd_trace s)"
  shows "case when_returned v wait rest s of (Inr x, s') \<Rightarrow> x \<noteq> FeedOutOfFuel | (Inl e, s') \<Rightarrow> True"
proof (cases "fv_blocked v (fd_trace s)")
  case True
  then have "length (fd_trace s) < k" using assms(1) unfolding stops_by_def by (meson not_le)
  then have "1 < n \<and> Suc k < n + length (fd_trace (s\<lparr>fd_trace := fd_trace s @ [StillBlocked]\<rparr>))"
    using assms(5) by simp
  then show ?thesis
    using assms(2) True by (simp add: act_run(4,6) note_run waits_out_def triple_def)
next
  case False
  then show ?thesis
    using assms(3,4,5) by (simp add: act_run(6) does_end_def has_fuel_def triple_def)
qed

lemma end_turn:
  assumes "stops_by v k" and "waits_out k n wait" and "does_end k n rest"
  shows "does_end k (Suc n) (turn_head v False ask (when_returned v wait rest))"
    and "waits_out k (Suc n) (turn_head v True ask (when_returned v wait rest))"
proof -
  show "waits_out k (Suc n) (turn_head v True ask (when_returned v wait rest))"
    unfolding waits_out_def triple_def turn_head_def
    using end_returned [OF assms] by (simp only: if_True) simp
  show "does_end k (Suc n) (turn_head v False ask (when_returned v wait rest))"
    unfolding does_end_def triple_def
  proof (intro allI impI)
    fix s assume fuel: "has_fuel k (Suc n) s"
    let ?turn = "turn_head v False ask (when_returned v wait rest)"
    show "case ?turn s of (Inr x, s') \<Rightarrow> x \<noteq> FeedOutOfFuel | (Inl e, s') \<Rightarrow> True"
    proof (cases "fv_stopped v (fd_trace s)")
      case True
      then show ?thesis by (simp add: turn_head_def act_run(1,6))
    next
      case False
      then have "length (fd_trace s) < k" using assms(1) unfolding stops_by_def by (meson not_le)
      then show ?thesis
        using fuel False end_returned [OF assms, of "s\<lparr>fd_trace := fd_trace s @ [ask]\<rparr>"]
        by (simp add: turn_head_def act_run(4,6) note_run has_fuel_def)
    qed
  qed
qed

lemma xread_ends:
  assumes "stops_by v k"
  shows "does_end k n (xread_turns v p n False pos) \<and> waits_out k n (xread_turns v p n True pos)"
proof (induction n arbitrary: pos)
  case (Suc n)
  have "does_end k n (act_with (\<lambda>s. fv_xread v (fd_trace s) pos) (\<lambda>answer. case answer of
      Inl e \<Rightarrow> if fv_lost v e then reconnect v (xread_turns v p n False pos) else act_raise e
    | Inr resp \<Rightarrow> act_then fresh_attempts (act_then (feed_note (Answered resp))
        (case xread_response (fv_md v) (fp_keys p) (fp_timeframe p) (fp_symbol p) (fp_start p) resp pos [] of
          (positions', effects, failure) \<Rightarrow> act_then (act_for effects (\<lambda>x. feed_note (Fed x)))
            (act_then (raised failure) (xread_turns v p n False positions'))))))"
    by (rule end_with)
      (auto intro!: end_reconnect Suc.IH [THEN conjunct1] end_value end_after grows_client grows_note grows.for_each
        grows_raised split: sum.split prod.split)
  then show ?case
    unfolding xread_turns.simps by (intro conjI end_turn [OF assms] Suc.IH [THEN conjunct2])
qed (simp add: does_end_def waits_out_def triple_def has_fuel_def)

lemma xreadgroup_ends:
  assumes "stops_by v k"
  shows "does_end k n (xreadgroup_turns v p n False) \<and> waits_out k n (xreadgroup_turns v p n True)"
proof (induction n)
  case (Suc n)
  have "does_end k n (act_with (\<lambda>s. fv_xreadgroup v (fd_trace s)) (\<lambda>answer. case answer of
      Inl e \<Rightarrow> if fv_lost v e
        then reconnect v (act_then (ensure_consumer_groups v (fp_streams p)) (xreadgroup_turns v p n False))
        else act_raise e
    | Inr resp \<Rightarrow> act_then fresh_attempts (act_then (feed_note (Answered resp))
        (act_then (act_for resp (\<lambda>(stream, ms). act_for ms (feed_group_entry v p stream)))
          (xreadgroup_turns v p n False)))))"
    by (rule end_with)
      (auto intro!: end_reconnect Suc.IH [THEN conjunct1] end_value end_after grows_client grows_note grows.for_each
        grows_groups grows_entry split: sum.split prod.split)
  then show ?case
    unfolding xreadgroup_turns.simps by (intro conjI end_turn [OF assms] Suc.IH [THEN conjunct2])
qed (simp add: does_end_def waits_out_def triple_def has_fuel_def)

text \<open>Within a turn of the balance feed, before its first call.\<close>

definition nearly :: "nat \<Rightarrow> nat \<Rightarrow> feed_state \<Rightarrow> bool" where
  "nearly k n s \<longleftrightarrow> 0 < n \<and> k < Suc n + length (fd_trace s)"

lemma kept_or:
  assumes "\<And>s. P s \<Longrightarrow> P (snd (m s))" and "\<And>s. P s \<Longrightarrow> X s"
  shows "triple P m (\<lambda>_. P) (\<lambda>_. X)"
  unfolding triple_def
proof (intro allI impI)
  fix s assume "P s"
  then have "P (snd (m s))" by (rule assms)
  then show "case m s of (Inr x, s') \<Rightarrow> P s' | (Inl e, s') \<Rightarrow> X s'" using assms(2) by (cases "m s") (auto split: sum.split)
qed

lemma grown:
  assumes "moves grows m"
  shows "has_fuel k n s \<Longrightarrow> has_fuel k n (snd (m s))" "nearly k n s \<Longrightarrow> nearly k n (snd (m s))"
  using movesD [OF assms, of s] by (simp_all add: has_fuel_def nearly_def grows_def)

lemma fuel_nearly: "has_fuel k n s \<Longrightarrow> nearly k n s"
  by (simp add: has_fuel_def nearly_def)

lemma noted_nearly: "triple (nearly k n) (feed_note x) (\<lambda>_. has_fuel k n) (\<lambda>_. E)"
  by (simp add: triple_def note_run nearly_def has_fuel_def)

lemma portfolio_step_calls:
  "triple (nearly k n) (portfolio_step v channel job_id) (\<lambda>_. has_fuel k n) (\<lambda>_. nearly k n)"
proof -
  have subscribing: "moves grows (act_with fd_client (\<lambda>there. act_when (\<not> there) (subscribe_portfolio v channel)))"
    unfolding subscribe_portfolio_def
    by (intro grows.reading grows.guarded grows.seq2 grows_client grows_note grows_raised grows.modify) (simp add: grows_def)
  have rest: "moves grows (act_bind (act_with (\<lambda>s. fv_message v (fd_trace s)) act_of) (\<lambda>got.
      case got of None \<Rightarrow> act_ret () | Some message \<Rightarrow>
        (case portfolio_message_update (fv_md v) job_id message of
           None \<Rightarrow> act_ret ()
         | Some parsed \<Rightarrow> act_then (feed_note (Updated parsed)) (act_with (\<lambda>s. fv_update v (fd_trace s)) raised))))"
    by (auto intro!: grows.bind grows.reading grows.result grows.ret grows.seq2 grows_note grows_raised split: option.split)
  have first: "triple (nearly k n) (act_with fd_client (\<lambda>there. act_when (\<not> there) (subscribe_portfolio v channel)))
      (\<lambda>_. nearly k n) (\<lambda>_. nearly k n)"
    by (rule kept_or) (erule grown(2) [OF subscribing], assumption)
  show ?thesis
    unfolding portfolio_step_def
    by (rule triple_then [OF first], rule triple_then [OF noted_nearly], rule kept_or)
      (erule grown(1) [OF rest], erule fuel_nearly)
qed

lemma portfolio_ends:
  assumes "stops_by v k"
  shows "does_end k n (portfolio_turns v channel job_id n)"
proof (induction n)
  case (Suc n)
  let ?guarded = "act_catch (act_then (portfolio_step v channel job_id) (act_ret None)) (\<lambda>e.
      if fv_lost v e then act_ret (Some e) else act_raise e)"
  let ?rest = "\<lambda>lost. case lost of None \<Rightarrow> portfolio_turns v channel job_id n
    | Some e \<Rightarrow> act_then (portfolio_log ''reconnect'')
        (back_off (act_then drop_connection (portfolio_turns v channel job_id n)) v)"
  let ?ends = "\<lambda>x (_::feed_state). x \<noteq> FeedOutOfFuel"
  have tried: "triple (nearly k n) ?guarded (\<lambda>lost. case lost of None \<Rightarrow> has_fuel k n | Some e \<Rightarrow> nearly k n) (\<lambda>_ _. True)"
    by (rule triple_catch [OF triple_then [OF portfolio_step_calls]], rule triple_ends, simp)
      (auto simp: triple_def act_run(1,2))
  have "does_end k n (back_off (act_then drop_connection (portfolio_turns v channel job_id n)) v)"
    by (intro end_back_off end_after grows_client Suc.IH)
  then have again: "triple (nearly k n) (act_then (portfolio_log ''reconnect'')
      (back_off (act_then drop_connection (portfolio_turns v channel job_id n)) v)) ?ends (\<lambda>_ _. True)"
    unfolding does_end_def portfolio_log_def by (rule triple_then [OF noted_nearly])
  have "triple (case lost of None \<Rightarrow> has_fuel k n | Some e \<Rightarrow> nearly k n) (?rest lost) ?ends (\<lambda>_ _. True)" for lost
    using Suc.IH again by (cases lost) (simp_all add: does_end_def)
  then have turn: "triple (nearly k n) (act_bind ?guarded ?rest) ?ends (\<lambda>_ _. True)" by (rule triple_bind [OF tried])
  show ?case
    unfolding does_end_def triple_def
  proof (intro allI impI)
    fix s assume fuel: "has_fuel k (Suc n) s"
    show "case portfolio_turns v channel job_id (Suc n) s of (Inr x, s') \<Rightarrow> x \<noteq> FeedOutOfFuel | (Inl e, s') \<Rightarrow> True"
    proof (cases "fv_stopped v (fd_trace s)")
      case True
      then show ?thesis by (simp add: act_run(1,6))
    next
      case False
      then have "length (fd_trace s) < k" using assms unfolding stops_by_def by (meson not_le)
      then have "nearly k n s" using fuel by (simp add: has_fuel_def nearly_def)
      then show ?thesis using turn False by (simp add: act_run(6) triple_def)
    qed
  qed
qed (simp add: does_end_def triple_def has_fuel_def)

lemma end_finally: "does_end k n m \<Longrightarrow> does_end k n (finally_do m f)"
  unfolding does_end_def finally_do_def
  by (rule triple_bind, erule triple_catch) (auto simp: triple_def act_run split: prod.split sum.split)

lemma end_if: "does_end k n a \<Longrightarrow> does_end k n b \<Longrightarrow> does_end k n (if c then a else b)"
  by simp

section \<open>Stops seen while waiting\<close>

text \<open>After a wait in which the stop event was seen a feed only closes what it holds.\<close>

definition heeds_stop :: "feed_env \<Rightarrow> feed_call list \<Rightarrow> bool" where
  "heeds_stop v tr \<longleftrightarrow>
     (\<forall>a d b. tr = a @ Waited d # b \<longrightarrow> fv_wait v (a @ [Waited d]) \<longrightarrow>
        set b \<subseteq> {Closed, PubsubClosed, FeedLog ''market_data_stream.consumer_stopped''})"

definition unstopped :: "feed_env \<Rightarrow> feed_state \<Rightarrow> bool" where
  "unstopped v s \<longleftrightarrow> (\<forall>a d b. fd_trace s = a @ Waited d # b \<longrightarrow> \<not> fv_wait v (a @ [Waited d]))"

definition heeding :: "feed_env \<Rightarrow> feed_state \<Rightarrow> bool" where
  "heeding v s \<longleftrightarrow> heeds_stop v (fd_trace s)"

definition goes_on :: "feed_env \<Rightarrow> feed_state \<Rightarrow> feed_state \<Rightarrow> bool" where
  "goes_on v s s' \<longleftrightarrow> (unstopped v s \<longrightarrow> unstopped v s')"

interpretation goes_on: step_order "goes_on v" for v
  by unfold_locales (auto simp: goes_on_def)

lemma unstopped_heeding: "unstopped v s \<Longrightarrow> heeding v s"
  unfolding unstopped_def heeding_def heeds_stop_def by blast

lemma snoc_split:
  "(tr @ [x] = a @ y # b) \<longleftrightarrow> (b = [] \<and> a = tr \<and> y = x) \<or> (\<exists>b'. b = b' @ [x] \<and> tr = a @ y # b')"
  by (cases b rule: rev_cases) auto

lemma unstopped_note:
  "unstopped v s \<Longrightarrow> (\<And>d. x = Waited d \<Longrightarrow> \<not> fv_wait v (fd_trace s @ [x])) \<Longrightarrow>
   unstopped v (s\<lparr>fd_trace := fd_trace s @ [x]\<rparr>)"
  unfolding unstopped_def by (auto simp: snoc_split)

definition no_wait :: "feed_call \<Rightarrow> bool" where
  "no_wait x \<longleftrightarrow> (\<forall>d. x \<noteq> Waited d)"

lemma goes_note: "no_wait x \<Longrightarrow> moves (goes_on v) (feed_note x)"
  unfolding moves_def goes_on_def note_run snd_conv no_wait_def by (blast intro: unstopped_note)

lemma goes_attrs: "(\<And>s. fd_trace (f s) = fd_trace s) \<Longrightarrow> moves (goes_on v) (act_modify f)"
  by (simp add: moves_def goes_on_def act_run unstopped_def)

lemma goes_raised: "moves (goes_on v) (raised x)"
  by (cases x) (simp_all add: raised_def goes_on.ret goes_on.raise)

lemma goes_client:
  "moves (goes_on v) (open_redis_client w)" "moves (goes_on v) close_client" "moves (goes_on v) close_pubsub"
  "moves (goes_on v) fresh_attempts" "moves (goes_on v) (feed_log ev)" "moves (goes_on v) (portfolio_log ev)"
  "moves (goes_on v) drop_connection"
  unfolding drop_connection_def open_redis_client_def close_client_def close_pubsub_def fresh_attempts_def feed_log_def
    portfolio_log_def
  by (intro goes_on.reading goes_on.seq2 goes_on.guarded goes_raised goes_note goes_attrs; simp add: no_wait_def)+

lemma goes_groups: "moves (goes_on v) (ensure_consumer_groups w streams)"
  unfolding ensure_consumer_groups_def
  by (auto intro!: goes_on.reading goes_on.seq2 goes_on.ret goes_on.raise goes_note goes_client goes_on.for_each
      simp: no_wait_def split: option.split)

lemma goes_entry: "moves (goes_on v) (feed_group_entry w p stream entry)"
  unfolding feed_group_entry_def feed_effect_def
  by (auto intro!: goes_on.reading goes_on.seq2 goes_on.ret goes_note goes_on.for_each goes_raised
      simp: no_wait_def split: prod.split md_effect.split)

text \<open>A run that no stop was seen in before heeds the one it sees.\<close>

definition heeds :: "feed_env \<Rightarrow> feed_exit fd \<Rightarrow> bool" where
  "heeds v m \<longleftrightarrow> triple (unstopped v) m (\<lambda>_. heeding v) (\<lambda>_. heeding v)"

lemma goes_kept: "moves (goes_on v) m \<Longrightarrow> triple (unstopped v) m (\<lambda>_. unstopped v) (\<lambda>_. heeding v)"
  unfolding triple_def moves_def goes_on_def
  by (auto split: prod.split sum.split intro: unstopped_heeding) (metis snd_conv unstopped_heeding)+

lemma heeds_then: "moves (goes_on v) m \<Longrightarrow> heeds v n \<Longrightarrow> heeds v (act_then m n)"
  unfolding heeds_def by (rule triple_then [OF goes_kept])

lemma heeds_with: "(\<And>y. heeds v (m y)) \<Longrightarrow> heeds v (act_with f m)"
  by (simp add: heeds_def triple_with)

lemma heeds_value: "heeds v (act_ret x)" "heeds v (act_raise e)"
  by (auto simp: heeds_def intro: triple_ends triple_fails unstopped_heeding)

lemma heeds_if: "heeds v m \<Longrightarrow> heeds v n \<Longrightarrow> heeds v (if b then m else n)"
  by simp

lemma heeds_turn: "no_wait ask \<Longrightarrow> heeds v rest \<Longrightarrow> heeds v (turn_head v waiting ask rest)"
  unfolding turn_head_def by (intro heeds_if heeds_with heeds_value heeds_then goes_note)

lemma heeds_returned: "heeds v wait \<Longrightarrow> heeds v rest \<Longrightarrow> heeds v (when_returned v wait rest)"
  by (intro heeds_if heeds_with heeds_then goes_note) (simp_all add: no_wait_def)

lemma heeds_back_off:
  assumes "heeds v again"
  shows "heeds v (back_off again v)"
  unfolding heeds_def triple_def
proof (intro allI impI)
  fix s assume before: "unstopped v s"
  let ?n = "fd_attempt s"
  let ?s = "s\<lparr>fd_trace := fd_trace s @ [Waited (reconnect_backoff_seconds ?n)]\<rparr>"
  have run: "back_off again v s = (if fv_wait v (fd_trace ?s) then (Inr FeedEnded, ?s) else again (?s\<lparr>fd_attempt := ?n + 1\<rparr>))"
    by (simp add: back_off_def act_run(1,4,6,7) note_run)
  show "case back_off again v s of (Inr x, s') \<Rightarrow> heeding v s' | (Inl e, s') \<Rightarrow> heeding v s'"
  proof (cases "fv_wait v (fd_trace ?s)")
    case True
    have "heeding v ?s"
      using before unfolding heeding_def heeds_stop_def unstopped_def by (auto simp: snoc_split)
    then show ?thesis using True by (simp add: run)
  next
    case False
    then have "unstopped v (?s\<lparr>fd_attempt := ?n + 1\<rparr>)"
      using unstopped_note [OF before, of "Waited (reconnect_backoff_seconds ?n)"] by (simp add: unstopped_def)
    then show ?thesis using assms False by (simp add: run heeds_def triple_def)
  qed
qed

lemma heeds_reconnect: "heeds v again \<Longrightarrow> heeds v (reconnect v again)"
  unfolding reconnect_def by (intro heeds_then goes_client heeds_back_off)

lemma xread_heeds: "heeds v (xread_turns v p n waiting pos)"
proof (induction n arbitrary: waiting pos)
  case (Suc n)
  show ?case
    unfolding xread_turns.simps
    by (intro heeds_turn heeds_returned Suc.IH heeds_with)
      (auto intro!: heeds_reconnect Suc.IH heeds_value heeds_then goes_client goes_note goes_on.for_each goes_raised
        simp: no_wait_def split: sum.split prod.split)
qed (simp add: heeds_value)

lemma xreadgroup_heeds: "heeds v (xreadgroup_turns v p n waiting)"
proof (induction n arbitrary: waiting)
  case (Suc n)
  show ?case
    unfolding xreadgroup_turns.simps
    by (intro heeds_turn heeds_returned Suc.IH heeds_with)
      (auto intro!: heeds_reconnect Suc.IH heeds_value heeds_then goes_client goes_note goes_on.for_each goes_groups
        goes_entry simp: no_wait_def split: sum.split prod.split)
qed (simp add: heeds_value)

lemma portfolio_heeds: "heeds v (portfolio_turns v channel job_id n)"
proof (induction n)
  case (Suc n)
  have step: "moves (goes_on v) (portfolio_step v channel job_id)"
    unfolding portfolio_step_def subscribe_portfolio_def
    by (auto intro!: goes_on.bind goes_on.reading goes_on.result goes_on.ret goes_on.seq2 goes_on.guarded goes_client
        goes_note goes_raised goes_attrs simp: no_wait_def split: option.split)
  then have tried: "moves (goes_on v) (act_catch (act_then (portfolio_step v channel job_id) (act_ret None)) (\<lambda>e.
      if fv_lost v e then act_ret (Some e) else act_raise e))"
    by (intro goes_on.caught goes_on.seq2 goes_on.ret goes_on.cond goes_on.raise)
  have "heeds v (case lost of None \<Rightarrow> portfolio_turns v channel job_id n
      | Some e \<Rightarrow> act_then (portfolio_log ''reconnect'')
        (back_off (act_then drop_connection (portfolio_turns v channel job_id n)) v))" for lost
    using Suc.IH by (cases lost) (auto intro!: heeds_then heeds_back_off goes_client)
  then show ?case
    unfolding portfolio_turns.simps
    by (intro heeds_with heeds_if heeds_value)
      (auto simp: heeds_def intro!: triple_bind [OF goes_kept [OF tried]])
qed (simp add: heeds_value)

text \<open>What a feed does when it ends is allowed after a stop.\<close>

definition closing_call :: "feed_call \<Rightarrow> bool" where
  "closing_call x \<longleftrightarrow> x \<in> {Closed, PubsubClosed, FeedLog ''market_data_stream.consumer_stopped''}"

definition winds_up :: "feed_env \<Rightarrow> feed_state \<Rightarrow> feed_state \<Rightarrow> bool" where
  "winds_up v s s' \<longleftrightarrow> (heeding v s \<longrightarrow> heeding v s')"

interpretation winds_up: step_order "winds_up v" for v
  by unfold_locales (auto simp: winds_up_def)

lemma heeds_snoc: "heeds_stop v tr \<Longrightarrow> closing_call x \<Longrightarrow> heeds_stop v (tr @ [x])"
  unfolding heeds_stop_def snoc_split
proof (intro allI impI, elim disjE conjE exE)
  fix a d b b'
  assume before: "\<forall>a d b. tr = a @ Waited d # b \<longrightarrow> fv_wait v (a @ [Waited d]) \<longrightarrow>
      set b \<subseteq> {Closed, PubsubClosed, FeedLog ''market_data_stream.consumer_stopped''}"
    and x: "closing_call x" and "fv_wait v (a @ [Waited d])" "b = b' @ [x]" "tr = a @ Waited d # b'"
  then show "set b \<subseteq> {Closed, PubsubClosed, FeedLog ''market_data_stream.consumer_stopped''}"
    by (simp add: closing_call_def)
qed simp

lemma closing_note: "closing_call x \<Longrightarrow> moves (winds_up v) (feed_note x)"
  by (simp add: moves_def winds_up_def heeding_def note_run heeds_snoc)

lemma closings:
  "moves (winds_up v) (act_then close_client (feed_log ''consumer_stopped''))"
  "moves (winds_up v) (act_then close_pubsub close_client)"
  unfolding close_client_def close_pubsub_def feed_log_def
  by (intro winds_up.seq2 winds_up.reading winds_up.guarded closing_note; simp add: closing_call_def)+

lemma heeds_finally:
  assumes "heeds v m" and "moves (winds_up v) f"
  shows "heeds v (finally_do m f)"
proof -
  have wound: "triple (heeding v) f (\<lambda>_. heeding v) (\<lambda>_. heeding v)"
    using movesD [OF assms(2)] unfolding triple_def winds_up_def
    by (auto split: prod.split sum.split) (metis snd_conv)+
  show ?thesis
    unfolding heeds_def finally_do_def
    by (rule triple_bind [OF triple_catch [OF assms(1) [unfolded heeds_def]]])
      (rule triple_then [OF wound], rule triple_fails triple_ends, assumption)+
qed

lemma unstopped_idle: "unstopped v idle_feed_state"
  by (simp add: unstopped_def idle_feed_state_def)

lemma heedsD: "heeds v m \<Longrightarrow> heeds_stop v (fd_trace (snd (m idle_feed_state)))"
  using unstopped_idle [of v] unfolding heeds_def triple_def heeding_def
  by (cases "m idle_feed_state"; cases "fst (m idle_feed_state)") force+

lemma market_heeds: "heeds v (run_market_data_redis_loop v p fuel)"
proof -
  have logs: "moves (goes_on v) (act_seq (map feed_log evs))" for evs
    by (intro goes_on.seq) (auto simp: goes_client)
  have "heeds v (run_xread_loop v q fuel)" "heeds v (run_xreadgroup_loop v q fuel)" for q
    unfolding run_xread_loop_def run_xreadgroup_loop_def
    by (intro heeds_finally heeds_then goes_client logs goes_groups xread_heeds xreadgroup_heeds closings)+
  then show ?thesis
    unfolding run_market_data_redis_loop_def Let_def by (intro heeds_if heeds_value heeds_then goes_client)
qed

lemma balances_heed: "heeds v (run_portfolio_update_pubsub_loop v channel job fuel)"
  unfolding run_portfolio_update_pubsub_loop_def Let_def
  by (intro heeds_if heeds_value heeds_then heeds_finally goes_client portfolio_heeds closings)

text \<open>
  C23: a feed that is told to stop ends, once its reads return: with the stop event set and no read left blocked
  from the \<open>k\<close>-th call on, as when \<open>block_ms\<close> is positive, more than \<open>k\<close> turns are never needed; and a stop seen
  in the wait after a lost connection is heeded at once: nothing is opened, asked or read after it, only the
  connection closed. (A read that \<open>BLOCK 0\<close> leaves waiting for ever is not covered.)
\<close>

theorem feeds_end:
  assumes "\<forall>tr. k \<le> length tr \<longrightarrow> fv_stopped v tr \<and> \<not> fv_blocked v tr" and "k < fuel"
  shows "fst (run_market_data_redis_loop v p fuel idle_feed_state) \<noteq> Inr FeedOutOfFuel \<and>
    fst (run_portfolio_update_pubsub_loop v channel job fuel idle_feed_state) \<noteq> Inr FeedOutOfFuel \<and>
    heeds_stop v (fd_trace (snd (run_market_data_redis_loop v p fuel idle_feed_state))) \<and>
    heeds_stop v (fd_trace (snd (run_portfolio_update_pubsub_loop v channel job fuel idle_feed_state)))"
proof -
  have stops: "stops_by v k" using assms(1) by (simp add: stops_by_def)
  have logs: "moves grows (act_seq (map feed_log evs))" for evs
    by (intro grows.seq) (auto simp: grows_client)
  have xread: "does_end k fuel (run_xread_loop v q fuel)" and group: "does_end k fuel (run_xreadgroup_loop v q fuel)" for q
    unfolding run_xread_loop_def run_xreadgroup_loop_def
    by (intro end_finally end_after grows_client logs grows_groups xread_ends [OF stops, THEN conjunct1]
        xreadgroup_ends [OF stops, THEN conjunct1])+
  have market: "does_end k fuel (run_market_data_redis_loop v p fuel)"
    unfolding run_market_data_redis_loop_def Let_def
    by (intro end_if end_value end_after grows_client xread group) simp
  have portfolio: "does_end k fuel (run_portfolio_update_pubsub_loop v channel job fuel)"
    unfolding run_portfolio_update_pubsub_loop_def Let_def
    by (intro end_if end_value end_after grows_client end_finally portfolio_ends [OF stops]) simp
  have "has_fuel k fuel idle_feed_state" using assms(2) by (simp add: has_fuel_def idle_feed_state_def)
  then have "r \<noteq> Inr FeedOutOfFuel" if "does_end k fuel m" "m idle_feed_state = (r, s')" for m r s'
    using that by (cases r) (auto simp: does_end_def triple_def)
  then show ?thesis
    using market portfolio heedsD [OF market_heeds] heedsD [OF balances_heed] by (metis prod.collapse)
qed

text \<open>
  A read that never returns keeps the thread: with \<open>BLOCK 0\<close> and a stream without new entries the stop event
  is not looked at again, however much fuel the run is given.
\<close>

lemma blocked_turns: "\<forall>tr. fv_blocked v tr \<Longrightarrow> fst (xread_turns v p n True pos s) = Inr FeedOutOfFuel"
  by (induction n arbitrary: s) (simp_all add: turn_head_def act_run(1,4,6) note_run)

lemma blocked_feed_never_ends:
  assumes "\<forall>tr. fv_blocked v tr" and "\<not> fv_stopped v (fd_trace s)"
  shows "fst (xread_turns v p fuel False pos s) = Inr FeedOutOfFuel"
  using assms blocked_turns [of v p _ pos]
  by (cases fuel) (simp_all add: turn_head_def act_run(1,4,6) note_run)

section \<open>A server on concrete inputs\<close>

definition later_id :: "string \<Rightarrow> string \<Rightarrow> bool" where
  "later_id a b \<longleftrightarrow> a = ''2'' \<and> (b = ''1'' \<or> b = ''0'') \<or> a = ''1'' \<and> b = ''0''"

definition two_entries :: stream_entries where
  "two_entries = [(''1'', Some [(''AAPL'', ''?'')]), (''2'', None)]"

text \<open>A server that loses its first connection, gives one entry per answer, and a stop after some calls.\<close>

definition two_env :: feed_env where
  "two_env =
     \<lparr>fv_md = sample_md_env, fv_stopped = (\<lambda>tr. 25 \<le> length tr), fv_wait = (\<lambda>_. False), fv_open = (\<lambda>_. None),
      fv_create = (\<lambda>_ _. None), fv_blocked = (\<lambda>tr. length tr = 12),
      fv_xread = (\<lambda>tr pos. if length tr < 8 then Inl (OtherExc ''ConnectionError'' [] None)
        else case dict_get pos ''s'' of None \<Rightarrow> Inr [] | Some q \<Rightarrow> Inr [(''s'', take 1 (after_id later_id q two_entries))]),
      fv_xreadgroup = (\<lambda>_. Inr [(''s'', two_entries)]), fv_ack = (\<lambda>_. None), fv_lost = (\<lambda>_. True), fv_busy = (\<lambda>_. False),
      fv_subscribe = (\<lambda>_. None), fv_message = (\<lambda>_. Inr None), fv_update = (\<lambda>_. None)\<rparr>"

definition two_plan :: "bool \<Rightarrow> feed_plan" where
  "two_plan grouped =
     \<lparr>fp_keys = default_market_data_redis_keys, fp_timeframe = ''1m'', fp_symbol = None, fp_streams = [''s''],
      fp_start = ''0'', fp_block_ms = 0, fp_count = 1, fp_use_group = grouped, fp_group = ''g'', fp_consumer = ''c''\<rparr>"

lemma two_laws: "reads_log two_env later_id (\<lambda>_. two_entries)" "id_order later_id" "log_ok later_id two_entries"
proof -
  show "reads_log two_env later_id (\<lambda>_. two_entries)"
    by (auto simp: reads_log_def lawful_answer_def two_env_def split: option.splits)
  show "id_order later_id" by (auto simp: id_order_def later_id_def)
  show "log_ok later_id two_entries" by (simp add: log_ok_def later_id_def two_entries_def)
qed

theorem stream_read_once_witness:
  "\<exists>r s'. run_market_data_redis_loop two_env (two_plan False) 30 idle_feed_state = (r, s') \<and>
     answered ''s'' (fd_trace s') = two_entries \<and>
     fed_effects (fd_trace s') = concat (map (response_effects two_env (two_plan False)) (responses (fd_trace s')))"
proof -
  let ?run = "run_market_data_redis_loop two_env (two_plan False) 30 idle_feed_state"
  have "\<not> isl (fst ?run)" and read: "answered ''s'' (fd_trace (snd ?run)) = two_entries" by code_simp+
  moreover have "\<not> fp_use_group (two_plan False)" "''s'' \<in> set (fp_streams (two_plan False))"
    by (simp_all add: two_plan_def str_eval)
  ultimately have "fed_effects (fd_trace (snd ?run)) =
      concat (map (response_effects two_env (two_plan False)) (responses (fd_trace (snd ?run))))"
    using stream_read_once [OF two_laws(1,2), of "two_plan False" "''s''" 30 "fst ?run" "snd ?run"] two_laws(3) by simp
  then show ?thesis using read by (metis prod.collapse)
qed

theorem entries_acknowledged_witness:
  "\<exists>r s'. run_market_data_redis_loop two_env (two_plan True) 30 idle_feed_state = (r, s') \<and>
     concat (map entry_ids (responses (fd_trace s'))) = acked (fed_effects (fd_trace s')) \<and>
     acked (fed_effects (fd_trace s')) \<noteq> []"
proof -
  let ?run = "run_market_data_redis_loop two_env (two_plan True) 30 idle_feed_state"
  have "\<not> isl (fst ?run)" and some: "acked (fed_effects (fd_trace (snd ?run))) \<noteq> []" by code_simp+
  moreover have "fields_once two_env" "fp_use_group (two_plan True)"
    by (auto simp: fields_once_def two_env_def two_entries_def two_plan_def)
  ultimately have "concat (map entry_ids (responses (fd_trace (snd ?run)))) = acked (fed_effects (fd_trace (snd ?run)))"
    using entries_acknowledged [of two_env "two_plan True" 30 "fst ?run" "snd ?run"] by auto
  then show ?thesis using some by (metis prod.collapse)
qed

theorem feeds_end_witness:
  "fst (run_market_data_redis_loop two_env (two_plan False) 26 idle_feed_state) \<noteq> Inr FeedOutOfFuel \<and>
   fst (run_portfolio_update_pubsub_loop two_env ''c'' ''j'' 26 idle_feed_state) \<noteq> Inr FeedOutOfFuel"
  using feeds_end [of 25 two_env 26 "two_plan False" "''c''" "''j''"] by (simp add: two_env_def)

end
