(* ===== verification/BundleSettings.thy ===== *)
theory BundleSettings
  imports Artifacts PyFloat
begin

text \<open>
  \<open>bootstrap/strategy_bundle_loader.py\<close>: the settings file of a strategy (\<open>setting.json\<close>, or the answer of
  the deployment service in that shape) becomes the launch payload and a dictionary of tuning values, some
  of which the environment overrides. The text of floats and containers and the parsing of numbers are
  arguments (\<open>conf_env\<close>), as is the environment of the process.
\<close>

type_synonym os_environ = "string \<Rightarrow> string option"

record conf_env =
  ce_art :: art_env
  ce_repr :: "pyval \<Rightarrow> string"
  ce_parse_int :: "string \<Rightarrow> int option"
  ce_parse_float :: "string \<Rightarrow> pyfloat option"
  ce_float_of_int :: "int \<Rightarrow> pyfloat option"
  ce_utf8 :: "string \<Rightarrow> py_exc + string"
  ce_json :: "string \<Rightarrow> py_exc + pyval"

section \<open>Values\<close>

definition scalar :: "pydict \<Rightarrow> string \<Rightarrow> pyval \<Rightarrow> pyval" where
  "scalar data key dflt =
     (case get_or_none data key of VNone \<Rightarrow> dflt | VStr s \<Rightarrow> VStr (py_strip s) | v \<Rightarrow> v)"

definition bundle_truthy :: "pyval \<Rightarrow> bool" where
  "bundle_truthy v =
     (case v of
        VBool b \<Rightarrow> b
      | VStr s \<Rightarrow> py_lower (py_strip s) \<in> {''1'', ''true'', ''yes''}
      | _ \<Rightarrow> False)"

definition conf_float :: "conf_env \<Rightarrow> pyval \<Rightarrow> py_exc + pyfloat" where
  "conf_float c v =
     (let of_int = (\<lambda>i. case ce_float_of_int c i of
        None \<Rightarrow> Inl (OtherExc ''OverflowError'' ''int too large to convert to float'' None) | Some x \<Rightarrow> Inr x)
      in case v of
        VFloat x \<Rightarrow> Inr x
      | VInt i \<Rightarrow> of_int i
      | VBool b \<Rightarrow> of_int (if b then 1 else 0)
      | VStr s \<Rightarrow> (case ce_parse_float c s of
           None \<Rightarrow> Inl (ValueExc ''ValueError'' ''could not convert string to float'' None) | Some x \<Rightarrow> Inr x)
      | _ \<Rightarrow> Inl (TypeExc ''TypeError'' ''float() argument must be a string or a real number''))"

definition conf_int :: "conf_env \<Rightarrow> pyval \<Rightarrow> py_exc + int" where
  "conf_int c v =
     (case v of
        VInt i \<Rightarrow> Inr i
      | VBool b \<Rightarrow> Inr (if b then 1 else 0)
      | VFloat x \<Rightarrow> float_to_int x
      | VStr s \<Rightarrow> (case ce_parse_int c s of
           None \<Rightarrow> Inl (ValueExc ''ValueError'' ''invalid literal for int()'' None) | Some i \<Rightarrow> Inr i)
      | _ \<Rightarrow> Inl (TypeExc ''TypeError'' ''int() argument must be a string or a real number''))"

text \<open>\<open>except (TypeError, ValueError)\<close>.\<close>

fun on_value_error :: "py_exc + 'a \<Rightarrow> 'a \<Rightarrow> py_exc + 'a" where
  "on_value_error (Inl (TypeExc ty m)) dflt = Inr dflt"
| "on_value_error (Inl (ValueExc ty m d)) dflt = Inr dflt"
| "on_value_error r dflt = r"

definition first_truthy :: "pyval \<Rightarrow> pyval \<Rightarrow> pyval" where
  "first_truthy a b = (if py_truthy a then a else b)"

definition stripped_text :: "conf_env \<Rightarrow> pyval \<Rightarrow> string" where
  "stripped_text c v = py_strip (py_str (ce_repr c) v)"

definition env_value :: "os_environ \<Rightarrow> string \<Rightarrow> pyval" where
  "env_value os key = opt_str (os key)"

definition env_stripped :: "os_environ \<Rightarrow> string \<Rightarrow> string" where
  "env_stripped os key = py_strip (or_empty (os key))"

section \<open>The settings file\<close>

definition default_bundle_setting_path :: "conf_env \<Rightarrow> path \<Rightarrow> path" where
  "default_bundle_setting_path c cwd = ae_resolve (ce_art c) (cwd @ [''strategy_bundle'', ''setting.json''])"

definition read_bundle_json :: "conf_env \<Rightarrow> file_tree \<Rightarrow> path \<Rightarrow> py_exc + pydict" where
  "read_bundle_json c fs p =
     (case file_at fs (ae_resolve (ce_art c) p) of
        None \<Rightarrow> Inl (os_error ''FileNotFoundError'' p)
      | Some bytes \<Rightarrow> rbind (ce_utf8 c bytes) (\<lambda>raw.
          if py_strip raw = [] then Inl (ValueExc ''ValueError'' (''Setting file is empty: '' @ path_str p) None)
          else rbind (ce_json c raw) (\<lambda>data. case data of
              VDict d \<Rightarrow> Inr d
            | _ \<Rightarrow> Inl (ValueExc ''ValueError'' (''Setting file must be a JSON object: '' @ path_str p) None))))"

definition artifact_reference :: "conf_env \<Rightarrow> file_tree \<Rightarrow> string \<Rightarrow> path \<Rightarrow> string \<times> path option" where
  "artifact_reference c fs reference base_dir =
     (let e = ce_art c; raw = py_strip reference in
      if raw = [] then ([], None)
      else if starts_with ''file://'' raw then
        (let local = ae_unquote e (snd (snd (ae_urlparse e raw))) in
         (raw, Some (if is_absolute local then path_parts local else ae_resolve e (base_dir @ path_parts local))))
      else if is_absolute raw then
        (let ap = ae_resolve e (path_parts raw) in (ae_as_uri e ap, Some ap))
      else
        (let candidate = ae_resolve e (base_dir @ path_parts raw) in
         (if tree_exists fs candidate then ae_as_uri e candidate else raw, Some candidate)))"

section \<open>The launch payload\<close>

definition put_if_key :: "pydict \<Rightarrow> string \<Rightarrow> pydict \<Rightarrow> pydict" where
  "put_if_key data key payload =
     (case dict_get data key of
        None \<Rightarrow> payload
      | Some (VStr s) \<Rightarrow> dict_set key (VStr (py_strip s)) payload
      | Some VNone \<Rightarrow> dict_set key (VStr []) payload
      | Some v \<Rightarrow> dict_set key v payload)"

definition put_launch_attempt :: "conf_env \<Rightarrow> pydict \<Rightarrow> pydict \<Rightarrow> pydict" where
  "put_launch_attempt c data payload =
     (case dict_get data ''launch_attempt'' of
        None \<Rightarrow> payload
      | Some (VInt i) \<Rightarrow> dict_set ''launch_attempt'' (VInt i) payload
      | Some (VBool b) \<Rightarrow> dict_set ''launch_attempt'' (VBool b) payload
      | Some v \<Rightarrow>
          (let t = stripped_text c v; s = (if t = [] then ''1'' else t) in
           dict_set ''launch_attempt'' (case ce_parse_int c s of Some i \<Rightarrow> VInt i | None \<Rightarrow> VStr s) payload))"

definition put_text_or_empty :: "conf_env \<Rightarrow> pydict \<Rightarrow> string \<Rightarrow> pydict \<Rightarrow> pydict" where
  "put_text_or_empty c data key payload =
     (case dict_get data key of
        None \<Rightarrow> payload
      | Some v \<Rightarrow> dict_set key (VStr (py_strip (str_or_empty (ce_repr c) v))) payload)"

definition digest_in_json :: "conf_env \<Rightarrow> pydict \<Rightarrow> string" where
  "digest_in_json c data = py_strip (str_or_empty (ce_repr c) (get_or_none data ''artifact_digest''))"

definition computed_digest_of :: "conf_env \<Rightarrow> file_tree \<Rightarrow> path \<Rightarrow> string option" where
  "computed_digest_of c fs p =
     (let e = ce_art c; q = ae_resolve e p in
      if \<not> tree_exists fs q then None
      else case file_at fs q of
        Some b \<Rightarrow> if py_lower (path_suffix (path_name p)) = ''.zip'' then Some (''sha256:'' @ ae_sha256 e b)
          else Some (''sha256:'' @ tree_digest e (ae_sha256 e) fs p)
      | None \<Rightarrow> Some (''sha256:'' @ tree_digest e (ae_sha256 e) fs p))"

definition artifact_entry :: "conf_env \<Rightarrow> file_tree \<Rightarrow> path \<Rightarrow> pydict \<Rightarrow> string \<times> string option" where
  "artifact_entry c fs base_dir data =
     (case artifact_reference c fs (py_strip (str_or_empty (ce_repr c) (get_or_none data ''artifact_uri''))) base_dir of
        (uri, p) \<Rightarrow> (uri, case p of None \<Rightarrow> None | Some q \<Rightarrow> computed_digest_of c fs q))"

definition put_artifact :: "conf_env \<Rightarrow> file_tree \<Rightarrow> path \<Rightarrow> pydict \<Rightarrow> pydict \<Rightarrow> pydict" where
  "put_artifact c fs base_dir data payload =
     (if dict_get data ''artifact_uri'' = None then payload
      else case artifact_entry c fs base_dir data of
        (uri, computed) \<Rightarrow>
          dict_set ''artifact_digest''
            (VStr (if digest_in_json c data = [] \<and> or_empty computed \<noteq> [] then or_empty computed
              else digest_in_json c data))
            (dict_set ''artifact_uri'' (VStr uri) payload))"

definition put_optional_text :: "conf_env \<Rightarrow> pydict \<Rightarrow> string \<Rightarrow> pydict \<Rightarrow> pydict" where
  "put_optional_text c data key payload =
     (let t = stripped_text c (scalar data key (VStr [])) in
      if t = [] then payload else dict_set key (VStr t) payload)"

definition put_strategy_params :: "pydict \<Rightarrow> pydict \<Rightarrow> pydict" where
  "put_strategy_params data payload =
     (case get_or_none data ''strategy_params'' of
        VDict d \<Rightarrow> if d \<noteq> [] then dict_set ''strategy_params'' (VDict d) payload else payload
      | _ \<Rightarrow> payload)"

definition put_initial_cash :: "conf_env \<Rightarrow> pydict \<Rightarrow> pydict \<Rightarrow> pydict" where
  "put_initial_cash c data payload =
     (case get_or_none data ''initial_cash'' of
        VDict d \<Rightarrow>
          (let amount = get_or_none d ''amount''; currency = get_or_none d ''currency'' in
           if amount \<noteq> VNone \<and> currency \<noteq> VNone then
             dict_set ''initial_cash''
               (VDict [(''amount'', VStr (stripped_text c amount)), (''currency'', VStr (stripped_text c currency))])
               payload
           else payload)
      | _ \<Rightarrow> payload)"

definition put_objects :: "conf_env \<Rightarrow> pydict \<Rightarrow> pydict \<Rightarrow> pydict" where
  "put_objects c data payload =
     put_initial_cash c data (put_strategy_params data
       (case get_or_none data ''parameters'' of VDict d \<Rightarrow> dict_set ''parameters'' (VDict d) payload | _ \<Rightarrow> payload))"

text \<open>A bound of the window: the root value, or that of the parameters where the root has none.\<close>

definition window_bound :: "conf_env \<Rightarrow> pydict \<Rightarrow> string \<Rightarrow> string" where
  "window_bound c data key =
     (let here = (if dict_get data key = None then [] else py_str (ce_repr c) (scalar data key (VStr []))) in
      case get_or_none data ''parameters'' of
        VDict d \<Rightarrow>
          if (py_strip here = [] \<or> dict_get data key = None) \<and> get_or_none d key \<noteq> VNone
          then py_str (ce_repr c) (get_or_none d key) else here
      | _ \<Rightarrow> here)"

definition put_window_bound :: "conf_env \<Rightarrow> pydict \<Rightarrow> string \<Rightarrow> pydict \<Rightarrow> pydict" where
  "put_window_bound c data key payload =
     (if py_strip (window_bound c data key) = [] then payload
      else dict_set key (VStr (window_bound c data key)) payload)"

definition bundle_primary_symbol :: "pydict \<Rightarrow> string option" where
  "bundle_primary_symbol data =
     (case get_or_none data ''parameters'' of
        VDict d \<Rightarrow> (case get_or_none d ''symbol'' of
            VStr s \<Rightarrow> if py_strip s \<noteq> [] then Some (py_strip s) else None
          | _ \<Rightarrow> None)
      | _ \<Rightarrow> None)"

record raw_launch =
  rl_payload :: pydict
  rl_work_root :: path
  rl_digest_json :: string
  rl_computed_digest :: "string option"

definition raw_dict_to_launch_payload :: "conf_env \<Rightarrow> file_tree \<Rightarrow> path \<Rightarrow> pydict \<Rightarrow> raw_launch" where
  "raw_dict_to_launch_payload c fs base_dir data =
     (let ids = fold (put_if_key data) [''runtime_id'', ''tenant_id'', ''strategy_version_id'', ''mode'', ''entrypoint''] [];
          named = put_text_or_empty c data ''trader_id''
            (put_text_or_empty c data ''account_id'' (put_launch_attempt c data ids));
          jobs = put_optional_text c data ''correlation_id''
            (put_optional_text c data ''job_id'' (put_artifact c fs base_dir data named));
          windowed = put_window_bound c data ''ts_end''
            (put_window_bound c data ''ts_start'' (put_objects c data jobs));
          payload = (case bundle_primary_symbol data of
            None \<Rightarrow> windowed | Some t \<Rightarrow> dict_set ''symbol'' (VStr t) windowed);
          work = py_str (ce_repr c) (scalar data ''work_root'' (VStr []))
      in \<lparr>rl_payload = payload,
          rl_work_root = (if py_strip work \<noteq> [] then ae_resolve (ce_art c) (path_from base_dir work)
            else ae_resolve (ce_art c) (base_dir @ [''.swr-runtime''])),
          rl_digest_json = digest_in_json c data,
          rl_computed_digest = (if dict_get data ''artifact_uri'' = None then None
            else snd (artifact_entry c fs base_dir data))\<rparr>)"

section \<open>Feeds\<close>

definition feed_names :: "string list \<Rightarrow> string list" where
  "feed_names ts = map (\<lambda>t. py_lower (py_strip t)) (filter (\<lambda>t. py_strip t \<noteq> []) ts)"

text \<open>A list of names, or their text with commas; nothing else counts.\<close>

definition feed_value :: "conf_env \<Rightarrow> pyval \<Rightarrow> string list option" where
  "feed_value c v =
     (case v of
        VList vs \<Rightarrow> if vs \<noteq> [] then Some (feed_names (map (py_str (ce_repr c)) vs)) else None
      | VStr s \<Rightarrow> if py_strip s \<noteq> [] then Some (feed_names (py_split (CHR '','') s)) else None
      | _ \<Rightarrow> None)"

definition feed_parts_from_bundle :: "conf_env \<Rightarrow> pydict \<Rightarrow> string list" where
  "feed_parts_from_bundle c data =
     (case feed_value c (get_or_none data ''market_data_streams'') of
        Some ps \<Rightarrow> ps
      | None \<Rightarrow>
          (case get_or_none data ''parameters'' of
             VDict d \<Rightarrow> (case feed_value c (get_or_none d ''data_source'') of Some ps \<Rightarrow> ps | None \<Rightarrow> [])
           | _ \<Rightarrow> []))"

definition ALLOWED_FEEDS :: "string list" where
  "ALLOWED_FEEDS = [''trades'', ''quotes'', ''bars'']"

text \<open>Known names, each once, in the order of their first mention.\<close>

fun keep_feeds :: "string list \<Rightarrow> string list \<Rightarrow> string list" where
  "keep_feeds [] ordered = ordered"
| "keep_feeds (p # ps) ordered =
     (if p \<in> set ALLOWED_FEEDS \<and> p \<notin> set ordered then keep_feeds ps (ordered @ [p]) else keep_feeds ps ordered)"

definition ordered_feeds :: "string list \<Rightarrow> string list" where
  "ordered_feeds ps = (let fs = keep_feeds ps [] in if fs = [] then [''bars''] else fs)"

definition parse_market_data_feeds :: "conf_env \<Rightarrow> os_environ \<Rightarrow> pydict \<Rightarrow> string list" where
  "parse_market_data_feeds c os data =
     (let t = env_stripped os ''SWR_MARKET_DATA_STREAMS'' in
      ordered_feeds (if t \<noteq> [] then feed_names (py_split (CHR '','') t) else feed_parts_from_bundle c data))"

definition effective_bar_timeframe :: "conf_env \<Rightarrow> pydict \<Rightarrow> string" where
  "effective_bar_timeframe c data =
     (let nested = (case get_or_none data ''parameters'' of
            VDict d \<Rightarrow> (case get_or_none d ''bar_timeframe'' of VStr s \<Rightarrow> py_strip s | _ \<Rightarrow> []) | _ \<Rightarrow> []);
          here = stripped_text c (scalar data ''bar_timeframe'' (VStr []));
          legacy = stripped_text c (scalar data ''replay_bar_timeframe'' (VStr []))
      in if nested \<noteq> [] then nested else if here \<noteq> [] then here else if legacy \<noteq> [] then legacy else ''1m'')"

section \<open>Tuning\<close>

text \<open>Where a value may come from: the environment of the process and, unless \<open>env_only\<close>, the bundle.\<close>

record conf_source =
  so_conf :: conf_env
  so_os :: os_environ
  so_data :: pydict
  so_env_only :: bool

definition env_or_scalar :: "conf_source \<Rightarrow> string \<Rightarrow> string \<Rightarrow> pyval \<Rightarrow> pyval" where
  "env_or_scalar z env_key data_key dflt =
     (case so_os z env_key of
        Some ev \<Rightarrow>
          if py_strip ev \<noteq> [] then (case dflt of VStr _ \<Rightarrow> VStr (py_strip ev) | _ \<Rightarrow> VStr ev)
          else if so_env_only z then dflt else scalar (so_data z) data_key dflt
      | None \<Rightarrow> if so_env_only z then dflt else scalar (so_data z) data_key dflt)"

definition conf_text :: "conf_source \<Rightarrow> string \<Rightarrow> string \<Rightarrow> string \<Rightarrow> string" where
  "conf_text z env_key data_key dflt = stripped_text (so_conf z) (env_or_scalar z env_key data_key (VStr dflt))"

definition float_env_or_bundle :: "conf_source \<Rightarrow> string \<Rightarrow> string \<Rightarrow> pyfloat \<Rightarrow> py_exc + pyfloat" where
  "float_env_or_bundle z env_key data_key dflt =
     (case (if env_stripped (so_os z) env_key = [] then None
            else ce_parse_float (so_conf z) (env_stripped (so_os z) env_key)) of
        Some x \<Rightarrow> Inr x
      | None \<Rightarrow>
          if so_env_only z then Inr dflt
          else on_value_error (conf_float (so_conf z) (scalar (so_data z) data_key (VFloat dflt))) dflt)"

definition bundle_scalar :: "conf_source \<Rightarrow> string \<Rightarrow> pyval \<Rightarrow> pyval" where
  "bundle_scalar z data_key dflt = (if so_env_only z then VStr [] else scalar (so_data z) data_key dflt)"

definition int_env_or_bundle :: "conf_source \<Rightarrow> pyval \<Rightarrow> string \<Rightarrow> int \<Rightarrow> int \<Rightarrow> py_exc + int" where
  "int_env_or_bundle z env_val data_key scalar_dflt dflt =
     on_value_error
       (conf_int (so_conf z)
         (first_truthy (first_truthy env_val (bundle_scalar z data_key (VInt scalar_dflt))) (VInt dflt)))
       dflt"

definition flag_env_or_bundle :: "conf_source \<Rightarrow> string \<Rightarrow> string \<Rightarrow> bool \<Rightarrow> bool" where
  "flag_env_or_bundle z env_key data_key dflt =
     (let raw = py_lower (env_stripped (so_os z) env_key) in
      if raw \<in> {''0'', ''false'', ''no'', ''off''} then False
      else if raw \<in> {''1'', ''true'', ''yes'', ''on''} then True
      else \<not> so_env_only z \<and>
        bundle_truthy (case dict_get (so_data z) data_key of None \<Rightarrow> VBool dflt | Some v \<Rightarrow> v))"

definition text_env_or_bundle :: "conf_source \<Rightarrow> string \<Rightarrow> string \<Rightarrow> string \<Rightarrow> string" where
  "text_env_or_bundle z env_key data_key dflt =
     stripped_text (so_conf z)
       (first_truthy
         (first_truthy (VStr (env_stripped (so_os z) env_key)) (bundle_scalar z data_key (VStr dflt))) (VStr dflt))"

definition md_redis_key :: "conf_source \<Rightarrow> string \<Rightarrow> string \<Rightarrow> string \<Rightarrow> string" where
  "md_redis_key z env_name data_key dflt =
     (let ev = env_stripped (so_os z) env_name; v = stripped_text (so_conf z) (scalar (so_data z) data_key (VStr dflt)) in
      if ev \<noteq> [] then ev else if so_env_only z then py_strip dflt else if v \<noteq> [] then v else dflt)"

definition bundle_text :: "conf_source \<Rightarrow> string \<Rightarrow> string \<Rightarrow> string" where
  "bundle_text z data_key dflt = py_str (ce_repr (so_conf z)) (scalar (so_data z) data_key (VStr dflt))"

definition bundle_flag :: "conf_source \<Rightarrow> string \<Rightarrow> bool" where
  "bundle_flag z data_key = bundle_truthy (case dict_get (so_data z) data_key of None \<Rightarrow> VBool False | Some v \<Rightarrow> v)"

text \<open>The manager URL: its first name, then the prefixed one where the first gives nothing.\<close>

definition manager_base_url :: "conf_source \<Rightarrow> string" where
  "manager_base_url z =
     stripped_text (so_conf z)
       (first_truthy
         (env_or_scalar z ''STRATEGY_RUNTIME_MANAGER_BASE_URL'' ''strategy_runtime_manager_base_url'' (VStr []))
         (env_or_scalar z ''SWR_STRATEGY_RUNTIME_MANAGER_BASE_URL'' ''strategy_runtime_manager_base_url'' (VStr [])))"

definition portfolio_redis_url :: "conf_source \<Rightarrow> string" where
  "portfolio_redis_url z =
     (let own = stripped_text (so_conf z)
        (first_truthy (VStr (env_stripped (so_os z) ''SWR_PORTFOLIO_UPDATE_REDIS_URL''))
          (bundle_scalar z ''portfolio_update_redis_url'' (VStr [])))
      in if own \<noteq> [] then own else conf_text z ''SWR_MARKET_DATA_REDIS_URL'' ''market_data_redis_url'' [])"

definition stream_start_id :: "conf_source \<Rightarrow> string" where
  "stream_start_id z =
     (let t = stripped_text (so_conf z)
        (first_truthy (env_value (so_os z) ''SWR_MARKET_DATA_STREAM_START_ID'')
          (bundle_scalar z ''market_data_stream_start_id'' (VStr ''$'')))
      in if t \<noteq> [] then t else ''$'')"

definition partition_count :: "conf_source \<Rightarrow> py_exc + int" where
  "partition_count z =
     map_sum id (\<lambda>n. max 1 (min 65535 n))
       (int_env_or_bundle z
         (first_truthy (VStr (env_stripped (so_os z) ''SWR_MARKET_DATA_REALTIME_PARTITION_COUNT''))
           (VStr (env_stripped (so_os z) ''MD_REALTIME_PARTITION_COUNT'')))
         ''market_data_realtime_partition_count'' 128 128)"

definition heartbeat_logged :: "conf_source \<Rightarrow> bool" where
  "heartbeat_logged z \<longleftrightarrow>
     bundle_truthy (VStr (or_empty (so_os z ''SWR_HEARTBEAT_LOG_ENABLED''))) \<or>
     \<not> so_env_only z \<and> bundle_flag z ''heartbeat_log_enabled''"

definition local_base_text :: "conf_source \<Rightarrow> string" where
  "local_base_text z =
     (let t = conf_text z ''SWR_ARTIFACT_LOCAL_BASE_PATH'' ''artifact_local_base_path'' [] in
      if t \<noteq> [] then t else env_stripped (so_os z) ''ARTIFACT_LOCAL_BASE_PATH'')"

text \<open>The dictionary, in the order the values are read; only numbers may raise.\<close>

definition numbers_of :: "conf_source \<Rightarrow> py_exc + pydict" where
  "numbers_of z =
     rbind (float_env_or_bundle z ''SWR_HISTORICAL_DATA_GRPC_TIMEOUT_SECONDS''
       ''historical_data_grpc_timeout_seconds'' (Fin 30)) (\<lambda>hist.
     rbind (float_env_or_bundle z ''SWR_HEARTBEAT_INTERVAL_SECONDS'' ''heartbeat_interval_seconds'' (Fin 5)) (\<lambda>beat.
     rbind (float_env_or_bundle z ''SWR_OMS_GRPC_TIMEOUT_SECONDS'' ''oms_grpc_timeout_seconds'' (Fin 3)) (\<lambda>oms.
     rbind (float_env_or_bundle z ''SWR_RISK_GRPC_TIMEOUT_SECONDS'' ''risk_grpc_timeout_seconds'' (Fin 3)) (\<lambda>risk.
     rbind (int_env_or_bundle z (env_value (so_os z) ''SWR_MARKET_DATA_XREAD_BLOCK_MS'')
       ''market_data_xread_block_ms'' 0 0) (\<lambda>block.
     rbind (int_env_or_bundle z (env_value (so_os z) ''SWR_MARKET_DATA_XREAD_COUNT'')
       ''market_data_xread_count'' 100 100) (\<lambda>xcount.
     rbind (partition_count z) (\<lambda>partitions.
     rbind (int_env_or_bundle z (env_value (so_os z) ''SWR_BACKTEST_BAR_REPLAY_INTERVAL_MS'')
       ''backtest_bar_replay_interval_ms'' 100 100) (\<lambda>replay_ms.
     rbind (conf_float (so_conf z) (scalar (so_data z) ''replay_grpc_timeout_seconds'' (VInt 3))) (\<lambda>replay.
     Inr [(''historical_data_grpc_timeout_seconds'', VFloat hist),
       (''heartbeat_interval_seconds'', VFloat (py_max (Fin (1 / 1000)) beat)),
       (''oms_grpc_timeout_seconds'', VFloat oms), (''risk_grpc_timeout_seconds'', VFloat risk),
       (''market_data_xread_block_ms'', VInt (max 0 block)), (''market_data_xread_count'', VInt (max 1 xcount)),
       (''market_data_realtime_partition_count'', VInt partitions),
       (''backtest_bar_replay_interval_ms'', VInt (max 0 replay_ms)),
       (''replay_grpc_timeout_seconds'', VFloat replay)])))))))))"

definition flags_of :: "conf_source \<Rightarrow> pydict" where
  "flags_of z =
     [(''heartbeat_log_enabled'', VBool (heartbeat_logged z)),
      (''worker_control_grpc_no_fallback'', VBool (bundle_flag z ''worker_control_grpc_no_fallback'')),
      (''replay_ingress_grpc_no_fallback'', VBool (bundle_flag z ''replay_ingress_grpc_no_fallback'')),
      (''replay_ingress_trace_payload'', VBool (bundle_flag z ''replay_ingress_trace_payload'')),
      (''replay_tick_logging_quiet'', VBool (bundle_flag z ''replay_tick_logging_quiet'')),
      (''disable_order_intent_grpc'', VBool (bundle_flag z ''disable_order_intent_grpc'')),
      (''state_journal_disable'', VBool (bundle_flag z ''state_journal_disable'')),
      (''portfolio_update_enabled'',
        VBool (flag_env_or_bundle z ''SWR_PORTFOLIO_UPDATE_ENABLED'' ''portfolio_update_enabled'' True)),
      (''market_data_redis_use_consumer_group'', VBool (flag_env_or_bundle z
        ''SWR_MARKET_DATA_REDIS_USE_CONSUMER_GROUP'' ''market_data_redis_use_consumer_group'' False))]"

definition tuning_texts_of :: "conf_source \<Rightarrow> pydict" where
  "tuning_texts_of z =
     [(''strategy_runtime_manager_base_url'', VStr (manager_base_url z)),
      (''worker_control_grpc_bind'', VStr (bundle_text z ''worker_control_grpc_bind'' ''127.0.0.1:50051'')),
      (''worker_control_grpc_fallback_ports'', VStr (bundle_text z ''worker_control_grpc_fallback_ports'' [])),
      (''worker_control_http_bind'', VStr (py_str (ce_repr (so_conf z))
        (env_or_scalar z ''SWR_WORKER_CONTROL_HTTP_BIND'' ''worker_control_http_bind'' (VStr ''127.0.0.1:8091'')))),
      (''replay_ingress_grpc_bind'', VStr (bundle_text z ''replay_ingress_grpc_bind'' ''127.0.0.1:50061'')),
      (''replay_ingress_grpc_fallback_ports'', VStr (bundle_text z ''replay_ingress_grpc_fallback_ports'' [])),
      (''oms_grpc_target'', VStr (conf_text z ''SWR_OMS_GRPC_TARGET'' ''oms_grpc_target'' [])),
      (''risk_grpc_target'', VStr (conf_text z ''SWR_RISK_GRPC_TARGET'' ''risk_grpc_target'' [])),
      (''replay_worker_grpc_target'', VStr (bundle_text z ''replay_worker_grpc_target'' [])),
      (''replay_bar_timeframe'', VStr (effective_bar_timeframe (so_conf z) (so_data z))),
      (''oms_correlation_id'', VStr (bundle_text z ''oms_correlation_id'' [])),
      (''replay_session_id'', VStr (bundle_text z ''replay_session_id'' [])),
      (''historical_data_grpc_target'',
        VStr (conf_text z ''SWR_HISTORICAL_DATA_GRPC_TARGET'' ''historical_data_grpc_target'' [])),
      (''state_journal_sqlite'', VStr (bundle_text z ''state_journal_sqlite'' [])),
      (''state_journal_txt'', VStr (bundle_text z ''state_journal_txt'' [])),
      (''market_data_redis_url'', VStr (conf_text z ''SWR_MARKET_DATA_REDIS_URL'' ''market_data_redis_url'' [])),
      (''portfolio_update_redis_url'', VStr (portfolio_redis_url z)),
      (''portfolio_update_channel_prefix'', VStr (text_env_or_bundle z ''SWR_PORTFOLIO_UPDATE_CHANNEL_PREFIX''
        ''portfolio_update_channel_prefix'' ''portfolio:update'')),
      (''market_data_stream_start_id'', VStr (stream_start_id z)),
      (''market_data_redis_stream_trades'', VStr (md_redis_key z ''SWR_MARKET_DATA_STREAM_TRADES''
        ''market_data_redis_stream_trades'' ''md:stream:trades'')),
      (''market_data_redis_stream_quotes'', VStr (md_redis_key z ''SWR_MARKET_DATA_STREAM_QUOTES''
        ''market_data_redis_stream_quotes'' ''md:stream:quotes'')),
      (''market_data_redis_stream_bars_1m'', VStr (md_redis_key z ''SWR_MARKET_DATA_STREAM_BARS_1M''
        ''market_data_redis_stream_bars_1m'' ''md:stream:am'')),
      (''market_data_consumer_group_prefix'', VStr (text_env_or_bundle z ''SWR_MARKET_DATA_CONSUMER_GROUP_PREFIX''
        ''market_data_consumer_group_prefix'' ''strategy-worker-runtime'')),
      (''market_data_consumer_name_prefix'', VStr (text_env_or_bundle z ''SWR_MARKET_DATA_CONSUMER_NAME_PREFIX''
        ''market_data_consumer_name_prefix'' ''strategy-worker-runtime-worker'')),
      (''artifact_local_base_path'', VStr (local_base_text z))]"

definition extract_runtime_tuning :: "conf_source \<Rightarrow> py_exc + pydict" where
  "extract_runtime_tuning z =
     rbind (numbers_of z) (\<lambda>numbers.
     Inr (tuning_texts_of z @ flags_of z @ numbers @
       [(''market_data_feeds'', VList (map VStr (parse_market_data_feeds (so_conf z) (so_os z) (so_data z))))]))"

end
