(* ===== verification/Deployment.thy ===== *)
theory Deployment
  imports BundleSettings
begin

text \<open>
  \<open>bootstrap/deployment_runtime_context_bootstrap.py\<close>: the runtime context of a deployment is fetched from the
  deployment service and merged with the identity in the environment into a dictionary of the shape of a
  bundle. The HTTP exchange, decoding, JSON and the request id are arguments (\<open>deploy_env\<close>). What is
  printed and logged is the list of effects of the state.
\<close>

datatype conf_effect =
    Printed string
  | DomainEvent string string pydict
  | HttpGet string "(string \<times> string) list"

record conf_state =
  cs_environ :: "(string \<times> string) list"
  cs_effects :: "conf_effect list"

type_synonym 'a conf = "(conf_state, 'a) act"

definition environ_of :: "conf_state \<Rightarrow> os_environ" where
  "environ_of s = map_of (cs_environ s)"

definition conf_do :: "conf_effect \<Rightarrow> unit conf" where
  "conf_do x = act_modify (\<lambda>s. s\<lparr>cs_effects := cs_effects s @ [x]\<rparr>)"

definition say :: "string \<Rightarrow> unit conf" where
  "say t = conf_do (Printed t)"

datatype fetch_answer = FetchAnswer int string | FetchUnreachable string | FetchRaises py_exc

record deploy_env =
  dp_conf :: conf_env
  dp_quote :: "string \<Rightarrow> string"
  dp_request_id :: string
  dp_get :: "string \<Rightarrow> (string \<times> string) list \<Rightarrow> fetch_answer"
  dp_decode_replacing :: "string \<Rightarrow> string"
  dp_decode :: "string \<Rightarrow> py_exc + string"
  dp_json :: "string \<Rightarrow> string + pyval"
  dp_pretty :: "pyval \<Rightarrow> string"

definition launch_error :: "launch_spec_error \<Rightarrow> py_exc" where
  "launch_error e =
     ValueExc ''LaunchSpecValidationError'' ''LaunchSpec validation failed.''
       (Some [(''reason'', VStr (lse_reason e)),
         (''field_errors'', VDict (map (\<lambda>(k, t). (k, VStr t)) (lse_field_errors e)))])"

definition context_error :: "string \<Rightarrow> (string \<times> string) list \<Rightarrow> py_exc" where
  "context_error why errors = launch_error \<lparr>lse_reason = why, lse_field_errors = errors\<rparr>"

section \<open>From the context to a bundle\<close>

text \<open>The table is asked for one name only; names in a list or with commas are taken as they are.\<close>

definition data_source_to_feed_list :: "conf_env \<Rightarrow> pyval \<Rightarrow> string list" where
  "data_source_to_feed_list c raw =
     (case raw of
        VList vs \<Rightarrow> feed_names (map (py_str (ce_repr c)) vs)
      | VStr t \<Rightarrow>
          (let s = py_upper (py_strip t) in
           if s = [] then [''bars'']
           else if CHR '','' \<in> set s then feed_names (py_split (CHR '','') s)
           else if s = ''TRADE'' \<or> s = ''TRADES'' then [''trades'']
           else if s = ''QUOTE'' \<or> s = ''QUOTES'' then [''quotes'']
           else [''bars''])
      | _ \<Rightarrow> [''bars''])"

definition context_text :: "conf_env \<Rightarrow> pydict \<Rightarrow> string \<Rightarrow> string" where
  "context_text c rc key = py_strip (str_or_empty (ce_repr c) (get_or_none rc key))"

definition put_context_text :: "conf_env \<Rightarrow> pydict \<Rightarrow> string \<Rightarrow> pydict \<Rightarrow> pydict" where
  "put_context_text c rc key out =
     (if context_text c rc key = [] then out else dict_set key (VStr (context_text c rc key)) out)"

definition put_context_digest :: "pydict \<Rightarrow> pydict \<Rightarrow> pydict" where
  "put_context_digest rc out =
     (case get_or_none rc ''artifact_digest'' of
        VStr d \<Rightarrow> if py_strip d \<noteq> [] then dict_set ''artifact_digest'' (VStr (py_strip d)) out else out
      | _ \<Rightarrow> out)"

definition context_parameters :: "conf_env \<Rightarrow> pydict \<Rightarrow> pydict" where
  "context_parameters c rc =
     (let own = (case get_or_none rc ''strategy_params'' of VDict d \<Rightarrow> d | _ \<Rightarrow> []);
          barred = put_context_text c rc ''bar_timeframe'' own;
          feeds = data_source_to_feed_list c (get_or_none rc ''data_source'');
          fed = (if feeds = [] then barred else dict_set ''data_source'' (VList (map VStr feeds)) barred);
          named = (case get_or_none rc ''symbol'' of
            VStr t \<Rightarrow> if py_strip t \<noteq> [] then dict_set ''symbol'' (VStr (py_strip t)) fed else fed | _ \<Rightarrow> fed)
      in put_context_text c rc ''instrument_id'' named)"

definition worker_bundle_dict_from_runtime_context_response :: "conf_env \<Rightarrow> pydict \<Rightarrow> pydict \<Rightarrow> pydict" where
  "worker_bundle_dict_from_runtime_context_response c rc identity =
     (let launched = fold (put_context_text c rc)
            [''strategy_version_id'', ''account_id'', ''mode'', ''entrypoint'', ''artifact_uri''] identity;
          jobs = fold (put_context_text c rc) [''correlation_id'', ''job_id''] (put_context_digest rc launched);
          tuned = put_strategy_params rc jobs; params = context_parameters c rc
      in put_initial_cash c rc (if params = [] then tuned else dict_set ''parameters'' (VDict params) tuned))"

section \<open>Identity from the environment\<close>

definition identity_runtime_id :: "os_environ \<Rightarrow> string" where
  "identity_runtime_id os =
     (let first = or_empty (os ''RUNTIME_ID'') in
      py_strip (if first \<noteq> [] then first else or_empty (os ''SWR_RUNTIME_ID'')))"

definition env_launch_attempt :: "conf_env \<Rightarrow> os_environ \<Rightarrow> int" where
  "env_launch_attempt c os =
     (let t = env_stripped os ''SWR_LAUNCH_ATTEMPT'' in
      if t = [] then 1 else case ce_parse_int c t of Some n \<Rightarrow> max 1 n | None \<Rightarrow> 1)"

definition runtime_identity_from_env :: "conf_env \<Rightarrow> os_environ \<Rightarrow> pydict" where
  "runtime_identity_from_env c os =
     [(''runtime_id'', VStr (identity_runtime_id os)),
      (''strategy_version_id'', VStr (env_stripped os ''SWR_STRATEGY_VERSION_ID'')),
      (''tenant_id'', VStr (env_stripped os ''SWR_TENANT_ID'')),
      (''launch_attempt'', VInt (env_launch_attempt c os))]"

section \<open>The request\<close>

definition print_runtime_context_probe :: "deploy_env \<Rightarrow> string \<Rightarrow> int \<Rightarrow> string \<Rightarrow> unit conf" where
  "print_runtime_context_probe v url status body =
     (let text = py_strip (dp_decode_replacing v body) in
      act_seq
        [say (''deployment runtime-context probe: GET '' @ url @ [CHR 0x0A] @ ''x-request-id: '' @ dp_request_id v),
         say (''deployment runtime-context probe: HTTP '' @ int_str status),
         if body = [] \<or> text = [] then say ''deployment runtime-context probe: (empty body)''
         else case dp_json v text of
           Inl why \<Rightarrow> say text
         | Inr parsed \<Rightarrow> say (dp_pretty v parsed)])"

definition nonempty_or_none :: "string \<Rightarrow> pyval" where
  "nonempty_or_none t = (if t = [] then VNone else VStr t)"

definition context_url :: "deploy_env \<Rightarrow> string \<Rightarrow> string \<Rightarrow> string" where
  "context_url v base_url deployment_id =
     rev (dropWhile (\<lambda>c. c = CHR ''/'') (rev base_url)) @ ''/internal/v1/deployments/'' @
     dp_quote v (py_strip deployment_id) @ ''/runtime-context''"

definition context_headers :: "deploy_env \<Rightarrow> os_environ \<Rightarrow> (string \<times> string) list" where
  "context_headers v os =
     [(''accept'', ''application/json''), (''x-request-id'', dp_request_id v)] @
     (if env_stripped os ''SWR_CORRELATION_ID'' = [] then []
      else [(''x-correlation-id'', env_stripped os ''SWR_CORRELATION_ID'')])"

definition loading_event :: "deploy_env \<Rightarrow> os_environ \<Rightarrow> string \<Rightarrow> conf_effect" where
  "loading_event v os deployment_id =
     DomainEvent ''strategy_worker.runtime_context_loading_started''
       ''Loading deployment runtime context from strategy-deployment-service''
       [(''deployment_id'', VStr (py_strip deployment_id)), (''request_id'', VStr (dp_request_id v)),
        (''correlation_id'', nonempty_or_none (env_stripped os ''SWR_CORRELATION_ID'')),
        (''runtime_id'', nonempty_or_none (env_stripped os ''RUNTIME_ID'')),
        (''mode'', nonempty_or_none (env_stripped os ''MODE'')),
        (''stage'', VStr ''runtime_context_load''), (''state'', VStr ''started'')]"

definition loaded_event :: "deploy_env \<Rightarrow> os_environ \<Rightarrow> string \<Rightarrow> pydict \<Rightarrow> pydict \<Rightarrow> conf_effect" where
  "loaded_event v os deployment_id identity rc =
     (let c = dp_conf v; text = (\<lambda>d key. (key, nonempty_or_none (context_text c d key))) in
      DomainEvent ''strategy_worker.runtime_context_loaded'' ''Deployment runtime context loaded''
       [(''deployment_id'', VStr (py_strip deployment_id)), (''request_id'', VStr (dp_request_id v)),
        (''correlation_id'', nonempty_or_none (env_stripped os ''SWR_CORRELATION_ID'')),
        text identity ''runtime_id'', text identity ''strategy_version_id'', text rc ''account_id'', text rc ''mode'',
        text rc ''portfolio_id'', text rc ''risk_snapshot_id'',
        (''stage'', VStr ''runtime_context_load''), (''state'', VStr ''loaded'')])"

definition missing_identity :: "conf_env \<Rightarrow> pydict \<Rightarrow> (string \<times> string) list" where
  "missing_identity c identity =
     (if context_text c identity ''runtime_id'' = [] then
        [(''runtime_id'', ''set RUNTIME_ID or SWR_RUNTIME_ID when using deployment runtime-context bootstrap'')] else []) @
     (if context_text c identity ''strategy_version_id'' = [] then
        [(''strategy_version_id'',
          ''set SWR_STRATEGY_VERSION_ID or ensure deployment runtime-context includes strategy_version_id'')] else [])"

definition context_identity :: "conf_env \<Rightarrow> os_environ \<Rightarrow> pydict \<Rightarrow> pydict" where
  "context_identity c os rc =
     put_context_text c rc ''strategy_version_id'' (runtime_identity_from_env c os)"

definition blank_bytes :: "string \<Rightarrow> bool" where
  "blank_bytes b \<longleftrightarrow> set b \<subseteq> {CHR 0x20, CHR 0x09, CHR 0x0A, CHR 0x0B, CHR 0x0C, CHR 0x0D}"

definition read_context :: "deploy_env \<Rightarrow> int \<Rightarrow> string \<Rightarrow> py_exc + pydict" where
  "read_context v status body =
     (if status \<noteq> 200 then
        Inl (context_error ''deployment_runtime_context_http_error''
          [(''deployment_runtime_context'', ''HTTP '' @ int_str status),
           (''body'', take 2000 (dp_decode_replacing v body))])
      else if blank_bytes body then
        Inl (context_error ''deployment_runtime_context_empty_body''
          [(''deployment_runtime_context'', ''empty response body'')])
      else rbind (dp_decode v body) (\<lambda>text.
        case dp_json v text of
          Inl why \<Rightarrow> Inl (context_error ''deployment_runtime_context_invalid_json'' [(''deployment_runtime_context'', why)])
        | Inr (VDict d) \<Rightarrow> Inr d
        | Inr other \<Rightarrow> Inl (context_error ''deployment_runtime_context_invalid_json''
            [(''deployment_runtime_context'', ''response must be a JSON object'')])))"

definition fetch_bundle_from_deployment_runtime_context :: "deploy_env \<Rightarrow> string \<Rightarrow> string \<Rightarrow> pydict conf" where
  "fetch_bundle_from_deployment_runtime_context v base_url deployment_id =
     act_with environ_of (\<lambda>os.
       (let url = context_url v base_url deployment_id; headers = context_headers v os; c = dp_conf v in
        act_then (conf_do (loading_event v os deployment_id))
        (act_then (conf_do (HttpGet url headers))
        (case dp_get v url headers of
           FetchRaises exc \<Rightarrow> act_raise exc
         | FetchUnreachable why \<Rightarrow>
             act_then (say (''deployment runtime-context probe: GET '' @ url @ [CHR 0x0A] @ ''x-request-id: '' @
                 dp_request_id v @ [CHR 0x0A] @ ''deployment runtime-context probe: request failed: '' @ why))
               (act_raise (context_error ''deployment_runtime_context_unreachable''
                 [(''deployment_runtime_context'', why)]))
         | FetchAnswer status body \<Rightarrow>
             act_then (print_runtime_context_probe v url status body)
             (act_bind (act_of (read_context v status body)) (\<lambda>rc.
              (let identity = context_identity c os rc in
               if missing_identity c identity \<noteq> [] then
                 act_raise (context_error ''deployment_runtime_context_missing_identity'' (missing_identity c identity))
               else
                 act_then (conf_do (loaded_event v os deployment_id identity rc))
                   (act_ret (worker_bundle_dict_from_runtime_context_response c rc identity)))))))))"

end
