(* ===== verification/Settings.thy ===== *)
theory Settings
  imports Deployment
begin

text \<open>
  \<open>config/settings.py\<close>: where the settings of a worker come from (an explicit file, the deployment service,
  the file in the working directory), which environment variables the \<open>.env\<close> file may set, which values the
  constants of the module replace, and the record of settings that results.
\<close>

section \<open>Constants of the module\<close>

definition MANAGER_URL_CONST :: string where "MANAGER_URL_CONST = []"
definition MANAGER_TIMEOUT_CONST :: pyfloat where "MANAGER_TIMEOUT_CONST = Fin 30"
definition HISTORICAL_TARGET_CONST :: string where "HISTORICAL_TARGET_CONST = ''127.0.0.1:50051''"
definition OMS_TARGET_CONST :: string where "OMS_TARGET_CONST = ''0.0.0.1:50053''"
definition MARKET_DATA_STREAMS_CONST :: string where "MARKET_DATA_STREAMS_CONST = ''bars''"

definition DOTENV_BLOCKLIST :: "string list" where
  "DOTENV_BLOCKLIST =
     [''SWR_STRATEGY_RUNTIME_MANAGER_BASE_URL'', ''SWR_RUNTIME_MANAGER_HEARTBEAT_TIMEOUT_SECONDS'',
      ''SWR_HISTORICAL_DATA_GRPC_TARGET'', ''SWR_HISTORICAL_DATA_GRPC_TIMEOUT_SECONDS'', ''SWR_OMS_GRPC_TARGET'',
      ''SWR_OMS_GRPC_TIMEOUT_SECONDS'', ''SWR_RISK_GRPC_TIMEOUT_SECONDS'', ''SWR_MARKET_DATA_STREAMS'',
      ''SWR_MARKET_DATA_STREAM_TRADES'', ''SWR_MARKET_DATA_STREAM_QUOTES'', ''SWR_MARKET_DATA_STREAM_BARS_1M'',
      ''SWR_MARKET_DATA_STREAM_START_ID'', ''SWR_MARKET_DATA_XREAD_BLOCK_MS'', ''SWR_MARKET_DATA_XREAD_COUNT'',
      ''SWR_BACKTEST_BAR_REPLAY_INTERVAL_MS'', ''SWR_MARKET_DATA_REALTIME_PARTITION_COUNT'']"

definition use_module_connectivity_settings :: "os_environ \<Rightarrow> bool" where
  "use_module_connectivity_settings os \<longleftrightarrow>
     (case os ''SWR_USE_MODULE_CONNECTIVITY_SETTINGS'' of
        None \<Rightarrow> True
      | Some t \<Rightarrow> py_lower (py_strip t) \<notin> {''0'', ''false'', ''no'', ''off''})"

definition market_data_feeds_from_streams_constant :: "string list" where
  "market_data_feeds_from_streams_constant = ordered_feeds (feed_names (py_split (CHR '','') MARKET_DATA_STREAMS_CONST))"

definition module_connectivity :: pydict where
  "module_connectivity =
     [(''strategy_runtime_manager_base_url'', VStr MANAGER_URL_CONST),
      (''runtime_manager_heartbeat_timeout_seconds'', VFloat MANAGER_TIMEOUT_CONST),
      (''historical_data_grpc_target'', VStr HISTORICAL_TARGET_CONST),
      (''historical_data_grpc_timeout_seconds'', VFloat (Fin 30)),
      (''oms_grpc_target'', VStr OMS_TARGET_CONST), (''oms_grpc_timeout_seconds'', VFloat (Fin 3)),
      (''risk_grpc_timeout_seconds'', VFloat (Fin 3)),
      (''market_data_feeds'', VList (map VStr market_data_feeds_from_streams_constant)),
      (''market_data_redis_stream_trades'', VStr ''md:stream:trades''),
      (''market_data_redis_stream_quotes'', VStr ''md:stream:quotes''),
      (''market_data_redis_stream_bars_1m'', VStr ''md:stream:am''),
      (''market_data_stream_start_id'', VStr ''$''), (''market_data_xread_block_ms'', VInt 0),
      (''market_data_xread_count'', VInt 100), (''market_data_realtime_partition_count'', VInt 128),
      (''backtest_bar_replay_interval_ms'', VInt 100)]"

definition apply_module_connectivity_settings :: "os_environ \<Rightarrow> pydict \<Rightarrow> pydict" where
  "apply_module_connectivity_settings os tuning =
     (if use_module_connectivity_settings os then dict_update module_connectivity tuning else tuning)"

section \<open>The .env file\<close>

definition env_flag_enabled :: "os_environ \<Rightarrow> string \<Rightarrow> bool" where
  "env_flag_enabled os key \<longleftrightarrow> py_lower (env_stripped os key) \<in> {''1'', ''true'', ''yes'', ''on''}"

definition dotenv_loading_enabled :: "os_environ \<Rightarrow> bool" where
  "dotenv_loading_enabled os = env_flag_enabled os ''SWR_LOAD_DOTENV''"

text \<open>\<open>str.splitlines\<close>.\<close>

definition is_line_end :: "char \<Rightarrow> bool" where
  "is_line_end ch \<longleftrightarrow> ch \<in> {CHR 0x0A, CHR 0x0B, CHR 0x0C, CHR 0x0D, CHR 0x1C, CHR 0x1D, CHR 0x1E, CHR 0x85}"

fun split_lines :: "string \<Rightarrow> string \<Rightarrow> string list" where
  "split_lines acc [] = (if acc = [] then [] else [acc])"
| "split_lines acc [ch] = (if is_line_end ch then [acc] else [acc @ [ch]])"
| "split_lines acc (ch # d # cs) =
     (if ch = CHR 0x0D \<and> d = CHR 0x0A then acc # split_lines [] cs
      else if is_line_end ch then acc # split_lines [] (d # cs)
      else split_lines (acc @ [ch]) (d # cs))"

definition strip_char :: "char \<Rightarrow> string \<Rightarrow> string" where
  "strip_char ch t = rev (dropWhile (\<lambda>x. x = ch) (rev (dropWhile (\<lambda>x. x = ch) t)))"

text \<open>The key and value of a line, where it has them and may set them.\<close>

definition dotenv_line :: "string list \<Rightarrow> string \<Rightarrow> (string \<times> string) option" where
  "dotenv_line blocklist raw =
     (let line = py_strip raw in
      if line = [] \<or> hd line = CHR ''#'' \<or> CHR ''='' \<notin> set line then None
      else
        (let key = py_strip (takeWhile (\<lambda>ch. ch \<noteq> CHR ''='') line);
             text = py_strip (drop 1 (dropWhile (\<lambda>ch. ch \<noteq> CHR ''='') line))
         in if key = [] \<or> key \<in> set blocklist then None
            else Some (key, strip_char (CHR 0x27) (strip_char (CHR 0x22) text))))"

definition set_from_dotenv :: "string list \<Rightarrow> string \<Rightarrow> unit conf" where
  "set_from_dotenv blocklist raw =
     (case dotenv_line blocklist raw of
        None \<Rightarrow> act_ret ()
      | Some (key, text) \<Rightarrow>
          act_with environ_of (\<lambda>os.
            if os key \<noteq> None then act_ret ()
            else if CHR 0x00 \<in> set key \<or> CHR 0x00 \<in> set text
            then act_raise (ValueExc ''ValueError'' ''embedded null byte'' None)
            else act_modify (\<lambda>s. s\<lparr>cs_environ := cs_environ s @ [(key, text)]\<rparr>)))"

definition load_worker_env_file :: "conf_env \<Rightarrow> file_tree \<Rightarrow> path \<Rightarrow> unit conf" where
  "load_worker_env_file c fs cwd =
     act_with environ_of (\<lambda>os.
       if \<not> dotenv_loading_enabled os then act_ret ()
       else case file_at fs (ae_resolve (ce_art c) (cwd @ [''.env''])) of
         None \<Rightarrow> act_ret ()
       | Some bytes \<Rightarrow>
           act_bind (act_of (ce_utf8 c bytes)) (\<lambda>text.
           act_for (split_lines [] text)
             (set_from_dotenv (if use_module_connectivity_settings os then DOTENV_BLOCKLIST else []))))"

section \<open>Settings\<close>

definition resolve_deployment_id :: "os_environ \<Rightarrow> pydict \<Rightarrow> pydict \<Rightarrow> string" where
  "resolve_deployment_id os payload bundle =
     (let texts = map (\<lambda>v. case v of VStr t \<Rightarrow> py_strip t | _ \<Rightarrow> [])
            [get_or_none payload ''deployment_id'', get_or_none bundle ''deployment_id'', env_value os ''DEPLOYMENT_ID'']
      in or_empty (find (\<lambda>t. t \<noteq> []) texts))"

record worker_settings =
  ws_launch_spec :: launch_spec
  ws_launch_payload :: pydict
  ws_work_root :: path
  ws_bundle_base :: path
  ws_artifact_base :: "path option"
  ws_journal_enabled :: bool
  ws_journal_sqlite :: path
  ws_journal_txt :: path
  ws_manager_url :: string
  ws_manager_timeout :: pyfloat
  ws_heartbeat_log :: bool
  ws_heartbeat_interval :: pyfloat
  ws_deployment_id :: string
  ws_control_grpc_bind :: string
  ws_control_grpc_fallback :: string
  ws_control_grpc_no_fallback :: bool
  ws_control_http_bind :: string
  ws_replay_grpc_bind :: string
  ws_replay_grpc_fallback :: string
  ws_replay_grpc_no_fallback :: bool
  ws_oms_target :: string
  ws_oms_timeout :: pyfloat
  ws_risk_target :: string
  ws_risk_timeout :: pyfloat
  ws_replay_worker_target :: string
  ws_replay_timeout :: pyfloat
  ws_bar_timeframe :: string
  ws_trace_payload :: bool
  ws_quiet_ticks :: bool
  ws_oms_correlation :: string
  ws_replay_session :: string
  ws_orders_disabled :: bool
  ws_historical_target :: string
  ws_historical_timeout :: pyfloat
  ws_page_size :: int
  ws_replay_ms :: int
  ws_backtest_symbol :: "string option"
  ws_redis_url :: string
  ws_portfolio_url :: string
  ws_portfolio_enabled :: bool
  ws_portfolio_prefix :: string
  ws_feeds :: "string list"
  ws_start_id :: string
  ws_block_ms :: int
  ws_count :: int
  ws_stream_trades :: string
  ws_stream_quotes :: string
  ws_stream_bars :: string
  ws_partitions :: int
  ws_consumer_group :: bool
  ws_group_prefix :: string
  ws_consumer_prefix :: string

text \<open>The tuning dictionary holds texts, flags, numbers and the list of feeds under known keys.\<close>

definition text_at :: "pydict \<Rightarrow> string \<Rightarrow> string" where
  "text_at t key = (case get_or_none t key of VStr s \<Rightarrow> s | _ \<Rightarrow> [])"

definition flag_at :: "pydict \<Rightarrow> string \<Rightarrow> bool" where
  "flag_at t key = py_truthy (get_or_none t key)"

definition float_at :: "pydict \<Rightarrow> string \<Rightarrow> pyfloat" where
  "float_at t key = (case get_or_none t key of VFloat x \<Rightarrow> x | _ \<Rightarrow> NaN)"

definition int_at :: "pydict \<Rightarrow> string \<Rightarrow> int" where
  "int_at t key = (case get_or_none t key of VInt i \<Rightarrow> i | _ \<Rightarrow> 0)"

definition feeds_at :: "pydict \<Rightarrow> string \<Rightarrow> string list" where
  "feeds_at t key =
     (case get_or_none t key of VList vs \<Rightarrow> map (\<lambda>v. case v of VStr s \<Rightarrow> s | _ \<Rightarrow> []) vs | _ \<Rightarrow> [])"

definition page_size :: "conf_env \<Rightarrow> pydict \<Rightarrow> py_exc + int" where
  "page_size c data =
     map_sum id (\<lambda>n. max 1 n)
       (conf_int c (first_truthy (scalar data ''historical_bars_page_size'' (VInt 1000)) (VInt 1000)))"

definition make_settings ::
  "conf_env \<Rightarrow> os_environ \<Rightarrow> path \<Rightarrow> pydict \<Rightarrow> raw_launch \<Rightarrow> pydict \<Rightarrow> launch_spec \<Rightarrow> int \<Rightarrow> worker_settings" where
  "make_settings c os base_dir data raw t spec pages =
     (let here = (\<lambda>txt. ae_resolve (ce_art c) (path_from (ae_cwd (ce_art c)) txt));
          root = ae_resolve (ce_art c) (rl_work_root raw);
          sqlite = py_strip (text_at t ''state_journal_sqlite''); txt = py_strip (text_at t ''state_journal_txt'');
          local = py_strip (text_at t ''artifact_local_base_path'')
      in \<lparr>ws_launch_spec = spec, ws_launch_payload = rl_payload raw, ws_work_root = root,
          ws_bundle_base = ae_resolve (ce_art c) base_dir,
          ws_artifact_base = (if local = [] then None else Some (here local)),
          ws_journal_enabled = (\<not> flag_at t ''state_journal_disable''),
          ws_journal_sqlite = (if sqlite = [] then root @ [''state_journal.sqlite''] else here sqlite),
          ws_journal_txt = (if txt = [] then root @ [''state_journal.txt''] else here txt),
          ws_manager_url = text_at t ''strategy_runtime_manager_base_url'',
          ws_manager_timeout = MANAGER_TIMEOUT_CONST,
          ws_heartbeat_log = flag_at t ''heartbeat_log_enabled'',
          ws_heartbeat_interval = float_at t ''heartbeat_interval_seconds'',
          ws_deployment_id = resolve_deployment_id os (rl_payload raw) data,
          ws_control_grpc_bind = text_at t ''worker_control_grpc_bind'',
          ws_control_grpc_fallback = text_at t ''worker_control_grpc_fallback_ports'',
          ws_control_grpc_no_fallback = flag_at t ''worker_control_grpc_no_fallback'',
          ws_control_http_bind = text_at t ''worker_control_http_bind'',
          ws_replay_grpc_bind = text_at t ''replay_ingress_grpc_bind'',
          ws_replay_grpc_fallback = text_at t ''replay_ingress_grpc_fallback_ports'',
          ws_replay_grpc_no_fallback = flag_at t ''replay_ingress_grpc_no_fallback'',
          ws_oms_target = text_at t ''oms_grpc_target'', ws_oms_timeout = float_at t ''oms_grpc_timeout_seconds'',
          ws_risk_target = text_at t ''risk_grpc_target'', ws_risk_timeout = float_at t ''risk_grpc_timeout_seconds'',
          ws_replay_worker_target = text_at t ''replay_worker_grpc_target'',
          ws_replay_timeout = float_at t ''replay_grpc_timeout_seconds'',
          ws_bar_timeframe = text_at t ''replay_bar_timeframe'',
          ws_trace_payload = (flag_at t ''replay_ingress_trace_payload'' \<or> env_flag_enabled os ''SWR_REPLAY_DATA_TRACE''),
          ws_quiet_ticks = flag_at t ''replay_tick_logging_quiet'',
          ws_oms_correlation = text_at t ''oms_correlation_id'', ws_replay_session = text_at t ''replay_session_id'',
          ws_orders_disabled = flag_at t ''disable_order_intent_grpc'',
          ws_historical_target = text_at t ''historical_data_grpc_target'',
          ws_historical_timeout = float_at t ''historical_data_grpc_timeout_seconds'',
          ws_page_size = pages, ws_replay_ms = int_at t ''backtest_bar_replay_interval_ms'',
          ws_backtest_symbol = bundle_primary_symbol data, ws_redis_url = text_at t ''market_data_redis_url'',
          ws_portfolio_url = text_at t ''portfolio_update_redis_url'',
          ws_portfolio_enabled = flag_at t ''portfolio_update_enabled'',
          ws_portfolio_prefix = text_at t ''portfolio_update_channel_prefix'', ws_feeds = feeds_at t ''market_data_feeds'',
          ws_start_id = text_at t ''market_data_stream_start_id'', ws_block_ms = int_at t ''market_data_xread_block_ms'',
          ws_count = int_at t ''market_data_xread_count'',
          ws_stream_trades = text_at t ''market_data_redis_stream_trades'',
          ws_stream_quotes = text_at t ''market_data_redis_stream_quotes'',
          ws_stream_bars = text_at t ''market_data_redis_stream_bars_1m'',
          ws_partitions = max 1 (min 65535 (int_at t ''market_data_realtime_partition_count'')),
          ws_consumer_group = flag_at t ''market_data_redis_use_consumer_group'',
          ws_group_prefix = text_at t ''market_data_consumer_group_prefix'',
          ws_consumer_prefix = text_at t ''market_data_consumer_name_prefix''\<rparr>)"

section \<open>The banner\<close>

datatype connect_answer = ConnectUp | ConnectDown string | ConnectRaises py_exc

record settings_env =
  se_deploy :: deploy_env
  se_connect :: "string \<Rightarrow> int \<Rightarrow> connect_answer"
  se_json_float :: "rat \<Rightarrow> string"

definition se_conf :: "settings_env \<Rightarrow> conf_env" where
  "se_conf w = dp_conf (se_deploy w)"

definition grpc_target_status :: "settings_env \<Rightarrow> string \<Rightarrow> py_exc + string" where
  "grpc_target_status w target =
     (let t = py_strip target in
      if t = [] then Inr ''UNKNOWN (target_not_configured)''
      else if CHR '':'' \<notin> set t then Inr ''INVALID (expected_host:port)''
      else
        (let port_s = rev (takeWhile (\<lambda>ch. ch \<noteq> CHR '':'') (rev t));
             host = rev (drop 1 (dropWhile (\<lambda>ch. ch \<noteq> CHR '':'') (rev t)))
         in case ce_parse_int (se_conf w) port_s of
           None \<Rightarrow> Inr ''INVALID (port_not_integer)''
         | Some port \<Rightarrow>
             if py_strip host = [] then Inr ''INVALID (host_missing)''
             else (case se_connect w host port of
                 ConnectUp \<Rightarrow> Inr ''UP''
               | ConnectDown why \<Rightarrow> Inr (''DOWN ('' @ why @ '')'')
               | ConnectRaises exc \<Rightarrow> Inl exc)))"

definition say_target :: "settings_env \<Rightarrow> string \<Rightarrow> string \<Rightarrow> string \<Rightarrow> unit conf" where
  "say_target w label status_label target =
     act_then (say (label @ target))
       (act_bind (act_of (grpc_target_status w target)) (\<lambda>st. say (status_label @ st)))"

definition banner_attempt :: "settings_env \<Rightarrow> pydict \<Rightarrow> py_exc + int" where
  "banner_attempt w payload =
     (let c = se_conf w; attempt = (case dict_get payload ''launch_attempt'' of None \<Rightarrow> VInt 1 | Some v \<Rightarrow> v) in
      case attempt of
        VInt i \<Rightarrow> Inr i
      | VBool b \<Rightarrow> Inr (if b then 1 else 0)
      | v \<Rightarrow> (let t = py_str (ce_repr c) v in conf_int c (VStr (if t = [] then ''1'' else t))))"

definition shown :: "conf_env \<Rightarrow> pydict \<Rightarrow> string \<Rightarrow> string" where
  "shown c payload key = (case dict_get payload key of None \<Rightarrow> [] | Some v \<Rightarrow> py_str (ce_repr c) v)"

definition banner_json :: "settings_env \<Rightarrow> pydict \<Rightarrow> int \<Rightarrow> string" where
  "banner_json w payload la =
     (let c = se_conf w; text = (\<lambda>key. VStr (str_or_empty (ce_repr c) (get_or_none payload key))) in
      or_empty (json_dumps (se_json_float w) (VDict
        [(''account_id'', text ''account_id''), (''event_name'', VStr ''worker_configuration_validated''),
         (''launch_attempt'', VInt la), (''level'', VStr ''INFO''), (''local_phase'', VStr ''INITIALIZING''),
         (''mode'', text ''mode''), (''runtime_id'', text ''runtime_id''),
         (''strategy_version_id'', text ''strategy_version_id''), (''tenant_id'', text ''tenant_id''),
         (''worker_identity'', VStr (shown c payload ''runtime_id'' @ '':'' @ shown c payload ''strategy_version_id'' @
           '':'' @ int_str la))])))"

definition launch_banner :: "settings_env \<Rightarrow> string \<Rightarrow> raw_launch \<Rightarrow> pydict \<Rightarrow> unit conf" where
  "launch_banner w label raw tuning =
     (let c = se_conf w; payload = rl_payload raw; provided = rl_digest_json raw;
          computed = or_empty (rl_computed_digest raw);
          srm = py_strip (text_at tuning ''strategy_runtime_manager_base_url'');
          risk = py_strip (text_at tuning ''risk_grpc_target''); oms = py_strip (text_at tuning ''oms_grpc_target'')
      in act_bind (act_of (banner_attempt w payload)) (\<lambda>la.
         act_seq
          [say ''Launching strategy_worker_runtime from strategy bundle...'',
           say (''Launch spec source: '' @ label),
           act_when (py_strip provided \<noteq> [] \<and> computed \<noteq> [] \<and> provided \<noteq> computed)
             (act_seq
               [say (''Warning: Provided artifact_digest does not match local computed digest. '' @
                  ''Continuing launch; runtime validation is authoritative.''),
                say (''Warning: provided='' @ provided @ '' computed='' @ computed)]),
           say ''Launch metadata loaded.'',
           say (''Using artifact uri: '' @ shown c payload ''artifact_uri''),
           say (''Using artifact digest: '' @ shown c payload ''artifact_digest''),
           act_when (srm \<noteq> [])
             (act_seq
               [say (''strategy-runtime-manager HTTP base URL: '' @ srm),
                say (''strategy-runtime-manager signals: HTTP only ('' @ srm @ '')'')]),
           if risk \<noteq> [] then
             say_target w ''risk service hot-path target: '' ''risk service hot-path TCP status: '' risk
           else act_when (oms \<noteq> []) (say_target w ''OMS gRPC target: '' ''OMS gRPC status: '' oms),
           say ''----------------------------Internal Message-------------'',
           say (banner_json w payload la),
           say ''worker runtime status: STARTING'']))"

section \<open>Loading\<close>

definition settings_from_prepared ::
  "settings_env \<Rightarrow> file_tree \<Rightarrow> path \<Rightarrow> bool \<Rightarrow> bool \<Rightarrow> string \<Rightarrow> pydict \<Rightarrow> worker_settings conf" where
  "settings_from_prepared w fs base_dir banner env_only label data =
     act_with environ_of (\<lambda>os.
       (let c = se_conf w; raw = raw_dict_to_launch_payload c fs base_dir data in
        act_bind (act_of (extract_runtime_tuning
          \<lparr>so_conf = c, so_os = os, so_data = data, so_env_only = env_only\<rparr>)) (\<lambda>extracted.
        (let tuning = apply_module_connectivity_settings os extracted in
         act_then (act_when banner (launch_banner w label raw tuning))
         (act_bind (act_of (map_sum launch_error id (from_payload (VDict (rl_payload raw))))) (\<lambda>spec.
          act_bind (act_of (page_size c data)) (\<lambda>pages.
          act_ret (make_settings c os base_dir data raw tuning spec pages))))))))"

definition setting_not_found :: "path \<Rightarrow> py_exc" where
  "setting_not_found p = context_error ''launch_spec_invalid''
     [(''setting_path'', ''strategy_bundle_setting_not_found:'' @ path_str p)]"

definition identity_source_missing :: py_exc where
  "identity_source_missing = context_error ''launch_identity_source_missing''
     [(''bootstrap'', ''Set STRATEGY_DEPLOYMENT_SERVICE_BASE_URL and DEPLOYMENT_ID for SDS runtime-context, or provide strategy_bundle/setting.json under cwd (or pass bundle_path in tests).'')]"

definition load_settings :: "settings_env \<Rightarrow> file_tree \<Rightarrow> path option \<Rightarrow> path option \<Rightarrow> bool \<Rightarrow> worker_settings conf" where
  "load_settings w fs bundle_path base_dir banner =
     (let c = se_conf w; cwd = (case base_dir of Some d \<Rightarrow> d | None \<Rightarrow> ae_cwd (ce_art c));
          setting = default_bundle_setting_path c cwd;
          from_file = (\<lambda>p label. act_bind (act_of (read_bundle_json c fs p))
            (settings_from_prepared w fs cwd banner False label))
      in act_then (load_worker_env_file c fs cwd)
        (case bundle_path of
           Some p \<Rightarrow>
             if \<not> is_file fs (ae_resolve (ce_art c) p) then act_raise (setting_not_found p)
             else from_file p (path_str p)
         | None \<Rightarrow>
             act_with environ_of (\<lambda>os.
               (let base_url = env_stripped os ''STRATEGY_DEPLOYMENT_SERVICE_BASE_URL'';
                    dep_id = env_stripped os ''DEPLOYMENT_ID''
                in if base_url \<noteq> [] \<and> dep_id \<noteq> [] then
                     act_bind (fetch_bundle_from_deployment_runtime_context (se_deploy w) base_url dep_id)
                       (settings_from_prepared w fs cwd banner False
                         (''<STRATEGY_DEPLOYMENT_SERVICE_BASE_URL>/internal/v1/deployments/'' @ dep_id @ ''/runtime-context''))
                   else if is_file fs setting then from_file setting (path_str setting)
                   else act_raise identity_source_missing))))"

definition load_settings_from_bundle_dict ::
  "settings_env \<Rightarrow> file_tree \<Rightarrow> pyval \<Rightarrow> path option \<Rightarrow> bool \<Rightarrow> path option \<Rightarrow> worker_settings conf" where
  "load_settings_from_bundle_dict w fs data base_dir banner messages_path =
     (case data of
        VDict d \<Rightarrow>
          (let c = se_conf w; cwd = (case base_dir of Some b \<Rightarrow> b | None \<Rightarrow> ae_cwd (ce_art c));
               label = (case messages_path of Some p \<Rightarrow> p | None \<Rightarrow> default_bundle_setting_path c cwd)
           in act_then (load_worker_env_file c fs cwd)
             (settings_from_prepared w fs cwd banner False (path_str label) d))
      | _ \<Rightarrow> act_raise (TypeExc ''TypeError'' ''bundle data must be a dict''))"

end
