(* ===== verification/SettingsProps.thy ===== *)
theory SettingsProps
  imports Settings
begin

text \<open>
  What the settings of a worker guarantee: the constants of the module over environment and bundle, numbers in
  their bounds, an environment the \<open>.env\<close> file may only complete, and the identity a deployment launches with.
\<close>

section \<open>Settings that were made\<close>

lemma bind_gives:
  "act_bind m f s = (Inr x, s') \<longleftrightarrow> (\<exists>y t. m s = (Inr y, t) \<and> f y t = (Inr x, s'))"
  "act_then m n s = (Inr x, s') \<longleftrightarrow> (\<exists>y t. m s = (Inr y, t) \<and> n t = (Inr x, s'))"
  by (auto simp: act_run split: prod.split sum.split)

definition source_of :: "settings_env \<Rightarrow> os_environ \<Rightarrow> bool \<Rightarrow> pydict \<Rightarrow> conf_source" where
  "source_of w os env_only data = \<lparr>so_conf = se_conf w, so_os = os, so_data = data, so_env_only = env_only\<rparr>"

lemma made_settings:
  assumes "settings_from_prepared w fs base_dir banner env_only label data s = (Inr ws, s')"
  obtains extracted spec pages where
    "extract_runtime_tuning (source_of w (environ_of s) env_only data) = Inr extracted"
    and "from_payload (VDict (rl_payload (raw_dict_to_launch_payload (se_conf w) fs base_dir data))) = Inr spec"
    and "page_size (se_conf w) data = Inr pages"
    and "ws = make_settings (se_conf w) (environ_of s) base_dir data (raw_dict_to_launch_payload (se_conf w) fs base_dir data)
      (apply_module_connectivity_settings (environ_of s) extracted) spec pages"
  using assms
  by (auto simp: settings_from_prepared_def bind_gives act_run(1,6,8) Let_def source_of_def map_sum_def split: sum.splits)

lemma dict_get_overlaid: "dict_get (dict_update extra d) k = (case dict_get (rev extra) k of Some v \<Rightarrow> Some v | None \<Rightarrow> dict_get d k)"
  unfolding dict_update_def
  by (induction extra arbitrary: d) (auto simp: dict_get_def map_add_def dict_set_def update_conv split: option.splits)

lemma dict_get_append: "dict_get (a @ b) k = (case dict_get a k of Some v \<Rightarrow> Some v | None \<Rightarrow> dict_get b k)"
  unfolding dict_get_def by (simp add: map_add_def)

section \<open>The constants of the module\<close>

lemma constant_feeds: "market_data_feeds_from_streams_constant = [''bars'']"
  by code_simp

lemma module_value:
  assumes "use_module_connectivity_settings os" and "dict_get (rev module_connectivity) k = Some v"
  shows "get_or_none (apply_module_connectivity_settings os t) k = v"
  using assms by (simp add: apply_module_connectivity_settings_def get_or_none_def dict_get_overlaid)

text \<open>
  Unless \<open>SWR_USE_MODULE_CONNECTIVITY_SETTINGS\<close> turns them off, the constants of the module decide the
  manager URL, the order and history targets and the market data subscription, whatever the environment
  and the bundle say: no manager, one unreachable order service, bars only.
\<close>

lemma module_connectivity_wins:
  assumes "settings_from_prepared w fs base_dir banner env_only label data s = (Inr ws, s')"
    and "use_module_connectivity_settings (environ_of s)"
  shows "ws_manager_url ws = [] \<and> ws_oms_target ws = ''0.0.0.1:50053'' \<and> ws_historical_target ws = ''127.0.0.1:50051'' \<and>
    ws_feeds ws = [''bars''] \<and> ws_start_id ws = ''$'' \<and> ws_block_ms ws = 0 \<and> ws_count ws = 100 \<and>
    ws_partitions ws = 128 \<and> ws_replay_ms ws = 100 \<and> ws_stream_trades ws = ''md:stream:trades'' \<and>
    ws_stream_quotes ws = ''md:stream:quotes'' \<and> ws_stream_bars ws = ''md:stream:am''"
proof -
  obtain t raw spec pages where ws: "ws = make_settings (se_conf w) (environ_of s) base_dir data raw
      (apply_module_connectivity_settings (environ_of s) t) spec pages"
    using assms(1) by (rule made_settings)
  note pinned = module_value [OF assms(2)]
  have "get_or_none (apply_module_connectivity_settings (environ_of s) t) ''strategy_runtime_manager_base_url'' = VStr []"
    by (rule pinned) (simp add: module_connectivity_def MANAGER_URL_CONST_def)
  moreover have "get_or_none (apply_module_connectivity_settings (environ_of s) t) ''oms_grpc_target'' = VStr ''0.0.0.1:50053''"
    by (rule pinned) (simp add: module_connectivity_def OMS_TARGET_CONST_def)
  moreover have "get_or_none (apply_module_connectivity_settings (environ_of s) t) ''historical_data_grpc_target'' = VStr ''127.0.0.1:50051''"
    by (rule pinned) (simp add: module_connectivity_def HISTORICAL_TARGET_CONST_def)
  moreover have "get_or_none (apply_module_connectivity_settings (environ_of s) t) ''market_data_feeds'' = VList [VStr ''bars'']"
    by (rule pinned) (simp add: module_connectivity_def constant_feeds)
  moreover have "get_or_none (apply_module_connectivity_settings (environ_of s) t) ''market_data_stream_start_id'' = VStr ''$''"
    by (rule pinned) (simp add: module_connectivity_def)
  moreover have "get_or_none (apply_module_connectivity_settings (environ_of s) t) ''market_data_xread_block_ms'' = VInt 0"
    by (rule pinned) (simp add: module_connectivity_def)
  moreover have "get_or_none (apply_module_connectivity_settings (environ_of s) t) ''market_data_xread_count'' = VInt 100"
    by (rule pinned) (simp add: module_connectivity_def)
  moreover have "get_or_none (apply_module_connectivity_settings (environ_of s) t) ''market_data_realtime_partition_count'' = VInt 128"
    by (rule pinned) (simp add: module_connectivity_def)
  moreover have "get_or_none (apply_module_connectivity_settings (environ_of s) t) ''backtest_bar_replay_interval_ms'' = VInt 100"
    by (rule pinned) (simp add: module_connectivity_def)
  moreover have "get_or_none (apply_module_connectivity_settings (environ_of s) t) ''market_data_redis_stream_trades'' = VStr ''md:stream:trades''"
    by (rule pinned) (simp add: module_connectivity_def)
  moreover have "get_or_none (apply_module_connectivity_settings (environ_of s) t) ''market_data_redis_stream_quotes'' = VStr ''md:stream:quotes''"
    by (rule pinned) (simp add: module_connectivity_def)
  moreover have "get_or_none (apply_module_connectivity_settings (environ_of s) t) ''market_data_redis_stream_bars_1m'' = VStr ''md:stream:am''"
    by (rule pinned) (simp add: module_connectivity_def)
  ultimately show ?thesis
    unfolding ws make_settings_def Let_def
    by (simp add: text_at_def feeds_at_def int_at_def)
qed

section \<open>Bounds\<close>

definition NUMBER_KEYS :: "string list" where
  "NUMBER_KEYS =
     [''heartbeat_interval_seconds'', ''market_data_xread_block_ms'', ''market_data_xread_count'',
      ''market_data_realtime_partition_count'', ''backtest_bar_replay_interval_ms'']"

lemma number_keys_free: "set NUMBER_KEYS \<inter> (fst ` set (tuning_texts_of z) \<union> fst ` set (flags_of z)) = {}"
  unfolding NUMBER_KEYS_def tuning_texts_of_def flags_of_def by simp

lemma tuned_number:
  assumes "extract_runtime_tuning z = Inr t" and "numbers_of z = Inr numbers" and "k \<in> set NUMBER_KEYS"
    and "dict_get numbers k = Some v"
  shows "get_or_none t k = v"
proof -
  have "dict_get (tuning_texts_of z) k = None" "dict_get (flags_of z) k = None"
    using number_keys_free [of z] assms(3) unfolding dict_get_def map_of_eq_None_iff by blast+
  then show ?thesis
    using assms(1,2,4) by (auto simp: extract_runtime_tuning_def get_or_none_def dict_get_append)
qed

lemma tuned_numbers:
  assumes "extract_runtime_tuning z = Inr t"
  obtains beat block xcount partitions replay_ms where
    "get_or_none t ''heartbeat_interval_seconds'' = VFloat (py_max (Fin (1 / 1000)) beat)"
    and "get_or_none t ''market_data_xread_block_ms'' = VInt (max 0 block)"
    and "get_or_none t ''market_data_xread_count'' = VInt (max 1 xcount)"
    and "get_or_none t ''market_data_realtime_partition_count'' = VInt partitions"
    and "get_or_none t ''backtest_bar_replay_interval_ms'' = VInt (max 0 replay_ms)"
proof -
  obtain numbers where n: "numbers_of z = Inr numbers"
    using assms by (auto simp: extract_runtime_tuning_def result_simps)
  obtain hist beat oms risk block xcount partitions replay_ms replay where numbers: "numbers =
      [(''historical_data_grpc_timeout_seconds'', VFloat hist),
       (''heartbeat_interval_seconds'', VFloat (py_max (Fin (1 / 1000)) beat)),
       (''oms_grpc_timeout_seconds'', VFloat oms), (''risk_grpc_timeout_seconds'', VFloat risk),
       (''market_data_xread_block_ms'', VInt (max 0 block)), (''market_data_xread_count'', VInt (max 1 xcount)),
       (''market_data_realtime_partition_count'', VInt partitions),
       (''backtest_bar_replay_interval_ms'', VInt (max 0 replay_ms)), (''replay_grpc_timeout_seconds'', VFloat replay)]"
    using n unfolding numbers_of_def rbind_eq_Inr sum.inject by blast
  show thesis
    by (rule that; rule tuned_number [OF assms n]; simp add: NUMBER_KEYS_def numbers)
qed

lemma py_max_number: "py_max (Fin a) b \<noteq> NaN"
  by (cases b) (auto simp: py_max_def)

lemma settings_numbers:
  fixes os :: os_environ
  assumes "extract_runtime_tuning z = Inr extracted"
  defines "t \<equiv> apply_module_connectivity_settings os extracted"
  shows "float_at t ''heartbeat_interval_seconds'' \<noteq> NaN \<and>
    \<not> float_less (float_at t ''heartbeat_interval_seconds'') (Fin (1 / 1000)) \<and>
    0 \<le> int_at t ''market_data_xread_block_ms'' \<and> 1 \<le> int_at t ''market_data_xread_count'' \<and>
    0 \<le> int_at t ''backtest_bar_replay_interval_ms''"
proof -
  obtain beat block xcount partitions replay_ms where extracted:
    "get_or_none extracted ''heartbeat_interval_seconds'' = VFloat (py_max (Fin (1 / 1000)) beat)"
    "get_or_none extracted ''market_data_xread_block_ms'' = VInt (max 0 block)"
    "get_or_none extracted ''market_data_xread_count'' = VInt (max 1 xcount)"
    "get_or_none extracted ''market_data_realtime_partition_count'' = VInt partitions"
    "get_or_none extracted ''backtest_bar_replay_interval_ms'' = VInt (max 0 replay_ms)"
    using assms(1) by (rule tuned_numbers)
  have beat: "get_or_none t ''heartbeat_interval_seconds'' = VFloat (py_max (Fin (1 / 1000)) beat)"
    using extracted(1)
    by (simp add: t_def apply_module_connectivity_settings_def get_or_none_def dict_get_overlaid module_connectivity_def)
  have rest: "0 \<le> int_at t ''market_data_xread_block_ms'' \<and> 1 \<le> int_at t ''market_data_xread_count'' \<and>
      0 \<le> int_at t ''backtest_bar_replay_interval_ms''"
  proof (cases "use_module_connectivity_settings os")
    case True
    then show ?thesis
      by (simp add: t_def apply_module_connectivity_settings_def int_at_def get_or_none_def dict_get_overlaid
          module_connectivity_def)
  next
    case False
    then show ?thesis
      using extracted by (simp add: t_def apply_module_connectivity_settings_def int_at_def)
  qed
  show ?thesis using rest beat by (simp add: float_at_def py_max_number py_max_not_less)
qed

text \<open>
  C19: settings that are made have numbers the loops can work with: a positive heartbeat interval that is a
  number, a positive page size and batch size, no negative waits, between 1 and 65535 partitions.
\<close>

theorem settings_in_bounds:
  assumes "settings_from_prepared w fs base_dir banner env_only label data s = (Inr ws, s')"
  shows "ws_heartbeat_interval ws \<noteq> NaN \<and> \<not> float_less (ws_heartbeat_interval ws) (Fin (1 / 1000)) \<and>
    1 \<le> ws_page_size ws \<and> 0 \<le> ws_block_ms ws \<and> 1 \<le> ws_count ws \<and> 0 \<le> ws_replay_ms ws \<and>
    1 \<le> ws_partitions ws \<and> ws_partitions ws \<le> 65535"
proof -
  obtain t raw spec pages where extracted: "extract_runtime_tuning (source_of w (environ_of s) env_only data) = Inr t"
    and pages: "page_size (se_conf w) data = Inr pages"
    and ws: "ws = make_settings (se_conf w) (environ_of s) base_dir data raw
      (apply_module_connectivity_settings (environ_of s) t) spec pages"
    using assms by (rule made_settings)
  have "1 \<le> pages" using pages by (auto simp: page_size_def map_sum_def split: sum.splits)
  then show ?thesis
    using settings_numbers [OF extracted, where os = "environ_of s"] by (simp add: ws make_settings_def Let_def)
qed

section \<open>The environment and the .env file\<close>

text \<open>Variables that are set stay, those of a list are not touched.\<close>

definition completes_environ :: "string list \<Rightarrow> conf_state \<Rightarrow> conf_state \<Rightarrow> bool" where
  "completes_environ blocklist s s' \<longleftrightarrow>
     (\<forall>k v. environ_of s k = Some v \<longrightarrow> environ_of s' k = Some v) \<and>
     (\<forall>k \<in> set blocklist. environ_of s' k = environ_of s k)"

interpretation completes: step_order "completes_environ blocklist" for blocklist
  by unfold_locales (auto simp: completes_environ_def)

lemma dotenv_line_allowed: "dotenv_line blocklist raw = Some (key, text) \<Longrightarrow> key \<notin> set blocklist"
  by (auto simp: dotenv_line_def Let_def split: if_splits)

lemma set_from_dotenv_completes: "moves (completes_environ blocklist) (set_from_dotenv blocklist raw)"
proof (cases "dotenv_line blocklist raw")
  case None
  then show ?thesis by (simp add: set_from_dotenv_def completes.ret)
next
  case (Some kt)
  obtain key val where kt: "kt = (key, val)" by (cases kt)
  have "key \<notin> set blocklist" using Some kt dotenv_line_allowed by simp
  then show ?thesis
    by (auto simp: moves_def set_from_dotenv_def Some kt act_run completes.refl completes_environ_def environ_of_def
        map_add_def split: option.split)
qed

text \<open>
  The \<open>.env\<close> file only completes the environment: a variable it changes was not set, loading the file was
  asked for, and with the constants of the module in force it is none of those they replace; this holds also
  when the loading raises.
\<close>

lemma dotenv_only_completes:
  assumes "environ_of (snd (load_worker_env_file c fs cwd s)) k \<noteq> environ_of s k"
  shows "environ_of s k = None \<and> dotenv_loading_enabled (environ_of s) \<and>
    k \<notin> set (if use_module_connectivity_settings (environ_of s) then DOTENV_BLOCKLIST else [])"
proof -
  let ?bl = "if use_module_connectivity_settings (environ_of s) then DOTENV_BLOCKLIST else []"
  have enabled: "dotenv_loading_enabled (environ_of s)"
    by (rule ccontr) (use assms in \<open>simp add: load_worker_env_file_def act_run\<close>)
  then have "completes_environ ?bl s (snd (load_worker_env_file c fs cwd s))"
    using movesD [OF completes.for_each [OF set_from_dotenv_completes], of ?bl s]
    by (auto simp: load_worker_env_file_def act_run completes.refl split: option.split sum.split)
  then show ?thesis
    using assms enabled by (cases "environ_of s k") (auto simp: completes_environ_def)
qed

section \<open>The identity a deployment launches with\<close>

lemma get_put_context [simp]:
  "dict_get (put_context_text c rc key out) k =
     (if k = key \<and> context_text c rc key \<noteq> [] then Some (VStr (context_text c rc key)) else dict_get out k)"
  by (simp add: put_context_text_def)

lemma get_put_digest: "k \<noteq> ''artifact_digest'' \<Longrightarrow> dict_get (put_context_digest rc out) k = dict_get out k"
  by (auto simp: put_context_digest_def split: pyval.split)

lemma get_put_objects:
  "k \<noteq> ''strategy_params'' \<Longrightarrow> dict_get (put_strategy_params data p) k = dict_get p k"
  "k \<noteq> ''initial_cash'' \<Longrightarrow> dict_get (put_initial_cash c data p) k = dict_get p k"
  by (auto simp: put_strategy_params_def put_initial_cash_def Let_def split: pyval.split)

lemma bundle_identity:
  assumes "k \<in> {''runtime_id'', ''tenant_id'', ''launch_attempt'', ''strategy_version_id'', ''mode''}"
  shows "dict_get (worker_bundle_dict_from_runtime_context_response c rc identity) k =
    (if k \<in> {''strategy_version_id'', ''mode''} \<and> context_text c rc k \<noteq> [] then Some (VStr (context_text c rc k))
     else dict_get identity k)"
proof -
  have keys: "k \<noteq> ''initial_cash''" "k \<noteq> ''parameters''" "k \<noteq> ''strategy_params''" "k \<noteq> ''job_id''"
    "k \<noteq> ''correlation_id''" "k \<noteq> ''artifact_digest''" "k \<noteq> ''artifact_uri''" "k \<noteq> ''entrypoint''" "k \<noteq> ''account_id''"
    using assms by auto
  have "dict_get (worker_bundle_dict_from_runtime_context_response c rc identity) k =
    dict_get (put_context_text c rc ''mode'' (put_context_text c rc ''strategy_version_id'' identity)) k"
    unfolding worker_bundle_dict_from_runtime_context_response_def Let_def
    using keys by (simp add: get_put_digest get_put_objects)
  then show ?thesis using assms by auto
qed

lemma get_put_if_key:
  "dict_get (put_if_key data key out) k =
     (if k = key \<and> dict_get data key \<noteq> None
      then Some (case the (dict_get data key) of VStr t \<Rightarrow> VStr (py_strip t) | VNone \<Rightarrow> VStr [] | v \<Rightarrow> v)
      else dict_get out k)"
  by (auto simp: put_if_key_def split: option.split pyval.split)

lemma fold_put_if_key:
  assumes "dict_get data k = Some (VStr t)"
  shows "k \<in> set ks \<or> dict_get out k = Some (VStr (py_strip t)) \<Longrightarrow>
    dict_get (fold (put_if_key data) ks out) k = Some (VStr (py_strip t))"
proof (induction ks arbitrary: out)
  case (Cons key ks)
  then show ?case using assms by (cases "k = key") (simp_all add: get_put_if_key)
qed simp

lemma fold_put_no_key:
  assumes "dict_get data k = None"
  shows "dict_get (fold (put_if_key data) ks out) k = dict_get out k"
  using assms by (induction ks arbitrary: out) (auto simp: get_put_if_key)

lemma later_puts:
  "k \<noteq> ''launch_attempt'' \<Longrightarrow> dict_get (put_launch_attempt c data p) k = dict_get p k"
  "k \<noteq> key \<Longrightarrow> dict_get (put_text_or_empty c data key p) k = dict_get p k"
  "k \<noteq> key \<Longrightarrow> dict_get (put_optional_text c data key p) k = dict_get p k"
  "k \<noteq> key \<Longrightarrow> dict_get (put_window_bound c data key p) k = dict_get p k"
  "k \<noteq> ''artifact_uri'' \<Longrightarrow> k \<noteq> ''artifact_digest'' \<Longrightarrow> dict_get (put_artifact c fs b data p) k = dict_get p k"
  "k \<noteq> ''parameters'' \<Longrightarrow> k \<noteq> ''strategy_params'' \<Longrightarrow> k \<noteq> ''initial_cash'' \<Longrightarrow>
     dict_get (put_objects c data p) k = dict_get p k"
  unfolding put_launch_attempt_def put_text_or_empty_def put_optional_text_def put_window_bound_def put_artifact_def
    put_objects_def Let_def
  by (simp_all add: get_put_objects split: option.split pyval.split prod.split)

lemma payload_ids:
  assumes "k \<in> {''runtime_id'', ''tenant_id'', ''strategy_version_id'', ''mode''}"
  shows "dict_get (rl_payload (raw_dict_to_launch_payload c fs b data)) k = dict_get (fold (put_if_key data)
      [''runtime_id'', ''tenant_id'', ''strategy_version_id'', ''mode'', ''entrypoint''] []) k"
proof -
  have keys: "k \<noteq> ''launch_attempt''" "k \<noteq> ''account_id''" "k \<noteq> ''trader_id''" "k \<noteq> ''artifact_uri''"
    "k \<noteq> ''artifact_digest''" "k \<noteq> ''job_id''" "k \<noteq> ''correlation_id''" "k \<noteq> ''parameters''" "k \<noteq> ''strategy_params''"
    "k \<noteq> ''initial_cash''" "k \<noteq> ''ts_start''" "k \<noteq> ''ts_end''" "k \<noteq> ''symbol''" "k \<noteq> ''entrypoint''"
    using assms(1) by auto
  show ?thesis
    unfolding raw_dict_to_launch_payload_def Let_def using keys by (simp add: later_puts split: option.split)
qed

lemma payload_identity:
  assumes "k \<in> {''runtime_id'', ''tenant_id'', ''strategy_version_id'', ''mode''}"
  shows "dict_get data k = Some (VStr t) \<Longrightarrow>
      dict_get (rl_payload (raw_dict_to_launch_payload c fs b data)) k = Some (VStr (py_strip t))"
    "dict_get data k = None \<Longrightarrow> dict_get (rl_payload (raw_dict_to_launch_payload c fs b data)) k = None"
proof -
  have "k \<in> set [''runtime_id'', ''tenant_id'', ''strategy_version_id'', ''mode'', ''entrypoint'']" using assms by auto
  then show "dict_get data k = Some (VStr t) \<Longrightarrow>
      dict_get (rl_payload (raw_dict_to_launch_payload c fs b data)) k = Some (VStr (py_strip t))"
    unfolding payload_ids [OF assms] by (intro fold_put_if_key disjI1)
  show "dict_get data k = None \<Longrightarrow> dict_get (rl_payload (raw_dict_to_launch_payload c fs b data)) k = None"
    unfolding payload_ids [OF assms] by (simp only: fold_put_no_key dict_get_Nil)
qed

lemma payload_attempt:
  assumes "dict_get data ''launch_attempt'' = Some (VInt n)"
  shows "dict_get (rl_payload (raw_dict_to_launch_payload c fs b data)) ''launch_attempt'' = Some (VInt n)"
proof -
  obtain k where k: "k = ''launch_attempt''" by simp
  have keys: "k \<noteq> ''account_id''" "k \<noteq> ''trader_id''" "k \<noteq> ''artifact_uri''"
    "k \<noteq> ''artifact_digest''" "k \<noteq> ''job_id''" "k \<noteq> ''correlation_id''" "k \<noteq> ''parameters''" "k \<noteq> ''strategy_params''"
    "k \<noteq> ''initial_cash''" "k \<noteq> ''ts_start''" "k \<noteq> ''ts_end''" "k \<noteq> ''symbol''"
    by (simp_all add: k)
  have attempt: "dict_get (put_launch_attempt c data p) k = Some (VInt n)" for p
    unfolding k put_launch_attempt_def assms by simp
  have "dict_get (rl_payload (raw_dict_to_launch_payload c fs b data)) k = Some (VInt n)"
    unfolding raw_dict_to_launch_payload_def Let_def using keys attempt by (simp add: later_puts split: option.split)
  then show ?thesis by (simp only: k)
qed

lemma payload_text:
  assumes "valid_payload d" and "k \<in> {''runtime_id'', ''strategy_version_id''}" and "dict_get d k = Some (VStr t)"
  shows "or_empty (field_val d k) = t"
proof -
  have "good_string d k" using assms(1,2) unfolding valid_payload_def by blast
  then show ?thesis using assms(3) by (auto simp: good_string_def field_val_def)
qed

lemma fetched_bundle:
  assumes "fetch_bundle_from_deployment_runtime_context v base_url dep s = (Inr bundle, s')"
  obtains body rc where "dp_get v (context_url v base_url dep) (context_headers v (environ_of s)) = FetchAnswer 200 body"
    and "read_context v 200 body = Inr rc"
    and "bundle = worker_bundle_dict_from_runtime_context_response (dp_conf v) rc
      (context_identity (dp_conf v) (environ_of s) rc)"
proof -
  have "\<exists>status body rc. dp_get v (context_url v base_url dep) (context_headers v (environ_of s)) = FetchAnswer status body \<and>
      read_context v status body = Inr rc \<and>
      bundle = worker_bundle_dict_from_runtime_context_response (dp_conf v) rc
        (context_identity (dp_conf v) (environ_of s) rc)"
    using assms
    by (auto simp: fetch_bundle_from_deployment_runtime_context_def bind_gives act_run(1,2,6,8) Let_def
        split: fetch_answer.splits if_split_asm)
  moreover have "status = 200" if "read_context v status body = Inr rc" for status body rc
    using that by (simp add: read_context_def split: if_split_asm)
  ultimately show thesis using that by blast
qed

text \<open>
  C18: a worker launched from a deployment runs under the runtime id and the attempt of its environment; its
  strategy version is the one the deployment service names, else that of the environment, and its mode the one
  the service names.
\<close>

theorem deployment_identity:
  assumes "fetch_bundle_from_deployment_runtime_context (se_deploy w) base_url dep s = (Inr bundle, s1)"
    and "settings_from_prepared w fs base_dir banner env_only label bundle s2 = (Inr ws, s3)"
  shows "\<exists>body rc. dp_get (se_deploy w) (context_url (se_deploy w) base_url dep)
        (context_headers (se_deploy w) (environ_of s)) = FetchAnswer 200 body \<and>
      read_context (se_deploy w) 200 body = Inr rc \<and>
      ls_runtime_id (ws_launch_spec ws) = identity_runtime_id (environ_of s) \<and>
      ls_launch_attempt (ws_launch_spec ws) = env_launch_attempt (se_conf w) (environ_of s) \<and>
      ls_strategy_version_id (ws_launch_spec ws) =
        (let named = context_text (se_conf w) rc ''strategy_version_id'' in
         if named \<noteq> [] then named else env_stripped (environ_of s) ''SWR_STRATEGY_VERSION_ID'') \<and>
      runtime_mode_value (ls_mode (ws_launch_spec ws)) = context_text (se_conf w) rc ''mode''"
proof -
  let ?c = "se_conf w" and ?os = "environ_of s"
  obtain body rc where fetched: "dp_get (se_deploy w) (context_url (se_deploy w) base_url dep)
        (context_headers (se_deploy w) ?os) = FetchAnswer 200 body" "read_context (se_deploy w) 200 body = Inr rc"
    and merged: "bundle = worker_bundle_dict_from_runtime_context_response ?c rc (context_identity ?c ?os rc)"
    using fetched_bundle [OF assms(1)] unfolding se_conf_def by metis
  let ?payload = "rl_payload (raw_dict_to_launch_payload ?c fs base_dir bundle)"
  obtain spec where spec: "from_payload (VDict ?payload) = Inr spec" and ws: "ws_launch_spec ws = spec"
    using assms(2) by (rule made_settings) (simp add: make_settings_def Let_def)
  have valid: "valid_payload ?payload" "spec = payload_spec ?payload" using spec by (auto simp: from_payload_Inr)
  have rid: "dict_get ?payload ''runtime_id'' = Some (VStr (identity_runtime_id ?os))"
    using payload_identity(1) [of "''runtime_id''" "bundle" "identity_runtime_id ?os"]
    by (simp add: merged bundle_identity context_identity_def runtime_identity_from_env_def identity_runtime_id_def Let_def)
  have attempt: "dict_get ?payload ''launch_attempt'' = Some (VInt (env_launch_attempt ?c ?os))"
    by (rule payload_attempt) (simp add: merged bundle_identity context_identity_def runtime_identity_from_env_def)
  let ?named = "context_text ?c rc ''strategy_version_id''"
  have version: "dict_get ?payload ''strategy_version_id'' =
      Some (VStr (if ?named \<noteq> [] then ?named else env_stripped ?os ''SWR_STRATEGY_VERSION_ID''))"
    using payload_identity(1) [of "''strategy_version_id''" "bundle"
        "if ?named \<noteq> [] then ?named else env_stripped ?os ''SWR_STRATEGY_VERSION_ID''"]
    by (auto simp: merged bundle_identity context_identity_def runtime_identity_from_env_def env_stripped_def
        context_text_def)
  obtain m where mode: "dict_get ?payload ''mode'' = Some (VStr (runtime_mode_value m))"
    using valid(1) unfolding valid_payload_def by blast
  have "dict_get bundle ''mode'' = (if context_text ?c rc ''mode'' \<noteq> [] then Some (VStr (context_text ?c rc ''mode'')) else None)"
    by (simp add: merged bundle_identity context_identity_def runtime_identity_from_env_def)
  then have named: "runtime_mode_value m = context_text ?c rc ''mode''"
    using mode payload_identity [of "''mode''" "bundle"]
    by (cases "context_text ?c rc ''mode'' = []") (auto simp: context_text_def)
  show ?thesis
    using fetched valid(2) named read_mode_value [OF mode] payload_text [OF valid(1) _ rid] payload_text [OF valid(1) _ version]
    by (auto simp: ws payload_spec_def attempt_val_def read_launch_attempt_def attempt Let_def)
qed

section \<open>Where settings come from\<close>

text \<open>Without the flag the \<open>.env\<close> file is not opened.\<close>

lemma env_flag_absent: "os k = None \<Longrightarrow> \<not> env_flag_enabled os k"
  by (simp add: env_flag_enabled_def env_stripped_def py_strip_def py_lstrip_def py_lower_def)

lemma dotenv_off: "environ_of s ''SWR_LOAD_DOTENV'' = None \<Longrightarrow> load_worker_env_file c fs cwd s = (Inr (), s)"
  by (simp add: load_worker_env_file_def dotenv_loading_enabled_def env_flag_absent act_run)

text \<open>An explicit file is read without asking the deployment service, which is asked before the default file.\<close>

lemma no_identity_source:
  assumes "environ_of s ''SWR_LOAD_DOTENV'' = None" and "environ_of s ''DEPLOYMENT_ID'' = None"
    and "\<not> is_file fs (default_bundle_setting_path (se_conf w) (ae_cwd (ce_art (se_conf w))))"
  shows "load_settings w fs None None banner s = (Inl identity_source_missing, s)"
  using assms by (simp add: load_settings_def dotenv_off env_stripped_def py_strip_def py_lstrip_def act_run Let_def)

lemma explicit_file_not_found:
  assumes "environ_of s ''SWR_LOAD_DOTENV'' = None" and "\<not> is_file fs (ae_resolve (ce_art (se_conf w)) p)"
  shows "load_settings w fs (Some p) base_dir banner s = (Inl (setting_not_found p), s)"
  using assms by (simp add: load_settings_def dotenv_off act_run Let_def)

text \<open>The banner reads the launch attempt before the payload is checked: a bad one ends in a bare exception.\<close>

lemma banner_refuses_attempt:
  assumes "dict_get (rl_payload (raw_dict_to_launch_payload (se_conf w) fs base_dir data)) ''launch_attempt'' = Some (VStr t)"
    and "t \<noteq> []" and "ce_parse_int (se_conf w) t = None"
    and "extract_runtime_tuning (source_of w (environ_of s) env_only data) = Inr tuning"
  shows "\<exists>msg. settings_from_prepared w fs base_dir True env_only label data s = (Inl (ValueExc ''ValueError'' msg None), s)"
proof -
  have "banner_attempt w (rl_payload (raw_dict_to_launch_payload (se_conf w) fs base_dir data)) =
      Inl (ValueExc ''ValueError'' ''invalid literal for int()'' None)"
    using assms(1-3) by (simp add: banner_attempt_def conf_int_def)
  then show ?thesis
    using assms(4) by (simp add: settings_from_prepared_def launch_banner_def source_of_def act_run Let_def)
qed

text \<open>Names of feeds that the service lists with commas are not translated, and unknown to the worker.\<close>

lemma listed_feeds_lost:
  "data_source_to_feed_list c (VStr ''TRADE,QUOTE'') = [''trade'', ''quote'']"
  "ordered_feeds [''trade'', ''quote''] = [''bars'']"
  "data_source_to_feed_list c (VStr ''TRADE'') = [''trades'']"
  by code_simp+

section \<open>A deployment on concrete inputs\<close>

definition bare_conf :: conf_env where
  "bare_conf =
     \<lparr>ce_art = \<lparr>ae_resolve = (\<lambda>p. p), ae_cwd = [], ae_repr = (\<lambda>t. t), ae_urlparse = (\<lambda>t. ([], [], t)),
        ae_unquote = (\<lambda>t. t), ae_as_uri = path_str, ae_sha256 = (\<lambda>b. ''aa''), ae_hash = (\<lambda>a. None),
        ae_unzip = (\<lambda>b. Inr []), ae_disk_fault = (\<lambda>p fs. None)\<rparr>,
      ce_repr = (\<lambda>v. []), ce_parse_int = (\<lambda>t. None), ce_parse_float = (\<lambda>t. None), ce_float_of_int = (\<lambda>i. Some (Fin 3)),
      ce_utf8 = Inr, ce_json = (\<lambda>t. Inr (VDict []))\<rparr>"

definition served_context :: pydict where
  "served_context =
     [(''strategy_version_id'', VStr ''sv''), (''account_id'', VStr ''a''), (''mode'', VStr ''PAPER''),
      (''entrypoint'', VStr ''m:S''), (''artifact_uri'', VStr ''u'')]"

definition bare_env :: settings_env where
  "bare_env =
     \<lparr>se_deploy = \<lparr>dp_conf = bare_conf, dp_quote = (\<lambda>t. t), dp_request_id = ''id'', dp_get = (\<lambda>url hs. FetchAnswer 200 ''x''),
        dp_decode_replacing = (\<lambda>b. b), dp_decode = Inr, dp_json = (\<lambda>t. Inr (VDict served_context)), dp_pretty = (\<lambda>v. [])\<rparr>,
      se_connect = (\<lambda>h p. ConnectUp), se_json_float = (\<lambda>q. [])\<rparr>"

definition bare_state :: conf_state where
  "bare_state = \<lparr>cs_environ = [(''RUNTIME_ID'', ''rt'')], cs_effects = []\<rparr>"

definition served_bundle :: pydict where
  "served_bundle = worker_bundle_dict_from_runtime_context_response bare_conf served_context
     (context_identity bare_conf (environ_of bare_state) served_context)"


lemma served_payload: "\<not> isl (from_payload (VDict (rl_payload (raw_dict_to_launch_payload bare_conf [] [] served_bundle))))"
  by code_simp

lemma served_tuning: "\<not> isl (numbers_of (source_of bare_env (environ_of bare_state) False served_bundle))"
  by code_simp

lemma served_pages: "\<not> isl (page_size bare_conf served_bundle)"
  by code_simp

lemma served_fetch:
  "fst (fetch_bundle_from_deployment_runtime_context (se_deploy bare_env) ''http'' ''d'' bare_state) = Inr served_bundle"
  by code_simp

lemma bundle_served:
  "\<exists>s'. fetch_bundle_from_deployment_runtime_context (se_deploy bare_env) ''http'' ''d'' bare_state = (Inr served_bundle, s')"
  using served_fetch by (metis prod.collapse)

lemma served_settings:
  "\<exists>ws. settings_from_prepared bare_env [] [] False False label served_bundle bare_state = (Inr ws, bare_state)"
proof -
  have "se_conf bare_env = bare_conf" by (simp add: se_conf_def bare_env_def)
  moreover obtain spec numbers pages where
    "from_payload (VDict (rl_payload (raw_dict_to_launch_payload bare_conf [] [] served_bundle))) = Inr spec"
    "numbers_of (source_of bare_env (environ_of bare_state) False served_bundle) = Inr numbers"
    "page_size bare_conf served_bundle = Inr pages"
    using served_payload served_tuning served_pages by (metis sum.collapse(2))
  ultimately show ?thesis
    by (simp add: settings_from_prepared_def extract_runtime_tuning_def source_of_def act_run Let_def)
qed

theorem deployment_identity_witness:
  "\<exists>ws s1 s3. fetch_bundle_from_deployment_runtime_context (se_deploy bare_env) ''http'' ''d'' bare_state = (Inr served_bundle, s1) \<and>
     settings_from_prepared bare_env [] [] False False [] served_bundle bare_state = (Inr ws, s3) \<and>
     ls_runtime_id (ws_launch_spec ws) = ''rt''"
proof -
  obtain s1 where fetched:
      "fetch_bundle_from_deployment_runtime_context (se_deploy bare_env) ''http'' ''d'' bare_state = (Inr served_bundle, s1)"
    using bundle_served by blast
  obtain ws where made: "settings_from_prepared bare_env [] [] False False [] served_bundle bare_state = (Inr ws, bare_state)"
    using served_settings by blast
  have "identity_runtime_id (environ_of bare_state) = ''rt''" by code_simp
  then have "ls_runtime_id (ws_launch_spec ws) = ''rt''"
    using deployment_identity [OF fetched made] by auto
  then show ?thesis using fetched made by blast
qed

theorem settings_in_bounds_witness:
  "\<exists>ws s'. settings_from_prepared bare_env [] [] False False [] served_bundle bare_state = (Inr ws, s') \<and> 1 \<le> ws_count ws"
  using served_settings [of "[]"] settings_in_bounds by blast

theorem module_connectivity_wins_witness:
  "\<exists>ws s'. settings_from_prepared bare_env [] [] False False [] served_bundle bare_state = (Inr ws, s') \<and> ws_feeds ws = [''bars'']"
proof -
  have "use_module_connectivity_settings (environ_of bare_state)" by code_simp
  then show ?thesis using served_settings [of "[]"] module_connectivity_wins by blast
qed

definition line_tree :: file_tree where
  "line_tree = [([''.env''], FileNode ''A=1'')]"

definition asking_state :: conf_state where
  "asking_state = \<lparr>cs_environ = [(''SWR_LOAD_DOTENV'', ''1'')], cs_effects = []\<rparr>"

theorem dotenv_only_completes_witness:
  "environ_of (snd (load_worker_env_file bare_conf line_tree [] asking_state)) ''A'' = Some ''1'' \<and>
   environ_of asking_state ''A'' = None"
proof -
  have set: "environ_of (snd (load_worker_env_file bare_conf line_tree [] asking_state)) ''A'' = Some ''1''" by code_simp
  moreover have "environ_of asking_state ''A'' \<noteq> Some ''1''" by code_simp
  ultimately have "environ_of asking_state ''A'' = None"
    using dotenv_only_completes [of bare_conf line_tree "[]" asking_state "''A''"] by simp
  then show ?thesis using set by simp
qed

end
