(* ===== verification/FeedThreads.thy ===== *)
theory FeedThreads
  imports FeedProps SettingsProps Lifecycle
begin

text \<open>
  The bodies of the feed threads in \<open>lifecycle_service.py\<close>: what \<open>_live_market_data_redis_worker\<close> and
  \<open>_portfolio_update_redis_worker\<close> make of the settings before they enter the loops, and which streams a
  worker therefore reads.
\<close>

definition feed_print :: "string \<Rightarrow> unit fd" where
  "feed_print t = feed_note (FeedPrint t)"

text \<open>\<open>_live_market_data_partition_scope\<close>, in the thread.\<close>

definition live_partition_scope :: "cfg \<Rightarrow> int \<Rightarrow> (string \<times> int) option fd" where
  "live_partition_scope c n =
     (case paper_live_symbol c of
        None \<Rightarrow> act_then (feed_print ''[market-data-redis] parameters.symbol is required'') (act_ret None)
      | Some t \<Rightarrow>
          act_bind (act_of (market_data_partition t n)) (\<lambda>k.
            act_then (feed_print (''[market-data-redis] XREAD BLOCK 0 on partition '' @ int_str k))
              (act_ret (Some (t, k)))))"

definition text_or_default :: "string \<Rightarrow> string \<Rightarrow> string" where
  "text_or_default t dflt = (let s = py_strip (if t = [] then dflt else t) in if s = [] then dflt else s)"

definition consumer_group_of :: "feed_env \<Rightarrow> cfg \<Rightarrow> worker_settings \<Rightarrow> string" where
  "consumer_group_of v c ws =
     (let dep = (case get_or_none (cfg_payload c) ''deployment_id'' of
            VNone \<Rightarrow> [] | raw \<Rightarrow> py_strip (py_str (repr_of (fv_md v)) raw))
      in take 200 (build_market_data_consumer_group_name
           (text_or_default (ws_group_prefix ws) ''strategy-worker-runtime'')
           (if dep = [] then None else Some dep) (Some (ls_runtime_id (cfg_spec c)))))"

text \<open>\<open>unique\<close> is the process id and the random part of the consumer name.\<close>

definition live_plan :: "feed_env \<Rightarrow> cfg \<Rightarrow> worker_settings \<Rightarrow> string \<Rightarrow> string \<Rightarrow> string list \<Rightarrow> feed_plan" where
  "live_plan v c ws unique symbol names =
     \<lparr>fp_keys = market_data_redis_keys_from_settings (Some (ws_stream_trades ws)) (Some (ws_stream_quotes ws))
        (Some (ws_stream_bars ws)),
      fp_timeframe = timeframe_or_1m (Some (ws_bar_timeframe ws)), fp_symbol = Some symbol, fp_streams = names,
      fp_start = (if ws_start_id ws = [] then ''$'' else ws_start_id ws), fp_block_ms = ws_block_ms ws,
      fp_count = ws_count ws, fp_use_group = ws_consumer_group ws,
      fp_group = (if ws_consumer_group ws then consumer_group_of v c ws else []),
      fp_consumer = (if ws_consumer_group ws then
        sanitize_redis_stream_consumer_token
          (text_or_default (ws_consumer_prefix ws) ''strategy-worker-runtime-worker'') 80 @ ''-'' @ unique else [])\<rparr>"

definition live_stream_bases :: "worker_settings \<Rightarrow> string list" where
  "live_stream_bases ws =
     resolve_stream_names (if ws_feeds ws = [] then [''bars''] else ws_feeds ws)
       (Some (timeframe_or_1m (Some (ws_bar_timeframe ws))))
       (market_data_redis_keys_from_settings (Some (ws_stream_trades ws)) (Some (ws_stream_quotes ws))
          (Some (ws_stream_bars ws)))"

definition live_market_data_redis_worker :: "feed_env \<Rightarrow> cfg \<Rightarrow> worker_settings option \<Rightarrow> string \<Rightarrow> nat \<Rightarrow> feed_exit fd" where
  "live_market_data_redis_worker v c settings unique fuel =
     (case settings of
        None \<Rightarrow> act_ret FeedEnded
      | Some ws \<Rightarrow>
          if py_strip (ws_redis_url ws) = [] \<or> live_stream_bases ws = [] then act_ret FeedEnded
          else act_bind (live_partition_scope c (ws_partitions ws)) (\<lambda>scope.
            case scope of
              None \<Rightarrow> act_ret FeedEnded
            | Some (symbol, k) \<Rightarrow>
                act_bind (act_of (expand_market_data_stream_keys (live_stream_bases ws) (ws_partitions ws) [symbol])) (\<lambda>names.
                  if names = [] then act_ret FeedEnded
                  else act_then (feed_log ''step_worker_thread_ingress'')
                    (run_market_data_redis_loop v (live_plan v c ws unique symbol names) fuel))))"

definition portfolio_update_redis_worker :: "feed_env \<Rightarrow> cfg \<Rightarrow> worker_settings option \<Rightarrow> nat \<Rightarrow> feed_exit fd" where
  "portfolio_update_redis_worker v c settings fuel =
     (case settings of
        None \<Rightarrow> act_ret FeedEnded
      | Some ws \<Rightarrow>
          (let job_id = py_strip (or_empty (ls_job_id (cfg_spec c)));
               own = py_strip (ws_portfolio_url ws);
               url = (if own = [] then py_strip (ws_redis_url ws) else own)
           in if job_id = [] \<or> url = [] then act_ret FeedEnded
              else act_bind (act_of (portfolio_update_partition job_id (ws_partitions ws))) (\<lambda>k.
                run_portfolio_update_pubsub_loop v
                  (portfolio_update_channel (Some (py_strip (if ws_portfolio_prefix ws = [] then ''portfolio:update''
                     else ws_portfolio_prefix ws))) k)
                  job_id fuel)))"

section \<open>Which streams a worker reads\<close>

lemma timeframe_again: "timeframe_or_1m (Some (timeframe_or_1m tf)) = timeframe_or_1m tf"
proof -
  have "py_strip ''1m'' = ''1m''" by code_simp
  then show ?thesis by (auto simp: timeframe_or_1m_def Let_def split: option.split)
qed

lemma constant_keys:
  "market_data_redis_keys_from_settings (Some ''md:stream:trades'') (Some ''md:stream:quotes'') (Some ''md:stream:am'') =
   default_market_data_redis_keys"
  by code_simp

lemma bars_only:
  "resolve_stream_names [''bars''] (Some tf) default_market_data_redis_keys =
   (if redis_md_stream_am_supports_timeframe (timeframe_or_1m (Some tf)) then [''md:stream:am''] else [])"
proof -
  have "py_lower (py_strip ''bars'') = ''bars''" "feed_to_stream default_market_data_redis_keys ''bars'' = Some ''md:stream:am''"
    by code_simp+
  then show ?thesis by (simp add: resolve_stream_names_def)
qed

text \<open>
  C24: with the constants of the module in force a live worker reads one stream, the partition of its symbol
  among 128 of the one-minute bars, from its end on; with another bar time frame it reads nothing.
\<close>

theorem live_feed_reads_one_stream:
  assumes "settings_from_prepared w fs base_dir banner env_only label data s = (Inr ws, s')"
    and "use_module_connectivity_settings (environ_of s)"
    and "py_strip (ws_redis_url ws) \<noteq> []" and "paper_live_symbol c = Some t"
  shows "if redis_md_stream_am_supports_timeframe (timeframe_or_1m (Some (ws_bar_timeframe ws)))
    then \<exists>k plan. market_data_partition t 128 = Inr k \<and> 0 \<le> k \<and> k < 128 \<and>
      fp_streams plan = [partition_key ''md:stream:am'' k] \<and> fp_start plan = ''$'' \<and> fp_symbol plan = Some t \<and>
      fp_use_group plan = ws_consumer_group ws \<and>
      live_market_data_redis_worker v c (Some ws) unique fuel =
        act_then (feed_print (''[market-data-redis] XREAD BLOCK 0 on partition '' @ int_str k))
          (act_then (feed_log ''step_worker_thread_ingress'') (run_market_data_redis_loop v plan fuel))
    else live_market_data_redis_worker v c (Some ws) unique fuel = act_ret FeedEnded"
proof -
  note pinned = module_connectivity_wins [OF assms(1,2)]
  have bases: "live_stream_bases ws =
      (if redis_md_stream_am_supports_timeframe (timeframe_or_1m (Some (ws_bar_timeframe ws))) then [''md:stream:am''] else [])"
    using pinned by (simp add: live_stream_bases_def constant_keys bars_only timeframe_again)
  show ?thesis
  proof (cases "redis_md_stream_am_supports_timeframe (timeframe_or_1m (Some (ws_bar_timeframe ws)))")
    case True
    obtain k where k: "market_data_partition t 128 = Inr k" "0 \<le> k" "k < 128"
      "expand_market_data_stream_keys [''md:stream:am''] 128 [t] = Inr [partition_key ''md:stream:am'' k]"
      using single_symbol_stream_keys [of 128 t "[''md:stream:am'']"] by auto
    let ?plan = "live_plan v c ws unique t [partition_key ''md:stream:am'' k]"
    have "live_market_data_redis_worker v c (Some ws) unique fuel =
        act_then (feed_print (''[market-data-redis] XREAD BLOCK 0 on partition '' @ int_str k))
          (act_then (feed_log ''step_worker_thread_ingress'') (run_market_data_redis_loop v ?plan fuel))"
      using pinned bases True assms(3,4) k(1,4)
      by (simp add: live_market_data_redis_worker_def live_partition_scope_def fun_eq_iff act_run feed_print_def note_run)
    moreover have "fp_streams ?plan = [partition_key ''md:stream:am'' k] \<and> fp_start ?plan = ''$'' \<and> fp_symbol ?plan = Some t \<and>
        fp_use_group ?plan = ws_consumer_group ws"
      using pinned by (simp add: live_plan_def)
    ultimately show ?thesis using True k(1,2,3) by (auto intro!: exI [of _ k] exI [of _ ?plan])
  next
    case False
    then show ?thesis using bases by (simp add: live_market_data_redis_worker_def)
  qed
qed

section \<open>A worker on concrete inputs\<close>

definition live_state :: conf_state where
  "live_state = \<lparr>cs_environ = [(''RUNTIME_ID'', ''rt''), (''SWR_MARKET_DATA_REDIS_URL'', ''redis'')], cs_effects = []\<rparr>"

definition symbol_cfg :: cfg where
  "symbol_cfg = sample_cfg\<lparr>cfg_payload := [(''parameters'', VDict [(''symbol'', VStr ''AAPL'')])]\<rparr>"

text \<open>Values the constants leave alone come from environment and bundle.\<close>

lemma tuned_text:
  assumes "extract_runtime_tuning z = Inr t" and "dict_get (tuning_texts_of z) k = Some v"
    and "k \<notin> fst ` set module_connectivity"
  shows "get_or_none (apply_module_connectivity_settings os t) k = v"
proof -
  have "dict_get (rev module_connectivity) k = None" using assms(3) by (simp add: dict_get_def map_of_eq_None_iff)
  moreover have "dict_get t k = Some v"
    using assms(1,2) by (auto simp: extract_runtime_tuning_def dict_get_append split: sum.splits dest!: rbind_eq_Inr [THEN iffD1])
  ultimately show ?thesis
    by (simp add: apply_module_connectivity_settings_def get_or_none_def dict_get_overlaid)
qed

lemma made_texts:
  assumes "settings_from_prepared w fs base_dir banner env_only label data s = (Inr ws, s')"
  shows "ws_redis_url ws = conf_text (source_of w (environ_of s) env_only data) ''SWR_MARKET_DATA_REDIS_URL''
      ''market_data_redis_url'' []"
    and "ws_bar_timeframe ws = effective_bar_timeframe (se_conf w) data"
proof -
  let ?z = "source_of w (environ_of s) env_only data"
  obtain t raw spec pages where t: "extract_runtime_tuning ?z = Inr t"
    and ws: "ws = make_settings (se_conf w) (environ_of s) base_dir data raw
      (apply_module_connectivity_settings (environ_of s) t) spec pages"
    using assms by (rule made_settings)
  have "get_or_none (apply_module_connectivity_settings (environ_of s) t) ''market_data_redis_url'' =
      VStr (conf_text ?z ''SWR_MARKET_DATA_REDIS_URL'' ''market_data_redis_url'' [])"
    by (rule tuned_text [OF t]) (simp_all add: tuning_texts_of_def module_connectivity_def)
  then show "ws_redis_url ws = conf_text ?z ''SWR_MARKET_DATA_REDIS_URL'' ''market_data_redis_url'' []"
    by (simp add: ws make_settings_def Let_def text_at_def)
  have "get_or_none (apply_module_connectivity_settings (environ_of s) t) ''replay_bar_timeframe'' =
      VStr (effective_bar_timeframe (se_conf w) data)"
    by (rule tuned_text [OF t]) (simp_all add: tuning_texts_of_def module_connectivity_def source_of_def)
  then show "ws_bar_timeframe ws = effective_bar_timeframe (se_conf w) data"
    by (simp add: ws make_settings_def Let_def text_at_def)
qed

lemma live_numbers: "\<not> isl (numbers_of (source_of bare_env (environ_of live_state) False served_bundle))"
  by code_simp

lemma live_settings:
  "\<exists>ws. settings_from_prepared bare_env [] [] False False [] served_bundle live_state = (Inr ws, live_state)"
proof -
  have "se_conf bare_env = bare_conf" by (simp add: se_conf_def bare_env_def)
  moreover obtain spec numbers pages where
    "from_payload (VDict (rl_payload (raw_dict_to_launch_payload bare_conf [] [] served_bundle))) = Inr spec"
    "numbers_of (source_of bare_env (environ_of live_state) False served_bundle) = Inr numbers"
    "page_size bare_conf served_bundle = Inr pages"
    using served_payload live_numbers served_pages by (metis sum.collapse(2))
  ultimately show ?thesis
    by (simp add: settings_from_prepared_def extract_runtime_tuning_def source_of_def act_run Let_def)
qed

theorem live_feed_reads_one_stream_witness:
  "\<exists>ws s' k plan. settings_from_prepared bare_env [] [] False False [] served_bundle live_state = (Inr ws, s') \<and>
     fp_streams plan = [partition_key ''md:stream:am'' k] \<and>
     live_market_data_redis_worker two_env symbol_cfg (Some ws) ''1-a'' 30 =
       act_then (feed_print (''[market-data-redis] XREAD BLOCK 0 on partition '' @ int_str k))
         (act_then (feed_log ''step_worker_thread_ingress'') (run_market_data_redis_loop two_env plan 30))"
proof -
  obtain ws where made: "settings_from_prepared bare_env [] [] False False [] served_bundle live_state = (Inr ws, live_state)"
    using live_settings by blast
  have "py_strip (conf_text (source_of bare_env (environ_of live_state) False served_bundle) ''SWR_MARKET_DATA_REDIS_URL''
      ''market_data_redis_url'' []) \<noteq> []"
    by code_simp
  then have url: "py_strip (ws_redis_url ws) \<noteq> []" by (simp only: made_texts(1) [OF made] not_False_eq_True)
  have "redis_md_stream_am_supports_timeframe (timeframe_or_1m (Some (effective_bar_timeframe (se_conf bare_env) served_bundle)))"
    by code_simp
  then have tf: "redis_md_stream_am_supports_timeframe (timeframe_or_1m (Some (ws_bar_timeframe ws)))"
    by (simp only: made_texts(2) [OF made])
  have "use_module_connectivity_settings (environ_of live_state)" "paper_live_symbol symbol_cfg = Some ''AAPL''" by code_simp+
  then show ?thesis
    using live_feed_reads_one_stream [OF made _ url, of symbol_cfg "''AAPL''" two_env "''1-a''" 30] tf made by auto
qed
end
