(* ===== verification/Spec2Isabelle.thy ===== *)
theory Spec2Isabelle
  imports WorkerApp ManagerGateway Journal RiskClient ContextProps BootstrapProps FeedThreads
begin

text \<open>
  \<^bold>\<open>A verification development for the strategy worker runtime\<close> (Python, \<open>src/runtime\<close>).

  A worker is a process that runs exactly one trading strategy under one launch attempt. It reads its
  launch specification, builds the dependencies its mode (BACKTEST, PAPER, LIVE) allows, loads the
  strategy, feeds it market data or a historical replay, sends the orders of the strategy to the order
  management service, reports its state to the runtime manager, keeps a journal, and stops when an
  operator, a signal, an error or the end of its data asks for it.

  \<^bold>\<open>How the parts interact.\<close> \<open>main\<close> hands the service of \<open>application/lifecycle_service.py\<close> to three kinds
  of threads: the main thread of \<open>worker_app.py\<close>, which starts it and then polls it; the control threads
  (HTTP stop server, SIGTERM handler, coordinator of \<open>cooperative_shutdown.py\<close>), which ask it to stop;
  the data threads (historical driver, Redis feeds), which hand it ticks. The service holds all state; it
  calls the strategy through \<open>StrategyAdapter\<close>, the manager through \<open>ManagerGateway\<close> and the status
  reporter, the database through \<open>RuntimeJournalSink\<close>. A strategy reaches the outside only by the contexts
  it is given, and its orders go through \<open>SdkOrderIntentSubmission\<close>, \<open>OmsGateway\<close> and the gRPC client.

  \<^bold>\<open>How code becomes definitions.\<close> A Python class is a \<open>record\<close> or a \<open>datatype\<close>, an enum a \<open>datatype\<close> with
  a function to its wire text; a value of unknown type is a \<open>pyval\<close>, a dictionary an association list that
  keeps the order of insertion (\<open>pydict\<close>). A function that may raise answers \<open>py_exc + 'a\<close>. Code that
  changes state is an action, \<open>'s \<Rightarrow> (py_exc + 'a) \<times> 's\<close>, with the combinators of theory \<open>Action\<close>: an
  exception keeps the changes made before it, as in Python. Calls to the outside (log, manager, OMS,
  strategy, sleeping) are recorded in a trace of the state in the order of the code, and their answers are
  asked of an environment argument that may depend on the trace so far: every theorem therefore holds for all
  behaviours of the outside, failures included. Integers are unbounded, as in Python; floats are the
  decimal or rational value they stand for, and what the code prints of them is left to an argument.

  \<^bold>\<open>Theories, sources and lemmas.\<close>

  \<^item> \<open>Py_Prelude\<close>, \<open>PyText\<close>, \<open>PyDecimal\<close>, \<open>Action\<close>: Python values, \<open>strip/lower/upper\<close>, dictionaries,
    numerals, JSON text, \<open>decimal.Decimal\<close>, actions. The locale \<open>step_order\<close> of \<open>Action\<close> is the shared
    way to prove that an operation only moves the state along a preorder; it is interpreted for the
    heartbeat order of the store, the rows of other runtimes in the journal, the phases and flags of the
    lifecycle, the silence after a stop and the events a replay delivers.
  \<^item> \<open>Enums\<close>, \<open>Errors\<close>, \<open>RuntimeState\<close>, \<open>ModePolicy\<close>, \<open>Identity\<close>, \<open>LaunchSpec\<close>: \<open>domain/\<close>, \<open>mode_policy.py\<close>,
    \<open>clock.py\<close>, \<open>launch_spec.py\<close>, \<open>validator.py\<close>. Enum texts are injective and read back
    (locale \<open>str_enum\<close>); status updates keep state and reason consistent; terminal phases are closed in
    the validated graph; a launch payload is accepted exactly under its field conditions; the first
    payload of an attempt wins.
  \<^item> \<open>SrmStatus\<close>: \<open>transport/heartbeat.py\<close>, \<open>srm_env_status_report.py\<close>, \<open>minimal_env_validation.py\<close>: which status
    report a start, a failure and each shutdown reason makes.
  \<^item> \<open>Lifecycle\<close>, \<open>LifecycleOps\<close>: \<open>lifecycle_service.py\<close>, state \<open>svc\<close>, first the parts, then \<open>start\<close>, \<open>stop\<close>,
    \<open>run\<close>. \<open>LifecycleSpec\<close> states the abstract start and stop as lists of milestones (steps, calls, signals with
    the phase they report, phase messages) and flags and proves that the code's operations refine them
    (abstraction \<open>abs\<close>, which keeps the order of the trace); \<open>LifecycleProps\<close> quantifies over arbitrary sequences
    of operations (\<open>lc_op\<close>): one stop is accepted and its reason
    is the one told, no heartbeat after it, stop survives best-effort failures.
  \<^item> \<open>Dependencies\<close>, \<open>Replay\<close>, \<open>HistoricalDriver\<close>: \<open>runtime/dependencies.py\<close>, \<open>replay_gateway.py\<close>, the data side of
    the lifecycle service: which events of a pushed batch reach the strategy, when a live tick does,
    and that the historical driver replays every page once in cursor order; a driver stopped at the head of
    its page loop (\<open>Interrupted\<close>) also marks the replay complete, as the code does.
  \<^item> \<open>InternalAuth\<close>, \<open>Shutdown\<close>, \<open>WorkerApp\<close>: \<open>transport/internal/auth.py\<close>, \<open>cooperative_shutdown.py\<close>,
    \<open>stop_control_server.py\<close>, \<open>worker_control_application.py\<close>, \<open>worker_app.py\<close>: an inductive step relation over
    the instructions of the control threads; all interleavings start at most one shutdown thread;
    the main thread returns from a stopped worker.
  \<^item> \<open>EventMapper\<close>, \<open>StrategyAdapter\<close>, \<open>MarketData\<close>: \<open>event_mapper.py\<close>, \<open>strategy_adapter.py\<close> with its error boundary,
    the messages of the Redis feeds: raw messages to typed events, exceptions of the strategy contained,
    stream partitions.
  \<^item> \<open>FeedLoops\<close>, \<open>FeedProps\<close>, \<open>FeedThreads\<close>: the loops of \<open>market_data_redis_feed.py\<close> and
    \<open>portfolio_redis_feed.py\<close> and the threads of the lifecycle service that enter them (state \<open>feed_state\<close>: trace,
    attempts, client): streams are read once and in order across lost connections, group entries
    acknowledged once, clients closed, and a feed that is stopped ends once its reads return.
  \<^item> \<open>ReplaySupport\<close>, \<open>StrategyContexts\<close>, \<open>ReplayBridge\<close>, \<open>BridgeProps\<close>, \<open>ContextProps\<close>: \<open>replay_runtime_support.py\<close>,
    \<open>strategy_contract/\<close>, \<open>replay_sdk_bridge.py\<close>: the state a strategy sees and the dispatch of events to its
    hooks. A hook is a program over the operations of its context (\<open>hook_prog\<close>), so a theorem about all
    hooks is one about all strategies: none can read market data later than the event it is called for,
    the data service represents the list of delivered values, parameters are resolved in their order of
    precedence, orders reach the submitter once and stamped with the simulated clock, balance messages are
    applied as a whole.
  \<^item> \<open>LifecycleEvents\<close>, \<open>ManagerGateway\<close>: \<open>events/\<close>, \<open>manager_gateway.py\<close>, \<open>transport/manager_client.py\<close>: the
    duplicate filter refines its specification over the full history; each signal is sent once.
  \<^item> \<open>WireTime\<close>, \<open>Store\<close>, \<open>BootstrapStore\<close>, \<open>Journal\<close>: \<open>persistence/\<close> and \<open>bootstrap/persistence.py\<close>: timestamps
    read back, the last heartbeat never goes back, the journal writes each record
    once under lock retries and faults, and only rows of its own runtime.
  \<^item> \<open>OrderIntent\<close>, \<open>OmsClient\<close>, \<open>OrderSubmission\<close>, \<open>RiskClient\<close>: \<open>domain/order_intent.py\<close>,
    \<open>transport/grpc/oms_client.py\<close>, \<open>oms_gateway.py\<close>, \<open>sdk_order_intent_submission.py\<close>, \<open>risk_hotpath_client.py\<close>: an
    accepted intent is well formed and reads back; what is printed is what is sent; submitting never
    raises and calls the service at most once.
  \<^item> \<open>FileTree\<close>, \<open>Artifacts\<close>, \<open>ArtifactProps\<close>, \<open>BundleDigest\<close>: \<open>artifact_fetcher.py\<close>, \<open>artifact_verifier.py\<close>, over a
    file tree with links resolved by an argument: extraction never leaves its directory, an artifact is
    accepted only with a checked digest where checking is on, the digest a bundle states of itself is the one verified, and what the checking at this commit amounts to.
  \<^item> \<open>Bootstrap\<close>, \<open>BootstrapProps\<close>: \<open>entrypoint_loader.py\<close>, \<open>sdk_contract_validator.py\<close> and the pipeline that runs
    and records them (state \<open>boot_state\<close>: files, \<open>sys.path\<close>, rows): a failure names its stage and is recorded
    once, an accepted strategy meets the contract, and \<open>sys.path\<close> is restored.
  \<^item> \<open>BundleSettings\<close>, \<open>Deployment\<close>, \<open>Settings\<close>, \<open>SettingsProps\<close>: \<open>strategy_bundle_loader.py\<close>,
    \<open>deployment_runtime_context_bootstrap.py\<close>, \<open>config/settings.py\<close>: from environment, \<open>.env\<close>, deployment service or
    bundle file to the launch payload and the record of settings: the identity a deployment launches
    with, numbers within their bounds, which source wins, and a \<open>.env\<close> file that only completes the environment.

  \<^bold>\<open>Bounds and fuel.\<close> The loops of the code that need not end run on fuel: the historical driver (one unit per
  query), the feeds (one unit per read), the polling of the main thread (one unit per sleep) and the lock
  retries of the journal, whose bound is the code's own constant. \<open>OutOfFuel\<close> is a run that has not ended; the theorems say what holds when it has
  ended and, separately, when it does end (\<open>feeds_end\<close>, \<open>completed_backtest_ends\<close>, one unit of fuel per turn
  or poll being enough for both). A read of a feed that has not returned uses fuel without looking at the stop
  event, as Redis' \<open>BLOCK 0\<close> does. All other recursion is structural or has a termination proof.

  \<^bold>\<open>Arguments of the model.\<close> Code outside \<open>src\<close> is never given an invented definition: the strategy and
  the SDK classes, Redis, the database driver's faults, the HTTP exchange, the generated gRPC stubs, SHA-256, random ids,
  the wall clock and the JSON text of a payload are arguments, with the few documented laws a theorem needs
  as hypotheses (a digest is injective on the texts at hand, a stub answers or raises) and a witness.

  \<^bold>\<open>Not modelled.\<close> The process start of mypy; generated protobuf code and the gRPC plumbing around it; the
  process entry point; logging, metrics and tracing output beyond the events the lifecycle emits; the
  migration runner. These are calls into libraries and the network with little state of their own.
\<close>

end
